(* ===== verification/Rstp_Prelude.thy ===== *)
theory Rstp_Prelude
  imports Main "HOL-Library.Word" "HOL-Library.Monad_Syntax"
begin

text \<open>
  Shared vocabulary of the development: the C integer types of the target (a big-endian
  32-bit MIPS, \<^verbatim>\<open>CROSS_COMPILE = mips-linux-uclibc-\<close>), the byte-order helpers and the
  \<^verbatim>\<open>memcmp\<close> of its C library, updates of one element of a list (the linked lists of the
  source are HOL lists, a pointer into one is a position), and the collections of rewrite
  rules that the component proofs use.
\<close>

unbundle bit_operations_syntax

named_theorems mach_defs \<open>definitions of the entry actions and transition conditions of the state machines\<close>
named_theorems frame_simps \<open>which operation leaves which part of the state alone\<close>

type_synonym u8 = "8 word"
type_synonym u16 = "16 word"
type_synonym u32 = "32 word"

subsection \<open>Bytes of the big-endian target\<close>

text \<open>\<^verbatim>\<open>memcpy\<close> of a 16 or 32 bit integer to and from an array of bytes.\<close>

definition store16 :: "u16 \<Rightarrow> u8 list" where
  "store16 x = [ucast (drop_bit 8 x), ucast x]"

definition load16 :: "u8 list \<Rightarrow> u16" where
  "load16 bs = (push_bit 8 (ucast (bs ! 0)) OR ucast (bs ! 1))"

definition store32 :: "u32 \<Rightarrow> u8 list" where
  "store32 x = [ucast (drop_bit 24 x), ucast (drop_bit 16 x), ucast (drop_bit 8 x), ucast x]"

definition load32 :: "u8 list \<Rightarrow> u32" where
  "load32 bs = (push_bit 24 (ucast (bs ! 0)) OR push_bit 16 (ucast (bs ! 1))
     OR push_bit 8 (ucast (bs ! 2)) OR ucast (bs ! 3))"

text \<open>The network byte order is the host's, so these four are the identity on the target.\<close>

definition htons :: "u16 \<Rightarrow> u16" where "htons x = x"
definition ntohs :: "u16 \<Rightarrow> u16" where "ntohs x = x"
definition htonl :: "u32 \<Rightarrow> u32" where "htonl x = x"
definition ntohl :: "u32 \<Rightarrow> u32" where "ntohl x = x"

lemmas byte_order = htons_def ntohs_def htonl_def ntohl_def

lemma length_store16 [simp]: "length (store16 x) = 2"
  by (simp add: store16_def)

lemma length_store32 [simp]: "length (store32 x) = 4"
  by (simp add: store32_def)

lemma load16_store16 [simp]: "load16 (store16 x @ ys) = x"
  by (rule bit_word_eqI)
     (auto simp: load16_def store16_def bit_simps)

lemma load32_store32 [simp]: "load32 (store32 x) = x"
proof (rule bit_word_eqI)
  fix n assume n: "n < LENGTH(32)"
  consider "n < 8" | "8 \<le> n" "n < 16" | "16 \<le> n" "n < 24" | "24 \<le> n" "n < 32"
    using n by force
  then show "bit (load32 (store32 x)) n = bit x n"
    by cases (auto simp: load32_def store32_def bit_simps)
qed

lemma load16_store16_exact [simp]: "load16 (store16 x) = x"
  using load16_store16 [of x "[]"] by simp

lemma store16_inj [simp]: "store16 x = store16 y \<longleftrightarrow> x = y"
  by (metis load16_store16_exact)

subsection \<open>memcmp\<close>

text \<open>
  The first \<open>n\<close> bytes are compared as unsigned values; the result is the difference of the
  first pair that differs. (Only its sign is used by the callers.)
\<close>

fun memcmp :: "u8 list \<Rightarrow> u8 list \<Rightarrow> nat \<Rightarrow> int" where
  "memcmp (a # as) (b # bs) (Suc n) =
     (if a = b then memcmp as bs n else uint a - uint b)"
| "memcmp _ _ _ = 0"

lemma memcmp_refl [simp]: "memcmp as as n = 0"
proof (induction n arbitrary: as)
  case (Suc n)
  then show ?case by (cases as) auto
qed simp

lemma memcmp_eq_0:
  "length as = n \<Longrightarrow> length bs = n \<Longrightarrow> memcmp as bs n = 0 \<longleftrightarrow> as = bs"
  by (induction as bs n rule: memcmp.induct) (auto simp: word_uint_eq_iff)

lemma memcmp_antisym: "memcmp bs as n = - memcmp as bs n"
  by (induction as bs n rule: memcmp.induct) (auto split: list.split nat.split)

lemma memcmp_trans:
  "length as = n \<Longrightarrow> length bs = n \<Longrightarrow> length cs = n \<Longrightarrow>
   memcmp as bs n \<le> 0 \<Longrightarrow> memcmp bs cs n \<le> 0 \<Longrightarrow> memcmp as cs n \<le> 0"
proof (induction as bs n arbitrary: cs rule: memcmp.induct)
  case (1 a as b bs n)
  then obtain c cs' where cs: "cs = c # cs'" by (cases cs) auto
  show ?case using 1 cs by (auto split: if_splits simp: word_uint_eq_iff)
qed auto

subsection \<open>Updating one element\<close>

definition upd_at :: "nat \<Rightarrow> ('a \<Rightarrow> 'a) \<Rightarrow> 'a list \<Rightarrow> 'a list" where
  "upd_at i f xs = (if i < length xs then xs[i := f (xs ! i)] else xs)"

lemma length_upd_at [simp]: "length (upd_at i f xs) = length xs"
  by (simp add: upd_at_def)

lemma nth_upd_at: "j < length xs \<Longrightarrow> upd_at i f xs ! j = (if i = j then f (xs ! j) else xs ! j)"
  by (auto simp: upd_at_def)

lemma upd_at_same [simp]: "i < length xs \<Longrightarrow> upd_at i f xs ! i = f (xs ! i)"
  by (simp add: upd_at_def)

lemma upd_at_other [simp]: "i \<noteq> j \<Longrightarrow> upd_at i f xs ! j = xs ! j"
  by (simp add: upd_at_def)

lemma upd_at_upd_at [simp]: "upd_at i f (upd_at i g xs) = upd_at i (f \<circ> g) xs"
  by (simp add: upd_at_def)

lemma upd_at_id: "(\<And>x. x \<in> set xs \<Longrightarrow> f x = x) \<Longrightarrow> upd_at i f xs = xs"
  by (simp add: upd_at_def)

lemma set_upd_at: "x \<in> set (upd_at i f xs) \<Longrightarrow>
    x \<in> set xs \<or> (i < length xs \<and> x = f (xs ! i))"
  by (auto simp: upd_at_def dest: subsetD [OF set_update_subset_insert] split: if_splits)

lemma map_upd_at: "(\<And>x. g (f x) = g x) \<Longrightarrow> map g (upd_at i f xs) = map g xs"
  by (simp add: upd_at_def map_update) (metis list_update_id map_update nth_map)

lemma ball_upd_at:
  "(\<And>x. x \<in> set xs \<Longrightarrow> P x \<Longrightarrow> P (f x)) \<Longrightarrow> \<forall>x\<in>set xs. P x \<Longrightarrow> \<forall>x\<in>set (upd_at i f xs). P x"
  by (auto dest!: set_upd_at)

text \<open>A number as \<^verbatim>\<open>printf\<close> writes it in decimal.\<close>

fun dec_digits :: "nat \<Rightarrow> string" where
  "dec_digits n = (if n < 10 then [char_of (48 + n)] else dec_digits (n div 10) @ [char_of (48 + n mod 10)])"

declare dec_digits.simps [simp del]

end
