(* ===== verification/Rstp_Bpdu.thy ===== *)
theory Rstp_Bpdu
  imports Rstp_Prelude
begin

text \<open>
  The frame formats of \<^verbatim>\<open>rstp/h/rstp_bpdu.h\<close>: the packed structs as records of byte arrays,
  the constants of the header fields, and the memory image of a BPDU (the structs are packed,
  so the image is the concatenation of the fields). \<^verbatim>\<open>BPDU_T\<close> and the transmit side's
  \<^verbatim>\<open>RSTP_BPDU_T\<close> have the same fields in the same order and share one record here.
\<close>

definition MIN_BPDU :: u16 where "MIN_BPDU = 7"
definition BPDU_L_SAP :: u8 where "BPDU_L_SAP = 0x42"
definition LLC_UI :: u8 where "LLC_UI = 0x03"
definition BPDU_VERSION_ID :: u8 where "BPDU_VERSION_ID = 0x00"
definition BPDU_VERSION_RAPID_ID :: u8 where "BPDU_VERSION_RAPID_ID = 0x02"
definition BPDU_TOPO_CHANGE_TYPE :: u8 where "BPDU_TOPO_CHANGE_TYPE = 0x80"
definition BPDU_CONFIG_TYPE :: u8 where "BPDU_CONFIG_TYPE = 0x00"
definition BPDU_RSTP :: u8 where "BPDU_RSTP = 0x02"

definition TOLPLOGY_CHANGE_BIT :: u8 where "TOLPLOGY_CHANGE_BIT = 0x01"
definition PROPOSAL_BIT :: u8 where "PROPOSAL_BIT = 0x02"
definition PORT_ROLE_OFFS :: nat where "PORT_ROLE_OFFS = 2"
definition PORT_ROLE_MASK :: u8 where "PORT_ROLE_MASK = push_bit PORT_ROLE_OFFS 0x03"
definition LEARN_BIT :: u8 where "LEARN_BIT = 0x10"
definition FORWARD_BIT :: u8 where "FORWARD_BIT = 0x20"
definition AGREEMENT_BIT :: u8 where "AGREEMENT_BIT = 0x40"
definition TOLPLOGY_CHANGE_ACK_BIT :: u8 where "TOLPLOGY_CHANGE_ACK_BIT = 0x80"

definition RSTP_PORT_ROLE_UNKN :: u8 where "RSTP_PORT_ROLE_UNKN = 0x00"
definition RSTP_PORT_ROLE_ALTBACK :: u8 where "RSTP_PORT_ROLE_ALTBACK = 0x01"
definition RSTP_PORT_ROLE_ROOT :: u8 where "RSTP_PORT_ROLE_ROOT = 0x02"
definition RSTP_PORT_ROLE_DESGN :: u8 where "RSTP_PORT_ROLE_DESGN = 0x03"

lemmas bpdu_consts =
  MIN_BPDU_def BPDU_L_SAP_def LLC_UI_def BPDU_VERSION_ID_def BPDU_VERSION_RAPID_ID_def
  BPDU_TOPO_CHANGE_TYPE_def BPDU_CONFIG_TYPE_def BPDU_RSTP_def
  TOLPLOGY_CHANGE_BIT_def PROPOSAL_BIT_def PORT_ROLE_OFFS_def PORT_ROLE_MASK_def LEARN_BIT_def
  FORWARD_BIT_def AGREEMENT_BIT_def TOLPLOGY_CHANGE_ACK_BIT_def
  RSTP_PORT_ROLE_UNKN_def RSTP_PORT_ROLE_ALTBACK_def RSTP_PORT_ROLE_ROOT_def
  RSTP_PORT_ROLE_DESGN_def

record mac_header_t =
  dst_mac :: "u8 list"
  src_mac :: "u8 list"

record eth_header_t =
  len8023 :: "u8 list"
  dsap :: u8
  ssap :: u8
  llc :: u8

record bpdu_header_t =
  protocol :: u16
  version :: u8
  bpdu_type :: u8

record bpdu_body_t =
  flags :: u8
  root_id :: "u8 list"
  body_root_path_cost :: "u8 list"
  body_bridge_id :: "u8 list"
  body_port_id :: "u8 list"
  message_age :: "u8 list"
  max_age :: "u8 list"
  hello_time :: "u8 list"
  forward_delay :: "u8 list"

record stp_bpdu_t =
  mac :: mac_header_t
  eth :: eth_header_t
  hdr :: bpdu_header_t
  body :: bpdu_body_t
  ver_1_len :: "u8 list"

text \<open>Well-formedness: the arrays have the sizes the structs declare.\<close>

definition wf_body :: "bpdu_body_t \<Rightarrow> bool" where
  "wf_body b \<longleftrightarrow> length (root_id b) = 8 \<and> length (body_root_path_cost b) = 4
     \<and> length (body_bridge_id b) = 8 \<and> length (body_port_id b) = 2
     \<and> length (message_age b) = 2 \<and> length (max_age b) = 2
     \<and> length (hello_time b) = 2 \<and> length (forward_delay b) = 2"

definition wf_bpdu :: "stp_bpdu_t \<Rightarrow> bool" where
  "wf_bpdu p \<longleftrightarrow> length (dst_mac (mac p)) = 6 \<and> length (src_mac (mac p)) = 6
     \<and> length (len8023 (eth p)) = 2 \<and> wf_body (body p) \<and> length (ver_1_len p) = 2"

text \<open>\<^verbatim>\<open>sizeof\<close> of the packed structs.\<close>

definition sizeof_BPDU_HEADER_T :: nat where "sizeof_BPDU_HEADER_T = 4"
definition sizeof_BPDU_BODY_T :: nat where "sizeof_BPDU_BODY_T = 31"
definition sizeof_BPDU_T :: nat where "sizeof_BPDU_T = 54"

lemmas sizeof_defs = sizeof_BPDU_HEADER_T_def sizeof_BPDU_BODY_T_def sizeof_BPDU_T_def

definition body_bytes :: "bpdu_body_t \<Rightarrow> u8 list" where
  "body_bytes b = [flags b] @ root_id b @ body_root_path_cost b @ body_bridge_id b
     @ body_port_id b @ message_age b @ max_age b @ hello_time b @ forward_delay b"

definition bpdu_bytes :: "stp_bpdu_t \<Rightarrow> u8 list" where
  "bpdu_bytes p = dst_mac (mac p) @ src_mac (mac p)
     @ len8023 (eth p) @ [dsap (eth p), ssap (eth p), llc (eth p)]
     @ store16 (protocol (hdr p)) @ [version (hdr p), bpdu_type (hdr p)]
     @ body_bytes (body p) @ ver_1_len p"

text \<open>Reading a byte buffer through a \<^verbatim>\<open>BPDU_T*\<close>.\<close>

definition slice :: "nat \<Rightarrow> nat \<Rightarrow> 'a list \<Rightarrow> 'a list" where
  "slice off n bs = take n (drop off bs)"

definition body_of_bytes :: "u8 list \<Rightarrow> bpdu_body_t" where
  "body_of_bytes bs = \<lparr> flags = bs ! 0, root_id = slice 1 8 bs, body_root_path_cost = slice 9 4 bs,
     body_bridge_id = slice 13 8 bs, body_port_id = slice 21 2 bs, message_age = slice 23 2 bs,
     max_age = slice 25 2 bs, hello_time = slice 27 2 bs, forward_delay = slice 29 2 bs \<rparr>"

definition bpdu_of_bytes :: "u8 list \<Rightarrow> stp_bpdu_t" where
  "bpdu_of_bytes bs =
     \<lparr> mac = \<lparr> dst_mac = slice 0 6 bs, src_mac = slice 6 6 bs \<rparr>,
       eth = \<lparr> len8023 = slice 12 2 bs, dsap = bs ! 14, ssap = bs ! 15, llc = bs ! 16 \<rparr>,
       hdr = \<lparr> protocol = load16 (slice 17 2 bs), version = bs ! 19, bpdu_type = bs ! 20 \<rparr>,
       body = body_of_bytes (slice 21 31 bs), ver_1_len = slice 52 2 bs \<rparr>"

lemma length_body_bytes: "wf_body b \<Longrightarrow> length (body_bytes b) = sizeof_BPDU_BODY_T"
  by (simp add: wf_body_def body_bytes_def sizeof_BPDU_BODY_T_def)

lemma length_bpdu_bytes: "wf_bpdu p \<Longrightarrow> length (bpdu_bytes p) = sizeof_BPDU_T"
  using length_body_bytes [of "body p"]
  by (simp add: wf_bpdu_def bpdu_bytes_def sizeof_defs)

lemma body_of_body_bytes: "wf_body b \<Longrightarrow> body_of_bytes (body_bytes b) = b"
  by (simp add: wf_body_def body_bytes_def body_of_bytes_def slice_def)

lemma wf_bpdu_of_bytes: "sizeof_BPDU_T \<le> length bs \<Longrightarrow> wf_bpdu (bpdu_of_bytes bs)"
  by (simp add: wf_bpdu_def bpdu_of_bytes_def wf_body_def body_of_bytes_def slice_def sizeof_defs)

text \<open>The memory image determines the BPDU, whatever follows it in memory.\<close>

lemma bpdu_of_bpdu_bytes:
  assumes "wf_bpdu p"
  shows "bpdu_of_bytes (bpdu_bytes p @ rest) = p"
proof -
  have lens: "length (dst_mac (mac p)) = 6" "length (src_mac (mac p)) = 6"
      "length (len8023 (eth p)) = 2" "length (ver_1_len p) = 2"
      "length (body_bytes (body p)) = 31" "wf_body (body p)"
    using assms length_body_bytes [of "body p"] by (simp_all add: wf_bpdu_def sizeof_defs)
  then show ?thesis
    by (simp add: bpdu_of_bytes_def bpdu_bytes_def slice_def nth_append body_of_body_bytes)
qed

end
