(* ===== verification/Rstp_Vector.thy ===== *)
theory Rstp_Vector
  imports Rstp_Bpdu "HOL-Library.Product_Lexorder" "HOL-Library.List_Lexorder"
begin

text \<open>
  Priority vectors (\<^verbatim>\<open>rstp/h/rstp_vector.h\<close>, \<^verbatim>\<open>rstp/src/rstp_vector.c\<close>): bridge identifiers,
  the comparison on which every role decision rests, and the encoding of a vector in a BPDU.
  The comparison is measured against the lexicographic order of 802.1D; the locale
  \<open>comparator\<close> states what its callers rely on.
\<close>

record bridge_id =
  prio :: u16
  addr :: "u8 list"

type_synonym port_id_t = u16

record prio_vector_t =
  root_bridge :: bridge_id
  root_path_cost :: u32
  design_bridge :: bridge_id
  design_port :: port_id_t
  bridge_port :: port_id_t

definition STP_VECT_compare_bridge_id :: "bridge_id \<Rightarrow> bridge_id \<Rightarrow> int" where
  "STP_VECT_compare_bridge_id b1 b2 =
     (if prio b1 < prio b2 then -1
      else if prio b1 > prio b2 then 1
      else memcmp (addr b1) (addr b2) 6)"

definition STP_VECT_copy :: "prio_vector_t \<Rightarrow> prio_vector_t \<Rightarrow> prio_vector_t" where
  "STP_VECT_copy t f = f"

definition STP_VECT_create ::
    "bridge_id \<Rightarrow> u32 \<Rightarrow> bridge_id \<Rightarrow> port_id_t \<Rightarrow> port_id_t \<Rightarrow> prio_vector_t" where
  "STP_VECT_create root_br cost dbridge dport bport =
     \<lparr> root_bridge = root_br, root_path_cost = cost, design_bridge = dbridge,
       design_port = dport, bridge_port = bport \<rparr>"

text \<open>
  The difference of two \<^verbatim>\<open>unsigned long\<close> costs is stored in an \<^verbatim>\<open>int\<close> (a wrapped, signed
  value); the port identifiers are promoted to \<^verbatim>\<open>int\<close> first, so their difference is exact.
\<close>

definition STP_VECT_compare_vector :: "prio_vector_t \<Rightarrow> prio_vector_t \<Rightarrow> int" where
  "STP_VECT_compare_vector v1 v2 =
     (let bridcmp = STP_VECT_compare_bridge_id (root_bridge v1) (root_bridge v2) in
      if bridcmp < 0 then bridcmp
      else if bridcmp = 0 then
        (let bridcmp = sint (root_path_cost v1 - root_path_cost v2) in
         if bridcmp < 0 then bridcmp
         else if bridcmp = 0 then
           (let bridcmp = STP_VECT_compare_bridge_id (design_bridge v1) (design_bridge v2) in
            if bridcmp < 0 then bridcmp
            else if bridcmp = 0 then
              (let bridcmp = uint (design_port v1) - uint (design_port v2) in
               if bridcmp < 0 then bridcmp
               else if bridcmp = 0 then uint (bridge_port v1) - uint (bridge_port v2)
               else bridcmp)
            else bridcmp)
         else bridcmp)
      else bridcmp)"

definition stp_vect_get_short :: "u8 list \<Rightarrow> u16" where
  "stp_vect_get_short f = ntohs (load16 f)"

definition stp_vect_set_short :: "u16 \<Rightarrow> u8 list" where
  "stp_vect_set_short f = (let mt = htons f in store16 mt)"

definition stp_vect_get_bridge_id :: "u8 list \<Rightarrow> bridge_id" where
  "stp_vect_get_bridge_id c_br = \<lparr> prio = stp_vect_get_short c_br, addr = take 6 (drop 2 c_br) \<rparr>"

definition stp_vect_set_bridge_id :: "bridge_id \<Rightarrow> u8 list" where
  "stp_vect_set_bridge_id b = stp_vect_set_short (prio b) @ take 6 (addr b)"

text \<open>\<open>v\<close> is the vector written to; its \<open>bridge_port\<close> is not assigned.\<close>

definition STP_VECT_get_vector :: "bpdu_body_t \<Rightarrow> prio_vector_t \<Rightarrow> prio_vector_t" where
  "STP_VECT_get_vector b v =
     v\<lparr> root_bridge := stp_vect_get_bridge_id (root_id b),
        root_path_cost := ntohl (load32 (body_root_path_cost b)),
        design_bridge := stp_vect_get_bridge_id (body_bridge_id b),
        design_port := stp_vect_get_short (body_port_id b) \<rparr>"

definition STP_VECT_set_vector :: "prio_vector_t \<Rightarrow> bpdu_body_t \<Rightarrow> bpdu_body_t" where
  "STP_VECT_set_vector v b =
     b\<lparr> root_id := stp_vect_set_bridge_id (root_bridge v),
        body_root_path_cost := store32 (htonl (root_path_cost v)),
        body_bridge_id := stp_vect_set_bridge_id (design_bridge v),
        body_port_id := stp_vect_set_short (design_port v) \<rparr>"

lemmas vect_codec = STP_VECT_get_vector_def STP_VECT_set_vector_def stp_vect_get_bridge_id_def
  stp_vect_set_bridge_id_def stp_vect_get_short_def stp_vect_set_short_def byte_order

subsection \<open>Well-formed identifiers and vectors\<close>

definition wf_bridge_id :: "bridge_id \<Rightarrow> bool" where
  "wf_bridge_id b \<longleftrightarrow> length (addr b) = 6"

definition wf_vector :: "prio_vector_t \<Rightarrow> bool" where
  "wf_vector v \<longleftrightarrow> wf_bridge_id (root_bridge v) \<and> wf_bridge_id (design_bridge v)"

text \<open>Root path costs below \<open>2\<^sup>3\<^sup>1\<close>, where the signed difference cannot overflow.\<close>

definition cost_in_range :: "prio_vector_t \<Rightarrow> bool" where
  "cost_in_range v \<longleftrightarrow> root_path_cost v < 0x80000000"

definition comparable :: "prio_vector_t \<Rightarrow> bool" where
  "comparable v \<longleftrightarrow> wf_vector v \<and> cost_in_range v"

subsection \<open>What a three-way comparison promises\<close>

locale comparator =
  fixes dom_ok :: "'a \<Rightarrow> bool" and cmp :: "'a \<Rightarrow> 'a \<Rightarrow> int"
  assumes cmp_eq: "dom_ok a \<Longrightarrow> dom_ok b \<Longrightarrow> cmp a b = 0 \<longleftrightarrow> a = b"
    and cmp_swap: "dom_ok a \<Longrightarrow> dom_ok b \<Longrightarrow> cmp b a < 0 \<longleftrightarrow> 0 < cmp a b"
    and cmp_trans: "dom_ok a \<Longrightarrow> dom_ok b \<Longrightarrow> dom_ok c \<Longrightarrow>
      cmp a b \<le> 0 \<Longrightarrow> cmp b c \<le> 0 \<Longrightarrow> cmp a c \<le> 0"
begin

lemma cmp_refl: "dom_ok a \<Longrightarrow> cmp a a = 0"
  by (simp add: cmp_eq)

lemma cmp_total: "dom_ok a \<Longrightarrow> dom_ok b \<Longrightarrow> cmp a b \<le> 0 \<or> cmp b a \<le> 0"
  using cmp_swap [of a b] by linarith

lemma cmp_antisym: "dom_ok a \<Longrightarrow> dom_ok b \<Longrightarrow> cmp a b \<le> 0 \<Longrightarrow> cmp b a \<le> 0 \<Longrightarrow> a = b"
  using cmp_swap [of b a] cmp_eq [of a b] by force

text \<open>Keeping the better of the current value and each candidate in turn selects a least one.\<close>

lemma fold_best_least:
  assumes "dom_ok b" "\<forall>x\<in>set xs. dom_ok x"
  defines "r \<equiv> fold (\<lambda>x best. if cmp x best < 0 then x else best) xs b"
  shows "r \<in> insert b (set xs) \<and> cmp r b \<le> 0 \<and> (\<forall>x\<in>set xs. cmp r x \<le> 0)"
  unfolding r_def using assms(1,2)
proof (induction xs arbitrary: b)
  case Nil
  then show ?case by (simp add: cmp_refl)
next
  case (Cons a xs)
  let ?b = "if cmp a b < 0 then a else b"
  let ?r = "fold (\<lambda>x best. if cmp x best < 0 then x else best) xs ?b"
  have ok: "dom_ok a" "dom_ok b" "dom_ok ?b" "\<forall>x\<in>set xs. dom_ok x"
    using Cons.prems by auto
  have ih: "?r \<in> insert ?b (set xs) \<and> cmp ?r ?b \<le> 0 \<and> (\<forall>x\<in>set xs. cmp ?r x \<le> 0)"
    using Cons.IH [OF ok(3,4)] .
  then have r_ok: "dom_ok ?r" using ok by auto
  have "cmp ?b b \<le> 0" "cmp ?b a \<le> 0"
    using ok cmp_refl [of a] cmp_refl [of b] cmp_swap [of b a] by auto
  then have "cmp ?r b \<le> 0" "cmp ?r a \<le> 0"
    using ih cmp_trans [OF r_ok ok(3)] ok by blast+
  then show ?case using ih by (auto split: if_splits)
qed

end

subsection \<open>The comparison is the lexicographic order\<close>

text \<open>The reference order: priorities, MAC bytes, costs and port numbers, compared in turn.\<close>

definition bridge_key :: "bridge_id \<Rightarrow> int \<times> int list" where
  "bridge_key b = (uint (prio b), map uint (addr b))"

definition vector_key ::
    "prio_vector_t \<Rightarrow> (int \<times> int list) \<times> int \<times> (int \<times> int list) \<times> int \<times> int" where
  "vector_key v = (bridge_key (root_bridge v), uint (root_path_cost v),
     bridge_key (design_bridge v), uint (design_port v), uint (bridge_port v))"

lemma memcmp_less:
  "length as = n \<Longrightarrow> length bs = n \<Longrightarrow> memcmp as bs n < 0 \<longleftrightarrow> map uint as < map uint bs"
  by (induction as bs n rule: memcmp.induct) (auto simp: word_uint_eq_iff)

lemma map_uint_eq [simp]: "map (uint :: 'a::len word \<Rightarrow> int) as = map uint bs \<longleftrightarrow> as = bs"
  by (rule inj_map_eq_map) (simp add: inj_def word_uint_eq_iff)

lemma bridge_key_eq [simp]: "bridge_key a = bridge_key b \<longleftrightarrow> a = b"
  by (cases a; cases b) (simp add: bridge_key_def word_uint_eq_iff)

lemma vector_key_eq [simp]: "vector_key a = vector_key b \<longleftrightarrow> a = b"
  by (cases a; cases b) (simp add: vector_key_def word_uint_eq_iff)

lemma compare_bridge_id_less:
  assumes "wf_bridge_id a" "wf_bridge_id b"
  shows "STP_VECT_compare_bridge_id a b < 0 \<longleftrightarrow> bridge_key a < bridge_key b"
  using assms memcmp_less [of "addr a" 6 "addr b"]
  by (auto simp: STP_VECT_compare_bridge_id_def wf_bridge_id_def bridge_key_def word_less_def)

lemma compare_bridge_id_eq:
  assumes "wf_bridge_id a" "wf_bridge_id b"
  shows "STP_VECT_compare_bridge_id a b = 0 \<longleftrightarrow> a = b"
  using assms memcmp_eq_0 [of "addr a" 6 "addr b"]
  by (cases a; cases b) (auto simp: STP_VECT_compare_bridge_id_def wf_bridge_id_def)

lemma sint_diff_in_range:
  fixes a b :: u32
  assumes "a < 0x80000000" "b < 0x80000000"
  shows "sint (a - b) = uint a - uint b"
proof -
  have lt: "uint a < 2147483648" "uint b < 2147483648"
    using assms by (simp_all add: word_less_def)
  have self: "signed_take_bit 31 k = k" if "- 2147483648 \<le> k" "k < 2147483648" for k :: int
    using that by (intro signed_take_bit_int_eq_self) simp_all
  have nonneg: "0 \<le> uint a" "0 \<le> uint b" by simp_all
  have "sint a = uint a" "sint b = uint b"
    using self [of "uint a"] self [of "uint b"] lt nonneg by (simp_all add: sint_uint)
  then show ?thesis
    using self [of "uint a - uint b"] lt nonneg by (simp add: sint_word_ariths)
qed

lemma comparableD:
  "comparable v \<Longrightarrow> wf_bridge_id (root_bridge v)"
  "comparable v \<Longrightarrow> wf_bridge_id (design_bridge v)"
  "comparable v \<Longrightarrow> root_path_cost v < 0x80000000"
  by (simp_all add: comparable_def wf_vector_def cost_in_range_def)

lemma compare_vector_less:
  assumes "comparable a" "comparable b"
  shows "STP_VECT_compare_vector a b < 0 \<longleftrightarrow> vector_key a < vector_key b"
  using comparableD [OF assms(1)] comparableD [OF assms(2)]
  by (simp add: STP_VECT_compare_vector_def Let_def compare_bridge_id_less compare_bridge_id_eq
      sint_diff_in_range vector_key_def less_prod_simp)

lemma compare_vector_eq:
  assumes "comparable a" "comparable b"
  shows "STP_VECT_compare_vector a b = 0 \<longleftrightarrow> a = b"
  using comparableD [OF assms(1)] comparableD [OF assms(2)]
  by (cases a; cases b)
     (auto simp: STP_VECT_compare_vector_def Let_def compare_bridge_id_eq compare_bridge_id_less
       sint_diff_in_range word_uint_eq_iff)

lemma key_comparator:
  fixes key :: "'a \<Rightarrow> 'k::linorder"
  assumes "\<And>a b. ok a \<Longrightarrow> ok b \<Longrightarrow> c a b < (0::int) \<longleftrightarrow> key a < key b"
    and "\<And>a b. ok a \<Longrightarrow> ok b \<Longrightarrow> c a b = 0 \<longleftrightarrow> a = b" and "\<And>a b. key a = key b \<longleftrightarrow> a = b"
  shows "comparator ok c"
proof
  have le: "c a b \<le> 0 \<longleftrightarrow> key a \<le> key b" if "ok a" "ok b" for a b
    using assms that by (metis order.order_iff_strict)
  fix a b d assume ok: "ok a" "ok b"
  show "c a b = 0 \<longleftrightarrow> a = b" using assms(2) ok .
  show "c b a < 0 \<longleftrightarrow> 0 < c a b" using assms(1) le ok by (metis not_le)
  show "c a d \<le> 0" if "ok d" "c a b \<le> 0" "c b d \<le> 0"
    using that ok le by (meson order_trans)
qed

interpretation br_cmp: comparator wf_bridge_id STP_VECT_compare_bridge_id
  by (rule key_comparator [where key = bridge_key])
     (simp_all add: compare_bridge_id_less compare_bridge_id_eq)

interpretation vec_cmp: comparator comparable STP_VECT_compare_vector
  by (rule key_comparator [where key = vector_key])
     (simp_all add: compare_vector_less compare_vector_eq)

subsection \<open>The encoding of a vector in a BPDU\<close>

lemma get_set_bridge_id [simp]:
  "wf_bridge_id b \<Longrightarrow> stp_vect_get_bridge_id (stp_vect_set_bridge_id b) = b"
  by (simp add: vect_codec wf_bridge_id_def)

lemma wf_stp_vect_get_bridge_id: "length bs = 8 \<Longrightarrow> wf_bridge_id (stp_vect_get_bridge_id bs)"
  by (simp add: stp_vect_get_bridge_id_def wf_bridge_id_def)

lemma wf_get_vector: "wf_body b \<Longrightarrow> wf_vector (STP_VECT_get_vector b v)"
  by (simp add: STP_VECT_get_vector_def wf_vector_def wf_body_def wf_stp_vect_get_bridge_id)

lemma wf_set_vector: "wf_vector v \<Longrightarrow> wf_body b \<Longrightarrow> wf_body (STP_VECT_set_vector v b)"
  by (simp add: vect_codec wf_vector_def wf_bridge_id_def wf_body_def)

lemma get_set_vector:
  "wf_vector v \<Longrightarrow> STP_VECT_get_vector (STP_VECT_set_vector v b) v0 = v\<lparr> bridge_port := bridge_port v0 \<rparr>"
  by (simp add: STP_VECT_get_vector_def STP_VECT_set_vector_def wf_vector_def
      stp_vect_get_short_def stp_vect_set_short_def byte_order)

subsection \<open>Properties\<close>

text \<open>C29: on vectors with 6-byte MAC addresses and root path costs below \<open>2\<^sup>3\<^sup>1\<close>,
  \<^verbatim>\<open>STP_VECT_compare_vector\<close> is negative, zero or positive exactly as the first vector is
  less than, equal to or greater than the second in the lexicographic order of root bridge,
  root path cost, designated bridge, designated port and receiving port.\<close>

theorem compare_vector_lexicographic:
  assumes "comparable a" "comparable b"
  shows "(STP_VECT_compare_vector a b < 0 \<longleftrightarrow> vector_key a < vector_key b)
    \<and> (STP_VECT_compare_vector a b = 0 \<longleftrightarrow> a = b)
    \<and> (STP_VECT_compare_vector a b > 0 \<longleftrightarrow> vector_key a > vector_key b)"
  using compare_vector_less [of a b] compare_vector_less [of b a] compare_vector_eq [of a b]
    vec_cmp.cmp_swap [of a b] assms by simp

definition example_bridge :: "u16 \<Rightarrow> u8 \<Rightarrow> bridge_id" where
  "example_bridge p x = \<lparr> prio = p, addr = [0, 1, 2, 3, 4, x] \<rparr>"

theorem compare_vector_lexicographic_witness:
  "let a = STP_VECT_create (example_bridge 4096 7) 200000 (example_bridge 32768 1) 0x8001 0x8002;
       b = STP_VECT_create (example_bridge 4096 7) 200000 (example_bridge 32768 9) 0x8001 0x8001
   in comparable a \<and> comparable b \<and> STP_VECT_compare_vector a b < 0 \<and> vector_key a < vector_key b"
proof -
  let ?a = "STP_VECT_create (example_bridge 4096 7) 200000 (example_bridge 32768 1) 0x8001 0x8002"
  let ?b = "STP_VECT_create (example_bridge 4096 7) 200000 (example_bridge 32768 9) 0x8001 0x8001"
  have ok: "comparable ?a" "comparable ?b"
    by (simp_all add: comparable_def wf_vector_def wf_bridge_id_def cost_in_range_def
        STP_VECT_create_def example_bridge_def)
  have "vector_key ?a < vector_key ?b"
    by (simp add: vector_key_def bridge_key_def STP_VECT_create_def example_bridge_def)
  then show ?thesis
    using ok compare_vector_lexicographic [OF ok] by simp
qed

text \<open>Without the bound on the costs the comparison is wrong: the cost is read from the
  BPDU as a full 32-bit unsigned value, but its difference is kept in a signed \<^verbatim>\<open>int\<close>, so
  between two otherwise equal vectors the one with the smaller cost can compare as the worse.\<close>

theorem compare_vector_cost_overflow:
  "\<exists>a b. wf_vector a \<and> wf_vector b \<and> b = a\<lparr> root_path_cost := root_path_cost b \<rparr>
     \<and> root_path_cost a < root_path_cost b \<and> STP_VECT_compare_vector a b > 0"
proof -
  define a where "a = STP_VECT_create (example_bridge 4096 7) 0 (example_bridge 32768 1) 1 1"
  define b where "b = STP_VECT_create (example_bridge 4096 7) 0x80000001 (example_bridge 32768 1) 1 1"
  have "wf_vector a \<and> wf_vector b \<and> b = a\<lparr> root_path_cost := root_path_cost b \<rparr>
     \<and> root_path_cost a < root_path_cost b \<and> STP_VECT_compare_vector a b > 0"
    by (simp add: a_def b_def wf_vector_def wf_bridge_id_def STP_VECT_create_def
        example_bridge_def STP_VECT_compare_vector_def STP_VECT_compare_bridge_id_def)
  then show ?thesis by blast
qed

end
