(* ===== verification/Rstp_Times.thy ===== *)
theory Rstp_Times
  imports Rstp_Vector
begin

text \<open>
  The four protocol times (\<^verbatim>\<open>rstp/h/rstp_times.h\<close>, \<^verbatim>\<open>rstp/src/rstp_times.c\<close>): their
  comparison and their encoding in a BPDU, where a time is carried in units of 1/256 second.
\<close>

record timevalues_t =
  MessageAge :: u16
  MaxAge :: u16
  ForwardDelay :: u16
  HelloTime :: u16

definition STP_compare_times :: "timevalues_t \<Rightarrow> timevalues_t \<Rightarrow> int" where
  "STP_compare_times t1 t2 =
     (if MessageAge t1 < MessageAge t2 then -1
      else if MessageAge t1 > MessageAge t2 then 1
      else if MaxAge t1 < MaxAge t2 then -2
      else if MaxAge t1 > MaxAge t2 then 2
      else if ForwardDelay t1 < ForwardDelay t2 then -3
      else if ForwardDelay t1 > ForwardDelay t2 then 3
      else if HelloTime t1 < HelloTime t2 then -4
      else if HelloTime t1 > HelloTime t2 then 4
      else 0)"

text \<open>The macros \<^verbatim>\<open>STP_COPY_TIME\<close> and \<^verbatim>\<open>STP_SET_TIME\<close>.\<close>

definition STP_COPY_TIME :: "u8 list \<Rightarrow> u16" where
  "STP_COPY_TIME f = (let mt = load16 f; mt = mt div 256 in ntohs mt)"

definition STP_SET_TIME :: "u16 \<Rightarrow> u8 list" where
  "STP_SET_TIME f = (let mt = htons f; mt = mt * 256 in store16 mt)"

definition STP_get_times :: "bpdu_body_t \<Rightarrow> timevalues_t" where
  "STP_get_times b =
     \<lparr> MessageAge = STP_COPY_TIME (message_age b), MaxAge = STP_COPY_TIME (max_age b),
       ForwardDelay = STP_COPY_TIME (forward_delay b), HelloTime = STP_COPY_TIME (hello_time b) \<rparr>"

definition STP_set_times :: "timevalues_t \<Rightarrow> bpdu_body_t \<Rightarrow> bpdu_body_t" where
  "STP_set_times v b =
     b\<lparr> message_age := STP_SET_TIME (MessageAge v), max_age := STP_SET_TIME (MaxAge v),
        forward_delay := STP_SET_TIME (ForwardDelay v), hello_time := STP_SET_TIME (HelloTime v) \<rparr>"

definition STP_copy_times :: "timevalues_t \<Rightarrow> timevalues_t \<Rightarrow> timevalues_t" where
  "STP_copy_times t f =
     t\<lparr> MessageAge := MessageAge f, MaxAge := MaxAge f,
        ForwardDelay := ForwardDelay f, HelloTime := HelloTime f \<rparr>"

lemmas times_codec = STP_get_times_def STP_set_times_def STP_COPY_TIME_def STP_SET_TIME_def byte_order

lemma STP_copy_times_eq [simp]: "STP_copy_times t f = f"
  by (cases t; cases f) (simp add: STP_copy_times_def)

lemma compare_times_eq [simp]: "STP_compare_times t1 t2 = 0 \<longleftrightarrow> t1 = t2"
  by (cases t1; cases t2) (auto simp: STP_compare_times_def)

lemma wf_set_times: "wf_body b \<Longrightarrow> wf_body (STP_set_times v b)"
  by (simp add: times_codec wf_body_def)

lemma COPY_SET_TIME: "STP_COPY_TIME (STP_SET_TIME x) = x mod 256"
proof -
  have "(x * 256) div 256 = x mod 256"
  proof (rule bit_word_eqI)
    fix n assume "n < LENGTH(16)"
    have "(x * 256) div 256 = drop_bit 8 (push_bit 8 x)"
      by (simp add: drop_bit_eq_div push_bit_eq_mult)
    moreover have "x mod 256 = take_bit 8 x"
      by (simp add: take_bit_eq_mod)
    ultimately show "bit ((x * 256) div 256) n = bit (x mod 256) n"
      using \<open>n < LENGTH(16)\<close> by (auto simp: bit_simps)
  qed
  then show ?thesis by (simp add: STP_COPY_TIME_def STP_SET_TIME_def Let_def byte_order)
qed

lemma word_mod_256_id: "x < 256 \<Longrightarrow> x mod 256 = (x :: u16)"
  by (simp add: word_less_nat_alt word_arith_nat_defs unat_arith_simps)

text \<open>All four times fit the byte of whole seconds that the encoding keeps.\<close>

definition times_fit :: "timevalues_t \<Rightarrow> bool" where
  "times_fit v \<longleftrightarrow> MessageAge v < 256 \<and> MaxAge v < 256 \<and> ForwardDelay v < 256 \<and> HelloTime v < 256"

lemma get_set_times: "times_fit v \<Longrightarrow> STP_get_times (STP_set_times v b) = v"
  by (simp add: STP_get_times_def STP_set_times_def COPY_SET_TIME word_mod_256_id times_fit_def)

lemma times_vector_independent [simp]:
  "STP_get_times (STP_VECT_set_vector p b) = STP_get_times b"
  "STP_VECT_get_vector (STP_set_times t b) v = STP_VECT_get_vector b v"
  by (simp_all add: STP_get_times_def STP_set_times_def STP_VECT_get_vector_def
      STP_VECT_set_vector_def)

lemma codec_flags [simp]:
  "flags (STP_VECT_set_vector p b) = flags b" "flags (STP_set_times t b) = flags b"
  by (simp_all add: STP_VECT_set_vector_def STP_set_times_def)

lemma codec_flags_update [simp]:
  "STP_VECT_get_vector (flags_update f b) v = STP_VECT_get_vector b v"
  "STP_get_times (flags_update f b) = STP_get_times b"
  "wf_body (flags_update f b) = wf_body b"
  by (simp_all add: STP_VECT_get_vector_def STP_get_times_def wf_body_def)

subsection \<open>Properties\<close>

text \<open>Writing times into a BPDU body and reading them back gives every time modulo 256:
  the encoding keeps whole seconds in one byte, and a time of 256 seconds or more wraps.\<close>

theorem times_roundtrip:
  "STP_get_times (STP_set_times v b) =
     \<lparr> MessageAge = MessageAge v mod 256, MaxAge = MaxAge v mod 256,
       ForwardDelay = ForwardDelay v mod 256, HelloTime = HelloTime v mod 256 \<rparr>"
  by (simp add: STP_get_times_def STP_set_times_def COPY_SET_TIME)

end
