(* ===== verification/Rstp_Statmch.thy ===== *)
theory Rstp_Statmch
  imports Rstp_Prelude
begin

text \<open>
  The generic state machine (\<^verbatim>\<open>rstp/h/rstp_statmch.h\<close>, \<^verbatim>\<open>rstp/src/rstp_statmch.c\<close>).
  \<open>state_mach\<close> is the data of a \<^verbatim>\<open>STATE_MACH_T\<close>; its states are \<open>BEGIN\<close> or one of the concrete
  machine's own. \<open>stater\<close> holds the function pointers of a \<^verbatim>\<open>STATE_MACH_T\<close> as functions on the
  whole state that the machine can reach through its owner, with the access to the one field the
  engine itself reads and writes. The loop of \<^verbatim>\<open>STP_change_state\<close> ends only when the concrete
  machine lets it, so it is a partial function: \<open>None\<close> is a loop that never returns.
\<close>

datatype 's mach_st = BEGIN | St 's

record 's state_mach =
  mach_name :: string
  debug :: u8
  ignoreHop2State :: "'s mach_st"
  changeState :: bool
  State :: "'s mach_st"

record 'w stater =
  concreteEnterState :: "'w \<Rightarrow> 'w"
  concreteCheckCondition :: "'w \<Rightarrow> bool \<times> 'w"
  get_changeState :: "'w \<Rightarrow> bool"
  put_changeState :: "bool \<Rightarrow> 'w \<Rightarrow> 'w"

definition STP_state_mach_create :: "string \<Rightarrow> 's state_mach" where
  "STP_state_mach_create name =
     \<lparr> mach_name = name, debug = 0, ignoreHop2State = BEGIN, changeState = False, State = BEGIN \<rparr>"

definition STP_hop_2_state :: "'s \<Rightarrow> 's state_mach \<Rightarrow> 's state_mach" where
  "STP_hop_2_state new_state m = m\<lparr> State := St new_state, changeState := True \<rparr>"

definition STP_check_condition :: "'w stater \<Rightarrow> 'w \<Rightarrow> bool \<times> 'w" where
  "STP_check_condition s w =
     (let (bret, w') = concreteCheckCondition s w in
      (bret, if bret then put_changeState s True w' else w'))"

text \<open>One iteration of the loop of \<^verbatim>\<open>STP_change_state\<close>.\<close>

definition change_state_step :: "'w stater \<Rightarrow> 'w \<Rightarrow> 'w" where
  "change_state_step s w =
     snd (STP_check_condition s (put_changeState s False (concreteEnterState s w)))"

partial_function (option) change_state_loop ::
    "'w stater \<Rightarrow> nat \<Rightarrow> 'w \<Rightarrow> (nat \<times> 'w) option" where
  "change_state_loop s number_of_loops w =
     (if \<not> get_changeState s w then Some (number_of_loops, w)
      else change_state_loop s (Suc number_of_loops) (change_state_step s w))"

definition STP_change_state :: "'w stater \<Rightarrow> 'w \<Rightarrow> (nat \<times> 'w) option" where
  "STP_change_state s w = change_state_loop s 0 w"

lemma STP_hop_2_state_simps [simp]:
  "State (STP_hop_2_state x m) = St x"
  "changeState (STP_hop_2_state x m)"
  by (simp_all add: STP_hop_2_state_def)

subsection \<open>Invariants of a machine\<close>

text \<open>What every iteration of the loop keeps holds when the loop returns.\<close>

locale step_inv =
  fixes s :: "'w stater" and P :: "'w \<Rightarrow> bool"
  assumes step_keeps: "P w \<Longrightarrow> get_changeState s w \<Longrightarrow> P (change_state_step s w)"
begin

lemma loop_keeps:
  assumes ret: "change_state_loop s n w = Some (n', w')" and inv: "P w"
  shows "P w' \<and> \<not> get_changeState s w'"
proof -
  have "t = s \<longrightarrow> P w \<longrightarrow> P (snd r) \<and> \<not> get_changeState s (snd r)"
    if "change_state_loop t n w = Some r" for t n w r
  proof (rule change_state_loop.raw_induct
      [where P = "\<lambda>t n w r. t = s \<longrightarrow> P w \<longrightarrow> P (snd r) \<and> \<not> get_changeState s (snd r)", OF _ that])
    fix f t n w r
    assume IH: "\<And>t n w r. f t n w = Some r \<Longrightarrow>
        t = s \<longrightarrow> P w \<longrightarrow> P (snd r) \<and> \<not> get_changeState s (snd r)"
      and eq: "(if \<not> get_changeState t w then Some (n, w)
        else f t (Suc n) (change_state_step t w)) = Some r"
    show "t = s \<longrightarrow> P w \<longrightarrow> P (snd r) \<and> \<not> get_changeState s (snd r)"
    proof (intro impI)
      assume "t = s" "P w"
      show "P (snd r) \<and> \<not> get_changeState s (snd r)"
      proof (cases "get_changeState s w")
        case False
        with eq \<open>t = s\<close> \<open>P w\<close> show ?thesis by auto
      next
        case True
        with eq \<open>t = s\<close> have "f s (Suc n) (change_state_step s w) = Some r" by simp
        from IH [OF this] step_keeps [OF \<open>P w\<close> True] show ?thesis by simp
      qed
    qed
  qed
  from this [OF ret] inv show ?thesis by simp
qed

lemma change_state_keeps:
  "STP_change_state s w = Some (n, w') \<Longrightarrow> P w \<Longrightarrow> P w' \<and> \<not> get_changeState s w'"
  unfolding STP_change_state_def by (rule loop_keeps)

end

text \<open>
  An invariant kept by the entry action and by the check of the conditions, each alone; the
  engine checks the conditions of a machine only when it has nothing to enter.
\<close>

locale machine_inv =
  fixes s :: "'w stater" and P :: "'w \<Rightarrow> bool"
  assumes enter_keeps: "P w \<Longrightarrow> get_changeState s w \<Longrightarrow>
      P (put_changeState s False (concreteEnterState s w))"
    and check_keeps: "P w \<Longrightarrow> \<not> get_changeState s w \<Longrightarrow> P (snd (STP_check_condition s w))"
    and get_put: "get_changeState s (put_changeState s c w) = c"

sublocale machine_inv \<subseteq> step_inv
  by unfold_locales (simp add: change_state_step_def enter_keeps check_keeps get_put)

subsection \<open>Termination by a rank\<close>

locale ranked_machine = step_inv +
  fixes rank :: "'a \<Rightarrow> nat"
  assumes rank_decreases: "P w \<Longrightarrow> get_changeState s w \<Longrightarrow>
      get_changeState s (change_state_step s w) \<Longrightarrow> rank (change_state_step s w) < rank w"
begin

lemma loop_returns:
  "P w \<Longrightarrow> \<exists>n' w'. change_state_loop s n w = Some (n', w') \<and> n' \<le> n + rank w + 1"
proof (induction "rank w" arbitrary: n w rule: less_induct)
  case less
  show ?case
  proof (cases "get_changeState s w")
    case False
    then show ?thesis by (simp add: change_state_loop.simps)
  next
    case True
    let ?w = "change_state_step s w"
    have keep: "P ?w" using less.prems True by (rule step_keeps)
    have unfold: "change_state_loop s n w = change_state_loop s (Suc n) ?w"
      using True by (simp add: change_state_loop.simps [of s n w])
    show ?thesis
    proof (cases "get_changeState s ?w")
      case False
      then show ?thesis using unfold by (simp add: change_state_loop.simps [of s _ ?w])
    next
      case again: True
      have "rank ?w < rank w" using less.prems True again by (rule rank_decreases)
      from less.hyps [OF this keep, of "Suc n"] this show ?thesis using unfold by auto
    qed
  qed
qed

lemma change_state_returns:
  assumes "P w"
  shows "\<exists>n w'. STP_change_state s w = Some (n, w') \<and> n \<le> rank w + 1 \<and> P w' \<and> \<not> get_changeState s w'"
  using loop_returns [OF assms, of 0] loop_keeps [OF _ assms, of 0]
  by (auto simp: STP_change_state_def)

end

subsection \<open>Divergence\<close>

text \<open>If a set of states is closed under iterations and never at rest, the loop never returns.\<close>

lemma change_state_diverges:
  assumes closed: "\<And>w. C w \<Longrightarrow> get_changeState s w \<and> C (change_state_step s w)" and "C w"
  shows "STP_change_state s w = None"
proof -
  have "\<not> (t = s \<and> C w)" if "change_state_loop t n w = Some r" for t n w r
  proof (rule change_state_loop.raw_induct [where P = "\<lambda>t n w r. \<not> (t = s \<and> C w)", OF _ that])
    fix f t n w r
    assume IH: "\<And>t n w r. f t n w = Some r \<Longrightarrow> \<not> (t = s \<and> C w)"
      and eq: "(if \<not> get_changeState t w then Some (n, w)
        else f t (Suc n) (change_state_step t w)) = Some r"
    show "\<not> (t = s \<and> C w)" using eq IH closed by (metis option.distinct(1))
  qed
  then have "change_state_loop s 0 w \<noteq> Some r" for r using assms(2) by blast
  then show ?thesis by (cases "change_state_loop s 0 w") (auto simp: STP_change_state_def)
qed

end
