(* ===== verification/Rstp_Types.thy ===== *)
theory Rstp_Types
  imports Rstp_Times Rstp_Statmch
begin

text \<open>
  The data of the engine: the state enumerations of the eleven machines (the \<^verbatim>\<open>STATES\<close> macro of
  each \<^verbatim>\<open>rstp_*.c\<close>; a state name used by two machines carries a prefix in one of them), the port
  (\<^verbatim>\<open>PORT_T\<close>, \<^verbatim>\<open>rstp_port.h\<close>), the bridge (\<^verbatim>\<open>STPM_T\<close>, \<^verbatim>\<open>rstp_stpm.h\<close>), the management records
  (\<^verbatim>\<open>uid_stp.h\<close>), the file-scope variables, the calls made on the hardware layer, and the
  answers of the layers below as parameters (\<open>env\<close>).

  The \<^verbatim>\<open>next\<close> pointers are list order, the \<^verbatim>\<open>owner\<close> pointers are the context a function is
  given, the table \<^verbatim>\<open>timers\<close> is the list of the ten timer fields.
\<close>

datatype bridect_st = EDGE | NOT_EDGE
datatype migrate_st = CHECKING_RSTP | SELECTING_STP | SENSING
datatype p2p_st = INIT | RECOMPUTE | P2P_STABLE
datatype pcost_st = AUTO | FORSE | PCOST_STABLE
datatype info_st = RSTP_PORT_DISABLED | AGED | UPDATE | CURRENT | INFO_RECEIVE
  | SUPERIOR_DESIGNATED | REPEATED_DESIGNATED | INFERIOR_DESIGNATED | NOT_DESIGNATED | OTHER
datatype portrcv_st = DISCARD | RCV_RECEIVE
datatype rolesel_st = INIT_BRIDGE | ROLE_SELECTION
datatype roletrns_st = INIT_PORT | DISABLE_PORT | DISABLED_PORT
  | ROOT_PROPOSED | ROOT_AGREED | REROOT | ROOT_PORT | ROOT_FORWARD | ROOT_LEARN | REROOTED
  | DESIGNATED_PROPOSE | DESIGNATED_SYNCED | DESIGNATED_RETIRED | DESIGNATED_PORT
  | DESIGNATED_DISCARD | DESIGNATED_LEARN | DESIGNATED_FORWARD
  | ALTERNATE_PROPOSED | ALTERNATE_AGREED | ALTERNATE_PORT | BLOCK_PORT | BACKUP_PORT
datatype sttrans_st = DISCARDING | LEARNING | FORWARDING
datatype topoch_st = INACTIVE | TC_LEARNING | DETECTED | TCACTIVE | NOTIFIED_TCN | NOTIFIED_TC
  | PROPAGATING | ACKNOWLEDGED
datatype transmit_st = TRANSMIT_INIT | TRANSMIT_PERIODIC | IDLE | TRANSMIT_CONFIG | TRANSMIT_TCN
  | TRANSMIT_RSTP

datatype info_is_t = Mine | Aged | Received | Disabled
datatype port_role_t = DisabledPort | AlternatePort | BackupPort | RootPort | DesignatedPort
  | NonStpPort
datatype port_info_t = SuperiorDesignatedInfo | RepeatedDesignatedInfo | InferiorDesignatedInfo
  | InferiorRootAlternateInfo | OtherInfo
datatype admin_p2p_t = P2P_FORCE_TRUE | P2P_FORCE_FALSE | P2P_AUTO
datatype uid_stp_mode_t = STP_DISABLED | STP_ENABLED
datatype rstp_port_state = UID_PORT_DISABLED | UID_PORT_DISCARDING | UID_PORT_LEARNING
  | UID_PORT_FORWARDING | UID_PORT_NON_STP
datatype rstp_event_t = RSTP_PORT_EN_T | RSTP_PORT_DIS_T | RSTP_PORT_SPEED_T | RSTP_PORT_DPLEX_T
  | RSTP_PORT_RX_T | RSTP_PORT_TIME_T | RSTP_PORT_MNGR_T | RSTP_EVENT_LAST_DUMMY

text \<open>
  \<^verbatim>\<open>RCVD_MSG_T\<close>: the field \<^verbatim>\<open>rcvdMsg\<close> of this type is also assigned \<^verbatim>\<open>False\<close> (0, the code of
  \<open>SuperiorDesignateMsg\<close>) and \<^verbatim>\<open>True\<close> (1, the code of \<open>RepeatedDesignateMsg\<close>) and tested as a
  truth value.
\<close>

datatype rcvd_msg_t = SuperiorDesignateMsg | RepeatedDesignateMsg | ConfirmedRootMsg | OtherMsg

definition rcvd_msg_of_Bool :: "bool \<Rightarrow> rcvd_msg_t" where
  "rcvd_msg_of_Bool b = (if b then RepeatedDesignateMsg else SuperiorDesignateMsg)"

definition Bool_of_rcvd_msg :: "rcvd_msg_t \<Rightarrow> bool" where
  "Bool_of_rcvd_msg m \<longleftrightarrow> m \<noteq> SuperiorDesignateMsg"

lemma Bool_of_rcvd_msg_of_Bool [simp]: "Bool_of_rcvd_msg (rcvd_msg_of_Bool b) = b"
  by (simp add: Bool_of_rcvd_msg_def rcvd_msg_of_Bool_def)

text \<open>The error codes (\<^verbatim>\<open>RSTP_ERRORS\<close>, \<^verbatim>\<open>rstp_base.h\<close>) and their values as C integers.\<close>

datatype rstp_errors_t = STP_OK | STP_Cannot_Find_Vlan | STP_Imlicite_Instance_Create_Failed
  | STP_Small_Bridge_Priority | STP_Large_Bridge_Priority | STP_Small_Hello_Time
  | STP_Large_Hello_Time | STP_Small_Max_Age | STP_Large_Max_Age | STP_Small_Forward_Delay
  | STP_Large_Forward_Delay | STP_Forward_Delay_And_Max_Age_Are_Inconsistent
  | STP_Hello_Time_And_Max_Age_Are_Inconsistent | STP_Vlan_Had_Not_Yet_Been_Created
  | STP_Port_Is_Absent_In_The_Vlan | STP_Big_len8023_Format | STP_Small_len8023_Format
  | STP_len8023_Format_Gt_Len | STP_Not_Proper_802_3_Packet | STP_Invalid_Protocol
  | STP_Invalid_Version | STP_Had_Not_Yet_Been_Enabled_On_The_Vlan
  | STP_Cannot_Create_Instance_For_Vlan | STP_Cannot_Create_Instance_For_Port
  | STP_Invalid_Bridge_Priority | STP_There_Are_No_Ports | STP_Cannot_Compute_Bridge_Prio
  | STP_Another_Error | STP_Nothing_To_Do | STP_LAST_DUMMY

primrec err_code :: "rstp_errors_t \<Rightarrow> int" where
  "err_code STP_OK = 0"
| "err_code STP_Cannot_Find_Vlan = 1"
| "err_code STP_Imlicite_Instance_Create_Failed = 2"
| "err_code STP_Small_Bridge_Priority = 3"
| "err_code STP_Large_Bridge_Priority = 4"
| "err_code STP_Small_Hello_Time = 5"
| "err_code STP_Large_Hello_Time = 6"
| "err_code STP_Small_Max_Age = 7"
| "err_code STP_Large_Max_Age = 8"
| "err_code STP_Small_Forward_Delay = 9"
| "err_code STP_Large_Forward_Delay = 10"
| "err_code STP_Forward_Delay_And_Max_Age_Are_Inconsistent = 11"
| "err_code STP_Hello_Time_And_Max_Age_Are_Inconsistent = 12"
| "err_code STP_Vlan_Had_Not_Yet_Been_Created = 13"
| "err_code STP_Port_Is_Absent_In_The_Vlan = 14"
| "err_code STP_Big_len8023_Format = 15"
| "err_code STP_Small_len8023_Format = 16"
| "err_code STP_len8023_Format_Gt_Len = 17"
| "err_code STP_Not_Proper_802_3_Packet = 18"
| "err_code STP_Invalid_Protocol = 19"
| "err_code STP_Invalid_Version = 20"
| "err_code STP_Had_Not_Yet_Been_Enabled_On_The_Vlan = 21"
| "err_code STP_Cannot_Create_Instance_For_Vlan = 22"
| "err_code STP_Cannot_Create_Instance_For_Port = 23"
| "err_code STP_Invalid_Bridge_Priority = 24"
| "err_code STP_There_Are_No_Ports = 25"
| "err_code STP_Cannot_Compute_Bridge_Prio = 26"
| "err_code STP_Another_Error = 27"
| "err_code STP_Nothing_To_Do = 28"
| "err_code STP_LAST_DUMMY = 29"

definition NUMBER_OF_PORTS :: nat where "NUMBER_OF_PORTS = 4"
definition TxHoldCount :: u32 where "TxHoldCount = 3"
definition MigrateTime :: u32 where "MigrateTime = 3"
definition NORMAL_RSTP :: int where "NORMAL_RSTP = 2"
definition ADMIN_PORT_PATH_COST_AUTO :: u32 where "ADMIN_PORT_PATH_COST_AUTO = 0"

lemmas rstp_consts = TxHoldCount_def MigrateTime_def NORMAL_RSTP_def ADMIN_PORT_PATH_COST_AUTO_def

record port_t =
  edgeDelayWhile :: u32
  info :: "info_st state_mach"
  roletrns :: "roletrns_st state_mach"
  sttrans :: "sttrans_st state_mach"
  topoch :: "topoch_st state_mach"
  migrate :: "migrate_st state_mach"
  transmit :: "transmit_st state_mach"
  p2p :: "p2p_st state_mach"
  portrcv :: "portrcv_st state_mach"
  bridect :: "bridect_st state_mach"
  pcost :: "pcost_st state_mach"
  fdWhile :: u32
  helloWhen :: u32
  mdelayWhile :: u32
  rbWhile :: u32
  rcvdInfoWhile :: u32
  rrWhile :: u32
  tcWhile :: u32
  txCount :: u32
  lnkWhile :: u32
  ageingTime :: u16
  agreed :: bool
  designPrio :: prio_vector_t
  designTimes :: timevalues_t
  forward :: bool
  forwarding :: bool
  infoIs :: info_is_t
  initPm :: bool
  learn :: bool
  learning :: bool
  mcheck :: bool
  msgPrio :: prio_vector_t
  msgTimes :: timevalues_t
  newInfo :: bool
  operEdge :: bool
  adminEdge :: bool
  portEnabled :: bool
  port_id :: port_id_t
  portPrio :: prio_vector_t
  portTimes :: timevalues_t
  proposed :: bool
  proposing :: bool
  rcvdBpdu :: bool
  rcvdMsg :: rcvd_msg_t
  rcvdRSTP :: bool
  rcvdSTP :: bool
  rcvdTc :: bool
  rcvdTcAck :: bool
  rcvdTcn :: bool
  reRoot :: bool
  reselect :: bool
  role :: port_role_t
  selected :: bool
  selectedRole :: port_role_t
  sendRSTP :: bool
  sync :: bool
  synced :: bool
  tc :: bool
  tcAck :: bool
  tcProp :: bool
  fdbFlush :: bool
  agree :: bool
  disputed :: bool
  rcvdInfo :: port_info_t
  updtInfo :: bool
  autoEdge :: bool
  msgBpduVersion :: u8
  msgBpduType :: u8
  msgPortRole :: u8
  msgFlags :: u8
  adminPCost :: u32
  operPCost :: u32
  operSpeed :: u32
  usedSpeed :: u32
  LinkDelay :: int
  adminEnable :: bool
  wasInitBpdu :: bool
  admin_non_stp :: bool
  p2p_recompute :: bool
  operPointToPointMac :: bool
  adminPointToPointMac :: admin_p2p_t
  rx_cfg_bpdu_cnt :: u32
  rx_rstp_bpdu_cnt :: u32
  rx_tcn_bpdu_cnt :: u32
  uptime :: u32
  port_index :: int
  port_name :: string
  skip_rx :: u32
  skip_tx :: u32

text \<open>
  A port as \<^verbatim>\<open>calloc\<close> leaves it, with the ten machines that \<^verbatim>\<open>STP_port_create\<close> puts in it at once.
\<close>

definition zero_bridge_id :: bridge_id where
  "zero_bridge_id = \<lparr> prio = 0, addr = replicate 6 0 \<rparr>"

definition zero_vector :: prio_vector_t where
  "zero_vector = STP_VECT_create zero_bridge_id 0 zero_bridge_id 0 0"

definition zero_times :: timevalues_t where
  "zero_times = \<lparr> MessageAge = 0, MaxAge = 0, ForwardDelay = 0, HelloTime = 0 \<rparr>"

definition zero_port :: port_t where
  "zero_port =
     \<lparr> edgeDelayWhile = 0,
       info = STP_state_mach_create ''info'', roletrns = STP_state_mach_create ''roletrns'',
       sttrans = STP_state_mach_create ''sttrans'', topoch = STP_state_mach_create ''topoch'',
       migrate = STP_state_mach_create ''migrate'', transmit = STP_state_mach_create ''transmit'',
       p2p = STP_state_mach_create ''p2p'', portrcv = STP_state_mach_create ''portrcv'',
       bridect = STP_state_mach_create ''bridect'', pcost = STP_state_mach_create ''pcost'',
       fdWhile = 0, helloWhen = 0, mdelayWhile = 0, rbWhile = 0, rcvdInfoWhile = 0, rrWhile = 0,
       tcWhile = 0, txCount = 0, lnkWhile = 0, ageingTime = 0,
       agreed = False, designPrio = zero_vector, designTimes = zero_times, forward = False,
       forwarding = False, infoIs = Mine, initPm = False, learn = False, learning = False,
       mcheck = False, msgPrio = zero_vector, msgTimes = zero_times, newInfo = False,
       operEdge = False, adminEdge = False, portEnabled = False, port_id = 0,
       portPrio = zero_vector, portTimes = zero_times, proposed = False, proposing = False,
       rcvdBpdu = False, rcvdMsg = SuperiorDesignateMsg, rcvdRSTP = False, rcvdSTP = False,
       rcvdTc = False, rcvdTcAck = False, rcvdTcn = False, reRoot = False, reselect = False,
       role = DisabledPort, selected = False, selectedRole = DisabledPort, sendRSTP = False,
       sync = False, synced = False, tc = False, tcAck = False, tcProp = False, fdbFlush = False,
       agree = False, disputed = False, rcvdInfo = SuperiorDesignatedInfo, updtInfo = False,
       autoEdge = False, msgBpduVersion = 0, msgBpduType = 0, msgPortRole = 0, msgFlags = 0,
       adminPCost = 0, operPCost = 0, operSpeed = 0, usedSpeed = 0, LinkDelay = 0,
       adminEnable = False, wasInitBpdu = False, admin_non_stp = False, p2p_recompute = False,
       operPointToPointMac = False, adminPointToPointMac = P2P_FORCE_TRUE, rx_cfg_bpdu_cnt = 0,
       rx_rstp_bpdu_cnt = 0, rx_tcn_bpdu_cnt = 0, uptime = 0, port_index = 0, port_name = [],
       skip_rx = 0, skip_tx = 0 \<rparr>"

record stpm_t =
  ports :: "port_t list"
  rolesel :: "rolesel_st state_mach"
  ForceVersion :: int
  BrId :: bridge_id
  BrTimes :: timevalues_t
  rootPortId :: port_id_t
  rootPrio :: prio_vector_t
  rootTimes :: timevalues_t
  vlan_id :: int
  stpm_name :: "string option"
  admin_state :: uid_stp_mode_t
  timeSince_Topo_Change :: u32
  Topo_Change_Count :: u32
  Topo_Change :: u8

record uid_stp_cfg_t =
  field_mask :: u32
  stp_enabled :: uid_stp_mode_t
  cfg_vlan_name :: string
  bridge_priority :: int
  cfg_max_age :: int
  cfg_hello_time :: int
  cfg_forward_delay :: int
  force_version :: int
  hold_time :: int
  diameter :: int

text \<open>The calls the engine makes on the hardware abstraction layer and the drivers.\<close>

datatype hal_call =
    HAL_API_RSTP_PORT_STATE_SET int rstp_port_state
  | HAL_API_RSTP_PORT_MAC_FLUSH int bool
  | HAL_API_RSTP_MODE_SET uid_stp_mode_t
  | Eopl_send_to_down_link int "u8 list"
  | OdmPhyAdminStateSet int u32

text \<open>
  What the layers below answer: parameters of the model. An answer may depend on the calls made
  before it. \<open>mem_after_bpdu_packet\<close> is the memory that follows the static transmit buffer.
\<close>

record env =
  odmPortLinkStateGet :: "hal_call list \<Rightarrow> int \<Rightarrow> u32"
  dalPortDuplexGet :: "hal_call list \<Rightarrow> int \<Rightarrow> int \<times> u32"
  odmPhyAdminStateGet :: "hal_call list \<Rightarrow> int \<Rightarrow> u32"
  odmPortAdminGet :: "hal_call list \<Rightarrow> int \<Rightarrow> u32"
  eopl_send_result :: "hal_call list \<Rightarrow> int \<Rightarrow> u8 list \<Rightarrow> int"
  vosHWAddrGet :: "u8 list"
  mem_after_bpdu_packet :: "u8 list"

text \<open>The file-scope variables of the engine; \<open>hal_calls\<close> is the trace of calls made so far.\<close>

record glob =
  abPortLoop :: "u32 list"
  bOnePortLoopDetectEn :: "u32 list"
  bOnePortLoopWhile :: "u32 list"
  bOnePortLooptimer :: "u32 list"
  rstpwarningstate :: "u8 list"
  bpdu_packet :: stp_bpdu_t
  rstp_dev_mac :: "u8 list"
  uid_cfg :: uid_stp_cfg_t
  tev :: rstp_event_t
  nev :: int
  max_port :: int
  hal_calls :: "hal_call list"

text \<open>The zero bridge, and the file-scope variables as the program starts with them.\<close>

definition zero_stpm :: stpm_t where
  "zero_stpm = \<lparr> ports = [], rolesel = STP_state_mach_create ''rolesel'', ForceVersion = 0,
     BrId = zero_bridge_id, BrTimes = zero_times, rootPortId = 0, rootPrio = zero_vector,
     rootTimes = zero_times, vlan_id = 0, stpm_name = None, admin_state = STP_DISABLED,
     timeSince_Topo_Change = 0, Topo_Change_Count = 0, Topo_Change = 0 \<rparr>"

definition init_bpdu_packet :: stp_bpdu_t where
  "init_bpdu_packet =
     \<lparr> mac = \<lparr> dst_mac = [0x01, 0x80, 0xc2, 0x00, 0x00, 0x00], src_mac = replicate 6 0 \<rparr>,
       eth = \<lparr> len8023 = [0, 0], dsap = BPDU_L_SAP, ssap = BPDU_L_SAP, llc = LLC_UI \<rparr>,
       hdr = \<lparr> protocol = 0, version = BPDU_VERSION_ID, bpdu_type = 0 \<rparr>,
       body = \<lparr> flags = 0, root_id = replicate 8 0, body_root_path_cost = replicate 4 0,
         body_bridge_id = replicate 8 0, body_port_id = [0, 0], message_age = [0, 0],
         max_age = [0, 0], hello_time = [0, 0], forward_delay = [0, 0] \<rparr>,
       ver_1_len = [0, 0] \<rparr>"

definition zero_uid_cfg :: uid_stp_cfg_t where
  "zero_uid_cfg = \<lparr> field_mask = 0, stp_enabled = STP_DISABLED, cfg_vlan_name = [],
     bridge_priority = 0, cfg_max_age = 0, cfg_hello_time = 0, cfg_forward_delay = 0,
     force_version = 0, hold_time = 0, diameter = 0 \<rparr>"

definition init_glob :: glob where
  "init_glob = \<lparr> abPortLoop = replicate NUMBER_OF_PORTS 0,
     bOnePortLoopDetectEn = replicate NUMBER_OF_PORTS 0,
     bOnePortLoopWhile = replicate NUMBER_OF_PORTS 0,
     bOnePortLooptimer = replicate NUMBER_OF_PORTS 0,
     rstpwarningstate = replicate NUMBER_OF_PORTS 0,
     bpdu_packet = init_bpdu_packet, rstp_dev_mac = replicate 6 0, uid_cfg = zero_uid_cfg,
     tev = RSTP_EVENT_LAST_DUMMY, nev = 0, max_port = int NUMBER_OF_PORTS, hal_calls = [] \<rparr>"

type_synonym mworld = "glob \<times> stpm_t"

end
