(* ===== verification/Rstp_To.thy ===== *)
theory Rstp_To
  imports Rstp_Types
begin

text \<open>
  The engine's view of the system below it (\<^verbatim>\<open>rstp/src/rstp_to.c\<close>): every \<^verbatim>\<open>STP_OUT_\<close> function
  either records a call on the hardware layer in the trace or reads an answer of \<open>env\<close>.
\<close>

record uid_stp_port_cfg_t =
  pt_field_mask :: u32
  pt_port_bmp :: u32
  pt_vlan_name :: string
  port_priority :: int
  admin_port_path_cost :: u32
  admin_point2point :: admin_p2p_t
  admin_edge :: u8
  pt_admin_non_stp :: u8
  pt_skip_rx :: u32
  pt_skip_tx :: u32

datatype lt_flash_type_t = LT_FLASH_ALL_PORTS_EXCLUDE_THIS | LT_FLASH_ONLY_THE_PORT

definition DEF_BR_PRIO :: int where "DEF_BR_PRIO = 32768"
definition DEF_BR_MAXAGE :: int where "DEF_BR_MAXAGE = 20"
definition DEF_BR_HELLOT :: int where "DEF_BR_HELLOT = 2"
definition DEF_BR_FWDELAY :: int where "DEF_BR_FWDELAY = 15"
definition DEF_PORT_PRIO :: int where "DEF_PORT_PRIO = 128"

lemmas cfg_defaults = DEF_BR_PRIO_def DEF_BR_MAXAGE_def DEF_BR_HELLOT_def DEF_BR_FWDELAY_def
  DEF_PORT_PRIO_def

text \<open>\<^verbatim>\<open>halAppApiCallSync\<close> and the driver calls: appended to the trace.\<close>

definition halAppApiCallSync :: "hal_call \<Rightarrow> glob \<Rightarrow> glob" where
  "halAppApiCallSync c g = g\<lparr> hal_calls := hal_calls g @ [c] \<rparr>"

definition STP_OUT_set_learning :: "int \<Rightarrow> int \<Rightarrow> bool \<Rightarrow> glob \<Rightarrow> glob" where
  "STP_OUT_set_learning pindex vlan enable g =
     halAppApiCallSync (HAL_API_RSTP_PORT_STATE_SET pindex
       (if enable then UID_PORT_LEARNING else UID_PORT_DISCARDING)) g"

definition STP_OUT_set_forwarding :: "int \<Rightarrow> int \<Rightarrow> bool \<Rightarrow> glob \<Rightarrow> glob" where
  "STP_OUT_set_forwarding pindex vlan enable g =
     halAppApiCallSync (HAL_API_RSTP_PORT_STATE_SET pindex
       (if enable then UID_PORT_FORWARDING else UID_PORT_DISCARDING)) g"

definition STP_OUT_get_port_mac :: "glob \<Rightarrow> int \<Rightarrow> u8 list" where
  "STP_OUT_get_port_mac g pindex = take 6 (rstp_dev_mac g)"

definition STP_OUT_get_port_link_status :: "env \<Rightarrow> glob \<Rightarrow> int \<Rightarrow> bool" where
  "STP_OUT_get_port_link_status e g pindex =
     (let linkstate = odmPortLinkStateGet e (hal_calls g) pindex in
      if linkstate = 0 then False else True)"

definition STP_OUT_flush_lt :: "int \<Rightarrow> int \<Rightarrow> lt_flash_type_t \<Rightarrow> glob \<Rightarrow> glob" where
  "STP_OUT_flush_lt pindex vlan type g =
     halAppApiCallSync (HAL_API_RSTP_PORT_MAC_FLUSH pindex (type = LT_FLASH_ONLY_THE_PORT)) g"

definition STP_OUT_set_hardware_mode :: "int \<Rightarrow> uid_stp_mode_t \<Rightarrow> glob \<Rightarrow> glob" where
  "STP_OUT_set_hardware_mode vlan mode g = halAppApiCallSync (HAL_API_RSTP_MODE_SET mode) g"

text \<open>The frame handed to the driver is \<open>bpdu_len\<close> bytes from the start of the buffer.\<close>

definition STP_OUT_tx_bpdu :: "env \<Rightarrow> int \<Rightarrow> int \<Rightarrow> u8 list \<Rightarrow> nat \<Rightarrow> glob \<Rightarrow> int \<times> glob" where
  "STP_OUT_tx_bpdu e pindex vlan bpdu bpdu_len g =
     (let frame = take bpdu_len bpdu in
      (eopl_send_result e (hal_calls g) pindex frame,
       halAppApiCallSync (Eopl_send_to_down_link pindex frame) g))"

text \<open>\<^verbatim>\<open>sprintf (tmp, "p%04d", port_index)\<close>\<close>

definition pad0 :: "nat \<Rightarrow> string \<Rightarrow> string" where
  "pad0 w s = replicate (w - length s) (CHR ''0'') @ s"

definition STP_OUT_get_port_name :: "int \<Rightarrow> string" where
  "STP_OUT_get_port_name pindex =
     ''p'' @ (if pindex < 0 then ''-'' @ pad0 3 (dec_digits (nat (- pindex)))
              else pad0 4 (dec_digits (nat pindex)))"

definition STP_OUT_get_port_oper_speed :: "int \<Rightarrow> u32" where
  "STP_OUT_get_port_oper_speed portNo = 100"

definition STP_OUT_get_deafult_port_path_cost :: "int \<Rightarrow> u32" where
  "STP_OUT_get_deafult_port_path_cost portNo = 20000"

definition STP_OUT_get_duplex :: "env \<Rightarrow> glob \<Rightarrow> int \<Rightarrow> bool" where
  "STP_OUT_get_duplex e g pindex =
     (let (iRet, ulDuplex) = dalPortDuplexGet e (hal_calls g) pindex in
      if iRet \<noteq> 0 then True else if ulDuplex = 0 then False else True)"

definition STP_OUT_get_init_stpm_cfg :: "uid_stp_cfg_t \<Rightarrow> uid_stp_cfg_t" where
  "STP_OUT_get_init_stpm_cfg cfg =
     cfg\<lparr> bridge_priority := DEF_BR_PRIO, cfg_max_age := DEF_BR_MAXAGE,
          cfg_hello_time := DEF_BR_HELLOT, cfg_forward_delay := DEF_BR_FWDELAY,
          force_version := NORMAL_RSTP \<rparr>"

definition STP_OUT_get_init_port_cfg :: "uid_stp_port_cfg_t \<Rightarrow> uid_stp_port_cfg_t" where
  "STP_OUT_get_init_port_cfg cfg =
     cfg\<lparr> port_priority := DEF_PORT_PRIO, pt_admin_non_stp := 1, admin_edge := 0,
          admin_port_path_cost := ADMIN_PORT_PATH_COST_AUTO, admin_point2point := P2P_AUTO \<rparr>"

subsection \<open>What the trace says about the hardware\<close>

text \<open>The forwarding state a port's hardware is in: the last one set.\<close>

fun hw_upd :: "hal_call \<Rightarrow> (int \<Rightarrow> rstp_port_state option) \<Rightarrow> int \<Rightarrow> rstp_port_state option" where
  "hw_upd (HAL_API_RSTP_PORT_STATE_SET p st) m = m(p := Some st)"
| "hw_upd _ m = m"

definition hw_state :: "hal_call list \<Rightarrow> int \<Rightarrow> rstp_port_state option" where
  "hw_state cs = fold hw_upd cs (\<lambda>_. None)"

lemma hw_state_Nil [simp]: "hw_state [] p = None"
  by (simp add: hw_state_def)

lemma hw_state_snoc [simp]: "hw_state (cs @ [c]) = hw_upd c (hw_state cs)"
  by (simp add: hw_state_def)

lemma halAppApiCallSync_simps [simp]:
  "hal_calls (halAppApiCallSync c g) = hal_calls g @ [c]"
  "rstpwarningstate (halAppApiCallSync c g) = rstpwarningstate g"
  "bpdu_packet (halAppApiCallSync c g) = bpdu_packet g"
  "bOnePortLoopDetectEn (halAppApiCallSync c g) = bOnePortLoopDetectEn g"
  "bOnePortLooptimer (halAppApiCallSync c g) = bOnePortLooptimer g"
  "bOnePortLoopWhile (halAppApiCallSync c g) = bOnePortLoopWhile g"
  "abPortLoop (halAppApiCallSync c g) = abPortLoop g"
  "rstp_dev_mac (halAppApiCallSync c g) = rstp_dev_mac g"
  by (simp_all add: halAppApiCallSync_def)

lemma STP_OUT_hw [simp]:
  "hw_state (hal_calls (STP_OUT_set_learning p v b g)) =
     (hw_state (hal_calls g))(p := Some (if b then UID_PORT_LEARNING else UID_PORT_DISCARDING))"
  "hw_state (hal_calls (STP_OUT_set_forwarding p v b g)) =
     (hw_state (hal_calls g))(p := Some (if b then UID_PORT_FORWARDING else UID_PORT_DISCARDING))"
  "hw_state (hal_calls (STP_OUT_flush_lt p v t g)) = hw_state (hal_calls g)"
  "hw_state (hal_calls (STP_OUT_set_hardware_mode v m g)) = hw_state (hal_calls g)"
  "hw_state (hal_calls (snd (STP_OUT_tx_bpdu e p v bs n g))) = hw_state (hal_calls g)"
  by (simp_all add: STP_OUT_set_learning_def STP_OUT_set_forwarding_def STP_OUT_flush_lt_def
      STP_OUT_set_hardware_mode_def STP_OUT_tx_bpdu_def Let_def)

text \<open>A system below the engine for the examples: links up, full duplex, every frame sent.\<close>

definition example_env :: env where
  "example_env = \<lparr> odmPortLinkStateGet = (\<lambda>_ _. 1), dalPortDuplexGet = (\<lambda>_ _. (0, 1)),
     odmPhyAdminStateGet = (\<lambda>_ _. 1), odmPortAdminGet = (\<lambda>_ _. 1),
     eopl_send_result = (\<lambda>_ _ _. 0), vosHWAddrGet = [0, 1, 2, 3, 4, 5],
     mem_after_bpdu_packet = replicate 10 0xAA \<rparr>"

end
