(* ===== verification/Rstp_Machine.thy ===== *)
theory Rstp_Machine
  imports Rstp_To
begin

text \<open>
  How the machine of one port sits in a bridge. Most of the port machines read the bridge
  (through \<^verbatim>\<open>port->owner\<close>) but write only their own port and the file-scope variables: they are
  staters over \<open>glob \<times> port_t\<close>, given the bridge, and \<open>lift_stater\<close> places them at a position of
  the port list. The topology change, role transition and role selection machines write other
  ports too and are staters over the whole bridge.
\<close>

type_synonym pworld = "glob \<times> port_t"

definition port_stater ::
    "(glob \<Rightarrow> port_t \<Rightarrow> pworld) \<Rightarrow> (port_t \<Rightarrow> bool \<times> port_t)
     \<Rightarrow> (port_t \<Rightarrow> bool) \<Rightarrow> (bool \<Rightarrow> port_t \<Rightarrow> port_t) \<Rightarrow> pworld stater" where
  "port_stater ent chk get put =
     \<lparr> concreteEnterState = (\<lambda>(g, p). ent g p),
       concreteCheckCondition = (\<lambda>(g, p). let (r, p') = chk p in (r, (g, p'))),
       get_changeState = (\<lambda>(g, p). get p),
       put_changeState = (\<lambda>c (g, p). (g, put c p)) \<rparr>"

definition lift_stater :: "nat \<Rightarrow> (stpm_t \<Rightarrow> pworld stater) \<Rightarrow> mworld stater" where
  "lift_stater i m =
     \<lparr> concreteEnterState = (\<lambda>(g, b).
         let (g', p') = concreteEnterState (m b) (g, ports b ! i)
         in (g', b\<lparr> ports := (ports b)[i := p'] \<rparr>)),
       concreteCheckCondition = (\<lambda>(g, b).
         let (r, (g', p')) = concreteCheckCondition (m b) (g, ports b ! i)
         in (r, (g', b\<lparr> ports := (ports b)[i := p'] \<rparr>))),
       get_changeState = (\<lambda>(g, b). get_changeState (m b) (g, ports b ! i)),
       put_changeState = (\<lambda>c (g, b).
         let (g', p') = put_changeState (m b) c (g, ports b ! i)
         in (g', b\<lparr> ports := (ports b)[i := p'] \<rparr>)) \<rparr>"

lemma port_stater_simps [simp]:
  "concreteEnterState (port_stater ent chk get put) (g, p) = ent g p"
  "concreteCheckCondition (port_stater ent chk get put) (g, p) = (fst (chk p), (g, snd (chk p)))"
  "get_changeState (port_stater ent chk get put) (g, p) = get p"
  "put_changeState (port_stater ent chk get put) c (g, p) = (g, put c p)"
  by (simp_all add: port_stater_def split: prod.split)

lemma port_check_condition [simp]:
  "STP_check_condition (port_stater ent chk get put) (g, p) =
     (let (r, p') = chk p in (r, (g, if r then put True p' else p')))"
  by (simp add: STP_check_condition_def split: prod.split)

lemma port_step_snd:
  "snd (change_state_step (port_stater ent chk get put) gp) =
     (let (r, q) = chk (put False (snd (ent (fst gp) (snd gp)))) in if r then put True q else q)"
  by (cases gp, cases "ent (fst gp) (snd gp)")
     (simp add: change_state_step_def Let_def split: prod.split)

text \<open>A machine whose actions touch only the port leaves the file-scope variables alone.\<close>

interpretation port_only: step_inv "port_stater (\<lambda>g p. (g, f p)) chk get put" "\<lambda>gp. fst gp = g"
  for f chk get put g
  by unfold_locales (auto simp: change_state_step_def Let_def split: prod.splits)

text \<open>A machine reads of its bridge only what it does not write.\<close>

definition reads_bridge_only :: "(stpm_t \<Rightarrow> pworld stater) \<Rightarrow> bool" where
  "reads_bridge_only m \<longleftrightarrow> (\<forall>b ps. m (b\<lparr> ports := ps \<rparr>) = m b)"

text \<open>The port machine lifted to the bridge does on its own port what it does alone.\<close>

definition put_port :: "nat \<Rightarrow> pworld \<Rightarrow> stpm_t \<Rightarrow> mworld" where
  "put_port i gp b = (fst gp, b\<lparr> ports := (ports b)[i := snd gp] \<rparr>)"

lemma put_port_simps [simp]:
  "fst (put_port i gp b) = fst gp"
  "ports (snd (put_port i gp b)) = (ports b)[i := snd gp]"
  by (simp_all add: put_port_def)

lemma put_port_put_port [simp]: "put_port i x (snd (put_port i y b)) = put_port i x b"
  by (simp add: put_port_def)

lemma lift_simps:
  assumes "reads_bridge_only m" "i < length (ports b)"
  shows "concreteEnterState (lift_stater i m) (g, b) =
      put_port i (concreteEnterState (m b) (g, ports b ! i)) b"
    and "get_changeState (lift_stater i m) (put_port i gp b) = get_changeState (m b) gp"
    and "get_changeState (lift_stater i m) (g, b) = get_changeState (m b) (g, ports b ! i)"
    and "put_changeState (lift_stater i m) c (put_port i gp b) =
      put_port i (put_changeState (m b) c gp) b"
    and "STP_check_condition (lift_stater i m) (put_port i gp b) =
      map_prod id (\<lambda>gp'. put_port i gp' b) (STP_check_condition (m b) gp)"
    and "STP_check_condition (lift_stater i m) (g, b) =
      map_prod id (\<lambda>gp'. put_port i gp' b) (STP_check_condition (m b) (g, ports b ! i))"
  using assms
  by (auto simp: lift_stater_def put_port_def reads_bridge_only_def STP_check_condition_def
      split: prod.split)

lemma lift_change_state_step:
  assumes "reads_bridge_only m" "i < length (ports b)"
  shows "change_state_step (lift_stater i m) (g, b) =
     put_port i (change_state_step (m b) (g, ports b ! i)) b"
  using assms by (simp add: change_state_step_def lift_simps)

text \<open>A condition on one port (and what the machine reads of the bridge), seen from the bridge.\<close>

definition lifted :: "nat \<Rightarrow> (stpm_t \<Rightarrow> pworld \<Rightarrow> bool) \<Rightarrow> mworld \<Rightarrow> bool" where
  "lifted i P w \<longleftrightarrow> i < length (ports (snd w)) \<and> P (snd w) (fst w, ports (snd w) ! i)"

definition ignores_ports :: "(stpm_t \<Rightarrow> 'a) \<Rightarrow> bool" where
  "ignores_ports f \<longleftrightarrow> (\<forall>b ps. f (b\<lparr> ports := ps \<rparr>) = f b)"

lemma ignores_ports_put_port: "ignores_ports f \<Longrightarrow> f (snd (put_port i gp b)) = f b"
  by (simp add: ignores_ports_def put_port_def)

lemma lifted_put_port:
  "ignores_ports P \<Longrightarrow> i < length (ports b) \<Longrightarrow> lifted i P (put_port i gp b) = P b gp"
  by (simp add: lifted_def ignores_ports_put_port)

lemma lift_ranked:
  assumes m: "reads_bridge_only m" and r: "\<And>b. ranked_machine (m b) (P b) (rank b)"
    and ign: "ignores_ports P" "ignores_ports rank"
  shows "ranked_machine (lift_stater i m) (lifted i P)
    (\<lambda>w. rank (snd w) (fst w, ports (snd w) ! i))"
proof (unfold_locales, goal_cases)
  note pp = ignores_ports_put_port [OF ign(1)] ignores_ports_put_port [OF ign(2)]
  case (1 w)
  then show ?case
    using m ign ranked_machine.axioms(1) [OF r, THEN step_inv.step_keeps]
    by (cases w) (auto simp: lift_simps lift_change_state_step lifted_put_port lifted_def pp)
next
  note pp = ignores_ports_put_port [OF ign(1)] ignores_ports_put_port [OF ign(2)]
  case (2 w)
  then show ?case
    using m ign r [THEN ranked_machine.rank_decreases]
    by (cases w) (auto simp: lift_simps lift_change_state_step lifted_put_port lifted_def pp)
qed

text \<open>An invariant of the bridge, checked on one lifted machine.\<close>

lemma lift_keeps:
  assumes m: "reads_bridge_only m" and len: "\<And>g b. J (g, b) \<Longrightarrow> i < length (ports b)"
    and enter: "\<And>g b. J (g, b) \<Longrightarrow> get_changeState (m b) (g, ports b ! i) \<Longrightarrow>
       J (put_port i (put_changeState (m b) False (concreteEnterState (m b) (g, ports b ! i))) b)"
    and check: "\<And>g b. J (g, b) \<Longrightarrow> \<not> get_changeState (m b) (g, ports b ! i) \<Longrightarrow>
       J (put_port i (snd (STP_check_condition (m b) (g, ports b ! i))) b)"
  shows "J w \<Longrightarrow> get_changeState (lift_stater i m) w \<Longrightarrow>
      J (put_changeState (lift_stater i m) False (concreteEnterState (lift_stater i m) w))"
    and "J w \<Longrightarrow> \<not> get_changeState (lift_stater i m) w \<Longrightarrow>
      J (snd (STP_check_condition (lift_stater i m) w))"
  using m len enter check by (cases w; auto simp: lift_simps)+

end
