(* ===== verification/Rstp_Bridect.thy ===== *)
theory Rstp_Bridect
  imports Rstp_Machine
begin

text \<open>The bridge detection machine (\<^verbatim>\<open>rstp/src/rstp_bridect.c\<close>): is the port an edge port?\<close>

definition STP_bridect_enter_state :: "port_t \<Rightarrow> port_t" where
  "STP_bridect_enter_state port =
     (case State (bridect port) of
        St EDGE \<Rightarrow> port\<lparr> operEdge := True \<rparr>
      | St NOT_EDGE \<Rightarrow> port\<lparr> operEdge := False \<rparr>
      | BEGIN \<Rightarrow> port)"

definition hop_bridect :: "bridect_st \<Rightarrow> port_t \<Rightarrow> bool \<times> port_t" where
  "hop_bridect s port = (True, port\<lparr> bridect := STP_hop_2_state s (bridect port) \<rparr>)"

definition STP_bridect_check_conditions :: "port_t \<Rightarrow> bool \<times> port_t" where
  "STP_bridect_check_conditions port =
     (if adminEdge port \<and> State (bridect port) = BEGIN then hop_bridect EDGE port
      else if \<not> adminEdge port \<and> State (bridect port) = BEGIN then hop_bridect NOT_EDGE port
      else case State (bridect port) of
        St EDGE \<Rightarrow>
          if \<not> portEnabled port \<and> \<not> adminEdge port \<or> \<not> operEdge port then hop_bridect NOT_EDGE port
          else (False, port)
      | St NOT_EDGE \<Rightarrow>
          if \<not> portEnabled port \<and> adminEdge port
            \<or> edgeDelayWhile port = 0 \<and> autoEdge port \<and> sendRSTP port \<and> proposing port
          then hop_bridect EDGE port
          else (False, port)
      | BEGIN \<Rightarrow> (False, port))"

definition bridect_mach :: "pworld stater" where
  "bridect_mach = port_stater (\<lambda>g p. (g, STP_bridect_enter_state p)) STP_bridect_check_conditions
     (\<lambda>p. changeState (bridect p)) (\<lambda>c p. p\<lparr> bridect := (bridect p)\<lparr> changeState := c \<rparr> \<rparr>)"

lemmas bridect_defs = STP_bridect_enter_state_def STP_bridect_check_conditions_def hop_bridect_def

subsection \<open>Termination and the state reached\<close>

text \<open>
  \<^verbatim>\<open>autoEdge\<close> is assigned nowhere, so it keeps the zero of its allocation. With it set, a disabled
  port that is proposing would be moved to and fro between the two states for ever.
\<close>

definition bridect_rank :: "pworld \<Rightarrow> nat" where
  "bridect_rank gp = (case State (bridect (snd gp)) of
       BEGIN \<Rightarrow> 2
     | St EDGE \<Rightarrow> if adminEdge (snd gp) then 0 else 1
     | St NOT_EDGE \<Rightarrow> if adminEdge (snd gp) then 1 else 0)"

interpretation bridect_m: ranked_machine bridect_mach "\<lambda>gp. \<not> autoEdge (snd gp)" bridect_rank
  by unfold_locales
     (auto simp: bridect_mach_def bridect_defs bridect_rank_def change_state_step_def
        split: mach_st.splits bridect_st.splits if_splits)

text \<open>At rest the operational edge flag agrees with the state of the machine.\<close>

definition bridect_agrees :: "pworld \<Rightarrow> bool" where
  "bridect_agrees gp \<longleftrightarrow> changeState (bridect (snd gp)) \<or> State (bridect (snd gp)) = BEGIN
     \<or> (State (bridect (snd gp)) = St EDGE \<longrightarrow> operEdge (snd gp))
       \<and> (State (bridect (snd gp)) = St NOT_EDGE \<longrightarrow> \<not> operEdge (snd gp))"

interpretation bridect_i: machine_inv bridect_mach bridect_agrees
  by unfold_locales
     (auto simp: bridect_mach_def bridect_defs bridect_agrees_def
        split: mach_st.splits bridect_st.splits if_splits)

end
