(* ===== verification/Rstp_Migrate.thy ===== *)
theory Rstp_Migrate
  imports Rstp_Machine
begin

text \<open>
  The protocol migration machine (\<^verbatim>\<open>rstp/src/rstp_migrate.c\<close>): does the port send RSTP or
  old-style BPDUs?
\<close>

definition rstp_version :: "stpm_t \<Rightarrow> bool" where
  "rstp_version stpm \<longleftrightarrow> ForceVersion stpm \<ge> NORMAL_RSTP"

definition STP_migrate_enter_state :: "stpm_t \<Rightarrow> port_t \<Rightarrow> port_t" where
  "STP_migrate_enter_state stpm port =
     (let checking = port\<lparr> mcheck := False, sendRSTP := rstp_version stpm,
                           mdelayWhile := MigrateTime \<rparr> in
      case State (migrate port) of
        BEGIN \<Rightarrow> checking
      | St CHECKING_RSTP \<Rightarrow> checking
      | St SELECTING_STP \<Rightarrow> port\<lparr> sendRSTP := False, mdelayWhile := MigrateTime \<rparr>
      | St SENSING \<Rightarrow> port\<lparr> rcvdSTP := False, rcvdRSTP := False \<rparr>)"

definition hop_migrate :: "migrate_st \<Rightarrow> port_t \<Rightarrow> bool \<times> port_t" where
  "hop_migrate s port = (True, port\<lparr> migrate := STP_hop_2_state s (migrate port) \<rparr>)"

definition STP_migrate_check_conditions :: "stpm_t \<Rightarrow> port_t \<Rightarrow> bool \<times> port_t" where
  "STP_migrate_check_conditions stpm port =
     (case State (migrate port) of
        BEGIN \<Rightarrow> hop_migrate CHECKING_RSTP port
      | St CHECKING_RSTP \<Rightarrow>
          if mdelayWhile port = 0 then hop_migrate SENSING port
          else if mdelayWhile port \<noteq> MigrateTime \<and> \<not> portEnabled port
          then hop_migrate CHECKING_RSTP port
          else (False, port)
      | St SELECTING_STP \<Rightarrow>
          if mdelayWhile port = 0 \<or> \<not> portEnabled port \<or> mcheck port then hop_migrate SENSING port
          else (False, port)
      | St SENSING \<Rightarrow>
          if sendRSTP port \<and> rcvdSTP port then hop_migrate SELECTING_STP port
          else if \<not> portEnabled port \<or> mcheck port
            \<or> rstp_version stpm \<and> \<not> sendRSTP port \<and> rcvdRSTP port
          then hop_migrate CHECKING_RSTP port
          else (False, port))"

definition migrate_mach :: "stpm_t \<Rightarrow> pworld stater" where
  "migrate_mach b = port_stater (\<lambda>g p. (g, STP_migrate_enter_state b p))
     (STP_migrate_check_conditions b)
     (\<lambda>p. changeState (migrate p)) (\<lambda>c p. p\<lparr> migrate := (migrate p)\<lparr> changeState := c \<rparr> \<rparr>)"

lemmas migrate_defs = STP_migrate_enter_state_def STP_migrate_check_conditions_def hop_migrate_def

definition migrate_rank :: "pworld \<Rightarrow> nat" where
  "migrate_rank gp = (case State (migrate (snd gp)) of
       BEGIN \<Rightarrow> 3 | St SELECTING_STP \<Rightarrow> 2 | St SENSING \<Rightarrow> 1 | St CHECKING_RSTP \<Rightarrow> 0)"

interpretation migrate_m: ranked_machine "migrate_mach b" "\<lambda>_. True" migrate_rank for b
  by unfold_locales
     (auto simp: migrate_mach_def migrate_defs migrate_rank_def change_state_step_def rstp_consts
        Let_def split: mach_st.splits migrate_st.splits if_splits)

text \<open>A port of a bridge forced to STP never sends RSTP BPDUs once the machine has run.\<close>

definition migrate_version_ok :: "stpm_t \<Rightarrow> pworld \<Rightarrow> bool" where
  "migrate_version_ok b gp \<longleftrightarrow> sendRSTP (snd gp) \<longrightarrow> rstp_version b"

interpretation migrate_i: machine_inv "migrate_mach b" "migrate_version_ok b" for b
  by unfold_locales
     (auto simp: migrate_mach_def migrate_defs migrate_version_ok_def Let_def
        split: mach_st.splits migrate_st.splits if_splits)

end
