(* ===== verification/Rstp_P2p.thy ===== *)
theory Rstp_P2p
  imports Rstp_Machine
begin

text \<open>The point-to-point MAC machine (\<^verbatim>\<open>rstp/src/rstp_p2p.c\<close>).\<close>

definition computeP2P :: "env \<Rightarrow> glob \<Rightarrow> port_t \<Rightarrow> bool" where
  "computeP2P e g port =
     (case adminPointToPointMac port of
        P2P_FORCE_TRUE \<Rightarrow> True
      | P2P_FORCE_FALSE \<Rightarrow> False
      | P2P_AUTO \<Rightarrow> STP_OUT_get_duplex e g (port_index port))"

definition STP_p2p_enter_state :: "env \<Rightarrow> glob \<Rightarrow> port_t \<Rightarrow> port_t" where
  "STP_p2p_enter_state e g port =
     (case State (p2p port) of
        BEGIN \<Rightarrow> port\<lparr> p2p_recompute := True \<rparr>
      | St INIT \<Rightarrow> port\<lparr> p2p_recompute := True \<rparr>
      | St RECOMPUTE \<Rightarrow> port\<lparr> operPointToPointMac := computeP2P e g port, p2p_recompute := False \<rparr>
      | St P2P_STABLE \<Rightarrow> port)"

definition hop_p2p :: "p2p_st \<Rightarrow> port_t \<Rightarrow> bool \<times> port_t" where
  "hop_p2p s port = (True, port\<lparr> p2p := STP_hop_2_state s (p2p port) \<rparr>)"

definition STP_p2p_check_conditions :: "port_t \<Rightarrow> bool \<times> port_t" where
  "STP_p2p_check_conditions port =
     (case State (p2p port) of
        BEGIN \<Rightarrow> hop_p2p P2P_STABLE port
      | St INIT \<Rightarrow> hop_p2p P2P_STABLE port
      | St RECOMPUTE \<Rightarrow> hop_p2p P2P_STABLE port
      | St P2P_STABLE \<Rightarrow> if p2p_recompute port then hop_p2p RECOMPUTE port else (False, port))"

definition p2p_mach :: "env \<Rightarrow> pworld stater" where
  "p2p_mach e = port_stater (\<lambda>g p. (g, STP_p2p_enter_state e g p)) STP_p2p_check_conditions
     (\<lambda>p. changeState (p2p p)) (\<lambda>c p. p\<lparr> p2p := (p2p p)\<lparr> changeState := c \<rparr> \<rparr>)"

lemmas p2p_defs = STP_p2p_enter_state_def STP_p2p_check_conditions_def hop_p2p_def

definition p2p_rank :: "pworld \<Rightarrow> nat" where
  "p2p_rank gp = (case State (p2p (snd gp)) of
       BEGIN \<Rightarrow> 3 | St INIT \<Rightarrow> 3 | St RECOMPUTE \<Rightarrow> 1
     | St P2P_STABLE \<Rightarrow> if p2p_recompute (snd gp) then 2 else 0)"

interpretation p2p_m: ranked_machine "p2p_mach e" "\<lambda>_. True" p2p_rank for e
  by unfold_locales
     (auto simp: p2p_mach_def p2p_defs p2p_rank_def change_state_step_def
        split: mach_st.splits p2p_st.splits if_splits)

end
