(* ===== verification/Rstp_Portrcv.thy ===== *)
theory Rstp_Portrcv
  imports Rstp_Machine
begin

text \<open>The port receive machine (\<^verbatim>\<open>rstp/src/rstp_portrcv.c\<close>).\<close>

definition updtBPDUVersion :: "port_t \<Rightarrow> port_t" where
  "updtBPDUVersion port =
     (let port = (if msgBpduType port = BPDU_TOPO_CHANGE_TYPE then port\<lparr> rcvdSTP := True \<rparr> else port);
          port = (if msgBpduVersion port < 2 then port\<lparr> rcvdSTP := True \<rparr> else port)
      in if msgBpduType port = BPDU_RSTP then port\<lparr> rcvdRSTP := True \<rparr> else port)"

definition STP_portrcv_enter_state :: "port_t \<Rightarrow> port_t" where
  "STP_portrcv_enter_state port =
     (case State (portrcv port) of
        St DISCARD \<Rightarrow>
          port\<lparr> rcvdSTP := False, rcvdRSTP := False, rcvdBpdu := False,
                rcvdMsg := rcvd_msg_of_Bool False, edgeDelayWhile := MigrateTime \<rparr>
      | St RCV_RECEIVE \<Rightarrow>
          (updtBPDUVersion port)\<lparr> rcvdBpdu := False, operEdge := False,
                rcvdMsg := rcvd_msg_of_Bool True, edgeDelayWhile := MigrateTime \<rparr>
      | BEGIN \<Rightarrow> port)"

definition hop_portrcv :: "portrcv_st \<Rightarrow> port_t \<Rightarrow> bool \<times> port_t" where
  "hop_portrcv s port = (True, port\<lparr> portrcv := STP_hop_2_state s (portrcv port) \<rparr>)"

definition STP_portrcv_check_conditions :: "port_t \<Rightarrow> bool \<times> port_t" where
  "STP_portrcv_check_conditions port =
     (if (rcvdBpdu port \<or> edgeDelayWhile port \<noteq> MigrateTime) \<and> \<not> portEnabled port
        \<or> State (portrcv port) = BEGIN
      then hop_portrcv DISCARD port
      else case State (portrcv port) of
        St DISCARD \<Rightarrow>
          if rcvdBpdu port \<and> portEnabled port then hop_portrcv RCV_RECEIVE port else (False, port)
      | St RCV_RECEIVE \<Rightarrow>
          if rcvdBpdu port \<and> portEnabled port \<and> \<not> Bool_of_rcvd_msg (rcvdMsg port)
          then hop_portrcv RCV_RECEIVE port else (False, port)
      | BEGIN \<Rightarrow> (False, port))"

definition portrcv_mach :: "pworld stater" where
  "portrcv_mach = port_stater (\<lambda>g p. (g, STP_portrcv_enter_state p)) STP_portrcv_check_conditions
     (\<lambda>p. changeState (portrcv p)) (\<lambda>c p. p\<lparr> portrcv := (portrcv p)\<lparr> changeState := c \<rparr> \<rparr>)"

lemmas portrcv_defs = STP_portrcv_enter_state_def STP_portrcv_check_conditions_def hop_portrcv_def
  updtBPDUVersion_def

definition portrcv_rank :: "pworld \<Rightarrow> nat" where
  "portrcv_rank gp = (if State (portrcv (snd gp)) = BEGIN then 1 else 0)"

interpretation portrcv_m: ranked_machine portrcv_mach "\<lambda>_. True" portrcv_rank
  by unfold_locales
     (auto simp: portrcv_mach_def portrcv_defs portrcv_rank_def change_state_step_def Let_def
        split: mach_st.splits portrcv_st.splits if_splits)

end
