(* ===== verification/Rstp_Pcost.thy ===== *)
theory Rstp_Pcost
  imports Rstp_Machine
begin

text \<open>
  The path cost machine (\<^verbatim>\<open>rstp/src/rstp_pcost.c\<close>): the cost of a port is either set by the
  administrator or derived from its speed by the table of 802.1D.
\<close>

definition computeAutoPCost :: "port_t \<Rightarrow> u32" where
  "computeAutoPCost port =
     (if usedSpeed port < 10 then 20000000
      else if usedSpeed port \<le> 10 then 2000000
      else if usedSpeed port \<le> 100 then 200000
      else if usedSpeed port \<le> 1000 then 20000
      else if usedSpeed port \<le> 10000 then 2000
      else if usedSpeed port \<le> 100000 then 200
      else if usedSpeed port \<le> 1000000 then 20
      else if usedSpeed port \<le> 10000000 then 2
      else 1)"

definition updPortPathCost :: "port_t \<Rightarrow> port_t" where
  "updPortPathCost port = port\<lparr> reselect := True, selected := False \<rparr>"

definition STP_pcost_enter_state :: "port_t \<Rightarrow> port_t" where
  "STP_pcost_enter_state port =
     (case State (pcost port) of
        BEGIN \<Rightarrow> port
      | St AUTO \<Rightarrow>
          (let port = port\<lparr> operSpeed := STP_OUT_get_port_oper_speed (port_index port) \<rparr>;
               port = port\<lparr> usedSpeed := operSpeed port \<rparr>
           in port\<lparr> operPCost := computeAutoPCost port \<rparr>)
      | St FORSE \<Rightarrow> port\<lparr> operPCost := adminPCost port, usedSpeed := -1 \<rparr>
      | St PCOST_STABLE \<Rightarrow> updPortPathCost port)"

definition hop_pcost :: "pcost_st \<Rightarrow> port_t \<Rightarrow> bool \<times> port_t" where
  "hop_pcost s port = (True, port\<lparr> pcost := STP_hop_2_state s (pcost port) \<rparr>)"

definition STP_pcost_check_conditions :: "port_t \<Rightarrow> bool \<times> port_t" where
  "STP_pcost_check_conditions port =
     (case State (pcost port) of
        BEGIN \<Rightarrow> hop_pcost AUTO port
      | St AUTO \<Rightarrow> hop_pcost PCOST_STABLE port
      | St FORSE \<Rightarrow> hop_pcost PCOST_STABLE port
      | St PCOST_STABLE \<Rightarrow>
          if ADMIN_PORT_PATH_COST_AUTO = adminPCost port \<and> operSpeed port \<noteq> usedSpeed port
          then hop_pcost AUTO port
          else if ADMIN_PORT_PATH_COST_AUTO \<noteq> adminPCost port \<and> operPCost port \<noteq> adminPCost port
          then hop_pcost FORSE port
          else (False, port))"

definition pcost_mach :: "pworld stater" where
  "pcost_mach = port_stater (\<lambda>g p. (g, STP_pcost_enter_state p)) STP_pcost_check_conditions
     (\<lambda>p. changeState (pcost p)) (\<lambda>c p. p\<lparr> pcost := (pcost p)\<lparr> changeState := c \<rparr> \<rparr>)"

lemmas pcost_defs = STP_pcost_enter_state_def STP_pcost_check_conditions_def hop_pcost_def
  updPortPathCost_def STP_OUT_get_port_oper_speed_def

definition pcost_unsettled :: "port_t \<Rightarrow> bool" where
  "pcost_unsettled p \<longleftrightarrow>
     (if adminPCost p = ADMIN_PORT_PATH_COST_AUTO then operSpeed p \<noteq> usedSpeed p
      else operPCost p \<noteq> adminPCost p)"

definition pcost_rank :: "pworld \<Rightarrow> nat" where
  "pcost_rank gp = (let p = snd gp; auto = (adminPCost p = ADMIN_PORT_PATH_COST_AUTO) in
     case State (pcost p) of
       BEGIN \<Rightarrow> 5
     | St AUTO \<Rightarrow> if auto then 2 else 4
     | St FORSE \<Rightarrow> if auto then 4 else 2
     | St PCOST_STABLE \<Rightarrow> if pcost_unsettled p then 3 else 1)"

interpretation pcost_m: ranked_machine pcost_mach "\<lambda>_. True" pcost_rank
  by unfold_locales
     (auto simp: pcost_mach_def pcost_defs pcost_rank_def pcost_unsettled_def change_state_step_def
        Let_def split: mach_st.splits pcost_st.splits if_splits)

text \<open>The administrator's cost is not touched, and the loop ends only in a settled stable state.\<close>

definition pcost_done :: "u32 \<Rightarrow> pworld \<Rightarrow> bool" where
  "pcost_done c gp \<longleftrightarrow> adminPCost (snd gp) = c \<and> (changeState (pcost (snd gp))
     \<or> State (pcost (snd gp)) = St PCOST_STABLE \<and> \<not> pcost_unsettled (snd gp))"

interpretation pcost_d: step_inv pcost_mach "pcost_done c" for c
  by unfold_locales
     (auto simp: pcost_mach_def pcost_defs pcost_done_def pcost_unsettled_def change_state_step_def
        Let_def split: mach_st.splits pcost_st.splits if_splits)

lemma pcost_rank_bound: "pcost_rank gp \<le> 5"
  by (simp add: pcost_rank_def Let_def split: mach_st.split pcost_st.split)

subsection \<open>Properties\<close>

text \<open>Whenever the path cost machine has to move, it stops after at most six moves in its
  stable state, leaves the configured cost alone, and then the cost in use is the
  administrator's if one is set, while with automatic costing the speed in use is the port's
  operational speed.\<close>

theorem pcost_settles:
  assumes "changeState (pcost p)"
  shows "\<exists>n p'. STP_change_state pcost_mach (g, p) = Some (n, (g, p')) \<and> n \<le> 6
    \<and> State (pcost p') = St PCOST_STABLE \<and> adminPCost p' = adminPCost p
    \<and> (adminPCost p \<noteq> ADMIN_PORT_PATH_COST_AUTO \<longrightarrow> operPCost p' = adminPCost p)
    \<and> (adminPCost p = ADMIN_PORT_PATH_COST_AUTO \<longrightarrow> usedSpeed p' = operSpeed p')"
proof -
  obtain n gp' where ret: "STP_change_state pcost_mach (g, p) = Some (n, gp')"
    and "n \<le> pcost_rank (g, p) + 1"
    using pcost_m.change_state_returns [of "(g, p)"] by blast
  moreover have "fst gp' = g"
    using ret port_only.change_state_keeps [of _ _ _ _ "(g, p)" n gp' g]
    by (simp add: pcost_mach_def)
  moreover have "pcost_done (adminPCost p) (g, p)"
    unfolding pcost_done_def using assms by simp
  with ret have "pcost_done (adminPCost p) gp' \<and> \<not> get_changeState pcost_mach gp'"
    by (rule pcost_d.change_state_keeps)
  ultimately show ?thesis
    using pcost_rank_bound [of "(g, p)"]
    by (cases gp') (auto simp: pcost_done_def pcost_unsettled_def pcost_mach_def)
qed

text \<open>The automatic cost never grows with the speed, and lies between 1 and 20000000.\<close>

theorem auto_cost_antimono:
  assumes "usedSpeed p \<le> usedSpeed q"
  shows "computeAutoPCost q \<le> computeAutoPCost p \<and> 1 \<le> computeAutoPCost q
    \<and> computeAutoPCost p \<le> 20000000"
  using assms by (simp add: computeAutoPCost_def word_le_nat_alt word_less_nat_alt)

definition example_pcost_port :: port_t where
  "example_pcost_port = zero_port\<lparr> adminPCost := 200, operSpeed := 100,
     pcost := STP_hop_2_state FORSE (STP_state_mach_create ''pcost'') \<rparr>"

theorem pcost_settles_witness:
  "\<exists>n p'. STP_change_state pcost_mach (init_glob, example_pcost_port) = Some (n, (init_glob, p'))
    \<and> n \<le> 6 \<and> State (pcost p') = St PCOST_STABLE \<and> operPCost p' = 200"
  using pcost_settles [of example_pcost_port init_glob]
  by (fastforce simp: example_pcost_port_def ADMIN_PORT_PATH_COST_AUTO_def)

theorem auto_cost_antimono_witness:
  "computeAutoPCost (zero_port\<lparr> usedSpeed := 1000 \<rparr>) \<le> computeAutoPCost (zero_port\<lparr> usedSpeed := 100 \<rparr>)"
  using auto_cost_antimono [of "zero_port\<lparr> usedSpeed := 100 \<rparr>" "zero_port\<lparr> usedSpeed := 1000 \<rparr>"] by simp

end
