(* ===== verification/Rstp_Sttrans.thy ===== *)
theory Rstp_Sttrans
  imports Rstp_Machine
begin

text \<open>
  The port state transition machine (\<^verbatim>\<open>rstp/src/rstp_sttrans.c\<close>): it follows the wishes \<^verbatim>\<open>learn\<close>
  and \<^verbatim>\<open>forward\<close> of the role transition machine and sets the hardware. Its invariant ties the
  flags \<^verbatim>\<open>learning\<close> and \<^verbatim>\<open>forwarding\<close>, the machine's state and the hardware together.
\<close>

definition disableLearning :: "stpm_t \<Rightarrow> pworld \<Rightarrow> pworld" where
  "disableLearning stpm = (\<lambda>(g, port). (STP_OUT_set_learning (port_index port) (vlan_id stpm) False g, port))"

definition enableLearning :: "stpm_t \<Rightarrow> pworld \<Rightarrow> pworld" where
  "enableLearning stpm = (\<lambda>(g, port). (STP_OUT_set_learning (port_index port) (vlan_id stpm) True g, port))"

definition disableForwarding :: "stpm_t \<Rightarrow> pworld \<Rightarrow> pworld" where
  "disableForwarding stpm = (\<lambda>(g, port). (STP_OUT_set_forwarding (port_index port) (vlan_id stpm) False g, port))"

definition enableForwarding :: "stpm_t \<Rightarrow> pworld \<Rightarrow> pworld" where
  "enableForwarding stpm = (\<lambda>(g, port). (STP_OUT_set_forwarding (port_index port) (vlan_id stpm) True g, port))"

definition STP_sttrans_enter_state :: "stpm_t \<Rightarrow> glob \<Rightarrow> port_t \<Rightarrow> pworld" where
  "STP_sttrans_enter_state stpm g port =
     (let k = nat (port_index port - 1);
          discarding =
            (let port = port\<lparr> learning := False, forwarding := False \<rparr>;
                 g = (if role port = AlternatePort \<or> role port = BackupPort
                      then g\<lparr> rstpwarningstate := (rstpwarningstate g)[k := 1] \<rparr> else g)
             in disableForwarding stpm (disableLearning stpm (g, port)))
      in case State (sttrans port) of
        BEGIN \<Rightarrow> discarding
      | St DISCARDING \<Rightarrow> discarding
      | St LEARNING \<Rightarrow> enableLearning stpm (g, port\<lparr> learning := True \<rparr>)
      | St FORWARDING \<Rightarrow>
          (let port = port\<lparr> forwarding := True \<rparr>;
               g = (if (role port = RootPort \<or> role port = DesignatedPort) \<and> rstpwarningstate g ! k = 1
                    then g\<lparr> rstpwarningstate := (rstpwarningstate g)[k := 0] \<rparr> else g)
           in enableForwarding stpm (g, port)))"

definition hop_sttrans :: "sttrans_st \<Rightarrow> port_t \<Rightarrow> bool \<times> port_t" where
  "hop_sttrans s port = (True, port\<lparr> sttrans := STP_hop_2_state s (sttrans port) \<rparr>)"

definition STP_sttrans_check_conditions :: "port_t \<Rightarrow> bool \<times> port_t" where
  "STP_sttrans_check_conditions port =
     (case State (sttrans port) of
        BEGIN \<Rightarrow> hop_sttrans DISCARDING port
      | St DISCARDING \<Rightarrow> if learn port then hop_sttrans LEARNING port else (False, port)
      | St LEARNING \<Rightarrow>
          if forward port then hop_sttrans FORWARDING port
          else if \<not> learn port then hop_sttrans DISCARDING port
          else (False, port)
      | St FORWARDING \<Rightarrow> if \<not> forward port then hop_sttrans DISCARDING port else (False, port))"

definition sttrans_mach :: "stpm_t \<Rightarrow> pworld stater" where
  "sttrans_mach b = port_stater (STP_sttrans_enter_state b) STP_sttrans_check_conditions
     (\<lambda>p. changeState (sttrans p)) (\<lambda>c p. p\<lparr> sttrans := (sttrans p)\<lparr> changeState := c \<rparr> \<rparr>)"

lemmas sttrans_defs = STP_sttrans_enter_state_def STP_sttrans_check_conditions_def hop_sttrans_def
  disableLearning_def enableLearning_def disableForwarding_def enableForwarding_def

definition sttrans_rank :: "pworld \<Rightarrow> nat" where
  "sttrans_rank gp = (let p = snd gp in case State (sttrans p) of
       BEGIN \<Rightarrow> 4
     | St DISCARDING \<Rightarrow> if learn p then 2 else 0
     | St LEARNING \<Rightarrow> if forward p then 1 else if learn p then 0 else 1
     | St FORWARDING \<Rightarrow> if forward p then 0 else 3)"

interpretation sttrans_m: ranked_machine "sttrans_mach b" "\<lambda>_. True" sttrans_rank for b
  by unfold_locales
     (auto simp: sttrans_mach_def sttrans_defs sttrans_rank_def change_state_step_def
        Let_def split: mach_st.splits sttrans_st.splits if_splits)

subsection \<open>The flags, the machine and the hardware agree\<close>

definition port_hw_state :: "port_t \<Rightarrow> rstp_port_state" where
  "port_hw_state p = (if forwarding p then UID_PORT_FORWARDING
     else if learning p then UID_PORT_LEARNING else UID_PORT_DISCARDING)"

text \<open>
  A state that has been hopped to but not yet entered (\<^verbatim>\<open>changeState\<close>) still has the flags of the
  state before it.
\<close>

definition sttrans_flags_ok :: "port_t \<Rightarrow> bool" where
  "sttrans_flags_ok p \<longleftrightarrow> (forwarding p \<longrightarrow> learning p) \<and>
     (case State (sttrans p) of
        BEGIN \<Rightarrow> \<not> learning p
      | St DISCARDING \<Rightarrow> changeState (sttrans p) \<or> \<not> learning p
      | St LEARNING \<Rightarrow> \<not> forwarding p \<and> (learning p \<longleftrightarrow> \<not> changeState (sttrans p))
      | St FORWARDING \<Rightarrow> learning p \<and> (forwarding p \<longleftrightarrow> \<not> changeState (sttrans p)))"

definition sttrans_inv :: "pworld \<Rightarrow> bool" where
  "sttrans_inv gp \<longleftrightarrow> sttrans_flags_ok (snd gp) \<and>
     hw_state (hal_calls (fst gp)) (port_index (snd gp)) = Some (port_hw_state (snd gp))"

interpretation sttrans_i: machine_inv "sttrans_mach b" sttrans_inv for b
  by unfold_locales
     (auto simp: sttrans_mach_def sttrans_defs sttrans_inv_def sttrans_flags_ok_def port_hw_state_def
        Let_def split: mach_st.splits sttrans_st.splits if_splits)

text \<open>At rest the machine has followed the wishes of the role transition machine.\<close>

definition sttrans_done :: "bool \<Rightarrow> bool \<Rightarrow> pworld \<Rightarrow> bool" where
  "sttrans_done l f gp \<longleftrightarrow> learn (snd gp) = l \<and> forward (snd gp) = f \<and> (changeState (sttrans (snd gp))
     \<or> State (sttrans (snd gp)) = (if f \<and> State (sttrans (snd gp)) \<noteq> St DISCARDING then St FORWARDING
         else if l then St LEARNING else St DISCARDING))"

interpretation sttrans_d: step_inv "sttrans_mach b" "sttrans_done l f" for b l f
  by unfold_locales
     (auto simp: sttrans_mach_def sttrans_defs sttrans_done_def change_state_step_def Let_def
        split: mach_st.splits sttrans_st.splits if_splits)

end
