(* ===== verification/Rstp_Transmit.thy ===== *)
theory Rstp_Transmit
  imports Rstp_Machine
begin

unbundle bit_operations_syntax

text \<open>
  The port transmit machine (\<^verbatim>\<open>rstp/src/rstp_transmit.c\<close>): it builds BPDUs in a static packet and
  hands them to the driver, at most \<^verbatim>\<open>TxHoldCount\<close> of them per second. The driver is given a
  pointer to the packet and a length of at least 64, while the packed struct has 54 bytes: what
  follows the struct in memory (\<open>mem_after_bpdu_packet\<close>) goes out with it.
\<close>

definition MIN_FRAME_LENGTH :: u16 where "MIN_FRAME_LENGTH = 64"

definition build_bpdu_header :: "int \<Rightarrow> u8 \<Rightarrow> u16 \<Rightarrow> glob \<Rightarrow> nat \<times> glob" where
  "build_bpdu_header pindex type pkt_len g =
     (let pkt = bpdu_packet g;
          pkt = pkt\<lparr> mac := (mac pkt)\<lparr> src_mac := STP_OUT_get_port_mac g pindex \<rparr> \<rparr>;
          pkt = pkt\<lparr> hdr := (hdr pkt)\<lparr> bpdu_type := type,
            version := (if BPDU_RSTP = type then BPDU_VERSION_RAPID_ID else BPDU_VERSION_ID) \<rparr> \<rparr>;
          pkt = pkt\<lparr> eth := (eth pkt)\<lparr> len8023 := store16 (htons (pkt_len + 3)) \<rparr> \<rparr>;
          pkt_len = (if pkt_len < MIN_FRAME_LENGTH then MIN_FRAME_LENGTH else pkt_len)
      in (unat pkt_len, g\<lparr> bpdu_packet := pkt \<rparr>))"

text \<open>The memory the driver reads through \<^verbatim>\<open>(unsigned char *) &bpdu_packet\<close>.\<close>

definition packet_memory :: "env \<Rightarrow> glob \<Rightarrow> u8 list" where
  "packet_memory e g = bpdu_bytes (bpdu_packet g) @ mem_after_bpdu_packet e"

definition txTcn :: "env \<Rightarrow> stpm_t \<Rightarrow> glob \<Rightarrow> port_t \<Rightarrow> int \<times> pworld" where
  "txTcn e stpm g port =
     (if skip_tx port > 0 then (err_code STP_Nothing_To_Do, (g, port\<lparr> skip_tx := skip_tx port - 1 \<rparr>))
      else if admin_non_stp port then (1, (g, port))
      else
        let (pkt_len, g) = build_bpdu_header (port_index port) BPDU_TOPO_CHANGE_TYPE
                             (of_nat sizeof_BPDU_HEADER_T) g;
            (r, g) = STP_OUT_tx_bpdu e (port_index port) (vlan_id stpm) (packet_memory e g) pkt_len g
        in (r, (g, port)))"

definition set_body_flags :: "(u8 \<Rightarrow> u8) \<Rightarrow> glob \<Rightarrow> glob" where
  "set_body_flags f g = g\<lparr> bpdu_packet := (bpdu_packet g)\<lparr>
     body := (body (bpdu_packet g))\<lparr> flags := f (flags (body (bpdu_packet g))) \<rparr> \<rparr> \<rparr>"

definition build_config_bpdu :: "port_t \<Rightarrow> bool \<Rightarrow> glob \<Rightarrow> glob" where
  "build_config_bpdu port set_topo_ack_flag g =
     (let g = set_body_flags (\<lambda>_. 0) g;
          g = (if tcWhile port \<noteq> 0 then set_body_flags (\<lambda>f. f OR TOLPLOGY_CHANGE_BIT) g else g);
          g = (if set_topo_ack_flag \<and> tcAck port
               then set_body_flags (\<lambda>f. f OR TOLPLOGY_CHANGE_ACK_BIT) g else g);
          pkt = bpdu_packet g;
          b = STP_VECT_set_vector (portPrio port) (body pkt);
          b = STP_set_times (portTimes port) b
      in g\<lparr> bpdu_packet := pkt\<lparr> body := b \<rparr> \<rparr>)"

definition txConfig :: "env \<Rightarrow> stpm_t \<Rightarrow> glob \<Rightarrow> port_t \<Rightarrow> int \<times> pworld" where
  "txConfig e stpm g port =
     (if skip_tx port > 0 then (err_code STP_Nothing_To_Do, (g, port\<lparr> skip_tx := skip_tx port - 1 \<rparr>))
      else if admin_non_stp port then (1, (g, port))
      else
        let (pkt_len, g) = build_bpdu_header (port_index port) BPDU_CONFIG_TYPE
                             (of_nat (sizeof_BPDU_HEADER_T + sizeof_BPDU_BODY_T)) g;
            g = build_config_bpdu port True g;
            (r, g) = STP_OUT_tx_bpdu e (port_index port) (vlan_id stpm) (packet_memory e g) pkt_len g
        in (r, (g, port)))"

definition role_bits :: "port_role_t \<Rightarrow> u8" where
  "role_bits r = (case r of
       AlternatePort \<Rightarrow> RSTP_PORT_ROLE_ALTBACK
     | BackupPort \<Rightarrow> RSTP_PORT_ROLE_ALTBACK
     | RootPort \<Rightarrow> RSTP_PORT_ROLE_ROOT
     | DesignatedPort \<Rightarrow> RSTP_PORT_ROLE_DESGN
     | _ \<Rightarrow> RSTP_PORT_ROLE_UNKN)"

definition set_rstp_flags :: "port_t \<Rightarrow> glob \<Rightarrow> glob" where
  "set_rstp_flags port g =
     (let g = set_body_flags (\<lambda>f. f OR push_bit PORT_ROLE_OFFS (role_bits (selectedRole port))) g;
          g = (if agree port then set_body_flags (\<lambda>f. f OR AGREEMENT_BIT) g else g);
          g = (if proposing port then set_body_flags (\<lambda>f. f OR PROPOSAL_BIT) g else g);
          g = (if learning port then set_body_flags (\<lambda>f. f OR LEARN_BIT) g else g)
      in if forwarding port then set_body_flags (\<lambda>f. f OR FORWARD_BIT) g else g)"

definition txRstp :: "env \<Rightarrow> stpm_t \<Rightarrow> glob \<Rightarrow> port_t \<Rightarrow> int \<times> pworld" where
  "txRstp e stpm g port =
     (if skip_tx port > 0 then (err_code STP_Nothing_To_Do, (g, port\<lparr> skip_tx := skip_tx port - 1 \<rparr>))
      else if admin_non_stp port then (1, (g, port))
      else
        let (pkt_len, g) = build_bpdu_header (port_index port) BPDU_RSTP
                             (of_nat (sizeof_BPDU_HEADER_T + sizeof_BPDU_BODY_T + 2)) g;
            g = build_config_bpdu port False g;
            g = set_rstp_flags port g;
            (r, g) = STP_OUT_tx_bpdu e (port_index port) (vlan_id stpm) (packet_memory e g) pkt_len g
        in (r, (g, port)))"

definition STP_transmit_enter_state :: "env \<Rightarrow> stpm_t \<Rightarrow> glob \<Rightarrow> port_t \<Rightarrow> pworld" where
  "STP_transmit_enter_state e stpm g port =
     (case State (transmit port) of
        BEGIN \<Rightarrow> (g, port\<lparr> newInfo := False, txCount := 0 \<rparr>)
      | St TRANSMIT_INIT \<Rightarrow> (g, port\<lparr> newInfo := False, txCount := 0 \<rparr>)
      | St TRANSMIT_PERIODIC \<Rightarrow>
          (g, port\<lparr> newInfo := newInfo port \<or> role port = DesignatedPort
                       \<or> role port = RootPort \<and> tcWhile port \<noteq> 0 \<rparr>)
      | St IDLE \<Rightarrow> (g, port\<lparr> helloWhen := ucast (HelloTime (rootTimes stpm)) \<rparr>)
      | St TRANSMIT_CONFIG \<Rightarrow>
          (let (_, (g, port)) = txConfig e stpm g (port\<lparr> newInfo := False \<rparr>)
           in (g, port\<lparr> txCount := txCount port + 1, tcAck := False \<rparr>))
      | St TRANSMIT_TCN \<Rightarrow>
          (let (_, (g, port)) = txTcn e stpm g (port\<lparr> newInfo := False \<rparr>)
           in (g, port\<lparr> txCount := txCount port + 1 \<rparr>))
      | St TRANSMIT_RSTP \<Rightarrow>
          (let (_, (g, port)) = txRstp e stpm g (port\<lparr> newInfo := False \<rparr>)
           in (g, port\<lparr> txCount := txCount port + 1, tcAck := False \<rparr>)))"

definition hop_transmit :: "transmit_st \<Rightarrow> port_t \<Rightarrow> bool \<times> port_t" where
  "hop_transmit s port = (True, port\<lparr> transmit := STP_hop_2_state s (transmit port) \<rparr>)"

definition STP_transmit_check_conditions :: "port_t \<Rightarrow> bool \<times> port_t" where
  "STP_transmit_check_conditions port =
     (case State (transmit port) of
        BEGIN \<Rightarrow> hop_transmit TRANSMIT_INIT port
      | St IDLE \<Rightarrow>
          if \<not> selected port \<or> updtInfo port then (False, port)
          else if helloWhen port = 0 then hop_transmit TRANSMIT_PERIODIC port
          else if \<not> sendRSTP port \<and> newInfo port \<and> txCount port < TxHoldCount
              \<and> role port = DesignatedPort \<and> helloWhen port \<noteq> 0
          then hop_transmit TRANSMIT_CONFIG port
          else if \<not> sendRSTP port \<and> newInfo port \<and> txCount port < TxHoldCount
              \<and> role port = RootPort \<and> helloWhen port \<noteq> 0
          then hop_transmit TRANSMIT_TCN port
          else if sendRSTP port \<and> newInfo port \<and> txCount port < TxHoldCount \<and> helloWhen port \<noteq> 0
          then if role port = DesignatedPort \<or> role port = RootPort
               then hop_transmit TRANSMIT_RSTP port
               else (False, port\<lparr> newInfo := False \<rparr>)
          else (False, port)
      | St _ \<Rightarrow> hop_transmit IDLE port)"

definition transmit_mach :: "env \<Rightarrow> stpm_t \<Rightarrow> pworld stater" where
  "transmit_mach e b = port_stater (STP_transmit_enter_state e b) STP_transmit_check_conditions
     (\<lambda>p. changeState (transmit p)) (\<lambda>c p. p\<lparr> transmit := (transmit p)\<lparr> changeState := c \<rparr> \<rparr>)"

lemmas transmit_defs = STP_transmit_enter_state_def STP_transmit_check_conditions_def
  hop_transmit_def

text \<open>Sending changes no field of the port but the debugging counter \<^verbatim>\<open>skip_tx\<close>.\<close>

definition tx_port :: "port_t \<Rightarrow> port_t" where
  "tx_port p = (if skip_tx p > 0 then p\<lparr> skip_tx := skip_tx p - 1 \<rparr> else p)"

lemma tx_port_only:
  "snd (snd (txTcn e b g p)) = tx_port p"
  "snd (snd (txConfig e b g p)) = tx_port p"
  "snd (snd (txRstp e b g p)) = tx_port p"
  by (simp_all add: txTcn_def txConfig_def txRstp_def tx_port_def Let_def split: prod.split)

lemma transmit_enter_port:
  "snd (STP_transmit_enter_state e b g p) =
     (case State (transmit p) of
        BEGIN \<Rightarrow> p\<lparr> newInfo := False, txCount := 0 \<rparr>
      | St TRANSMIT_INIT \<Rightarrow> p\<lparr> newInfo := False, txCount := 0 \<rparr>
      | St TRANSMIT_PERIODIC \<Rightarrow>
          p\<lparr> newInfo := newInfo p \<or> role p = DesignatedPort \<or> role p = RootPort \<and> tcWhile p \<noteq> 0 \<rparr>
      | St IDLE \<Rightarrow> p\<lparr> helloWhen := ucast (HelloTime (rootTimes b)) \<rparr>
      | St TRANSMIT_TCN \<Rightarrow> (tx_port p)\<lparr> newInfo := False, txCount := txCount p + 1 \<rparr>
      | St _ \<Rightarrow> (tx_port p)\<lparr> newInfo := False, txCount := txCount p + 1, tcAck := False \<rparr>)"
  using tx_port_only [of e b g "p\<lparr> newInfo := False \<rparr>"]
  by (auto simp: STP_transmit_enter_state_def tx_port_def split: prod.split mach_st.split transmit_st.split)

lemma tx_port_simps [simp]:
  "transmit (tx_port p) = transmit p" "txCount (tx_port p) = txCount p"
  "selected (tx_port p) = selected p" "updtInfo (tx_port p) = updtInfo p"
  "sendRSTP (tx_port p) = sendRSTP p" "role (tx_port p) = role p" "helloWhen (tx_port p) = helloWhen p"
  by (simp_all add: tx_port_def)

lemmas transmit_step_port = port_step_snd
  [of "STP_transmit_enter_state e b" STP_transmit_check_conditions "\<lambda>p. changeState (transmit p)"
    "\<lambda>c p. p\<lparr> transmit := (transmit p)\<lparr> changeState := c \<rparr> \<rparr>" for e b, folded transmit_mach_def]

subsection \<open>Termination, the hold count and a loop without end\<close>

definition hello_set :: "stpm_t \<Rightarrow> pworld \<Rightarrow> bool" where
  "hello_set b gp \<longleftrightarrow> HelloTime (rootTimes b) \<noteq> 0"

definition transmit_rank :: "pworld \<Rightarrow> nat" where
  "transmit_rank gp = (case State (transmit (snd gp)) of
       BEGIN \<Rightarrow> 5
     | St TRANSMIT_INIT \<Rightarrow> 4
     | St TRANSMIT_PERIODIC \<Rightarrow> 4
     | St IDLE \<Rightarrow> if newInfo (snd gp) then 3 else 1
     | St _ \<Rightarrow> 2)"

lemma get_transmit [simp]: "get_changeState (transmit_mach e b) gp = changeState (transmit (snd gp))"
  by (cases gp) (simp add: transmit_mach_def)

lemma ucast_HelloTime_0 [simp]: "(ucast (x :: u16) :: u32) = 0 \<longleftrightarrow> x = 0"
proof
  assume "(ucast x :: u32) = 0"
  then have "unat (ucast x :: u32) = 0" by simp
  moreover have "unat x < 2 ^ 16" using unsigned_less [where 'a = nat and w = x] by simp
  ultimately show "x = 0" by (simp add: unsigned_ucast_eq take_bit_nat_eq_self unat_eq_0)
qed simp

text \<open>The state that follows, when the conditions let the machine move.\<close>

definition transmit_next :: "port_t \<Rightarrow> transmit_st \<Rightarrow> bool" where
  "transmit_next q s \<longleftrightarrow> (case State (transmit q) of
       BEGIN \<Rightarrow> s = TRANSMIT_INIT
     | St IDLE \<Rightarrow> if helloWhen q = 0 then s = TRANSMIT_PERIODIC
         else newInfo q \<and> txCount q < TxHoldCount \<and> s \<in> {TRANSMIT_CONFIG, TRANSMIT_TCN, TRANSMIT_RSTP}
     | St _ \<Rightarrow> s = IDLE)"

lemma transmit_check_next:
  assumes "STP_transmit_check_conditions q = (True, q')"
  shows "\<exists>s. q' = q\<lparr> transmit := STP_hop_2_state s (transmit q) \<rparr> \<and>
    transmit_next q s"
proof (cases "State (transmit q)")
  case BEGIN
  with assms show ?thesis by (auto simp: transmit_next_def STP_transmit_check_conditions_def hop_transmit_def)
next
  case (St s)
  with assms show ?thesis
    by (cases s) (auto simp: transmit_next_def STP_transmit_check_conditions_def hop_transmit_def split: if_splits)
qed

lemma transmit_step_next:
  assumes "changeState (transmit (snd (change_state_step (transmit_mach e b) gp)))"
  obtains p s where "p = snd (STP_transmit_enter_state e b (fst gp) (snd gp))"
    "State (transmit p) = State (transmit (snd gp))"
    "snd (change_state_step (transmit_mach e b) gp) = p\<lparr> transmit := (transmit p)\<lparr> State := St s, changeState := True \<rparr> \<rparr>"
    "transmit_next p s"
proof -
  define p where "p = snd (STP_transmit_enter_state e b (fst gp) (snd gp))"
  define q where "q = p\<lparr> transmit := (transmit p)\<lparr> changeState := False \<rparr> \<rparr>"
  obtain r q' where chk: "STP_transmit_check_conditions q = (r, q')" by fastforce
  have st: "State (transmit p) = State (transmit (snd gp))"
    by (simp add: p_def transmit_enter_port split: mach_st.split transmit_st.split)
  have step: "snd (change_state_step (transmit_mach e b) gp)
      = (if r then q'\<lparr> transmit := (transmit q')\<lparr> changeState := True \<rparr> \<rparr> else q')"
    by (simp add: transmit_step_port p_def [symmetric] q_def [symmetric] chk)
  have "\<not> changeState (transmit q')" if "\<not> r"
    using that chk
    by (auto simp: q_def STP_transmit_check_conditions_def hop_transmit_def
        split: if_splits mach_st.splits transmit_st.splits)
  with assms step have r by (metis)
  with chk transmit_check_next [of q q'] obtain s where
    "q' = q\<lparr> transmit := STP_hop_2_state s (transmit q) \<rparr>"
    "transmit_next q s" by auto
  moreover have "transmit_next q s = transmit_next p s"
    by (simp add: transmit_next_def q_def split: mach_st.split transmit_st.split)
  ultimately show thesis
    using st step \<open>r\<close> by (intro that [of p s]) (simp_all add: p_def [symmetric] q_def STP_hop_2_state_def)
qed

lemma transmit_rank_decreases:
  assumes hs: "hello_set b gp"
    and ch: "changeState (transmit (snd (change_state_step (transmit_mach e b) gp)))"
  shows "transmit_rank (change_state_step (transmit_mach e b) gp) < transmit_rank gp"
  using ch
proof (rule transmit_step_next)
  fix p s
  assume p: "p = snd (STP_transmit_enter_state e b (fst gp) (snd gp))"
    and st: "State (transmit p) = State (transmit (snd gp))"
    and step: "snd (change_state_step (transmit_mach e b) gp)
      = p\<lparr> transmit := (transmit p)\<lparr> State := St s, changeState := True \<rparr> \<rparr>"
    and nx: "transmit_next p s"
  show ?thesis
  proof (cases "State (transmit (snd gp))")
    case BEGIN
    with st nx show ?thesis by (simp add: transmit_rank_def transmit_next_def step)
  next
    case (St t)
    have "State (transmit (snd gp)) = St IDLE \<Longrightarrow> helloWhen p \<noteq> 0 \<and> newInfo p = newInfo (snd gp)"
      and "t \<notin> {TRANSMIT_PERIODIC, IDLE} \<Longrightarrow> \<not> newInfo p"
      using hs St by (cases t; simp add: p transmit_enter_port hello_set_def)+
    with St st nx show ?thesis by (cases t) (auto simp: transmit_rank_def transmit_next_def step)
  qed
qed

interpretation transmit_m: ranked_machine "transmit_mach e b" "hello_set b" transmit_rank for e b
  by unfold_locales (simp_all add: transmit_rank_decreases, simp add: hello_set_def)

text \<open>
  No more than \<^verbatim>\<open>TxHoldCount\<close> frames are outstanding, and a transmission that is due still has
  room.
\<close>

definition transmit_inv :: "port_t \<Rightarrow> bool" where
  "transmit_inv p \<longleftrightarrow> txCount p \<le> TxHoldCount \<and>
     (changeState (transmit p) \<and> State (transmit p) \<in> St ` {TRANSMIT_CONFIG, TRANSMIT_TCN, TRANSMIT_RSTP}
        \<longrightarrow> txCount p < TxHoldCount)"

lemma word_inc_le: "(x :: u32) < k \<Longrightarrow> x + 1 \<le> k"
  by unat_arith

lemma transmit_enter_keeps:
  assumes "transmit_inv p" "changeState (transmit p)"
  shows "let p' = snd (STP_transmit_enter_state e b g p)
         in transmit_inv (p'\<lparr> transmit := (transmit p')\<lparr> changeState := False \<rparr> \<rparr>)"
proof (cases "State (transmit p)")
  case BEGIN
  then show ?thesis by (simp add: transmit_enter_port transmit_inv_def TxHoldCount_def)
next
  case (St s)
  then show ?thesis using assms
    by (cases s) (simp_all add: transmit_enter_port transmit_inv_def TxHoldCount_def word_inc_le Let_def)
qed

lemma transmit_check_inv:
  assumes "transmit_inv p"
  shows "case STP_transmit_check_conditions p of (r, p') \<Rightarrow>
     transmit_inv p' \<and> (r \<longrightarrow> transmit_inv (p'\<lparr> transmit := (transmit p')\<lparr> changeState := True \<rparr> \<rparr>))"
proof (cases "State (transmit p)")
  case BEGIN
  then show ?thesis using assms
    by (auto simp add: STP_transmit_check_conditions_def hop_transmit_def transmit_inv_def)
next
  case (St s)
  then show ?thesis using assms
    by (cases s) (auto simp: STP_transmit_check_conditions_def hop_transmit_def transmit_inv_def)
qed

interpretation transmit_i: machine_inv "transmit_mach e b" "\<lambda>gp. transmit_inv (snd gp)" for e b
proof (unfold_locales, goal_cases)
  case (1 w)
  then show ?case using transmit_enter_keeps [of "snd w" e b "fst w"]
    by (cases w, cases "STP_transmit_enter_state e b (fst w) (snd w)") (simp add: transmit_mach_def)
next
  case (2 w)
  then show ?case using transmit_check_inv [of "snd w"]
    by (cases w) (auto simp: transmit_mach_def Let_def split: prod.splits)
next
  case (3 c w)
  then show ?case by (cases w) (simp add: transmit_mach_def)
qed

text \<open>With a root hello time of 0 the machine moves between two states for ever.\<close>

definition transmit_spins :: "pworld \<Rightarrow> bool" where
  "transmit_spins gp \<longleftrightarrow> selected (snd gp) \<and> \<not> updtInfo (snd gp) \<and> changeState (transmit (snd gp))
     \<and> State (transmit (snd gp)) \<in> {St TRANSMIT_PERIODIC, St IDLE}"

lemma transmit_spins_closed:
  assumes "HelloTime (rootTimes b) = 0" "transmit_spins gp"
  shows "transmit_spins (change_state_step (transmit_mach e b) gp)"
proof -
  define p where "p = snd (STP_transmit_enter_state e b (fst gp) (snd gp))"
  from assms have sp: "selected (snd gp)" "\<not> updtInfo (snd gp)"
    "State (transmit (snd gp)) \<in> {St TRANSMIT_PERIODIC, St IDLE}" by (auto simp: transmit_spins_def)
  then consider "State (transmit (snd gp)) = St TRANSMIT_PERIODIC" | "State (transmit (snd gp)) = St IDLE"
    by blast
  then show ?thesis
  proof cases
    case 1
    then have "State (transmit p) = St TRANSMIT_PERIODIC" "selected p" "\<not> updtInfo p"
      using sp by (simp_all add: p_def transmit_enter_port)
    then show ?thesis
      by (simp add: transmit_spins_def transmit_step_port p_def [symmetric]
          STP_transmit_check_conditions_def hop_transmit_def)
  next
    case 2
    then have "State (transmit p) = St IDLE" "selected p" "\<not> updtInfo p" "helloWhen p = 0"
      using sp assms(1) by (simp_all add: p_def transmit_enter_port)
    then show ?thesis
      by (simp add: transmit_spins_def transmit_step_port p_def [symmetric]
          STP_transmit_check_conditions_def hop_transmit_def)
  qed
qed

subsection \<open>The frames\<close>

definition tx_flags :: "bool \<Rightarrow> port_t \<Rightarrow> u8" where
  "tx_flags ack p = (if tcWhile p \<noteq> 0 then TOLPLOGY_CHANGE_BIT else 0)
     OR (if ack \<and> tcAck p then TOLPLOGY_CHANGE_ACK_BIT else 0)"

definition rstp_flags :: "port_t \<Rightarrow> u8" where
  "rstp_flags p = tx_flags False p OR push_bit PORT_ROLE_OFFS (role_bits (selectedRole p))
     OR (if agree p then AGREEMENT_BIT else 0) OR (if proposing p then PROPOSAL_BIT else 0)
     OR (if learning p then LEARN_BIT else 0) OR (if forwarding p then FORWARD_BIT else 0)"

definition tx_body :: "u8 \<Rightarrow> port_t \<Rightarrow> bpdu_body_t \<Rightarrow> bpdu_body_t" where
  "tx_body fl p b = (STP_set_times (portTimes p) (STP_VECT_set_vector (portPrio p) b))\<lparr> flags := fl \<rparr>"

definition tx_packet :: "u8 \<Rightarrow> u8 \<Rightarrow> u16 \<Rightarrow> bpdu_body_t \<Rightarrow> glob \<Rightarrow> stp_bpdu_t" where
  "tx_packet type ver len bd g = (bpdu_packet g)\<lparr>
     mac := (mac (bpdu_packet g))\<lparr> src_mac := take 6 (rstp_dev_mac g) \<rparr>,
     hdr := (hdr (bpdu_packet g))\<lparr> bpdu_type := type, version := ver \<rparr>,
     eth := (eth (bpdu_packet g))\<lparr> len8023 := store16 len \<rparr>, body := bd \<rparr>"

lemma set_body_flags_twice [simp]:
  "set_body_flags f (set_body_flags h g) = set_body_flags (f \<circ> h) g"
  by (simp add: set_body_flags_def)

lemma build_config_bpdu_eq:
  "build_config_bpdu p ack g = g\<lparr> bpdu_packet := (bpdu_packet g)\<lparr>
     body := tx_body (tx_flags ack p) p (body (bpdu_packet g)) \<rparr> \<rparr>"
  by (simp add: build_config_bpdu_def set_body_flags_def tx_body_def tx_flags_def Let_def
      STP_VECT_set_vector_def STP_set_times_def)

lemma set_rstp_flags_eq:
  "set_rstp_flags p (g\<lparr> bpdu_packet := pkt\<lparr> body := tx_body (tx_flags False p) p bd \<rparr> \<rparr>) =
   g\<lparr> bpdu_packet := pkt\<lparr> body := tx_body (rstp_flags p) p bd \<rparr> \<rparr>"
  by (simp add: set_rstp_flags_def set_body_flags_def tx_body_def rstp_flags_def Let_def or.assoc)

lemma wf_tx_body: "wf_vector (portPrio p) \<Longrightarrow> wf_body b \<Longrightarrow> wf_body (tx_body fl p b)"
  by (simp add: tx_body_def wf_set_times wf_set_vector)

lemma wf_tx_packet:
  "wf_bpdu (bpdu_packet g) \<Longrightarrow> length (rstp_dev_mac g) = 6 \<Longrightarrow> wf_body bd \<Longrightarrow>
   wf_bpdu (tx_packet type ver len bd g)"
  by (simp add: wf_bpdu_def tx_packet_def)

text \<open>What \<^verbatim>\<open>txRstp\<close>, \<^verbatim>\<open>txConfig\<close> and \<^verbatim>\<open>txTcn\<close> send when they send.\<close>

definition send_packet :: "env \<Rightarrow> port_t \<Rightarrow> stp_bpdu_t \<Rightarrow> glob \<Rightarrow> glob" where
  "send_packet e p pkt g = halAppApiCallSync (Eopl_send_to_down_link (port_index p)
     (take 64 (bpdu_bytes pkt @ mem_after_bpdu_packet e))) (g\<lparr> bpdu_packet := pkt \<rparr>)"

lemma txRstp_sends:
  assumes "skip_tx p = 0" "\<not> admin_non_stp p"
  shows "snd (txRstp e b g p) = (send_packet e p
     (tx_packet BPDU_RSTP BPDU_VERSION_RAPID_ID 40
     (tx_body (rstp_flags p) p (body (bpdu_packet g))) g) g, p)"
  using assms
  by (simp add: txRstp_def build_bpdu_header_def build_config_bpdu_eq set_rstp_flags_eq
      tx_packet_def send_packet_def STP_OUT_get_port_mac_def STP_OUT_tx_bpdu_def packet_memory_def sizeof_defs
      bpdu_consts MIN_FRAME_LENGTH_def byte_order Let_def)

lemma txConfig_sends:
  assumes "skip_tx p = 0" "\<not> admin_non_stp p"
  shows "snd (txConfig e b g p) = (send_packet e p
     (tx_packet BPDU_CONFIG_TYPE BPDU_VERSION_ID 38
     (tx_body (tx_flags True p) p (body (bpdu_packet g))) g) g, p)"
  using assms
  by (simp add: txConfig_def build_bpdu_header_def build_config_bpdu_eq
      tx_packet_def send_packet_def STP_OUT_get_port_mac_def STP_OUT_tx_bpdu_def packet_memory_def sizeof_defs
      bpdu_consts MIN_FRAME_LENGTH_def byte_order Let_def)

lemma txTcn_sends:
  assumes "skip_tx p = 0" "\<not> admin_non_stp p"
  shows "snd (txTcn e b g p) = (send_packet e p
     (tx_packet BPDU_TOPO_CHANGE_TYPE BPDU_VERSION_ID 7 (body (bpdu_packet g)) g) g, p)"
  using assms
  by (simp add: txTcn_def build_bpdu_header_def
      tx_packet_def send_packet_def STP_OUT_get_port_mac_def STP_OUT_tx_bpdu_def packet_memory_def sizeof_defs
      bpdu_consts MIN_FRAME_LENGTH_def byte_order Let_def)

subsection \<open>Properties\<close>

text \<open>C27: as long as the root's hello time is not 0, the transmit machine stops after at most six
  moves, whatever state it is in, and the number of frames counted against the hold limit of
  three per second never exceeds it.\<close>

theorem transmit_stops_within_hold_count:
  assumes "HelloTime (rootTimes b) \<noteq> 0" "transmit_inv p"
  shows "\<exists>n g' p'. STP_change_state (transmit_mach e b) (g, p) = Some (n, (g', p')) \<and> n \<le> 6
    \<and> \<not> changeState (transmit p') \<and> transmit_inv p' \<and> txCount p' \<le> TxHoldCount"
proof -
  have "hello_set b (g, p)" using assms(1) by (simp add: hello_set_def)
  from transmit_m.change_state_returns [OF this] obtain n g' p' where
    ret: "STP_change_state (transmit_mach e b) (g, p) = Some (n, (g', p'))"
    and n: "n \<le> transmit_rank (g, p) + 1" and "\<not> changeState (transmit p')" by fastforce
  moreover have "transmit_inv p'"
    using transmit_i.change_state_keeps [OF ret] assms(2) by simp
  moreover have "transmit_rank (g, p) \<le> 5"
    by (simp add: transmit_rank_def split: mach_st.split transmit_st.split)
  ultimately show ?thesis by (auto simp: transmit_inv_def)
qed

definition example_hello_bridge :: stpm_t where
  "example_hello_bridge = zero_stpm\<lparr> rootTimes := zero_times\<lparr> HelloTime := 2 \<rparr> \<rparr>"

theorem transmit_stops_within_hold_count_witness:
  "HelloTime (rootTimes example_hello_bridge) \<noteq> 0 \<and> transmit_inv zero_port
   \<and> (\<exists>n g' p'. STP_change_state (transmit_mach example_env example_hello_bridge) (init_glob, zero_port)
        = Some (n, (g', p')) \<and> n \<le> 6)"
proof -
  have h: "HelloTime (rootTimes example_hello_bridge) \<noteq> 0" by (simp add: example_hello_bridge_def)
  have i: "transmit_inv zero_port" by (simp add: transmit_inv_def zero_port_def STP_state_mach_create_def)
  from transmit_stops_within_hold_count [OF h i, of example_env init_glob] h i show ?thesis by blast
qed

text \<open>With a root hello time of 0, a selected port whose information is settled keeps the
  transmit machine moving between its idle and periodic states for ever: the loop of
  \<^verbatim>\<open>STP_change_state\<close> does not return.\<close>

theorem transmit_zero_hello_diverges:
  assumes "HelloTime (rootTimes b) = 0" "selected p" "\<not> updtInfo p"
    and "changeState (transmit p)" "State (transmit p) = St IDLE"
  shows "STP_change_state (transmit_mach e b) (g, p) = None"
proof (rule change_state_diverges [where C = transmit_spins])
  show "transmit_spins (g, p)" using assms by (simp add: transmit_spins_def)
  fix w assume "transmit_spins w"
  then show "get_changeState (transmit_mach e b) w
      \<and> transmit_spins (change_state_step (transmit_mach e b) w)"
    using transmit_spins_closed [OF assms(1)] by (simp add: transmit_spins_def)
qed

definition example_spinning_port :: port_t where
  "example_spinning_port = zero_port\<lparr> selected := True,
     transmit := STP_hop_2_state IDLE (transmit zero_port) \<rparr>"

theorem transmit_zero_hello_diverges_witness:
  "HelloTime (rootTimes zero_stpm) = 0 \<and>
   STP_change_state (transmit_mach example_env zero_stpm) (init_glob, example_spinning_port) = None"
proof -
  have "HelloTime (rootTimes zero_stpm) = 0" by (simp add: zero_stpm_def zero_times_def)
  moreover have "selected example_spinning_port" "\<not> updtInfo example_spinning_port"
    "changeState (transmit example_spinning_port)" "State (transmit example_spinning_port) = St IDLE"
    by (simp_all add: example_spinning_port_def zero_port_def)
  ultimately show ?thesis using transmit_zero_hello_diverges by blast
qed

text \<open>C37: every frame the machine sends is 64 bytes read from a 54-byte structure: its last ten
  bytes are whatever the linker put after the static packet.\<close>

theorem tx_frame_reads_past_packet:
  assumes "skip_tx p = 0" "\<not> admin_non_stp p" "wf_bpdu (bpdu_packet g)" "wf_vector (portPrio p)"
    and "length (rstp_dev_mac g) = 6" "10 \<le> length (mem_after_bpdu_packet e)"
  shows "\<exists>pkt. wf_bpdu pkt \<and> hal_calls (fst (snd (txRstp e b g p))) = hal_calls g @
     [Eopl_send_to_down_link (port_index p) (bpdu_bytes pkt @ take 10 (mem_after_bpdu_packet e))]"
proof -
  define pkt where "pkt = tx_packet BPDU_RSTP BPDU_VERSION_RAPID_ID 40
     (tx_body (rstp_flags p) p (body (bpdu_packet g))) g"
  have wf: "wf_bpdu pkt"
    using assms(3-5) by (simp add: pkt_def wf_tx_packet wf_tx_body wf_bpdu_def [of "bpdu_packet g"])
  then show ?thesis
    using txRstp_sends [OF assms(1,2), of e b g] length_bpdu_bytes [OF wf]
    by (intro exI [of _ pkt]) (simp add: pkt_def [symmetric] send_packet_def sizeof_defs)
qed

theorem tx_frame_reads_past_packet_witness:
  "wf_bpdu (bpdu_packet init_glob) \<and> (\<exists>pkt. wf_bpdu pkt \<and>
     hal_calls (fst (snd (txRstp example_env zero_stpm init_glob (zero_port\<lparr> port_index := 3 \<rparr>)))) =
     [Eopl_send_to_down_link 3 (bpdu_bytes pkt @ replicate 10 0xAA)])"
proof -
  let ?p = "zero_port\<lparr> port_index := 3 \<rparr>"
  have wf: "wf_bpdu (bpdu_packet init_glob)"
    by (simp add: wf_bpdu_def wf_body_def init_glob_def init_bpdu_packet_def)
  moreover have "skip_tx ?p = 0" "\<not> admin_non_stp ?p" "wf_vector (portPrio ?p)"
    by (simp_all add: zero_port_def zero_vector_def wf_vector_def wf_bridge_id_def STP_VECT_create_def
        zero_bridge_id_def)
  moreover have "length (rstp_dev_mac init_glob) = 6" "10 \<le> length (mem_after_bpdu_packet example_env)"
    by (simp_all add: init_glob_def example_env_def)
  ultimately show ?thesis
    using tx_frame_reads_past_packet [of ?p init_glob example_env zero_stpm]
    by (simp add: example_env_def init_glob_def)
qed

end
