(* ===== verification/Rstp_Portinfo.thy ===== *)
theory Rstp_Portinfo
  imports Rstp_Machine
begin

unbundle bit_operations_syntax

text \<open>
  The port information machine (\<^verbatim>\<open>rstp/src/rstp_portinfo.c\<close>): it takes a received BPDU apart,
  classifies the message against what the port knows, and records priorities, times and flags.
  The loop detection writes the tables indexed by the low byte of the port identifier; the model
  follows it for the identifiers the engine gives out, whose low byte is a port number from 1.
\<close>

definition betterorsameInfo :: "info_is_t \<Rightarrow> port_t \<Rightarrow> bool" where
  "betterorsameInfo newInfoIs port \<longleftrightarrow>
     (newInfoIs = Received \<and> infoIs port = Received
        \<and> STP_VECT_compare_vector (msgPrio port) (portPrio port) \<le> 0)
   \<or> (newInfoIs = Mine \<and> infoIs port = Mine
        \<and> STP_VECT_compare_vector (designPrio port) (portPrio port) \<le> 0)"

text \<open>\<^verbatim>\<open>rcvBpdu\<close>: the role the message conveys, and the kind of the message.\<close>

definition msg_role :: "port_t \<Rightarrow> u8" where
  "msg_role port =
     (if BPDU_RSTP = msgBpduType port then drop_bit PORT_ROLE_OFFS (msgFlags port AND PORT_ROLE_MASK)
      else if BPDU_CONFIG_TYPE = msgBpduType port then RSTP_PORT_ROLE_DESGN
      else RSTP_PORT_ROLE_UNKN)"

definition msg_kind :: "port_t \<Rightarrow> rcvd_msg_t" where
  "msg_kind port =
     (let desgn = (RSTP_PORT_ROLE_DESGN = msgPortRole port \<or> BPDU_CONFIG_TYPE = msgBpduType port);
          bridcmp = STP_VECT_compare_vector (msgPrio port) (portPrio port);
          same_bridge = (STP_VECT_compare_bridge_id (design_bridge (msgPrio port))
                           (design_bridge (portPrio port)) = 0)
      in if desgn \<and> (bridcmp < 0 \<or> same_bridge
              \<and> design_port (msgPrio port) = design_port (portPrio port)
              \<and> STP_compare_times (msgTimes port) (portTimes port) \<noteq> 0)
         then SuperiorDesignateMsg
         else if desgn \<and> bridcmp = 0 \<and> STP_compare_times (msgTimes port) (portTimes port) = 0
         then RepeatedDesignateMsg
         else if RSTP_PORT_ROLE_ROOT = msgBpduType port \<and> operPointToPointMac port \<and> same_bridge
              \<and> AGREEMENT_BIT AND msgFlags port \<noteq> 0
         then ConfirmedRootMsg
         else OtherMsg)"

definition rcvBpdu :: "port_t \<Rightarrow> rcvd_msg_t \<times> port_t" where
  "rcvBpdu port =
     (if msgBpduType port = BPDU_TOPO_CHANGE_TYPE then (OtherMsg, port)
      else let port = port\<lparr> msgPortRole := msg_role port \<rparr> in (msg_kind port, port))"

text \<open>\<^verbatim>\<open>rcvInfo\<close>: the loop detection, then the classification of the message.\<close>

definition loop_detect :: "int \<Rightarrow> port_t \<Rightarrow> glob \<Rightarrow> glob" where
  "loop_detect bridcmp port g =
     (let portid = (ucast (port_id port) :: u8);
          k = nat (uint portid - 1)
      in if bOnePortLoopDetectEn g ! k \<noteq> 0 \<and> abPortLoop g ! k \<noteq> 0
            \<and> bridcmp = 0 \<and> design_port (msgPrio port) = port_id port
         then let g = halAppApiCallSync (OdmPhyAdminStateSet (uint portid) 0) g;
                  g = g\<lparr> bOnePortLooptimer := (bOnePortLooptimer g)[k := bOnePortLoopWhile g ! k] \<rparr>
              in g\<lparr> rstpwarningstate := (rstpwarningstate g)[k := 1] \<rparr>
         else g)"

definition msg_info :: "int \<Rightarrow> int \<Rightarrow> port_t \<Rightarrow> port_info_t" where
  "msg_info bridcmp timecmp port =
     (if RSTP_PORT_ROLE_DESGN = msgPortRole port \<and> (bridcmp < 0 \<or> bridcmp = 0 \<and> timecmp \<noteq> 0)
      then SuperiorDesignatedInfo
      else if RSTP_PORT_ROLE_DESGN = msgPortRole port \<and> bridcmp = 0 \<and> timecmp = 0
      then RepeatedDesignatedInfo
      else if RSTP_PORT_ROLE_DESGN = msgPortRole port \<and> 0 < bridcmp
      then InferiorDesignatedInfo
      else if RSTP_PORT_ROLE_ROOT = msgPortRole port \<and> bridcmp \<le> 0
      then InferiorRootAlternateInfo
      else OtherInfo)"

definition rcvInfo :: "glob \<Rightarrow> port_t \<Rightarrow> port_info_t \<times> pworld" where
  "rcvInfo g port =
     (let (m, port) = rcvBpdu port;
          port = port\<lparr> rcvdMsg := m \<rparr>;
          bridcmp = STP_VECT_compare_vector (msgPrio port) (portPrio port);
          timecmp = STP_compare_times (msgTimes port) (portTimes port)
      in (msg_info bridcmp timecmp port, (loop_detect bridcmp port g, port)))"

definition recordProposal :: "port_t \<Rightarrow> port_t" where
  "recordProposal port =
     (if RSTP_PORT_ROLE_DESGN = msgPortRole port \<and> proposing port
      then port\<lparr> proposed := True \<rparr> else port)"

definition recordPriority :: "port_t \<Rightarrow> port_t" where
  "recordPriority port = port\<lparr> portPrio := STP_VECT_copy (portPrio port) (msgPrio port) \<rparr>"

definition HELLOTIME_COMP_MIN_VAL :: u16 where "HELLOTIME_COMP_MIN_VAL = 1"

definition recordTimes :: "port_t \<Rightarrow> port_t" where
  "recordTimes port =
     (let port = port\<lparr> portTimes := STP_copy_times (portTimes port) (msgTimes port) \<rparr>
      in if HELLOTIME_COMP_MIN_VAL > HelloTime (msgTimes port)
         then port\<lparr> portTimes := (portTimes port)\<lparr> HelloTime := HELLOTIME_COMP_MIN_VAL \<rparr> \<rparr>
         else port)"

definition recordDispute :: "port_t \<Rightarrow> port_t" where
  "recordDispute port =
     (if rcvdRSTP port \<and> learning port then port\<lparr> agreed := True, proposing := False \<rparr> else port)"

definition recordAgreement :: "stpm_t \<Rightarrow> port_t \<Rightarrow> port_t" where
  "recordAgreement stpm port =
     (let rstpVersion = (ForceVersion stpm \<ge> NORMAL_RSTP)
      in if rstpVersion \<and> operPointToPointMac port \<and> AGREEMENT_BIT AND msgFlags port \<noteq> 0
         then port\<lparr> agreed := True, proposing := False \<rparr>
         else port\<lparr> agreed := False \<rparr>)"

definition recordProposed :: "port_t \<Rightarrow> bool" where
  "recordProposed port \<longleftrightarrow> RSTP_PORT_ROLE_DESGN = msgPortRole port
     \<and> PROPOSAL_BIT AND msgFlags port \<noteq> 0 \<and> operPointToPointMac port"

definition setTcFlags :: "port_t \<Rightarrow> port_t" where
  "setTcFlags port =
     (if BPDU_TOPO_CHANGE_TYPE = msgBpduType port then port\<lparr> rcvdTcn := True \<rparr>
      else
        let port = (if TOLPLOGY_CHANGE_BIT AND msgFlags port \<noteq> 0 then port\<lparr> rcvdTc := True \<rparr> else port)
        in if TOLPLOGY_CHANGE_ACK_BIT AND msgFlags port \<noteq> 0 then port\<lparr> rcvdTcAck := True \<rparr> else port)"

definition updtRcvdInfoWhile :: "port_t \<Rightarrow> port_t" where
  "updtRcvdInfoWhile port =
     (let MaxAge_i = uint (MaxAge (portTimes port));
          eff_age = MaxAge_i div 16;
          eff_age = (if eff_age < 1 then 1 else eff_age);
          eff_age = eff_age + uint (MessageAge (portTimes port))
      in if eff_age \<le> MaxAge_i
         then let hello3 = 3 * uint (HelloTime (portTimes port));
                  dm = MaxAge_i - eff_age;
                  dt = (if dm > hello3 then hello3 else dm)
              in port\<lparr> rcvdInfoWhile := word_of_int dt \<rparr>
         else port\<lparr> rcvdInfoWhile := 0 \<rparr>)"

text \<open>A received BPDU is only copied into the port; the machines act on it later.\<close>

definition copy_msg :: "stp_bpdu_t \<Rightarrow> port_t \<Rightarrow> port_t" where
  "copy_msg bpdu port =
     (let port = port\<lparr> msgBpduVersion := version (hdr bpdu), msgBpduType := bpdu_type (hdr bpdu),
                       msgFlags := flags (body bpdu) \<rparr>;
          port = port\<lparr> msgPrio := STP_VECT_get_vector (body bpdu) (msgPrio port) \<rparr>;
          port = port\<lparr> msgPrio := (msgPrio port)\<lparr> bridge_port := port_id port \<rparr> \<rparr>
      in port\<lparr> msgTimes := STP_get_times (body bpdu) \<rparr>)"

definition STP_info_rx_bpdu :: "stpm_t \<Rightarrow> stp_bpdu_t \<Rightarrow> port_t \<Rightarrow> port_t" where
  "STP_info_rx_bpdu stpm bpdu port =
     (if bpdu_type (hdr bpdu) = BPDU_CONFIG_TYPE then
        let port = port\<lparr> rx_cfg_bpdu_cnt := rx_cfg_bpdu_cnt port + 1 \<rparr>
        in if admin_non_stp port then port else copy_msg bpdu (port\<lparr> rcvdBpdu := True \<rparr>)
      else if bpdu_type (hdr bpdu) = BPDU_TOPO_CHANGE_TYPE then
        let port = port\<lparr> rx_tcn_bpdu_cnt := rx_tcn_bpdu_cnt port + 1 \<rparr>
        in if admin_non_stp port then port
           else port\<lparr> rcvdBpdu := True, msgBpduVersion := version (hdr bpdu),
                      msgBpduType := bpdu_type (hdr bpdu) \<rparr>
      else if bpdu_type (hdr bpdu) = BPDU_RSTP then
        let port = port\<lparr> rx_rstp_bpdu_cnt := rx_rstp_bpdu_cnt port + 1 \<rparr>
        in if admin_non_stp port then port
           else if ForceVersion stpm \<ge> NORMAL_RSTP then copy_msg bpdu (port\<lparr> rcvdBpdu := True \<rparr>)
           else port
      else port)"

definition enter_RSTP_PORT_DISABLED :: "port_t \<Rightarrow> port_t" where
  "enter_RSTP_PORT_DISABLED port =
     port\<lparr> rcvdMsg := rcvd_msg_of_Bool False, proposing := False, proposed := False, agree := False,
           agreed := False, rcvdInfoWhile := 0, infoIs := Disabled, reselect := True,
           selected := False \<rparr>"

definition enter_UPDATE :: "port_t \<Rightarrow> port_t" where
  "enter_UPDATE port =
     (let port = port\<lparr> proposing := False, proposed := False \<rparr>;
          port = port\<lparr> agreed := agreed port \<and> betterorsameInfo (infoIs port) port \<rparr>;
          port = port\<lparr> synced := synced port \<and> agreed port \<rparr>;
          port = port\<lparr> portPrio := STP_VECT_copy (portPrio port) (designPrio port),
                       portTimes := STP_copy_times (portTimes port) (designTimes port) \<rparr>
      in port\<lparr> updtInfo := False, infoIs := Mine, newInfo := True \<rparr>)"

definition enter_SUPERIOR_DESIGNATED :: "port_t \<Rightarrow> port_t" where
  "enter_SUPERIOR_DESIGNATED port =
     (let port = port\<lparr> proposing := False, agreed := False \<rparr>;
          port = setTcFlags (recordProposal port);
          port = port\<lparr> agree := agree port \<and> betterorsameInfo (infoIs port) port \<rparr>;
          port = updtRcvdInfoWhile (recordTimes (recordPriority port))
      in port\<lparr> infoIs := Received, reselect := True, selected := False,
               rcvdMsg := rcvd_msg_of_Bool False \<rparr>)"

definition STP_info_enter_state :: "stpm_t \<Rightarrow> glob \<Rightarrow> port_t \<Rightarrow> pworld" where
  "STP_info_enter_state stpm g port =
     (case State (info port) of
        BEGIN \<Rightarrow> (g, enter_RSTP_PORT_DISABLED port)
      | St RSTP_PORT_DISABLED \<Rightarrow> (g, enter_RSTP_PORT_DISABLED port)
      | St AGED \<Rightarrow> (g, port\<lparr> infoIs := Aged, reselect := True, selected := False \<rparr>)
      | St UPDATE \<Rightarrow> (g, enter_UPDATE port)
      | St CURRENT \<Rightarrow> (g, port)
      | St INFO_RECEIVE \<Rightarrow>
          (let (i, (g, port)) = rcvInfo g port in (g, port\<lparr> rcvdInfo := i \<rparr>))
      | St SUPERIOR_DESIGNATED \<Rightarrow> (g, enter_SUPERIOR_DESIGNATED port)
      | St REPEATED_DESIGNATED \<Rightarrow>
          (g, (updtRcvdInfoWhile (setTcFlags (recordProposal port)))\<lparr> rcvdMsg := rcvd_msg_of_Bool False \<rparr>)
      | St INFERIOR_DESIGNATED \<Rightarrow>
          (g, (recordDispute port)\<lparr> rcvdMsg := rcvd_msg_of_Bool False \<rparr>)
      | St NOT_DESIGNATED \<Rightarrow>
          (g, (setTcFlags (recordAgreement stpm port))\<lparr> rcvdMsg := rcvd_msg_of_Bool False \<rparr>)
      | St OTHER \<Rightarrow> (g, port\<lparr> rcvdMsg := rcvd_msg_of_Bool False \<rparr>))"

definition hop_info :: "info_st \<Rightarrow> port_t \<Rightarrow> bool \<times> port_t" where
  "hop_info s port = (True, port\<lparr> info := STP_hop_2_state s (info port) \<rparr>)"

definition STP_info_check_conditions :: "port_t \<Rightarrow> bool \<times> port_t" where
  "STP_info_check_conditions port =
     (if \<not> portEnabled port \<and> infoIs port \<noteq> Disabled then hop_info RSTP_PORT_DISABLED port
      else case State (info port) of
        BEGIN \<Rightarrow> hop_info RSTP_PORT_DISABLED port
      | St RSTP_PORT_DISABLED \<Rightarrow>
          if Bool_of_rcvd_msg (rcvdMsg port) then hop_info RSTP_PORT_DISABLED port
          else if portEnabled port then hop_info AGED port
          else (False, port)
      | St AGED \<Rightarrow> if selected port \<and> updtInfo port then hop_info UPDATE port else (False, port)
      | St UPDATE \<Rightarrow> hop_info CURRENT port
      | St CURRENT \<Rightarrow>
          if selected port \<and> updtInfo port then hop_info UPDATE port
          else if infoIs port = Received \<and> rcvdInfoWhile port = 0 \<and> \<not> updtInfo port
              \<and> \<not> Bool_of_rcvd_msg (rcvdMsg port)
          then hop_info AGED port
          else if Bool_of_rcvd_msg (rcvdMsg port) \<and> \<not> updtInfo port then hop_info INFO_RECEIVE port
          else (False, port)
      | St INFO_RECEIVE \<Rightarrow>
          (case rcvdInfo port of
             SuperiorDesignatedInfo \<Rightarrow> hop_info SUPERIOR_DESIGNATED port
           | RepeatedDesignatedInfo \<Rightarrow> hop_info REPEATED_DESIGNATED port
           | InferiorDesignatedInfo \<Rightarrow> hop_info INFERIOR_DESIGNATED port
           | InferiorRootAlternateInfo \<Rightarrow> hop_info NOT_DESIGNATED port
           | OtherInfo \<Rightarrow> hop_info OTHER port)
      | St _ \<Rightarrow> hop_info CURRENT port)"

definition info_mach :: "stpm_t \<Rightarrow> pworld stater" where
  "info_mach b = port_stater (STP_info_enter_state b) STP_info_check_conditions
     (\<lambda>p. changeState (info p)) (\<lambda>c p. p\<lparr> info := (info p)\<lparr> changeState := c \<rparr> \<rparr>)"

subsection \<open>Which fields the actions write\<close>

lemma recordProposal_upd: "\<exists>x. recordProposal p = p\<lparr> proposed := x \<rparr>"
  by (cases p) (auto simp: recordProposal_def)

lemma recordDispute_upd: "\<exists>x y. recordDispute p = p\<lparr> agreed := x, proposing := y \<rparr>"
  by (cases p) (auto simp: recordDispute_def)

lemma recordAgreement_upd: "\<exists>x y. recordAgreement b p = p\<lparr> agreed := x, proposing := y \<rparr>"
  by (cases p) (auto simp: recordAgreement_def Let_def)

lemma setTcFlags_upd: "\<exists>x y z. setTcFlags p = p\<lparr> rcvdTc := x, rcvdTcAck := y, rcvdTcn := z \<rparr>"
  by (cases p) (auto simp: setTcFlags_def Let_def)

lemma updtRcvdInfoWhile_upd: "\<exists>x. updtRcvdInfoWhile p = p\<lparr> rcvdInfoWhile := x \<rparr>"
  by (cases p) (auto simp: updtRcvdInfoWhile_def Let_def)

lemma recordTimes_upd: "\<exists>t. recordTimes p = p\<lparr> portTimes := t \<rparr> \<and> HelloTime t \<noteq> 0"
  by (cases p) (auto simp: recordTimes_def HELLOTIME_COMP_MIN_VAL_def Let_def)

lemma rcvInfo_upd: "\<exists>m x. snd (snd (rcvInfo g p)) = p\<lparr> rcvdMsg := m, msgPortRole := x \<rparr>"
proof (cases "msgBpduType p = BPDU_TOPO_CHANGE_TYPE")
  case True
  then have "snd (snd (rcvInfo g p)) = p\<lparr> rcvdMsg := OtherMsg, msgPortRole := msgPortRole p \<rparr>"
    by (simp add: rcvInfo_def rcvBpdu_def Let_def)
  then show ?thesis by blast
next
  case False
  then have "snd (snd (rcvInfo g p)) =
      p\<lparr> rcvdMsg := msg_kind (p\<lparr> msgPortRole := msg_role p \<rparr>), msgPortRole := msg_role p \<rparr>"
    by (simp add: rcvInfo_def rcvBpdu_def Let_def)
  then show ?thesis by blast
qed

text \<open>What the entry action leaves in the fields the conditions read.\<close>

lemma enter_SUPERIOR_upd:
  "\<exists>a b c d e f t. enter_SUPERIOR_DESIGNATED p = p\<lparr> proposing := False, agreed := False,
     proposed := a, rcvdTc := b, rcvdTcAck := c, rcvdTcn := d, agree := e, portPrio := msgPrio p,
     portTimes := t, rcvdInfoWhile := f, infoIs := Received, reselect := True, selected := False,
     rcvdMsg := SuperiorDesignateMsg \<rparr> \<and> HelloTime t \<noteq> 0"
proof -
  let ?p0 = "p\<lparr> proposing := False, agreed := False \<rparr>"
  obtain a where a: "recordProposal ?p0 = ?p0\<lparr> proposed := a \<rparr>" using recordProposal_upd by blast
  let ?p1 = "?p0\<lparr> proposed := a \<rparr>"
  obtain b c d where b: "setTcFlags ?p1 = ?p1\<lparr> rcvdTc := b, rcvdTcAck := c, rcvdTcn := d \<rparr>"
    using setTcFlags_upd by blast
  let ?p2 = "?p1\<lparr> rcvdTc := b, rcvdTcAck := c, rcvdTcn := d \<rparr>"
  define e where "e = (agree ?p2 \<and> betterorsameInfo (infoIs ?p2) ?p2)"
  let ?p3 = "?p2\<lparr> agree := e, portPrio := msgPrio p \<rparr>"
  obtain t where t: "recordTimes ?p3 = ?p3\<lparr> portTimes := t \<rparr>" "HelloTime t \<noteq> 0"
    using recordTimes_upd by blast
  let ?p4 = "?p3\<lparr> portTimes := t \<rparr>"
  obtain f where f: "updtRcvdInfoWhile ?p4 = ?p4\<lparr> rcvdInfoWhile := f \<rparr>"
    using updtRcvdInfoWhile_upd by blast
  have "recordPriority (?p2\<lparr> agree := e \<rparr>) = ?p3"
    by (simp add: recordPriority_def STP_VECT_copy_def)
  then have "enter_SUPERIOR_DESIGNATED p = ?p4\<lparr> rcvdInfoWhile := f, infoIs := Received,
      reselect := True, selected := False, rcvdMsg := SuperiorDesignateMsg \<rparr>"
    unfolding enter_SUPERIOR_DESIGNATED_def Let_def a b e_def [symmetric] t(1) f
    by (simp add: t(1) f rcvd_msg_of_Bool_def)
  with t(2) show ?thesis by blast
qed

lemma upd_simps [simp]:
  "info (recordProposal p) = info p" "portEnabled (recordProposal p) = portEnabled p"
  "updtInfo (recordProposal p) = updtInfo p"
  "info (setTcFlags p) = info p" "portEnabled (setTcFlags p) = portEnabled p"
  "updtInfo (setTcFlags p) = updtInfo p"
  "info (updtRcvdInfoWhile p) = info p" "portEnabled (updtRcvdInfoWhile p) = portEnabled p"
  "updtInfo (updtRcvdInfoWhile p) = updtInfo p"
  "info (recordDispute p) = info p" "portEnabled (recordDispute p) = portEnabled p"
  "updtInfo (recordDispute p) = updtInfo p"
  "info (recordAgreement b p) = info p" "portEnabled (recordAgreement b p) = portEnabled p"
  "updtInfo (recordAgreement b p) = updtInfo p"
  using recordProposal_upd [of p] setTcFlags_upd [of p] updtRcvdInfoWhile_upd [of p]
    recordDispute_upd [of p] recordAgreement_upd [of b p]
  by auto

lemma proposed_simps [simp]:
  "proposed (setTcFlags p) = proposed p" "proposed (updtRcvdInfoWhile p) = proposed p"
  "proposed (recordTimes p) = proposed p"
  using setTcFlags_upd [of p] updtRcvdInfoWhile_upd [of p] recordTimes_upd [of p] by auto

lemma rcvInfo_simps [simp]:
  "info (snd (snd (rcvInfo g p))) = info p" "portEnabled (snd (snd (rcvInfo g p))) = portEnabled p"
  "updtInfo (snd (snd (rcvInfo g p))) = updtInfo p"
  using rcvInfo_upd [of g p] by auto

lemma enter_SUPERIOR_simps [simp]:
  "info (enter_SUPERIOR_DESIGNATED p) = info p"
  "portEnabled (enter_SUPERIOR_DESIGNATED p) = portEnabled p"
  "updtInfo (enter_SUPERIOR_DESIGNATED p) = updtInfo p"
  "rcvdMsg (enter_SUPERIOR_DESIGNATED p) = SuperiorDesignateMsg"
  "infoIs (enter_SUPERIOR_DESIGNATED p) = Received"
  "\<not> selected (enter_SUPERIOR_DESIGNATED p)"
  "HelloTime (portTimes (enter_SUPERIOR_DESIGNATED p)) \<noteq> 0"
  "portPrio (enter_SUPERIOR_DESIGNATED p) = msgPrio p"
  using enter_SUPERIOR_upd [of p] by auto

lemma info_enter_INFO_RECEIVE:
  "State (info p) = St INFO_RECEIVE \<Longrightarrow> snd (STP_info_enter_state b g p) =
     (snd (snd (rcvInfo g p)))\<lparr> rcvdInfo := fst (rcvInfo g p) \<rparr>"
  by (simp add: STP_info_enter_state_def split: prod.split)

lemma info_enter_kept:
  "info (snd (STP_info_enter_state b g p)) = info p
   \<and> portEnabled (snd (STP_info_enter_state b g p)) = portEnabled p"
proof (cases "State (info p)")
  case BEGIN
  then show ?thesis by (simp add: STP_info_enter_state_def enter_RSTP_PORT_DISABLED_def)
next
  case (St s)
  then show ?thesis
    by (cases s) (simp_all add: info_enter_INFO_RECEIVE, simp_all add: STP_info_enter_state_def
        enter_RSTP_PORT_DISABLED_def enter_UPDATE_def Let_def)
qed

text \<open>What the entry actions leave in the fields the conditions read.\<close>

lemma info_enter_done:
  fixes p b g
  defines "q \<equiv> snd (STP_info_enter_state b g p)"
  shows "case State (info p) of
      BEGIN \<Rightarrow> infoIs q = Disabled
    | St RSTP_PORT_DISABLED \<Rightarrow> infoIs q = Disabled \<and> \<not> Bool_of_rcvd_msg (rcvdMsg q)
    | St AGED \<Rightarrow> \<not> selected q
    | St UPDATE \<Rightarrow> \<not> updtInfo q \<and> rcvdMsg q = rcvdMsg p
    | St CURRENT \<Rightarrow> q = p
    | St INFO_RECEIVE \<Rightarrow> updtInfo q = updtInfo p
    | St _ \<Rightarrow> updtInfo q = updtInfo p \<and> \<not> Bool_of_rcvd_msg (rcvdMsg q)"
proof (cases "State (info p)")
  case BEGIN
  then show ?thesis by (simp add: q_def STP_info_enter_state_def enter_RSTP_PORT_DISABLED_def)
next
  case (St s)
  then show ?thesis
    by (cases s) (simp_all add: q_def info_enter_INFO_RECEIVE, simp_all add: STP_info_enter_state_def
        enter_RSTP_PORT_DISABLED_def enter_UPDATE_def Bool_of_rcvd_msg_def Let_def rcvd_msg_of_Bool_def)
qed

subsection \<open>Termination\<close>

lemma get_info [simp]: "get_changeState (info_mach b) gp = changeState (info (snd gp))"
  by (cases gp) (simp add: info_mach_def)

lemmas info_step_port = port_step_snd
  [of "STP_info_enter_state b" STP_info_check_conditions "\<lambda>p. changeState (info p)"
    "\<lambda>c p. p\<lparr> info := (info p)\<lparr> changeState := c \<rparr> \<rparr>" for b, folded info_mach_def]

definition info_rank :: "pworld \<Rightarrow> nat" where
  "info_rank gp = (let p = snd gp; u = (if updtInfo p then 8 else 0);
       m = (if Bool_of_rcvd_msg (rcvdMsg p) then 4 else 0) in
     case State (info p) of
       BEGIN \<Rightarrow> 2
     | St RSTP_PORT_DISABLED \<Rightarrow> if portEnabled p then 1 else 0
     | St AGED \<Rightarrow> if portEnabled p then 0 else 1
     | St UPDATE \<Rightarrow> 3 + m
     | St CURRENT \<Rightarrow> 2 + u + m
     | St INFO_RECEIVE \<Rightarrow> 4 + u
     | St _ \<Rightarrow> 3 + u)"

lemma info_rank_decreases:
  assumes "changeState (info (snd (change_state_step (info_mach b) gp)))"
  shows "info_rank (change_state_step (info_mach b) gp) < info_rank gp"
proof -
  define q where "q = snd (STP_info_enter_state b (fst gp) (snd gp))"
  have kept: "info q = info (snd gp)" "portEnabled q = portEnabled (snd gp)"
    unfolding q_def using info_enter_kept by blast+
  note post = info_enter_done [where p = "snd gp" and g = "fst gp" and b = b, folded q_def]
  show ?thesis
  proof (cases "State (info (snd gp))")
    case BEGIN
    then show ?thesis using assms kept post
      by (auto simp: info_rank_def info_step_port q_def [symmetric] STP_info_check_conditions_def
          hop_info_def Let_def split: if_splits)
  next
    case (St s)
    then show ?thesis using assms kept post
      by (cases s) (auto simp: info_rank_def info_step_port q_def [symmetric]
          STP_info_check_conditions_def hop_info_def Let_def split: if_splits port_info_t.splits)
  qed
qed

interpretation info_m: ranked_machine "info_mach b" "\<lambda>_. True" info_rank for b
  by unfold_locales (simp_all add: info_rank_decreases)

subsection \<open>The invariant of the recorded information\<close>

text \<open>
  The vectors keep six-byte addresses, and the times of a port that lives on received
  information have a hello time of at least one second.
\<close>

definition info_inv :: "port_t \<Rightarrow> bool" where
  "info_inv p \<longleftrightarrow> wf_vector (msgPrio p) \<and> wf_vector (portPrio p) \<and> wf_vector (designPrio p)
     \<and> (infoIs p = Received \<longrightarrow> HelloTime (portTimes p) \<noteq> 0)"

lemma info_inv_upds:
  "info_inv (p\<lparr> info := x \<rparr>) = info_inv p"
  "info_inv (p\<lparr> rcvdMsg := m \<rparr>) = info_inv p"
  "info_inv (p\<lparr> rcvdInfo := i \<rparr>) = info_inv p"
  by (simp_all add: info_inv_def)

lemma info_inv_actions:
  "info_inv (recordProposal p) = info_inv p" "info_inv (setTcFlags p) = info_inv p"
  "info_inv (updtRcvdInfoWhile p) = info_inv p" "info_inv (recordDispute p) = info_inv p"
  "info_inv (recordAgreement b p) = info_inv p" "info_inv (snd (snd (rcvInfo g p))) = info_inv p"
  using recordProposal_upd [of p] setTcFlags_upd [of p] updtRcvdInfoWhile_upd [of p]
    recordDispute_upd [of p] recordAgreement_upd [of b p] rcvInfo_upd [of g p]
  by (auto simp: info_inv_def)

lemma info_inv_SUPERIOR: "info_inv p \<Longrightarrow> info_inv (enter_SUPERIOR_DESIGNATED p)"
  using enter_SUPERIOR_upd [of p] by (auto simp: info_inv_def)

lemma info_inv_enter: "info_inv p \<Longrightarrow> info_inv (snd (STP_info_enter_state b g p))"
proof (cases "State (info p)")
  case BEGIN
  assume "info_inv p"
  with BEGIN show ?thesis by (simp add: STP_info_enter_state_def enter_RSTP_PORT_DISABLED_def info_inv_def)
next
  case (St s)
  assume "info_inv p"
  with St show ?thesis
    by (cases s)
       (simp_all add: info_enter_INFO_RECEIVE info_inv_upds info_inv_actions,
        simp_all add: STP_info_enter_state_def info_inv_upds info_inv_actions info_inv_SUPERIOR,
        simp_all add: enter_RSTP_PORT_DISABLED_def enter_UPDATE_def info_inv_def Let_def STP_VECT_copy_def)
qed

lemma info_check_only: "\<exists>x. snd (STP_info_check_conditions p) = p\<lparr> info := x \<rparr>"
proof -
  have hop: "\<exists>x. snd (hop_info s p) = p\<lparr> info := x \<rparr>" for s by (auto simp: hop_info_def)
  have stay: "\<exists>x. p = p\<lparr> info := x \<rparr>" by (rule exI [of _ "info p"]) simp
  show ?thesis
    by (simp add: STP_info_check_conditions_def hop stay
        split: mach_st.split info_st.split port_info_t.split)
qed

interpretation info_i: machine_inv "info_mach b" "\<lambda>gp. info_inv (snd gp)" for b
proof (unfold_locales, goal_cases)
  case (1 w)
  then show ?case using info_inv_enter [of "snd w" b "fst w"]
    by (cases w, cases "STP_info_enter_state b (fst w) (snd w)") (simp add: info_mach_def info_inv_upds)
next
  case (2 w)
  then show ?case using info_check_only [of "snd w"]
    by (cases w) (auto simp: info_mach_def Let_def info_inv_upds split: prod.splits)
next
  case (3 c w)
  then show ?case by (cases w) (simp add: info_mach_def)
qed

subsection \<open>Properties\<close>

text \<open>C28: a message that conveys a designated role (a configuration BPDU, or an RST BPDU whose
  role bits say so) is classified by its priority vector alone as long as the vectors are
  comparable: superior when it is better than the port's vector, or the same with other times,
  repeated when vector and times are the same, inferior when it is worse.\<close>

theorem rcvInfo_classifies_designated:
  assumes "comparable (msgPrio p)" "comparable (portPrio p)"
    and "msgBpduType p = BPDU_CONFIG_TYPE
      \<or> msgBpduType p = BPDU_RSTP \<and> msg_role p = RSTP_PORT_ROLE_DESGN"
  shows "fst (rcvInfo g p) =
    (if vector_key (msgPrio p) < vector_key (portPrio p) then SuperiorDesignatedInfo
     else if vector_key (portPrio p) < vector_key (msgPrio p) then InferiorDesignatedInfo
     else if msgTimes p = portTimes p then RepeatedDesignatedInfo else SuperiorDesignatedInfo)"
proof -
  have role: "msg_role p = RSTP_PORT_ROLE_DESGN" "msgBpduType p \<noteq> BPDU_TOPO_CHANGE_TYPE"
    using assms(3) by (auto simp: msg_role_def bpdu_consts)
  have "vector_key (msgPrio p) < vector_key (portPrio p) \<longleftrightarrow> STP_VECT_compare_vector (msgPrio p) (portPrio p) < 0"
    "vector_key (portPrio p) < vector_key (msgPrio p) \<longleftrightarrow> STP_VECT_compare_vector (msgPrio p) (portPrio p) > 0"
    using compare_vector_less [of "msgPrio p" "portPrio p"] compare_vector_less [of "portPrio p" "msgPrio p"]
      vec_cmp.cmp_swap [of "msgPrio p" "portPrio p"] assms(1,2) by simp_all
  with role show ?thesis
    by (auto simp: rcvInfo_def rcvBpdu_def msg_info_def Let_def)
qed

text \<open>The time a port keeps received information is at most three hello times and never more
  than what is left of the maximum age, and the computation does not wrap.\<close>

theorem rcvdInfoWhile_bounds:
  "let p' = updtRcvdInfoWhile p; t = portTimes p in
     uint (rcvdInfoWhile p') \<le> 3 * uint (HelloTime t)
   \<and> uint (rcvdInfoWhile p') \<le> max 0 (uint (MaxAge t) - uint (MessageAge t) - 1)"
proof -
  have b: "0 \<le> uint (MaxAge (portTimes p))" "uint (MaxAge (portTimes p)) < 65536"
    "0 \<le> uint (HelloTime (portTimes p))" "uint (HelloTime (portTimes p)) < 65536"
    "0 \<le> uint (MessageAge (portTimes p))"
    using unsigned_less [where 'a = int and w = "MaxAge (portTimes p)"]
      unsigned_less [where 'a = int and w = "HelloTime (portTimes p)"] by simp_all
  have w: "uint (word_of_int x :: u32) = x" if "0 \<le> x" "x < 4294967296" for x
    using that by (simp add: uint_word_of_int take_bit_int_eq_self)
  from b show ?thesis
    by (auto simp: updtRcvdInfoWhile_def Let_def w max_def)
qed

text \<open>C36: recording a superior designated message never notes that the sender proposed: the entry
  action clears the port's own \<^verbatim>\<open>proposing\<close> and then tests that flag, not the proposal bit of the
  message.\<close>

theorem superior_designated_ignores_proposal:
  assumes "State (info p) = St SUPERIOR_DESIGNATED"
  shows "proposed (snd (STP_info_enter_state b g p)) = proposed p"
proof -
  let ?p0 = "p\<lparr> proposing := False, agreed := False \<rparr>"
  have "recordProposal ?p0 = ?p0" by (simp add: recordProposal_def)
  then have "proposed (enter_SUPERIOR_DESIGNATED p) = proposed p"
    by (simp add: enter_SUPERIOR_DESIGNATED_def recordPriority_def Let_def)
  with assms show ?thesis by (simp add: STP_info_enter_state_def)
qed

definition example_proposal :: port_t where
  "example_proposal = zero_port\<lparr> info := STP_hop_2_state SUPERIOR_DESIGNATED (info zero_port),
     msgBpduType := BPDU_RSTP, msgPortRole := RSTP_PORT_ROLE_DESGN,
     msgFlags := PROPOSAL_BIT OR push_bit PORT_ROLE_OFFS RSTP_PORT_ROLE_DESGN,
     operPointToPointMac := True \<rparr>"

theorem superior_designated_ignores_proposal_witness:
  "recordProposed example_proposal
   \<and> \<not> proposed (snd (STP_info_enter_state zero_stpm init_glob example_proposal))"
proof -
  have "State (info example_proposal) = St SUPERIOR_DESIGNATED" by (simp add: example_proposal_def)
  from superior_designated_ignores_proposal [OF this, of zero_stpm init_glob]
  have "\<not> proposed (snd (STP_info_enter_state zero_stpm init_glob example_proposal))"
    by (simp add: example_proposal_def zero_port_def)
  moreover have "recordProposed example_proposal"
    by (simp add: recordProposed_def example_proposal_def bpdu_consts)
  ultimately show ?thesis by simp
qed

definition example_msg_port :: port_t where
  "example_msg_port = zero_port\<lparr> msgBpduType := BPDU_CONFIG_TYPE,
     msgPrio := STP_VECT_create (example_bridge 4096 7) 200000 (example_bridge 32768 1) 0x8001 0x8001,
     portPrio := STP_VECT_create (example_bridge 32768 9) 0 (example_bridge 32768 9) 0x8001 0x8001 \<rparr>"

theorem rcvInfo_classifies_designated_witness:
  "comparable (msgPrio example_msg_port) \<and> comparable (portPrio example_msg_port)
   \<and> fst (rcvInfo init_glob example_msg_port) = SuperiorDesignatedInfo"
proof -
  have ok: "comparable (msgPrio example_msg_port)" "comparable (portPrio example_msg_port)"
    by (simp_all add: example_msg_port_def comparable_def wf_vector_def wf_bridge_id_def
        cost_in_range_def STP_VECT_create_def example_bridge_def)
  moreover have "msgBpduType example_msg_port = BPDU_CONFIG_TYPE" by (simp add: example_msg_port_def)
  moreover have "vector_key (msgPrio example_msg_port) < vector_key (portPrio example_msg_port)"
    by (simp add: example_msg_port_def vector_key_def bridge_key_def STP_VECT_create_def example_bridge_def)
  ultimately show ?thesis
    using rcvInfo_classifies_designated [OF ok, of init_glob] by simp
qed

end
