(* ===== verification/Rstp_Rolesel.thy ===== *)
theory Rstp_Rolesel
  imports Rstp_Machine
begin

text \<open>
  The port role selection machine (\<^verbatim>\<open>rstp/src/rstp_rolesel.c\<close>), the one machine of the bridge as a
  whole: it elects the root from the information the ports have received and gives every port
  its role.
\<close>

definition is_backup_port :: "port_t \<Rightarrow> stpm_t \<Rightarrow> bool" where
  "is_backup_port port this \<longleftrightarrow>
     STP_VECT_compare_bridge_id (design_bridge (portPrio port)) (BrId this) = 0"

definition setRoleSelected :: "port_role_t \<Rightarrow> port_t \<Rightarrow> port_t" where
  "setRoleSelected newRole port =
     (let port = port\<lparr> selectedRole := newRole \<rparr>
      in if newRole = role port then port
         else case newRole of NonStpPort \<Rightarrow> port\<lparr> role := newRole \<rparr> | _ \<Rightarrow> port)"

definition updtRoleDisableTree :: "stpm_t \<Rightarrow> stpm_t" where
  "updtRoleDisableTree this =
     this\<lparr> ports := map (\<lambda>port. port\<lparr> selectedRole := DisabledPort \<rparr>) (ports this) \<rparr>"

definition clearReselectTree :: "stpm_t \<Rightarrow> stpm_t" where
  "clearReselectTree this = this\<lparr> ports := map (\<lambda>port. port\<lparr> reselect := False \<rparr>) (ports this) \<rparr>"

definition rootPathPrio :: "port_t \<Rightarrow> prio_vector_t" where
  "rootPathPrio port =
     (portPrio port)\<lparr> root_path_cost := root_path_cost (portPrio port) + operPCost port \<rparr>"

definition updtRootPrio_port :: "port_t \<Rightarrow> stpm_t \<Rightarrow> stpm_t" where
  "updtRootPrio_port port stpm =
     (if admin_non_stp port then stpm
      else if infoIs port = Disabled then stpm
      else if infoIs port = Aged then stpm
      else if infoIs port = Mine then stpm
      else if STP_VECT_compare_vector (rootPathPrio port) (rootPrio stpm) < 0
      then let stpm = stpm\<lparr> rootPrio := STP_VECT_copy (rootPrio stpm) (rootPathPrio port),
                            rootTimes := STP_copy_times (rootTimes stpm) (portTimes port) \<rparr>
           in stpm\<lparr> rootTimes := (rootTimes stpm)\<lparr> MessageAge := MessageAge (rootTimes stpm) + 1 \<rparr> \<rparr>
      else stpm)"

definition updtRootPrio :: "stpm_t \<Rightarrow> stpm_t" where
  "updtRootPrio stpm = fold updtRootPrio_port (ports stpm) stpm"

definition updtDesign_port :: "stpm_t \<Rightarrow> port_t \<Rightarrow> port_t" where
  "updtDesign_port stpm port =
     (if admin_non_stp port then port
      else port\<lparr> designPrio := STP_VECT_create (root_bridge (rootPrio stpm))
                  (root_path_cost (rootPrio stpm)) (BrId stpm) (port_id port) (port_id port),
                 designTimes := STP_copy_times (designTimes port) (rootTimes stpm) \<rparr>)"

definition updtRole_port :: "stpm_t \<Rightarrow> port_t \<Rightarrow> port_t" where
  "updtRole_port stpm port =
     (if admin_non_stp port
      then (setRoleSelected NonStpPort port)\<lparr> forward := True, learn := True \<rparr>
      else case infoIs port of
        Disabled \<Rightarrow> setRoleSelected DisabledPort port
      | Aged \<Rightarrow> (setRoleSelected DesignatedPort port)\<lparr> updtInfo := True \<rparr>
      | Mine \<Rightarrow>
          (let port = setRoleSelected DesignatedPort port
           in if STP_VECT_compare_vector (portPrio port) (designPrio port) \<noteq> 0
                 \<or> STP_compare_times (portTimes port) (designTimes port) \<noteq> 0
              then port\<lparr> updtInfo := True \<rparr> else port)
      | Received \<Rightarrow>
          if rootPortId stpm = port_id port
          then let port = setRoleSelected RootPort port;
                   port = (if MessageAge (rootTimes stpm) \<noteq> 0
                           then port\<lparr> portTimes := (portTimes port)
                                  \<lparr> MessageAge := MessageAge (rootTimes stpm) - 1 \<rparr> \<rparr>
                           else port)
               in port\<lparr> updtInfo := False \<rparr>
          else if STP_VECT_compare_vector (designPrio port) (portPrio port) < 0
          then (setRoleSelected DesignatedPort port)\<lparr> updtInfo := True \<rparr>
          else (setRoleSelected (if is_backup_port port stpm then BackupPort else AlternatePort) port)
                 \<lparr> updtInfo := False \<rparr>)"

definition updtRolesTree :: "stpm_t \<Rightarrow> stpm_t" where
  "updtRolesTree stpm =
     (let stpm = stpm\<lparr> rootPrio := STP_VECT_create (BrId stpm) 0 (BrId stpm) 0 0,
                       rootTimes := STP_copy_times (rootTimes stpm) (BrTimes stpm), rootPortId := 0 \<rparr>;
          stpm = updtRootPrio stpm;
          stpm = stpm\<lparr> ports := map (updtDesign_port stpm) (ports stpm) \<rparr>;
          stpm = stpm\<lparr> rootPortId := bridge_port (rootPrio stpm) \<rparr>
      in stpm\<lparr> ports := map (updtRole_port stpm) (ports stpm) \<rparr>)"

definition setSelectedTree :: "stpm_t \<Rightarrow> bool \<times> stpm_t" where
  "setSelectedTree this =
     (if list_ex reselect (ports this) then (False, this)
      else (True, this\<lparr> ports := map (\<lambda>port. port\<lparr> selected := True \<rparr>) (ports this) \<rparr>))"

definition STP_rolesel_enter_state :: "stpm_t \<Rightarrow> stpm_t" where
  "STP_rolesel_enter_state stpm =
     (case State (rolesel stpm) of
        BEGIN \<Rightarrow> updtRoleDisableTree stpm
      | St INIT_BRIDGE \<Rightarrow> updtRoleDisableTree stpm
      | St ROLE_SELECTION \<Rightarrow> snd (setSelectedTree (updtRolesTree (clearReselectTree stpm))))"

definition hop_rolesel :: "rolesel_st \<Rightarrow> stpm_t \<Rightarrow> bool \<times> stpm_t" where
  "hop_rolesel s stpm = (True, stpm\<lparr> rolesel := STP_hop_2_state s (rolesel stpm) \<rparr>)"

text \<open>
  The hop from \<open>BEGIN\<close> is not returned: the switch that follows sees \<open>INIT_BRIDGE\<close> and hops on.
\<close>

definition STP_rolesel_check_conditions :: "stpm_t \<Rightarrow> bool \<times> stpm_t" where
  "STP_rolesel_check_conditions stpm =
     (let stpm = (if State (rolesel stpm) = BEGIN then snd (hop_rolesel INIT_BRIDGE stpm) else stpm)
      in case State (rolesel stpm) of
        BEGIN \<Rightarrow> hop_rolesel INIT_BRIDGE stpm
      | St INIT_BRIDGE \<Rightarrow> hop_rolesel ROLE_SELECTION stpm
      | St ROLE_SELECTION \<Rightarrow>
          if list_ex reselect (ports stpm) then hop_rolesel ROLE_SELECTION stpm else (False, stpm))"

definition rolesel_mach :: "mworld stater" where
  "rolesel_mach =
     \<lparr> concreteEnterState = (\<lambda>(g, b). (g, STP_rolesel_enter_state b)),
       concreteCheckCondition = (\<lambda>(g, b). let (r, b') = STP_rolesel_check_conditions b in (r, (g, b'))),
       get_changeState = (\<lambda>(g, b). changeState (rolesel b)),
       put_changeState = (\<lambda>c (g, b). (g, b\<lparr> rolesel := (rolesel b)\<lparr> changeState := c \<rparr> \<rparr>)) \<rparr>"

definition rolesel_update_port :: "stpm_t \<Rightarrow> port_t \<Rightarrow> port_t" where
  "rolesel_update_port this port =
     (let port = port\<lparr> designPrio := STP_VECT_create (root_bridge (rootPrio this))
                   (root_path_cost (rootPrio this)) (BrId this) (port_id port) (port_id port) \<rparr>;
          port = (if infoIs port \<noteq> Received \<or> rootPortId this = port_id port
                  then port\<lparr> portPrio := STP_VECT_copy (portPrio port) (designPrio port) \<rparr> else port)
      in port\<lparr> reselect := True, selected := False \<rparr>)"

definition STP_rolesel_update_stpm :: "stpm_t \<Rightarrow> stpm_t" where
  "STP_rolesel_update_stpm this =
     (let rp = STP_VECT_create (BrId this) 0 (BrId this) 0 0;
          this = (if rootPortId this = 0 \<or> STP_VECT_compare_vector rp (rootPrio this) < 0
                  then this\<lparr> rootPrio := STP_VECT_copy (rootPrio this) rp \<rparr> else this)
      in this\<lparr> ports := map (rolesel_update_port this) (ports this) \<rparr>)"

subsection \<open>What the election writes\<close>

lemma setRoleSelected_upd: "\<exists>r. setRoleSelected n p = p\<lparr> selectedRole := n, role := r \<rparr>"
  by (cases p) (auto simp: setRoleSelected_def Let_def split: port_role_t.split)

lemma setRoleSelected_simps [simp]:
  "selectedRole (setRoleSelected n p) = n" "port_id (setRoleSelected n p) = port_id p"
  "updtInfo (setRoleSelected n p) = updtInfo p" "infoIs (setRoleSelected n p) = infoIs p"
  "portPrio (setRoleSelected n p) = portPrio p" "designPrio (setRoleSelected n p) = designPrio p"
  "portTimes (setRoleSelected n p) = portTimes p" "designTimes (setRoleSelected n p) = designTimes p"
  "reselect (setRoleSelected n p) = reselect p" "admin_non_stp (setRoleSelected n p) = admin_non_stp p"
  using setRoleSelected_upd [of n p] by auto

text \<open>The fields of the bridge that \<^verbatim>\<open>updtRootPrio\<close> leaves alone.\<close>

lemma updtRootPrio_port_kept:
  "BrId (updtRootPrio_port p b) = BrId b" "ports (updtRootPrio_port p b) = ports b"
  "rolesel (updtRootPrio_port p b) = rolesel b" "BrTimes (updtRootPrio_port p b) = BrTimes b"
  by (simp_all add: updtRootPrio_port_def Let_def)

lemma updtRootPrio_kept [simp]:
  "BrId (updtRootPrio b) = BrId b" "ports (updtRootPrio b) = ports b"
  "rolesel (updtRootPrio b) = rolesel b" "BrTimes (updtRootPrio b) = BrTimes b"
proof -
  have "BrId (fold updtRootPrio_port ps b) = BrId b \<and> ports (fold updtRootPrio_port ps b) = ports b
    \<and> rolesel (fold updtRootPrio_port ps b) = rolesel b \<and> BrTimes (fold updtRootPrio_port ps b) = BrTimes b"
    for ps
    by (induction ps arbitrary: b) (simp_all add: updtRootPrio_port_kept)
  then show "BrId (updtRootPrio b) = BrId b" "ports (updtRootPrio b) = ports b"
    "rolesel (updtRootPrio b) = rolesel b" "BrTimes (updtRootPrio b) = BrTimes b"
    by (simp_all add: updtRootPrio_def)
qed

text \<open>The ports that take part in the election of the root.\<close>

definition candidates :: "stpm_t \<Rightarrow> port_t list" where
  "candidates b = filter (\<lambda>p. \<not> admin_non_stp p \<and> infoIs p = Received) (ports b)"

lemma infoIs_cases: "infoIs p = Received \<longleftrightarrow> infoIs p \<noteq> Disabled \<and> infoIs p \<noteq> Aged \<and> infoIs p \<noteq> Mine"
  by (cases "infoIs p") simp_all

lemma rootPrio_fold:
  "rootPrio (fold updtRootPrio_port ps b) =
     fold (\<lambda>x best. if STP_VECT_compare_vector x best < 0 then x else best)
       (map rootPathPrio (filter (\<lambda>p. \<not> admin_non_stp p \<and> infoIs p = Received) ps)) (rootPrio b)"
proof (induction ps arbitrary: b)
  case Nil
  show ?case by simp
next
  case (Cons p ps)
  have "rootPrio (updtRootPrio_port p b) =
      (if \<not> admin_non_stp p \<and> infoIs p = Received
          \<and> STP_VECT_compare_vector (rootPathPrio p) (rootPrio b) < 0
       then rootPathPrio p else rootPrio b)"
    by (auto simp: updtRootPrio_port_def infoIs_cases STP_VECT_copy_def Let_def)
  with Cons.IH [of "updtRootPrio_port p b"] show ?case by simp
qed

definition own_prio :: "stpm_t \<Rightarrow> prio_vector_t" where
  "own_prio b = STP_VECT_create (BrId b) 0 (BrId b) 0 0"

text \<open>The bridge once the root is elected, before the roles are given out.\<close>

definition elected :: "stpm_t \<Rightarrow> stpm_t" where
  "elected b = updtRootPrio (b\<lparr> rootPrio := own_prio b, rootTimes := BrTimes b, rootPortId := 0 \<rparr>)"

lemma updtRolesTree_eq:
  "updtRolesTree b =
     (let d = (elected b)\<lparr> ports := map (updtDesign_port (elected b)) (ports (elected b)),
                rootPortId := bridge_port (rootPrio (elected b)) \<rparr>
      in d\<lparr> ports := map (updtRole_port d) (ports d) \<rparr>)"
  by (simp add: updtRolesTree_def elected_def own_prio_def Let_def)

lemma elected_simps [simp]:
  "BrId (elected b) = BrId b" "ports (elected b) = ports b"
  "rolesel (elected b) = rolesel b" "BrTimes (elected b) = BrTimes b"
  by (simp_all add: elected_def)

lemma updtRolesTree_bridge:
  "rootPrio (updtRolesTree b) = fold (\<lambda>x best. if STP_VECT_compare_vector x best < 0 then x else best)
     (map rootPathPrio (candidates b)) (own_prio b)"
  "rootPortId (updtRolesTree b) = bridge_port (rootPrio (updtRolesTree b))"
  "rootTimes (updtRolesTree b) = rootTimes (elected b)"
  "BrId (updtRolesTree b) = BrId b" "BrTimes (updtRolesTree b) = BrTimes b"
  "rolesel (updtRolesTree b) = rolesel b"
proof -
  have "rootPrio (updtRolesTree b) = rootPrio (elected b)" by (simp add: updtRolesTree_eq Let_def)
  also have "rootPrio (elected b) = fold (\<lambda>x best. if STP_VECT_compare_vector x best < 0 then x else best)
     (map rootPathPrio (candidates b)) (own_prio b)"
    by (simp add: elected_def updtRootPrio_def rootPrio_fold candidates_def)
  finally show "rootPrio (updtRolesTree b) = fold (\<lambda>x best. if STP_VECT_compare_vector x best < 0
     then x else best) (map rootPathPrio (candidates b)) (own_prio b)" .
qed (simp_all add: updtRolesTree_eq Let_def)

text \<open>Each port is treated alone, given the elected root.\<close>

lemma updtDesign_port_cong:
  "rootPrio b = rootPrio c \<Longrightarrow> rootTimes b = rootTimes c \<Longrightarrow> BrId b = BrId c \<Longrightarrow>
   updtDesign_port b = updtDesign_port c"
  by (rule ext) (simp add: updtDesign_port_def)

lemma updtRole_port_cong:
  "rootPortId b = rootPortId c \<Longrightarrow> rootTimes b = rootTimes c \<Longrightarrow> BrId b = BrId c \<Longrightarrow>
   updtRole_port b = updtRole_port c"
  by (rule ext) (simp add: updtRole_port_def is_backup_port_def Let_def split: info_is_t.split)

lemma updtRolesTree_ports:
  "ports (updtRolesTree b) =
     map (\<lambda>p. updtRole_port (updtRolesTree b) (updtDesign_port (updtRolesTree b) p)) (ports b)"
proof -
  define d where "d = (elected b)\<lparr> ports := map (updtDesign_port (elected b)) (ports b),
    rootPortId := bridge_port (rootPrio (elected b)) \<rparr>"
  have b': "updtRolesTree b = d\<lparr> ports := map (updtRole_port d) (ports d) \<rparr>"
    by (simp add: updtRolesTree_eq Let_def d_def)
  have "updtRole_port (updtRolesTree b) = updtRole_port d"
    by (rule updtRole_port_cong) (simp_all add: b')
  moreover have "updtDesign_port (updtRolesTree b) = updtDesign_port (elected b)"
    by (rule updtDesign_port_cong) (simp_all add: b' d_def)
  ultimately show ?thesis by (simp add: b' comp_def) (simp add: d_def)
qed

lemma length_updtRolesTree [simp]: "length (ports (updtRolesTree b)) = length (ports b)"
  by (simp add: updtRolesTree_ports)

lemma nth_updtRolesTree:
  "i < length (ports b) \<Longrightarrow> ports (updtRolesTree b) ! i =
     updtRole_port (updtRolesTree b) (updtDesign_port (updtRolesTree b) (ports b ! i))"
  by (subst updtRolesTree_ports) simp

lemma updtDesign_port_simps [simp]:
  "port_id (updtDesign_port b p) = port_id p" "admin_non_stp (updtDesign_port b p) = admin_non_stp p"
  "infoIs (updtDesign_port b p) = infoIs p" "portPrio (updtDesign_port b p) = portPrio p"
  "reselect (updtDesign_port b p) = reselect p"
  by (simp_all add: updtDesign_port_def)

lemma updtRole_port_simps [simp]:
  "port_id (updtRole_port b p) = port_id p" "reselect (updtRole_port b p) = reselect p"
  by (simp_all add: updtRole_port_def Let_def split: info_is_t.split)

lemma updtRole_RootPort:
  "selectedRole (updtRole_port b p) = RootPort \<longleftrightarrow>
     \<not> admin_non_stp p \<and> infoIs p = Received \<and> rootPortId b = port_id p"
  by (simp add: updtRole_port_def Let_def split: info_is_t.split)

subsection \<open>Termination\<close>

definition rolesel_rank :: "mworld \<Rightarrow> nat" where
  "rolesel_rank w = (if State (rolesel (snd w)) = St ROLE_SELECTION then 0 else 1)"

lemma ROLE_SELECTION_done:
  "let b' = snd (setSelectedTree (updtRolesTree (clearReselectTree b)))
   in rolesel b' = rolesel b \<and> (\<forall>p\<in>set (ports b'). \<not> reselect p \<and> selected p)"
proof -
  have "\<not> list_ex reselect (ports (updtRolesTree (clearReselectTree b)))"
    by (subst updtRolesTree_ports) (auto simp: list_ex_iff clearReselectTree_def)
  then show ?thesis
    by (auto simp: setSelectedTree_def updtRolesTree_bridge clearReselectTree_def list_ex_iff)
qed

interpretation rolesel_m: ranked_machine rolesel_mach "\<lambda>_. True" rolesel_rank
proof (unfold_locales, goal_cases)
  case (2 w)
  obtain g b where w: "w = (g, b)" by fastforce
  define c where "c = STP_rolesel_enter_state b"
  have st: "State (rolesel c) = State (rolesel b)"
    using ROLE_SELECTION_done [of b]
    by (auto simp: c_def STP_rolesel_enter_state_def updtRoleDisableTree_def Let_def
        split: mach_st.split rolesel_st.split)
  have sel: "State (rolesel b) = St ROLE_SELECTION \<Longrightarrow> \<not> list_ex reselect (ports c)"
    using ROLE_SELECTION_done [of b] by (auto simp: c_def STP_rolesel_enter_state_def list_ex_iff Let_def)
  show ?case using 2 st sel
    by (auto simp: w rolesel_rank_def rolesel_mach_def change_state_step_def STP_check_condition_def
        STP_rolesel_check_conditions_def hop_rolesel_def c_def [symmetric] Let_def
        split: mach_st.splits rolesel_st.splits if_splits)
qed simp

subsection \<open>Properties\<close>

text \<open>The vectors in the election, and the identifiers that tell the ports apart.\<close>

definition election_ok :: "stpm_t \<Rightarrow> bool" where
  "election_ok b \<longleftrightarrow> wf_bridge_id (BrId b) \<and> list_all (\<lambda>p. comparable (rootPathPrio p)) (candidates b)"

definition ports_ok :: "stpm_t \<Rightarrow> bool" where
  "ports_ok b \<longleftrightarrow> distinct (map port_id (ports b)) \<and> list_all (\<lambda>p. port_id p \<noteq> 0) (ports b)
     \<and> list_all (\<lambda>p. bridge_port (portPrio p) = port_id p) (candidates b)"

lemma comparable_own: "wf_bridge_id (BrId b) \<Longrightarrow> comparable (own_prio b)"
  by (simp add: own_prio_def comparable_def wf_vector_def cost_in_range_def STP_VECT_create_def)

lemma election_least:
  assumes "election_ok b"
  shows "rootPrio (updtRolesTree b) \<in> insert (own_prio b) (rootPathPrio ` set (candidates b))"
    and "x \<in> insert (own_prio b) (rootPathPrio ` set (candidates b)) \<Longrightarrow>
      STP_VECT_compare_vector (rootPrio (updtRolesTree b)) x \<le> 0"
  using vec_cmp.fold_best_least [of "own_prio b" "map rootPathPrio (candidates b)"] assms comparable_own [of b]
  by (auto simp: election_ok_def list_all_iff updtRolesTree_bridge)



text \<open>A bridge of two ports, the second of which hears a better root.\<close>

definition example_two_ports :: stpm_t where
  "example_two_ports = zero_stpm\<lparr> BrId := example_bridge 32768 9,
     BrTimes := \<lparr> MessageAge = 0, MaxAge = 20, ForwardDelay = 15, HelloTime = 2 \<rparr>,
     ports := [zero_port\<lparr> port_id := 0x8001, port_index := 1, infoIs := Mine, operPCost := 200000 \<rparr>,
               zero_port\<lparr> port_id := 0x8002, port_index := 2, infoIs := Received, operPCost := 200000,
                 portPrio := STP_VECT_create (example_bridge 4096 7) 0 (example_bridge 4096 7) 0x8005 0x8002,
                 portTimes := \<lparr> MessageAge = 0, MaxAge = 20, ForwardDelay = 15, HelloTime = 2 \<rparr> \<rparr>] \<rparr>"

lemma example_two_ports_ok: "election_ok example_two_ports" "ports_ok example_two_ports"
  by (simp_all add: election_ok_def ports_ok_def example_two_ports_def candidates_def wf_bridge_id_def
      example_bridge_def comparable_def wf_vector_def cost_in_range_def rootPathPrio_def
      STP_VECT_create_def zero_port_def)

lemma example_candidates:
  "rootPathPrio ` set (candidates example_two_ports) =
     {STP_VECT_create (example_bridge 4096 7) 200000 (example_bridge 4096 7) 0x8005 0x8002}"
  by (simp add: candidates_def example_two_ports_def rootPathPrio_def STP_VECT_create_def zero_port_def)

lemma example_own: "own_prio example_two_ports = STP_VECT_create (example_bridge 32768 9) 0 (example_bridge 32768 9) 0 0"
  by (simp add: own_prio_def example_two_ports_def)

lemma own_not_better:
  "\<not> STP_VECT_compare_vector (STP_VECT_create (example_bridge 32768 9) 0 (example_bridge 32768 9) 0 0)
     (STP_VECT_create (example_bridge 4096 7) 200000 (example_bridge 4096 7) 0x8005 0x8002) \<le> 0"
  by (simp add: STP_VECT_create_def example_bridge_def STP_VECT_compare_vector_def
      STP_VECT_compare_bridge_id_def)



end
