(* ===== verification/Rstp_Roletrns.thy ===== *)
theory Rstp_Roletrns
  imports Rstp_Machine
begin

text \<open>
  The port role transition machine (\<^verbatim>\<open>rstp/src/rstp_roletrns.c\<close>): it moves a port to the role
  selected for it, runs the proposal and agreement handshake, and asks the port state machine to
  learn and forward. Three of its states set a flag on every port of the bridge, so it is a
  machine over the whole bridge, given the position of its port.
\<close>

definition setSyncTree :: "stpm_t \<Rightarrow> stpm_t" where
  "setSyncTree stpm = stpm\<lparr> ports := map (\<lambda>port. port\<lparr> sync := True \<rparr>) (ports stpm) \<rparr>"

definition setReRootTree :: "stpm_t \<Rightarrow> stpm_t" where
  "setReRootTree stpm = stpm\<lparr> ports := map (\<lambda>port. port\<lparr> reRoot := True \<rparr>) (ports stpm) \<rparr>"

definition compute_all_synced :: "stpm_t \<Rightarrow> port_t \<Rightarrow> bool" where
  "compute_all_synced stpm this \<longleftrightarrow>
     list_all (\<lambda>port. port_index port = port_index this \<or> synced port) (ports stpm)"

definition compute_re_rooted :: "stpm_t \<Rightarrow> port_t \<Rightarrow> bool" where
  "compute_re_rooted stpm this \<longleftrightarrow>
     list_all (\<lambda>port. port_index port = port_index this \<or> rrWhile port = 0) (ports stpm)"

text \<open>Update of the port that owns the machine.\<close>

definition own_port :: "nat \<Rightarrow> (port_t \<Rightarrow> port_t) \<Rightarrow> stpm_t \<Rightarrow> stpm_t" where
  "own_port i f stpm = stpm\<lparr> ports := upd_at i f (ports stpm) \<rparr>"

definition fd_delay :: "stpm_t \<Rightarrow> port_t \<Rightarrow> u32" where
  "fd_delay stpm port =
     (if sendRSTP port then ucast (HelloTime (rootTimes stpm)) else ucast (ForwardDelay (rootTimes stpm)))"

text \<open>The assignments of the entry actions to the owner's fields, and the flags set on all ports.\<close>

definition enter_INIT_PORT :: "stpm_t \<Rightarrow> port_t \<Rightarrow> port_t" where
  "enter_INIT_PORT stpm port = port\<lparr> role := DisabledPort, forward := False, learn := False,
     synced := False, reRoot := True, sync := True,
     rrWhile := ucast (ForwardDelay (rootTimes stpm)),
     fdWhile := ucast (MaxAge (rootTimes stpm)), rbWhile := 0 \<rparr>"

definition roletrns_own :: "stpm_t \<Rightarrow> port_t \<Rightarrow> port_t" where
  "roletrns_own stpm port =
     (case State (roletrns port) of
        BEGIN \<Rightarrow> enter_INIT_PORT stpm port
      | St INIT_PORT \<Rightarrow> enter_INIT_PORT stpm port
      | St DISABLE_PORT \<Rightarrow> port\<lparr> role := selectedRole port, forward := False, learn := False \<rparr>
      | St DISABLED_PORT \<Rightarrow> port\<lparr> fdWhile := ucast (MaxAge (rootTimes stpm)),
            synced := True, rrWhile := 0, reRoot := False, sync := False \<rparr>
      | St ROOT_PROPOSED \<Rightarrow> port\<lparr> proposed := False \<rparr>
      | St ROOT_AGREED \<Rightarrow> port\<lparr> sync := False, proposed := False, agree := True,
            newInfo := True \<rparr>
      | St REROOT \<Rightarrow> port
      | St ROOT_PORT \<Rightarrow> port\<lparr> role := RootPort,
            rrWhile := ucast (ForwardDelay (rootTimes stpm)) \<rparr>
      | St ROOT_FORWARD \<Rightarrow> port\<lparr> fdWhile := 0, forward := True \<rparr>
      | St ROOT_LEARN \<Rightarrow> port\<lparr> fdWhile := fd_delay stpm port, learn := True \<rparr>
      | St REROOTED \<Rightarrow> port\<lparr> reRoot := False \<rparr>
      | St DESIGNATED_PROPOSE \<Rightarrow> port\<lparr> proposing := True,
            edgeDelayWhile := (if operPointToPointMac port then MigrateTime
                               else ucast (MaxAge (rootTimes stpm))),
            newInfo := True \<rparr>
      | St DESIGNATED_SYNCED \<Rightarrow> port\<lparr> rrWhile := 0, synced := True, sync := False \<rparr>
      | St DESIGNATED_RETIRED \<Rightarrow> port\<lparr> reRoot := False \<rparr>
      | St DESIGNATED_PORT \<Rightarrow> port\<lparr> role := DesignatedPort \<rparr>
      | St DESIGNATED_DISCARD \<Rightarrow> port\<lparr> disputed := False, forward := False,
            learn := False, fdWhile := fd_delay stpm port \<rparr>
      | St DESIGNATED_LEARN \<Rightarrow> port\<lparr> learn := True, fdWhile := fd_delay stpm port \<rparr>
      | St DESIGNATED_FORWARD \<Rightarrow> port\<lparr> forward := True, fdWhile := 0,
            agreed := sendRSTP port \<rparr>
      | St ALTERNATE_PROPOSED \<Rightarrow> port\<lparr> proposed := False \<rparr>
      | St ALTERNATE_AGREED \<Rightarrow> port\<lparr> proposed := False, agree := True, newInfo := True \<rparr>
      | St ALTERNATE_PORT \<Rightarrow> port\<lparr> fdWhile := ucast (ForwardDelay (rootTimes stpm)),
            synced := True, rrWhile := 0, reRoot := False, sync := False \<rparr>
      | St BLOCK_PORT \<Rightarrow> port\<lparr> role := selectedRole port, forward := False, learn := False \<rparr>
      | St BACKUP_PORT \<Rightarrow> port\<lparr> rbWhile := 2 * ucast (HelloTime (rootTimes stpm)) \<rparr>)"

definition roletrns_tree :: "roletrns_st mach_st \<Rightarrow> stpm_t \<Rightarrow> stpm_t" where
  "roletrns_tree st stpm = (case st of
       St ROOT_PROPOSED \<Rightarrow> setSyncTree stpm
     | St REROOT \<Rightarrow> setReRootTree stpm
     | St ALTERNATE_PROPOSED \<Rightarrow> setSyncTree stpm
     | _ \<Rightarrow> stpm)"

definition STP_roletrns_enter_state :: "nat \<Rightarrow> stpm_t \<Rightarrow> stpm_t" where
  "STP_roletrns_enter_state i stpm =
     own_port i (roletrns_own stpm) (roletrns_tree (State (roletrns (ports stpm ! i))) stpm)"

definition hop_roletrns :: "roletrns_st \<Rightarrow> port_t \<Rightarrow> bool \<times> port_t" where
  "hop_roletrns s port = (True, port\<lparr> roletrns := STP_hop_2_state s (roletrns port) \<rparr>)"

text \<open>The conditions of the \<open>ROOT_PORT\<close>, \<open>DESIGNATED_PORT\<close> and \<open>ALTERNATE_PORT\<close> states, in order.\<close>

definition check_ROOT_PORT :: "stpm_t \<Rightarrow> port_t \<Rightarrow> bool \<times> port_t" where
  "check_ROOT_PORT stpm port =
     (let reRooted = compute_re_rooted stpm port;
          rstpVersion = (ForceVersion stpm \<ge> 2);
          go = (fdWhile port = 0 \<or> reRooted \<and> rbWhile port = 0 \<and> rstpVersion);
          allSynced = compute_all_synced stpm port
      in if rrWhile port \<noteq> ucast (ForwardDelay (rootTimes stpm)) then hop_roletrns ROOT_PORT port
         else if reRoot port \<and> forward port then hop_roletrns REROOTED port
         else if go \<and> \<not> learn port then hop_roletrns ROOT_LEARN port
         else if go \<and> learn port \<and> \<not> forward port then hop_roletrns ROOT_FORWARD port
         else if \<not> forward port \<and> \<not> reRoot port then hop_roletrns REROOT port
         else if allSynced \<and> \<not> agree port \<or> proposed port \<and> agree port then hop_roletrns ROOT_AGREED port
         else if proposed port \<and> \<not> agree port then hop_roletrns ROOT_PROPOSED port
         else (False, port))"

definition check_DESIGNATED_PORT :: "port_t \<Rightarrow> bool \<times> port_t" where
  "check_DESIGNATED_PORT port =
     (let ready = ((fdWhile port = 0 \<or> agreed port \<or> operEdge port)
                     \<and> (rrWhile port = 0 \<or> \<not> reRoot port) \<and> \<not> sync port)
      in if rrWhile port = 0 \<and> reRoot port then hop_roletrns DESIGNATED_RETIRED port
         else if \<not> learning port \<and> \<not> forwarding port \<and> \<not> synced port
              \<or> agreed port \<and> \<not> synced port \<or> operEdge port \<and> \<not> synced port
              \<or> sync port \<and> synced port
         then hop_roletrns DESIGNATED_SYNCED port
         else if \<not> forward port \<and> \<not> agreed port \<and> \<not> proposing port \<and> \<not> operEdge port
         then hop_roletrns DESIGNATED_PROPOSE port
         else if (sync port \<and> \<not> synced port \<or> reRoot port \<and> rrWhile port \<noteq> 0 \<or> disputed port)
              \<and> \<not> operEdge port \<and> (learn port \<or> forward port)
         then hop_roletrns DESIGNATED_DISCARD port
         else if ready \<and> \<not> learn port then hop_roletrns DESIGNATED_LEARN port
         else if ready \<and> learn port \<and> \<not> forward port then hop_roletrns DESIGNATED_FORWARD port
         else (False, port))"

definition check_ALTERNATE_PORT :: "stpm_t \<Rightarrow> port_t \<Rightarrow> bool \<times> port_t" where
  "check_ALTERNATE_PORT stpm port =
     (let allSynced = compute_all_synced stpm port
      in if allSynced \<and> \<not> agree port \<or> proposed port \<and> agree port then hop_roletrns ALTERNATE_AGREED port
         else if proposed port \<and> \<not> agree port then hop_roletrns ALTERNATE_PROPOSED port
         else if fdWhile port \<noteq> ucast (ForwardDelay (rootTimes stpm)) \<or> sync port \<or> reRoot port
              \<or> \<not> synced port
         then hop_roletrns ALTERNATE_PORT port
         else if rbWhile port \<noteq> 2 * ucast (HelloTime (rootTimes stpm)) \<and> role port = BackupPort
         then hop_roletrns BACKUP_PORT port
         else (False, port))"

definition hop_to_role :: "port_t \<Rightarrow> bool \<times> port_t" where
  "hop_to_role port =
     (case selectedRole port of
        DisabledPort \<Rightarrow> hop_roletrns DISABLE_PORT port
      | AlternatePort \<Rightarrow> hop_roletrns BLOCK_PORT port
      | BackupPort \<Rightarrow> hop_roletrns BLOCK_PORT port
      | RootPort \<Rightarrow> hop_roletrns ROOT_PORT port
      | DesignatedPort \<Rightarrow> hop_roletrns DESIGNATED_PORT port
      | _ \<Rightarrow> (False, port))"

definition roletrns_check :: "stpm_t \<Rightarrow> port_t \<Rightarrow> bool \<times> port_t" where
  "roletrns_check stpm port0 =
     (let port = (if selectedRole port0 = NonStpPort
                  then port0\<lparr> role := NonStpPort, learn := True, forward := True \<rparr> else port0);
          settled = (selected port \<and> \<not> updtInfo port)
      in case State (roletrns port) of
        BEGIN \<Rightarrow> hop_roletrns INIT_PORT port
      | St s \<Rightarrow>
          if role port \<noteq> selectedRole port \<and> settled then hop_to_role port
          else case s of
            INIT_PORT \<Rightarrow> hop_roletrns DISABLE_PORT port
          | DISABLE_PORT \<Rightarrow>
              if \<not> settled then (False, port)
              else if \<not> learning port \<and> \<not> forwarding port then hop_roletrns DISABLED_PORT port
              else (False, port)
          | DISABLED_PORT \<Rightarrow>
              if \<not> settled then (False, port)
              else if fdWhile port \<noteq> ucast (MaxAge (rootTimes stpm)) \<or> sync port \<or> reRoot port \<or> \<not> synced port
              then hop_roletrns DISABLED_PORT port
              else (False, port)
          | ROOT_PORT \<Rightarrow> if \<not> settled then (False, port) else check_ROOT_PORT stpm port
          | DESIGNATED_PORT \<Rightarrow> if \<not> settled then (False, port) else check_DESIGNATED_PORT port
          | ALTERNATE_PORT \<Rightarrow> if \<not> settled then (False, port) else check_ALTERNATE_PORT stpm port
          | BLOCK_PORT \<Rightarrow>
              if \<not> settled then (False, port)
              else if \<not> learning port \<and> \<not> forwarding port then hop_roletrns ALTERNATE_PORT port
              else (False, port)
          | BACKUP_PORT \<Rightarrow> hop_roletrns ALTERNATE_PORT port
          | ALTERNATE_PROPOSED \<Rightarrow> hop_roletrns ALTERNATE_PORT port
          | ALTERNATE_AGREED \<Rightarrow> hop_roletrns ALTERNATE_PORT port
          | DESIGNATED_PROPOSE \<Rightarrow> hop_roletrns DESIGNATED_PORT port
          | DESIGNATED_SYNCED \<Rightarrow> hop_roletrns DESIGNATED_PORT port
          | DESIGNATED_RETIRED \<Rightarrow> hop_roletrns DESIGNATED_PORT port
          | DESIGNATED_DISCARD \<Rightarrow> hop_roletrns DESIGNATED_PORT port
          | DESIGNATED_LEARN \<Rightarrow> hop_roletrns DESIGNATED_PORT port
          | DESIGNATED_FORWARD \<Rightarrow> hop_roletrns DESIGNATED_PORT port
          | _ \<Rightarrow> hop_roletrns ROOT_PORT port)"

definition STP_roletrns_check_conditions :: "nat \<Rightarrow> stpm_t \<Rightarrow> bool \<times> stpm_t" where
  "STP_roletrns_check_conditions i stpm =
     (let (r, port) = roletrns_check stpm (ports stpm ! i)
      in (r, stpm\<lparr> ports := (ports stpm)[i := port] \<rparr>))"

definition roletrns_mach :: "nat \<Rightarrow> mworld stater" where
  "roletrns_mach i =
     \<lparr> concreteEnterState = (\<lambda>(g, b). (g, STP_roletrns_enter_state i b)),
       concreteCheckCondition = (\<lambda>(g, b). let (r, b') = STP_roletrns_check_conditions i b in (r, (g, b'))),
       get_changeState = (\<lambda>(g, b). changeState (roletrns (ports b ! i))),
       put_changeState = (\<lambda>c (g, b). (g, own_port i (\<lambda>p. p\<lparr> roletrns := (roletrns p)\<lparr> changeState := c \<rparr> \<rparr>) b)) \<rparr>"

subsection \<open>What the actions write\<close>

text \<open>The effect of an entry action on the owner.\<close>

definition own_enter :: "stpm_t \<Rightarrow> port_t \<Rightarrow> port_t" where
  "own_enter b p = roletrns_own b (case State (roletrns p) of
       St ROOT_PROPOSED \<Rightarrow> p\<lparr> sync := True \<rparr>
     | St REROOT \<Rightarrow> p\<lparr> reRoot := True \<rparr>
     | St ALTERNATE_PROPOSED \<Rightarrow> p\<lparr> sync := True \<rparr>
     | _ \<Rightarrow> p)"

lemma own_port_nth [simp]:
  "i < length (ports b) \<Longrightarrow> ports (own_port i f b) ! i = f (ports b ! i)"
  "j \<noteq> i \<Longrightarrow> ports (own_port i f b) ! j = ports b ! j"
  "length (ports (own_port i f b)) = length (ports b)"
  by (simp_all add: own_port_def)

lemma roletrns_tree_cases:
  "roletrns_tree st b = b \<or> roletrns_tree st b = setSyncTree b \<or> roletrns_tree st b = setReRootTree b"
  by (simp add: roletrns_tree_def split: mach_st.split roletrns_st.split)

lemma tree_nth [simp]:
  "j < length (ports b) \<Longrightarrow> ports (setSyncTree b) ! j = (ports b ! j)\<lparr> sync := True \<rparr>"
  "j < length (ports b) \<Longrightarrow> ports (setReRootTree b) ! j = (ports b ! j)\<lparr> reRoot := True \<rparr>"
  "length (ports (setSyncTree b)) = length (ports b)"
  "length (ports (setReRootTree b)) = length (ports b)"
  by (simp_all add: setSyncTree_def setReRootTree_def)

lemma enter_bridge: "\<exists>ps. STP_roletrns_enter_state i b = b\<lparr> ports := ps \<rparr> \<and> length ps = length (ports b)"
  using roletrns_tree_cases [of "State (roletrns (ports b ! i))" b]
  by (auto simp: STP_roletrns_enter_state_def own_port_def setSyncTree_def setReRootTree_def)

lemma enter_own: "i < length (ports b) \<Longrightarrow> ports (STP_roletrns_enter_state i b) ! i = own_enter b (ports b ! i)"
  by (simp add: own_enter_def STP_roletrns_enter_state_def roletrns_tree_def
      split: mach_st.split roletrns_st.split)

lemma enter_other:
  assumes "j < length (ports b)" "j \<noteq> i"
  shows "\<exists>x y. ports (STP_roletrns_enter_state i b) ! j = (ports b ! j)\<lparr> sync := x, reRoot := y \<rparr>"
proof -
  let ?p = "ports b ! j"
  have "?p = ?p\<lparr> sync := sync ?p, reRoot := reRoot ?p \<rparr>"
    "?p\<lparr> sync := True \<rparr> = ?p\<lparr> sync := True, reRoot := reRoot ?p \<rparr>"
    "?p\<lparr> reRoot := True \<rparr> = ?p\<lparr> sync := sync ?p, reRoot := True \<rparr>"
    by simp_all
  then show ?thesis
    using roletrns_tree_cases [of "State (roletrns (ports b ! i))" b] assms
    unfolding STP_roletrns_enter_state_def
    by (metis own_port_nth(2) tree_nth(1,2))
qed

lemma own_enter_kept:
  "roletrns (own_enter b p) = roletrns p" "selectedRole (own_enter b p) = selectedRole p"
  "selected (own_enter b p) = selected p" "updtInfo (own_enter b p) = updtInfo p"
proof -
  have "roletrns (roletrns_own b q) = roletrns q \<and> selectedRole (roletrns_own b q) = selectedRole q
      \<and> selected (roletrns_own b q) = selected q \<and> updtInfo (roletrns_own b q) = updtInfo q" for q
    by (simp add: roletrns_own_def enter_INIT_PORT_def split: mach_st.split roletrns_st.split)
  then show "roletrns (own_enter b p) = roletrns p" "selectedRole (own_enter b p) = selectedRole p"
  "selected (own_enter b p) = selected p" "updtInfo (own_enter b p) = updtInfo p"
    by (simp_all add: own_enter_def split: mach_st.split roletrns_st.split)
qed

subsection \<open>Termination\<close>

text \<open>
  The rank is a potential of the port after the entry action: how much of the handshake, of the
  learning and forwarding and of the synchronisation is still open. Satellite states rank just
  above the hub they return to; a role that is not the selected one weighs more than all of
  that, and the initial states most.
\<close>

definition num :: "bool \<Rightarrow> nat" where "num b = (if b then 1 else 0)"

definition pot_root :: "port_t \<Rightarrow> nat" where
  "pot_root q = 32 * num (proposed q) + 16 * num (\<not> agree q) + 8 * num (\<not> forward q) + 4 * num (\<not> learn q)
     + num (if forward q then reRoot q else \<not> reRoot q)"

definition pot_alt :: "stpm_t \<Rightarrow> port_t \<Rightarrow> nat" where
  "pot_alt b q = 8 * num (proposed q) + 4 * num (\<not> agree q)
     + num (rbWhile q \<noteq> 2 * ucast (HelloTime (rootTimes b)))"

definition pot_desig :: "port_t \<Rightarrow> nat" where
  "pot_desig q = 32 * num (reRoot q) + 16 * num (sync q \<or> \<not> synced q) + 8 * num (disputed q)
     + 4 * num (\<not> proposing q)
     + (if sync q \<and> \<not> synced q \<or> reRoot q \<and> rrWhile q \<noteq> 0 then num (learn q \<or> forward q)
        else num (\<not> learn q) + num (\<not> forward q))"

definition root_group :: "roletrns_st \<Rightarrow> bool" where
  "root_group s \<longleftrightarrow> s \<in> {ROOT_PROPOSED, ROOT_AGREED, REROOT, ROOT_PORT, ROOT_FORWARD, ROOT_LEARN, REROOTED}"

definition desig_group :: "roletrns_st \<Rightarrow> bool" where
  "desig_group s \<longleftrightarrow> s \<in> {DESIGNATED_PROPOSE, DESIGNATED_SYNCED, DESIGNATED_RETIRED, DESIGNATED_PORT,
     DESIGNATED_DISCARD, DESIGNATED_LEARN, DESIGNATED_FORWARD}"

definition misplaced :: "roletrns_st \<Rightarrow> port_t \<Rightarrow> bool" where
  "misplaced s q \<longleftrightarrow> role q \<noteq> selectedRole q \<or> root_group s \<and> selectedRole q \<noteq> RootPort
     \<or> desig_group s \<and> selectedRole q \<noteq> DesignatedPort"

definition state_pot :: "stpm_t \<Rightarrow> roletrns_st \<Rightarrow> port_t \<Rightarrow> nat" where
  "state_pot b s q = (case s of
       INIT_PORT \<Rightarrow> 2000
     | DISABLE_PORT \<Rightarrow> 10
     | DISABLED_PORT \<Rightarrow> 0
     | ROOT_PORT \<Rightarrow> 2 * pot_root q
     | DESIGNATED_PORT \<Rightarrow> 2 * pot_desig q
     | ALTERNATE_PORT \<Rightarrow> 2 * pot_alt b q
     | BLOCK_PORT \<Rightarrow> 100
     | _ \<Rightarrow> if root_group s then 2 * pot_root q + 1
            else if desig_group s then 2 * pot_desig q + 1 else 2 * pot_alt b q + 1)"

definition roletrns_rank :: "stpm_t \<Rightarrow> port_t \<Rightarrow> nat" where
  "roletrns_rank b p = (case State (roletrns p) of
       BEGIN \<Rightarrow> 5000
     | St s \<Rightarrow> state_pot b s (own_enter b p) + 1000 * num (misplaced s (own_enter b p)))"

text \<open>
  A port excluded from the protocol must sit in the disabled states: there is no way out of them
  for it, and in the others the machine may never stop (see below).
\<close>

definition roletrns_ok :: "port_t \<Rightarrow> bool" where
  "roletrns_ok p \<longleftrightarrow> selectedRole p = NonStpPort \<longrightarrow>
     State (roletrns p) \<in> {BEGIN, St INIT_PORT, St DISABLE_PORT, St DISABLED_PORT}"

lemma pot_bounds: "pot_root q \<le> 61" "pot_alt b q \<le> 13" "pot_desig q \<le> 62"
  by (simp_all add: pot_root_def pot_alt_def pot_desig_def num_def)

lemma state_pot_bound: "s \<noteq> INIT_PORT \<Longrightarrow> state_pot b s q \<le> 125"
  using pot_bounds(1,3) [of q] pot_bounds(2) [of b q] by (simp add: state_pot_def split: roletrns_st.split)

lemma rank_after_hop:
  "State (roletrns p) = St s \<Longrightarrow> s \<noteq> INIT_PORT \<Longrightarrow> roletrns_rank b p \<le> 1125"
  using state_pot_bound [of s b "own_enter b p"] by (simp add: roletrns_rank_def num_def)

text \<open>A hop to the state of the selected role leaves nothing misplaced.\<close>

lemma hop_to_role_rank:
  assumes "hop_to_role q = (True, q')"
  shows "roletrns_rank b q' \<le> 125"
proof -
  obtain s where s: "q' = q\<lparr> roletrns := STP_hop_2_state s (roletrns q) \<rparr>"
    "s = DISABLE_PORT \<and> selectedRole q = DisabledPort
     \<or> s = BLOCK_PORT \<and> selectedRole q \<in> {AlternatePort, BackupPort}
     \<or> s = ROOT_PORT \<and> selectedRole q = RootPort \<or> s = DESIGNATED_PORT \<and> selectedRole q = DesignatedPort"
    using assms by (cases "selectedRole q") (auto simp: hop_to_role_def hop_roletrns_def)
  have "\<not> misplaced s (own_enter b q')"
    using s(2) by (auto simp: s(1) own_enter_def roletrns_own_def misplaced_def root_group_def desig_group_def)
  moreover have "s \<noteq> INIT_PORT" using s(2) by auto
  ultimately show ?thesis
    using state_pot_bound [of s b "own_enter b q'"] by (simp add: s(1) roletrns_rank_def num_def)
qed

text \<open>Each hub hands on to a satellite of its group with a smaller potential.\<close>

lemma num_simps [simp]: "num True = 1" "num False = 0" "num b \<le> Suc 0"
  by (simp_all add: num_def)

definition root_next :: "port_t \<Rightarrow> roletrns_st \<Rightarrow> bool" where
  "root_next q s = (case s of
       REROOTED \<Rightarrow> reRoot q \<and> forward q
     | ROOT_LEARN \<Rightarrow> \<not> learn q
     | ROOT_FORWARD \<Rightarrow> \<not> forward q
     | REROOT \<Rightarrow> \<not> forward q \<and> \<not> reRoot q
     | ROOT_AGREED \<Rightarrow> \<not> agree q \<or> proposed q
     | ROOT_PROPOSED \<Rightarrow> proposed q
     | _ \<Rightarrow> False)"

definition desig_next :: "port_t \<Rightarrow> roletrns_st \<Rightarrow> bool" where
  "desig_next q s = (case s of
       DESIGNATED_RETIRED \<Rightarrow> reRoot q \<and> rrWhile q = 0
     | DESIGNATED_SYNCED \<Rightarrow> sync q \<or> \<not> synced q
     | DESIGNATED_PROPOSE \<Rightarrow> \<not> proposing q
     | DESIGNATED_DISCARD \<Rightarrow> (sync q \<and> \<not> synced q \<or> reRoot q \<and> rrWhile q \<noteq> 0 \<or> disputed q)
         \<and> (learn q \<or> forward q)
     | DESIGNATED_LEARN \<Rightarrow> (rrWhile q = 0 \<or> \<not> reRoot q) \<and> \<not> sync q \<and> \<not> learn q
     | DESIGNATED_FORWARD \<Rightarrow> (rrWhile q = 0 \<or> \<not> reRoot q) \<and> \<not> sync q \<and> \<not> forward q
     | _ \<Rightarrow> False)"

definition alt_next :: "stpm_t \<Rightarrow> port_t \<Rightarrow> roletrns_st \<Rightarrow> bool" where
  "alt_next b q s = (case s of
       ALTERNATE_AGREED \<Rightarrow> \<not> agree q \<or> proposed q
     | ALTERNATE_PROPOSED \<Rightarrow> proposed q
     | BACKUP_PORT \<Rightarrow> rbWhile q \<noteq> 2 * ucast (HelloTime (rootTimes b))
     | _ \<Rightarrow> False)"

lemma hop_roletrns_eq: "hop_roletrns s q = (True, p') \<longleftrightarrow> p' = snd (hop_roletrns s q)"
  by (auto simp: hop_roletrns_def)

lemma root_hub_next:
  "check_ROOT_PORT c q = (True, p') \<Longrightarrow> rrWhile q = ucast (ForwardDelay (rootTimes c)) \<Longrightarrow>
   \<exists>s. p' = snd (hop_roletrns s q) \<and> root_next q s"
  by (simp add: check_ROOT_PORT_def hop_roletrns_eq Let_def split: if_split_asm)
     (rule exI, rule conjI, rule refl, force simp: root_next_def)+

lemma desig_hub_next:
  "check_DESIGNATED_PORT q = (True, p') \<Longrightarrow> \<exists>s. p' = snd (hop_roletrns s q) \<and> desig_next q s"
  by (simp add: check_DESIGNATED_PORT_def hop_roletrns_eq Let_def split: if_split_asm)
     (rule exI, rule conjI, rule refl, force simp: desig_next_def)+

lemma alt_hub_next:
  "check_ALTERNATE_PORT c q = (True, p') \<Longrightarrow> fdWhile q = ucast (ForwardDelay (rootTimes c)) \<Longrightarrow>
   \<not> sync q \<Longrightarrow> \<not> reRoot q \<Longrightarrow> synced q \<Longrightarrow> rootTimes c = rootTimes b \<Longrightarrow>
   \<exists>s. p' = snd (hop_roletrns s q) \<and> alt_next b q s"
  by (simp add: check_ALTERNATE_PORT_def hop_roletrns_eq Let_def split: if_split_asm)
     (rule exI, rule conjI, rule refl, force simp: alt_next_def)+

lemma own_enter_hop:
  "own_enter b (snd (hop_roletrns s q)) =
     (let q' = q\<lparr> roletrns := STP_hop_2_state s (roletrns q) \<rparr>
      in roletrns_own b (case s of ROOT_PROPOSED \<Rightarrow> q'\<lparr> sync := True \<rparr> | REROOT \<Rightarrow> q'\<lparr> reRoot := True \<rparr>
           | ALTERNATE_PROPOSED \<Rightarrow> q'\<lparr> sync := True \<rparr> | _ \<Rightarrow> q'))"
  by (simp add: own_enter_def hop_roletrns_def Let_def)

lemma root_sat_pot:
  assumes "root_next q s"
  shows "pot_root (own_enter b (snd (hop_roletrns s q))) < pot_root q"
  using assms
  unfolding own_enter_hop pot_root_def root_next_def Let_def
  by (cases s) (auto simp: roletrns_own_def, simp_all add: num_def)

lemma alt_sat_pot:
  assumes "alt_next b q s"
  shows "pot_alt b (own_enter b (snd (hop_roletrns s q))) < pot_alt b q"
  using assms
  unfolding own_enter_hop pot_alt_def alt_next_def Let_def
  by (cases s) (auto simp: roletrns_own_def)

lemma desig_sat_pot:
  assumes "desig_next q s"
  shows "pot_desig (own_enter b (snd (hop_roletrns s q))) < pot_desig q"
  using assms
  unfolding own_enter_hop pot_desig_def desig_next_def Let_def
  by (cases s) (auto simp: roletrns_own_def, simp_all add: num_def)

text \<open>The way back from a satellite keeps the potential.\<close>

lemma hub_pot:
  "pot_root (own_enter b (snd (hop_roletrns ROOT_PORT q))) = pot_root q"
  "pot_desig (own_enter b (snd (hop_roletrns DESIGNATED_PORT q))) = pot_desig q"
  "pot_alt b (own_enter b (snd (hop_roletrns ALTERNATE_PORT q))) = pot_alt b q"
  unfolding own_enter_hop pot_root_def pot_desig_def pot_alt_def Let_def
  by (simp_all add: roletrns_own_def)

lemma hub_role:
  "role (own_enter b (snd (hop_roletrns ROOT_PORT q))) = RootPort"
  "role (own_enter b (snd (hop_roletrns DESIGNATED_PORT q))) = DesignatedPort"
  "role (own_enter b (snd (hop_roletrns ALTERNATE_PORT q))) = role q"
  "role (own_enter b (snd (hop_roletrns DISABLED_PORT q))) = role q"
  unfolding own_enter_hop Let_def by (simp_all add: roletrns_own_def)

lemma sat_role:
  "root_next q s \<Longrightarrow> role (own_enter b (snd (hop_roletrns s q))) = role q"
  "desig_next q s \<Longrightarrow> role (own_enter b (snd (hop_roletrns s q))) = role q"
  "alt_next b q s \<Longrightarrow> role (own_enter b (snd (hop_roletrns s q))) = role q"
  unfolding own_enter_hop root_next_def desig_next_def alt_next_def Let_def
  by (cases s; simp add: roletrns_own_def)+

lemma hop_kept [simp]:
  "selectedRole (snd (hop_roletrns s q)) = selectedRole q"
  "State (roletrns (snd (hop_roletrns s q))) = St s"
  by (simp_all add: hop_roletrns_def)

lemma rank_hop:
  "roletrns_rank b (snd (hop_roletrns s q)) =
     state_pot b s (own_enter b (snd (hop_roletrns s q))) + 1000 * num (
       role (own_enter b (snd (hop_roletrns s q))) \<noteq> selectedRole q
       \<or> root_group s \<and> selectedRole q \<noteq> RootPort \<or> desig_group s \<and> selectedRole q \<noteq> DesignatedPort)"
  by (simp add: roletrns_rank_def misplaced_def own_enter_kept)

lemma next_states:
  "root_next q s \<Longrightarrow> root_group s \<and> s \<noteq> ROOT_PORT \<and> \<not> desig_group s
     \<and> state_pot b s r = 2 * pot_root r + 1"
  "desig_next q s \<Longrightarrow> desig_group s \<and> s \<noteq> DESIGNATED_PORT \<and> \<not> root_group s
     \<and> state_pot b s r = 2 * pot_desig r + 1"
  "alt_next b q s \<Longrightarrow> \<not> desig_group s \<and> \<not> root_group s \<and> state_pot b s r = 2 * pot_alt b r + 1"
  by (cases s; simp add: root_next_def desig_next_def alt_next_def root_group_def desig_group_def
      state_pot_def)+

lemma group_simps [simp]:
  "root_group ROOT_PORT" "\<not> desig_group ROOT_PORT" "desig_group DESIGNATED_PORT"
  "\<not> root_group DESIGNATED_PORT" "\<not> root_group ALTERNATE_PORT" "\<not> desig_group ALTERNATE_PORT"
  "\<not> root_group DISABLE_PORT" "\<not> desig_group DISABLE_PORT" "\<not> root_group DISABLED_PORT"
  "\<not> desig_group DISABLED_PORT" "\<not> root_group BLOCK_PORT" "\<not> desig_group BLOCK_PORT"
  by (simp_all add: root_group_def desig_group_def)

lemma root_hub_rank:
  assumes "root_next q s" "role q = selectedRole q"
  shows "roletrns_rank b (snd (hop_roletrns s q)) < 2 * pot_root q + 1000 * num (misplaced ROOT_PORT q)"
  using next_states(1) [OF assms(1)] root_sat_pot [OF assms(1), of b] assms(2)
  by (simp add: rank_hop sat_role(1) [OF assms(1)] misplaced_def)

lemma desig_hub_rank:
  assumes "desig_next q s" "role q = selectedRole q"
  shows "roletrns_rank b (snd (hop_roletrns s q)) < 2 * pot_desig q + 1000 * num (misplaced DESIGNATED_PORT q)"
  using next_states(2) [OF assms(1)] desig_sat_pot [OF assms(1), of b] assms(2)
  by (simp add: rank_hop sat_role(2) [OF assms(1)] misplaced_def)

lemma alt_hub_rank:
  assumes "alt_next b q s" "role q = selectedRole q"
  shows "roletrns_rank b (snd (hop_roletrns s q)) < 2 * pot_alt b q + 1000 * num (misplaced ALTERNATE_PORT q)"
  using next_states(3) [OF assms(1)] alt_sat_pot [OF assms(1)] assms(2)
  by (simp add: rank_hop sat_role(3) [OF assms(1)] misplaced_def)

lemma sat_to_hub_rank:
  assumes "hub = (if root_group s then ROOT_PORT else if desig_group s then DESIGNATED_PORT else ALTERNATE_PORT)"
    and "s \<notin> {INIT_PORT, DISABLE_PORT, DISABLED_PORT, BLOCK_PORT, ROOT_PORT, DESIGNATED_PORT, ALTERNATE_PORT}"
  shows "roletrns_rank b (snd (hop_roletrns hub q)) < state_pot b s q + 1000 * num (misplaced s q)"
proof -
  have "\<not> (root_group s \<and> desig_group s)" by (auto simp: root_group_def desig_group_def)
  then consider "root_group s" "\<not> desig_group s" "hub = ROOT_PORT" "state_pot b s q = 2 * pot_root q + 1"
    | "desig_group s" "\<not> root_group s" "hub = DESIGNATED_PORT" "state_pot b s q = 2 * pot_desig q + 1"
    | "\<not> root_group s" "\<not> desig_group s" "hub = ALTERNATE_PORT" "state_pot b s q = 2 * pot_alt b q + 1"
    using assms by (cases s) (auto simp: state_pot_def)
  then show ?thesis
    by cases (simp_all add: rank_hop hub_pot hub_role misplaced_def, simp_all add: state_pot_def hub_pot,
      auto simp: num_def)
qed

lemma pot_roletrns [simp]:
  "state_pot b s (q\<lparr> roletrns := x \<rparr>) = state_pot b s q"
  "misplaced s (q\<lparr> roletrns := x \<rparr>) = misplaced s q"
  "pot_root (q\<lparr> roletrns := x \<rparr>) = pot_root q" "pot_desig (q\<lparr> roletrns := x \<rparr>) = pot_desig q"
  "pot_alt b (q\<lparr> roletrns := x \<rparr>) = pot_alt b q"
  by (simp_all add: state_pot_def misplaced_def pot_root_def pot_desig_def pot_alt_def
      split: roletrns_st.split)

text \<open>The port that is checked: entered, with the pending flag cleared.\<close>

definition entered :: "stpm_t \<Rightarrow> port_t \<Rightarrow> port_t" where
  "entered b p = (own_enter b p)\<lparr> roletrns := (roletrns p)\<lparr> changeState := False \<rparr> \<rparr>"

lemma entered_simps [simp]:
  "roletrns (entered b p) = (roletrns p)\<lparr> changeState := False \<rparr>"
  "selectedRole (entered b p) = selectedRole p"
  by (simp_all add: entered_def own_enter_kept)

lemma rank_entered:
  "State (roletrns p) = St s \<Longrightarrow>
   roletrns_rank b p = state_pot b s (entered b p) + 1000 * num (misplaced s (entered b p))"
  by (simp add: roletrns_rank_def entered_def)

lemma entered_hub:
  "State (roletrns p) = St ROOT_PORT \<Longrightarrow> rrWhile (entered b p) = ucast (ForwardDelay (rootTimes b))"
  "State (roletrns p) = St ALTERNATE_PORT \<Longrightarrow> fdWhile (entered b p) = ucast (ForwardDelay (rootTimes b))
     \<and> \<not> sync (entered b p) \<and> \<not> reRoot (entered b p) \<and> synced (entered b p)"
  "State (roletrns p) = St DISABLED_PORT \<Longrightarrow> fdWhile (entered b p) = ucast (MaxAge (rootTimes b))
     \<and> \<not> sync (entered b p) \<and> \<not> reRoot (entered b p) \<and> synced (entered b p)"
  by (simp_all add: entered_def own_enter_def roletrns_own_def)

lemma nonstp_decreases:
  assumes "roletrns_ok p" "selectedRole p = NonStpPort" "State (roletrns p) = St s"
    and "rootTimes c = rootTimes b" "roletrns_check c (entered b p) = (True, p')"
  shows "roletrns_rank b p' < roletrns_rank b p \<and> roletrns_ok p'"
proof -
  define q where "q = (entered b p)\<lparr> role := NonStpPort, learn := True, forward := True \<rparr>"
  have s: "s \<in> {INIT_PORT, DISABLE_PORT, DISABLED_PORT}"
    using assms(1-3) by (auto simp: roletrns_ok_def)
  have qf: "State (roletrns q) = St s" "role q = NonStpPort" "selectedRole q = NonStpPort"
    using assms(2,3) by (simp_all add: q_def)
  have rest: "\<not> (fdWhile q \<noteq> ucast (MaxAge (rootTimes c)) \<or> sync q \<or> reRoot q \<or> \<not> synced q)"
    if "s = DISABLED_PORT" using entered_hub(3) [of p b] assms(3,4) that by (simp add: q_def)
  have "(case s of INIT_PORT \<Rightarrow> hop_roletrns DISABLE_PORT q
      | DISABLE_PORT \<Rightarrow> if selected q \<longrightarrow> updtInfo q then (False, q)
          else if \<not> learning q \<and> \<not> forwarding q then hop_roletrns DISABLED_PORT q else (False, q)
      | _ \<Rightarrow> (False, q)) = (True, p')"
    using assms(5) s rest assms(2) unfolding roletrns_check_def Let_def
    by (auto simp: q_def [symmetric] qf)
  then have "s = INIT_PORT \<and> p' = snd (hop_roletrns DISABLE_PORT q)
      \<or> s = DISABLE_PORT \<and> p' = snd (hop_roletrns DISABLED_PORT q)"
    using s by (auto simp: hop_roletrns_eq split: if_split_asm)
  moreover have "roletrns_rank b (snd (hop_roletrns DISABLE_PORT q)) < 2000"
    using rank_after_hop [of "snd (hop_roletrns DISABLE_PORT q)" DISABLE_PORT b] by simp
  moreover have "roletrns_rank b (snd (hop_roletrns DISABLED_PORT q)) = 0"
    using assms(2) by (simp add: rank_hop hub_role state_pot_def q_def)
  ultimately show ?thesis
    by (auto simp: rank_entered [OF assms(3)] state_pot_def roletrns_ok_def)
qed

text \<open>The check, by the state, for a port that takes part in the protocol.\<close>

lemma check_settled:
  assumes "selectedRole q \<noteq> NonStpPort" "State (roletrns q) = St s" "roletrns_check c q = (True, p')"
    and "\<not> (role q \<noteq> selectedRole q \<and> selected q \<and> \<not> updtInfo q)"
  shows "case s of
      INIT_PORT \<Rightarrow> p' = snd (hop_roletrns DISABLE_PORT q)
    | DISABLE_PORT \<Rightarrow> p' = snd (hop_roletrns DISABLED_PORT q) \<and> role q = selectedRole q
    | DISABLED_PORT \<Rightarrow> fdWhile q \<noteq> ucast (MaxAge (rootTimes c)) \<or> sync q \<or> reRoot q \<or> \<not> synced q
    | BLOCK_PORT \<Rightarrow> p' = snd (hop_roletrns ALTERNATE_PORT q) \<and> role q = selectedRole q
    | ROOT_PORT \<Rightarrow> check_ROOT_PORT c q = (True, p') \<and> role q = selectedRole q
    | DESIGNATED_PORT \<Rightarrow> check_DESIGNATED_PORT q = (True, p') \<and> role q = selectedRole q
    | ALTERNATE_PORT \<Rightarrow> check_ALTERNATE_PORT c q = (True, p') \<and> role q = selectedRole q
    | _ \<Rightarrow> p' = snd (hop_roletrns (if root_group s then ROOT_PORT
             else if desig_group s then DESIGNATED_PORT else ALTERNATE_PORT) q)"
  using assms
  by (cases s; simp add: roletrns_check_def Let_def hop_roletrns_eq root_group_def desig_group_def
      split: if_split_asm)

lemma settled_decreases:
  assumes "selectedRole p \<noteq> NonStpPort" "State (roletrns p) = St s" "rootTimes c = rootTimes b"
    and chk: "roletrns_check c (entered b p) = (True, p')"
    and "\<not> (role (entered b p) \<noteq> selectedRole p \<and> selected (entered b p) \<and> \<not> updtInfo (entered b p))"
  shows "roletrns_rank b p' < roletrns_rank b p \<and> selectedRole p' = selectedRole p"
proof -
  define q where "q = entered b p"
  have sel: "selectedRole q = selectedRole p" by (simp add: q_def)
  note rk = rank_entered [OF assms(2), of b, folded q_def]
  have "selectedRole q \<noteq> NonStpPort" "State (roletrns q) = St s" "roletrns_check c q = (True, p')"
    "\<not> (role q \<noteq> selectedRole q \<and> selected q \<and> \<not> updtInfo q)"
    using assms by (simp_all add: q_def)
  note st = check_settled [OF this]
  consider "s = INIT_PORT" | "s = DISABLE_PORT" | "s = DISABLED_PORT" | "s = BLOCK_PORT"
    | "s = ROOT_PORT" | "s = DESIGNATED_PORT" | "s = ALTERNATE_PORT"
    | "s \<notin> {INIT_PORT, DISABLE_PORT, DISABLED_PORT, BLOCK_PORT, ROOT_PORT, DESIGNATED_PORT, ALTERNATE_PORT}"
    by blast
  then show ?thesis
  proof cases
    case 1
    then show ?thesis using st rank_after_hop [of p' DISABLE_PORT b] sel
      by (simp add: rk state_pot_def)
  next
    case 2
    then show ?thesis using st sel by (simp add: rk state_pot_def rank_hop hub_role)
  next
    case 3
    then show ?thesis using st entered_hub(3) [of p b] assms(2,3) by (simp add: q_def)
  next
    case 4
    then show ?thesis using st sel pot_bounds(2) [of b q]
      by (simp add: rk state_pot_def rank_hop hub_role hub_pot)
  next
    case 5
    then obtain s' where "p' = snd (hop_roletrns s' q)" "root_next q s'" "role q = selectedRole q"
      using st root_hub_next [of c q p'] entered_hub(1) [of p b] assms(2,3) by (auto simp: q_def)
    then show ?thesis using root_hub_rank [of q s' b] 5 sel by (simp add: rk state_pot_def)
  next
    case 6
    then obtain s' where "p' = snd (hop_roletrns s' q)" "desig_next q s'" "role q = selectedRole q"
      using st desig_hub_next [of q p'] by auto
    then show ?thesis using desig_hub_rank [of q s' b] 6 sel by (simp add: rk state_pot_def)
  next
    case 7
    then obtain s' where "p' = snd (hop_roletrns s' q)" "alt_next b q s'" "role q = selectedRole q"
      using st alt_hub_next [of c q p' b] entered_hub(2) [of p b] assms(2,3) by (auto simp: q_def)
    then show ?thesis using alt_hub_rank [of b q s'] 7 sel by (simp add: rk state_pot_def)
  next
    case 8
    then have "p' = snd (hop_roletrns (if root_group s then ROOT_PORT
             else if desig_group s then DESIGNATED_PORT else ALTERNATE_PORT) q)"
      using st by (cases s) simp_all
    then show ?thesis using sat_to_hub_rank [OF refl 8, of b q] sel by (simp only: rk hop_kept)
  qed
qed

text \<open>The rank of the owner decreases with every iteration that leaves the machine pending.\<close>

lemma roletrns_decreases:
  assumes "roletrns_ok p" "rootTimes c = rootTimes b" "roletrns_check c (entered b p) = (True, p')"
  shows "roletrns_rank b p' < roletrns_rank b p \<and> roletrns_ok p'"
proof (cases "State (roletrns p)")
  case BEGIN
  then obtain q where "p' = snd (hop_roletrns INIT_PORT q)"
    using assms(3) by (auto simp: roletrns_check_def Let_def hop_roletrns_eq split: if_split_asm)
  then show ?thesis using BEGIN
    by (simp add: rank_hop roletrns_rank_def state_pot_def roletrns_ok_def num_def)
next
  case (St s)
  show ?thesis
  proof (cases "selectedRole p = NonStpPort")
    case True
    with St nonstp_decreases assms show ?thesis by blast
  next
    case stp: False
    show ?thesis
    proof (cases "role (entered b p) \<noteq> selectedRole p \<and> selected (entered b p) \<and> \<not> updtInfo (entered b p)")
      case True
      then have "hop_to_role (entered b p) = (True, p')"
        using assms(3) St stp by (simp add: roletrns_check_def Let_def)
      then have "roletrns_rank b p' \<le> 125" by (rule hop_to_role_rank)
      moreover have "selectedRole p' = selectedRole p"
        using \<open>hop_to_role (entered b p) = (True, p')\<close>
        by (auto simp: hop_to_role_def hop_roletrns_eq split: port_role_t.split_asm)
      ultimately show ?thesis using True stp by (simp add: rank_entered [OF St] misplaced_def roletrns_ok_def)
    next
      case False
      from settled_decreases [OF stp St assms(2,3) False] stp show ?thesis by (simp add: roletrns_ok_def)
    qed
  qed
qed

lemma rank_cong: "rootTimes b = rootTimes c \<Longrightarrow> roletrns_rank b p = roletrns_rank c p"
proof -
  assume rt: "rootTimes b = rootTimes c"
  then have "roletrns_own b q = roletrns_own c q" for q
    by (simp add: roletrns_own_def enter_INIT_PORT_def fd_delay_def split: mach_st.split roletrns_st.split)
  then have "own_enter b p = own_enter c p" by (simp add: own_enter_def)
  then show ?thesis using rt
    by (simp add: roletrns_rank_def state_pot_def pot_alt_def split: mach_st.split roletrns_st.split)
qed

text \<open>A check writes the three fields of a port outside the protocol, and then hops or stays.\<close>

definition hops_or_stays :: "port_t \<Rightarrow> bool \<times> port_t \<Rightarrow> bool" where
  "hops_or_stays q x \<longleftrightarrow> (\<exists>s. x = hop_roletrns s q) \<or> x = (False, q)"

lemma hops_or_staysI [simp]: "hops_or_stays q (hop_roletrns s q)" "hops_or_stays q (False, q)"
  by (auto simp: hops_or_stays_def)

definition nonstp_port :: "port_t \<Rightarrow> port_t" where
  "nonstp_port p = (if selectedRole p = NonStpPort
     then p\<lparr> role := NonStpPort, learn := True, forward := True \<rparr> else p)"

lemma check_hops_or_stays: "hops_or_stays (nonstp_port q) (roletrns_check c q)"
proof -
  have "hops_or_stays q (check_ROOT_PORT c q)" "hops_or_stays q (check_DESIGNATED_PORT q)"
    "hops_or_stays q (check_ALTERNATE_PORT c q)" "hops_or_stays q (hop_to_role q)" for q
    by (simp_all add: check_ROOT_PORT_def check_DESIGNATED_PORT_def check_ALTERNATE_PORT_def
        hop_to_role_def Let_def split: port_role_t.split)
  then show ?thesis
    unfolding roletrns_check_def nonstp_port_def [symmetric] Let_def
    by (simp split: mach_st.split roletrns_st.split)
qed

lemma check_cases:
  obtains s where "roletrns_check c q = hop_roletrns s (nonstp_port q)"
  | "roletrns_check c q = (False, nonstp_port q)"
  using check_hops_or_stays [of q c] unfolding hops_or_stays_def by blast

lemma nonstp_port_simps [simp]: "roletrns (nonstp_port p) = roletrns p"
  "selectedRole (nonstp_port p) = selectedRole p"
  by (simp_all add: nonstp_port_def)

subsection \<open>The machine on the bridge\<close>

lemma get_roletrns [simp]:
  "get_changeState (roletrns_mach i) w = changeState (roletrns (ports (snd w) ! i))"
  by (cases w) (simp add: roletrns_mach_def)

lemma enter_rootTimes [simp]: "rootTimes (STP_roletrns_enter_state i b) = rootTimes b"
  "length (ports (STP_roletrns_enter_state i b)) = length (ports b)"
  using enter_bridge [of i b] by auto

text \<open>The bridge and the owner when the conditions are checked.\<close>

definition mid_bridge :: "nat \<Rightarrow> stpm_t \<Rightarrow> stpm_t" where
  "mid_bridge i b = own_port i (\<lambda>p. p\<lparr> roletrns := (roletrns p)\<lparr> changeState := False \<rparr> \<rparr>)
     (STP_roletrns_enter_state i b)"

lemma mid_bridge_simps [simp]:
  "rootTimes (mid_bridge i b) = rootTimes b" "length (ports (mid_bridge i b)) = length (ports b)"
  "i < length (ports b) \<Longrightarrow> ports (mid_bridge i b) ! i = entered b (ports b ! i)"
  by (simp_all add: mid_bridge_def own_port_def enter_own entered_def own_enter_kept)

lemma roletrns_step:
  assumes "i < length (ports b)"
  shows "change_state_step (roletrns_mach i) (g, b) =
     (let (r, p) = roletrns_check (mid_bridge i b) (entered b (ports b ! i))
      in (g, (mid_bridge i b)\<lparr> ports := (ports (mid_bridge i b))[i := p] \<rparr>))"
proof -
  have "put_changeState (roletrns_mach i) False (concreteEnterState (roletrns_mach i) (g, b)) = (g, mid_bridge i b)"
    by (simp add: roletrns_mach_def mid_bridge_def)
  moreover have "STP_check_condition (roletrns_mach i) (g, mid_bridge i b) =
     (let (r, p) = roletrns_check (mid_bridge i b) (entered b (ports b ! i))
      in (r, (g, (mid_bridge i b)\<lparr> ports := (ports (mid_bridge i b))[i := p] \<rparr>)))"
    by (rule check_cases [of "mid_bridge i b" "entered b (ports b ! i)"])
       (use assms in \<open>simp_all add: roletrns_mach_def STP_check_condition_def
          STP_roletrns_check_conditions_def own_port_def upd_at_def hop_roletrns_def STP_hop_2_state_def\<close>)
  ultimately show ?thesis by (simp add: change_state_step_def split: prod.split)
qed

definition roletrns_placed :: "nat \<Rightarrow> mworld \<Rightarrow> bool" where
  "roletrns_placed i w \<longleftrightarrow> i < length (ports (snd w)) \<and> roletrns_ok (ports (snd w) ! i)"

interpretation roletrns_m: ranked_machine "roletrns_mach i" "roletrns_placed i"
  "\<lambda>w. roletrns_rank (snd w) (ports (snd w) ! i)" for i
proof -
  have key: "roletrns_placed i (change_state_step (roletrns_mach i) (g, b)) \<and>
     (changeState (roletrns (ports (snd (change_state_step (roletrns_mach i) (g, b))) ! i)) \<longrightarrow>
      roletrns_rank (snd (change_state_step (roletrns_mach i) (g, b)))
        (ports (snd (change_state_step (roletrns_mach i) (g, b))) ! i)
      < roletrns_rank b (ports b ! i))" if "roletrns_placed i (g, b)" for g b
  proof -
    have i: "i < length (ports b)" and ok: "roletrns_ok (ports b ! i)"
      using that by (simp_all add: roletrns_placed_def)
    obtain r p where chk: "roletrns_check (mid_bridge i b) (entered b (ports b ! i)) = (r, p)" by fastforce
    have step: "snd (change_state_step (roletrns_mach i) (g, b)) =
        (mid_bridge i b)\<lparr> ports := (ports (mid_bridge i b))[i := p] \<rparr>"
      using i chk by (simp add: roletrns_step)
    have rk: "roletrns_rank ((mid_bridge i b)\<lparr> ports := ps \<rparr>) q = roletrns_rank b q" for ps q
      by (rule rank_cong) simp
    show ?thesis
    proof (cases r)
      case True
      then show ?thesis using roletrns_decreases [OF ok, of "mid_bridge i b" b p] chk i
        by (simp add: step rk roletrns_placed_def)
    next
      case False
      then have "p = nonstp_port (entered b (ports b ! i))"
        using chk by (cases rule: check_cases [of "mid_bridge i b" "entered b (ports b ! i)"])
          (simp_all add: hop_roletrns_def)
      then show ?thesis using i ok by (simp add: step roletrns_placed_def roletrns_ok_def)
    qed
  qed
  show "ranked_machine (roletrns_mach i) (roletrns_placed i)
     (\<lambda>w. roletrns_rank (snd w) (ports (snd w) ! i))"
    by unfold_locales (use key in \<open>auto\<close>)
qed

lemma roletrns_rank_bound: "roletrns_rank b p \<le> 5000"
proof (cases "State (roletrns p)")
  case (St s)
  then show ?thesis
    using rank_after_hop [of p s b] by (cases "s = INIT_PORT") (simp_all add: roletrns_rank_def state_pot_def num_def)
qed (simp add: roletrns_rank_def)

subsection \<open>Invariants of the owner\<close>

text \<open>What a check may hop to, given a condition on the target.\<close>

definition hops_with :: "(roletrns_st \<Rightarrow> port_t \<Rightarrow> bool) \<Rightarrow> port_t \<Rightarrow> bool \<times> port_t \<Rightarrow> bool" where
  "hops_with Q q x \<longleftrightarrow> (\<exists>s. x = hop_roletrns s q \<and> Q s q) \<or> x = (False, q)"

lemma hops_with_simps [simp]: "hops_with Q q (hop_roletrns s q) = Q s q" "hops_with Q q (False, q)"
  by (auto simp: hops_with_def hop_roletrns_def dest!: arg_cong [of _ _ "\<lambda>p. State (roletrns p)"])

text \<open>Forwarding is asked for only on top of learning.\<close>

definition wish_inv :: "port_t \<Rightarrow> bool" where
  "wish_inv p \<longleftrightarrow> (forward p \<longrightarrow> learn p) \<and>
     (changeState (roletrns p) \<and> State (roletrns p) \<in> {St ROOT_FORWARD, St DESIGNATED_FORWARD} \<longrightarrow> learn p)"

definition wish_target :: "roletrns_st \<Rightarrow> port_t \<Rightarrow> bool" where
  "wish_target s q \<longleftrightarrow> (s = ROOT_FORWARD \<or> s = DESIGNATED_FORWARD \<longrightarrow> learn q)"

lemma check_wish_target: "hops_with wish_target (nonstp_port q) (roletrns_check c q)"
proof -
  have "hops_with wish_target q (check_ROOT_PORT c q)" "hops_with wish_target q (check_DESIGNATED_PORT q)"
    "hops_with wish_target q (check_ALTERNATE_PORT c q)" "hops_with wish_target q (hop_to_role q)" for q
    by (simp_all add: check_ROOT_PORT_def check_DESIGNATED_PORT_def check_ALTERNATE_PORT_def
        hop_to_role_def Let_def wish_target_def split: port_role_t.split)
  then show ?thesis
    unfolding roletrns_check_def nonstp_port_def [symmetric] Let_def
    by (simp add: wish_target_def split: mach_st.split roletrns_st.split)
qed

lemma wish_check: "wish_inv q \<Longrightarrow> \<not> changeState (roletrns q) \<Longrightarrow> wish_inv (snd (roletrns_check c q))"
  using check_wish_target [of q c]
  by (auto simp: hops_with_def wish_target_def wish_inv_def hop_roletrns_def STP_hop_2_state_def nonstp_port_def
      split: if_splits)

lemma wish_entered: "wish_inv p \<Longrightarrow> changeState (roletrns p) \<Longrightarrow> wish_inv (entered b p)"
proof (cases "State (roletrns p)")
  case BEGIN
  then show ?thesis by (simp add: wish_inv_def entered_def own_enter_def roletrns_own_def enter_INIT_PORT_def)
next
  case (St s)
  assume "wish_inv p" "changeState (roletrns p)"
  with St show ?thesis
    by (cases s) (simp_all add: wish_inv_def entered_def own_enter_def roletrns_own_def enter_INIT_PORT_def)
qed

text \<open>A port outside the protocol stays in the disabled states.\<close>

definition nonstp_inv :: "port_t \<Rightarrow> bool" where
  "nonstp_inv p \<longleftrightarrow> (admin_non_stp p \<or> selectedRole p = NonStpPort \<longrightarrow>
       State (roletrns p) \<in> {BEGIN, St INIT_PORT, St DISABLE_PORT, St DISABLED_PORT})
     \<and> (admin_non_stp p \<longrightarrow> selectedRole p \<in> {DisabledPort, NonStpPort})"

lemma nonstp_inv_ok: "nonstp_inv p \<Longrightarrow> roletrns_ok p"
  by (simp add: nonstp_inv_def roletrns_ok_def)

definition disabled_target :: "roletrns_st \<Rightarrow> port_t \<Rightarrow> bool" where
  "disabled_target s q \<longleftrightarrow> (selectedRole q \<in> {DisabledPort, NonStpPort}
     \<and> State (roletrns q) \<in> {BEGIN, St INIT_PORT, St DISABLE_PORT, St DISABLED_PORT}
     \<longrightarrow> s \<in> {INIT_PORT, DISABLE_PORT, DISABLED_PORT})"

lemma check_disabled_target: "hops_with disabled_target (nonstp_port q) (roletrns_check c q)"
proof -
  have "hops_with disabled_target q (hop_to_role q)" for q
    by (simp add: hop_to_role_def disabled_target_def split: port_role_t.split)
  moreover have "State (roletrns q) = St ROOT_PORT \<Longrightarrow> hops_with disabled_target q (check_ROOT_PORT c q)"
    "State (roletrns q) = St DESIGNATED_PORT \<Longrightarrow> hops_with disabled_target q (check_DESIGNATED_PORT q)"
    "State (roletrns q) = St ALTERNATE_PORT \<Longrightarrow> hops_with disabled_target q (check_ALTERNATE_PORT c q)" for q
    by (simp_all add: check_ROOT_PORT_def check_DESIGNATED_PORT_def check_ALTERNATE_PORT_def
        Let_def disabled_target_def)
  ultimately show ?thesis
    unfolding roletrns_check_def nonstp_port_def [symmetric] Let_def
    by (simp add: disabled_target_def split: mach_st.split roletrns_st.split)
qed

lemma nonstp_check: "nonstp_inv q \<Longrightarrow> nonstp_inv (snd (roletrns_check c q))"
  using check_disabled_target [of q c]
  by (auto simp: hops_with_def disabled_target_def nonstp_inv_def hop_roletrns_def nonstp_port_def
      split: if_splits)

lemma own_enter_admin [simp]: "admin_non_stp (own_enter b p) = admin_non_stp p"
proof -
  have "admin_non_stp (roletrns_own b q) = admin_non_stp q" for q
    by (simp add: roletrns_own_def enter_INIT_PORT_def split: mach_st.split roletrns_st.split)
  then show ?thesis by (simp add: own_enter_def split: mach_st.split roletrns_st.split)
qed

lemma nonstp_entered: "nonstp_inv p \<Longrightarrow> nonstp_inv (entered b p)"
  by (simp add: nonstp_inv_def entered_def own_enter_kept)

subsection \<open>A loop without end\<close>

text \<open>
  A port taken out of the protocol while it is designated, learning and still to be
  synchronised: every check asks for forwarding again, every entry of the discarding state
  takes it back.
\<close>

definition nonstp_stuck :: "port_t \<Rightarrow> bool" where
  "nonstp_stuck p \<longleftrightarrow> selectedRole p = NonStpPort \<and> selected p \<and> \<not> updtInfo p \<and> \<not> operEdge p
     \<and> sync p \<and> \<not> synced p \<and> \<not> agreed p \<and> (learning p \<or> forwarding p) \<and> (reRoot p \<longrightarrow> rrWhile p \<noteq> 0)
     \<and> changeState (roletrns p) \<and> State (roletrns p) \<in> {St DESIGNATED_PORT, St DESIGNATED_DISCARD}"

lemma nonstp_stuck_check:
  assumes "nonstp_stuck p"
  shows "nonstp_stuck (snd (roletrns_check c (entered b p)))"
proof -
  from assms consider "State (roletrns p) = St DESIGNATED_PORT" | "State (roletrns p) = St DESIGNATED_DISCARD"
    by (auto simp: nonstp_stuck_def)
  then show ?thesis
  proof cases
    case 1
    define q where "q = nonstp_port (entered b p)"
    have q: "State (roletrns q) = St DESIGNATED_PORT" "role q = NonStpPort" "selectedRole q = NonStpPort"
      "selected q" "\<not> updtInfo q" "\<not> operEdge q" "sync q" "\<not> synced q" "\<not> agreed q" "learning q \<or> forwarding q"
      "reRoot q \<longrightarrow> rrWhile q \<noteq> 0" "learn q" "forward q"
      using 1 assms by (simp_all add: q_def nonstp_stuck_def nonstp_port_def entered_def own_enter_def roletrns_own_def)
    have "check_DESIGNATED_PORT q = hop_roletrns DESIGNATED_DISCARD q"
      using q by (auto simp: check_DESIGNATED_PORT_def Let_def)
    then have "roletrns_check c (entered b p) = hop_roletrns DESIGNATED_DISCARD q"
      unfolding roletrns_check_def nonstp_port_def [symmetric] Let_def using q by (simp add: q_def [symmetric])
    then show ?thesis using q by (simp add: nonstp_stuck_def hop_roletrns_def)
  next
    case 2
    define q where "q = nonstp_port (entered b p)"
    have q: "State (roletrns q) = St DESIGNATED_DISCARD" "role q = NonStpPort" "selectedRole q = NonStpPort"
      "selected q" "\<not> updtInfo q" "\<not> operEdge q" "sync q" "\<not> synced q" "\<not> agreed q" "learning q \<or> forwarding q"
      "reRoot q \<longrightarrow> rrWhile q \<noteq> 0"
      using 2 assms by (simp_all add: q_def nonstp_stuck_def nonstp_port_def entered_def own_enter_def roletrns_own_def)
    then have "roletrns_check c (entered b p) = hop_roletrns DESIGNATED_PORT q"
      unfolding roletrns_check_def nonstp_port_def [symmetric] Let_def by (simp add: q_def [symmetric])
    then show ?thesis using q by (simp add: nonstp_stuck_def hop_roletrns_def)
  qed
qed

subsection \<open>Properties\<close>

text \<open>C26: the role transition machine of a port that takes part in the protocol always comes to
  rest, whatever its state, flags and timers and whatever the other ports are in, and so does
  that of a port excluded from the protocol while it is in the disabled states.\<close>

theorem roletrns_stops:
  assumes "i < length (ports b)" "roletrns_ok (ports b ! i)"
  shows "\<exists>n g' b'. STP_change_state (roletrns_mach i) (g, b) = Some (n, (g', b')) \<and> n \<le> 5001
    \<and> \<not> changeState (roletrns (ports b' ! i))"
proof -
  have "roletrns_placed i (g, b)" using assms by (simp add: roletrns_placed_def)
  from roletrns_m.change_state_returns [OF this] obtain n w' where
    ret: "STP_change_state (roletrns_mach i) (g, b) = Some (n, w')"
    and n: "n \<le> roletrns_rank b (ports b ! i) + 1"
    and rest: "\<not> changeState (roletrns (ports (snd w') ! i))" by auto
  have "n \<le> 5001" using n roletrns_rank_bound [of b "ports b ! i"] by linarith
  moreover obtain g' b' where "w' = (g', b')" by (cases w')
  ultimately show ?thesis using ret rest by auto
qed


definition example_stuck_port :: port_t where
  "example_stuck_port = zero_port\<lparr> admin_non_stp := True, selectedRole := NonStpPort, selected := True,
     sync := True, learning := True, roletrns := STP_hop_2_state DESIGNATED_PORT (roletrns zero_port) \<rparr>"


theorem roletrns_stops_witness:
  "\<exists>n g' b'. STP_change_state (roletrns_mach 0)
      (init_glob, zero_stpm\<lparr> ports := [example_stuck_port\<lparr> selectedRole := DesignatedPort \<rparr>] \<rparr>)
      = Some (n, (g', b')) \<and> \<not> changeState (roletrns (ports b' ! 0))"
proof -
  let ?b = "zero_stpm\<lparr> ports := [example_stuck_port\<lparr> selectedRole := DesignatedPort \<rparr>] \<rparr>"
  have "0 < length (ports ?b)" "roletrns_ok (ports ?b ! 0)" by (simp_all add: roletrns_ok_def)
  from roletrns_stops [OF this, of init_glob] show ?thesis by blast
qed

end
