(* ===== verification/Rstp_Topoch.thy ===== *)
theory Rstp_Topoch
  imports Rstp_Machine
begin

text \<open>
  The topology change machine (\<^verbatim>\<open>rstp/src/rstp_topoch.c\<close>, built with \<^verbatim>\<open>STRONGLY_SPEC_802_1W\<close>): it
  notices that a port starts to forward, tells the other ports, and flushes the addresses learned.
\<close>

definition flush :: "stpm_t \<Rightarrow> pworld \<Rightarrow> pworld" where
  "flush stpm = (\<lambda>(g, port).
     if operEdge port then (g, port)
     else (STP_OUT_flush_lt (port_index port) (vlan_id stpm) LT_FLASH_ONLY_THE_PORT g, port))"

definition setTcPropBridge :: "port_t \<Rightarrow> stpm_t \<Rightarrow> stpm_t" where
  "setTcPropBridge port stpm = stpm\<lparr> ports := map (\<lambda>tmp. if port_index tmp \<noteq> port_index port
     then tmp\<lparr> tcProp := True \<rparr> else tmp) (ports stpm) \<rparr>"

definition newTcWhile :: "stpm_t \<Rightarrow> port_t \<Rightarrow> u32" where
  "newTcWhile stpm port =
     (if sendRSTP port \<and> operPointToPointMac port then 2 * ucast (HelloTime (rootTimes stpm))
      else ucast (MaxAge (rootTimes stpm)))"

text \<open>The part of an entry action that concerns the owner.\<close>

definition topoch_own :: "stpm_t \<Rightarrow> glob \<Rightarrow> port_t \<Rightarrow> pworld" where
  "topoch_own stpm g port =
     (let inactive = (let (g, port) = flush stpm (g, port) in (g, port\<lparr> tcWhile := 0, tcAck := False \<rparr>))
      in case State (topoch port) of
        BEGIN \<Rightarrow> inactive
      | St INACTIVE \<Rightarrow> inactive
      | St TC_LEARNING \<Rightarrow>
          (g, port\<lparr> tcProp := False, rcvdTc := False, rcvdTcAck := False, rcvdTcn := False \<rparr>)
      | St TCACTIVE \<Rightarrow> (g, port)
      | St DETECTED \<Rightarrow> (g, port\<lparr> tcWhile := newTcWhile stpm port, newInfo := True \<rparr>)
      | St NOTIFIED_TCN \<Rightarrow> (g, port\<lparr> tcWhile := newTcWhile stpm port \<rparr>)
      | St NOTIFIED_TC \<Rightarrow>
          (let port = port\<lparr> rcvdTc := False, rcvdTcn := False \<rparr>
           in (g, if role port = DesignatedPort then port\<lparr> tcAck := True \<rparr> else port))
      | St PROPAGATING \<Rightarrow>
          (let (g, port) = flush stpm (g, port\<lparr> tcWhile := newTcWhile stpm port \<rparr>)
           in (g, port\<lparr> tcProp := False \<rparr>))
      | St ACKNOWLEDGED \<Rightarrow> (g, port\<lparr> tcWhile := 0, rcvdTcAck := False \<rparr>))"

definition STP_topoch_enter_state :: "nat \<Rightarrow> glob \<Rightarrow> stpm_t \<Rightarrow> mworld" where
  "STP_topoch_enter_state i g stpm =
     (let (g, port) = topoch_own stpm g (ports stpm ! i);
          stpm = stpm\<lparr> ports := (ports stpm)[i := port] \<rparr>
      in (g, if State (topoch port) = St DETECTED \<or> State (topoch port) = St NOTIFIED_TC
             then setTcPropBridge port stpm else stpm))"

definition hop_topoch :: "topoch_st \<Rightarrow> port_t \<Rightarrow> bool \<times> port_t" where
  "hop_topoch s port = (True, port\<lparr> topoch := STP_hop_2_state s (topoch port) \<rparr>)"

definition topoch_check :: "port_t \<Rightarrow> bool \<times> port_t" where
  "topoch_check port =
     (case State (topoch port) of
        BEGIN \<Rightarrow> hop_topoch INACTIVE port
      | St INACTIVE \<Rightarrow> if learn port \<and> \<not> fdbFlush port then hop_topoch TC_LEARNING port else (False, port)
      | St TC_LEARNING \<Rightarrow>
          if rcvdTc port \<or> rcvdTcn port \<or> rcvdTcAck port \<or> tcProp port then hop_topoch TC_LEARNING port
          else if role port \<noteq> RootPort \<and> role port \<noteq> DesignatedPort \<and> \<not> (learn port \<or> learning port)
              \<and> \<not> (rcvdTc port \<or> rcvdTcn port \<or> rcvdTcAck port \<or> tcProp port)
          then hop_topoch INACTIVE port
          else if (role port = RootPort \<or> role port = DesignatedPort) \<and> forward port \<and> \<not> operEdge port
          then hop_topoch DETECTED port
          else (False, port)
      | St DETECTED \<Rightarrow> hop_topoch TCACTIVE port
      | St TCACTIVE \<Rightarrow>
          if role port \<noteq> RootPort \<and> role port \<noteq> DesignatedPort \<or> operEdge port then hop_topoch TC_LEARNING port
          else if rcvdTcAck port then hop_topoch ACKNOWLEDGED port
          else if tcProp port \<and> \<not> operEdge port then hop_topoch PROPAGATING port
          else if rcvdTc port then hop_topoch NOTIFIED_TC port
          else if rcvdTcn port then hop_topoch NOTIFIED_TCN port
          else (False, port)
      | St NOTIFIED_TCN \<Rightarrow> hop_topoch NOTIFIED_TC port
      | St NOTIFIED_TC \<Rightarrow> hop_topoch TCACTIVE port
      | St PROPAGATING \<Rightarrow> hop_topoch TCACTIVE port
      | St ACKNOWLEDGED \<Rightarrow> hop_topoch TCACTIVE port)"

definition STP_topoch_check_conditions :: "nat \<Rightarrow> stpm_t \<Rightarrow> bool \<times> stpm_t" where
  "STP_topoch_check_conditions i stpm =
     (let (r, port) = topoch_check (ports stpm ! i)
      in (r, stpm\<lparr> ports := (ports stpm)[i := port] \<rparr>))"

definition topoch_mach :: "nat \<Rightarrow> mworld stater" where
  "topoch_mach i =
     \<lparr> concreteEnterState = (\<lambda>(g, b). STP_topoch_enter_state i g b),
       concreteCheckCondition = (\<lambda>(g, b). let (r, b') = STP_topoch_check_conditions i b in (r, (g, b'))),
       get_changeState = (\<lambda>(g, b). changeState (topoch (ports b ! i))),
       put_changeState = (\<lambda>c (g, b). (g, b\<lparr> ports := upd_at i
         (\<lambda>p. p\<lparr> topoch := (topoch p)\<lparr> changeState := c \<rparr> \<rparr>) (ports b) \<rparr>)) \<rparr>"

subsection \<open>What the actions write\<close>

lemma flush_port [simp]: "snd (flush b (g, p)) = p"
  by (simp add: flush_def)

text \<open>The owner when the conditions are checked.\<close>

definition topoch_entered :: "stpm_t \<Rightarrow> port_t \<Rightarrow> port_t" where
  "topoch_entered b p =
     (let q = (case State (topoch p) of
          BEGIN \<Rightarrow> p\<lparr> tcWhile := 0, tcAck := False \<rparr>
        | St INACTIVE \<Rightarrow> p\<lparr> tcWhile := 0, tcAck := False \<rparr>
        | St TC_LEARNING \<Rightarrow> p\<lparr> tcProp := False, rcvdTc := False, rcvdTcAck := False, rcvdTcn := False \<rparr>
        | St TCACTIVE \<Rightarrow> p
        | St DETECTED \<Rightarrow> p\<lparr> tcWhile := newTcWhile b p, newInfo := True \<rparr>
        | St NOTIFIED_TCN \<Rightarrow> p\<lparr> tcWhile := newTcWhile b p \<rparr>
        | St NOTIFIED_TC \<Rightarrow> p\<lparr> rcvdTc := False, rcvdTcn := False, tcAck := tcAck p \<or> role p = DesignatedPort \<rparr>
        | St PROPAGATING \<Rightarrow> p\<lparr> tcWhile := newTcWhile b p, tcProp := False \<rparr>
        | St ACKNOWLEDGED \<Rightarrow> p\<lparr> tcWhile := 0, rcvdTcAck := False \<rparr>)
      in q\<lparr> topoch := (topoch p)\<lparr> changeState := False \<rparr> \<rparr>)"

lemma topoch_own_port:
  "(snd (topoch_own b g p))\<lparr> topoch := (topoch p)\<lparr> changeState := False \<rparr> \<rparr> = topoch_entered b p"
proof -
  have "snd (case flush b (g, q) of (g, p) \<Rightarrow> (g, f p)) = f q" for q and f :: "port_t \<Rightarrow> port_t"
    using flush_port [of b g q] by (cases "flush b (g, q)") simp
  then show ?thesis
    by (simp add: topoch_own_def topoch_entered_def Let_def split: mach_st.split topoch_st.split)
qed

lemma topoch_own_kept:
  "topoch (snd (topoch_own b g p)) = topoch p" "port_index (snd (topoch_own b g p)) = port_index p"
proof -
  have "snd (case flush b (g, q) of (g, p) \<Rightarrow> (g, f p)) = f q" for q and f :: "port_t \<Rightarrow> port_t"
    using flush_port [of b g q] by (cases "flush b (g, q)") simp
  then show "topoch (snd (topoch_own b g p)) = topoch p"
    "port_index (snd (topoch_own b g p)) = port_index p"
    by (simp_all add: topoch_own_def Let_def split: mach_st.split topoch_st.split)
qed

text \<open>The bridge when the conditions are checked.\<close>

definition topoch_mid :: "nat \<Rightarrow> mworld \<Rightarrow> mworld" where
  "topoch_mid i w = put_changeState (topoch_mach i) False (concreteEnterState (topoch_mach i) w)"

lemma topoch_mid_own:
  "i < length (ports b) \<Longrightarrow> ports (snd (topoch_mid i (g, b))) ! i = topoch_entered b (ports b ! i)"
  using topoch_own_port [where b = b and g = g and p = "ports b ! i"]
    topoch_own_kept [where b = b and g = g and p = "ports b ! i"]
  by (cases "topoch_own b g (ports b ! i)")
     (simp add: topoch_mid_def topoch_mach_def STP_topoch_enter_state_def setTcPropBridge_def Let_def)

lemma topoch_mid_other:
  assumes "j < length (ports b)" "j \<noteq> i"
  shows "\<exists>x. ports (snd (topoch_mid i (g, b))) ! j = (ports b ! j)\<lparr> tcProp := x \<rparr>"
proof -
  have same: "\<exists>x. ports b ! j = (ports b ! j)\<lparr> tcProp := x \<rparr>" by (rule exI [of _ "tcProp (ports b ! j)"]) simp
  have "\<exists>x. (ports b ! j)\<lparr> tcProp := True \<rparr> = (ports b ! j)\<lparr> tcProp := x \<rparr>" by blast
  with same assms show ?thesis
    by (cases "topoch_own b g (ports b ! i)")
       (simp add: topoch_mid_def topoch_mach_def STP_topoch_enter_state_def setTcPropBridge_def Let_def)
qed

lemma topoch_mid_bridge: "\<exists>ps. snd (topoch_mid i (g, b)) = b\<lparr> ports := ps \<rparr> \<and> length ps = length (ports b)"
  by (cases "topoch_own b g (ports b ! i)")
     (auto simp: topoch_mid_def topoch_mach_def STP_topoch_enter_state_def setTcPropBridge_def Let_def)

lemma get_topoch [simp]: "get_changeState (topoch_mach i) w = changeState (topoch (ports (snd w) ! i))"
  by (cases w) (simp add: topoch_mach_def)

definition topoch_hops :: "port_t \<Rightarrow> bool \<times> port_t \<Rightarrow> bool" where
  "topoch_hops q x \<longleftrightarrow> (\<exists>s. x = hop_topoch s q) \<or> x = (False, q)"

lemma topoch_hopsI [simp]: "topoch_hops q (hop_topoch s q)" "topoch_hops q (False, q)"
  by (auto simp: topoch_hops_def)

lemma topoch_check_cases:
  obtains s where "topoch_check q = hop_topoch s q" | "topoch_check q = (False, q)"
proof -
  have "topoch_hops q (topoch_check q)"
    by (simp add: topoch_check_def split: mach_st.split topoch_st.split)
  then show ?thesis using that unfolding topoch_hops_def by blast
qed

lemma topoch_check_condition:
  "i < length (ports b) \<Longrightarrow> STP_check_condition (topoch_mach i) (g, b) =
     (let (r, p) = topoch_check (ports b ! i) in (r, (g, b\<lparr> ports := (ports b)[i := p] \<rparr>)))"
  by (rule topoch_check_cases [of "ports b ! i"])
     (simp_all add: topoch_mach_def STP_check_condition_def STP_topoch_check_conditions_def upd_at_def
       hop_topoch_def STP_hop_2_state_def)

subsection \<open>Termination\<close>

definition trank :: "topoch_st \<Rightarrow> bool \<Rightarrow> bool \<Rightarrow> bool \<Rightarrow> bool \<Rightarrow> bool \<Rightarrow> nat" where
  "trank s active lrn ack prop tcs =
     (let a = (if ack then 4 else 0); r = (if prop then 4 else 0); t = (if tcs then 4 else 0) in
      case s of
        INACTIVE \<Rightarrow> if active then 17 else if lrn then 5 else 0
      | TC_LEARNING \<Rightarrow> if active then 16 else if lrn then 0 else 5
      | DETECTED \<Rightarrow> if active then 15 else 14
      | TCACTIVE \<Rightarrow> if active then 1 + a + r + t else 10
      | NOTIFIED_TCN \<Rightarrow> if active then 3 + a + r else 13
      | NOTIFIED_TC \<Rightarrow> if active then 2 + a + r else 12
      | PROPAGATING \<Rightarrow> if active then 2 + a + t else 11
      | ACKNOWLEDGED \<Rightarrow> if active then 2 + r + t else 11)"

definition tc_active :: "port_t \<Rightarrow> bool" where
  "tc_active p \<longleftrightarrow> (role p = RootPort \<or> role p = DesignatedPort) \<and> \<not> operEdge p"

definition topoch_rank :: "port_t \<Rightarrow> nat" where
  "topoch_rank p = (case State (topoch p) of
       BEGIN \<Rightarrow> 20
     | St s \<Rightarrow> trank s (tc_active p) (learn p) (rcvdTcAck p) (tcProp p) (rcvdTc p \<or> rcvdTcn p))"

lemma trank_bound: "trank s a l k r t \<le> 17"
  by (simp add: trank_def Let_def split: topoch_st.split)

text \<open>What the entry actions leave in the fields the conditions and the rank read.\<close>

lemma topoch_entered_facts:
  fixes p b
  defines "q \<equiv> topoch_entered b p"
  shows "State (topoch q) = State (topoch p)" "role q = role p" "operEdge q = operEdge p" "learn q = learn p"
    and "rcvdTcAck q = (rcvdTcAck p \<and> State (topoch p) \<notin> {St TC_LEARNING, St ACKNOWLEDGED})"
    and "tcProp q = (tcProp p \<and> State (topoch p) \<notin> {St TC_LEARNING, St PROPAGATING})"
    and "rcvdTc q = (rcvdTc p \<and> State (topoch p) \<notin> {St TC_LEARNING, St NOTIFIED_TC})"
    and "rcvdTcn q = (rcvdTcn p \<and> State (topoch p) \<notin> {St TC_LEARNING, St NOTIFIED_TC})"
  unfolding q_def topoch_entered_def Let_def by (simp_all split: mach_st.split topoch_st.split)

lemma hop_topoch_eq: "hop_topoch s q = (True, p') \<longleftrightarrow> p' = snd (hop_topoch s q)"
  by (auto simp: hop_topoch_def)

lemma topoch_decreases:
  assumes "topoch_check (topoch_entered b p) = (True, p')"
  shows "topoch_rank p' < topoch_rank p"
proof -
  define q where "q = topoch_entered b p"
  note f = topoch_entered_facts [where b = b and p = p, folded q_def]
  have chk: "topoch_check q = (True, p')" using assms by (simp add: q_def)
  have rk: "topoch_rank (snd (hop_topoch s q)) =
      trank s (tc_active p) (learn p) (rcvdTcAck q) (tcProp q) (rcvdTc q \<or> rcvdTcn q)" for s
    by (simp add: topoch_rank_def hop_topoch_def tc_active_def f(2-4))
  show ?thesis
  proof (cases "State (topoch p)")
    case BEGIN
    then have "p' = snd (hop_topoch INACTIVE q)" using chk f(1) by (simp add: topoch_check_def hop_topoch_eq)
    then show ?thesis using BEGIN trank_bound [of INACTIVE]
      by (simp add: rk) (simp add: topoch_rank_def trank_def)
  next
    case (St s)
    then have "topoch_rank p = trank s (tc_active p) (learn p) (rcvdTcAck p) (tcProp p) (rcvdTc p \<or> rcvdTcn p)"
      by (simp add: topoch_rank_def)
    then show ?thesis
      using chk f(1) St f(5-8) f(2-4)
      by (cases s) (auto simp: topoch_check_def hop_topoch_eq rk trank_def tc_active_def split: if_split_asm)
  qed
qed

interpretation topoch_m: ranked_machine "topoch_mach i" "\<lambda>w. i < length (ports (snd w))"
  "\<lambda>w. topoch_rank (ports (snd w) ! i)" for i
proof -
  have key: "i < length (ports (snd (change_state_step (topoch_mach i) (g, b)))) \<and>
     (changeState (topoch (ports (snd (change_state_step (topoch_mach i) (g, b))) ! i)) \<longrightarrow>
      topoch_rank (ports (snd (change_state_step (topoch_mach i) (g, b))) ! i) < topoch_rank (ports b ! i))"
    if i: "i < length (ports b)" for g b
  proof -
    obtain g1 b1 where mid: "topoch_mid i (g, b) = (g1, b1)" by fastforce
    have b1: "length (ports b1) = length (ports b)" "ports b1 ! i = topoch_entered b (ports b ! i)"
      using topoch_mid_bridge [of i g b] topoch_mid_own [OF i, of g] by (auto simp: mid)
    obtain r p where chk: "topoch_check (topoch_entered b (ports b ! i)) = (r, p)" by fastforce
    have step: "snd (change_state_step (topoch_mach i) (g, b)) = b1\<lparr> ports := (ports b1)[i := p] \<rparr>"
      using i b1 chk unfolding change_state_step_def topoch_mid_def [symmetric] mid
      by (simp add: topoch_check_condition)
    show ?thesis
    proof (cases r)
      case True
      then show ?thesis using topoch_decreases [of b "ports b ! i" p] chk i b1 by (simp add: step)
    next
      case False
      then have "p = topoch_entered b (ports b ! i)"
        using chk by (cases rule: topoch_check_cases [of "topoch_entered b (ports b ! i)"])
          (simp_all add: hop_topoch_def)
      then show ?thesis using i b1 by (simp add: step topoch_entered_def Let_def)
    qed
  qed
  show "ranked_machine (topoch_mach i) (\<lambda>w. i < length (ports (snd w)))
     (\<lambda>w. topoch_rank (ports (snd w) ! i))"
    by unfold_locales (use key in \<open>auto\<close>)
qed

subsection \<open>Properties\<close>

text \<open>C30: when a port detects a topology change or is told of one, exactly the ports with another
  index are asked to propagate it, and nothing else of them changes.\<close>

theorem topology_change_propagates:
  assumes "i < length (ports b)" "j < length (ports b)" "port_index (ports b ! j) \<noteq> port_index (ports b ! i)"
    and "State (topoch (ports b ! i)) = St DETECTED \<or> State (topoch (ports b ! i)) = St NOTIFIED_TC"
  shows "ports (snd (STP_topoch_enter_state i g b)) ! j = (ports b ! j)\<lparr> tcProp := True \<rparr>
    \<and> tcProp (ports (snd (STP_topoch_enter_state i g b)) ! i) = tcProp (ports b ! i)"
proof -
  obtain g' p where own: "topoch_own b g (ports b ! i) = (g', p)" by fastforce
  have p: "topoch p = topoch (ports b ! i)" "port_index p = port_index (ports b ! i)"
    using topoch_own_kept [where b = b and g = g and p = "ports b ! i"] by (simp_all add: own)
  have tp: "tcProp p = tcProp (ports b ! i)"
    using own assms(4) by (auto simp: topoch_own_def Let_def split: if_splits)
  have "i \<noteq> j" using assms(3) by auto
  then show ?thesis
    using assms p tp by (auto simp: STP_topoch_enter_state_def own setTcPropBridge_def Let_def)
qed

theorem topology_change_propagates_witness:
  "let p = zero_port\<lparr> port_index := 1, topoch := STP_hop_2_state DETECTED (topoch zero_port) \<rparr>;
       q = zero_port\<lparr> port_index := 2 \<rparr>; b = zero_stpm\<lparr> ports := [p, q] \<rparr>
   in tcProp (ports (snd (STP_topoch_enter_state 0 init_glob b)) ! 1)"
  using topology_change_propagates [of 0 "zero_stpm\<lparr> ports := [zero_port\<lparr> port_index := 1,
      topoch := STP_hop_2_state DETECTED (topoch zero_port) \<rparr>, zero_port\<lparr> port_index := 2 \<rparr>] \<rparr>" 1 init_glob]
  by (simp add: Let_def)

end
