(* ===== verification/Rstp_Port.thy ===== *)
theory Rstp_Port
  imports Rstp_Portinfo Rstp_Roletrns
begin

text \<open>
  Creating, initialising and deleting the ports of a bridge (\<^verbatim>\<open>rstp/src/rstp_port.c\<close>). A port is
  found by its place in the list of its bridge, head first; \<^verbatim>\<open>STP_NEW_IN_LIST\<close> adds at the head.
\<close>

definition DEF_LINK_DELAY :: int where "DEF_LINK_DELAY = 3"

definition zero_port_cfg :: uid_stp_port_cfg_t where
  "zero_port_cfg = \<lparr> pt_field_mask = 0, pt_port_bmp = 0, pt_vlan_name = [], port_priority = 0,
     admin_port_path_cost = 0, admin_point2point = P2P_FORCE_TRUE, admin_edge = 0,
     pt_admin_non_stp = 0, pt_skip_rx = 0, pt_skip_tx = 0 \<rparr>"

definition port_id_of :: "int \<Rightarrow> int \<Rightarrow> port_id_t" where
  "port_id_of priority pindex = word_of_int (priority * 256 + pindex)"

text \<open>The new port; every field that is not named is as \<^verbatim>\<open>calloc\<close> left it.\<close>

definition new_port :: "stpm_t \<Rightarrow> int \<Rightarrow> port_t" where
  "new_port stpm pindex =
     (let cfg = STP_OUT_get_init_port_cfg zero_port_cfg;
          port_prio = uint (word_of_int (port_priority cfg) :: u16);
          this = zero_port\<lparr> port_index := pindex, port_name := STP_OUT_get_port_name pindex, uptime := 0 \<rparr>;
          this = this\<lparr> adminEdge := (admin_edge cfg \<noteq> 0), admin_non_stp := (pt_admin_non_stp cfg \<noteq> 0),
                       adminPCost := admin_port_path_cost cfg,
                       adminPointToPointMac := admin_point2point cfg \<rparr>;
          this = this\<lparr> port_id := port_id_of port_prio pindex, LinkDelay := DEF_LINK_DELAY \<rparr>;
          this = this\<lparr> portTimes := STP_copy_times (portTimes this) (BrTimes stpm) \<rparr>
      in this\<lparr> sttrans := (sttrans this)\<lparr> debug := 1 \<rparr> \<rparr>)"

definition STP_port_create :: "stpm_t \<Rightarrow> int \<Rightarrow> stpm_t option" where
  "STP_port_create stpm pindex =
     (if list_ex (\<lambda>p. port_index p = pindex) (ports stpm) then None
      else Some (stpm\<lparr> ports := new_port stpm pindex # ports stpm \<rparr>))"

definition STP_port_init :: "env \<Rightarrow> glob \<Rightarrow> stpm_t \<Rightarrow> bool \<Rightarrow> port_t \<Rightarrow> port_t" where
  "STP_port_init e g stpm check_link this =
     (let this = (if check_link
                  then this\<lparr> adminEnable := STP_OUT_get_port_link_status e g (port_index this),
                         designPrio := STP_VECT_create (BrId stpm) 0 (BrId stpm) (port_id this) (port_id this),
                         designTimes := STP_copy_times (designTimes this) (rootTimes stpm) \<rparr>
                  else this);
          this = this\<lparr> edgeDelayWhile := 0, fdWhile := 0, helloWhen := 0, mdelayWhile := 0, rbWhile := 0,
                       rcvdInfoWhile := 0, rrWhile := 0, tcWhile := 0, txCount := 0 \<rparr>;
          this = this\<lparr> msgPortRole := RSTP_PORT_ROLE_UNKN, selectedRole := DisabledPort \<rparr>;
          this = this\<lparr> sendRSTP := (ForceVersion stpm \<ge> 2) \<rparr>
      in this\<lparr> operSpeed := STP_OUT_get_port_oper_speed (port_index this), p2p_recompute := True \<rparr>)"

text \<open>
  The list is searched by index for the place of the port, and what followed the port is linked
  in there.
\<close>

fun index_where :: "('a \<Rightarrow> bool) \<Rightarrow> 'a list \<Rightarrow> nat option" where
  "index_where P [] = None"
| "index_where P (x # xs) = (if P x then Some 0 else map_option Suc (index_where P xs))"

definition STP_port_delete :: "nat \<Rightarrow> stpm_t \<Rightarrow> stpm_t" where
  "STP_port_delete i stpm =
     (case index_where (\<lambda>p. port_index p = port_index (ports stpm ! i)) (ports stpm) of
        Some j \<Rightarrow> stpm\<lparr> ports := take j (ports stpm) @ drop (Suc i) (ports stpm) \<rparr>
      | None \<Rightarrow> stpm)"

definition STP_port_rx_bpdu :: "stpm_t \<Rightarrow> stp_bpdu_t \<Rightarrow> port_t \<Rightarrow> int \<times> port_t" where
  "STP_port_rx_bpdu stpm bpdu this = (0, STP_info_rx_bpdu stpm bpdu this)"

definition traced :: "string \<Rightarrow> u8 \<Rightarrow> 's state_mach \<Rightarrow> 's state_mach" where
  "traced name enadis m =
     (if name = ''all'' \<or> name = mach_name m then m\<lparr> debug := enadis \<rparr> else m)"

definition STP_port_trace_state_machine :: "string \<Rightarrow> u8 \<Rightarrow> port_t \<Rightarrow> port_t" where
  "STP_port_trace_state_machine name enadis this =
     this\<lparr> info := traced name enadis (info this), roletrns := traced name enadis (roletrns this),
           sttrans := traced name enadis (sttrans this), topoch := traced name enadis (topoch this),
           migrate := traced name enadis (migrate this), transmit := traced name enadis (transmit this),
           p2p := traced name enadis (p2p this), portrcv := traced name enadis (portrcv this),
           bridect := traced name enadis (bridect this), pcost := traced name enadis (pcost this) \<rparr>"

subsection \<open>Lists of ports\<close>

lemma index_where_Some:
  "index_where P xs = Some i \<Longrightarrow> i < length xs \<and> P (xs ! i) \<and> (\<forall>j<i. \<not> P (xs ! j))"
proof (induction xs arbitrary: i)
  case (Cons x xs)
  show ?case
  proof (cases "P x")
    case False
    with Cons obtain k where k: "index_where P xs = Some k" "i = Suc k" by auto
    have "\<not> P ((x # xs) ! j)" if "j < i" for j
      using that False Cons.IH [OF k(1)] k(2) by (cases j) auto
    with Cons.IH [OF k(1)] k(2) show ?thesis by simp
  qed (use Cons in auto)
qed simp

lemma index_where_None: "index_where P xs = None \<longleftrightarrow> \<not> list_ex P xs"
  by (induction xs) auto

lemma index_where_distinct:
  assumes "distinct (map f xs)" "i < length xs"
  shows "index_where (\<lambda>x. f x = f (xs ! i)) xs = Some i"
proof (cases "index_where (\<lambda>x. f x = f (xs ! i)) xs")
  case None
  then show ?thesis using assms by (auto simp: index_where_None list_ex_length)
next
  case (Some j)
  then have "j < length xs" "f (xs ! j) = f (xs ! i)"
    using index_where_Some [OF Some] by auto
  with assms have "j = i" using nth_eq_iff_index_eq [of "map f xs" j i] by auto
  with Some show ?thesis by simp
qed

subsection \<open>Properties\<close>

text \<open>A port can be added once only; adding it and deleting it again gives back the bridge,
  and the ports keep pairwise different indices.\<close>

theorem port_create_delete:
  assumes "distinct (map port_index (ports b))"
  shows "case STP_port_create b x of
      None \<Rightarrow> x \<in> port_index ` set (ports b)
    | Some b' \<Rightarrow> x \<notin> port_index ` set (ports b) \<and> distinct (map port_index (ports b'))
        \<and> STP_port_delete 0 b' = b"
proof (cases "list_ex (\<lambda>p. port_index p = x) (ports b)")
  case True
  then show ?thesis by (auto simp: STP_port_create_def list_ex_iff)
next
  case False
  have "port_index (new_port b x) = x" by (simp add: new_port_def Let_def)
  with False assms show ?thesis
    by (auto simp: STP_port_create_def list_ex_iff STP_port_delete_def)
qed

theorem port_create_delete_witness:
  "STP_port_create (zero_stpm\<lparr> ports := [zero_port\<lparr> port_index := 1 \<rparr>] \<rparr>) 1 = None"
  using port_create_delete [of "zero_stpm\<lparr> ports := [zero_port\<lparr> port_index := 1 \<rparr>] \<rparr>" 1]
  by (cases "STP_port_create (zero_stpm\<lparr> ports := [zero_port\<lparr> port_index := 1 \<rparr>] \<rparr>) 1") simp_all

text \<open>For the priorities and indices the configuration allows, the port identifier holds the
  priority in its high byte and the index in its low byte, so different ports have different
  identifiers.\<close>

theorem port_id_bytes:
  assumes "0 \<le> pr" "pr < 256" "0 \<le> pindex" "pindex < 256"
  shows "uint (drop_bit 8 (port_id_of pr pindex)) = pr
    \<and> uint (ucast (port_id_of pr pindex) :: u8) = pindex"
proof -
  have u: "uint (port_id_of pr pindex) = pr * 256 + pindex"
    unfolding port_id_of_def uint_word_of_int using assms by (intro mod_pos_pos_trivial) auto
  have "uint (drop_bit 8 (port_id_of pr pindex)) = (pr * 256 + pindex) div 256"
    using u by (simp add: drop_bit_eq_div uint_div)
  moreover have "uint (ucast (port_id_of pr pindex) :: u8) = (pr * 256 + pindex) mod 256"
    using u by (simp add: unsigned_ucast_eq take_bit_eq_mod)
  ultimately show ?thesis using assms by simp
qed

theorem port_id_bytes_witness:
  "uint (drop_bit 8 (port_id_of 128 3)) = 128 \<and> uint (ucast (port_id_of 128 3) :: u8) = 3"
  using port_id_bytes [of 128 3] by simp

end
