(* ===== verification/Rstp_Stpm.thy ===== *)
theory Rstp_Stpm
  imports Rstp_Bridect Rstp_Migrate Rstp_P2p Rstp_Portrcv Rstp_Pcost Rstp_Sttrans Rstp_Transmit
    Rstp_Portinfo Rstp_Rolesel Rstp_Roletrns Rstp_Topoch Rstp_Port
begin

text \<open>
  The bridge instance (\<^verbatim>\<open>rstp/src/rstp_stpm.c\<close>): its list of machines, the passes over them and the
  loop that runs them until nothing changes, the timer tick, starting and stopping. The static
  list \<^verbatim>\<open>bridges\<close> is the second component of \<open>iworld\<close>, head first; a bridge is its place in it.
  The two functions of \<^verbatim>\<open>rstp_in.c\<close> that the timer tick calls back are here as well.
\<close>

datatype mach_kind = Ktransmit | Kportrcv | Kbridect | Kp2p | Ktopoch | Kmigrate | Kpcost | Kinfo
  | Kroletrns | Ksttrans

datatype mach_id = M_rolesel | M_port nat mach_kind

text \<open>\<^verbatim>\<open>STP_STATE_MACH_IN_LIST\<close> adds at the head: the last machine created comes first.\<close>

definition port_machines :: "mach_kind list" where
  "port_machines = [Ktransmit, Kportrcv, Kbridect, Kp2p, Ktopoch, Kmigrate, Kpcost, Kinfo,
     Kroletrns, Ksttrans]"

definition stpm_machines :: "stpm_t \<Rightarrow> mach_id list" where
  "stpm_machines stpm =
     M_rolesel # concat (map (\<lambda>i. map (M_port i) port_machines) [0..<length (ports stpm)])"

definition port_stater_of :: "env \<Rightarrow> nat \<Rightarrow> mach_kind \<Rightarrow> mworld stater" where
  "port_stater_of e i k = (case k of
       Ktransmit \<Rightarrow> lift_stater i (transmit_mach e)
     | Kportrcv \<Rightarrow> lift_stater i (\<lambda>_. portrcv_mach)
     | Kbridect \<Rightarrow> lift_stater i (\<lambda>_. bridect_mach)
     | Kp2p \<Rightarrow> lift_stater i (\<lambda>_. p2p_mach e)
     | Ktopoch \<Rightarrow> topoch_mach i
     | Kmigrate \<Rightarrow> lift_stater i migrate_mach
     | Kpcost \<Rightarrow> lift_stater i (\<lambda>_. pcost_mach)
     | Kinfo \<Rightarrow> lift_stater i info_mach
     | Kroletrns \<Rightarrow> roletrns_mach i
     | Ksttrans \<Rightarrow> lift_stater i sttrans_mach)"

definition stater_of :: "env \<Rightarrow> mach_id \<Rightarrow> mworld stater" where
  "stater_of e m = (case m of M_rolesel \<Rightarrow> rolesel_mach | M_port i k \<Rightarrow> port_stater_of e i k)"

text \<open>
  \<^verbatim>\<open>_stp_stpm_iterate_machines\<close> with each of its three callbacks: initialising every machine,
  checking conditions up to the first machine that moves, and running every machine to rest.
\<close>

definition reset_mach :: "mach_kind \<Rightarrow> port_t \<Rightarrow> port_t" where
  "reset_mach k p = (case k of
       Ktransmit \<Rightarrow> p\<lparr> transmit := (transmit p)\<lparr> State := BEGIN \<rparr> \<rparr>
     | Kportrcv \<Rightarrow> p\<lparr> portrcv := (portrcv p)\<lparr> State := BEGIN \<rparr> \<rparr>
     | Kbridect \<Rightarrow> p\<lparr> bridect := (bridect p)\<lparr> State := BEGIN \<rparr> \<rparr>
     | Kp2p \<Rightarrow> p\<lparr> p2p := (p2p p)\<lparr> State := BEGIN \<rparr> \<rparr>
     | Ktopoch \<Rightarrow> p\<lparr> topoch := (topoch p)\<lparr> State := BEGIN \<rparr> \<rparr>
     | Kmigrate \<Rightarrow> p\<lparr> migrate := (migrate p)\<lparr> State := BEGIN \<rparr> \<rparr>
     | Kpcost \<Rightarrow> p\<lparr> pcost := (pcost p)\<lparr> State := BEGIN \<rparr> \<rparr>
     | Kinfo \<Rightarrow> p\<lparr> info := (info p)\<lparr> State := BEGIN \<rparr> \<rparr>
     | Kroletrns \<Rightarrow> p\<lparr> roletrns := (roletrns p)\<lparr> State := BEGIN \<rparr> \<rparr>
     | Ksttrans \<Rightarrow> p\<lparr> sttrans := (sttrans p)\<lparr> State := BEGIN \<rparr> \<rparr>)"

definition set_BEGIN :: "mach_id \<Rightarrow> stpm_t \<Rightarrow> stpm_t" where
  "set_BEGIN m stpm = (case m of
       M_rolesel \<Rightarrow> stpm\<lparr> rolesel := (rolesel stpm)\<lparr> State := BEGIN \<rparr> \<rparr>
     | M_port i k \<Rightarrow> stpm\<lparr> ports := upd_at i (reset_mach k) (ports stpm) \<rparr>)"

definition stp_stpm_init_machine :: "env \<Rightarrow> mach_id \<Rightarrow> mworld \<Rightarrow> mworld" where
  "stp_stpm_init_machine e m w = concreteEnterState (stater_of e m) (fst w, set_BEGIN m (snd w))"

definition iterate_init :: "env \<Rightarrow> mworld \<Rightarrow> mworld" where
  "iterate_init e w = fold (stp_stpm_init_machine e) (stpm_machines (snd w)) w"

fun check_machines :: "env \<Rightarrow> mach_id list \<Rightarrow> mworld \<Rightarrow> bool \<times> mworld" where
  "check_machines e [] w = (False, w)"
| "check_machines e (m # ms) w =
     (let (r, w') = STP_check_condition (stater_of e m) w
      in if r then (True, w') else check_machines e ms w')"

definition iterate_check :: "env \<Rightarrow> mworld \<Rightarrow> bool \<times> mworld" where
  "iterate_check e w = check_machines e (stpm_machines (snd w)) w"

fun change_machines :: "env \<Rightarrow> mach_id list \<Rightarrow> nat \<Rightarrow> mworld \<Rightarrow> (nat \<times> mworld) option" where
  "change_machines e [] mret w = Some (mret, w)"
| "change_machines e (m # ms) mret w =
     (case STP_change_state (stater_of e m) w of
        None \<Rightarrow> None
      | Some (iret, w') \<Rightarrow> change_machines e ms (mret + iret) w')"

definition iterate_change :: "env \<Rightarrow> mworld \<Rightarrow> (nat \<times> mworld) option" where
  "iterate_change e w = change_machines e (stpm_machines (snd w)) 0 w"

text \<open>\<^verbatim>\<open>STP_stpm_update\<close>; \<open>None\<close> is a loop that does not end.\<close>

partial_function (option) update_loop :: "env \<Rightarrow> nat \<Rightarrow> mworld \<Rightarrow> (nat \<times> mworld) option" where
  "update_loop e number_of_loops w =
     (let (need_state_change, w') = iterate_check e w
      in if \<not> need_state_change then Some (number_of_loops, w')
         else case iterate_change e w' of
             None \<Rightarrow> None
           | Some (n, w'') \<Rightarrow> update_loop e (number_of_loops + 1 + n) w'')"

definition STP_stpm_update :: "env \<Rightarrow> mworld \<Rightarrow> (nat \<times> mworld) option" where
  "STP_stpm_update e w = update_loop e 0 w"

definition stp_stpm_init_data :: "stpm_t \<Rightarrow> stpm_t" where
  "stp_stpm_init_data this =
     (let this = this\<lparr> rootPrio := STP_VECT_create (BrId this) 0 (BrId this) 0 0 \<rparr>;
          this = this\<lparr> BrTimes := (BrTimes this)\<lparr> MessageAge := 0 \<rparr> \<rparr>
      in this\<lparr> rootTimes := STP_copy_times (rootTimes this) (BrTimes this) \<rparr>)"

definition check_topoch :: "stpm_t \<Rightarrow> u8" where
  "check_topoch this = (if list_ex (\<lambda>p. tcWhile p \<noteq> 0) (ports this) then 1 else 0)"

definition STP_stpm_update_after_bridge_management :: "stpm_t \<Rightarrow> stpm_t" where
  "STP_stpm_update_after_bridge_management this =
     this\<lparr> ports := map (\<lambda>port. port\<lparr> reselect := True, selected := False \<rparr>) (ports this) \<rparr>"

definition STP_stpm_get_port_name_by_id :: "stpm_t \<Rightarrow> port_id_t \<Rightarrow> string" where
  "STP_stpm_get_port_name_by_id this pid =
     (case find (\<lambda>p. pid = port_id p) (ports this) of Some p \<Rightarrow> port_name p | None \<Rightarrow> ''Undef?'')"

fun min_num_port :: "port_t list \<Rightarrow> int \<Rightarrow> port_t option \<Rightarrow> port_t option" where
  "min_num_port [] pindex best = best"
| "min_num_port (p # ps) pindex best =
     (if pindex = 0 \<or> port_index p < pindex then min_num_port ps (port_index p) (Some p)
      else min_num_port ps pindex best)"

definition STP_compute_bridge_id :: "glob \<Rightarrow> stpm_t \<Rightarrow> stpm_t option" where
  "STP_compute_bridge_id g this =
     (case min_num_port (ports this) 0 None of
        None \<Rightarrow> None
      | Some p \<Rightarrow> Some (this\<lparr> BrId := (BrId this)\<lparr> addr := STP_OUT_get_port_mac g (port_index p) \<rparr> \<rparr>))"

subsection \<open>The list of bridges\<close>

type_synonym iworld = "glob \<times> stpm_t list"

definition update_at :: "env \<Rightarrow> nat \<Rightarrow> iworld \<Rightarrow> iworld option" where
  "update_at e k w =
     (case STP_stpm_update e (fst w, snd w ! k) of
        None \<Rightarrow> None
      | Some (n, (g, b)) \<Rightarrow> Some (g, (snd w)[k := b]))"

definition stpapi_port_find :: "stpm_t \<Rightarrow> int \<Rightarrow> nat option" where
  "stpapi_port_find this pindex = index_where (\<lambda>p. pindex = port_index p) (ports this)"

definition stp_in_enable_port :: "env \<Rightarrow> glob \<Rightarrow> stpm_t \<Rightarrow> bool \<Rightarrow> port_t \<Rightarrow> port_t" where
  "stp_in_enable_port e g stpm enable port =
     (if portEnabled port = enable then port
      else
        let port = port\<lparr> uptime := 0 \<rparr>;
            port = (if enable then port\<lparr> rx_tcn_bpdu_cnt := 0, rx_rstp_bpdu_cnt := 0, rx_cfg_bpdu_cnt := 0 \<rparr>
                    else port);
            port = port\<lparr> adminEnable := enable \<rparr>;
            port = STP_port_init e g stpm False port
        in port\<lparr> portEnabled := enable \<rparr>)"

definition stp_in_enable_port_on_stpm :: "env \<Rightarrow> glob \<Rightarrow> int \<Rightarrow> bool \<Rightarrow> stpm_t \<Rightarrow> stpm_t" where
  "stp_in_enable_port_on_stpm e g pindex enable stpm =
     (case stpapi_port_find stpm pindex of
        None \<Rightarrow> stpm
      | Some i \<Rightarrow> stpm\<lparr> ports := upd_at i (stp_in_enable_port e g stpm enable) (ports stpm) \<rparr>)"

definition INCR100 :: "glob \<Rightarrow> glob" where
  "INCR100 g = (let g = g\<lparr> nev := nev g + 1 \<rparr> in if nev g > 99 then g\<lparr> nev := 0 \<rparr> else g)"

definition STP_IN_enable_port :: "env \<Rightarrow> int \<Rightarrow> bool \<Rightarrow> iworld \<Rightarrow> iworld" where
  "STP_IN_enable_port e pindex enable w =
     (let g = INCR100 ((fst w)\<lparr> tev := (if enable then RSTP_PORT_EN_T else RSTP_PORT_DIS_T) \<rparr>);
          g = (if \<not> enable then STP_OUT_flush_lt pindex 0 LT_FLASH_ONLY_THE_PORT g else g)
      in (g, map (stp_in_enable_port_on_stpm e g pindex enable) (snd w)))"

definition dec_timer :: "u32 \<Rightarrow> u32" where
  "dec_timer t = (if t > 0 then t - 1 else t)"

definition dec_timers :: "port_t \<Rightarrow> port_t" where
  "dec_timers p = p\<lparr> edgeDelayWhile := dec_timer (edgeDelayWhile p), fdWhile := dec_timer (fdWhile p),
     helloWhen := dec_timer (helloWhen p), mdelayWhile := dec_timer (mdelayWhile p),
     rbWhile := dec_timer (rbWhile p), rcvdInfoWhile := dec_timer (rcvdInfoWhile p),
     rrWhile := dec_timer (rrWhile p), tcWhile := dec_timer (tcWhile p), txCount := dec_timer (txCount p),
     lnkWhile := dec_timer (lnkWhile p) \<rparr>"

definition second_port :: "env \<Rightarrow> nat \<Rightarrow> nat \<Rightarrow> iworld \<Rightarrow> iworld" where
  "second_port e k i w =
     (let bs = upd_at k (\<lambda>b. b\<lparr> ports := upd_at i (\<lambda>p. (dec_timers p)\<lparr> uptime := uptime p + 1 \<rparr>) (ports b) \<rparr>)
                 (snd w);
          p = ports (bs ! k) ! i;
          linkstatus = STP_OUT_get_port_link_status e (fst w) (port_index p)
      in if linkstatus \<noteq> portEnabled p then STP_IN_enable_port e (port_index p) linkstatus (fst w, bs)
         else (fst w, bs))"

definition count_topoch :: "stpm_t \<Rightarrow> stpm_t" where
  "count_topoch this =
     (let this = this\<lparr> Topo_Change := check_topoch this \<rparr>
      in if Topo_Change this \<noteq> 0
         then this\<lparr> timeSince_Topo_Change := 0, Topo_Change_Count := Topo_Change_Count this + 1 \<rparr>
         else this\<lparr> timeSince_Topo_Change := timeSince_Topo_Change this + 1, Topo_Change_Count := 0 \<rparr>)"

definition STP_stpm_one_second :: "env \<Rightarrow> nat \<Rightarrow> iworld \<Rightarrow> iworld option" where
  "STP_stpm_one_second e k w =
     (if admin_state (snd w ! k) \<noteq> STP_ENABLED then Some w
      else
        let w = fold (second_port e k) [0..<length (ports (snd w ! k))] w
        in case update_at e k w of
             None \<Rightarrow> None
           | Some w \<Rightarrow> Some (fst w, upd_at k count_topoch (snd w)))"

definition STP_stpm_create :: "env \<Rightarrow> int \<Rightarrow> string option \<Rightarrow> glob \<Rightarrow> stpm_t" where
  "STP_stpm_create e vid name g =
     (let this = zero_stpm\<lparr> vlan_id := vid, stpm_name := name, admin_state := STP_DISABLED \<rparr>;
          this = this\<lparr> ports := [] \<rparr>;
          this = this\<lparr> BrTimes := (BrTimes this)\<lparr> HelloTime := word_of_int (cfg_hello_time (uid_cfg g)),
                   ForwardDelay := word_of_int (cfg_forward_delay (uid_cfg g)),
                   MaxAge := word_of_int (cfg_max_age (uid_cfg g)) \<rparr>,
                 ForceVersion := force_version (uid_cfg g),
                 BrId := \<lparr> prio = word_of_int (bridge_priority (uid_cfg g)), addr = take 6 (vosHWAddrGet e) \<rparr> \<rparr>
      in this)"

definition STP_stpm_check_bridge_priority :: "nat \<Rightarrow> stpm_t list \<Rightarrow> rstp_errors_t" where
  "STP_stpm_check_bridge_priority k bs =
     (if list_ex (\<lambda>j. j \<noteq> k \<and> admin_state (bs ! j) = STP_ENABLED
            \<and> STP_VECT_compare_bridge_id (BrId (bs ! k)) (BrId (bs ! j)) = 0) [0..<length bs]
      then STP_Invalid_Bridge_Priority else STP_OK)"

definition STP_stpm_start :: "env \<Rightarrow> nat \<Rightarrow> iworld \<Rightarrow> (rstp_errors_t \<times> iworld) option" where
  "STP_stpm_start e k w =
     (if ports (snd w ! k) = [] then Some (STP_There_Are_No_Ports, w)
      else case STP_compute_bridge_id (fst w) (snd w ! k) of
        None \<Rightarrow> Some (STP_Cannot_Compute_Bridge_Prio, w)
      | Some this \<Rightarrow>
          let w = (fst w, (snd w)[k := this])
          in if STP_stpm_check_bridge_priority k (snd w) \<noteq> STP_OK
             then Some (STP_Invalid_Bridge_Priority, w)
             else
               let this = stp_stpm_init_data this;
                   this = this\<lparr> ports := map (STP_port_init e (fst w) this True) (ports this) \<rparr>;
                   (g, this) = iterate_init e (fst w, this)
               in case update_at e k (g, (snd w)[k := this]) of
                    None \<Rightarrow> None
                  | Some w \<Rightarrow> Some (STP_OK, w))"

definition STP_stpm_stop :: "nat \<Rightarrow> iworld \<Rightarrow> iworld" where
  "STP_stpm_stop k w = w"

definition set_admin_state :: "nat \<Rightarrow> uid_stp_mode_t \<Rightarrow> iworld \<Rightarrow> iworld" where
  "set_admin_state k st w = (fst w, upd_at k (\<lambda>b. b\<lparr> admin_state := st \<rparr>) (snd w))"

definition STP_stpm_enable :: "env \<Rightarrow> nat \<Rightarrow> uid_stp_mode_t \<Rightarrow> iworld \<Rightarrow> (rstp_errors_t \<times> iworld) option" where
  "STP_stpm_enable e k st w =
     (if st = admin_state (snd w ! k) then Some (STP_OK, w)
      else if st = STP_ENABLED
      then case STP_stpm_start e k w of
             None \<Rightarrow> None
           | Some (rc, w) \<Rightarrow> Some (rc, set_admin_state k st w)
      else Some (STP_OK, STP_stpm_stop k (set_admin_state k st w)))"

definition STP_stpm_delete :: "nat \<Rightarrow> iworld \<Rightarrow> iworld" where
  "STP_stpm_delete k w =
     (let w = (if admin_state (snd w ! k) = STP_DISABLED then w else set_admin_state k STP_DISABLED w)
      in case index_where (\<lambda>b. vlan_id b = vlan_id (snd w ! k)) (snd w) of
           Some j \<Rightarrow> (fst w, take j (snd w) @ drop (Suc k) (snd w))
         | None \<Rightarrow> w)"

end
