(* ===== verification/Rstp_Safety.thy ===== *)
theory Rstp_Safety
  imports Rstp_Stpm
begin

text \<open>
  What every machine keeps of the whole bridge, and what follows for the passes and the update
  loop: the machines cannot get stuck, a port's flags agree with its hardware, forwarding implies
  learning, and the transmit limit holds.
\<close>

subsection \<open>The invariant\<close>

definition port_ok :: "port_t \<Rightarrow> bool" where
  "port_ok p \<longleftrightarrow> transmit_inv p \<and> info_inv p \<and> wish_inv p \<and> nonstp_inv p \<and> sttrans_flags_ok p \<and> \<not> autoEdge p"

definition hw_agrees :: "glob \<Rightarrow> stpm_t \<Rightarrow> bool" where
  "hw_agrees g b \<longleftrightarrow> list_all (\<lambda>p. hw_state (hal_calls g) (port_index p) = Some (port_hw_state p)) (ports b)"

definition bridge_data_ok :: "stpm_t \<Rightarrow> bool" where
  "bridge_data_ok b \<longleftrightarrow> wf_bridge_id (BrId b) \<and> wf_vector (rootPrio b)
     \<and> HelloTime (BrTimes b) \<noteq> 0 \<and> HelloTime (rootTimes b) \<noteq> 0"

definition bridge_ok :: "nat \<Rightarrow> mworld \<Rightarrow> bool" where
  "bridge_ok n w \<longleftrightarrow> length (ports (snd w)) = n \<and> distinct (map port_index (ports (snd w)))
     \<and> list_all port_ok (ports (snd w)) \<and> hw_agrees (fst w) (snd w) \<and> bridge_data_ok (snd w)"

text \<open>The fields of a port the invariant speaks about, by the machine that writes them.\<close>

definition view_tx :: "port_t \<Rightarrow> transmit_st state_mach \<times> u32" where
  "view_tx p = (transmit p, txCount p)"

definition view_info ::
    "port_t \<Rightarrow> prio_vector_t \<times> prio_vector_t \<times> prio_vector_t \<times> info_is_t \<times> timevalues_t" where
  "view_info p = (msgPrio p, portPrio p, designPrio p, infoIs p, portTimes p)"

definition view_role :: "port_t \<Rightarrow> bool \<times> bool \<times> roletrns_st state_mach \<times> bool \<times> port_role_t" where
  "view_role p = (learn p, forward p, roletrns p, admin_non_stp p, selectedRole p)"

definition view_st :: "port_t \<Rightarrow> bool \<times> bool \<times> sttrans_st state_mach" where
  "view_st p = (learning p, forwarding p, sttrans p)"

definition view_fix :: "port_t \<Rightarrow> int \<times> bool" where
  "view_fix p = (port_index p, autoEdge p)"

lemmas views = view_tx_def view_info_def view_role_def view_st_def view_fix_def

lemma tx_cong: "view_tx p = view_tx q \<Longrightarrow> transmit_inv p = transmit_inv q"
  by (simp add: view_tx_def transmit_inv_def)

lemma info_cong: "view_info p = view_info q \<Longrightarrow> info_inv p = info_inv q"
  by (simp add: view_info_def info_inv_def)

lemma role_cong: "view_role p = view_role q \<Longrightarrow> wish_inv p = wish_inv q \<and> nonstp_inv p = nonstp_inv q"
  by (simp add: view_role_def wish_inv_def nonstp_inv_def)

lemma st_cong: "view_st p = view_st q \<Longrightarrow> sttrans_flags_ok p = sttrans_flags_ok q \<and> port_hw_state p = port_hw_state q"
  by (simp add: view_st_def sttrans_flags_ok_def port_hw_state_def split: mach_st.split sttrans_st.split)

text \<open>Replacing one port.\<close>

lemma bridge_ok_put_port:
  assumes "bridge_ok n (g, b)" "i < n" "port_ok p'" "port_index p' = port_index (ports b ! i)"
    and "hw_state (hal_calls g') = (hw_state (hal_calls g))(port_index p' := Some (port_hw_state p'))"
  shows "bridge_ok n (put_port i (g', p') b)"
proof -
  have len: "length (ports b) = n" and dist: "distinct (map port_index (ports b))"
    and ok: "list_all port_ok (ports b)" and hw: "hw_agrees g b" and d: "bridge_data_ok b"
    using assms(1) by (simp_all add: bridge_ok_def)
  have ix: "map port_index ((ports b)[i := p']) = map port_index (ports b)"
    using assms(2,4) len by (simp add: map_update list_update_same_conv)
  have "hw_state (hal_calls g') (port_index ((ports b)[i := p'] ! j)) = Some (port_hw_state ((ports b)[i := p'] ! j))"
    if "j < n" for j
  proof (cases "j = i")
    case True
    then show ?thesis using that len assms(5) by simp
  next
    case False
    then have "port_index (ports b ! j) \<noteq> port_index p'"
      using dist assms(2,4) that len nth_eq_iff_index_eq [of "map port_index (ports b)" j i] by simp
    with False hw that len assms(5) show ?thesis by (simp add: hw_agrees_def list_all_length)
  qed
  then have "hw_agrees g' (b\<lparr> ports := (ports b)[i := p'] \<rparr>)"
    using len by (simp add: hw_agrees_def list_all_length)
  moreover have "list_all port_ok ((ports b)[i := p'])"
    using ok assms(3) by (auto simp: list_all_iff dest!: subsetD [OF set_update_subset_insert])
  ultimately show ?thesis
    using len dist ix d by (simp add: bridge_ok_def put_port_def bridge_data_ok_def)
qed

lemma bridge_okD:
  assumes "bridge_ok n (g, b)" "i < n"
  shows "i < length (ports b)" "port_ok (ports b ! i)"
    "hw_state (hal_calls g) (port_index (ports b ! i)) = Some (port_hw_state (ports b ! i))"
    "HelloTime (rootTimes b) \<noteq> 0"
  using assms by (simp_all add: bridge_ok_def list_all_length hw_agrees_def bridge_data_ok_def)

text \<open>A port machine that leaves the state transition fields alone, and the hardware too.\<close>

lemma bridge_ok_put_quiet:
  assumes "bridge_ok n (g, b)" "i < n" "port_ok p'" "view_st p' = view_st (ports b ! i)"
    and "port_index p' = port_index (ports b ! i)" "hw_state (hal_calls g') = hw_state (hal_calls g)"
  shows "bridge_ok n (put_port i (g', p') b)"
proof (rule bridge_ok_put_port [OF assms(1-3,5)])
  have "port_hw_state p' = port_hw_state (ports b ! i)" using st_cong [OF assms(4)] by simp
  then show "hw_state (hal_calls g') = (hw_state (hal_calls g))(port_index p' := Some (port_hw_state p'))"
    using bridge_okD(3) [OF assms(1,2)] assms(5,6) by (simp add: fun_upd_idem)
qed

subsection \<open>What the port machines leave alone\<close>

definition all_views :: "port_t \<Rightarrow> _" where
  "all_views p = (view_tx p, view_info p, view_role p, view_st p, view_fix p)"

lemma port_ok_cong: "all_views p = all_views q \<Longrightarrow> port_ok p = port_ok q"
  using tx_cong [of p q] info_cong [of p q] role_cong [of p q] st_cong [of p q]
  by (simp add: all_views_def port_ok_def view_fix_def)

lemma bridect_frame:
  "all_views (STP_bridect_enter_state p) = all_views p"
  "all_views (snd (STP_bridect_check_conditions p)) = all_views p"
  "all_views (p\<lparr> bridect := x \<rparr>) = all_views p"
  by (simp_all add: all_views_def views bridect_defs split: mach_st.split bridect_st.split)

lemma migrate_frame:
  "all_views (STP_migrate_enter_state b p) = all_views p"
  "all_views (snd (STP_migrate_check_conditions b p)) = all_views p"
  "all_views (p\<lparr> migrate := x \<rparr>) = all_views p"
  by (simp_all add: all_views_def views migrate_defs Let_def split: mach_st.split migrate_st.split)

lemma p2p_frame:
  "all_views (STP_p2p_enter_state e g p) = all_views p"
  "all_views (snd (STP_p2p_check_conditions p)) = all_views p"
  "all_views (p\<lparr> p2p := x \<rparr>) = all_views p"
  by (simp_all add: all_views_def views p2p_defs split: mach_st.split p2p_st.split)

lemma pcost_frame:
  "all_views (STP_pcost_enter_state p) = all_views p"
  "all_views (snd (STP_pcost_check_conditions p)) = all_views p"
  "all_views (p\<lparr> pcost := x \<rparr>) = all_views p"
  by (simp_all add: all_views_def views pcost_defs Let_def split: mach_st.split pcost_st.split)

lemma portrcv_frame:
  "all_views (STP_portrcv_enter_state p) = all_views p"
  "all_views (snd (STP_portrcv_check_conditions p)) = all_views p"
  "all_views (p\<lparr> portrcv := x \<rparr>) = all_views p"
  by (simp_all add: all_views_def views portrcv_defs Let_def split: mach_st.split portrcv_st.split)

text \<open>The transmit machine: everything but its own fields; it sends, but sets no port state.\<close>

definition but_tx :: "port_t \<Rightarrow> _" where
  "but_tx p = (view_info p, view_role p, view_st p, view_fix p)"

lemma tx_hw [simp]:
  "hw_state (hal_calls (fst (snd (txTcn e b g p)))) = hw_state (hal_calls g)"
  "hw_state (hal_calls (fst (snd (txConfig e b g p)))) = hw_state (hal_calls g)"
  "hw_state (hal_calls (fst (snd (txRstp e b g p)))) = hw_state (hal_calls g)"
proof -
  consider "skip_tx p > 0" | "\<not> skip_tx p > 0" "admin_non_stp p" | "skip_tx p = 0" "\<not> admin_non_stp p"
    by (auto simp: word_gt_0)
  then have "hw_state (hal_calls (fst (snd (txTcn e b g p)))) = hw_state (hal_calls g)
    \<and> hw_state (hal_calls (fst (snd (txConfig e b g p)))) = hw_state (hal_calls g)
    \<and> hw_state (hal_calls (fst (snd (txRstp e b g p)))) = hw_state (hal_calls g)"
  proof cases
    case 3
    then show ?thesis
      by (simp only: txTcn_sends [OF 3] txConfig_sends [OF 3] txRstp_sends [OF 3] fst_conv)
         (simp add: send_packet_def)
  qed (simp_all add: txTcn_def txConfig_def txRstp_def)
  then show "hw_state (hal_calls (fst (snd (txTcn e b g p)))) = hw_state (hal_calls g)"
    "hw_state (hal_calls (fst (snd (txConfig e b g p)))) = hw_state (hal_calls g)"
    "hw_state (hal_calls (fst (snd (txRstp e b g p)))) = hw_state (hal_calls g)" by simp_all
qed

lemma transmit_frame:
  "but_tx (snd (STP_transmit_enter_state e b g p)) = but_tx p"
  "hw_state (hal_calls (fst (STP_transmit_enter_state e b g p))) = hw_state (hal_calls g)"
  "but_tx (snd (STP_transmit_check_conditions p)) = but_tx p"
  "but_tx (p\<lparr> transmit := x \<rparr>) = but_tx p"
proof -
  have tx: "but_tx (tx_port p) = but_tx p" by (simp add: tx_port_def but_tx_def views)
  show "but_tx (snd (STP_transmit_enter_state e b g p)) = but_tx p"
    using tx by (simp add: transmit_enter_port but_tx_def views split: mach_st.split transmit_st.split)
  have "fst (case x of (_, (g, q)) \<Rightarrow> (g, f q)) = fst (snd x)" for x :: "int \<times> pworld" and f :: "port_t \<Rightarrow> port_t"
    by (cases x) (auto split: prod.split)
  then show "hw_state (hal_calls (fst (STP_transmit_enter_state e b g p))) = hw_state (hal_calls g)"
    by (simp add: STP_transmit_enter_state_def split: mach_st.split transmit_st.split)
  show "but_tx (snd (STP_transmit_check_conditions p)) = but_tx p"
    by (simp add: STP_transmit_check_conditions_def hop_transmit_def but_tx_def views
        split: mach_st.split transmit_st.split)
  show "but_tx (p\<lparr> transmit := x \<rparr>) = but_tx p" by (simp add: but_tx_def views)
qed

text \<open>The information machine.\<close>

definition but_info :: "port_t \<Rightarrow> _" where
  "but_info p = (view_tx p, view_role p, view_st p, view_fix p)"

lemma info_actions_frame:
  "but_info (recordProposal p) = but_info p" "but_info (setTcFlags p) = but_info p"
  "but_info (updtRcvdInfoWhile p) = but_info p" "but_info (recordDispute p) = but_info p"
  "but_info (recordAgreement b p) = but_info p" "but_info (snd (snd (rcvInfo g p))) = but_info p"
  "but_info (enter_SUPERIOR_DESIGNATED p) = but_info p"
  using recordProposal_upd [of p] setTcFlags_upd [of p] updtRcvdInfoWhile_upd [of p]
    recordDispute_upd [of p] recordAgreement_upd [of b p] rcvInfo_upd [of g p] enter_SUPERIOR_upd [of p]
  by (auto simp: but_info_def views)

lemma but_info_upds:
  "but_info (p\<lparr> info := x \<rparr>) = but_info p" "but_info (p\<lparr> rcvdMsg := m \<rparr>) = but_info p"
  "but_info (p\<lparr> rcvdInfo := r \<rparr>) = but_info p"
  by (simp_all add: but_info_def views)

lemma rcvInfo_hw: "hw_state (hal_calls (fst (snd (rcvInfo g p)))) = hw_state (hal_calls g)"
proof -
  have "hw_state (hal_calls (loop_detect c q g)) = hw_state (hal_calls g)" for c q
    by (simp add: loop_detect_def Let_def)
  then show ?thesis by (simp add: rcvInfo_def Let_def split: prod.split)
qed

lemma info_frame:
  "but_info (snd (STP_info_enter_state b g p)) = but_info p"
  "hw_state (hal_calls (fst (STP_info_enter_state b g p))) = hw_state (hal_calls g)"
  "but_info (snd (STP_info_check_conditions p)) = but_info p"
proof -
  show "but_info (snd (STP_info_enter_state b g p)) = but_info p"
  proof (cases "State (info p)")
    case BEGIN
    then show ?thesis by (simp add: STP_info_enter_state_def enter_RSTP_PORT_DISABLED_def but_info_def views)
  next
    case (St s)
    then show ?thesis
      by (cases s)
         (simp_all add: info_enter_INFO_RECEIVE but_info_upds info_actions_frame,
          simp_all add: STP_info_enter_state_def but_info_upds info_actions_frame,
          simp_all add: enter_RSTP_PORT_DISABLED_def enter_UPDATE_def but_info_def views Let_def)
  qed
  have "fst (case x of (i, (g, q)) \<Rightarrow> (g, f i q)) = fst (snd x)"
    for x :: "port_info_t \<times> pworld" and f :: "port_info_t \<Rightarrow> port_t \<Rightarrow> port_t"
    by (cases x) (auto split: prod.split)
  then show "hw_state (hal_calls (fst (STP_info_enter_state b g p))) = hw_state (hal_calls g)"
    by (simp add: STP_info_enter_state_def rcvInfo_hw split: mach_st.split info_st.split)
  show "but_info (snd (STP_info_check_conditions p)) = but_info p"
    using info_check_only [of p] by (auto simp: but_info_upds)
qed

text \<open>The port state transition machine.\<close>

definition but_st :: "port_t \<Rightarrow> _" where
  "but_st p = (view_tx p, view_info p, view_role p, view_fix p)"

lemma sttrans_frame:
  "but_st (snd (STP_sttrans_enter_state b g p)) = but_st p"
  "but_st (snd (STP_sttrans_check_conditions p)) = but_st p"
  "but_st (p\<lparr> sttrans := x \<rparr>) = but_st p"
  by (simp_all add: but_st_def views sttrans_defs Let_def split: mach_st.split sttrans_st.split)

lemma sttrans_hw:
  "j \<noteq> port_index p \<Longrightarrow> hw_state (hal_calls (fst (STP_sttrans_enter_state b g p))) j = hw_state (hal_calls g) j"
  by (simp add: sttrans_defs Let_def split: mach_st.split sttrans_st.split)

subsection \<open>What a machine promises the passes\<close>

text \<open>
  \<open>own\<close> are the ports whose state transition machine it is: the conditions of that machine may be
  checked only when it has nothing to enter.
\<close>

locale safe_machine =
  fixes s :: "mworld stater" and n :: nat and own :: "nat set"
  assumes enter_safe: "bridge_ok n w \<Longrightarrow> get_changeState s w \<Longrightarrow>
      bridge_ok n (put_changeState s False (concreteEnterState s w))"
    and check_safe: "bridge_ok n w \<Longrightarrow> \<forall>i\<in>own. \<not> changeState (sttrans (ports (snd w) ! i)) \<Longrightarrow>
      bridge_ok n (snd (STP_check_condition s w))"
    and enter_frame: "bridge_ok n w \<Longrightarrow> get_changeState s w \<Longrightarrow> j < n \<Longrightarrow> j \<notin> own \<Longrightarrow>
      sttrans (ports (snd (put_changeState s False (concreteEnterState s w))) ! j) = sttrans (ports (snd w) ! j)"
    and check_frame: "bridge_ok n w \<Longrightarrow> j < n \<Longrightarrow> j \<notin> own \<Longrightarrow>
      sttrans (ports (snd (snd (STP_check_condition s w))) ! j) = sttrans (ports (snd w) ! j)"
    and own_pending: "i \<in> own \<Longrightarrow> get_changeState s w = changeState (sttrans (ports (snd w) ! i))"
    and rest_after: "bridge_ok n w \<Longrightarrow> get_changeState s w \<Longrightarrow>
      \<not> get_changeState s (put_changeState s False (concreteEnterState s w))"
begin

lemma step_safe:
  assumes "bridge_ok n w" "get_changeState s w"
  shows "bridge_ok n (change_state_step s w)"
    and "j < n \<Longrightarrow> j \<notin> own \<Longrightarrow>
      sttrans (ports (snd (change_state_step s w)) ! j) = sttrans (ports (snd w) ! j)"
proof -
  let ?w = "put_changeState s False (concreteEnterState s w)"
  have ok: "bridge_ok n ?w" by (rule enter_safe [OF assms])
  have "\<forall>i\<in>own. \<not> changeState (sttrans (ports (snd ?w) ! i))"
    using rest_after [OF assms] own_pending by blast
  then show "bridge_ok n (change_state_step s w)"
    unfolding change_state_step_def by (rule check_safe [OF ok])
  show "sttrans (ports (snd (change_state_step s w)) ! j) = sttrans (ports (snd w) ! j)"
    if "j < n" "j \<notin> own"
    using check_frame [OF ok that] enter_frame [OF assms that] by (simp add: change_state_step_def)
qed

lemma change_safe:
  assumes "STP_change_state s w = Some (k, w')" "bridge_ok n w"
  shows "bridge_ok n w' \<and> (\<forall>j<n. j \<notin> own \<longrightarrow> sttrans (ports (snd w') ! j) = sttrans (ports (snd w) ! j))
    \<and> (\<forall>i\<in>own. \<not> changeState (sttrans (ports (snd w') ! i)))"
proof -
  define P where "P v \<longleftrightarrow> bridge_ok n v \<and>
    (\<forall>j<n. j \<notin> own \<longrightarrow> sttrans (ports (snd v) ! j) = sttrans (ports (snd w) ! j))" for v
  have "step_inv s P" by unfold_locales (auto simp: P_def step_safe)
  moreover have "P w" using assms(2) by (simp add: P_def)
  ultimately have "P w' \<and> \<not> get_changeState s w'"
    using step_inv.change_state_keeps [OF _ assms(1)] by blast
  then show ?thesis using own_pending [of _ w'] by (auto simp: P_def)
qed

end

text \<open>A port machine at its place: obligations on the port alone.\<close>

definition fits :: "nat \<Rightarrow> glob \<Rightarrow> stpm_t \<Rightarrow> pworld \<Rightarrow> bool" where
  "fits i g b gp \<longleftrightarrow> port_ok (snd gp) \<and> port_index (snd gp) = port_index (ports b ! i) \<and>
     hw_state (hal_calls (fst gp)) =
       (hw_state (hal_calls g))(port_index (snd gp) := Some (port_hw_state (snd gp)))"

lemma fits_put: "bridge_ok n (g, b) \<Longrightarrow> i < n \<Longrightarrow> fits i g b gp \<Longrightarrow> bridge_ok n (put_port i gp b)"
  using bridge_ok_put_port [of n g b i "snd gp" "fst gp"] by (simp add: fits_def)

lemma fits_quiet:
  assumes "bridge_ok n (g, b)" "i < n" "port_ok p'" "view_st p' = view_st (ports b ! i)"
    and "view_fix p' = view_fix (ports b ! i)" "hw_state (hal_calls g') = hw_state (hal_calls g)"
  shows "fits i g b (g', p')"
proof -
  have "port_hw_state p' = port_hw_state (ports b ! i)" using st_cong [OF assms(4)] by simp
  then show ?thesis
    using bridge_okD(3) [OF assms(1,2)] assms(3,5,6) by (simp add: fits_def view_fix_def fun_upd_idem)
qed

lemma lift_safe:
  assumes m: "reads_bridge_only m" and i: "i < n" and own: "own \<subseteq> {i}"
    and ent: "\<And>g b. bridge_ok n (g, b) \<Longrightarrow> get_changeState (m b) (g, ports b ! i) \<Longrightarrow>
      fits i g b (put_changeState (m b) False (concreteEnterState (m b) (g, ports b ! i)))
      \<and> (i \<notin> own \<longrightarrow> sttrans (snd (put_changeState (m b) False (concreteEnterState (m b) (g, ports b ! i))))
           = sttrans (ports b ! i))
      \<and> \<not> get_changeState (m b) (put_changeState (m b) False (concreteEnterState (m b) (g, ports b ! i)))"
    and chk: "\<And>g b. bridge_ok n (g, b) \<Longrightarrow> (i \<in> own \<longrightarrow> \<not> changeState (sttrans (ports b ! i))) \<Longrightarrow>
      fits i g b (snd (STP_check_condition (m b) (g, ports b ! i)))"
    and chk_st: "\<And>g b. bridge_ok n (g, b) \<Longrightarrow> i \<notin> own \<Longrightarrow>
      sttrans (snd (snd (STP_check_condition (m b) (g, ports b ! i)))) = sttrans (ports b ! i)"
    and pend: "\<And>b gp. i \<in> own \<Longrightarrow> get_changeState (m b) gp = changeState (sttrans (snd gp))"
  shows "safe_machine (lift_stater i m) n own"
proof (unfold_locales, goal_cases)
  case (1 w)
  then show ?case using m i ent bridge_okD(1) fits_put by (cases w) (simp add: lift_simps)
next
  case (2 w)
  then show ?case using m i chk bridge_okD(1) fits_put by (cases w) (auto simp: lift_simps)
next
  case (3 w j)
  then have "i < length (ports (snd w))" using i bridge_okD(1) [of n "fst w" "snd w" i] by simp
  with 3 m i ent [of "fst w" "snd w"] show ?case by (cases w) (auto simp: lift_simps nth_list_update)
next
  case (4 w j)
  then have "i < length (ports (snd w))" using i bridge_okD(1) [of n "fst w" "snd w" i] by simp
  with 4 m i chk_st [of "fst w" "snd w"] show ?case by (cases w) (auto simp: lift_simps nth_list_update)
next
  case (5 k w)
  then show ?case using own pend by (cases w) (auto simp: lift_stater_def)
next
  case (6 w)
  then have "i < length (ports (snd w))" using i bridge_okD(1) [of n "fst w" "snd w" i] by simp
  with 6 m i ent [of "fst w" "snd w"] show ?case by (cases w) (simp add: lift_simps)
qed

subsection \<open>The machines\<close>

lemma fits_same:
  assumes "bridge_ok n (g, b)" "i < n" "all_views p' = all_views (ports b ! i)"
  shows "fits i g b (g, p')"
  using fits_quiet [OF assms(1,2), of p' g] bridge_okD(2) [OF assms(1,2)] port_ok_cong [OF assms(3)] assms(3)
  by (simp add: all_views_def)

lemma views_sttrans: "all_views p = all_views q \<Longrightarrow> sttrans p = sttrans q"
  by (simp add: all_views_def view_st_def)

lemma simple_safe:
  assumes "reads_bridge_only m" "i < n"
    and m: "\<And>b. m b = port_stater (\<lambda>g p. (g, ent b g p)) (chk b) get put"
    and v: "\<And>b g p. all_views (ent b g p) = all_views p" "\<And>b p. all_views (snd (chk b p)) = all_views p"
      "\<And>c p. all_views (put c p) = all_views p" "\<And>p. \<not> get (put False p)"
  shows "safe_machine (lift_stater i m) n {}"
proof (rule lift_safe [OF assms(1,2)], goal_cases)
  case (2 g b)
  let ?p = "put False (ent b g (ports b ! i))"
  have "all_views ?p = all_views (ports b ! i)" by (simp add: v)
  then show ?case using fits_same [OF 2(1) assms(2), of ?p] views_sttrans [of ?p "ports b ! i"] v(4)
    by (simp add: m)
next
  case (3 g b)
  obtain r q where c: "chk b (ports b ! i) = (r, q)" by fastforce
  then have "all_views q = all_views (ports b ! i)" using v(2) [of b "ports b ! i"] by simp
  then show ?case
    using fits_same [OF 3(1) assms(2), of q] fits_same [OF 3(1) assms(2), of "put True q"] c
    by (simp add: m v)
next
  case (4 g b)
  obtain r q where c: "chk b (ports b ! i) = (r, q)" by fastforce
  then have "all_views q = all_views (ports b ! i)" using v(2) [of b "ports b ! i"] by simp
  then show ?case
    using views_sttrans [of q "ports b ! i"] views_sttrans [of "put True q" "ports b ! i"] c by (simp add: m v)
qed simp_all

lemma reads_const [simp]: "reads_bridge_only (\<lambda>_. m)"
  by (simp add: reads_bridge_only_def)

lemma bridect_safe: "i < n \<Longrightarrow> safe_machine (lift_stater i (\<lambda>_. bridect_mach)) n {}"
  by (rule simple_safe [where ent = "\<lambda>_ _. STP_bridect_enter_state" and chk = "\<lambda>_. STP_bridect_check_conditions"
      and get = "\<lambda>p. changeState (bridect p)" and put = "\<lambda>c p. p\<lparr> bridect := (bridect p)\<lparr> changeState := c \<rparr> \<rparr>"])
     (simp_all add: bridect_mach_def bridect_frame)

lemma p2p_safe: "i < n \<Longrightarrow> safe_machine (lift_stater i (\<lambda>_. p2p_mach e)) n {}"
  by (rule simple_safe [where ent = "\<lambda>_. STP_p2p_enter_state e" and chk = "\<lambda>_. STP_p2p_check_conditions"
      and get = "\<lambda>p. changeState (p2p p)" and put = "\<lambda>c p. p\<lparr> p2p := (p2p p)\<lparr> changeState := c \<rparr> \<rparr>"])
     (simp_all add: p2p_mach_def p2p_frame)

lemma pcost_safe: "i < n \<Longrightarrow> safe_machine (lift_stater i (\<lambda>_. pcost_mach)) n {}"
  by (rule simple_safe [where ent = "\<lambda>_ _. STP_pcost_enter_state" and chk = "\<lambda>_. STP_pcost_check_conditions"
      and get = "\<lambda>p. changeState (pcost p)" and put = "\<lambda>c p. p\<lparr> pcost := (pcost p)\<lparr> changeState := c \<rparr> \<rparr>"])
     (simp_all add: pcost_mach_def pcost_frame)

lemma portrcv_safe: "i < n \<Longrightarrow> safe_machine (lift_stater i (\<lambda>_. portrcv_mach)) n {}"
  by (rule simple_safe [where ent = "\<lambda>_ _. STP_portrcv_enter_state" and chk = "\<lambda>_. STP_portrcv_check_conditions"
      and get = "\<lambda>p. changeState (portrcv p)" and put = "\<lambda>c p. p\<lparr> portrcv := (portrcv p)\<lparr> changeState := c \<rparr> \<rparr>"])
     (simp_all add: portrcv_mach_def portrcv_frame)

lemma reads_migrate [simp]: "reads_bridge_only migrate_mach"
proof -
  have "rstp_version (b\<lparr> ports := ps \<rparr>) = rstp_version b" for b ps by (simp add: rstp_version_def)
  then have "STP_migrate_enter_state (b\<lparr> ports := ps \<rparr>) p = STP_migrate_enter_state b p"
    "STP_migrate_check_conditions (b\<lparr> ports := ps \<rparr>) p = STP_migrate_check_conditions b p" for b ps p
    by (simp_all only: STP_migrate_enter_state_def STP_migrate_check_conditions_def)
  then show ?thesis unfolding reads_bridge_only_def migrate_mach_def by presburger
qed

lemma migrate_safe: "i < n \<Longrightarrow> safe_machine (lift_stater i migrate_mach) n {}"
  by (rule simple_safe [where ent = "\<lambda>b _. STP_migrate_enter_state b" and chk = STP_migrate_check_conditions
      and get = "\<lambda>p. changeState (migrate p)" and put = "\<lambda>c p. p\<lparr> migrate := (migrate p)\<lparr> changeState := c \<rparr> \<rparr>"])
     (simp_all add: migrate_mach_def migrate_frame)

lemma fd_ports [simp]: "STP_transmit_enter_state e (b\<lparr> ports := ps \<rparr>) g p = STP_transmit_enter_state e b g p"
  by (simp add: STP_transmit_enter_state_def txConfig_def txTcn_def txRstp_def split: mach_st.split transmit_st.split)

lemma reads_transmit [simp]: "reads_bridge_only (transmit_mach e)"
  unfolding reads_bridge_only_def transmit_mach_def by (simp add: fun_eq_iff)

lemma reads_info [simp]: "reads_bridge_only info_mach"
proof -
  have "STP_info_enter_state (b\<lparr> ports := ps \<rparr>) = STP_info_enter_state b" for b ps
    by (intro ext) (simp add: STP_info_enter_state_def recordAgreement_def split: mach_st.split info_st.split)
  then show ?thesis by (simp add: reads_bridge_only_def info_mach_def)
qed

lemma reads_sttrans [simp]: "reads_bridge_only sttrans_mach"
proof -
  have "STP_sttrans_enter_state (b\<lparr> ports := ps \<rparr>) = STP_sttrans_enter_state b" for b ps
    by (intro ext) (simp add: sttrans_defs Let_def split: mach_st.split sttrans_st.split)
  then show ?thesis by (simp add: reads_bridge_only_def sttrans_mach_def)
qed

text \<open>The transmit and information machines: their own invariant, and nothing else touched.\<close>

lemma port_ok_tx: "but_tx p = but_tx q \<Longrightarrow> port_ok q \<Longrightarrow> transmit_inv p \<Longrightarrow> port_ok p"
  using info_cong [of p q] role_cong [of p q] st_cong [of p q] by (simp add: but_tx_def port_ok_def view_fix_def)

lemma port_ok_info: "but_info p = but_info q \<Longrightarrow> port_ok q \<Longrightarrow> info_inv p \<Longrightarrow> port_ok p"
  using tx_cong [of p q] role_cong [of p q] st_cong [of p q] by (simp add: but_info_def port_ok_def view_fix_def)

lemma port_ok_st: "but_st p = but_st q \<Longrightarrow> port_ok q \<Longrightarrow> sttrans_flags_ok p \<Longrightarrow> port_ok p"
  using tx_cong [of p q] role_cong [of p q] info_cong [of p q] by (simp add: but_st_def port_ok_def view_fix_def)

lemma fits_tx:
  "bridge_ok n (g, b) \<Longrightarrow> i < n \<Longrightarrow> but_tx p = but_tx (ports b ! i) \<Longrightarrow> transmit_inv p \<Longrightarrow>
   hw_state (hal_calls g') = hw_state (hal_calls g) \<Longrightarrow> fits i g b (g', p) \<and> sttrans p = sttrans (ports b ! i)"
  using fits_quiet [of n g b i p g'] port_ok_tx [of p "ports b ! i"] bridge_okD(2) [of n g b i]
  by (simp add: but_tx_def view_st_def)

lemma fits_info:
  "bridge_ok n (g, b) \<Longrightarrow> i < n \<Longrightarrow> but_info p = but_info (ports b ! i) \<Longrightarrow> info_inv p \<Longrightarrow>
   hw_state (hal_calls g') = hw_state (hal_calls g) \<Longrightarrow> fits i g b (g', p) \<and> sttrans p = sttrans (ports b ! i)"
  using fits_quiet [of n g b i p g'] port_ok_info [of p "ports b ! i"] bridge_okD(2) [of n g b i]
  by (simp add: but_info_def view_st_def)

lemma transmit_safe:
  assumes i: "i < n"
  shows "safe_machine (lift_stater i (transmit_mach e)) n {}"
proof (rule lift_safe [OF reads_transmit i], goal_cases)
  case (2 g b)
  let ?p = "snd (STP_transmit_enter_state e b g (ports b ! i))"
  have inv: "transmit_inv (?p\<lparr> transmit := (transmit ?p)\<lparr> changeState := False \<rparr> \<rparr>)"
    using transmit_enter_keeps [of "ports b ! i" e b g] 2 bridge_okD(2) [OF 2(1) i] by (simp add: port_ok_def Let_def)
  have "put_changeState (transmit_mach e b) False (concreteEnterState (transmit_mach e b) (g, ports b ! i))
      = (fst (STP_transmit_enter_state e b g (ports b ! i)), ?p\<lparr> transmit := (transmit ?p)\<lparr> changeState := False \<rparr> \<rparr>)"
    by (cases "STP_transmit_enter_state e b g (ports b ! i)") (simp add: transmit_mach_def)
  then show ?case using fits_tx [OF 2(1) i _ inv] by (simp add: transmit_frame)
next
  case (3 g b)
  obtain r q where c: "STP_transmit_check_conditions (ports b ! i) = (r, q)" by fastforce
  have f: "but_tx q = but_tx (ports b ! i)" using transmit_frame(3) [of "ports b ! i"] c by simp
  have t: "transmit_inv (ports b ! i)" using bridge_okD(2) [OF 3(1) i] by (simp add: port_ok_def)
  have "transmit_inv q" "r \<Longrightarrow> transmit_inv (q\<lparr> transmit := (transmit q)\<lparr> changeState := True \<rparr> \<rparr>)"
    using transmit_check_inv [OF t] c by simp_all
  then show ?case
    using fits_tx [OF 3(1) i f _ refl] fits_tx [OF 3(1) i, of "q\<lparr> transmit := (transmit q)\<lparr> changeState := True \<rparr> \<rparr>"]
    by (simp add: transmit_mach_def c transmit_frame f)
next
  case (4 g b)
  obtain r q where c: "STP_transmit_check_conditions (ports b ! i) = (r, q)" by fastforce
  have "but_tx q = but_tx (ports b ! i)" using transmit_frame(3) [of "ports b ! i"] c by simp
  then have "sttrans q = sttrans (ports b ! i)" by (simp add: but_tx_def view_st_def)
  then show ?case by (simp add: transmit_mach_def c)
qed simp_all

lemma info_safe:
  assumes i: "i < n"
  shows "safe_machine (lift_stater i info_mach) n {}"
proof (rule lift_safe [OF reads_info i], goal_cases)
  case (2 g b)
  let ?p = "snd (STP_info_enter_state b g (ports b ! i))"
  have "info_inv ?p" using info_inv_enter bridge_okD(2) [OF 2(1) i] by (simp add: port_ok_def)
  then have inv: "info_inv (?p\<lparr> info := (info ?p)\<lparr> changeState := False \<rparr> \<rparr>)" by (simp add: info_inv_upds)
  have "put_changeState (info_mach b) False (concreteEnterState (info_mach b) (g, ports b ! i))
      = (fst (STP_info_enter_state b g (ports b ! i)), ?p\<lparr> info := (info ?p)\<lparr> changeState := False \<rparr> \<rparr>)"
    by (cases "STP_info_enter_state b g (ports b ! i)") (simp add: info_mach_def)
  then show ?case using fits_info [OF 2(1) i _ inv] by (simp add: info_frame but_info_upds)
next
  case (3 g b)
  obtain r q where c: "STP_info_check_conditions (ports b ! i) = (r, q)" by fastforce
  have f: "but_info q = but_info (ports b ! i)" using info_frame(3) [of "ports b ! i"] c by simp
  have "info_inv q"
    using bridge_okD(2) [OF 3(1) i] info_check_only [of "ports b ! i"] c
    by (auto simp: port_ok_def info_inv_upds)
  then show ?case
    using fits_info [OF 3(1) i f _ refl] fits_info [OF 3(1) i, of "q\<lparr> info := (info q)\<lparr> changeState := True \<rparr> \<rparr>"]
    by (simp add: info_mach_def c but_info_upds f info_inv_upds)
next
  case (4 g b)
  obtain r q where c: "STP_info_check_conditions (ports b ! i) = (r, q)" by fastforce
  have "but_info q = but_info (ports b ! i)" using info_frame(3) [of "ports b ! i"] c by simp
  then have "sttrans q = sttrans (ports b ! i)" by (simp add: but_info_def view_st_def)
  then show ?case by (simp add: info_mach_def c)
qed simp_all

lemma sttrans_safe:
  assumes i: "i < n"
  shows "safe_machine (lift_stater i sttrans_mach) n {i}"
proof (rule lift_safe [OF reads_sttrans i], goal_cases)
  case (2 g b)
  let ?p = "snd (STP_sttrans_enter_state b g (ports b ! i))"
  let ?g = "fst (STP_sttrans_enter_state b g (ports b ! i))"
  let ?q = "?p\<lparr> sttrans := (sttrans ?p)\<lparr> changeState := False \<rparr> \<rparr>"
  have eq: "put_changeState (sttrans_mach b) False (concreteEnterState (sttrans_mach b) (g, ports b ! i)) = (?g, ?q)"
    by (cases "STP_sttrans_enter_state b g (ports b ! i)") (simp add: sttrans_mach_def)
  have "sttrans_inv (g, ports b ! i)"
    using bridge_okD(2,3) [OF 2(1) i] by (simp add: sttrans_inv_def port_ok_def)
  from sttrans_i.enter_keeps [OF this 2(2)] have inv: "sttrans_inv (?g, ?q)" by (simp only: eq)
  have bs: "but_st ?q = but_st (ports b ! i)" by (simp add: sttrans_frame)
  then have ok: "port_ok ?q" using port_ok_st bridge_okD(2) [OF 2(1) i] inv by (simp add: sttrans_inv_def)
  have ix: "port_index ?q = port_index (ports b ! i)" using bs by (simp add: but_st_def view_fix_def)
  have "hw_state (hal_calls ?g) = (hw_state (hal_calls g))(port_index ?q := Some (port_hw_state ?q))"
    using inv ix sttrans_hw [of _ "ports b ! i" b g] by (auto simp: sttrans_inv_def fun_eq_iff)
  then have "fits i g b (?g, ?q)" using ok ix by (simp add: fits_def)
  then show ?case by (simp add: eq) (simp add: sttrans_mach_def)
next
  case (3 g b)
  obtain r q where c: "STP_sttrans_check_conditions (ports b ! i) = (r, q)" by fastforce
  let ?q = "if r then q\<lparr> sttrans := (sttrans q)\<lparr> changeState := True \<rparr> \<rparr> else q"
  have "sttrans_inv (g, ports b ! i)"
    using bridge_okD(2,3) [OF 3(1) i] by (simp add: sttrans_inv_def port_ok_def)
  from sttrans_i.check_keeps [OF this, of b] 3(2) have inv: "sttrans_inv (g, ?q)"
    by (simp add: sttrans_mach_def c)
  have bs: "but_st ?q = but_st (ports b ! i)" using sttrans_frame(2) [of "ports b ! i"] c by (simp add: sttrans_frame)
  then have "port_ok ?q" using port_ok_st bridge_okD(2) [OF 3(1) i] inv by (simp add: sttrans_inv_def)
  moreover have "port_index ?q = port_index (ports b ! i)" using bs by (simp add: but_st_def view_fix_def)
  ultimately have "fits i g b (g, ?q)" using inv by (simp add: fits_def sttrans_inv_def fun_upd_idem)
  then show ?case by (simp add: sttrans_mach_def c)
qed (auto simp: sttrans_mach_def)

end
