(* ===== verification/Rstp_Passes.thy ===== *)
theory Rstp_Passes
  imports Rstp_Safety
begin

text \<open>
  The machines that write fields of several ports, then the passes of
  \<^verbatim>\<open>_stp_stpm_iterate_machines\<close> and the loop of \<^verbatim>\<open>STP_stpm_update\<close>: every pass ends, and what
  \<open>bridge_ok\<close> says of the bridge holds after it.
\<close>

lemma bridge_ok_all:
  assumes "bridge_ok n (g, b)" "length (ports b') = n" "bridge_data_ok b'"
    and "\<And>j. j < n \<Longrightarrow> port_ok (ports b' ! j) \<and> view_st (ports b' ! j) = view_st (ports b ! j)
      \<and> view_fix (ports b' ! j) = view_fix (ports b ! j)"
    and "hw_state (hal_calls g') = hw_state (hal_calls g)"
  shows "bridge_ok n (g', b')"
proof -
  have len: "length (ports b) = n" using assms(1) by (simp add: bridge_ok_def)
  have "map port_index (ports b') = map port_index (ports b)"
    using assms(2,4) len by (intro nth_equalityI) (simp_all add: view_fix_def)
  moreover have "hw_state (hal_calls g') (port_index (ports b' ! j)) = Some (port_hw_state (ports b' ! j))"
    if "j < n" for j
    using bridge_okD(3) [OF assms(1) that] assms(4) [OF that] assms(5) st_cong [of "ports b' ! j" "ports b ! j"]
    by (simp add: view_fix_def)
  then have "hw_agrees g' b'" using assms(2) by (simp add: hw_agrees_def list_all_length)
  ultimately show ?thesis
    using assms by (simp add: bridge_ok_def list_all_length)
qed

lemma data_ok_ports: "bridge_data_ok (b\<lparr> ports := ps \<rparr>) = bridge_data_ok b"
  "bridge_data_ok (b\<lparr> rolesel := x \<rparr>) = bridge_data_ok b"
  by (simp_all add: bridge_data_ok_def)

lemma bridge_okD_data: "bridge_ok n (g, b) \<Longrightarrow> bridge_data_ok b" "bridge_ok n (g, b) \<Longrightarrow> length (ports b) = n"
  by (simp_all add: bridge_ok_def)

subsection \<open>The topology change machine\<close>

lemma topoch_views:
  "all_views (topoch_entered b p) = all_views p" "all_views (p\<lparr> tcProp := x \<rparr>) = all_views p"
  "all_views (snd (topoch_check p)) = all_views p"
proof -
  show "all_views (topoch_entered b p) = all_views p"
    by (simp add: topoch_entered_def all_views_def views Let_def split: mach_st.split topoch_st.split)
  show "all_views (p\<lparr> tcProp := x \<rparr>) = all_views p" by (simp add: all_views_def views)
  show "all_views (snd (topoch_check p)) = all_views p"
    by (rule topoch_check_cases [of p]) (simp_all add: hop_topoch_def all_views_def views)
qed

lemma topoch_mid_hw: "hw_state (hal_calls (fst (topoch_mid i (g, b)))) = hw_state (hal_calls g)"
proof -
  have f: "hw_state (hal_calls (fst (flush b (g, p)))) = hw_state (hal_calls g)" for p
    by (simp add: flush_def)
  have "fst (case x of (g, p) \<Rightarrow> (g, h p)) = fst x" for x :: pworld and h :: "port_t \<Rightarrow> port_t"
    by (cases x) simp
  then have "hw_state (hal_calls (fst (topoch_own b g p))) = hw_state (hal_calls g)" for p
    by (simp add: topoch_own_def Let_def f split: mach_st.split topoch_st.split)
  then show ?thesis
    by (simp add: topoch_mid_def topoch_mach_def STP_topoch_enter_state_def Let_def split: prod.split)
       (metis fst_conv)
qed

lemma topoch_mid_views:
  assumes "i < length (ports b)" "j < length (ports b)"
  shows "all_views (ports (snd (topoch_mid i (g, b))) ! j) = all_views (ports b ! j)"
proof (cases "j = i")
  case True
  then show ?thesis using topoch_mid_own [OF assms(1)] by (simp add: topoch_views)
next
  case False
  then show ?thesis using topoch_mid_other [OF assms(2)] by (metis topoch_views(2))
qed

lemma bridge_ok_views:
  assumes "bridge_ok n (g, b)" "length ps = n" "hw_state (hal_calls g') = hw_state (hal_calls g)"
    and "\<And>j. j < n \<Longrightarrow> all_views (ps ! j) = all_views (ports b ! j)"
  shows "bridge_ok n (g', b\<lparr> ports := ps \<rparr>)"
proof (rule bridge_ok_all [OF assms(1) _ _ _ assms(3)])
  fix j assume "j < n"
  then show "port_ok (ports (b\<lparr> ports := ps \<rparr>) ! j) \<and> view_st (ports (b\<lparr> ports := ps \<rparr>) ! j) = view_st (ports b ! j)
      \<and> view_fix (ports (b\<lparr> ports := ps \<rparr>) ! j) = view_fix (ports b ! j)"
    using assms(4) [of j] port_ok_cong [of "ps ! j" "ports b ! j"] bridge_okD(2) [OF assms(1), of j]
    by (simp add: all_views_def)
qed (use assms bridge_okD_data [OF assms(1)] in \<open>simp_all add: data_ok_ports\<close>)

lemma topoch_condition:
  "i < length (ports b) \<Longrightarrow> snd (STP_check_condition (topoch_mach i) (g, b)) =
     (g, b\<lparr> ports := (ports b)[i := snd (topoch_check (ports b ! i))] \<rparr>)"
  by (simp add: topoch_check_condition split_beta Let_def)

lemma topoch_check_views:
  assumes "i < length (ports b)" "j < length (ports b)"
  shows "all_views ((ports b)[i := snd (topoch_check (ports b ! i))] ! j) = all_views (ports b ! j)"
  using assms by (cases "j = i") (simp_all add: topoch_views)

lemma topoch_safe:
  assumes "i < n"
  shows "safe_machine (topoch_mach i) n {}"
proof (unfold_locales, goal_cases)
  case (1 w)
  obtain g b where w: "w = (g, b)" by fastforce
  have i: "i < length (ports b)" using 1 assms bridge_okD(1) by (simp add: w)
  obtain ps where ps: "snd (topoch_mid i (g, b)) = b\<lparr> ports := ps \<rparr>" "length ps = length (ports b)"
    using topoch_mid_bridge by blast
  have "bridge_ok n (fst (topoch_mid i (g, b)), b\<lparr> ports := ps \<rparr>)"
      by (rule bridge_ok_views [of n g])
         (use 1 i topoch_mid_views [OF i, of _ g] bridge_okD_data [of n g b] in \<open>simp_all add: w topoch_mid_hw ps\<close>)
  then show ?case using ps by (simp add: w topoch_mid_def [symmetric]) (metis prod.collapse)
next
  case (2 w)
  obtain g b where w: "w = (g, b)" by fastforce
  have i: "i < length (ports b)" using 2 assms bridge_okD(1) by (simp add: w)
  have "bridge_ok n (g, b\<lparr> ports := (ports b)[i := snd (topoch_check (ports b ! i))] \<rparr>)"
      by (rule bridge_ok_views [of n g])
         (use 2 i topoch_check_views [OF i] bridge_okD_data [of n g b] in \<open>simp_all add: w\<close>)
  then show ?case using i by (simp add: w topoch_condition)
next
  case (3 w j)
  obtain g b where w: "w = (g, b)" by fastforce
  have i: "i < length (ports b)" using 3 assms bridge_okD(1) by (simp add: w)
  then show ?case using views_sttrans [OF topoch_mid_views [OF i, of j g]] 3 bridge_okD_data [of n g b]
    by (simp add: w topoch_mid_def [symmetric])
next
  case (4 w j)
  obtain g b where w: "w = (g, b)" by fastforce
  have i: "i < length (ports b)" using 4 assms bridge_okD(1) by (simp add: w)
  then show ?case using views_sttrans [OF topoch_check_views [OF i, of j]] 4 bridge_okD_data [of n g b]
    by (simp add: w topoch_condition)
next
  case (6 w)
  obtain g b where w: "w = (g, b)" by fastforce
  have i: "i < length (ports b)" using 6 assms bridge_okD(1) by (simp add: w)
  then show ?case using topoch_mid_own [OF i, of g] 
    by (simp add: w topoch_mid_def [symmetric]) (simp add: topoch_entered_def Let_def)
qed simp

subsection \<open>The role transition machine\<close>

definition but_role :: "port_t \<Rightarrow> _" where
  "but_role p = (view_tx p, view_info p, view_st p, view_fix p)"

lemma port_ok_role: "but_role p = but_role q \<Longrightarrow> port_ok q \<Longrightarrow> wish_inv p \<Longrightarrow> nonstp_inv p \<Longrightarrow> port_ok p"
  using info_cong [of p q] tx_cong [of p q] st_cong [of p q] by (simp add: but_role_def port_ok_def view_fix_def)

lemma roletrns_frame:
  "but_role (entered b p) = but_role p" "but_role (snd (roletrns_check c p)) = but_role p"
proof -
  have u: "but_role (p\<lparr> sync := x \<rparr>) = but_role p" "but_role (p\<lparr> reRoot := x \<rparr>) = but_role p"
    "but_role (p\<lparr> roletrns := m \<rparr>) = but_role p" for p x m
    by (simp_all add: but_role_def views)
  have "but_role (roletrns_own b q) = but_role q" for q
    by (simp add: roletrns_own_def enter_INIT_PORT_def but_role_def views split: mach_st.split roletrns_st.split)
  then show "but_role (entered b p) = but_role p"
    by (simp add: entered_def own_enter_def u split: mach_st.split roletrns_st.split)
  have n: "but_role (nonstp_port p) = but_role p" by (simp add: nonstp_port_def but_role_def views)
  show "but_role (snd (roletrns_check c p)) = but_role p"
    by (rule check_cases [of c p]) (simp_all add: hop_roletrns_def u n)
qed

lemma wish_check_any: "wish_inv q \<Longrightarrow> wish_inv (snd (roletrns_check c q))"
  using check_wish_target [of q c]
  by (auto simp: hops_with_def wish_target_def wish_inv_def hop_roletrns_def STP_hop_2_state_def nonstp_port_def
      split: if_splits)

lemma mid_other:
  assumes "j < length (ports b)" "j \<noteq> i"
  shows "all_views (ports (mid_bridge i b) ! j) = all_views (ports b ! j)"
proof -
  obtain x y where "ports (mid_bridge i b) ! j = (ports b ! j)\<lparr> sync := x, reRoot := y \<rparr>"
    using enter_other [OF assms] assms by (auto simp: mid_bridge_def)
  then show ?thesis by (simp add: all_views_def views)
qed

lemma mid_data: "bridge_data_ok (mid_bridge i b) = bridge_data_ok b"
  using enter_bridge [of i b] by (auto simp: mid_bridge_def own_port_def data_ok_ports)

lemma roletrns_condition:
  "i < length (ports b) \<Longrightarrow> snd (STP_check_condition (roletrns_mach i) (g, b)) =
     (g, b\<lparr> ports := (ports b)[i := snd (roletrns_check b (ports b ! i))] \<rparr>)"
  by (rule check_cases [of b "ports b ! i"])
     (simp_all add: roletrns_mach_def STP_check_condition_def STP_roletrns_check_conditions_def
       own_port_def upd_at_def hop_roletrns_def STP_hop_2_state_def)

lemma roletrns_safe:
  assumes "i < n"
  shows "safe_machine (roletrns_mach i) n {}"
proof -
  have mid: "put_changeState (roletrns_mach i) False (concreteEnterState (roletrns_mach i) (g, b)) = (g, mid_bridge i b)"
    for g b by (simp add: roletrns_mach_def mid_bridge_def)
  have i: "i < length (ports b)" "port_ok (ports b ! i)" if "bridge_ok n (g, b)" for g b
    using bridge_okD [OF that assms] by simp_all
  have own: "port_ok (entered b p)" if "port_ok p" "changeState (roletrns p)" for b p
    using port_ok_role [OF roletrns_frame(1) that(1)] wish_entered nonstp_entered that by (simp add: port_ok_def)
  have chk: "port_ok (snd (roletrns_check c p))" if "port_ok p" for c p
    using port_ok_role [OF roletrns_frame(2) that] wish_check_any nonstp_check that by (simp add: port_ok_def)
  have stays: "view_st p = view_st q \<and> view_fix p = view_fix q" if "but_role p = but_role q" for p q
    using that by (simp add: but_role_def)
  have midv: "port_ok (ports (mid_bridge i b) ! j) \<and> view_st (ports (mid_bridge i b) ! j) = view_st (ports b ! j)
      \<and> view_fix (ports (mid_bridge i b) ! j) = view_fix (ports b ! j)"
    if "bridge_ok n (g, b)" "changeState (roletrns (ports b ! i))" "j < n" for g b j
  proof (cases "j = i")
    case True
    then show ?thesis using own i [OF that(1)] that(2) stays [OF roletrns_frame(1)] by simp
  next
    case False
    then show ?thesis using mid_other [of j b i] port_ok_cong [OF mid_other [of j b i]] that bridge_okD(2) [OF that(1,3)]
        bridge_okD_data(2) [OF that(1)] by (simp add: all_views_def)
  qed
  have chkv: "port_ok ((ports b)[i := snd (roletrns_check b (ports b ! i))] ! j)
      \<and> view_st ((ports b)[i := snd (roletrns_check b (ports b ! i))] ! j) = view_st (ports b ! j)
      \<and> view_fix ((ports b)[i := snd (roletrns_check b (ports b ! i))] ! j) = view_fix (ports b ! j)"
    if "bridge_ok n (g, b)" "j < n" for g b j
    using chk [OF i(2) [OF that(1)]] stays [OF roletrns_frame(2)] i [OF that(1)] bridge_okD(2) [OF that]
    by (cases "j = i") simp_all
  have stv: "view_st p = view_st q \<Longrightarrow> sttrans p = sttrans q" for p q by (simp add: view_st_def)
  show ?thesis
  proof (unfold_locales, goal_cases)
    case (1 w)
    obtain g b where w: "w = (g, b)" by fastforce
    have "bridge_ok n (g, mid_bridge i b)"
      by (rule bridge_ok_all [of n g b])
         (use 1 midv [of g b] bridge_okD_data [of n g b] in \<open>simp_all add: w mid_data\<close>)
    then show ?case by (simp add: w mid)
  next
    case (2 w)
    obtain g b where w: "w = (g, b)" by fastforce
    have "bridge_ok n (g, b\<lparr> ports := (ports b)[i := snd (roletrns_check b (ports b ! i))] \<rparr>)"
      by (rule bridge_ok_all [of n g b])
         (use 2 chkv [of g b] bridge_okD_data [of n g b] in \<open>simp_all add: w data_ok_ports\<close>)
    then show ?case using i [of g b] 2 by (simp add: w roletrns_condition)
  next
    case (3 w j)
    obtain g b where w: "w = (g, b)" by fastforce
    show ?case using midv [of g b j] 3 stv [of "ports (mid_bridge i b) ! j" "ports b ! j"] by (simp add: w mid)
  next
    case (4 w j)
    obtain g b where w: "w = (g, b)" by fastforce
    show ?case using i [of g b] chkv [of g b j] 4
        stv [of "(ports b)[i := snd (roletrns_check b (ports b ! i))] ! j" "ports b ! j"]
      by (simp add: w roletrns_condition)
  next
    case (6 w)
    obtain g b where w: "w = (g, b)" by fastforce
    show ?case using i [of g b] 6 by (simp add: w mid)
  qed simp
qed

subsection \<open>The role selection machine\<close>

definition keeps :: "(port_t \<Rightarrow> port_t) \<Rightarrow> bool" where
  "keeps f \<longleftrightarrow> (\<forall>p. port_ok p \<longrightarrow> port_ok (f p) \<and> view_st (f p) = view_st p \<and> view_fix (f p) = view_fix p)"

lemma keepsI:
  "(\<And>p. port_ok p \<Longrightarrow> port_ok (f p) \<and> view_st (f p) = view_st p \<and> view_fix (f p) = view_fix p) \<Longrightarrow> keeps f"
  by (simp add: keeps_def)

lemma keeps_comp: "keeps f \<Longrightarrow> keeps h \<Longrightarrow> keeps (\<lambda>p. f (h p))"
  by (simp add: keeps_def)

lemma keeps_views:
  assumes "\<And>p. all_views (f p) = all_views p"
  shows "keeps f"
proof (rule keepsI)
  fix p assume "port_ok p"
  then show "port_ok (f p) \<and> view_st (f p) = view_st p \<and> view_fix (f p) = view_fix p"
    using port_ok_cong [OF assms [of p]] assms [of p] by (simp add: all_views_def)
qed

lemma bridge_ok_map:
  assumes "bridge_ok n (g, b)" "keeps f" "bridge_data_ok b'" "ports b' = map f (ports b)"
  shows "bridge_ok n (g, b')"
  by (rule bridge_ok_all [OF assms(1)])
     (use assms bridge_okD_data [OF assms(1)] bridge_okD(2) [OF assms(1)] in \<open>simp_all add: keeps_def\<close>)

lemma keeps_select: "keeps (\<lambda>p. p\<lparr> reselect := x \<rparr>)" "keeps (\<lambda>p. p\<lparr> selected := x \<rparr>)"
  by (rule keeps_views; simp add: all_views_def views)+

lemma keeps_disable: "keeps (\<lambda>p. p\<lparr> selectedRole := DisabledPort \<rparr>)"
proof (rule keepsI)
  fix p assume ok: "port_ok p"
  let ?p = "p\<lparr> selectedRole := DisabledPort \<rparr>"
  have "but_role ?p = but_role p" by (simp add: but_role_def views)
  moreover have "wish_inv ?p" "nonstp_inv ?p" using ok by (auto simp: port_ok_def wish_inv_def nonstp_inv_def)
  ultimately show "port_ok ?p \<and> view_st ?p = view_st p \<and> view_fix ?p = view_fix p"
    using port_ok_role [OF _ ok] by (simp add: but_role_def)
qed

lemma keeps_design:
  assumes "bridge_data_ok b"
  shows "keeps (updtDesign_port b)"
proof (rule keepsI)
  fix p assume ok: "port_ok p"
  have "but_info (updtDesign_port b p) = but_info p" by (simp add: updtDesign_port_def but_info_def views)
  moreover have "info_inv (updtDesign_port b p)"
    using ok assms
    by (simp add: port_ok_def info_inv_def updtDesign_port_def bridge_data_ok_def wf_vector_def STP_VECT_create_def)
  ultimately show "port_ok (updtDesign_port b p) \<and> view_st (updtDesign_port b p) = view_st p
      \<and> view_fix (updtDesign_port b p) = view_fix p"
    using port_ok_info [OF _ ok] by (simp add: but_info_def)
qed

lemma updtRole_kept:
  "but_role (updtRole_port b p) = (view_tx p, (msgPrio p, portPrio p, designPrio p, infoIs p,
      portTimes (updtRole_port b p)), view_st p, view_fix p)"
  "HelloTime (portTimes (updtRole_port b p)) = HelloTime (portTimes p)"
  "roletrns (updtRole_port b p) = roletrns p" "admin_non_stp (updtRole_port b p) = admin_non_stp p"
  "selectedRole (updtRole_port b p) = NonStpPort \<longleftrightarrow> admin_non_stp p"
  "learn (updtRole_port b p) \<longleftrightarrow> admin_non_stp p \<or> learn p"
  "forward (updtRole_port b p) \<longleftrightarrow> admin_non_stp p \<or> forward p"
proof -
  obtain r where r: "\<And>n. setRoleSelected n p = p\<lparr> selectedRole := n, role := r n \<rparr>"
    using setRoleSelected_upd [of _ p] by metis
  show "but_role (updtRole_port b p) = (view_tx p, (msgPrio p, portPrio p, designPrio p, infoIs p,
      portTimes (updtRole_port b p)), view_st p, view_fix p)"
    by (simp add: updtRole_port_def r Let_def but_role_def views split: info_is_t.split)
  show "HelloTime (portTimes (updtRole_port b p)) = HelloTime (portTimes p)"
    "roletrns (updtRole_port b p) = roletrns p" "admin_non_stp (updtRole_port b p) = admin_non_stp p"
    "selectedRole (updtRole_port b p) = NonStpPort \<longleftrightarrow> admin_non_stp p"
    "learn (updtRole_port b p) \<longleftrightarrow> admin_non_stp p \<or> learn p"
    "forward (updtRole_port b p) \<longleftrightarrow> admin_non_stp p \<or> forward p"
    by (simp_all add: updtRole_port_def r Let_def split: info_is_t.split)
qed

lemma keeps_role: "keeps (updtRole_port b)"
proof (rule keepsI)
  fix p assume ok: "port_ok p"
  let ?p = "updtRole_port b p"
  have v: "view_tx ?p = view_tx p" "view_st ?p = view_st p" "view_fix ?p = view_fix p"
    "msgPrio ?p = msgPrio p" "portPrio ?p = portPrio p" "designPrio ?p = designPrio p" "infoIs ?p = infoIs p"
    using updtRole_kept(1) [of b p] by (simp_all add: but_role_def view_info_def)
  have "wish_inv ?p" "nonstp_inv ?p" "info_inv ?p"
    using ok by (auto simp: port_ok_def wish_inv_def nonstp_inv_def info_inv_def updtRole_kept v)
  then show "port_ok ?p \<and> view_st ?p = view_st p \<and> view_fix ?p = view_fix p"
    using ok v tx_cong [OF v(1)] st_cong [OF v(2)] by (simp add: port_ok_def view_fix_def)
qed

lemma elected_data:
  assumes "list_all port_ok ps" "bridge_data_ok b"
  shows "bridge_data_ok (fold updtRootPrio_port ps b)"
  using assms
proof (induction ps arbitrary: b)
  case (Cons p ps)
  have "info_inv p" using Cons.prems by (simp add: port_ok_def)
  then have "bridge_data_ok (updtRootPrio_port p b)"
    using Cons.prems(2)
    by (auto simp: updtRootPrio_port_def bridge_data_ok_def info_inv_def infoIs_cases wf_vector_def
        rootPathPrio_def STP_VECT_copy_def STP_copy_times_def Let_def)
  then show ?case using Cons by simp
qed simp

lemma rolesTree_data:
  assumes "list_all port_ok (ports b)" "bridge_data_ok b"
  shows "bridge_data_ok (updtRolesTree b)"
proof -
  have "bridge_data_ok (b\<lparr> rootPrio := own_prio b, rootTimes := BrTimes b, rootPortId := 0 \<rparr>)"
    using assms(2) by (simp add: bridge_data_ok_def own_prio_def wf_vector_def STP_VECT_create_def)
  then have "bridge_data_ok (elected b)"
    using elected_data [OF assms(1)] by (simp add: elected_def updtRootPrio_def)
  moreover have "rootPrio (updtRolesTree b) = rootPrio (elected b)"
    by (simp add: updtRolesTree_eq Let_def)
  ultimately show ?thesis by (simp add: bridge_data_ok_def updtRolesTree_bridge(3-5))
qed

lemma rolesel_enter_ok:
  assumes ok: "bridge_ok n (g, b)"
  shows "bridge_ok n (g, STP_rolesel_enter_state b)"
    and "j < n \<Longrightarrow> view_st (ports (STP_rolesel_enter_state b) ! j) = view_st (ports b ! j)"
proof -
  define c where "c = clearReselectTree b"
  have c: "bridge_ok n (g, c)"
    by (rule bridge_ok_map [OF ok keeps_select(1) [of False]])
       (use bridge_okD_data [OF ok] in \<open>simp_all add: c_def clearReselectTree_def data_ok_ports\<close>)
  then have d: "bridge_data_ok (updtRolesTree c)"
    by (intro rolesTree_data) (simp_all add: bridge_ok_def)
  have sel: "\<not> list_ex reselect (ports (updtRolesTree c))"
    by (subst updtRolesTree_ports) (auto simp: list_ex_iff c_def clearReselectTree_def)
  define f where "f p = (updtRole_port (updtRolesTree c) (updtDesign_port (updtRolesTree c) (p\<lparr> reselect := False \<rparr>)))
    \<lparr> selected := True \<rparr>" for p
  have f: "keeps f"
    unfolding f_def
    by (rule keeps_comp [OF keeps_select(2)], rule keeps_comp [OF keeps_role],
        rule keeps_comp [OF keeps_design [OF d]], rule keeps_select(1))
  have ps: "ports (snd (setSelectedTree (updtRolesTree c))) = map f (ports b)"
    using sel by (simp add: setSelectedTree_def updtRolesTree_ports [of c])
      (simp add: c_def clearReselectTree_def f_def)
  have ds: "bridge_data_ok (snd (setSelectedTree (updtRolesTree c)))"
    using d by (simp add: setSelectedTree_def data_ok_ports)
  obtain h where "keeps h" "ports (STP_rolesel_enter_state b) = map h (ports b)"
    "bridge_data_ok (STP_rolesel_enter_state b)"
  proof (cases "State (rolesel b) = St ROLE_SELECTION")
    case True
    then have "STP_rolesel_enter_state b = snd (setSelectedTree (updtRolesTree c))"
      by (simp add: STP_rolesel_enter_state_def c_def)
    then show thesis using f ps ds that by simp
  next
    case False
    then have "STP_rolesel_enter_state b = updtRoleDisableTree b"
      by (simp add: STP_rolesel_enter_state_def split: mach_st.splits rolesel_st.splits)
    then show thesis using keeps_disable bridge_okD_data [OF ok] that
      by (simp add: updtRoleDisableTree_def data_ok_ports)
  qed
  then show "bridge_ok n (g, STP_rolesel_enter_state b)"
    and "j < n \<Longrightarrow> view_st (ports (STP_rolesel_enter_state b) ! j) = view_st (ports b ! j)"
    using bridge_ok_map [OF ok] bridge_okD_data(2) [OF ok] bridge_okD(2) [OF ok] by (simp_all add: keeps_def)
qed

lemma bridge_ok_rolesel: "bridge_ok n (g, b\<lparr> rolesel := x \<rparr>) = bridge_ok n (g, b)"
  by (simp add: bridge_ok_def hw_agrees_def bridge_data_ok_def)

lemma rolesel_check_shape: "\<exists>x. snd (STP_check_condition rolesel_mach (g, b)) = (g, b\<lparr> rolesel := x \<rparr>)"
proof -
  have "\<exists>x. snd (STP_rolesel_check_conditions b) = b\<lparr> rolesel := x \<rparr>"
  proof (cases "State (rolesel b)")
    case (St s)
    have "\<exists>x. b = b\<lparr> rolesel := x \<rparr>" by (rule exI [of _ "rolesel b"]) simp
    with St show ?thesis
      by (cases s) (auto simp: STP_rolesel_check_conditions_def hop_rolesel_def Let_def)
  qed (auto simp: STP_rolesel_check_conditions_def hop_rolesel_def Let_def)
  then show ?thesis
    by (cases "STP_rolesel_check_conditions b")
       (auto simp: STP_check_condition_def rolesel_mach_def Let_def)
qed

interpretation rolesel_s: safe_machine rolesel_mach n "{}" for n
proof -
  have ent: "put_changeState rolesel_mach False (concreteEnterState rolesel_mach (g, b)) =
      (g, (STP_rolesel_enter_state b)\<lparr> rolesel := (rolesel (STP_rolesel_enter_state b))\<lparr> changeState := False \<rparr> \<rparr>)"
    for g b by (simp add: rolesel_mach_def)
  show "safe_machine rolesel_mach n {}"
  proof (unfold_locales, goal_cases)
    case (1 w)
    then show ?case using rolesel_enter_ok by (cases w) (simp add: ent bridge_ok_rolesel)
  next
    case (2 w)
    then show ?case using rolesel_check_shape [of "fst w" "snd w"] by (cases w) (auto simp: bridge_ok_rolesel)
  next
    case (3 w j)
    then show ?case using rolesel_enter_ok(2) [of n "fst w" "snd w" j]
      by (cases w) (simp add: ent view_st_def)
  next
    case (4 w j)
    then show ?case using rolesel_check_shape [of "fst w" "snd w"] by (cases w) auto
  next
    case (6 w)
    then show ?case by (cases w) (simp add: ent, simp add: rolesel_mach_def)
  qed simp
qed

subsection \<open>Every machine of the bridge\<close>

definition machine_ids :: "nat \<Rightarrow> mach_id list" where
  "machine_ids n = M_rolesel # concat (map (\<lambda>i. map (M_port i) port_machines) [0..<n])"

definition owns :: "mach_id \<Rightarrow> nat set" where
  "owns m = (case m of M_port i Ksttrans \<Rightarrow> {i} | _ \<Rightarrow> {})"

lemma stpm_machines_ids: "stpm_machines b = machine_ids (length (ports b))"
  by (simp add: stpm_machines_def machine_ids_def)

lemma set_machine_ids: "m \<in> set (machine_ids n) \<longleftrightarrow> (case m of M_rolesel \<Rightarrow> True | M_port i k \<Rightarrow> i < n)"
proof -
  have "k \<in> set port_machines" for k by (cases k) (simp_all add: port_machines_def)
  then show ?thesis by (cases m) (fastforce simp: machine_ids_def)+
qed

lemma ignores_const [simp]: "ignores_ports (\<lambda>_. x)"
  by (simp add: ignores_ports_def)

lemma lift_returns:
  assumes "reads_bridge_only m" "\<And>b. ranked_machine (m b) (P b) rank" "ignores_ports P"
    and "bridge_ok n (g, b)" "i < n" "P b (g, ports b ! i)"
  shows "\<exists>k w'. STP_change_state (lift_stater i m) (g, b) = Some (k, w')"
proof -
  have "ranked_machine (lift_stater i m) (lifted i P) (\<lambda>w. rank (fst w, ports (snd w) ! i))"
    using lift_ranked [where rank = "\<lambda>_. rank", OF assms(1,2,3)] by simp
  moreover have "lifted i P (g, b)" using assms(4-6) bridge_okD(1) by (simp add: lifted_def)
  ultimately obtain k w' where "STP_change_state (lift_stater i m) (g, b) = Some (k, w')"
    by (fast dest: ranked_machine.change_state_returns)
  then show ?thesis by blast
qed

locale listed_machine =
  fixes e :: env and m :: mach_id and n :: nat
  assumes listed: "m \<in> set (machine_ids n)"
begin

lemma is_safe: "safe_machine (stater_of e m) n (owns m)"
proof (cases m)
  case M_rolesel
  then show ?thesis using rolesel_s.safe_machine_axioms by (simp add: stater_of_def owns_def)
next
  case (M_port i k)
  then have "i < n" using listed by (simp add: set_machine_ids)
  then show ?thesis using M_port
    by (cases k) (simp_all add: stater_of_def port_stater_of_def owns_def bridect_safe p2p_safe pcost_safe
      portrcv_safe migrate_safe transmit_safe info_safe sttrans_safe topoch_safe roletrns_safe)
qed

lemma returns:
  assumes "bridge_ok n (g, b)"
  shows "\<exists>k w'. STP_change_state (stater_of e m) (g, b) = Some (k, w')"
proof (cases m)
  case M_rolesel
  then show ?thesis using rolesel_m.change_state_returns [of "(g, b)"] by (auto simp: stater_of_def)
next
  case (M_port i k)
  then have i: "i < n" using listed by (simp add: set_machine_ids)
  note lr = lift_returns [OF _ _ _ assms i]
  have p: "i < length (ports b)" "port_ok (ports b ! i)" "HelloTime (rootTimes b) \<noteq> 0"
    using bridge_okD [OF assms i] by simp_all
  show ?thesis
  proof (cases k)
    case Ktransmit
    have "ignores_ports hello_set" by (simp add: ignores_ports_def hello_set_def fun_eq_iff)
    then show ?thesis
      using lr [OF reads_transmit transmit_m.ranked_machine_axioms] p M_port Ktransmit
      by (simp add: stater_of_def port_stater_of_def hello_set_def)
  next
    case Kportrcv
    then show ?thesis using lr [OF reads_const portrcv_m.ranked_machine_axioms] M_port
      by (simp add: stater_of_def port_stater_of_def)
  next
    case Kbridect
    then show ?thesis using lr [OF reads_const bridect_m.ranked_machine_axioms] M_port p
      by (simp add: stater_of_def port_stater_of_def port_ok_def)
  next
    case Kp2p
    then show ?thesis using lr [OF reads_const p2p_m.ranked_machine_axioms] M_port
      by (simp add: stater_of_def port_stater_of_def)
  next
    case Ktopoch
    then show ?thesis using topoch_m.change_state_returns [of i "(g, b)"] p M_port
      by (auto simp: stater_of_def port_stater_of_def)
  next
    case Kmigrate
    then show ?thesis using lr [OF reads_migrate migrate_m.ranked_machine_axioms] M_port
      by (simp add: stater_of_def port_stater_of_def)
  next
    case Kpcost
    then show ?thesis using lr [OF reads_const pcost_m.ranked_machine_axioms] M_port
      by (simp add: stater_of_def port_stater_of_def)
  next
    case Kinfo
    then show ?thesis using lr [OF reads_info info_m.ranked_machine_axioms] M_port
      by (simp add: stater_of_def port_stater_of_def)
  next
    case Kroletrns
    then show ?thesis using roletrns_m.change_state_returns [of i "(g, b)"] p nonstp_inv_ok M_port
      by (auto simp: stater_of_def port_stater_of_def roletrns_placed_def port_ok_def)
  next
    case Ksttrans
    then show ?thesis using lr [OF reads_sttrans sttrans_m.ranked_machine_axioms] M_port
      by (simp add: stater_of_def port_stater_of_def)
  qed
qed

end

sublocale listed_machine \<subseteq> safe_machine "stater_of e m" n "owns m"
  by (rule is_safe)

interpretation rolesel_l: listed_machine e M_rolesel n for e n
  by unfold_locales (simp add: set_machine_ids)

subsection \<open>The passes\<close>

definition quiet :: "nat \<Rightarrow> mworld \<Rightarrow> bool" where
  "quiet n w \<longleftrightarrow> (\<forall>j<n. \<not> changeState (sttrans (ports (snd w) ! j)))"

lemma check_quiet:
  assumes l: "m \<in> set (machine_ids n)" and "bridge_ok n w" "quiet n w"
    and no: "\<not> fst (STP_check_condition (stater_of e m) w)"
  shows "quiet n (snd (STP_check_condition (stater_of e m) w))"
proof -
  have frame: "sttrans (ports (snd (snd (STP_check_condition (stater_of e m) w))) ! j) = sttrans (ports (snd w) ! j)"
    if "j < n" "j \<notin> owns m" for j
    using safe_machine.check_frame [OF listed_machine.is_safe [OF listed_machine.intro [OF l]] assms(2) that] .
  show ?thesis
  proof (cases "owns m = {}")
    case True
    then show ?thesis using frame assms(3) by (simp add: quiet_def)
  next
    case False
    then obtain i where m: "m = M_port i Ksttrans"
      by (auto simp: owns_def split: mach_id.splits mach_kind.splits)
    obtain g b where w: "w = (g, b)" by fastforce
    have "i < n" using l m by (simp add: set_machine_ids)
    then have i: "i < length (ports b)" using bridge_okD(1) assms(2) w by simp
    obtain r p where c: "STP_sttrans_check_conditions (ports b ! i) = (r, p)" by fastforce
    have s: "STP_check_condition (stater_of e m) w = map_prod id (\<lambda>gp'. put_port i gp' b)
        (STP_check_condition (sttrans_mach b) (g, ports b ! i))"
      using i by (simp add: w m stater_of_def port_stater_of_def lift_simps)
    have "\<not> r" using no by (simp add: s sttrans_mach_def c)
    then have "p = ports b ! i" using c
      by (auto simp: STP_sttrans_check_conditions_def hop_sttrans_def split: mach_st.splits sttrans_st.splits if_splits)
    then have "snd (STP_check_condition (stater_of e m) w) = w"
      unfolding s using \<open>\<not> r\<close> by (simp add: sttrans_mach_def c w put_port_def)
    then show ?thesis using assms(3) by simp
  qed
qed

lemma check_machines_ok:
  assumes "set ms \<subseteq> set (machine_ids n)" "bridge_ok n w" "quiet n w"
  shows "bridge_ok n (snd (check_machines e ms w))
    \<and> (\<not> fst (check_machines e ms w) \<longrightarrow> quiet n (snd (check_machines e ms w)))"
  using assms
proof (induction ms arbitrary: w)
  case (Cons m ms)
  have l: "m \<in> set (machine_ids n)" using Cons.prems(1) by simp
  have "\<forall>i\<in>owns m. \<not> changeState (sttrans (ports (snd w) ! i))"
    using l Cons.prems(3) by (auto simp: quiet_def owns_def set_machine_ids split: mach_id.splits mach_kind.splits)
  then have ok: "bridge_ok n (snd (STP_check_condition (stater_of e m) w))"
    using safe_machine.check_safe [OF listed_machine.is_safe [OF listed_machine.intro [OF l]] Cons.prems(2)] by blast
  show ?case
    using Cons.IH [OF _ ok] Cons.prems(1) ok check_quiet [OF l Cons.prems(2,3), of e]
    by (cases "STP_check_condition (stater_of e m) w") auto
qed simp

lemma change_machines_ok:
  assumes "set ms \<subseteq> set (machine_ids n)" "bridge_ok n w"
  shows "\<exists>k' w'. change_machines e ms k w = Some (k', w') \<and> bridge_ok n w'
    \<and> (\<forall>j<n. M_port j Ksttrans \<in> set ms \<or> \<not> changeState (sttrans (ports (snd w) ! j)) \<longrightarrow>
        \<not> changeState (sttrans (ports (snd w') ! j)))"
  using assms
proof (induction ms arbitrary: w k)
  case (Cons m ms)
  have l: "listed_machine m n" using Cons.prems(1) by unfold_locales simp
  obtain j w1 where run: "STP_change_state (stater_of e m) w = Some (j, w1)"
    using listed_machine.returns [OF l, of "fst w" "snd w" e] Cons.prems(2) by auto
  note safe = safe_machine.change_safe [OF listed_machine.is_safe [OF l] run Cons.prems(2)]
  have own: "M_port i Ksttrans = m \<Longrightarrow> i \<in> owns m" for i by (auto simp: owns_def)
  from safe have keep: "\<not> changeState (sttrans (ports (snd w1) ! i))"
    if "i < n" "M_port i Ksttrans = m \<or> \<not> changeState (sttrans (ports (snd w) ! i))" for i
    using that own by (cases "i \<in> owns m") auto
  from safe Cons.prems(1) Cons.IH [of w1 "k + j"] obtain k' w' where
    "change_machines e ms (k + j) w1 = Some (k', w')" "bridge_ok n w'"
    "\<forall>j<n. M_port j Ksttrans \<in> set ms \<or> \<not> changeState (sttrans (ports (snd w1) ! j)) \<longrightarrow>
        \<not> changeState (sttrans (ports (snd w') ! j))" by auto
  with run keep show ?case by auto
qed simp

lemma iterate_check_ok:
  assumes "bridge_ok n w" "quiet n w"
  shows "bridge_ok n (snd (iterate_check e w))"
    and "\<not> fst (iterate_check e w) \<Longrightarrow> quiet n (snd (iterate_check e w))"
  using check_machines_ok [of "machine_ids n" n w e] assms
  by (cases w; simp add: iterate_check_def stpm_machines_ids bridge_ok_def)+

lemma iterate_change_ok:
  assumes "bridge_ok n w"
  shows "\<exists>k w'. iterate_change e w = Some (k, w') \<and> bridge_ok n w' \<and> quiet n w'"
proof -
  have "M_port j Ksttrans \<in> set (machine_ids n)" if "j < n" for j using that by (simp add: set_machine_ids)
  then show ?thesis
    using change_machines_ok [of "machine_ids n" n w e 0] assms
    by (cases w) (auto simp: iterate_change_def stpm_machines_ids quiet_def bridge_ok_def)
qed

end
