(* ===== verification/Rstp_In.thy ===== *)
theory Rstp_In
  imports Rstp_Stpm
begin

text \<open>
  The interface of the engine (\<^verbatim>\<open>rstp/src/rstp_in.c\<close>): creating and enabling an instance, checking and
  setting its configuration, the events (link, speed, duplex, BPDU, second), the queries.
  \<^verbatim>\<open>RSTP_CRITICAL_PATH_START\<close> and \<^verbatim>\<open>_END\<close> make each call one step of the engine. \<open>None\<close> is a call
  that does not return because the update of the machines does not. What a C function leaves in
  an uninitialised local is an argument here (\<open>garbage\<close>).
\<close>

subsection \<open>Constants\<close>

definition MIN_BR_PRIO :: int where "MIN_BR_PRIO = 0"
definition MAX_BR_PRIO :: int where "MAX_BR_PRIO = 61440"
definition MIN_BR_HELLOT :: int where "MIN_BR_HELLOT = 1"
definition MAX_BR_HELLOT :: int where "MAX_BR_HELLOT = 10"
definition MIN_BR_MAXAGE :: int where "MIN_BR_MAXAGE = 6"
definition MAX_BR_MAXAGE :: int where "MAX_BR_MAXAGE = 40"
definition MIN_BR_FWDELAY :: int where "MIN_BR_FWDELAY = 4"
definition MAX_BR_FWDELAY :: int where "MAX_BR_FWDELAY = 30"

lemmas cfg_limits = MIN_BR_PRIO_def MAX_BR_PRIO_def MIN_BR_HELLOT_def MAX_BR_HELLOT_def
  MIN_BR_MAXAGE_def MAX_BR_MAXAGE_def MIN_BR_FWDELAY_def MAX_BR_FWDELAY_def

definition BR_CFG_STATE :: u32 where "BR_CFG_STATE = push_bit 0 1"
definition BR_CFG_PRIO :: u32 where "BR_CFG_PRIO = push_bit 1 1"
definition BR_CFG_AGE :: u32 where "BR_CFG_AGE = push_bit 2 1"
definition BR_CFG_HELLO :: u32 where "BR_CFG_HELLO = push_bit 3 1"
definition BR_CFG_DELAY :: u32 where "BR_CFG_DELAY = push_bit 4 1"
definition BR_CFG_FORCE_VER :: u32 where "BR_CFG_FORCE_VER = push_bit 5 1"

lemmas br_cfg = BR_CFG_STATE_def BR_CFG_PRIO_def BR_CFG_AGE_def BR_CFG_HELLO_def BR_CFG_DELAY_def
  BR_CFG_FORCE_VER_def

definition PT_CFG_COST :: u32 where "PT_CFG_COST = push_bit 1 1"
definition PT_CFG_PRIO :: u32 where "PT_CFG_PRIO = push_bit 2 1"
definition PT_CFG_P2P :: u32 where "PT_CFG_P2P = push_bit 3 1"
definition PT_CFG_EDGE :: u32 where "PT_CFG_EDGE = push_bit 4 1"
definition PT_CFG_MCHECK :: u32 where "PT_CFG_MCHECK = push_bit 5 1"
definition PT_CFG_NON_STP :: u32 where "PT_CFG_NON_STP = push_bit 6 1"
definition PT_CFG_DBG_SKIP_RX :: u32 where "PT_CFG_DBG_SKIP_RX = push_bit 16 1"
definition PT_CFG_DBG_SKIP_TX :: u32 where "PT_CFG_DBG_SKIP_TX = push_bit 17 1"

definition NAME_LEN :: nat where "NAME_LEN = 20"

definition masked :: "u32 \<Rightarrow> u32 \<Rightarrow> bool" where
  "masked m x \<longleftrightarrow> and m x \<noteq> 0"

definition BitmapGetBit :: "u32 \<Rightarrow> nat \<Rightarrow> bool" where
  "BitmapGetBit bmp n \<longleftrightarrow> masked bmp (push_bit (n mod 32) 1)"

subsection \<open>Finding, creating and enabling an instance\<close>

definition stpapi_stpm_find :: "int \<Rightarrow> stpm_t list \<Rightarrow> nat option" where
  "stpapi_stpm_find vid bs = index_where (\<lambda>this. vid = vlan_id this) bs"

fun create_ports :: "u32 \<Rightarrow> int list \<Rightarrow> stpm_t \<Rightarrow> stpm_t option" where
  "create_ports port_bmp [] this = Some this"
| "create_ports port_bmp (pindex # is) this =
     (if BitmapGetBit port_bmp (nat (pindex - 1))
      then case STP_port_create this pindex of
             None \<Rightarrow> None
           | Some this \<Rightarrow> create_ports port_bmp is this
      else create_ports port_bmp is this)"

text \<open>The instance found or created, with the error code.\<close>

definition stp_in_stpm_create ::
    "env \<Rightarrow> int \<Rightarrow> string option \<Rightarrow> u32 option \<Rightarrow> iworld \<Rightarrow> nat option \<times> rstp_errors_t \<times> iworld" where
  "stp_in_stpm_create e vid name port_bmp w =
     (case port_bmp of
        None \<Rightarrow> (None, STP_There_Are_No_Ports, w)
      | Some bmp \<Rightarrow>
          (case stpapi_stpm_find vid (snd w) of
             Some k \<Rightarrow> (Some k, STP_Nothing_To_Do, w)
           | None \<Rightarrow>
               let this = STP_stpm_create e vid name (fst w)
               in case create_ports bmp [1..max_port (fst w)] this of
                    None \<Rightarrow> (None, STP_Cannot_Create_Instance_For_Port, w)
                  | Some this \<Rightarrow> (Some 0, STP_OK, (fst w, this # snd w))))"

definition disable_stpm :: "nat \<Rightarrow> iworld \<Rightarrow> iworld" where
  "disable_stpm k w =
     (if admin_state (snd w ! k) \<noteq> STP_DISABLED
      then let w = (STP_OUT_set_hardware_mode (vlan_id (snd w ! k)) STP_DISABLED (fst w), snd w)
           in STP_stpm_stop k (set_admin_state k STP_DISABLED w)
      else w)"

definition stop_list :: "iworld \<Rightarrow> iworld" where
  "stop_list w = fold disable_stpm [0..<length (snd w)] w"

definition stp_in_stpm_enable ::
    "env \<Rightarrow> int \<Rightarrow> string option \<Rightarrow> u32 option \<Rightarrow> uid_stp_mode_t \<Rightarrow> iworld \<Rightarrow> (rstp_errors_t \<times> iworld) option" where
  "stp_in_stpm_enable e vid name port_bmp st w =
     (let this = stpapi_stpm_find vid (snd w);
          w = (if st \<noteq> STP_DISABLED \<and> vid = 0 then stop_list w else w);
          (this, created_here, w) =
            (case this of
               Some k \<Rightarrow> (Some k, False, w)
             | None \<Rightarrow> let (this, err, w) = stp_in_stpm_create e vid name port_bmp w in (this, True, w))
      in case this of
           None \<Rightarrow> Some (STP_Imlicite_Instance_Create_Failed, w)
         | Some k \<Rightarrow>
             if admin_state (snd w ! k) = st then Some (STP_OK, w)
             else case STP_stpm_enable e k st w of
                    None \<Rightarrow> None
                  | Some (rc, w) \<Rightarrow>
                      let w = (if rc = STP_OK then (STP_OUT_set_hardware_mode vid st (fst w), snd w) else w);
                          w = (if rc \<noteq> STP_OK \<and> created_here then STP_stpm_delete k w else w)
                      in Some (rc, w))"

subsection \<open>Checking a configuration\<close>

definition check_stpm_config :: "uid_stp_cfg_t \<Rightarrow> rstp_errors_t" where
  "check_stpm_config cfg =
     (if bridge_priority cfg < MIN_BR_PRIO then STP_Small_Bridge_Priority
      else if bridge_priority cfg > MAX_BR_PRIO then STP_Large_Bridge_Priority
      else if cfg_hello_time cfg < MIN_BR_HELLOT then STP_Small_Hello_Time
      else if cfg_hello_time cfg > MAX_BR_HELLOT then STP_Large_Hello_Time
      else if cfg_max_age cfg < MIN_BR_MAXAGE then STP_Small_Max_Age
      else if cfg_max_age cfg > MAX_BR_MAXAGE then STP_Large_Max_Age
      else if cfg_forward_delay cfg < MIN_BR_FWDELAY then STP_Small_Forward_Delay
      else if cfg_forward_delay cfg > MAX_BR_FWDELAY then STP_Large_Forward_Delay
      else if 2 * (cfg_forward_delay cfg - 1) < cfg_max_age cfg
      then STP_Forward_Delay_And_Max_Age_Are_Inconsistent
      else if cfg_max_age cfg < 2 * (cfg_hello_time cfg + 1)
      then STP_Hello_Time_And_Max_Age_Are_Inconsistent
      else STP_OK)"

definition STP_IN_init :: "int \<Rightarrow> glob \<Rightarrow> glob" where
  "STP_IN_init max_port_index g = g\<lparr> max_port := max_port_index \<rparr>"

subsection \<open>Queries\<close>

definition differs :: "bool \<Rightarrow> u32 \<Rightarrow> u32" where
  "differs c m = (if c then m else 0)"

definition STP_IN_stpm_get_cfg :: "int \<Rightarrow> iworld \<Rightarrow> uid_stp_cfg_t \<Rightarrow> rstp_errors_t \<times> uid_stp_cfg_t" where
  "STP_IN_stpm_get_cfg vid w cfg =
     (let cfg = cfg\<lparr> field_mask := 0 \<rparr>
      in case stpapi_stpm_find vid (snd w) of
           None \<Rightarrow> (STP_Vlan_Had_Not_Yet_Been_Created, cfg)
         | Some k \<Rightarrow>
             let this = snd w ! k;
                 mask = or (differs (admin_state this \<noteq> STP_DISABLED) BR_CFG_STATE)
                   (or (differs (ForceVersion this \<noteq> 2) BR_CFG_FORCE_VER)
                   (or (differs (uint (prio (BrId this)) \<noteq> DEF_BR_PRIO) BR_CFG_PRIO)
                   (or (differs (uint (MaxAge (BrTimes this)) \<noteq> DEF_BR_MAXAGE) BR_CFG_AGE)
                   (or (differs (uint (HelloTime (BrTimes this)) \<noteq> DEF_BR_HELLOT) BR_CFG_HELLO)
                       (differs (uint (ForwardDelay (BrTimes this)) \<noteq> DEF_BR_FWDELAY) BR_CFG_DELAY)))))
             in (STP_OK, cfg\<lparr> field_mask := mask, stp_enabled := admin_state this,
                   force_version := ForceVersion this, bridge_priority := uint (prio (BrId this)),
                   cfg_max_age := uint (MaxAge (BrTimes this)),
                   cfg_hello_time := uint (HelloTime (BrTimes this)),
                   cfg_forward_delay := uint (ForwardDelay (BrTimes this)),
                   hold_time := uint TxHoldCount \<rparr>))"

definition STP_IN_port_get_cfg ::
    "int \<Rightarrow> int \<Rightarrow> iworld \<Rightarrow> uid_stp_port_cfg_t \<Rightarrow> rstp_errors_t \<times> uid_stp_port_cfg_t" where
  "STP_IN_port_get_cfg vid pindex w cfg =
     (case stpapi_stpm_find vid (snd w) of
        None \<Rightarrow> (STP_Vlan_Had_Not_Yet_Been_Created, cfg)
      | Some k \<Rightarrow>
          (case stpapi_port_find (snd w ! k) pindex of
             None \<Rightarrow> (STP_Port_Is_Absent_In_The_Vlan, cfg)
           | Some i \<Rightarrow>
               let port = ports (snd w ! k) ! i;
                   priority = uint (drop_bit 8 (port_id port));
                   edge = (if adminEdge port then 1 else 0)
               in (STP_OK, cfg\<lparr> port_priority := priority, admin_port_path_cost := adminPCost port,
                     admin_point2point := adminPointToPointMac port, admin_edge := edge,
                     pt_field_mask := or (differs (priority \<noteq> DEF_PORT_PRIO) PT_CFG_PRIO)
                       (or (differs (adminPCost port \<noteq> ADMIN_PORT_PATH_COST_AUTO) PT_CFG_COST)
                       (or (differs (adminPointToPointMac port \<noteq> P2P_AUTO) PT_CFG_P2P)
                           (differs (edge \<noteq> 1) PT_CFG_EDGE))) \<rparr>)))"

record uid_stp_port_state_t =
  port_no :: int
  st_port_id :: port_id_t
  st_state :: rstp_port_state
  path_cost :: u32
  designated_root :: bridge_id
  designated_cost :: u32
  designated_bridge :: bridge_id
  designated_port :: port_id_t
  st_rx_cfg_bpdu_cnt :: u32
  st_rx_rstp_bpdu_cnt :: u32
  st_rx_tcn_bpdu_cnt :: u32
  st_fdWhile :: int
  st_helloWhen :: int
  st_mdelayWhile :: int
  st_rbWhile :: int
  st_rcvdInfoWhile :: int
  st_rrWhile :: int
  st_tcWhile :: int
  st_txCount :: int
  st_lnkWhile :: int
  st_uptime :: u32
  oper_port_path_cost :: u32
  st_role :: char
  oper_point2point :: bool
  oper_edge :: bool
  oper_stp_neigb :: bool
  top_change_ack :: bool
  st_tc :: bool

primrec role_char :: "port_role_t \<Rightarrow> char" where
  "role_char DisabledPort = CHR '' ''"
| "role_char AlternatePort = CHR ''A''"
| "role_char BackupPort = CHR ''B''"
| "role_char RootPort = CHR ''R''"
| "role_char DesignatedPort = CHR ''D''"
| "role_char NonStpPort = CHR ''-''"

definition shown_state :: "port_t \<Rightarrow> rstp_port_state" where
  "shown_state port =
     (if role port = DisabledPort then UID_PORT_DISABLED
      else if \<not> forward port \<and> \<not> learn port then UID_PORT_DISCARDING
      else if \<not> forward port \<and> learn port then UID_PORT_LEARNING
      else UID_PORT_FORWARDING)"

definition port_state_entry :: "port_t \<Rightarrow> uid_stp_port_state_t \<Rightarrow> uid_stp_port_state_t" where
  "port_state_entry port entry =
     (let outside = (role port = DisabledPort \<or> role port = NonStpPort);
          off = (role port = DisabledPort)
      in entry\<lparr> st_port_id := port_id port, st_state := shown_state port, st_uptime := uptime port,
           path_cost := operPCost port,
           designated_root := (if outside then zero_bridge_id else root_bridge (portPrio port)),
           designated_cost := (if outside then 0 else root_path_cost (portPrio port)),
           designated_bridge := (if outside then zero_bridge_id else design_bridge (portPrio port)),
           designated_port := (if outside then port_id port else design_port (portPrio port)),
           st_role := role_char (role port),
           oper_point2point := (if off then adminPointToPointMac port \<noteq> P2P_FORCE_FALSE else operPointToPointMac port),
           oper_edge := (if off then adminEdge port else operEdge port),
           oper_stp_neigb := (\<not> off \<and> \<not> sendRSTP port),
           oper_port_path_cost := operPCost port,
           st_rx_cfg_bpdu_cnt := rx_cfg_bpdu_cnt port, st_rx_rstp_bpdu_cnt := rx_rstp_bpdu_cnt port,
           st_rx_tcn_bpdu_cnt := rx_tcn_bpdu_cnt port,
           st_fdWhile := sint (fdWhile port), st_helloWhen := sint (helloWhen port),
           st_mdelayWhile := sint (mdelayWhile port), st_rbWhile := sint (rbWhile port),
           st_rcvdInfoWhile := sint (rcvdInfoWhile port), st_rrWhile := sint (rrWhile port),
           st_tcWhile := sint (tcWhile port), st_txCount := sint (txCount port),
           st_lnkWhile := sint (lnkWhile port), top_change_ack := tcAck port, st_tc := tc port \<rparr>)"

definition STP_IN_port_get_state ::
    "int \<Rightarrow> iworld \<Rightarrow> uid_stp_port_state_t \<Rightarrow> rstp_errors_t \<times> uid_stp_port_state_t" where
  "STP_IN_port_get_state vid w entry =
     (case stpapi_stpm_find vid (snd w) of
        None \<Rightarrow> (STP_Vlan_Had_Not_Yet_Been_Created, entry)
      | Some k \<Rightarrow>
          (case stpapi_port_find (snd w ! k) (port_no entry) of
             None \<Rightarrow> (STP_Port_Is_Absent_In_The_Vlan, entry)
           | Some i \<Rightarrow> (STP_OK, port_state_entry (ports (snd w ! k) ! i) entry)))"

record uid_stp_state_t =
  s_vlan_name :: string
  s_vlan_id :: int
  s_stp_enabled :: uid_stp_mode_t
  s_designated_root :: bridge_id
  s_root_path_cost :: u32
  s_timeSince_Topo_Change :: u32
  s_Topo_Change_Count :: u32
  s_Topo_Change :: u8
  s_root_port :: u16
  s_max_age :: int
  s_hello_time :: int
  s_forward_delay :: int
  s_bridge_id :: bridge_id

text \<open>
  \<open>None\<close> is the read through a null name pointer of an instance created without a name. The name
  is copied up to the length of the field, which then may have no terminator.
\<close>

definition STP_IN_stpm_get_state ::
    "int \<Rightarrow> iworld \<Rightarrow> uid_stp_state_t \<Rightarrow> (rstp_errors_t \<times> uid_stp_state_t) option" where
  "STP_IN_stpm_get_state vid w entry =
     (case stpapi_stpm_find vid (snd w) of
        None \<Rightarrow> Some (STP_Vlan_Had_Not_Yet_Been_Created, entry)
      | Some k \<Rightarrow>
          let this = snd w ! k
          in case stpm_name this of
               None \<Rightarrow> None
             | Some name \<Rightarrow> Some (STP_OK, \<lparr> s_vlan_name = take NAME_LEN name, s_vlan_id = vlan_id this,
                 s_stp_enabled = admin_state this,
                 s_designated_root = root_bridge (rootPrio this), s_root_path_cost = root_path_cost (rootPrio this),
                 s_timeSince_Topo_Change = timeSince_Topo_Change this,
                 s_Topo_Change_Count = Topo_Change_Count this, s_Topo_Change = Topo_Change this,
                 s_root_port = rootPortId this,
                 s_max_age = uint (MaxAge (rootTimes this)), s_hello_time = uint (HelloTime (rootTimes this)),
                 s_forward_delay = uint (ForwardDelay (rootTimes this)), s_bridge_id = BrId this \<rparr>))"

definition STP_IN_stpm_get_name_by_vlan_id :: "int \<Rightarrow> nat \<Rightarrow> iworld \<Rightarrow> string \<Rightarrow> int \<times> string" where
  "STP_IN_stpm_get_name_by_vlan_id vid buffsize w name =
     (case find (\<lambda>stpm. vid = vlan_id stpm) (snd w) of
        None \<Rightarrow> (- 1, name)
      | Some stpm \<Rightarrow> (0, case stpm_name stpm of Some s \<Rightarrow> take buffsize s | None \<Rightarrow> []))"

subsection \<open>Events\<close>

definition on_enabled_port :: "int \<Rightarrow> (port_t \<Rightarrow> port_t) \<Rightarrow> stpm_t \<Rightarrow> stpm_t" where
  "on_enabled_port pindex f stpm =
     (if admin_state stpm \<noteq> STP_ENABLED then stpm
      else case stpapi_port_find stpm pindex of
             None \<Rightarrow> stpm
           | Some i \<Rightarrow> stpm\<lparr> ports := upd_at i f (ports stpm) \<rparr>)"

definition STP_IN_changed_port_speed :: "int \<Rightarrow> u32 \<Rightarrow> iworld \<Rightarrow> iworld" where
  "STP_IN_changed_port_speed pindex speed w =
     (INCR100 ((fst w)\<lparr> tev := RSTP_PORT_SPEED_T \<rparr>),
      map (on_enabled_port pindex (\<lambda>port. port\<lparr> operSpeed := speed, reselect := True, selected := False \<rparr>)) (snd w))"

definition STP_IN_changed_port_duplex :: "int \<Rightarrow> iworld \<Rightarrow> iworld" where
  "STP_IN_changed_port_duplex pindex w =
     (INCR100 ((fst w)\<lparr> tev := RSTP_PORT_DPLEX_T \<rparr>),
      map (on_enabled_port pindex (\<lambda>port. port\<lparr> p2p_recompute := True, reselect := True, selected := False \<rparr>)) (snd w))"

definition STP_IN_check_bpdu_header :: "stp_bpdu_t \<Rightarrow> nat \<Rightarrow> rstp_errors_t" where
  "STP_IN_check_bpdu_header bpdu len =
     (let len8 = ntohs (load16 (len8023 (eth bpdu)))
      in if len8 > 1500 then STP_Big_len8023_Format
         else if len8 < MIN_BPDU then STP_Small_len8023_Format
         else if uint len8 + 14 > uint (word_of_nat len :: u16) then STP_len8023_Format_Gt_Len
         else if dsap (eth bpdu) \<noteq> BPDU_L_SAP \<or> ssap (eth bpdu) \<noteq> BPDU_L_SAP \<or> llc (eth bpdu) \<noteq> LLC_UI
         then STP_Not_Proper_802_3_Packet
         else if protocol (hdr bpdu) \<noteq> 0 then STP_Invalid_Protocol
         else STP_OK)"

text \<open>What \<^verbatim>\<open>STP_IN_rx_bpdu\<close> does to the port before the machines run.\<close>

definition rx_on_port :: "env \<Rightarrow> glob \<Rightarrow> stp_bpdu_t \<Rightarrow> nat \<Rightarrow> stpm_t \<Rightarrow> stpm_t" where
  "rx_on_port e g bpdu i this =
     (let this = this\<lparr> ports := upd_at i (\<lambda>port. if operEdge port \<and> lnkWhile port = 0 \<and> portEnabled port
                                                   then port\<lparr> tc := True \<rparr> else port) (ports this) \<rparr>;
          this = (if \<not> portEnabled (ports this ! i)
                  then stp_in_enable_port_on_stpm e g (port_index (ports this ! i)) True this else this)
      in this\<lparr> ports := upd_at i (\<lambda>port. snd (STP_port_rx_bpdu this bpdu
                 (port\<lparr> operEdge := False, wasInitBpdu := True \<rparr>))) (ports this) \<rparr>)"

definition STP_IN_rx_bpdu ::
    "env \<Rightarrow> int \<Rightarrow> int \<Rightarrow> stp_bpdu_t \<Rightarrow> iworld \<Rightarrow> (rstp_errors_t \<times> iworld) option" where
  "STP_IN_rx_bpdu e vid pindex bpdu w =
     (let w = (INCR100 ((fst w)\<lparr> tev := RSTP_PORT_RX_T \<rparr>), snd w)
      in case stpapi_stpm_find vid (snd w) of
           None \<Rightarrow> Some (STP_Vlan_Had_Not_Yet_Been_Created, w)
         | Some k \<Rightarrow>
             if admin_state (snd w ! k) = STP_DISABLED
             then Some (STP_Had_Not_Yet_Been_Enabled_On_The_Vlan, w)
             else case stpapi_port_find (snd w ! k) pindex of
                    None \<Rightarrow> Some (STP_Port_Is_Absent_In_The_Vlan, w)
                  | Some i \<Rightarrow>
                      if skip_rx (ports (snd w ! k) ! i) > 0
                      then Some (STP_Nothing_To_Do, (fst w, upd_at k (\<lambda>b. b\<lparr> ports := upd_at i
                             (\<lambda>port. port\<lparr> skip_rx := skip_rx port - 1 \<rparr>) (ports b) \<rparr>) (snd w)))
                      else case update_at e k (fst w, upd_at k (rx_on_port e (fst w) bpdu i) (snd w)) of
                             None \<Rightarrow> None
                           | Some w \<Rightarrow> Some (STP_OK, w))"

text \<open>The loop protection of the physical ports, once a second.\<close>

definition loop_second :: "env \<Rightarrow> nat \<Rightarrow> glob \<Rightarrow> glob" where
  "loop_second e i g =
     (let g = g\<lparr> abPortLoop := (abPortLoop g)[i := 0] \<rparr>;
          odmPhyStatus = odmPhyAdminStateGet e (hal_calls g) (int i + 1);
          odmPortStatus = odmPortAdminGet e (hal_calls g) (int i + 1)
      in if odmPhyStatus = 0 \<and> bOnePortLoopDetectEn g ! i = 1
         then let g = (if bOnePortLooptimer g ! i > 0
                       then g\<lparr> bOnePortLooptimer := (bOnePortLooptimer g)[i := bOnePortLooptimer g ! i - 1] \<rparr> else g)
              in if bOnePortLooptimer g ! i = 0
                 then (halAppApiCallSync (OdmPhyAdminStateSet (int i + 1) odmPortStatus) g)
                        \<lparr> rstpwarningstate := (rstpwarningstate g)[i := 0] \<rparr>
                 else g
         else if odmPhyStatus = 0 \<and> bOnePortLoopDetectEn g ! i = 0 \<and> odmPortStatus \<noteq> odmPhyStatus
         then halAppApiCallSync (OdmPhyAdminStateSet (int i + 1) odmPortStatus) g
         else g)"

fun second_list :: "env \<Rightarrow> nat list \<Rightarrow> int \<Rightarrow> iworld \<Rightarrow> (int \<times> iworld) option" where
  "second_list e [] dbg_cnt w = Some (dbg_cnt, w)"
| "second_list e (k # ks) dbg_cnt w =
     (if admin_state (snd w ! k) = STP_ENABLED
      then case STP_stpm_one_second e k w of
             None \<Rightarrow> None
           | Some w \<Rightarrow> second_list e ks (dbg_cnt + 1) (fold (loop_second e) [0..<NUMBER_OF_PORTS] (fst w), snd w)
      else second_list e ks dbg_cnt w)"

definition STP_IN_one_second :: "env \<Rightarrow> iworld \<Rightarrow> (int \<times> iworld) option" where
  "STP_IN_one_second e w =
     second_list e [0..<length (snd w)] 0 (INCR100 ((fst w)\<lparr> tev := RSTP_PORT_TIME_T \<rparr>), snd w)"

subsection \<open>Management\<close>

definition merge_cfg :: "uid_stp_cfg_t \<Rightarrow> uid_stp_cfg_t \<Rightarrow> uid_stp_cfg_t" where
  "merge_cfg new old =
     (let m = field_mask new;
          old = (if masked BR_CFG_PRIO m then old\<lparr> bridge_priority := bridge_priority new \<rparr> else old);
          old = (if masked BR_CFG_AGE m then old\<lparr> cfg_max_age := cfg_max_age new \<rparr> else old);
          old = (if masked BR_CFG_HELLO m then old\<lparr> cfg_hello_time := cfg_hello_time new \<rparr> else old);
          old = (if masked BR_CFG_DELAY m then old\<lparr> cfg_forward_delay := cfg_forward_delay new \<rparr> else old)
      in if masked BR_CFG_FORCE_VER m then old\<lparr> force_version := force_version new \<rparr> else old)"

text \<open>\<^verbatim>\<open>! BR_CFG_STATE\<close> is the logical negation of a constant that is not 0: the mask becomes 0.\<close>

definition lnot :: "u32 \<Rightarrow> u32" where
  "lnot x = (if x = 0 then 1 else 0)"

definition apply_cfg :: "uid_stp_cfg_t \<Rightarrow> stpm_t \<Rightarrow> stpm_t" where
  "apply_cfg old this =
     this\<lparr> BrTimes := (BrTimes this)\<lparr> MaxAge := word_of_int (cfg_max_age old),
             HelloTime := word_of_int (cfg_hello_time old),
             ForwardDelay := word_of_int (cfg_forward_delay old) \<rparr>,
           ForceVersion := force_version old \<rparr>"

definition set_prio :: "u16 \<Rightarrow> stpm_t \<Rightarrow> stpm_t" where
  "set_prio x this = this\<lparr> BrId := (BrId this)\<lparr> prio := x \<rparr> \<rparr>"

text \<open>
  The part of \<^verbatim>\<open>STP_IN_stpm_set_cfg\<close> after the request to disable is dealt with; \<open>created_here\<close> is
  never set, so a failing enable deletes nothing.
\<close>

definition set_cfg_rest ::
    "env \<Rightarrow> int \<Rightarrow> u32 option \<Rightarrow> uid_stp_cfg_t \<Rightarrow> uid_stp_cfg_t \<Rightarrow> iworld \<Rightarrow> (rstp_errors_t \<times> iworld) option" where
  "set_cfg_rest e vid port_bmp cfg old w =
     (let (this, err, w) =
            (case stpapi_stpm_find vid (snd w) of
               Some k \<Rightarrow> (Some k, STP_OK, w)
             | None \<Rightarrow> stp_in_stpm_create e vid (Some (cfg_vlan_name cfg)) port_bmp w)
      in case this of
           None \<Rightarrow> Some (err, w)
         | Some k \<Rightarrow>
             let prev_prio = prio (BrId (snd w ! k));
                 w = (fst w, upd_at k (set_prio (word_of_int (bridge_priority old))) (snd w))
             in if admin_state (snd w ! k) = STP_ENABLED
                   \<and> STP_stpm_check_bridge_priority k (snd w) \<noteq> STP_OK
                then Some (STP_Invalid_Bridge_Priority, (fst w, upd_at k (set_prio prev_prio) (snd w)))
                else
                  let w = (fst w, upd_at k (apply_cfg old) (snd w))
                  in if masked BR_CFG_STATE (field_mask cfg) \<and> stp_enabled cfg \<noteq> STP_DISABLED
                        \<and> admin_state (snd w ! k) = STP_DISABLED
                     then stp_in_stpm_enable e vid (Some (cfg_vlan_name cfg)) port_bmp (stp_enabled cfg) w
                     else if admin_state (snd w ! k) \<noteq> STP_DISABLED
                     then Some (STP_OK, (fst w, upd_at k STP_stpm_update_after_bridge_management (snd w)))
                     else Some (STP_OK, w))"

definition STP_IN_stpm_set_cfg ::
    "env \<Rightarrow> uid_stp_cfg_t \<Rightarrow> int \<Rightarrow> u32 option \<Rightarrow> uid_stp_cfg_t \<Rightarrow> iworld
       \<Rightarrow> (rstp_errors_t \<times> uid_stp_cfg_t \<times> iworld) option" where
  "STP_IN_stpm_set_cfg e garbage vid port_bmp cfg w =
     (let (rc, old) = STP_IN_stpm_get_cfg vid w garbage;
          old = (if rc \<noteq> STP_OK then STP_OUT_get_init_stpm_cfg old else old);
          w = (INCR100 ((fst w)\<lparr> tev := RSTP_PORT_MNGR_T \<rparr>), snd w);
          old = merge_cfg cfg old;
          rc = check_stpm_config old
      in if rc \<noteq> STP_OK then Some (rc, cfg, w)
         else if masked BR_CFG_STATE (field_mask cfg) \<and> stp_enabled cfg = STP_DISABLED
         then case stp_in_stpm_enable e vid (Some (cfg_vlan_name cfg)) port_bmp STP_DISABLED w of
                None \<Rightarrow> None
              | Some (rc, w) \<Rightarrow>
                  if rc \<noteq> STP_OK then Some (rc, cfg, w)
                  else
                    let cfg = cfg\<lparr> field_mask := and (field_mask cfg) (lnot BR_CFG_STATE) \<rparr>
                    in if field_mask cfg = 0 then Some (STP_OK, cfg, w)
                       else map_option (\<lambda>(rc, w). (rc, cfg, w)) (set_cfg_rest e vid port_bmp cfg old w)
         else map_option (\<lambda>(rc, w). (rc, cfg, w)) (set_cfg_rest e vid port_bmp cfg old w))"

definition set_port :: "uid_stp_port_cfg_t \<Rightarrow> stpm_t \<Rightarrow> int \<Rightarrow> port_t \<Rightarrow> port_t" where
  "set_port cfg this pno port =
     (let m = pt_field_mask cfg;
          port = (if masked PT_CFG_MCHECK m \<and> ForceVersion this \<ge> NORMAL_RSTP then port\<lparr> mcheck := True \<rparr> else port);
          port = (if masked PT_CFG_COST m then port\<lparr> adminPCost := admin_port_path_cost cfg \<rparr> else port);
          port = (if masked PT_CFG_PRIO m then port\<lparr> port_id := port_id_of (port_priority cfg) pno \<rparr> else port);
          port = (if masked PT_CFG_P2P m
                  then port\<lparr> adminPointToPointMac := admin_point2point cfg, p2p_recompute := True \<rparr> else port);
          port = (if masked PT_CFG_EDGE m
                  then port\<lparr> adminEdge := (admin_edge cfg \<noteq> 0), operEdge := (admin_edge cfg \<noteq> 0) \<rparr> else port);
          port = (if masked PT_CFG_NON_STP m then port\<lparr> admin_non_stp := (pt_admin_non_stp cfg \<noteq> 0) \<rparr> else port);
          port = (if masked PT_CFG_DBG_SKIP_RX m then port\<lparr> skip_rx := pt_skip_rx cfg \<rparr> else port);
          port = (if masked PT_CFG_DBG_SKIP_TX m then port\<lparr> skip_tx := pt_skip_tx cfg \<rparr> else port)
      in port\<lparr> reselect := True, selected := False \<rparr>)"

text \<open>The loops over the port numbers of a bitmap that name a port of the instance.\<close>

definition on_bitmap_ports ::
    "u32 \<Rightarrow> int \<Rightarrow> (int \<Rightarrow> port_t \<Rightarrow> port_t) \<Rightarrow> stpm_t \<Rightarrow> stpm_t" where
  "on_bitmap_ports bmp last_port f this =
     fold (\<lambda>pno this. if \<not> BitmapGetBit bmp (nat (pno - 1)) then this
             else case stpapi_port_find this pno of
                    None \<Rightarrow> this
                  | Some i \<Rightarrow> this\<lparr> ports := upd_at i (f pno) (ports this) \<rparr>) [1..last_port] this"

definition STP_IN_set_port_cfg ::
    "env \<Rightarrow> int \<Rightarrow> uid_stp_port_cfg_t \<Rightarrow> iworld \<Rightarrow> (rstp_errors_t \<times> iworld) option" where
  "STP_IN_set_port_cfg e vid cfg w =
     (let w = (INCR100 ((fst w)\<lparr> tev := RSTP_PORT_MNGR_T \<rparr>), snd w)
      in case stpapi_stpm_find vid (snd w) of
           None \<Rightarrow> Some (STP_Vlan_Had_Not_Yet_Been_Created, w)
         | Some k \<Rightarrow>
             let w = (fst w, upd_at k (\<lambda>this. on_bitmap_ports (pt_port_bmp cfg) (max_port (fst w))
                        (set_port cfg this) this) (snd w))
             in case update_at e k w of
                  None \<Rightarrow> None
                | Some w \<Rightarrow> Some (STP_OK, w))"

definition STP_IN_dbg_set_port_trace ::
    "string \<Rightarrow> u8 \<Rightarrow> int \<Rightarrow> u32 \<Rightarrow> iworld \<Rightarrow> rstp_errors_t \<times> iworld" where
  "STP_IN_dbg_set_port_trace mname enadis vid bmp w =
     (case stpapi_stpm_find vid (snd w) of
        None \<Rightarrow> (STP_Vlan_Had_Not_Yet_Been_Created, w)
      | Some k \<Rightarrow> (STP_OK, (fst w, upd_at k (\<lambda>this. on_bitmap_ports bmp (max_port (fst w))
           (\<lambda>_. STP_port_trace_state_machine mname enadis) this) (snd w))))"

definition rstp_error_names :: "string list" where
  "rstp_error_names =
     [''STP_OK'', ''STP_Cannot_Find_Vlan'', ''STP_Imlicite_Instance_Create_Failed'',
      ''STP_Small_Bridge_Priority'', ''STP_Large_Bridge_Priority'', ''STP_Small_Hello_Time'',
      ''STP_Large_Hello_Time'', ''STP_Small_Max_Age'', ''STP_Large_Max_Age'',
      ''STP_Small_Forward_Delay'', ''STP_Large_Forward_Delay'',
      ''STP_Forward_Delay_And_Max_Age_Are_Inconsistent'', ''STP_Hello_Time_And_Max_Age_Are_Inconsistent'',
      ''STP_Vlan_Had_Not_Yet_Been_Created'', ''STP_Port_Is_Absent_In_The_Vlan'',
      ''STP_Big_len8023_Format'', ''STP_Small_len8023_Format'', ''STP_len8023_Format_Gt_Len'',
      ''STP_Not_Proper_802_3_Packet'', ''STP_Invalid_Protocol'', ''STP_Invalid_Version'',
      ''STP_Had_Not_Yet_Been_Enabled_On_The_Vlan'', ''STP_Cannot_Create_Instance_For_Vlan'',
      ''STP_Cannot_Create_Instance_For_Port'', ''STP_Invalid_Bridge_Priority'',
      ''STP_There_Are_No_Ports'', ''STP_Cannot_Compute_Bridge_Prio'', ''STP_Another_Error'',
      ''STP_Nothing_To_Do'', ''STP_LAST_DUMMY'']"

definition STP_IN_get_error_explanation :: "int \<Rightarrow> string" where
  "STP_IN_get_error_explanation rstp_err_no =
     (if rstp_err_no < err_code STP_OK then ''Too small error code :(''
      else if rstp_err_no \<ge> err_code STP_LAST_DUMMY then ''Too big error code :(''
      else rstp_error_names ! nat rstp_err_no)"

end
