(* ===== verification/Rstp_Mgmt.thy ===== *)
theory Rstp_Mgmt
  imports Rstp_In
begin

text \<open>
  The management calls on whole instances (\<^verbatim>\<open>rstp/src/rstp_mgmt.c\<close>). \<^verbatim>\<open>STP_IN_delete_all\<close> steps to the
  next instance through the one it has just freed, which has no defined meaning: it is not
  modelled.
\<close>

definition STP_IN_stpm_create ::
    "env \<Rightarrow> uid_stp_cfg_t \<Rightarrow> int \<Rightarrow> string option \<Rightarrow> u32 option \<Rightarrow> iworld \<Rightarrow> rstp_errors_t \<times> iworld" where
  "STP_IN_stpm_create e garbage vid name port_bmp w =
     (let init_cfg = STP_OUT_get_init_stpm_cfg garbage;
          (this, err, w) = stp_in_stpm_create e vid name port_bmp w
      in case this of
           None \<Rightarrow> (err, w)
         | Some k \<Rightarrow> (err, (fst w, upd_at k (\<lambda>this. apply_cfg init_cfg
             (set_prio (word_of_int (bridge_priority init_cfg)) this)) (snd w))))"

definition STP_IN_stpm_delete :: "env \<Rightarrow> int \<Rightarrow> iworld \<Rightarrow> (rstp_errors_t \<times> iworld) option" where
  "STP_IN_stpm_delete e vid w =
     (case stpapi_stpm_find vid (snd w) of
        None \<Rightarrow> Some (STP_Vlan_Had_Not_Yet_Been_Created, w)
      | Some k \<Rightarrow>
          if admin_state (snd w ! k) = STP_ENABLED
          then case STP_stpm_enable e k STP_DISABLED w of
                 None \<Rightarrow> None
               | Some (rc, w) \<Rightarrow>
                   if rc \<noteq> STP_OK then Some (STP_Another_Error, w)
                   else Some (STP_OK, STP_stpm_delete k (STP_OUT_set_hardware_mode vid STP_DISABLED (fst w), snd w))
          else Some (STP_OK, STP_stpm_delete k w))"

definition STP_IN_stpm_get_vlan_id_by_name :: "string \<Rightarrow> iworld \<Rightarrow> int \<Rightarrow> rstp_errors_t \<times> int" where
  "STP_IN_stpm_get_vlan_id_by_name name w vid =
     (case find (\<lambda>stpm. stpm_name stpm = Some name) (snd w) of
        None \<Rightarrow> (STP_Cannot_Find_Vlan, vid)
      | Some stpm \<Rightarrow> (STP_OK, vlan_id stpm))"

definition STP_IN_get_is_stpm_enabled :: "int \<Rightarrow> iworld \<Rightarrow> bool" where
  "STP_IN_get_is_stpm_enabled vid w =
     (case stpapi_stpm_find vid (snd w) of
        None \<Rightarrow> False
      | Some k \<Rightarrow> admin_state (snd w ! k) = STP_ENABLED)"

definition STP_IN_stop_all :: "iworld \<Rightarrow> rstp_errors_t \<times> iworld" where
  "STP_IN_stop_all w = (STP_OK, stop_list w)"

end
