(* ===== verification/Rstp_Engine.thy ===== *)
theory Rstp_Engine
  imports Rstp_Passes Rstp_Mgmt
begin

text \<open>
  The engine of one instance as a step relation: the passes of the update loop and, between two
  updates, the events. The invariant \<open>bridge_ok\<close> holds in every state it can reach.
\<close>

subsection \<open>What the events do to a port\<close>

lemma bridge_ok_upd:
  assumes "bridge_ok n (g, b)" "keeps f" "hw_state (hal_calls g') = hw_state (hal_calls g)"
  shows "bridge_ok n (g', b\<lparr> ports := upd_at i f (ports b) \<rparr>)"
  by (rule bridge_ok_all [OF assms(1) _ _ _ assms(3)])
     (use assms bridge_okD_data [OF assms(1)] bridge_okD(2) [OF assms(1)]
      in \<open>simp_all add: keeps_def data_ok_ports nth_upd_at\<close>)

lemma quiet_upd:
  assumes "quiet n (g, b)" "bridge_ok n (g, b)" "keeps f"
  shows "quiet n (g', b\<lparr> ports := upd_at i f (ports b) \<rparr>)"
  using assms bridge_okD_data(2) [OF assms(2)] bridge_okD(2) [OF assms(2)]
  by (simp add: quiet_def keeps_def nth_upd_at view_st_def)

lemma keeps_id: "keeps (\<lambda>p. p)"
  by (simp add: keeps_def)

lemma keeps_if: "keeps f \<Longrightarrow> keeps (\<lambda>p. if c p then f p else p)"
  by (simp add: keeps_def)

lemma keeps_tx:
  assumes "\<And>p. but_tx (f p) = but_tx p" "\<And>p. transmit_inv p \<Longrightarrow> transmit_inv (f p)"
  shows "keeps f"
proof (rule keepsI)
  fix p assume ok: "port_ok p"
  then show "port_ok (f p) \<and> view_st (f p) = view_st p \<and> view_fix (f p) = view_fix p"
    using port_ok_tx [OF assms(1) ok] assms(2) assms(1) [of p] by (simp add: but_tx_def port_ok_def)
qed

lemma dec_timer_le: "dec_timer x \<le> x"
  by (simp add: dec_timer_def word_gt_0 word_le_nat_alt unat_minus_one)

lemma keeps_second: "keeps (\<lambda>p. (dec_timers p)\<lparr> uptime := uptime p + 1 \<rparr>)"
proof (rule keeps_tx)
  fix p
  show "but_tx ((dec_timers p)\<lparr> uptime := uptime p + 1 \<rparr>) = but_tx p" by (simp add: dec_timers_def but_tx_def views)
  have "txCount p \<le> k \<Longrightarrow> dec_timer (txCount p) \<le> k" "txCount p < k \<Longrightarrow> dec_timer (txCount p) < k" for k
    using dec_timer_le [of "txCount p"] by auto
  then show "transmit_inv p \<Longrightarrow> transmit_inv ((dec_timers p)\<lparr> uptime := uptime p + 1 \<rparr>)"
    by (simp add: transmit_inv_def dec_timers_def)
qed

lemma keeps_init: "keeps (STP_port_init e g b False)"
proof -
  have tx: "keeps (\<lambda>p. p\<lparr> edgeDelayWhile := 0, fdWhile := 0, helloWhen := 0, mdelayWhile := 0, rbWhile := 0,
                       rcvdInfoWhile := 0, rrWhile := 0, tcWhile := 0, txCount := 0 \<rparr>)"
    by (rule keeps_tx) (simp_all add: but_tx_def views transmit_inv_def TxHoldCount_def)
  have rest: "keeps (\<lambda>p. p\<lparr> msgPortRole := RSTP_PORT_ROLE_UNKN, sendRSTP := (ForceVersion b \<ge> 2),
       operSpeed := STP_OUT_get_port_oper_speed (port_index p), p2p_recompute := True \<rparr>)"
    by (rule keeps_views) (simp add: all_views_def views)
  have "STP_port_init e g b False = (\<lambda>p.
      (\<lambda>p. p\<lparr> msgPortRole := RSTP_PORT_ROLE_UNKN, sendRSTP := (ForceVersion b \<ge> 2),
         operSpeed := STP_OUT_get_port_oper_speed (port_index p), p2p_recompute := True \<rparr>)
      ((\<lambda>p. p\<lparr> selectedRole := DisabledPort \<rparr>)
       ((\<lambda>p. p\<lparr> edgeDelayWhile := 0, fdWhile := 0, helloWhen := 0, mdelayWhile := 0, rbWhile := 0,
            rcvdInfoWhile := 0, rrWhile := 0, tcWhile := 0, txCount := 0 \<rparr>) p)))"
    by (simp add: STP_port_init_def fun_eq_iff Let_def)
  then show ?thesis using keeps_comp [OF rest keeps_comp [OF keeps_disable tx]] by simp
qed

lemma keeps_enable: "keeps (stp_in_enable_port e g b en)"
proof -
  have a: "keeps (\<lambda>p. p\<lparr> portEnabled := en \<rparr>)" by (rule keeps_views) (simp add: all_views_def views)
  have c: "keeps (\<lambda>p. (if en then p\<lparr> uptime := 0, rx_tcn_bpdu_cnt := 0, rx_rstp_bpdu_cnt := 0, rx_cfg_bpdu_cnt := 0 \<rparr>
      else p\<lparr> uptime := 0 \<rparr>)\<lparr> adminEnable := en \<rparr>)" by (rule keeps_views) (simp add: all_views_def views)
  have "stp_in_enable_port e g b en = (\<lambda>p. if portEnabled p \<noteq> en then
      (\<lambda>p. (\<lambda>p. p\<lparr> portEnabled := en \<rparr>) (STP_port_init e g b False
        ((\<lambda>p. (if en then p\<lparr> uptime := 0, rx_tcn_bpdu_cnt := 0, rx_rstp_bpdu_cnt := 0, rx_cfg_bpdu_cnt := 0 \<rparr>
           else p\<lparr> uptime := 0 \<rparr>)\<lparr> adminEnable := en \<rparr>) p))) p else p)"
    by (simp add: stp_in_enable_port_def fun_eq_iff Let_def)
  then show ?thesis using keeps_if [OF keeps_comp [OF a keeps_comp [OF keeps_init c]]] by simp
qed

lemma keeps_rx:
  assumes "wf_bpdu bpdu"
  shows "keeps (STP_info_rx_bpdu b bpdu)"
proof (rule keepsI)
  fix p assume ok: "port_ok p"
  have wf: "wf_vector ((STP_VECT_get_vector (body bpdu) v)\<lparr> bridge_port := x \<rparr>)" for v x
    using wf_get_vector [of "body bpdu" v] assms by (simp add: wf_bpdu_def wf_vector_def)
  have "but_info (STP_info_rx_bpdu b bpdu p) = but_info p"
    by (simp add: STP_info_rx_bpdu_def copy_msg_def but_info_def views Let_def)
  moreover have "info_inv (STP_info_rx_bpdu b bpdu p)"
    using ok wf by (simp add: STP_info_rx_bpdu_def copy_msg_def port_ok_def info_inv_def Let_def)
  ultimately show "port_ok (STP_info_rx_bpdu b bpdu p) \<and> view_st (STP_info_rx_bpdu b bpdu p) = view_st p
      \<and> view_fix (STP_info_rx_bpdu b bpdu p) = view_fix p"
    using port_ok_info [OF _ ok] by (simp add: but_info_def)
qed

text \<open>
  A port setting is harmless unless it takes a port out of the protocol, which is safe only while
  the port is in the disabled states.
\<close>

definition sets_non_stp :: "uid_stp_port_cfg_t \<Rightarrow> bool" where
  "sets_non_stp cfg \<longleftrightarrow> masked PT_CFG_NON_STP (pt_field_mask cfg) \<and> pt_admin_non_stp cfg \<noteq> 0"

lemma keeps_set_port:
  assumes "\<not> sets_non_stp cfg"
  shows "keeps (set_port cfg b pno)"
proof -
  have v: "keeps f" if "\<And>p. all_views (f p) = all_views p" for f using that by (rule keeps_views)
  have non: "keeps (\<lambda>p. if masked PT_CFG_NON_STP (pt_field_mask cfg)
      then p\<lparr> admin_non_stp := (pt_admin_non_stp cfg \<noteq> 0) \<rparr> else p)"
  proof (rule keepsI)
    fix p assume ok: "port_ok p"
    let ?p = "if masked PT_CFG_NON_STP (pt_field_mask cfg) then p\<lparr> admin_non_stp := (pt_admin_non_stp cfg \<noteq> 0) \<rparr> else p"
    have "but_role ?p = but_role p" by (simp add: but_role_def views)
    moreover have "wish_inv ?p" "nonstp_inv ?p"
      using ok assms by (auto simp: port_ok_def wish_inv_def nonstp_inv_def sets_non_stp_def)
    ultimately show "port_ok ?p \<and> view_st ?p = view_st p \<and> view_fix ?p = view_fix p"
      using port_ok_role [OF _ ok] by (simp add: but_role_def)
  qed
  define f1 where "f1 p = (let m = pt_field_mask cfg;
          p = (if masked PT_CFG_MCHECK m \<and> ForceVersion b \<ge> NORMAL_RSTP then p\<lparr> mcheck := True \<rparr> else p);
          p = (if masked PT_CFG_COST m then p\<lparr> adminPCost := admin_port_path_cost cfg \<rparr> else p);
          p = (if masked PT_CFG_PRIO m then p\<lparr> port_id := port_id_of (port_priority cfg) pno \<rparr> else p);
          p = (if masked PT_CFG_P2P m
                  then p\<lparr> adminPointToPointMac := admin_point2point cfg, p2p_recompute := True \<rparr> else p)
      in (if masked PT_CFG_EDGE m
                  then p\<lparr> adminEdge := (admin_edge cfg \<noteq> 0), operEdge := (admin_edge cfg \<noteq> 0) \<rparr> else p))" for p :: port_t
  define f3 where "f3 p = (let m = pt_field_mask cfg;
          p = (if masked PT_CFG_DBG_SKIP_RX m then p\<lparr> skip_rx := pt_skip_rx cfg \<rparr> else p);
          p = (if masked PT_CFG_DBG_SKIP_TX m then p\<lparr> skip_tx := pt_skip_tx cfg \<rparr> else p)
      in p\<lparr> reselect := True, selected := False \<rparr>)" for p :: port_t
  have "keeps f1" "keeps f3" by (rule v; simp add: f1_def f3_def all_views_def views Let_def)+
  moreover have "set_port cfg b pno = (\<lambda>p. f3 ((\<lambda>p. if masked PT_CFG_NON_STP (pt_field_mask cfg)
      then p\<lparr> admin_non_stp := (pt_admin_non_stp cfg \<noteq> 0) \<rparr> else p) (f1 p)))"
    by (rule ext) (simp only: f1_def f3_def set_port_def Let_def)
  ultimately show ?thesis using keeps_comp [OF _ keeps_comp [OF non]] by metis
qed

subsection \<open>The steps\<close>

text \<open>
  A state is the bridge with the answer of the last check: \<open>True\<close> when some machine has hopped
  and the machines have to be run. Events are taken between two rounds of the update loop, more
  often than the code takes them, which only adds behaviours.
\<close>

definition tick_port :: "nat \<Rightarrow> stpm_t \<Rightarrow> stpm_t" where
  "tick_port i b = b\<lparr> ports := upd_at i (\<lambda>p. (dec_timers p)\<lparr> uptime := uptime p + 1 \<rparr>) (ports b) \<rparr>"

definition configured :: "uid_stp_cfg_t \<Rightarrow> stpm_t \<Rightarrow> stpm_t" where
  "configured cfg b = apply_cfg cfg (set_prio (word_of_int (bridge_priority cfg)) b)"

inductive engine_step :: "env \<Rightarrow> bool \<times> mworld \<Rightarrow> bool \<times> mworld \<Rightarrow> bool" for e where
  check: "iterate_check e w = (r, w') \<Longrightarrow> engine_step e (False, w) (r, w')"
| change: "iterate_change e w = Some (k, w') \<Longrightarrow> engine_step e (True, w) (False, w')"
| second: "engine_step e (False, (g, b)) (False, (g, tick_port i b))"
| topology: "engine_step e (False, (g, b)) (False, (g, count_topoch b))"
| protection: "engine_step e (False, (g, b)) (False, (loop_second e i g, b))"
| event: "engine_step e (False, (g, b)) (False, (INCR100 (g\<lparr> tev := t \<rparr>), b))"
| link: "STP_IN_enable_port e pindex en (g, [b]) = (g', [b']) \<Longrightarrow>
    engine_step e (False, (g, b)) (False, (g', b'))"
| speed: "STP_IN_changed_port_speed pindex x (g, [b]) = (g', [b']) \<Longrightarrow>
    engine_step e (False, (g, b)) (False, (g', b'))"
| duplex: "STP_IN_changed_port_duplex pindex (g, [b]) = (g', [b']) \<Longrightarrow>
    engine_step e (False, (g, b)) (False, (g', b'))"
| receive: "wf_bpdu bpdu \<Longrightarrow> engine_step e (False, (g, b)) (False, (g, rx_on_port e g bpdu i b))"
| skip: "engine_step e (False, (g, b)) (False, (g, b\<lparr> ports := upd_at i
    (\<lambda>p. p\<lparr> skip_rx := skip_rx p - 1 \<rparr>) (ports b) \<rparr>))"
| configure: "check_stpm_config cfg = STP_OK \<Longrightarrow> engine_step e (False, (g, b)) (False, (g, configured cfg b))"
| reselect: "engine_step e (False, (g, b)) (False, (g, STP_stpm_update_after_bridge_management b))"
| mode: "engine_step e (False, (g, b)) (False, (STP_OUT_set_hardware_mode vid st g, b\<lparr> admin_state := st \<rparr>))"
| set_ports: "\<not> sets_non_stp cfg \<Longrightarrow> engine_step e (False, (g, b))
    (False, (g, on_bitmap_ports (pt_port_bmp cfg) (max_port g) (set_port cfg b) b))"

inductive_cases run_step: "engine_step e (True, w) s"

definition engine_inv :: "nat \<Rightarrow> bool \<times> mworld \<Rightarrow> bool" where
  "engine_inv n s \<longleftrightarrow> bridge_ok n (snd s) \<and> (\<not> fst s \<longrightarrow> quiet n (snd s))"

text \<open>Events leave the hardware state and the state transition fields of every port alone.\<close>

definition calm :: "nat \<Rightarrow> mworld \<Rightarrow> bool" where
  "calm n w \<longleftrightarrow> bridge_ok n w \<and> quiet n w"

lemma calm_upd:
  "calm n (g, b) \<Longrightarrow> keeps f \<Longrightarrow> hw_state (hal_calls g') = hw_state (hal_calls g) \<Longrightarrow>
   calm n (g', b\<lparr> ports := upd_at i f (ports b) \<rparr>)"
  using bridge_ok_upd [of n g b f g' i] quiet_upd [of n g b f g' i] by (simp add: calm_def)

lemma calm_glob:
  "calm n (g, b) \<Longrightarrow> hw_state (hal_calls g') = hw_state (hal_calls g) \<Longrightarrow> calm n (g', b)"
  by (simp add: calm_def quiet_def bridge_ok_def hw_agrees_def)

lemma calm_data:
  assumes "calm n (g, b)" "ports b' = ports b" "bridge_data_ok b'"
  shows "calm n (g, b')"
  using assms by (simp add: calm_def quiet_def bridge_ok_def hw_agrees_def)

lemma calm_map:
  assumes "calm n (g, b)" "keeps f" "ports b' = map f (ports b)" "bridge_data_ok b'"
  shows "calm n (g, b')"
proof -
  have ok: "bridge_ok n (g, b)" using assms(1) by (simp add: calm_def)
  have "quiet n (g, b')"
    using assms(1-3) bridge_okD(1,2) [OF ok] by (simp add: calm_def quiet_def keeps_def view_st_def)
  then show ?thesis using bridge_ok_map [OF ok assms(2,4,3)] by (simp add: calm_def)
qed

lemma calm_find:
  assumes "calm n (g, b)" "keeps f" "hw_state (hal_calls g') = hw_state (hal_calls g)"
  shows "calm n (g', case stpapi_port_find b pindex of None \<Rightarrow> b
    | Some i \<Rightarrow> b\<lparr> ports := upd_at i f (ports b) \<rparr>)"
  using calm_upd [OF assms] calm_glob [OF assms(1,3)] by (simp split: option.split)

lemma calm_enable:
  "calm n (g, b) \<Longrightarrow> calm n (g, stp_in_enable_port_on_stpm e g' pindex en b)"
  unfolding stp_in_enable_port_on_stpm_def by (rule calm_find [OF _ keeps_enable refl])

lemma INCR100_hal [simp]: "hal_calls (INCR100 g) = hal_calls g"
  by (simp add: INCR100_def Let_def)

lemma loop_second_hw: "hw_state (hal_calls (loop_second e i g)) = hw_state (hal_calls g)"
  by (simp add: loop_second_def Let_def)

lemma calm_link:
  assumes "calm n (g, b)" "STP_IN_enable_port e pindex en (g, [b]) = (g', [b'])"
  shows "calm n (g', b')"
proof -
  have "hw_state (hal_calls g') = hw_state (hal_calls g)" "b' = stp_in_enable_port_on_stpm e g' pindex en b"
    using assms(2) by (auto simp: STP_IN_enable_port_def Let_def)
  then show ?thesis using calm_glob [OF calm_enable [OF assms(1)]] by simp
qed

lemma calm_on_enabled:
  assumes "calm n (g, b)" "keeps f" "hw_state (hal_calls g') = hw_state (hal_calls g)"
  shows "calm n (g', on_enabled_port pindex f b)"
  using calm_find [OF assms, of pindex] calm_glob [OF assms(1,3)] by (simp add: on_enabled_port_def)

lemma calm_rx:
  assumes "calm n (g, b)" "wf_bpdu bpdu"
  shows "calm n (g, rx_on_port e g' bpdu i b)"
proof -
  define c where "c = b\<lparr> ports := upd_at i (\<lambda>port. if operEdge port \<and> lnkWhile port = 0 \<and> portEnabled port
    then port\<lparr> tc := True \<rparr> else port) (ports b) \<rparr>"
  define d where "d = (if \<not> portEnabled (ports c ! i)
    then stp_in_enable_port_on_stpm e g' (port_index (ports c ! i)) True c else c)"
  have "keeps (\<lambda>port. if operEdge port \<and> lnkWhile port = 0 \<and> portEnabled port then port\<lparr> tc := True \<rparr> else port)"
    by (rule keeps_views) (simp add: all_views_def views)
  then have "calm n (g, d)" using calm_upd [OF assms(1) _ refl] calm_enable by (simp add: c_def d_def)
  moreover have "keeps (\<lambda>port. port\<lparr> operEdge := False, wasInitBpdu := True \<rparr>)"
    by (rule keeps_views) (simp add: all_views_def views)
  then have "keeps (\<lambda>port. snd (STP_port_rx_bpdu d bpdu (port\<lparr> operEdge := False, wasInitBpdu := True \<rparr>)))"
    using keeps_comp [OF keeps_rx [OF assms(2)]] by (simp add: STP_port_rx_bpdu_def)
  ultimately have "calm n (g, d\<lparr> ports := upd_at i (\<lambda>port. snd (STP_port_rx_bpdu d bpdu
      (port\<lparr> operEdge := False, wasInitBpdu := True \<rparr>))) (ports d) \<rparr>)"
    by (rule calm_upd [OF _ _ refl])
  moreover have "rx_on_port e g' bpdu i b = d\<lparr> ports := upd_at i (\<lambda>port. snd (STP_port_rx_bpdu d bpdu
      (port\<lparr> operEdge := False, wasInitBpdu := True \<rparr>))) (ports d) \<rparr>"
    unfolding rx_on_port_def c_def [symmetric] Let_def d_def [symmetric] ..
  ultimately show ?thesis by simp
qed

lemma check_config_hello:
  assumes "check_stpm_config cfg = STP_OK"
  shows "word_of_int (cfg_hello_time cfg) \<noteq> (0 :: u16)"
proof -
  have "1 \<le> cfg_hello_time cfg" "cfg_hello_time cfg \<le> 10"
    using assms by (simp_all add: check_stpm_config_def cfg_limits split: if_splits)
  then have "uint (word_of_int (cfg_hello_time cfg) :: u16) = cfg_hello_time cfg"
    by (simp add: uint_word_of_int)
  then show ?thesis using \<open>1 \<le> cfg_hello_time cfg\<close> by (metis uint_0_iff zero_neq_one order_antisym zero_le_one)
qed

lemma calm_config:
  assumes "calm n (g, b)" "check_stpm_config cfg = STP_OK"
  shows "calm n (g, configured cfg b)"
proof (rule calm_data [OF assms(1)])
  show "ports (configured cfg b) = ports b"
    by (simp add: configured_def apply_cfg_def set_prio_def)
  show "bridge_data_ok (configured cfg b)"
    using assms check_config_hello [OF assms(2)]
    by (simp add: configured_def apply_cfg_def set_prio_def calm_def bridge_ok_def bridge_data_ok_def wf_bridge_id_def)
qed

lemma calm_reselect:
  assumes "calm n (g, b)"
  shows "calm n (g, STP_stpm_update_after_bridge_management b)"
proof (rule calm_map [OF assms])
  show "keeps (\<lambda>port. port\<lparr> reselect := True, selected := False \<rparr>)"
    by (rule keeps_views) (simp add: all_views_def views)
qed (use assms in \<open>simp_all add: STP_stpm_update_after_bridge_management_def calm_def bridge_ok_def data_ok_ports\<close>)

lemma calm_mode:
  assumes "calm n (g, b)"
  shows "calm n (STP_OUT_set_hardware_mode vid st g, b\<lparr> admin_state := st \<rparr>)"
proof -
  have "calm n (g, b\<lparr> admin_state := st \<rparr>)"
    by (rule calm_data [OF assms]) (use assms in \<open>simp_all add: calm_def bridge_ok_def bridge_data_ok_def\<close>)
  then show ?thesis by (rule calm_glob) (simp add: STP_OUT_set_hardware_mode_def)
qed

lemma calm_bitmap:
  assumes "calm n (g, b)" "\<And>pno. keeps (f pno)"
  shows "calm n (g, on_bitmap_ports bmp m f b)"
proof -
  have "calm n (g, fold (\<lambda>pno this. if \<not> BitmapGetBit bmp (nat (pno - 1)) then this
      else case stpapi_port_find this pno of None \<Rightarrow> this
        | Some i \<Rightarrow> this\<lparr> ports := upd_at i (f pno) (ports this) \<rparr>) xs b)" for xs
    using assms(1) by (induction xs arbitrary: b) (simp_all add: calm_find [OF _ assms(2) refl])
  then show ?thesis by (simp add: on_bitmap_ports_def)
qed

text \<open>Every step keeps the invariant.\<close>

lemma engine_inv_calm: "engine_inv n (False, w) = calm n w"
  by (simp add: engine_inv_def calm_def)

lemma engine_step_inv:
  assumes "engine_step e s s'" "engine_inv n s"
  shows "engine_inv n s'"
  using assms
proof (induction rule: engine_step.induct)
  case (check w r w')
  then show ?case using iterate_check_ok [of n w e] by (simp add: engine_inv_def)
next
  case (change w k w')
  then show ?case using iterate_change_ok [of n w e] by (auto simp: engine_inv_def)
next
  case (second g b i)
  then show ?case using calm_upd [OF _ keeps_second refl] by (simp add: engine_inv_calm tick_port_def)
next
  case (topology g b)
  then show ?case using calm_data [of n g b "count_topoch b"]
    by (simp add: engine_inv_calm count_topoch_def Let_def calm_def bridge_ok_def bridge_data_ok_def)
next
  case (protection g b i)
  then show ?case using calm_glob loop_second_hw by (simp add: engine_inv_calm)
next
  case (event g b t)
  then show ?case using calm_glob [of n g b] by (simp add: engine_inv_calm)
next
  case (link pindex en g b g' b')
  then show ?case using calm_link by (simp add: engine_inv_calm)
next
  case (speed pindex x g b g' b')
  have "keeps (\<lambda>port. port\<lparr> operSpeed := x, reselect := True, selected := False \<rparr>)"
    by (rule keeps_views) (simp add: all_views_def views)
  with speed show ?case using calm_on_enabled by (auto simp: engine_inv_calm STP_IN_changed_port_speed_def)
next
  case (duplex pindex g b g' b')
  have "keeps (\<lambda>port. port\<lparr> p2p_recompute := True, reselect := True, selected := False \<rparr>)"
    by (rule keeps_views) (simp add: all_views_def views)
  with duplex show ?case using calm_on_enabled by (auto simp: engine_inv_calm STP_IN_changed_port_duplex_def)
next
  case (receive bpdu g b i)
  then show ?case using calm_rx by (simp add: engine_inv_calm)
next
  case (skip g b i)
  have "keeps (\<lambda>p. p\<lparr> skip_rx := skip_rx p - 1 \<rparr>)" by (rule keeps_views) (simp add: all_views_def views)
  with skip show ?case using calm_upd [OF _ _ refl] by (simp add: engine_inv_calm)
next
  case (configure cfg g b)
  then show ?case using calm_config by (simp add: engine_inv_calm)
next
  case (reselect g b)
  then show ?case using calm_reselect by (simp add: engine_inv_calm)
next
  case (mode g b vid st)
  then show ?case using calm_mode by (simp add: engine_inv_calm)
next
  case (set_ports cfg g b)
  then show ?case using calm_bitmap [OF _ keeps_set_port] by (simp add: engine_inv_calm)
qed

lemma engine_steps_inv: "(engine_step e)\<^sup>*\<^sup>* s s' \<Longrightarrow> engine_inv n s \<Longrightarrow> engine_inv n s'"
  by (induction rule: rtranclp_induct) (auto intro: engine_step_inv)

end
