(* ===== verification/Rstp_Start.thy ===== *)
theory Rstp_Start
  imports Rstp_Engine
begin

text \<open>
  Starting an instance (\<^verbatim>\<open>STP_stpm_start\<close>) puts every machine in its initial state and establishes
  the invariant of the engine; the update loop and the calls of the interface are sequences of
  engine steps, so the invariant holds whenever they return and at every round before.
\<close>

subsection \<open>Initialising the machines of a port\<close>

text \<open>What is known of a port when the machines in \<open>K\<close> have been initialised.\<close>

definition inited :: "mach_kind set \<Rightarrow> glob \<Rightarrow> port_t \<Rightarrow> bool" where
  "inited K g p \<longleftrightarrow> wf_vector (msgPrio p) \<and> wf_vector (portPrio p) \<and> wf_vector (designPrio p)
     \<and> \<not> autoEdge p \<and> selectedRole p = DisabledPort \<and> \<not> changeState (sttrans p)
     \<and> (Ktransmit \<in> K \<longrightarrow> State (transmit p) = BEGIN \<and> txCount p = 0)
     \<and> (Kinfo \<in> K \<longrightarrow> infoIs p = Disabled)
     \<and> (Kroletrns \<in> K \<longrightarrow> State (roletrns p) = BEGIN \<and> \<not> learn p \<and> \<not> forward p)
     \<and> (Ksttrans \<in> K \<longrightarrow> State (sttrans p) = BEGIN \<and> \<not> learning p \<and> \<not> forwarding p
          \<and> hw_state (hal_calls g) (port_index p) = Some UID_PORT_DISCARDING)"

lemma inited_port_ok: "inited UNIV g p \<Longrightarrow> port_ok p"
  by (simp add: inited_def port_ok_def transmit_inv_def info_inv_def wish_inv_def nonstp_inv_def
      sttrans_flags_ok_def TxHoldCount_def)

lemma inited_hw: "inited UNIV g p \<Longrightarrow> hw_state (hal_calls g) (port_index p) = Some (port_hw_state p)"
  by (simp add: inited_def port_hw_state_def)

lemma inited_other:
  "hw_state (hal_calls g') (port_index p) = hw_state (hal_calls g) (port_index p) \<Longrightarrow> inited K g p \<Longrightarrow> inited K g' p"
  by (simp add: inited_def)

text \<open>The initialisation of one machine concerns its own port only.\<close>

definition init_port :: "env \<Rightarrow> stpm_t \<Rightarrow> mach_kind \<Rightarrow> pworld \<Rightarrow> pworld" where
  "init_port e b k gp = (let g = fst gp; p = reset_mach k (snd gp) in case k of
       Ktransmit \<Rightarrow> STP_transmit_enter_state e b g p
     | Kportrcv \<Rightarrow> (g, STP_portrcv_enter_state p)
     | Kbridect \<Rightarrow> (g, STP_bridect_enter_state p)
     | Kp2p \<Rightarrow> (g, STP_p2p_enter_state e g p)
     | Ktopoch \<Rightarrow> topoch_own b g p
     | Kmigrate \<Rightarrow> (g, STP_migrate_enter_state b p)
     | Kpcost \<Rightarrow> (g, STP_pcost_enter_state p)
     | Kinfo \<Rightarrow> STP_info_enter_state b g p
     | Kroletrns \<Rightarrow> (g, roletrns_own b p)
     | Ksttrans \<Rightarrow> STP_sttrans_enter_state b g p)"

lemma roletrns_own_ports: "roletrns_own (b\<lparr> ports := ps \<rparr>) p = roletrns_own b p"
proof -
  have "fd_delay (b\<lparr> ports := ps \<rparr>) = fd_delay b" "enter_INIT_PORT (b\<lparr> ports := ps \<rparr>) = enter_INIT_PORT b"
    "rootTimes (b\<lparr> ports := ps \<rparr>) = rootTimes b"
    by (simp_all add: fd_delay_def enter_INIT_PORT_def fun_eq_iff)
  then show ?thesis by (simp only: roletrns_own_def)
qed

lemma topoch_own_ports: "topoch_own (b\<lparr> ports := ps \<rparr>) g p = topoch_own b g p"
proof -
  have "flush (b\<lparr> ports := ps \<rparr>) = flush b" "newTcWhile (b\<lparr> ports := ps \<rparr>) = newTcWhile b"
    by (simp_all add: flush_def newTcWhile_def fun_eq_iff)
  then show ?thesis by (simp only: topoch_own_def)
qed

lemma init_machine:
  assumes "i < length (ports b)"
  shows "stp_stpm_init_machine e (M_port i k) (g, b) = put_port i (init_port e b k (g, ports b ! i)) b"
proof -
  let ?b = "b\<lparr> ports := upd_at i (reset_mach k) (ports b) \<rparr>"
  have len: "i < length (ports ?b)" using assms by simp
  have lift: "concreteEnterState (lift_stater i m) (g, ?b) =
      put_port i (concreteEnterState (m b) (g, reset_mach k (ports b ! i))) b" if "reads_bridge_only m" for m
    using that assms by (simp add: lift_simps [OF that len]) (simp add: reads_bridge_only_def put_port_def upd_at_def)
  have topo: "State (topoch q) = BEGIN" if "topoch_own b g (reset_mach Ktopoch p) = (g', q)" for p g' q
    using topoch_own_kept(1) [of b g "reset_mach Ktopoch p"] that by (simp add: reset_mach_def)
  note init = stp_stpm_init_machine_def stater_of_def port_stater_of_def set_BEGIN_def init_port_def Let_def
  show ?thesis
  proof (cases k)
    case Ktransmit
    then show ?thesis using lift [OF reads_transmit] by (simp add: init transmit_mach_def)
  next
    case Kportrcv
    then show ?thesis using lift [OF reads_const] by (simp add: init portrcv_mach_def)
  next
    case Kbridect
    then show ?thesis using lift [OF reads_const] by (simp add: init bridect_mach_def)
  next
    case Kp2p
    then show ?thesis using lift [OF reads_const] by (simp add: init p2p_mach_def)
  next
    case Ktopoch
    then show ?thesis using assms topo [of "ports b ! i"]
      by (cases "topoch_own b g (reset_mach Ktopoch (ports b ! i))")
         (simp add: init topoch_mach_def STP_topoch_enter_state_def topoch_own_ports put_port_def upd_at_def)
  next
    case Kmigrate
    then show ?thesis using lift [OF reads_migrate] by (simp add: init migrate_mach_def)
  next
    case Kpcost
    then show ?thesis using lift [OF reads_const] by (simp add: init pcost_mach_def)
  next
    case Kinfo
    then show ?thesis using lift [OF reads_info] by (simp add: init info_mach_def)
  next
    case Kroletrns
    then show ?thesis using assms
      by (simp add: init roletrns_mach_def STP_roletrns_enter_state_def roletrns_tree_def own_port_def
          roletrns_own_ports put_port_def upd_at_def reset_mach_def)
  next
    case Ksttrans
    then show ?thesis using lift [OF reads_sttrans] by (simp add: init sttrans_mach_def)
  qed
qed

text \<open>What each initialisation establishes.\<close>

lemma init_views:
  fixes e b k g p
  defines "q \<equiv> snd (init_port e b k (g, p))" and "g' \<equiv> fst (init_port e b k (g, p))"
  shows "k \<noteq> Ktransmit \<Longrightarrow> view_tx q = view_tx p"
    and "k \<noteq> Kinfo \<Longrightarrow> view_info q = view_info p"
    and "k \<noteq> Kroletrns \<Longrightarrow> view_role q = view_role p"
    and "k \<noteq> Ksttrans \<Longrightarrow> view_st q = view_st p \<and> hw_state (hal_calls g') = hw_state (hal_calls g)"
    and "view_fix q = view_fix p"
proof -
  have r: "all_views (p\<lparr> portrcv := a \<rparr>) = all_views p" "all_views (p\<lparr> bridect := c \<rparr>) = all_views p"
    "all_views (p\<lparr> p2p := d \<rparr>) = all_views p" "all_views (p\<lparr> migrate := f \<rparr>) = all_views p"
    "all_views (p\<lparr> pcost := h \<rparr>) = all_views p" "all_views (p\<lparr> topoch := t \<rparr>) = all_views p"
    "but_tx (p\<lparr> transmit := x \<rparr>) = but_tx p" "but_info (p\<lparr> info := i \<rparr>) = but_info p"
    "but_st (p\<lparr> sttrans := s \<rparr>) = but_st p" "but_role (p\<lparr> roletrns := o' \<rparr>) = but_role p" for a c d f h t x i s o'
    by (simp_all add: all_views_def but_tx_def but_info_def but_st_def but_role_def views)
  have topo: "all_views (snd (topoch_own b g u)) = all_views u"
    "hw_state (hal_calls (fst (topoch_own b g u))) = hw_state (hal_calls g)" for u
  proof -
    have "snd (case y of (g, q) \<Rightarrow> (g, F q)) = F (snd y)" "fst (case y of (g, q) \<Rightarrow> (g, F q)) = fst y"
      for y :: pworld and F by (cases y; simp)+
    then show "all_views (snd (topoch_own b g u)) = all_views u"
      "hw_state (hal_calls (fst (topoch_own b g u))) = hw_state (hal_calls g)"
      by (simp_all add: topoch_own_def Let_def flush_def all_views_def views split: mach_st.split topoch_st.split)
  qed
  have role: "but_role (roletrns_own b u) = but_role u" for u
    by (simp add: roletrns_own_def enter_INIT_PORT_def but_role_def views split: mach_st.split roletrns_st.split)
  note frames = bridect_frame migrate_frame p2p_frame pcost_frame portrcv_frame r topo
  have easy: "all_views q = all_views p \<and> hw_state (hal_calls g') = hw_state (hal_calls g)"
    if "k \<notin> {Ktransmit, Kinfo, Kroletrns, Ksttrans}"
    using that by (cases k) (simp_all add: q_def g'_def init_port_def reset_mach_def Let_def frames)
  have tx: "k = Ktransmit \<Longrightarrow> but_tx q = but_tx p \<and> hw_state (hal_calls g') = hw_state (hal_calls g)"
    by (simp add: q_def g'_def init_port_def reset_mach_def Let_def transmit_frame r)
  have info: "k = Kinfo \<Longrightarrow> but_info q = but_info p \<and> hw_state (hal_calls g') = hw_state (hal_calls g)"
    by (simp add: q_def g'_def init_port_def reset_mach_def Let_def info_frame r)
  have st: "k = Ksttrans \<Longrightarrow> but_st q = but_st p"
    by (simp add: q_def init_port_def reset_mach_def Let_def sttrans_frame r)
  have ro: "k = Kroletrns \<Longrightarrow> but_role q = but_role p \<and> g' = g"
    by (simp add: q_def g'_def init_port_def reset_mach_def Let_def role r)
  note all = easy tx info st ro
  show "k \<noteq> Ktransmit \<Longrightarrow> view_tx q = view_tx p" "k \<noteq> Kinfo \<Longrightarrow> view_info q = view_info p"
    "k \<noteq> Kroletrns \<Longrightarrow> view_role q = view_role p" "view_fix q = view_fix p"
    "k \<noteq> Ksttrans \<Longrightarrow> view_st q = view_st p \<and> hw_state (hal_calls g') = hw_state (hal_calls g)"
    using all by (cases k; simp add: all_views_def but_tx_def but_info_def but_st_def but_role_def)+
qed

lemma init_effects:
  fixes e b k g p
  defines "q \<equiv> snd (init_port e b k (g, p))" and "g' \<equiv> fst (init_port e b k (g, p))"
  shows "k = Ktransmit \<Longrightarrow> State (transmit q) = BEGIN \<and> txCount q = 0"
    and "k = Kinfo \<Longrightarrow> infoIs q = Disabled \<and> msgPrio q = msgPrio p \<and> portPrio q = portPrio p
           \<and> designPrio q = designPrio p"
    and "k = Kroletrns \<Longrightarrow> State (roletrns q) = BEGIN \<and> \<not> learn q \<and> \<not> forward q \<and> selectedRole q = selectedRole p"
    and "k = Ksttrans \<Longrightarrow> State (sttrans q) = BEGIN \<and> \<not> learning q \<and> \<not> forwarding q
           \<and> changeState (sttrans q) = changeState (sttrans p)
           \<and> hw_state (hal_calls g') = (hw_state (hal_calls g))(port_index p := Some UID_PORT_DISCARDING)"
  unfolding q_def g'_def
  by (simp_all add: init_port_def reset_mach_def Let_def transmit_enter_port STP_info_enter_state_def
      enter_RSTP_PORT_DISABLED_def roletrns_own_def enter_INIT_PORT_def sttrans_defs)

lemma inited_step:
  assumes "inited K g p"
  shows "inited (insert k K) (fst (init_port e b k (g, p))) (snd (init_port e b k (g, p)))"
proof -
  let ?q = "snd (init_port e b k (g, p))"
  note v = init_views [where k = k and e = e and b = b and g = g and p = p] and
    f = init_effects [where k = k and e = e and b = b and g = g and p = p]
  consider "k = Ktransmit" | "k = Kinfo" | "k = Kroletrns" | "k = Ksttrans"
    | "k \<notin> {Ktransmit, Kinfo, Kroletrns, Ksttrans}" by blast
  then show ?thesis
    using assms v f by cases (auto simp: inited_def views)
qed

lemma init_port_frame:
  "port_index (snd (init_port e b k (g, p))) = port_index p"
  "j \<noteq> port_index p \<Longrightarrow> hw_state (hal_calls (fst (init_port e b k (g, p)))) j = hw_state (hal_calls g) j"
  using init_views(4,5) [where k = k and e = e and b = b and g = g and p = p]
    init_effects(4) [where k = k and e = e and b = b and g = g and p = p]
  by (cases "k = Ksttrans"; simp add: view_fix_def)+

subsection \<open>Initialising the bridge\<close>

lemma init_kinds:
  assumes "i < length (ports b)" "inited K g (ports b ! i)"
  shows "\<exists>g' p'. fold (stp_stpm_init_machine e) (map (M_port i) ks) (g, b) = put_port i (g', p') b
    \<and> inited (K \<union> set ks) g' p' \<and> port_index p' = port_index (ports b ! i)
    \<and> (\<forall>j. j \<noteq> port_index (ports b ! i) \<longrightarrow> hw_state (hal_calls g') j = hw_state (hal_calls g) j)"
  using assms
proof (induction ks arbitrary: g b K)
  case Nil
  then show ?case by (intro exI [of _ g] exI [of _ "ports b ! i"]) (simp add: put_port_def)
next
  case (Cons k ks)
  obtain g1 p1 where 1: "init_port e b k (g, ports b ! i) = (g1, p1)" by fastforce
  let ?b = "snd (put_port i (g1, p1) b)"
  have "inited (insert k K) g1 p1" using inited_step [OF Cons.prems(2), of k e b] by (simp add: 1)
  then obtain g' p' where "fold (stp_stpm_init_machine e) (map (M_port i) ks) (g1, ?b) = put_port i (g', p') ?b"
    "inited (insert k K \<union> set ks) g' p'" "port_index p' = port_index p1"
    "\<forall>j. j \<noteq> port_index p1 \<longrightarrow> hw_state (hal_calls g') j = hw_state (hal_calls g1) j"
    using Cons.IH [of ?b "insert k K" g1] Cons.prems(1) by auto
  moreover have "port_index p1 = port_index (ports b ! i)"
    "\<forall>j. j \<noteq> port_index (ports b ! i) \<longrightarrow> hw_state (hal_calls g1) j = hw_state (hal_calls g) j"
    using init_port_frame [where e = e and b = b and k = k and g = g and p = "ports b ! i"] by (simp_all add: 1)
  moreover have "stp_stpm_init_machine e (M_port i k) (g, b) = (g1, ?b)"
    using init_machine [OF Cons.prems(1)] by (simp add: 1 put_port_def)
  ultimately show ?case by auto
qed

definition inited_ports :: "nat \<Rightarrow> nat \<Rightarrow> mworld \<Rightarrow> bool" where
  "inited_ports n m w \<longleftrightarrow> length (ports (snd w)) = n \<and> distinct (map port_index (ports (snd w)))
     \<and> (\<forall>j<n. inited (if j < m then UNIV else {}) (fst w) (ports (snd w) ! j)) \<and> bridge_data_ok (snd w)"

lemma set_port_machines: "set port_machines = UNIV"
  by (auto simp: port_machines_def) (metis mach_kind.exhaust)

lemma init_port_at:
  assumes "inited_ports n m w" "m < n"
  shows "inited_ports n (Suc m) (fold (stp_stpm_init_machine e) (map (M_port m) port_machines) w)"
proof -
  obtain g b where w: "w = (g, b)" by fastforce
  have len: "length (ports b) = n" and dist: "distinct (map port_index (ports b))" and dat: "bridge_data_ok b"
    and ini: "\<And>j. j < n \<Longrightarrow> inited (if j < m then UNIV else {}) g (ports b ! j)"
    using assms(1) by (simp_all add: inited_ports_def w)
  obtain g' p' where 1: "fold (stp_stpm_init_machine e) (map (M_port m) port_machines) (g, b) = put_port m (g', p') b"
    "inited UNIV g' p'" "port_index p' = port_index (ports b ! m)"
    "\<And>j. j \<noteq> port_index (ports b ! m) \<Longrightarrow> hw_state (hal_calls g') j = hw_state (hal_calls g) j"
    using init_kinds [of m b "{}" g e port_machines] ini [OF assms(2)] assms(2) len set_port_machines by auto
  have "inited (if j < Suc m then UNIV else {}) g' ((ports b)[m := p'] ! j)" if "j < n" for j
  proof (cases "j = m")
    case True
    then show ?thesis using 1(2) assms(2) len by simp
  next
    case False
    then have "port_index (ports b ! j) \<noteq> port_index (ports b ! m)"
      using dist len that assms(2) nth_eq_iff_index_eq [of "map port_index (ports b)" j m] by simp
    then show ?thesis using inited_other [OF 1(4)] ini [OF that] False by (simp add: less_Suc_eq)
  qed
  moreover have "map port_index ((ports b)[m := p']) = map port_index (ports b)"
    using 1(3) assms(2) len by (simp add: map_update list_update_same_conv)
  ultimately show ?thesis
    using len dist dat by (simp add: w 1(1) inited_ports_def put_port_def data_ok_ports)
qed

lemma iterate_init_ok:
  assumes "inited_ports n 0 (g, STP_rolesel_enter_state (set_BEGIN M_rolesel b))" "length (ports b) = n"
  shows "engine_inv n (False, iterate_init e (g, b))"
proof -
  have "inited_ports n m (fold (stp_stpm_init_machine e) (concat (map (\<lambda>i. map (M_port i) port_machines) [0..<m]))
      (g, STP_rolesel_enter_state (set_BEGIN M_rolesel b)))" if "m \<le> n" for m
    using that by (induction m) (simp_all add: assms init_port_at)
  then have fin: "inited_ports n n (iterate_init e (g, b))"
    by (simp add: iterate_init_def stpm_machines_def assms(2) stp_stpm_init_machine_def stater_of_def rolesel_mach_def)
  obtain g' b' where w: "iterate_init e (g, b) = (g', b')" by fastforce
  have ini: "inited UNIV g' (ports b' ! j)" if "j < n" for j using fin that by (simp add: inited_ports_def w)
  then have "bridge_ok n (g', b')"
    using fin inited_port_ok [OF ini] inited_hw [OF ini]
    by (simp add: w inited_ports_def bridge_ok_def list_all_length hw_agrees_def)
  moreover have "quiet n (g', b')" using ini by (simp add: quiet_def inited_def)
  ultimately show ?thesis by (simp add: engine_inv_def w)
qed

subsection \<open>Starting an instance\<close>

text \<open>The bridge as \<^verbatim>\<open>STP_stpm_start\<close> hands it to the update loop.\<close>

definition started :: "env \<Rightarrow> glob \<Rightarrow> stpm_t \<Rightarrow> mworld" where
  "started e g this =
     (let this = stp_stpm_init_data this
      in iterate_init e (g, this\<lparr> ports := map (STP_port_init e g this True) (ports this) \<rparr>))"

definition start_ok :: "glob \<Rightarrow> stpm_t \<Rightarrow> bool" where
  "start_ok g b \<longleftrightarrow> distinct (map port_index (ports b)) \<and> wf_bridge_id (BrId b) \<and> HelloTime (BrTimes b) \<noteq> 0
     \<and> list_all (\<lambda>p. wf_vector (msgPrio p) \<and> wf_vector (portPrio p) \<and> \<not> autoEdge p
          \<and> \<not> changeState (sttrans p)) (ports b)"

lemma started_inv:
  assumes "start_ok g b"
  shows "engine_inv (length (ports b)) (False, started e g b)"
proof -
  define c where "c = stp_stpm_init_data b"
  define d where "d = c\<lparr> ports := map (STP_port_init e g c True) (ports c) \<rparr>"
  have c: "ports c = ports b" "BrId c = BrId b" "rootPrio c = STP_VECT_create (BrId b) 0 (BrId b) 0 0"
    "HelloTime (BrTimes c) = HelloTime (BrTimes b)" "HelloTime (rootTimes c) = HelloTime (BrTimes b)"
    by (simp_all add: c_def stp_stpm_init_data_def STP_copy_times_def Let_def)
  have init: "msgPrio (STP_port_init e g c True p) = msgPrio p" "portPrio (STP_port_init e g c True p) = portPrio p"
    "designPrio (STP_port_init e g c True p) = STP_VECT_create (BrId c) 0 (BrId c) (port_id p) (port_id p)"
    "autoEdge (STP_port_init e g c True p) = autoEdge p" "sttrans (STP_port_init e g c True p) = sttrans p"
    "port_index (STP_port_init e g c True p) = port_index p" for p
    by (simp_all add: STP_port_init_def Let_def)
  have dis: "STP_rolesel_enter_state (set_BEGIN M_rolesel d) = updtRoleDisableTree (set_BEGIN M_rolesel d)"
    by (simp add: STP_rolesel_enter_state_def set_BEGIN_def)
  have "inited_ports (length (ports b)) 0 (g, STP_rolesel_enter_state (set_BEGIN M_rolesel d))"
    unfolding dis inited_ports_def using assms
    by (auto simp: updtRoleDisableTree_def set_BEGIN_def d_def c comp_def init inited_def start_ok_def
        list_all_length bridge_data_ok_def wf_vector_def STP_VECT_create_def)
  from iterate_init_ok [OF this] show ?thesis
    by (simp add: started_def c_def [symmetric] d_def [symmetric] Let_def) (simp add: d_def c)
qed

subsection \<open>The calls are sequences of steps\<close>

abbreviation steps :: "env \<Rightarrow> mworld \<Rightarrow> mworld \<Rightarrow> bool" where
  "steps e w w' \<equiv> (engine_step e)\<^sup>*\<^sup>* (False, w) (False, w')"

lemma update_loop_steps:
  assumes "update_loop e k w = Some r"
  shows "steps e w (snd r)"
proof (rule update_loop.raw_induct [where P = "\<lambda>e k w r. steps e w (snd r)", OF _ assms])
  fix f e k w and r :: "nat \<times> mworld"
  assume IH: "\<And>e k w r. f e k w = Some r \<Longrightarrow> steps e w (snd r)"
    and eq: "(let (c, w') = iterate_check e w in if \<not> c then Some (k, w')
      else case iterate_change e w' of None \<Rightarrow> None | Some (n, w'') \<Rightarrow> f e (k + 1 + n) w'') = Some r"
  obtain c w1 where chk: "iterate_check e w = (c, w1)" by (cases "iterate_check e w")
  then have one: "engine_step e (False, w) (c, w1)" by (rule engine_step.check)
  show "steps e w (snd r)"
  proof (cases c)
    case False
    then show ?thesis using eq chk one by auto
  next
    case True
    then obtain n w2 where chg: "iterate_change e w1 = Some (n, w2)" and rec: "f e (k + 1 + n) w2 = Some r"
      using eq chk by (auto split: option.splits)
    have "engine_step e (True, w1) (False, w2)" using chg by (rule engine_step.change)
    then have "(engine_step e)\<^sup>*\<^sup>* (True, w1) (False, snd r)"
      using IH [OF rec] by (rule converse_rtranclp_into_rtranclp)
    with one True show ?thesis by (auto intro: converse_rtranclp_into_rtranclp)
  qed
qed

lemma update_steps: "STP_stpm_update e w = Some (k, w') \<Longrightarrow> steps e w w'"
  using update_loop_steps [of e 0 w "(k, w')"] by (simp add: STP_stpm_update_def)

lemma update_at_steps:
  "update_at e 0 (g, [b]) = Some (g', bs) \<Longrightarrow> \<exists>b'. bs = [b'] \<and> steps e (g, b) (g', b')"
  by (auto simp: update_at_def dest!: update_steps split: option.splits)

lemma step_then: "engine_step e (False, w) (False, w1) \<Longrightarrow> steps e w1 w2 \<Longrightarrow> steps e w w2"
  by (rule converse_rtranclp_into_rtranclp)

lemma one_step: "engine_step e (False, w) (False, w') \<Longrightarrow> steps e w w'"
  by (rule r_into_rtranclp)

lemma find_single: "stpapi_stpm_find vid [b] = Some k \<Longrightarrow> k = 0"
  by (simp add: stpapi_stpm_find_def split: if_splits)

lemma upd_at_single [simp]: "upd_at 0 f [x] = [f x]"
  by (simp add: upd_at_def)

lemma rx_steps:
  assumes "STP_IN_rx_bpdu e vid pindex bpdu (g, [b]) = Some (rc, (g', bs))" "wf_bpdu bpdu"
  shows "\<exists>b'. bs = [b'] \<and> steps e (g, b) (g', b')"
proof -
  let ?g = "INCR100 (g\<lparr> tev := RSTP_PORT_RX_T \<rparr>)"
  have ev: "engine_step e (False, (g, b)) (False, (?g, b))" by (rule engine_step.event)
  consider "g' = ?g" "bs = [b]"
    | i where "g' = ?g" "bs = [b\<lparr> ports := upd_at i (\<lambda>p. p\<lparr> skip_rx := skip_rx p - 1 \<rparr>) (ports b) \<rparr>]"
    | i where "update_at e 0 (?g, [rx_on_port e ?g bpdu i b]) = Some (g', bs)"
    using assms(1) by (fastforce simp: STP_IN_rx_bpdu_def Let_def dest: find_single split: option.splits if_splits)
  then show ?thesis
  proof cases
    case 1
    then show ?thesis using ev by auto
  next
    case (2 i)
    then show ?thesis using step_then [OF ev one_step [OF engine_step.skip]] by auto
  next
    case (3 i)
    then show ?thesis
      using update_at_steps [OF 3] step_then [OF ev step_then [OF engine_step.receive [OF assms(2)]]] by blast
  qed
qed

lemma set_port_steps:
  assumes "STP_IN_set_port_cfg e vid cfg (g, [b]) = Some (rc, (g', bs))" "\<not> sets_non_stp cfg"
  shows "\<exists>b'. bs = [b'] \<and> steps e (g, b) (g', b')"
proof -
  let ?g = "INCR100 (g\<lparr> tev := RSTP_PORT_MNGR_T \<rparr>)"
  have ev: "engine_step e (False, (g, b)) (False, (?g, b))" by (rule engine_step.event)
  consider "g' = ?g" "bs = [b]"
    | "update_at e 0 (?g, [on_bitmap_ports (pt_port_bmp cfg) (max_port ?g) (set_port cfg b) b]) = Some (g', bs)"
    using assms(1) by (fastforce simp: STP_IN_set_port_cfg_def Let_def dest: find_single split: option.splits)
  then show ?thesis
  proof cases
    case 1
    then show ?thesis using ev by auto
  next
    case 2
    then show ?thesis
      using update_at_steps [OF 2] step_then [OF ev step_then [OF engine_step.set_ports [OF assms(2)]]] by blast
  qed
qed

lemma second_ports_steps:
  "\<exists>g' b'. fold (second_port e 0) is (g, [b]) = (g', [b']) \<and> steps e (g, b) (g', b')"
proof (induction "is" arbitrary: g b)
  case (Cons i "is")
  let ?b = "tick_port i b"
  have tick: "engine_step e (False, (g, b)) (False, (g, ?b))" by (rule engine_step.second)
  obtain g1 b1 where one: "second_port e 0 i (g, [b]) = (g1, [b1])" "steps e (g, b) (g1, b1)"
  proof (cases "second_port e 0 i (g, [b]) = (g, [?b])")
    case True
    then show thesis using that tick by blast
  next
    case False
    define x where "x = port_index (ports ?b ! i)"
    define l where "l = STP_OUT_get_port_link_status e g x"
    obtain g1 b1 where l: "STP_IN_enable_port e x l (g, [?b]) = (g1, [b1])"
      by (simp add: STP_IN_enable_port_def Let_def)
    then have "second_port e 0 i (g, [b]) = (g1, [b1])"
      using False by (simp add: second_port_def tick_port_def [symmetric] x_def [symmetric] l_def [symmetric]
          Let_def split: if_splits)
    then show thesis using that step_then [OF tick one_step [OF engine_step.link [OF l]]] by blast
  qed
  obtain g' b' where "fold (second_port e 0) is (g1, [b1]) = (g', [b'])" "steps e (g1, b1) (g', b')"
    using Cons.IH by blast
  then show ?case using one by (auto intro: rtranclp_trans)
qed simp

lemma protection_steps: "steps e (g, b) (fold (loop_second e) is g, b)"
  by (induction "is" arbitrary: g) (auto intro: step_then [OF engine_step.protection])

lemma second_steps:
  assumes "STP_IN_one_second e (g, [b]) = Some (n, (g', bs))"
  shows "\<exists>b'. bs = [b'] \<and> steps e (g, b) (g', b')"
proof -
  let ?g = "INCR100 (g\<lparr> tev := RSTP_PORT_TIME_T \<rparr>)"
  have ev: "engine_step e (False, (g, b)) (False, (?g, b))" by (rule engine_step.event)
  obtain g1 b1 where 1: "fold (second_port e 0) [0..<length (ports b)] (?g, [b]) = (g1, [b1])"
    "steps e (?g, b) (g1, b1)" using second_ports_steps by blast
  show ?thesis
  proof (cases "admin_state b = STP_ENABLED")
    case False
    then show ?thesis using assms ev by (auto simp: STP_IN_one_second_def)
  next
    case True
    then obtain g2 bs2 where 2: "update_at e 0 (g1, [b1]) = Some (g2, bs2)"
      and fin: "g' = fold (loop_second e) [0..<NUMBER_OF_PORTS] g2" "bs = upd_at 0 count_topoch bs2"
      using assms by (auto simp: STP_IN_one_second_def STP_stpm_one_second_def 1 split: option.splits)
    obtain b2 where b2: "bs2 = [b2]" "steps e (g1, b1) (g2, b2)" using update_at_steps [OF 2] by blast
    have "steps e (g2, b2) (g', count_topoch b2)"
      unfolding fin using step_then [OF engine_step.topology protection_steps] .
    then have "steps e (g, b) (g', count_topoch b2)"
      using step_then [OF ev 1(2)] b2(2) by (meson rtranclp_trans)
    then show ?thesis using fin b2 by simp
  qed
qed

lemma start_steps:
  assumes "STP_stpm_start e 0 (g, [b]) = Some (STP_OK, (g', bs))"
  shows "\<exists>this b'. STP_compute_bridge_id g b = Some this \<and> bs = [b'] \<and> steps e (started e g this) (g', b')"
proof -
  obtain b0 where b0: "STP_compute_bridge_id g b = Some b0"
    using assms by (auto simp: STP_stpm_start_def split: if_splits option.splits)
  obtain g1 b1 where st: "started e g b0 = (g1, b1)" by fastforce
  then have "update_at e 0 (g1, [b1]) = Some (g', bs)"
    using assms b0 by (auto simp: STP_stpm_start_def started_def Let_def split: if_splits option.splits)
  from update_at_steps [OF this] show ?thesis using b0 st by auto
qed

end
