(* ===== verification/Rstp_Calls.thy ===== *)
theory Rstp_Calls
  imports Rstp_Start
begin

text \<open>
  The calls of the interface on one running instance. A call keeps the contract of the engine
  when it is a sequence of engine steps whenever it returns (\<open>engine_call\<close>); every call of
  \<^verbatim>\<open>rstp_in.c\<close> that changes a running instance does, and so does any sequence of them.
\<close>

subsection \<open>The contract of a call\<close>

locale engine_call =
  fixes call :: "env \<Rightarrow> 'a \<Rightarrow> iworld \<Rightarrow> iworld option" and ok :: "'a \<Rightarrow> bool"
  assumes runs: "ok x \<Longrightarrow> call e x (g, [b]) = Some (g', bs) \<Longrightarrow> \<exists>b'. bs = [b'] \<and> steps e (g, b) (g', b')"

primrec in_turn :: "('a \<Rightarrow> iworld \<Rightarrow> iworld option) \<Rightarrow> 'a list \<Rightarrow> iworld \<Rightarrow> iworld option" where
  "in_turn call [] w = Some w"
| "in_turn call (x # xs) w = (case call x w of None \<Rightarrow> None | Some w' \<Rightarrow> in_turn call xs w')"

context engine_call
begin

lemma turns: "list_all ok xs \<Longrightarrow> in_turn (call e) xs (g, [b]) = Some (g', bs) \<Longrightarrow>
  \<exists>b'. bs = [b'] \<and> steps e (g, b) (g', b')"
proof (induction xs arbitrary: g b)
  case (Cons x xs)
  then obtain g1 bs1 where one: "call e x (g, [b]) = Some (g1, bs1)" and
    rest: "in_turn (call e) xs (g1, bs1) = Some (g', bs)" by (auto split: option.splits)
  from runs [OF _ one] Cons.prems obtain b1 where "bs1 = [b1]" "steps e (g, b) (g1, b1)" by auto
  with Cons.IH [of g1 b1] rest Cons.prems show ?case by (auto intro: rtranclp_trans)
qed auto

lemma turns_calm:
  assumes "list_all ok xs" "in_turn (call e) xs (g, [b]) = Some (g', bs)" "calm n (g, b)"
  shows "\<exists>b'. bs = [b'] \<and> calm n (g', b')"
  using turns [OF assms(1,2)] engine_steps_inv [of e] assms(3) by (metis engine_inv_calm)

end

subsection \<open>The calls\<close>

datatype call =
    Receive int int stp_bpdu_t
  | Second
  | Link int bool
  | Speed int u32
  | Duplex int
  | Set_port int uid_stp_port_cfg_t
  | Set_cfg uid_stp_cfg_t int uid_stp_cfg_t

primrec do_call :: "env \<Rightarrow> call \<Rightarrow> iworld \<Rightarrow> iworld option" where
  "do_call e (Receive vid pindex bpdu) w = map_option snd (STP_IN_rx_bpdu e vid pindex bpdu w)"
| "do_call e Second w = map_option snd (STP_IN_one_second e w)"
| "do_call e (Link pindex en) w = Some (STP_IN_enable_port e pindex en w)"
| "do_call e (Speed pindex speed) w = Some (STP_IN_changed_port_speed pindex speed w)"
| "do_call e (Duplex pindex) w = Some (STP_IN_changed_port_duplex pindex w)"
| "do_call e (Set_port vid cfg) w = map_option snd (STP_IN_set_port_cfg e vid cfg w)"
| "do_call e (Set_cfg garbage vid cfg) w =
     map_option (\<lambda>r. snd (snd r)) (STP_IN_stpm_set_cfg e garbage vid None cfg w)"

text \<open>
  A frame is a list of bytes of the lengths of the packed structs. A port is not taken out of the
  protocol, and the configuration call does not enable an instance: with the null port bitmap it
  creates none.
\<close>

primrec call_ok :: "call \<Rightarrow> bool" where
  "call_ok (Receive vid pindex bpdu) = wf_bpdu bpdu"
| "call_ok Second = True"
| "call_ok (Link pindex en) = True"
| "call_ok (Speed pindex speed) = True"
| "call_ok (Duplex pindex) = True"
| "call_ok (Set_port vid cfg) = (\<not> sets_non_stp cfg)"
| "call_ok (Set_cfg garbage vid cfg) = (\<not> (masked BR_CFG_STATE (field_mask cfg) \<and> stp_enabled cfg = STP_ENABLED))"

lemma check_priority_single: "STP_stpm_check_bridge_priority 0 [b] = STP_OK"
  by (simp add: STP_stpm_check_bridge_priority_def)

lemma set_rest_steps:
  assumes "set_cfg_rest e vid None cfg old (g, [b]) = Some (rc, (g', bs))" "check_stpm_config old = STP_OK"
    "\<not> (masked BR_CFG_STATE (field_mask cfg) \<and> stp_enabled cfg \<noteq> STP_DISABLED)"
  shows "\<exists>b'. bs = [b'] \<and> steps e (g, b) (g', b')"
proof -
  have conf: "engine_step e (False, (g, b)) (False, (g, configured old b))"
    using assms(2) by (rule engine_step.configure)
  consider "g' = g" "bs = [b]" | "g' = g" "bs = [configured old b]"
    | "g' = g" "bs = [STP_stpm_update_after_bridge_management (configured old b)]"
    using assms(1,3)
    by (fastforce simp: set_cfg_rest_def Let_def stp_in_stpm_create_def check_priority_single configured_def
        dest: find_single split: option.splits if_splits)
  then show ?thesis
  proof cases
    case 3
    then show ?thesis using step_then [OF conf one_step [OF engine_step.reselect]] by auto
  qed (use one_step [OF conf] in auto)
qed

lemma disable_steps:
  assumes "stp_in_stpm_enable e vid name None STP_DISABLED (g, [b]) = Some (rc, (g', bs))"
  shows "\<exists>b'. bs = [b'] \<and> steps e (g, b) (g', b')"
proof -
  consider "g' = g" "bs = [b]"
    | "g' = STP_OUT_set_hardware_mode vid STP_DISABLED g" "bs = [b\<lparr> admin_state := STP_DISABLED \<rparr>]"
    using assms
    by (fastforce simp: stp_in_stpm_enable_def Let_def stp_in_stpm_create_def STP_stpm_enable_def STP_stpm_stop_def
        set_admin_state_def dest: find_single split: option.splits if_splits prod.splits)
  then show ?thesis by cases (use one_step [OF engine_step.mode] in auto)
qed

lemma set_cfg_steps:
  assumes "STP_IN_stpm_set_cfg e garbage vid None cfg (g, [b]) = Some (rc, cfg', (g', bs))"
    "\<not> (masked BR_CFG_STATE (field_mask cfg) \<and> stp_enabled cfg = STP_ENABLED)"
  shows "\<exists>b'. bs = [b'] \<and> steps e (g, b) (g', b')"
proof -
  let ?g = "INCR100 (g\<lparr> tev := RSTP_PORT_MNGR_T \<rparr>)"
  have ev: "engine_step e (False, (g, b)) (False, (?g, b))" by (rule engine_step.event)
  have mask: "and (field_mask c) (lnot BR_CFG_STATE) = 0" for c by (simp add: lnot_def BR_CFG_STATE_def)
  obtain old where "(g', bs) = (?g, [b])
    \<or> (\<exists>rc. stp_in_stpm_enable e vid (Some (cfg_vlan_name cfg)) None STP_DISABLED (?g, [b]) = Some (rc, (g', bs)))
    \<or> check_stpm_config old = STP_OK \<and> \<not> (masked BR_CFG_STATE (field_mask cfg) \<and> stp_enabled cfg \<noteq> STP_DISABLED)
       \<and> (\<exists>rc. set_cfg_rest e vid None cfg old (?g, [b]) = Some (rc, (g', bs)))"
    using assms uid_stp_mode_t.exhaust [of "stp_enabled cfg"]
    by (fastforce simp: STP_IN_stpm_set_cfg_def Let_def mask split: option.splits if_splits prod.splits)
  then show ?thesis
  proof (elim disjE conjE exE)
    assume "(g', bs) = (?g, [b])"
    then show ?thesis using one_step [OF ev] by auto
  next
    fix rc assume "stp_in_stpm_enable e vid (Some (cfg_vlan_name cfg)) None STP_DISABLED (?g, [b]) = Some (rc, (g', bs))"
    from disable_steps [OF this] show ?thesis using step_then [OF ev] by blast
  next
    fix rc assume "check_stpm_config old = STP_OK"
      "\<not> (masked BR_CFG_STATE (field_mask cfg) \<and> stp_enabled cfg \<noteq> STP_DISABLED)"
      "set_cfg_rest e vid None cfg old (?g, [b]) = Some (rc, (g', bs))"
    from set_rest_steps [OF this(3,1,2)] show ?thesis using step_then [OF ev] by blast
  qed
qed

interpretation calls: engine_call do_call call_ok
proof
  fix c e g b g' bs
  assume ok: "call_ok c" and run: "do_call e c (g, [b]) = Some (g', bs)"
  then show "\<exists>b'. bs = [b'] \<and> steps e (g, b) (g', b')"
  proof (cases c)
    case (Receive vid pindex bpdu)
    then show ?thesis using ok run rx_steps by fastforce
  next
    case Second
    then show ?thesis using run second_steps by fastforce
  next
    case (Link pindex en)
    with run obtain b' where "bs = [b']" "STP_IN_enable_port e pindex en (g, [b]) = (g', [b'])"
      by (auto simp: STP_IN_enable_port_def Let_def)
    then show ?thesis using one_step [OF engine_step.link] by blast
  next
    case (Speed pindex x)
    with run obtain b' where "bs = [b']" "STP_IN_changed_port_speed pindex x (g, [b]) = (g', [b'])"
      by (auto simp: STP_IN_changed_port_speed_def)
    then show ?thesis using one_step [OF engine_step.speed] by blast
  next
    case (Duplex pindex)
    with run obtain b' where "bs = [b']" "STP_IN_changed_port_duplex pindex (g, [b]) = (g', [b'])"
      by (auto simp: STP_IN_changed_port_duplex_def)
    then show ?thesis using one_step [OF engine_step.duplex] by blast
  next
    case (Set_port vid cfg)
    then show ?thesis using ok run set_port_steps by fastforce
  next
    case (Set_cfg garbage vid cfg)
    then show ?thesis using ok run set_cfg_steps by fastforce
  qed
qed

subsection \<open>The first start\<close>

definition fresh :: "stpm_t \<Rightarrow> bool" where
  "fresh b \<longleftrightarrow> distinct (map port_index (ports b)) \<and> list_all (\<lambda>p. wf_vector (msgPrio p)
     \<and> wf_vector (portPrio p) \<and> \<not> autoEdge p \<and> \<not> changeState (sttrans p)) (ports b)"

lemma fresh_create_ports: "create_ports bmp is b = Some b' \<Longrightarrow> fresh b \<Longrightarrow> fresh b' \<and> admin_state b' = admin_state b"
proof (induction "is" arbitrary: b)
  case (Cons i "is")
  have new: "wf_vector (msgPrio (new_port b i))" "wf_vector (portPrio (new_port b i))" "\<not> autoEdge (new_port b i)"
    "\<not> changeState (sttrans (new_port b i))" "port_index (new_port b i) = i"
    by (simp_all add: new_port_def zero_port_def zero_vector_def zero_bridge_id_def STP_VECT_create_def wf_vector_def
        wf_bridge_id_def STP_state_mach_create_def Let_def)
  show ?case
  proof (cases "BitmapGetBit bmp (nat (i - 1))")
    case True
    with Cons.prems obtain c where c: "STP_port_create b i = Some c" "create_ports bmp is c = Some b'"
      by (auto split: option.splits)
    then have "fresh c" "admin_state c = admin_state b"
      using Cons.prems(2) new by (auto simp: STP_port_create_def fresh_def list_ex_iff split: if_splits)
    then show ?thesis using Cons.IH [OF c(2)] by simp
  qed (use Cons in auto)
qed auto

lemma fresh_start:
  assumes "STP_stpm_start e 0 (g, [b]) = Some (STP_OK, (g', bs))" "fresh b" "HelloTime (BrTimes b) \<noteq> 0"
    "6 \<le> length (rstp_dev_mac g)"
  shows "\<exists>b'. bs = [b'] \<and> calm (length (ports b)) (g', b')"
proof -
  obtain c b' where c: "STP_compute_bridge_id g b = Some c" "bs = [b']" "steps e (started e g c) (g', b')"
    using start_steps [OF assms(1)] by blast
  have "ports c = ports b" "HelloTime (BrTimes c) = HelloTime (BrTimes b)" "wf_bridge_id (BrId c)"
    using c(1) assms(4)
    by (auto simp: STP_compute_bridge_id_def STP_OUT_get_port_mac_def wf_bridge_id_def split: option.splits)
  then have "start_ok g c" and n: "length (ports c) = length (ports b)"
    using assms by (auto simp: start_ok_def fresh_def list_all_iff)
  from engine_steps_inv [OF c(3) started_inv [OF this(1)]] show ?thesis
    using c(2) n by (simp add: engine_inv_calm)
qed

lemma configured_fresh:
  assumes "check_stpm_config cfg = STP_OK"
  shows "ports (configured cfg b) = ports b" "admin_state (configured cfg b) = admin_state b"
    "vlan_id (configured cfg b) = vlan_id b" "HelloTime (BrTimes (configured cfg b)) \<noteq> 0"
  using check_config_hello [OF assms] by (simp_all add: configured_def apply_cfg_def set_prio_def)

lemma stop_disabled: "admin_state b = STP_DISABLED \<Longrightarrow> stop_list (g, [b]) = (g, [b])"
  by (simp add: stop_list_def disable_stpm_def)

lemma enable_single:
  assumes "stp_in_stpm_enable e vid name bmp STP_ENABLED (g, [b]) = Some (STP_OK, (g', bs))"
    "admin_state b = STP_DISABLED" "vlan_id b = vid"
  shows "\<exists>g1 bs1. STP_stpm_start e 0 (g, [b]) = Some (STP_OK, (g1, bs1))
    \<and> (g', bs) = (STP_OUT_set_hardware_mode vid STP_ENABLED g1, upd_at 0 (\<lambda>b. b\<lparr> admin_state := STP_ENABLED \<rparr>) bs1)"
  using assms
  by (auto simp: stp_in_stpm_enable_def stpapi_stpm_find_def stop_disabled STP_stpm_enable_def set_admin_state_def
      Let_def split: option.splits prod.splits if_splits)

lemma create_vlan: "create_ports bmp is b = Some b' \<Longrightarrow> vlan_id b' = vlan_id b"
  by (induction bmp "is" b rule: create_ports.induct) (auto simp: STP_port_create_def split: if_splits option.splits)

lemma set_cfg_starts:
  assumes "STP_IN_stpm_set_cfg e garbage vid (Some bmp) cfg (g, []) = Some (STP_OK, cfg', (g', bs))"
    "masked BR_CFG_STATE (field_mask cfg)" "stp_enabled cfg = STP_ENABLED" "6 \<le> length (rstp_dev_mac g)"
  shows "\<exists>b' n. bs = [b'] \<and> calm n (g', b')"
proof -
  let ?g = "INCR100 (g\<lparr> tev := RSTP_PORT_MNGR_T \<rparr>)"
  define old where "old = merge_cfg cfg (STP_OUT_get_init_stpm_cfg (garbage\<lparr> field_mask := 0 \<rparr>))"
  have ok: "check_stpm_config old = STP_OK"
    and rest: "set_cfg_rest e vid (Some bmp) cfg old (?g, []) = Some (STP_OK, (g', bs))"
    using assms by (auto simp: STP_IN_stpm_set_cfg_def STP_IN_stpm_get_cfg_def stpapi_stpm_find_def Let_def
        old_def split: if_splits option.splits)
  let ?new = "STP_stpm_create e vid (Some (cfg_vlan_name cfg)) ?g"
  obtain b where b: "create_ports bmp [1..max_port ?g] ?new = Some b"
    and en: "admin_state b = STP_DISABLED \<Longrightarrow>
      stp_in_stpm_enable e vid (Some (cfg_vlan_name cfg)) (Some bmp) STP_ENABLED (?g, [configured old b])
        = Some (STP_OK, (g', bs))"
    using rest assms(2,3)
    by (auto simp: set_cfg_rest_def stp_in_stpm_create_def stpapi_stpm_find_def Let_def configured_def
        apply_cfg_def set_prio_def split: option.splits if_splits)
  have "fresh ?new" "admin_state ?new = STP_DISABLED" "vlan_id ?new = vid"
    by (simp_all add: STP_stpm_create_def fresh_def)
  with fresh_create_ports [OF b] create_vlan [OF b]
  have new: "fresh b" "admin_state b = STP_DISABLED" "vlan_id b = vid" by simp_all
  note conf = configured_fresh [OF ok, of b]
  obtain g1 bs1 where start: "STP_stpm_start e 0 (?g, [configured old b]) = Some (STP_OK, (g1, bs1))"
    and fin: "(g', bs) = (STP_OUT_set_hardware_mode vid STP_ENABLED g1,
      upd_at 0 (\<lambda>b. b\<lparr> admin_state := STP_ENABLED \<rparr>) bs1)"
    using enable_single [OF en [OF new(2)]] new conf by auto
  have "fresh (configured old b)" "6 \<le> length (rstp_dev_mac ?g)"
    using new(1) assms(4) conf(1) by (simp_all add: fresh_def INCR100_def Let_def)
  from fresh_start [OF start this(1) conf(4) this(2)] obtain b1 where
    "bs1 = [b1]" "calm (length (ports b)) (g1, b1)" using conf(1) by auto
  then show ?thesis using fin calm_mode [of "length (ports b)" g1 b1] by auto
qed

end
