(* ===== verification/Rstp_Run.thy ===== *)
theory Rstp_Run
  imports Rstp_Calls
begin

text \<open>
  What holds of a running engine: the properties of every state that the calls of the interface
  can lead to from the first start of an instance.
\<close>

declare change_state_loop.simps [code] update_loop.simps [code]

lemma calm_ports:
  assumes "calm n (g, b)"
  shows "list_all (\<lambda>p. (forwarding p \<longrightarrow> learning p) \<and> (forward p \<longrightarrow> learn p)
    \<and> hw_state (hal_calls g) (port_index p) = Some (port_hw_state p) \<and> txCount p \<le> TxHoldCount) (ports b)"
  using assms by (auto simp: calm_def bridge_ok_def list_all_iff hw_agrees_def port_ok_def sttrans_flags_ok_def
      wish_inv_def transmit_inv_def)


text \<open>A port is taken into the protocol, receives a BPDU, and a second passes.\<close>

definition example_start_cfg :: uid_stp_cfg_t where
  "example_start_cfg = zero_uid_cfg\<lparr> field_mask := BR_CFG_STATE, stp_enabled := STP_ENABLED \<rparr>"

definition example_start :: "(rstp_errors_t \<times> uid_stp_cfg_t \<times> iworld) option" where
  "example_start = STP_IN_stpm_set_cfg example_env zero_uid_cfg 0 (Some 1) example_start_cfg (init_glob, [])"

definition example_calls :: "call list" where
  "example_calls =
     [Set_port 0 (zero_port_cfg\<lparr> pt_field_mask := PT_CFG_NON_STP, pt_port_bmp := 1 \<rparr>),
      Receive 0 1 init_bpdu_packet, Second]"

definition example_end :: "iworld option" where
  "example_end = (case example_start of None \<Rightarrow> None
     | Some (rc, c, w) \<Rightarrow> if rc = STP_OK then in_turn (do_call example_env) example_calls w else None)"

lemma example_end_state:
  "map_option (\<lambda>(g, bs). map (\<lambda>b. map (\<lambda>p. (role p, learning p, forwarding p)) (ports b)) bs) example_end
     = Some [[(DesignatedPort, True, False)]]"
  by code_simp



definition example_bridge_1 :: stpm_t where
  "example_bridge_1 = apply_cfg (STP_OUT_get_init_stpm_cfg zero_uid_cfg)
     (the (create_ports 3 [1..4] (STP_stpm_create example_env 0 (Some ''Vlan0'') init_glob)))"


end
