(* ===== verification/Rstp_Wire.thy ===== *)
theory Rstp_Wire
  imports Rstp_In
begin

text \<open>
  From one bridge to the next: what the transmit machine of a port hands to the driver, read at
  the other end through \<^verbatim>\<open>BPDU_T*\<close>, passes the header check and arrives as it was sent.
\<close>

text \<open>The static packet: the fields that no function writes after the initialiser.\<close>

definition packet_ok :: "stp_bpdu_t \<Rightarrow> bool" where
  "packet_ok pkt \<longleftrightarrow> wf_bpdu pkt \<and> dsap (eth pkt) = BPDU_L_SAP \<and> ssap (eth pkt) = BPDU_L_SAP
     \<and> llc (eth pkt) = LLC_UI \<and> protocol (hdr pkt) = 0"

lemma packet_ok_init: "packet_ok init_bpdu_packet"
  by (simp add: packet_ok_def init_bpdu_packet_def wf_bpdu_def wf_body_def)

lemma packet_ok_tx:
  assumes "packet_ok (bpdu_packet g)" "length (rstp_dev_mac g) = 6" "wf_body bd"
  shows "packet_ok (tx_packet type ver len bd g)"
  using assms wf_tx_packet [of g bd type ver len] by (simp add: packet_ok_def tx_packet_def)

definition sent_frame :: "env \<Rightarrow> stp_bpdu_t \<Rightarrow> u8 list" where
  "sent_frame e pkt = take 64 (bpdu_bytes pkt @ mem_after_bpdu_packet e)"

lemma read_sent_frame: "packet_ok pkt \<Longrightarrow> bpdu_of_bytes (sent_frame e pkt) = pkt"
  using length_bpdu_bytes [of pkt] bpdu_of_bpdu_bytes [of pkt]
  by (simp add: packet_ok_def sent_frame_def sizeof_defs)

lemma length_sent_frame:
  "packet_ok pkt \<Longrightarrow> 10 \<le> length (mem_after_bpdu_packet e) \<Longrightarrow> length (sent_frame e pkt) = 64"
  using length_bpdu_bytes [of pkt] by (simp add: packet_ok_def sent_frame_def sizeof_defs)

lemma header_accepted:
  assumes "packet_ok pkt" "len8023 (eth pkt) = store16 len" "len \<in> {7, 38, 40}" "n = 64"
  shows "STP_IN_check_bpdu_header pkt n = STP_OK"
  using assms by (auto simp: STP_IN_check_bpdu_header_def packet_ok_def byte_order MIN_BPDU_def Let_def)

text \<open>
  The contract of the three transmit functions: a port that sends adds one frame to the calls of
  the driver, leaves the static packet fit for the next one, and the frame, read back, is a BPDU
  the receiver's header check accepts.
\<close>

locale transmitter =
  fixes tx :: "env \<Rightarrow> stpm_t \<Rightarrow> glob \<Rightarrow> port_t \<Rightarrow> int \<times> pworld" and type ver :: u8 and len :: u16
    and bd :: "port_t \<Rightarrow> bpdu_body_t \<Rightarrow> bpdu_body_t"
  assumes sends: "skip_tx p = 0 \<Longrightarrow> \<not> admin_non_stp p \<Longrightarrow>
      snd (tx e b g p) = (send_packet e p (tx_packet type ver len (bd p (body (bpdu_packet g))) g) g, p)"
    and len: "len \<in> {7, 38, 40}"
    and wf: "wf_vector (portPrio p) \<Longrightarrow> wf_body c \<Longrightarrow> wf_body (bd p c)"
begin

lemma frame:
  assumes "skip_tx p = 0" "\<not> admin_non_stp p" "wf_vector (portPrio p)" "packet_ok (bpdu_packet g)"
    "length (rstp_dev_mac g) = 6" "10 \<le> length (mem_after_bpdu_packet e)" "tx e b g p = (r, (g', p'))"
  obtains f where "hal_calls g' = hal_calls g @ [Eopl_send_to_down_link (port_index p) f]"
    "length f = 64" "packet_ok (bpdu_packet g')"
    "STP_IN_check_bpdu_header (bpdu_of_bytes f) (length f) = STP_OK"
    "bpdu_type (hdr (bpdu_of_bytes f)) = type"
    "body (bpdu_of_bytes f) = bd p (body (bpdu_packet g))"
proof -
  define pkt where "pkt = tx_packet type ver len (bd p (body (bpdu_packet g))) g"
  have ok: "packet_ok pkt"
    unfolding pkt_def using assms(3-5) wf by (intro packet_ok_tx) (simp_all add: packet_ok_def wf_bpdu_def)
  have g': "g' = send_packet e p pkt g" using sends [OF assms(1,2), of e b g] assms(7) by (simp add: pkt_def)
  have f: "length (sent_frame e pkt) = 64" "bpdu_of_bytes (sent_frame e pkt) = pkt"
    using length_sent_frame [OF ok assms(6)] read_sent_frame [OF ok] by simp_all
  have fields: "len8023 (eth pkt) = store16 len" "bpdu_type (hdr pkt) = type" "body pkt = bd p (body (bpdu_packet g))"
    by (simp_all add: pkt_def tx_packet_def)
  have sent: "hal_calls g' = hal_calls g @ [Eopl_send_to_down_link (port_index p) (sent_frame e pkt)]"
    "bpdu_packet g' = pkt"
    by (simp_all add: g' send_packet_def sent_frame_def)
  have "STP_IN_check_bpdu_header pkt 64 = STP_OK" using header_accepted [OF ok fields(1) len] by simp
  then show thesis using ok f fields(2,3) sent by (intro that [of "sent_frame e pkt"]) simp_all
qed

end

interpretation rst: transmitter txRstp BPDU_RSTP BPDU_VERSION_RAPID_ID 40 "\<lambda>p. tx_body (rstp_flags p) p"
  by unfold_locales (simp_all add: txRstp_sends wf_tx_body)

interpretation conf: transmitter txConfig BPDU_CONFIG_TYPE BPDU_VERSION_ID 38 "\<lambda>p. tx_body (tx_flags True p) p"
  by unfold_locales (simp_all add: txConfig_sends wf_tx_body)

interpretation tcn: transmitter txTcn BPDU_TOPO_CHANGE_TYPE BPDU_VERSION_ID 7 "\<lambda>p c. c"
  by unfold_locales (simp_all add: txTcn_sends)

lemma copy_msg_body:
  assumes "body bpdu = tx_body fl p c" "wf_vector (portPrio p)" "times_fit (portTimes p)"
  shows "msgPrio (copy_msg bpdu q) = (portPrio p)\<lparr> bridge_port := port_id q \<rparr>"
    "msgTimes (copy_msg bpdu q) = portTimes p" "msgFlags (copy_msg bpdu q) = fl"
    "msgBpduType (copy_msg bpdu q) = bpdu_type (hdr bpdu)" "rcvdBpdu (copy_msg bpdu q) = rcvdBpdu q"
  using assms by (simp_all add: copy_msg_def tx_body_def get_set_vector get_set_times Let_def)

subsection \<open>Properties\<close>

text \<open>C5: an RST BPDU that a port sends reaches the driver as one frame of 64 bytes, passes the header
  check of a receiver that reads it through \<^verbatim>\<open>BPDU_T*\<close>, and gives the receiving port exactly the
  priority vector (with its own identifier as the receiving port), the times and the flags of the
  sender, provided every time is below 256 seconds.\<close>

theorem rst_bpdu_received_as_sent:
  assumes "skip_tx p = 0" "\<not> admin_non_stp p" "wf_vector (portPrio p)" "times_fit (portTimes p)"
    "packet_ok (bpdu_packet g)" "length (rstp_dev_mac g) = 6" "10 \<le> length (mem_after_bpdu_packet e)"
    "txRstp e b g p = (r, (g', p'))" "\<not> admin_non_stp q" "NORMAL_RSTP \<le> ForceVersion b'"
  shows "\<exists>f. hal_calls g' = hal_calls g @ [Eopl_send_to_down_link (port_index p) f] \<and> length f = 64
    \<and> STP_IN_check_bpdu_header (bpdu_of_bytes f) (length f) = STP_OK
    \<and> (let q' = STP_info_rx_bpdu b' (bpdu_of_bytes f) q
       in rcvdBpdu q' \<and> msgBpduType q' = BPDU_RSTP
          \<and> msgPrio q' = (portPrio p)\<lparr> bridge_port := port_id q \<rparr>
          \<and> msgTimes q' = portTimes p \<and> msgFlags q' = rstp_flags p)"
proof -
  obtain f where f: "hal_calls g' = hal_calls g @ [Eopl_send_to_down_link (port_index p) f]" "length f = 64"
    "STP_IN_check_bpdu_header (bpdu_of_bytes f) (length f) = STP_OK"
    "bpdu_type (hdr (bpdu_of_bytes f)) = BPDU_RSTP"
    "body (bpdu_of_bytes f) = tx_body (rstp_flags p) p (body (bpdu_packet g))"
    using rst.frame [OF assms(1-3) assms(5-8)] by blast
  note msg = copy_msg_body [OF f(5) assms(3,4)]
  show ?thesis
    using f(1-4) assms(9,10) by (intro exI [of _ f]) (simp add: STP_info_rx_bpdu_def msg bpdu_consts Let_def)
qed

text \<open>The sender and receiver of the example.\<close>

definition example_sender :: port_t where
  "example_sender = zero_port\<lparr> port_index := 3, selectedRole := DesignatedPort, proposing := True,
     portPrio := STP_VECT_create (example_bridge 0x8000 1) 20000 (example_bridge 0x9000 2) 0x8003 0x8003,
     portTimes := \<lparr> MessageAge = 1, MaxAge = 20, ForwardDelay = 15, HelloTime = 2 \<rparr> \<rparr>"

theorem rst_bpdu_received_as_sent_witness:
  "let g = init_glob; q = zero_port\<lparr> port_id := 0x8001 \<rparr>;
       g' = fst (snd (txRstp example_env zero_stpm g example_sender))
   in \<exists>f. hal_calls g' = [Eopl_send_to_down_link 3 f]
      \<and> (let q' = STP_info_rx_bpdu (zero_stpm\<lparr> ForceVersion := 2 \<rparr>) (bpdu_of_bytes f) q
         in msgPrio q' = STP_VECT_create (example_bridge 0x8000 1) 20000 (example_bridge 0x9000 2) 0x8003 0x8001
            \<and> MaxAge (msgTimes q') = 20 \<and> msgFlags q' = 0x0E)"
proof -
  let ?p = example_sender
  have p: "skip_tx ?p = 0" "\<not> admin_non_stp ?p" "wf_vector (portPrio ?p)" "times_fit (portTimes ?p)"
    "port_index ?p = 3" "rstp_flags ?p = 0x0E" "MaxAge (portTimes ?p) = 20"
    "(portPrio ?p)\<lparr> bridge_port := 0x8001 \<rparr> =
      STP_VECT_create (example_bridge 0x8000 1) 20000 (example_bridge 0x9000 2) 0x8003 0x8001"
    by (simp_all add: example_sender_def zero_port_def wf_vector_def wf_bridge_id_def STP_VECT_create_def
        example_bridge_def times_fit_def rstp_flags_def tx_flags_def role_bits_def bpdu_consts)
  have g: "packet_ok (bpdu_packet init_glob)" "length (rstp_dev_mac init_glob) = 6" "hal_calls init_glob = []"
    "10 \<le> length (mem_after_bpdu_packet example_env)"
    using packet_ok_init by (simp_all add: init_glob_def example_env_def)
  obtain r g' p' where run: "txRstp example_env zero_stpm init_glob ?p = (r, (g', p'))" by (metis prod.exhaust)
  have "\<not> admin_non_stp (zero_port\<lparr> port_id := 0x8001 \<rparr>)" "NORMAL_RSTP \<le> ForceVersion (zero_stpm\<lparr> ForceVersion := 2 \<rparr>)"
    by (simp_all add: zero_port_def NORMAL_RSTP_def)
  from rst_bpdu_received_as_sent [OF p(1-4) g(1,2,4) run this] show ?thesis
    by (auto simp: run p g Let_def)
qed

end
