(* ===== verification/Rstp_Config.thy ===== *)
theory Rstp_Config
  imports Rstp_In
begin

text \<open>
  The configuration of an instance through \<^verbatim>\<open>STP_IN_stpm_set_cfg\<close> and \<^verbatim>\<open>STP_IN_stpm_get_cfg\<close>: what is
  accepted is stored without truncation and read back, what is refused changes nothing, and a
  request that disables the instance loses its other settings.
\<close>

lemma config_accepted:
  assumes "check_stpm_config cfg = STP_OK"
  shows "uint (word_of_int (bridge_priority cfg) :: u16) = bridge_priority cfg"
    "uint (word_of_int (cfg_max_age cfg) :: u16) = cfg_max_age cfg"
    "uint (word_of_int (cfg_hello_time cfg) :: u16) = cfg_hello_time cfg"
    "uint (word_of_int (cfg_forward_delay cfg) :: u16) = cfg_forward_delay cfg"
proof -
  have "0 \<le> bridge_priority cfg" "bridge_priority cfg \<le> 61440" "0 \<le> cfg_max_age cfg" "cfg_max_age cfg \<le> 40"
    "0 \<le> cfg_hello_time cfg" "cfg_hello_time cfg \<le> 10" "0 \<le> cfg_forward_delay cfg" "cfg_forward_delay cfg \<le> 30"
    using assms by (simp_all add: check_stpm_config_def cfg_limits split: if_splits)
  then show "uint (word_of_int (bridge_priority cfg) :: u16) = bridge_priority cfg"
    "uint (word_of_int (cfg_max_age cfg) :: u16) = cfg_max_age cfg"
    "uint (word_of_int (cfg_hello_time cfg) :: u16) = cfg_hello_time cfg"
    "uint (word_of_int (cfg_forward_delay cfg) :: u16) = cfg_forward_delay cfg"
    by (simp_all add: uint_word_of_int)
qed

text \<open>The five settings of a configuration.\<close>

definition settings :: "uid_stp_cfg_t \<Rightarrow> int \<times> int \<times> int \<times> int \<times> int" where
  "settings cfg = (bridge_priority cfg, cfg_max_age cfg, cfg_hello_time cfg, cfg_forward_delay cfg, force_version cfg)"

definition bridge_settings :: "stpm_t \<Rightarrow> int \<times> int \<times> int \<times> int \<times> int" where
  "bridge_settings b = (uint (prio (BrId b)), uint (MaxAge (BrTimes b)), uint (HelloTime (BrTimes b)),
     uint (ForwardDelay (BrTimes b)), ForceVersion b)"

text \<open>The settings asked for: the masked ones of the request, the others as they were.\<close>

definition wanted_settings :: "uid_stp_cfg_t \<Rightarrow> int \<times> int \<times> int \<times> int \<times> int \<Rightarrow> int \<times> int \<times> int \<times> int \<times> int" where
  "wanted_settings cfg = (\<lambda>(pr, age, hello, delay, ver).
     let pick = (\<lambda>bit new old. if masked bit (field_mask cfg) then new else old)
     in (pick BR_CFG_PRIO (bridge_priority cfg) pr, pick BR_CFG_AGE (cfg_max_age cfg) age,
         pick BR_CFG_HELLO (cfg_hello_time cfg) hello, pick BR_CFG_DELAY (cfg_forward_delay cfg) delay,
         pick BR_CFG_FORCE_VER (force_version cfg) ver))"

lemma settings_merge: "settings (merge_cfg cfg old) = wanted_settings cfg (settings old)"
  by (simp add: merge_cfg_def settings_def wanted_settings_def Let_def)

lemma get_cfg_found:
  assumes "stpapi_stpm_find vid bs = Some k"
  shows "fst (STP_IN_stpm_get_cfg vid (g, bs) cfg) = STP_OK"
    "settings (snd (STP_IN_stpm_get_cfg vid (g, bs) cfg)) = bridge_settings (bs ! k)"
  using assms by (simp_all add: STP_IN_stpm_get_cfg_def settings_def bridge_settings_def Let_def)

lemma settings_apply:
  assumes "check_stpm_config cfg = STP_OK"
  shows "bridge_settings (apply_cfg cfg (set_prio (word_of_int (bridge_priority cfg)) b)) = settings cfg"
  using config_accepted [OF assms] by (simp add: bridge_settings_def settings_def apply_cfg_def set_prio_def)

lemma check_settings: "settings a = settings b \<Longrightarrow> check_stpm_config a = check_stpm_config b"
  by (simp add: settings_def check_stpm_config_def)

lemma settings_reselect: "bridge_settings (STP_stpm_update_after_bridge_management b) = bridge_settings b"
  by (simp add: bridge_settings_def STP_stpm_update_after_bridge_management_def)

lemma find_upd:
  assumes "stpapi_stpm_find vid bs = Some k" "\<And>b. vlan_id (f b) = vlan_id b"
  shows "stpapi_stpm_find vid (upd_at k f bs) = Some k"
  using assms(1) unfolding stpapi_stpm_find_def
proof (induction bs arbitrary: k)
  case (Cons b bs)
  then show ?case using assms(2) by (cases k) (auto simp: upd_at_def split: if_splits)
qed simp

lemma set_prio_back: "set_prio (prio (BrId b)) (set_prio x b) = b"
  by (simp add: set_prio_def)

text \<open>
  The change of the settings of an instance that exists: refused by the check of the values,
  refused because another enabled instance has the identifier, or done.
\<close>

definition setting_done :: "uid_stp_cfg_t \<Rightarrow> stpm_t \<Rightarrow> stpm_t" where
  "setting_done old b = (let b = apply_cfg old (set_prio (word_of_int (bridge_priority old)) b)
     in if admin_state b \<noteq> STP_DISABLED then STP_stpm_update_after_bridge_management b else b)"

lemma set_rest_found:
  assumes "stpapi_stpm_find vid bs = Some k" "\<not> masked BR_CFG_STATE (field_mask cfg)"
    "set_cfg_rest e vid bmp cfg old (g, bs) = Some (rc, w')"
  shows "if rc = STP_OK then w' = (g, upd_at k (setting_done old) bs) else w' = (g, bs)"
proof -
  have k: "k < length bs" using assms(1) index_where_Some [of _ bs k] by (auto simp: stpapi_stpm_find_def)
  have undo: "upd_at k (set_prio (prio (BrId (bs ! k)))) (upd_at k (set_prio x) bs) = bs" for x
    using k by (simp add: upd_at_def set_prio_back)
  have adm: "admin_state (apply_cfg old b) = admin_state b" "admin_state (set_prio x b) = admin_state b" for b x
    by (simp_all add: apply_cfg_def set_prio_def)
  show ?thesis
    using assms k undo
    by (auto simp: set_cfg_rest_def Let_def setting_done_def upd_at_def adm split: if_splits)
qed

lemma set_cfg_found:
  assumes "stpapi_stpm_find vid bs = Some k" "\<not> masked BR_CFG_STATE (field_mask cfg)"
    "STP_IN_stpm_set_cfg e garbage vid bmp cfg (g, bs) = Some (rc, cfg', (g', bs'))"
  defines "old \<equiv> merge_cfg cfg (snd (STP_IN_stpm_get_cfg vid (g, bs) garbage))"
  shows "if rc = STP_OK then check_stpm_config old = STP_OK \<and> bs' = upd_at k (setting_done old) bs else bs' = bs"
proof -
  let ?w = "(INCR100 (g\<lparr> tev := RSTP_PORT_MNGR_T \<rparr>), bs)"
  obtain rc0 old0 where get: "STP_IN_stpm_get_cfg vid (g, bs) garbage = (rc0, old0)" by fastforce
  have "rc0 = STP_OK" using get_cfg_found(1) [OF assms(1), of g garbage] by (simp add: get)
  then have "(check_stpm_config old \<noteq> STP_OK \<and> rc = check_stpm_config old \<and> bs' = bs)
    \<or> (check_stpm_config old = STP_OK \<and> set_cfg_rest e vid bmp cfg old ?w = Some (rc, (g', bs')))"
    using assms(2,3) by (auto simp: STP_IN_stpm_set_cfg_def get old_def Let_def split: if_splits)
  then show ?thesis using set_rest_found [OF assms(1,2), of e bmp old _ rc "(g', bs')"] by (auto split: if_splits)
qed

lemma set_cfg_settings:
  assumes "stpapi_stpm_find vid bs = Some k" "\<not> masked BR_CFG_STATE (field_mask cfg)"
    "STP_IN_stpm_set_cfg e garbage vid bmp cfg (g, bs) = Some (rc, cfg', (g', bs'))"
  shows "if rc = STP_OK
    then settings (snd (STP_IN_stpm_get_cfg vid (g', bs') garbage'))
           = wanted_settings cfg (settings (snd (STP_IN_stpm_get_cfg vid (g, bs) garbage)))
         \<and> check_stpm_config (snd (STP_IN_stpm_get_cfg vid (g', bs') garbage')) = STP_OK
    else bs' = bs"
proof (cases "rc = STP_OK")
  case True
  define old where "old = merge_cfg cfg (snd (STP_IN_stpm_get_cfg vid (g, bs) garbage))"
  have ok: "check_stpm_config old = STP_OK" and bs': "bs' = upd_at k (setting_done old) bs"
    using set_cfg_found [OF assms] True by (simp_all add: old_def)
  have k: "k < length bs" using assms(1) index_where_Some [of _ bs k] by (auto simp: stpapi_stpm_find_def)
  have "vlan_id (setting_done old b) = vlan_id b" for b
    by (simp add: setting_done_def apply_cfg_def set_prio_def STP_stpm_update_after_bridge_management_def Let_def)
  from find_upd [OF assms(1) this] have "stpapi_stpm_find vid bs' = Some k" by (simp add: bs')
  from get_cfg_found(2) [OF this, of g' garbage']
  have "settings (snd (STP_IN_stpm_get_cfg vid (g', bs') garbage')) = bridge_settings (setting_done old (bs ! k))"
    using k by (simp add: bs')
  also have "\<dots> = settings old"
    using settings_apply [OF ok, of "bs ! k"] settings_reselect by (simp add: setting_done_def Let_def)
  finally have eq: "settings (snd (STP_IN_stpm_get_cfg vid (g', bs') garbage')) = settings old" .
  show ?thesis using True eq check_settings [OF eq] ok by (simp add: old_def settings_merge)
qed (use set_cfg_found [OF assms] in simp)

text \<open>Without a change of state, the call always returns.\<close>

lemma set_cfg_returns:
  assumes "stpapi_stpm_find vid bs = Some k" "\<not> masked BR_CFG_STATE (field_mask cfg)"
  shows "\<exists>rc cfg' g' bs'. STP_IN_stpm_set_cfg e garbage vid bmp cfg (g, bs) = Some (rc, cfg', (g', bs'))"
proof -
  have "set_cfg_rest e vid bmp cfg old (g', bs) \<noteq> None" for old g'
    using assms by (simp add: set_cfg_rest_def Let_def)
  then show ?thesis using assms(2) by (auto simp: STP_IN_stpm_set_cfg_def Let_def split: prod.split)
qed

lemma set_cfg_disables:
  assumes "stpapi_stpm_find vid bs = Some k" "masked BR_CFG_STATE (field_mask cfg)" "stp_enabled cfg = STP_DISABLED"
    "check_stpm_config (merge_cfg cfg (snd (STP_IN_stpm_get_cfg vid (g, bs) garbage))) = STP_OK"
  shows "\<exists>g' cfg'. STP_IN_stpm_set_cfg e garbage vid bmp cfg (g, bs) =
    Some (STP_OK, cfg', (g', upd_at k (\<lambda>b. b\<lparr> admin_state := STP_DISABLED \<rparr>) bs))"
proof -
  obtain rc0 old0 where get: "STP_IN_stpm_get_cfg vid (g, bs) garbage = (rc0, old0)" by fastforce
  have "rc0 = STP_OK" using get_cfg_found(1) [OF assms(1), of g garbage] by (simp add: get)
  moreover have "and (field_mask cfg) (lnot BR_CFG_STATE) = 0" by (simp add: lnot_def BR_CFG_STATE_def)
  moreover have "admin_state (bs ! k) = STP_DISABLED \<Longrightarrow>
      upd_at k (\<lambda>b. b\<lparr> admin_state := STP_DISABLED \<rparr>) bs = bs"
    by (metis (mono_tags, lifting) list_update_id stpm_t.surjective stpm_t.update_convs(11) upd_at_def)
  ultimately show ?thesis
    using assms by (auto simp: STP_IN_stpm_set_cfg_def get Let_def stp_in_stpm_enable_def STP_stpm_enable_def
        STP_stpm_stop_def set_admin_state_def split: if_splits)
qed

subsection \<open>Properties\<close>


text \<open>An instance of the example with the default configuration.\<close>

definition example_instance :: stpm_t where
  "example_instance = apply_cfg (STP_OUT_get_init_stpm_cfg zero_uid_cfg) (set_prio 0x8000 zero_stpm)"


text \<open>A configuration that disables an existing instance takes effect on the administrative state
  alone: every other setting it carries is dropped without an error, because the mask is combined
  with the logical and not the bitwise negation of the state bit.\<close>

theorem disabling_drops_other_settings:
  assumes "stpapi_stpm_find vid bs = Some k" "masked BR_CFG_STATE (field_mask cfg)" "stp_enabled cfg = STP_DISABLED"
    "check_stpm_config (merge_cfg cfg (snd (STP_IN_stpm_get_cfg vid (g, bs) garbage))) = STP_OK"
  shows "\<exists>g' cfg'. STP_IN_stpm_set_cfg e garbage vid bmp cfg (g, bs) =
    Some (STP_OK, cfg', (g', upd_at k (\<lambda>b. b\<lparr> admin_state := STP_DISABLED \<rparr>) bs))"
  using set_cfg_disables [OF assms] .

theorem disabling_drops_other_settings_witness:
  "\<exists>g' cfg'. STP_IN_stpm_set_cfg example_env zero_uid_cfg 0 None
      (zero_uid_cfg\<lparr> field_mask := or BR_CFG_STATE BR_CFG_HELLO, stp_enabled := STP_DISABLED, cfg_hello_time := 3 \<rparr>)
      (init_glob, [example_instance\<lparr> admin_state := STP_ENABLED \<rparr>])
    = Some (STP_OK, cfg', (g', [example_instance\<lparr> admin_state := STP_DISABLED \<rparr>]))"
proof -
  let ?cfg = "zero_uid_cfg\<lparr> field_mask := or BR_CFG_STATE BR_CFG_HELLO, stp_enabled := STP_DISABLED, cfg_hello_time := 3 \<rparr>"
  let ?bs = "[example_instance\<lparr> admin_state := STP_ENABLED \<rparr>]"
  have "stpapi_stpm_find 0 ?bs = Some 0" "masked BR_CFG_STATE (field_mask ?cfg)" "stp_enabled ?cfg = STP_DISABLED"
    "check_stpm_config (merge_cfg ?cfg (snd (STP_IN_stpm_get_cfg 0 (init_glob, ?bs) zero_uid_cfg))) = STP_OK"
    by code_simp+
  from disabling_drops_other_settings [OF this, of example_env None] show ?thesis by (simp add: upd_at_def)
qed

end
