(* ===== verification/Vos_Hash.thy ===== *)
theory Vos_Hash
  imports Rstp_Prelude
begin

unbundle bit_operations_syntax

text \<open>
  The hash table of the virtual OS layer (\<^verbatim>\<open>vos/linux/src/vos_hash.c\<close>): an array of chains that is
  rebuilt with a larger prime size when three quarters of the buckets are in use. A chain is a
  list; the pointers of an entry are the key and the datum themselves, and destroying an entry
  frees memory only. \<open>None\<close> is the call of \<^verbatim>\<open>abort()\<close> when the table of primes is used up.
\<close>

record ('k, 'd) hash_table =
  getHash :: "'k \<Rightarrow> u32"
  compare :: "'k \<Rightarrow> 'k \<Rightarrow> bool"
  items :: int
  hashSize :: int
  hcount :: int
  resizeThreshold :: int
  primeOffset :: nat
  hashList :: "('k \<times> 'd) list list"

definition primes :: "int list" where
  "primes = [13, 19, 29, 41, 59, 79, 107, 149, 197, 263, 347, 457, 599, 787, 1031,
    1361, 1777, 2333, 3037, 3967, 5167, 6719, 8737, 11369, 14783,
    19219, 24989, 32491, 42257, 54941, 71429, 92861, 120721, 156941,
    204047, 265271, 344857, 448321, 582821, 757693, 985003, 1280519,
    1664681, 2164111, 2813353, 3657361, 4754591, 6180989, 8035301,
    10445899, 13579681, 17653589, 22949669, 29834603, 38784989,
    50420551, 65546729, 85210757, 110774011, 144006217, 187208107,
    243370577, 316381771, 411296309, 534685237, 695090819, 903618083,
    1174703521, 1527114613, 1837299131, 2147483647]"

definition primeSize :: "int \<Rightarrow> nat \<Rightarrow> (int \<times> nat) option" where
  "primeSize sz offset =
     map_option (\<lambda>i. (primes ! i, i + 1)) (find (\<lambda>i. primes ! i \<ge> sz) [offset..<length primes])"

text \<open>
  The string is read as an array of 16-bit words, on a big-endian processor; the terminator is
  the second half of the last word when the length is odd.
\<close>

definition str_word :: "string \<Rightarrow> nat \<Rightarrow> u16" where
  "str_word str i = push_bit 8 (of_char (str ! (2 * i)))
     OR (if 2 * i + 1 < length str then of_char (str ! (2 * i + 1)) else 0)"

definition vosStringHash :: "string \<Rightarrow> u32" where
  "vosStringHash str =
     fold (\<lambda>i ret. ret XOR push_bit (i mod 16) (ucast (str_word str i))) [0..<(length str + 1) div 2] 0"

definition vosEqualString :: "string \<Rightarrow> string \<Rightarrow> bool" where
  "vosEqualString k1 k2 \<longleftrightarrow> k1 = k2"

definition HASH_INDEX :: "'k \<Rightarrow> ('k, 'd) hash_table \<Rightarrow> nat" where
  "HASH_INDEX key tab = unat (getHash tab key mod word_of_int (hashSize tab - 1))"

text \<open>The chain with the entry of an equal key replaced; \<open>None\<close> is the answer -1.\<close>

fun hashListUpdate :: "('k \<Rightarrow> 'k \<Rightarrow> bool) \<Rightarrow> 'k \<Rightarrow> 'd \<Rightarrow> ('k \<times> 'd) list \<Rightarrow> ('k \<times> 'd) list option" where
  "hashListUpdate cmp key data [] = None"
| "hashListUpdate cmp key data ((k, d) # es) =
     (if cmp key k then Some ((key, data) # es)
      else map_option ((#) (k, d)) (hashListUpdate cmp key data es))"

text \<open>\<^verbatim>\<open>x / HASH_MAX_FULLNESS\<close> and \<^verbatim>\<open>x * HASH_MAX_FULLNESS\<close>, truncated.\<close>

definition threshold_of :: "int \<Rightarrow> int" where
  "threshold_of x = (3 * x) div 4"

definition vosHashCreate ::
    "('k \<Rightarrow> u32) \<Rightarrow> ('k \<Rightarrow> 'k \<Rightarrow> bool) \<Rightarrow> int \<Rightarrow> ('k, 'd) hash_table option" where
  "vosHashCreate keyfunc comparefunc sz =
     (case primeSize (1 + (4 * sz) div 3) 0 of
        None \<Rightarrow> None
      | Some (primesize, offset) \<Rightarrow>
          Some \<lparr> getHash = keyfunc, compare = comparefunc, items = 0, hashSize = primesize, hcount = 0,
                 resizeThreshold = threshold_of primesize, primeOffset = offset,
                 hashList = replicate (nat primesize) [] \<rparr>)"

text \<open>
  \<^verbatim>\<open>hashResize\<close> with the insertion it calls: every chain is reinserted, its first entry last. The
  doubled size is a C \<^verbatim>\<open>int\<close>.
\<close>

definition resize_order :: "('k \<times> 'd) list list \<Rightarrow> ('k \<times> 'd) list" where
  "resize_order bs = concat (map (\<lambda>b. case b of [] \<Rightarrow> [] | e # es \<Rightarrow> es @ [e]) bs)"

definition c_int :: "int \<Rightarrow> int" where
  "c_int x = sint (word_of_int x :: u32)"

fun insert_list ::
    "('k \<Rightarrow> 'd \<Rightarrow> ('k, 'd) hash_table \<Rightarrow> ('k, 'd) hash_table option) \<Rightarrow> ('k \<times> 'd) list
       \<Rightarrow> ('k, 'd) hash_table \<Rightarrow> ('k, 'd) hash_table option" where
  "insert_list ins [] tab = Some tab"
| "insert_list ins ((k, d) # es) tab = (case ins k d tab of None \<Rightarrow> None | Some tab \<Rightarrow> insert_list ins es tab)"

definition hashResize ::
    "('k \<Rightarrow> 'd \<Rightarrow> ('k, 'd) hash_table \<Rightarrow> ('k, 'd) hash_table option) \<Rightarrow> ('k, 'd) hash_table
       \<Rightarrow> ('k, 'd) hash_table option" where
  "hashResize ins tab =
     (case primeSize (c_int (hashSize tab * 2)) (primeOffset tab) of
        None \<Rightarrow> None
      | Some (newsize, offset) \<Rightarrow>
          insert_list ins (resize_order (hashList tab))
            (tab\<lparr> hashSize := newsize, primeOffset := offset, resizeThreshold := threshold_of newsize,
                  hashList := replicate (nat newsize) [], hcount := 0, items := 0 \<rparr>))"

definition hash_append :: "'k \<Rightarrow> 'd \<Rightarrow> ('k, 'd) hash_table \<Rightarrow> ('k, 'd) hash_table" where
  "hash_append key data tab =
     (let index = HASH_INDEX key tab;
          l = hashList tab ! index
      in tab\<lparr> hashList := (hashList tab)[index := l @ [(key, data)]],
             items := (if l = [] then items tab + 1 else items tab), hcount := hcount tab + 1 \<rparr>)"

text \<open>
  \<^verbatim>\<open>vosHashInsert\<close> and \<^verbatim>\<open>hashResize\<close> call each other. Every call of \<^verbatim>\<open>hashResize\<close> moves on in the table
  of 71 primes or aborts, so a nesting of 72 insertions is enough (lemma \<open>hash_insert_fuel\<close>).
\<close>

primrec hash_insert :: "nat \<Rightarrow> 'k \<Rightarrow> 'd \<Rightarrow> ('k, 'd) hash_table \<Rightarrow> ('k, 'd) hash_table option" where
  "hash_insert 0 key data tab = None"
| "hash_insert (Suc n) key data tab =
     (let index = HASH_INDEX key tab
      in case hashListUpdate (compare tab) key data (hashList tab ! index) of
           Some l \<Rightarrow> Some (tab\<lparr> hashList := (hashList tab)[index := l] \<rparr>)
         | None \<Rightarrow>
             (case (if items tab \<ge> resizeThreshold tab then hashResize (hash_insert n) tab else Some tab) of
                None \<Rightarrow> None
              | Some tab \<Rightarrow> Some (hash_append key data tab)))"

definition vosHashInsert :: "'k \<Rightarrow> 'd \<Rightarrow> ('k, 'd) hash_table \<Rightarrow> ('k, 'd) hash_table option" where
  "vosHashInsert key data tab = hash_insert (length primes + 1) key data tab"

fun remove_later :: "('k \<Rightarrow> 'k \<Rightarrow> bool) \<Rightarrow> 'k \<Rightarrow> ('k \<times> 'd) list \<Rightarrow> ('k \<times> 'd) list option" where
  "remove_later cmp key [] = None"
| "remove_later cmp key ((k, d) # es) =
     (if cmp k key then Some es else map_option ((#) (k, d)) (remove_later cmp key es))"

definition vosHashRemove :: "'k \<Rightarrow> ('k, 'd) hash_table \<Rightarrow> ('k, 'd) hash_table" where
  "vosHashRemove key tab =
     (let index = HASH_INDEX key tab
      in case hashList tab ! index of
           [] \<Rightarrow> tab
         | (k, d) # es \<Rightarrow>
             if compare tab k key
             then tab\<lparr> hashList := (hashList tab)[index := es], items := items tab - 1, hcount := hcount tab - 1 \<rparr>
             else (case remove_later (compare tab) key es of
                     None \<Rightarrow> tab
                   | Some es' \<Rightarrow> tab\<lparr> hashList := (hashList tab)[index := (k, d) # es'], hcount := hcount tab - 1 \<rparr>))"

definition vosHashValue :: "'k \<Rightarrow> ('k, 'd) hash_table \<Rightarrow> 'd option" where
  "vosHashValue key tab = map_option snd (find (\<lambda>e. compare tab key (fst e)) (hashList tab ! HASH_INDEX key tab))"

text \<open>A change made through the pointer that \<^verbatim>\<open>vosHashValue\<close> has returned.\<close>

definition hash_change :: "'k \<Rightarrow> ('d \<Rightarrow> 'd) \<Rightarrow> ('k, 'd) hash_table \<Rightarrow> ('k, 'd) hash_table" where
  "hash_change key f tab = tab\<lparr> hashList := upd_at (HASH_INDEX key tab)
     (map (\<lambda>(k, d). (k, if compare tab key k then f d else d))) (hashList tab) \<rparr>"

text \<open>A callback that changes the datum of an entry in place, with what else it changes.\<close>

fun each_entry :: "('k \<Rightarrow> 'd \<Rightarrow> 'w \<Rightarrow> 'd \<times> 'w) \<Rightarrow> ('k \<times> 'd) list \<Rightarrow> 'w \<Rightarrow> ('k \<times> 'd) list \<times> 'w" where
  "each_entry cb [] w = ([], w)"
| "each_entry cb ((k, d) # es) w = (let (d', w) = cb k d w; (es, w) = each_entry cb es w in ((k, d') # es, w))"

fun each_chain ::
    "('k \<Rightarrow> 'd \<Rightarrow> 'w \<Rightarrow> 'd \<times> 'w) \<Rightarrow> ('k \<times> 'd) list list \<Rightarrow> 'w \<Rightarrow> ('k \<times> 'd) list list \<times> 'w" where
  "each_chain cb [] w = ([], w)"
| "each_chain cb (b # bs) w = (let (b, w) = each_entry cb b w; (bs, w) = each_chain cb bs w in (b # bs, w))"

definition vosHashForEachDo ::
    "('k, 'd) hash_table \<Rightarrow> ('k \<Rightarrow> 'd \<Rightarrow> 'w \<Rightarrow> 'd \<times> 'w) \<Rightarrow> 'w \<Rightarrow> ('k, 'd) hash_table \<times> 'w" where
  "vosHashForEachDo tab cb w = (let (bs, w) = each_chain cb (hashList tab) w in (tab\<lparr> hashList := bs \<rparr>, w))"

definition vosHashClear :: "('k, 'd) hash_table \<Rightarrow> ('k, 'd) hash_table" where
  "vosHashClear tab =
     (if hcount tab = 0 then tab
      else tab\<lparr> hashList := map (\<lambda>_. []) (hashList tab), hcount := 0, items := 0 \<rparr>)"

definition vosHashValueGetByIndex :: "nat \<Rightarrow> ('k, 'd) hash_table \<Rightarrow> ('k \<times> 'd) option" where
  "vosHashValueGetByIndex index tab =
     (if index \<ge> nat (hcount tab) then None
      else let es = concat (hashList tab) in if index < length es then Some (es ! index) else None)"

definition vosHashSize :: "('k, 'd) hash_table \<Rightarrow> int" where "vosHashSize tab = hashSize tab"
definition vosHashCount :: "('k, 'd) hash_table \<Rightarrow> int" where "vosHashCount tab = hcount tab"
definition vosHashItems :: "('k, 'd) hash_table \<Rightarrow> int" where "vosHashItems tab = items tab"

subsection \<open>The invariant\<close>

definition hash_ok :: "('k, 'd) hash_table \<Rightarrow> bool" where
  "hash_ok tab \<longleftrightarrow> compare tab = (=) \<and> 0 < primeOffset tab \<and> primeOffset tab \<le> length primes
     \<and> hashSize tab = primes ! (primeOffset tab - 1) \<and> resizeThreshold tab = threshold_of (hashSize tab)
     \<and> length (hashList tab) = nat (hashSize tab)
     \<and> (\<forall>i<length (hashList tab). distinct (map fst (hashList tab ! i))
          \<and> (\<forall>e\<in>set (hashList tab ! i). HASH_INDEX (fst e) tab = i))
     \<and> hcount tab = int (length (concat (hashList tab)))
     \<and> items tab \<le> int (length (filter (\<lambda>b. b \<noteq> []) (hashList tab)))"

definition hash_map :: "('k, 'd) hash_table \<Rightarrow> 'k \<Rightarrow> 'd option" where
  "hash_map tab k = vosHashValue k tab"

lemma length_primes [simp]: "length primes = 71"
  by (simp add: primes_def)

lemma primes_range:
  assumes "i < 71"
  shows "13 \<le> primes ! i" "primes ! i \<le> 2147483647"
proof -
  have "list_all (\<lambda>p. 13 \<le> p \<and> p \<le> 2147483647) primes" by (simp add: primes_def)
  then show "13 \<le> primes ! i" "primes ! i \<le> 2147483647" using assms by (simp_all add: list_all_length)
qed

lemma primeSize_Some: "primeSize sz off = Some (p, off') \<Longrightarrow> off < off' \<and> off' \<le> 71 \<and> p = primes ! (off' - 1)"
  by (auto simp: primeSize_def find_Some_iff)

lemma primeSize_exists:
  assumes "off < 71" "sz \<le> 2147483647"
  shows "\<exists>r. primeSize sz off = Some r"
proof -
  have "primes ! 70 \<ge> sz" using assms(2) by (simp add: primes_def)
  then have "find (\<lambda>i. primes ! i \<ge> sz) [off..<71] \<noteq> None"
    using assms(1) by (auto simp: find_None_iff intro!: exI [of _ 70])
  then show ?thesis by (auto simp: primeSize_def)
qed

lemma c_int_le: "c_int x \<le> 2147483647"
  using sint_lt [of "word_of_int x :: u32"] by (simp add: c_int_def)

lemma hash_okD:
  assumes "hash_ok tab"
  shows "compare tab = (=)" "13 \<le> hashSize tab" "hashSize tab \<le> 2147483647" "length (hashList tab) = nat (hashSize tab)"
    "i < nat (hashSize tab) \<Longrightarrow> distinct (map fst (hashList tab ! i))"
    "i < nat (hashSize tab) \<Longrightarrow> e \<in> set (hashList tab ! i) \<Longrightarrow> HASH_INDEX (fst e) tab = i"
  using assms primes_range [of "primeOffset tab - 1"] by (auto simp: hash_ok_def)

lemma HASH_INDEX_less:
  assumes "hash_ok tab"
  shows "HASH_INDEX k tab < nat (hashSize tab)"
proof -
  note sz = hash_okD(2,3) [OF assms]
  have "uint (word_of_int (hashSize tab - 1) :: u32) = hashSize tab - 1"
    using sz unfolding uint_word_of_int by simp
  then have u: "unat (word_of_int (hashSize tab - 1) :: u32) = nat (hashSize tab - 1)"
    by (metis nat_uint_eq)
  have "unat (getHash tab k) mod nat (hashSize tab - 1) < nat (hashSize tab - 1)" using sz by simp
  then show ?thesis using sz unfolding HASH_INDEX_def unat_mod u by linarith
qed

lemma find_map_of: "map_option snd (find (\<lambda>e. k = fst e) xs) = map_of xs k"
  by (induction xs) auto

lemma hash_map_eq: "compare tab = (=) \<Longrightarrow> hash_map tab k = map_of (hashList tab ! HASH_INDEX k tab) k"
  by (simp add: hash_map_def vosHashValue_def find_map_of)

lemma map_of_chain_in:
  "distinct (map fst xs) \<Longrightarrow> (k, d) \<in> set xs \<longleftrightarrow> map_of xs k = Some d"
  by (rule map_of_eq_Some_iff [symmetric])

text \<open>Replacing the chain of one bucket.\<close>

lemma length_concat_upd:
  "i < length xs \<Longrightarrow> length (concat (xs[i := l])) + length (xs ! i) = length (concat xs) + length l"
  by (induction xs arbitrary: i) (auto split: nat.split)

lemma length_filter_upd:
  "i < length xs \<Longrightarrow> length (filter P (xs[i := y])) + (if P (xs ! i) then 1 else 0)
     = length (filter P xs) + (if P y then 1 else 0)"
proof (induction xs arbitrary: i)
  case (Cons x xs)
  show ?case
  proof (cases i)
    case (Suc j)
    then show ?thesis using Cons.IH [of j] Cons.prems by simp
  qed simp
qed simp

definition set_chain ::
    "nat \<Rightarrow> ('k \<times> 'd) list \<Rightarrow> int \<Rightarrow> int \<Rightarrow> ('k, 'd) hash_table \<Rightarrow> ('k, 'd) hash_table" where
  "set_chain i l it c tab = tab\<lparr> hashList := (hashList tab)[i := l], items := it, hcount := c \<rparr>"

lemma hash_ok_set_chain:
  assumes "hash_ok tab" "i < nat (hashSize tab)" "distinct (map fst l)" "\<And>e. e \<in> set l \<Longrightarrow> HASH_INDEX (fst e) tab = i"
    "c = hcount tab + int (length l) - int (length (hashList tab ! i))"
    "it \<le> items tab + (if l = [] then 0 else 1) - (if hashList tab ! i = [] then 0 else 1)"
  shows "hash_ok (set_chain i l it c tab)"
    "hash_map (set_chain i l it c tab) k = (if HASH_INDEX k tab = i then map_of l k else hash_map tab k)"
proof -
  let ?t = "set_chain i l it c tab"
  have idx: "HASH_INDEX k ?t = HASH_INDEX k tab" for k by (simp add: HASH_INDEX_def set_chain_def)
  have len: "length (hashList tab) = nat (hashSize tab)" using hash_okD(4) [OF assms(1)] .
  have "int (length (concat ((hashList tab)[i := l]))) = c"
    using length_concat_upd [of i "hashList tab" l] assms(1,2,5) len by (simp add: hash_ok_def)
  moreover have "it \<le> int (length (filter (\<lambda>b. b \<noteq> []) ((hashList tab)[i := l])))"
    using length_filter_upd [of i "hashList tab" "\<lambda>b. b \<noteq> []" l] assms(1,2,6) len
    by (auto simp: hash_ok_def split: if_splits)
  moreover have "distinct (map fst ((hashList tab)[i := l] ! j)) \<and>
      (\<forall>e\<in>set ((hashList tab)[i := l] ! j). HASH_INDEX (fst e) tab = j)" if "j < nat (hashSize tab)" for j
    using that assms(3,4) hash_okD(5,6) [OF assms(1) that] len by (cases "j = i") auto
  ultimately show ok: "hash_ok ?t"
    using assms(1) len idx by (simp add: hash_ok_def) (simp add: set_chain_def)
  show "hash_map ?t k = (if HASH_INDEX k tab = i then map_of l k else hash_map tab k)"
    using hash_map_eq [OF hash_okD(1) [OF ok]] hash_map_eq [OF hash_okD(1) [OF assms(1)]] idx assms(2) len
    by (simp add: set_chain_def)
qed

text \<open>The chains of an empty table, and the two ways an insertion ends.\<close>

definition empty_chains :: "int \<Rightarrow> nat \<Rightarrow> ('k, 'd) hash_table \<Rightarrow> ('k, 'd) hash_table" where
  "empty_chains p off tab = tab\<lparr> hashSize := p, primeOffset := off, resizeThreshold := threshold_of p,
     hashList := replicate (nat p) [], hcount := 0, items := 0 \<rparr>"

lemma empty_chains_ok:
  assumes "compare tab = (=)" "primeSize sz off0 = Some (p, off)"
  shows "hash_ok (empty_chains p off tab)" "hash_map (empty_chains p off tab) = Map.empty"
    "hcount (empty_chains p off tab) = 0" "primeOffset (empty_chains p off tab) = off"
proof -
  have off: "0 < off" "off \<le> 71" "p = primes ! (off - 1)" using primeSize_Some [OF assms(2)] by auto
  then show ok: "hash_ok (empty_chains p off tab)"
    using assms(1) by (simp add: hash_ok_def empty_chains_def)
  have "hash_map (empty_chains p off tab) k = None" for k
    using hash_map_eq [OF hash_okD(1) [OF ok]] HASH_INDEX_less [OF ok, of k] by (simp add: empty_chains_def)
  then show "hash_map (empty_chains p off tab) = Map.empty" by blast
qed (simp_all add: empty_chains_def)

lemma hashListUpdate_Some:
  "hashListUpdate (=) k d l = Some l' \<Longrightarrow> map fst l' = map fst l \<and> map_of l' = (map_of l)(k \<mapsto> d) \<and> l' \<noteq> []"
proof (induction l arbitrary: l')
  case (Cons e l)
  obtain k' d' where e: "e = (k', d')" by fastforce
  then show ?case using Cons by (cases "k = k'") (auto simp: fun_upd_twist)
qed simp

lemma hashListUpdate_None: "hashListUpdate (=) k d l = None \<longleftrightarrow> k \<notin> fst ` set l"
  by (induction l) (auto split: if_splits)

lemma update_ok:
  assumes "hash_ok tab" "hashListUpdate (=) k d (hashList tab ! HASH_INDEX k tab) = Some l"
  defines "t \<equiv> tab\<lparr> hashList := (hashList tab)[HASH_INDEX k tab := l] \<rparr>"
  shows "hash_ok t" "hash_map t = (hash_map tab)(k \<mapsto> d)" "hcount t = hcount tab"
proof -
  let ?i = "HASH_INDEX k tab"
  note less = HASH_INDEX_less [OF assms(1), of k] and l = hashListUpdate_Some [OF assms(2)]
  have len: "length l = length (hashList tab ! ?i)" using l by (metis length_map)
  have keys: "HASH_INDEX (fst e) tab = ?i" if "e \<in> set l" for e
  proof -
    have "fst e \<in> fst ` set (hashList tab ! ?i)" using that l by (metis imageI set_map)
    then show ?thesis using hash_okD(6) [OF assms(1) less] by auto
  qed
  have t: "t = set_chain ?i l (items tab) (hcount tab) tab" by (simp add: t_def set_chain_def)
  have ne: "hashList tab ! ?i \<noteq> []" using l len by auto
  have "distinct (map fst l)" using hash_okD(5) [OF assms(1) less] l by simp
  note r = hash_ok_set_chain [OF assms(1) less this keys, of "hcount tab" "items tab"]
  show "hash_ok t" "hcount t = hcount tab" using r(1) len l ne by (simp_all add: t) (simp add: set_chain_def)
  show "hash_map t = (hash_map tab)(k \<mapsto> d)"
    using r(2) len l ne hash_map_eq [OF hash_okD(1) [OF assms(1)]] by (auto simp: t fun_eq_iff)
qed

lemma append_ok:
  assumes "hash_ok tab" "hash_map tab k = None"
  shows "hash_ok (hash_append k d tab)" "hash_map (hash_append k d tab) = (hash_map tab)(k \<mapsto> d)"
    "hcount (hash_append k d tab) = hcount tab + 1" "primeOffset (hash_append k d tab) = primeOffset tab"
proof -
  let ?i = "HASH_INDEX k tab"
  let ?l = "hashList tab ! ?i @ [(k, d)]"
  note less = HASH_INDEX_less [OF assms(1), of k] and mp = hash_map_eq [OF hash_okD(1) [OF assms(1)]]
  have new: "k \<notin> fst ` set (hashList tab ! ?i)" using assms(2) mp by (simp add: map_of_eq_None_iff)
  have t: "hash_append k d tab = set_chain ?i ?l
      (if hashList tab ! ?i = [] then items tab + 1 else items tab) (hcount tab + 1) tab"
    by (simp add: hash_append_def set_chain_def Let_def)
  have dist: "distinct (map fst ?l)" using hash_okD(5) [OF assms(1) less] new by simp
  have keys: "HASH_INDEX (fst e) tab = ?i" if "e \<in> set ?l" for e
    using that hash_okD(6) [OF assms(1) less, of e] by auto
  note r = hash_ok_set_chain [OF assms(1) less dist keys, of "hcount tab + 1"
      "if hashList tab ! ?i = [] then items tab + 1 else items tab"]
  show "hash_ok (hash_append k d tab)" using r(1) by (simp add: t)
  have "map_of (hashList tab ! ?i) k = None" using new by (simp add: map_of_eq_None_iff)
  then have "map_of ?l k' = (if k' = k then Some d else map_of (hashList tab ! ?i) k')" for k'
    by (simp add: map_add_def split: option.split)
  then show "hash_map (hash_append k d tab) = (hash_map tab)(k \<mapsto> d)"
    using r(2) mp by (auto simp: t fun_eq_iff)
qed (simp_all add: hash_append_def Let_def)

subsection \<open>Resizing\<close>

lemma items_le_count: "hash_ok tab \<Longrightarrow> items tab \<le> hcount tab"
proof -
  assume ok: "hash_ok tab"
  have "length (filter (\<lambda>b. b \<noteq> []) xs) \<le> length (concat xs)" for xs :: "'c list list"
    by (induction xs) (auto simp: Suc_le_eq neq_Nil_conv)
  from this [of "hashList tab"] show ?thesis using ok unfolding hash_ok_def by linarith
qed

lemma hash_map_entries:
  assumes "hash_ok tab"
  shows "hash_map tab k = Some d \<longleftrightarrow> (k, d) \<in> set (concat (hashList tab))"
proof -
  let ?i = "HASH_INDEX k tab"
  note less = HASH_INDEX_less [OF assms, of k] and len = hash_okD(4) [OF assms]
  have "hash_map tab k = Some d \<longleftrightarrow> (k, d) \<in> set (hashList tab ! ?i)"
    using hash_map_eq [OF hash_okD(1) [OF assms]] map_of_chain_in [OF hash_okD(5) [OF assms less]] by simp
  moreover have "i = ?i" if "i < nat (hashSize tab)" "(k, d) \<in> set (hashList tab ! i)" for i
    using hash_okD(6) [OF assms that] by simp
  moreover have "(k, d) \<in> set (concat (hashList tab)) \<longleftrightarrow> (\<exists>i<nat (hashSize tab). (k, d) \<in> set (hashList tab ! i))"
    by (auto simp: len in_set_conv_nth [of _ "hashList tab"]) (metis len nth_mem)
  ultimately show ?thesis using less by metis
qed

lemma distinct_concat_index:
  assumes "\<And>i. i < length bs \<Longrightarrow> distinct (map fst (bs ! i)) \<and> (\<forall>e\<in>set (bs ! i). h (fst e) = c + i)"
  shows "distinct (map fst (concat bs))"
  using assms
proof (induction bs arbitrary: c)
  case (Cons b bs)
  have tl: "distinct (map fst (bs ! i)) \<and> (\<forall>e\<in>set (bs ! i). h (fst e) = Suc c + i)" if "i < length bs" for i
    using Cons.prems [of "Suc i"] that by simp
  have "h (fst e) > c" if "e \<in> set (concat bs)" for e
    using that tl by (fastforce simp: set_concat in_set_conv_nth [of _ bs])
  moreover have "distinct (map fst b)" "\<forall>e\<in>set b. h (fst e) = c" using Cons.prems [of 0] by auto
  ultimately show ?case using Cons.IH [OF tl] by (fastforce simp: map_concat [symmetric])
qed simp

lemma hcount_card:
  assumes "hash_ok tab"
  shows "hcount tab = int (card (dom (hash_map tab)))"
proof -
  have d: "distinct (map fst (concat (hashList tab)))"
    using distinct_concat_index [of "hashList tab" "\<lambda>k. HASH_INDEX k tab" 0] hash_okD(4,5,6) [OF assms] by simp
  have "dom (hash_map tab) = fst ` set (concat (hashList tab))"
    using hash_map_entries [OF assms] by (force simp: dom_def image_iff)
  then have "card (dom (hash_map tab)) = length (concat (hashList tab))"
    using distinct_card [OF d] by (metis length_map set_map)
  then show ?thesis using assms by (simp add: hash_ok_def)
qed

definition upd_all :: "('k \<times> 'd) list \<Rightarrow> ('k \<Rightarrow> 'd option) \<Rightarrow> 'k \<Rightarrow> 'd option" where
  "upd_all es m = fold (\<lambda>e m. m(fst e \<mapsto> snd e)) es m"

lemma upd_all_functional:
  assumes "\<And>k d. (k, d) \<in> set es \<Longrightarrow> m k = Some d"
  shows "upd_all es m0 k = (if k \<in> fst ` set es then m k else m0 k)"
  using assms
proof (induction es arbitrary: m0)
  case (Cons e es)
  have "upd_all es (m0(fst e \<mapsto> snd e)) k = (if k \<in> fst ` set es then m k else (m0(fst e \<mapsto> snd e)) k)"
    using Cons.prems by (intro Cons.IH) simp
  moreover have "m (fst e) = Some (snd e)" using Cons.prems [of "fst e" "snd e"] by simp
  ultimately show ?case by (auto simp: upd_all_def)
qed (simp add: upd_all_def)

lemma resize_order_set: "set (resize_order bs) = set (concat bs)" "length (resize_order bs) = length (concat bs)"
proof -
  have "set (case b of [] \<Rightarrow> [] | e # es \<Rightarrow> es @ [e]) = set b \<and> length (case b of [] \<Rightarrow> [] | e # es \<Rightarrow> es @ [e]) = length b"
    for b :: "('a \<times> 'b) list" by (cases b) auto
  then show "set (resize_order bs) = set (concat bs)" "length (resize_order bs) = length (concat bs)"
    by (induction bs) (simp_all add: resize_order_def)
qed

text \<open>The contract of an insertion, for tables whose offset in the table of primes is at least \<open>off\<close>.\<close>

definition HASH_CAPACITY :: int where "HASH_CAPACITY = threshold_of 2147483647"

definition inserts :: "nat \<Rightarrow> ('k \<Rightarrow> 'd \<Rightarrow> ('k, 'd) hash_table \<Rightarrow> ('k, 'd) hash_table option) \<Rightarrow> bool" where
  "inserts off ins \<longleftrightarrow> (\<forall>k d t. hash_ok t \<and> off \<le> primeOffset t \<and> hcount t < HASH_CAPACITY \<longrightarrow>
     (\<exists>t'. ins k d t = Some t' \<and> hash_ok t' \<and> hash_map t' = (hash_map t)(k \<mapsto> d)
        \<and> hcount t' \<le> hcount t + 1 \<and> primeOffset t \<le> primeOffset t'))"

lemma inserts_list:
  assumes "inserts off ins" "hash_ok t" "off \<le> primeOffset t" "hcount t + int (length es) \<le> HASH_CAPACITY"
  shows "\<exists>t'. insert_list ins es t = Some t' \<and> hash_ok t' \<and> hash_map t' = upd_all es (hash_map t)
    \<and> hcount t' \<le> hcount t + int (length es) \<and> primeOffset t \<le> primeOffset t'"
  using assms(2-4)
proof (induction es arbitrary: t)
  case (Cons e es)
  obtain k d where e: "e = (k, d)" by fastforce
  obtain t1 where 1: "ins k d t = Some t1" "hash_ok t1" "hash_map t1 = (hash_map t)(k \<mapsto> d)"
    "hcount t1 \<le> hcount t + 1" "primeOffset t \<le> primeOffset t1"
    using assms(1) Cons.prems by (fastforce simp: inserts_def)
  have "hash_map t' = upd_all es (hash_map t1) \<Longrightarrow> hash_map t' = upd_all (e # es) (hash_map t)" for t'
    by (simp add: e upd_all_def 1(3))
  then show ?case using Cons.IH [OF 1(2)] 1 Cons.prems by (fastforce simp: e)
qed (simp add: upd_all_def)

lemma resize_ok:
  assumes "inserts (Suc (primeOffset t)) ins" "hash_ok t" "hcount t < HASH_CAPACITY" "resizeThreshold t \<le> items t"
  shows "\<exists>t'. hashResize ins t = Some t' \<and> hash_ok t' \<and> hash_map t' = hash_map t
    \<and> hcount t' \<le> hcount t \<and> primeOffset t \<le> primeOffset t'"
proof -
  have "primeOffset t \<noteq> 71"
  proof
    assume "primeOffset t = 71"
    then have "resizeThreshold t = HASH_CAPACITY" using assms(2) by (simp add: hash_ok_def HASH_CAPACITY_def primes_def)
    then show False using items_le_count [OF assms(2)] assms(3,4) by simp
  qed
  then have "primeOffset t < 71" using assms(2) by (simp add: hash_ok_def)
  then obtain p off where p: "primeSize (c_int (hashSize t * 2)) (primeOffset t) = Some (p, off)"
    using primeSize_exists [OF _ c_int_le] by fastforce
  let ?t = "empty_chains p off t" and ?es = "resize_order (hashList t)"
  note e = empty_chains_ok [OF hash_okD(1) [OF assms(2)] p]
  have len: "int (length ?es) = hcount t" using assms(2) by (simp add: resize_order_set hash_ok_def)
  have "Suc (primeOffset t) \<le> primeOffset ?t" using primeSize_Some [OF p] e(4) by simp
  from inserts_list [OF assms(1) e(1) this, of ?es] obtain t' where t':
    "insert_list ins ?es ?t = Some t'" "hash_ok t'" "hash_map t' = upd_all ?es Map.empty"
    "hcount t' \<le> hcount t" "primeOffset ?t \<le> primeOffset t'"
    using e(2,3) len assms(3) by auto
  have "upd_all ?es Map.empty k = hash_map t k" for k
    using upd_all_functional [of ?es "hash_map t" Map.empty k] hash_map_entries [OF assms(2)]
    by (cases "hash_map t k") (force simp: resize_order_set(1))+
  moreover have "hashResize ins t = Some t'"
    using t'(1) by (simp add: hashResize_def p empty_chains_def)
  ultimately show ?thesis using t' e(4) primeSize_Some [OF p] by auto
qed

lemma hash_insert_inserts: "72 \<le> off + n \<Longrightarrow> inserts off (hash_insert n)"
proof (induction n arbitrary: off)
  case 0
  then show ?case by (auto simp: inserts_def hash_ok_def)
next
  case (Suc n)
  show ?case unfolding inserts_def
  proof (intro allI impI, elim conjE)
    fix k :: 'a and d :: 'b and t :: "('a, 'b) hash_table"
    assume t: "hash_ok t" "off \<le> primeOffset t" "hcount t < HASH_CAPACITY"
    let ?l = "hashList t ! HASH_INDEX k t"
    note cmp = hash_okD(1) [OF t(1)]
    show "\<exists>t'. hash_insert (Suc n) k d t = Some t' \<and> hash_ok t' \<and> hash_map t' = (hash_map t)(k \<mapsto> d)
        \<and> hcount t' \<le> hcount t + 1 \<and> primeOffset t \<le> primeOffset t'"
    proof (cases "hashListUpdate (=) k d ?l")
      case (Some l)
      then show ?thesis using update_ok [OF t(1) Some] by (simp add: cmp Let_def)
    next
      case None
      then have new: "hash_map t k = None"
        using hash_map_eq [OF cmp] by (simp add: hashListUpdate_None map_of_eq_None_iff)
      have IH: "inserts (Suc (primeOffset t)) (hash_insert n :: 'a \<Rightarrow> 'b \<Rightarrow> _)" using Suc.prems t(2) by (intro Suc.IH) simp
      obtain t' where t': "(if items t \<ge> resizeThreshold t then hashResize (hash_insert n) t else Some t) = Some t'"
        "hash_ok t'" "hash_map t' = hash_map t" "hcount t' \<le> hcount t" "primeOffset t \<le> primeOffset t'"
        using resize_ok [OF IH t(1,3)] t(1) by (cases "items t \<ge> resizeThreshold t") auto
      then show ?thesis using append_ok [OF t'(2), of k d] new None by (simp add: cmp Let_def)
    qed
  qed
qed

lemma vosHashInsert_inserts: "inserts 1 vosHashInsert"
  using hash_insert_inserts [of 1 72] by (simp add: inserts_def vosHashInsert_def)

text \<open>More fuel changes nothing, not even whether the program aborts.\<close>

lemma hash_insert_offset:
  "hash_insert n k d t = Some t' \<Longrightarrow> primeOffset t \<le> primeOffset t' \<and> (primeOffset t \<le> 71 \<longrightarrow> primeOffset t' \<le> 71)"
proof (induction n arbitrary: k d t t')
  case (Suc n)
  have list: "insert_list (hash_insert n) es t = Some t' \<Longrightarrow>
      primeOffset t \<le> primeOffset t' \<and> (primeOffset t \<le> 71 \<longrightarrow> primeOffset t' \<le> 71)" for es :: "('a \<times> 'b) list" and t t'
  proof (induction es arbitrary: t)
    case (Cons e es)
    then obtain t1 where "hash_insert n (fst e) (snd e) t = Some t1" "insert_list (hash_insert n) es t1 = Some t'"
      by (cases e) (auto split: option.splits)
    then show ?case using Suc.IH [of "fst e" "snd e" t t1] Cons.IH [of t1] by auto
  qed simp
  have res: "primeOffset t \<le> primeOffset t' \<and> (primeOffset t \<le> 71 \<longrightarrow> primeOffset t' \<le> 71)"
    if "hashResize (hash_insert n) t = Some t'" for t'
    using that primeSize_Some by (fastforce simp: hashResize_def dest: list split: option.splits prod.splits)
  show ?case using Suc.prems res by (auto simp: Let_def hash_append_def split: option.splits if_splits)
qed simp

lemma hash_insert_fuel:
  "72 \<le> primeOffset t + n \<Longrightarrow> primeOffset t \<le> 71 \<Longrightarrow> hash_insert (n + m) k d t = hash_insert n k d t"
proof (induction n arbitrary: k d t)
  case (Suc n)
  have list: "insert_list (hash_insert (n + m)) es t = insert_list (hash_insert n) es t"
    if "72 \<le> primeOffset t + n" "primeOffset t \<le> 71" for es :: "('a \<times> 'b) list" and t
    using that
  proof (induction es arbitrary: t)
    case (Cons e es)
    then show ?case
      using Suc.IH [of t "fst e" "snd e"] hash_insert_offset [of n "fst e" "snd e" t]
      by (cases e) (fastforce split: option.split)
  qed simp
  have "hashResize (hash_insert (n + m)) t = hashResize (hash_insert n) t"
    using Suc.prems primeSize_Some [of _ "primeOffset t"]
    by (fastforce simp: hashResize_def intro!: list split: option.split)
  then show ?case by (simp add: Let_def split: option.split)
qed simp

subsection \<open>The other operations\<close>

lemma remove_later_Some:
  "remove_later (=) k l = Some l' \<Longrightarrow> distinct (map fst l) \<Longrightarrow> map_of l' = (map_of l)(k := None)
     \<and> set l' \<subseteq> set l \<and> distinct (map fst l') \<and> length l = Suc (length l')"
proof (induction l arbitrary: l')
  case (Cons e l)
  obtain k' d where e: "e = (k', d)" by fastforce
  show ?case
  proof (cases "k' = k")
    case True
    then show ?thesis using Cons.prems by (auto simp: e fun_eq_iff map_of_eq_None_iff)
  next
    case False
    then obtain l1 where "remove_later (=) k l = Some l1" "l' = (k', d) # l1" using Cons.prems by (auto simp: e)
    with Cons.IH [of l1] Cons.prems False show ?thesis by (auto simp: e fun_eq_iff)
  qed
qed simp

lemma remove_later_None: "remove_later (=) k l = None \<longleftrightarrow> k \<notin> fst ` set l"
  by (induction l) (auto split: if_splits)

lemma remove_ok:
  assumes "hash_ok tab"
  shows "hash_ok (vosHashRemove k tab)" "hash_map (vosHashRemove k tab) = (hash_map tab)(k := None)"
proof -
  let ?i = "HASH_INDEX k tab"
  note less = HASH_INDEX_less [OF assms, of k] and cmp = hash_okD(1) [OF assms]
  note mp = hash_map_eq [OF cmp] and keys = hash_okD(6) [OF assms less] and dist = hash_okD(5) [OF assms less]
  have "hash_ok (vosHashRemove k tab) \<and> hash_map (vosHashRemove k tab) = (hash_map tab)(k := None)"
  proof (cases "hashList tab ! ?i")
    case Nil
    then show ?thesis using assms mp by (auto simp: vosHashRemove_def fun_eq_iff)
  next
    case (Cons e es)
    obtain k' d where e: "e = (k', d)" by fastforce
    show ?thesis
    proof (cases "k' = k")
      case True
      have "hash_ok (set_chain ?i es (items tab - 1) (hcount tab - 1) tab)"
        "hash_map (set_chain ?i es (items tab - 1) (hcount tab - 1) tab) k''
           = (if HASH_INDEX k'' tab = ?i then map_of es k'' else hash_map tab k'')" for k''
        using dist keys Cons by (intro hash_ok_set_chain [OF assms less]; simp)+
      moreover have "vosHashRemove k tab = set_chain ?i es (items tab - 1) (hcount tab - 1) tab"
        using True by (simp add: vosHashRemove_def Cons e cmp set_chain_def)
      moreover have "map_of es k = None" using dist Cons True by (simp add: e map_of_eq_None_iff)
      ultimately show ?thesis using mp True by (auto simp: fun_eq_iff Cons e)
    next
      case False
      show ?thesis
      proof (cases "remove_later (=) k es")
        case None
        then have "map_of (hashList tab ! ?i) k = None"
          using False by (simp add: Cons e remove_later_None map_of_eq_None_iff)
        then show ?thesis using assms mp None False by (auto simp: vosHashRemove_def Cons e cmp fun_eq_iff)
      next
        case (Some es')
        note r = remove_later_Some [OF Some]
        have d: "distinct (map fst ((k', d) # es'))" "set es' \<subseteq> set es" "length es = Suc (length es')"
          "map_of es' = (map_of es)(k := None)"
          using r dist Cons by (auto simp: e)
        have "hash_ok (set_chain ?i ((k', d) # es') (items tab) (hcount tab - 1) tab)"
          "hash_map (set_chain ?i ((k', d) # es') (items tab) (hcount tab - 1) tab) k''
             = (if HASH_INDEX k'' tab = ?i then map_of ((k', d) # es') k'' else hash_map tab k'')" for k''
          using d keys Cons e by (intro hash_ok_set_chain [OF assms less]; force)+
        moreover have "vosHashRemove k tab = set_chain ?i ((k', d) # es') (items tab) (hcount tab - 1) tab"
          using Some False by (simp add: vosHashRemove_def Cons e cmp set_chain_def)
        ultimately show ?thesis using mp False d(4) by (auto simp: fun_eq_iff Cons e)
      qed
    qed
  qed
  then show "hash_ok (vosHashRemove k tab)" "hash_map (vosHashRemove k tab) = (hash_map tab)(k := None)" by simp_all
qed

lemma create_ok:
  assumes "vosHashCreate h (=) sz = Some tab"
  shows "hash_ok tab" "hash_map tab = Map.empty"
proof -
  obtain p off where p: "primeSize (1 + (4 * sz) div 3) 0 = Some (p, off)" "tab = empty_chains p off tab" "compare tab = (=)"
    using assms by (auto simp: vosHashCreate_def empty_chains_def split: option.splits)
  from empty_chains_ok [OF p(3,1)] show "hash_ok tab" "hash_map tab = Map.empty" using p(2) by metis+
qed

lemma change_ok:
  assumes "hash_ok tab"
  shows "hash_ok (hash_change k f tab)" "hash_map (hash_change k f tab) = (hash_map tab)(k := map_option f (hash_map tab k))"
proof -
  let ?i = "HASH_INDEX k tab"
  let ?g = "\<lambda>(k', d). (k', if k = k' then f d else d)"
  note less = HASH_INDEX_less [OF assms, of k] and cmp = hash_okD(1) [OF assms] and len = hash_okD(4) [OF assms]
  note mp = hash_map_eq [OF cmp] and keys = hash_okD(6) [OF assms less] and dist = hash_okD(5) [OF assms less]
  have t: "hash_change k f tab = set_chain ?i (map ?g (hashList tab ! ?i)) (items tab) (hcount tab) tab"
    using less len by (simp add: hash_change_def set_chain_def upd_at_def cmp)
  have fst_g: "map fst (map ?g xs) = map fst xs" for xs by (induction xs) auto
  have idx: "HASH_INDEX (fst e) tab = ?i" if "e \<in> set (map ?g (hashList tab ! ?i))" for e
    using that keys by auto
  have dl: "distinct (map fst (map ?g (hashList tab ! ?i)))" using dist by (simp only: fst_g)
  note r = hash_ok_set_chain [OF assms less dl idx, where c = "hcount tab" and it = "items tab"]
  show "hash_ok (hash_change k f tab)" using r(1) by (simp add: t)
  have "map_of (map ?g xs) k' = ((map_of xs)(k := map_option f (map_of xs k))) k'" for xs k' by (induction xs) auto
  then show "hash_map (hash_change k f tab) = (hash_map tab)(k := map_option f (hash_map tab k))"
    using r(2) mp by (auto simp: t fun_eq_iff)
qed

lemma clear_ok:
  assumes "hash_ok tab"
  shows "hash_ok (vosHashClear tab)" "hash_map (vosHashClear tab) = Map.empty"
proof -
  have "hash_ok (vosHashClear tab) \<and> hash_map (vosHashClear tab) = Map.empty"
  proof (cases "hcount tab = 0")
    case True
    then have "concat (hashList tab) = []" using assms by (simp add: hash_ok_def)
    then have "hash_map tab k \<noteq> Some d" for k d using hash_map_entries [OF assms, of k d] by auto
    then have "hash_map tab k = None" for k by (cases "hash_map tab k") auto
    then show ?thesis using assms True by (auto simp: vosHashClear_def)
  next
    case False
    let ?t = "tab\<lparr> hashList := map (\<lambda>_. []) (hashList tab), hcount := 0, items := 0 \<rparr>"
    have ok: "hash_ok ?t" using assms by (simp add: hash_ok_def)
    have "concat (hashList ?t) = []" by simp
    then have "hash_map ?t k \<noteq> Some d" for k d using hash_map_entries [OF ok, of k d] by simp
    then have "hash_map ?t k = None" for k by (cases "hash_map ?t k") auto
    then show ?thesis using ok False by (auto simp: vosHashClear_def)
  qed
  then show "hash_ok (vosHashClear tab)" "hash_map (vosHashClear tab) = Map.empty" by simp_all
qed

text \<open>A callback that only reads visits the entries in the order of the buckets.\<close>

lemma each_chain_reads:
  "each_chain (\<lambda>k d w. (d, g k d w)) bs w = (bs, fold (\<lambda>e. g (fst e) (snd e)) (concat bs) w)"
proof -
  have "each_entry (\<lambda>k d w. (d, g k d w)) es w = (es, fold (\<lambda>e. g (fst e) (snd e)) es w)" for es w
    by (induction es arbitrary: w) auto
  then show ?thesis by (induction bs arbitrary: w) (auto simp: Let_def)
qed

lemma vosHashForEachDo_reads:
  "vosHashForEachDo tab (\<lambda>k d w. (d, g k d w)) w = (tab, fold (\<lambda>e. g (fst e) (snd e)) (concat (hashList tab)) w)"
  by (simp add: vosHashForEachDo_def each_chain_reads)

subsection \<open>A table is a finite map\<close>

locale dictionary =
  fixes ok :: "'t \<Rightarrow> bool" and look :: "'t \<Rightarrow> 'k \<Rightarrow> 'd option" and ins :: "'k \<Rightarrow> 'd \<Rightarrow> 't \<Rightarrow> 't option"
    and del :: "'k \<Rightarrow> 't \<Rightarrow> 't" and cap :: nat
  assumes finite_look: "ok t \<Longrightarrow> finite (dom (look t))"
    and ins: "ok t \<Longrightarrow> card (dom (look t)) < cap \<Longrightarrow> \<exists>t'. ins k d t = Some t' \<and> ok t' \<and> look t' = (look t)(k \<mapsto> d)"
    and del: "ok t \<Longrightarrow> ok (del k t) \<and> look (del k t) = (look t)(k := None)"

datatype ('k, 'd) dict_cmd = Put 'k 'd | Drop 'k

primrec map_op :: "('k, 'd) dict_cmd \<Rightarrow> ('k \<Rightarrow> 'd option) \<Rightarrow> 'k \<Rightarrow> 'd option" where
  "map_op (Put k d) m = m(k \<mapsto> d)"
| "map_op (Drop k) m = m(k := None)"

primrec dict_op :: "('k \<Rightarrow> 'd \<Rightarrow> 't \<Rightarrow> 't option) \<Rightarrow> ('k \<Rightarrow> 't \<Rightarrow> 't) \<Rightarrow> ('k, 'd) dict_cmd \<Rightarrow> 't \<Rightarrow> 't option" where
  "dict_op ins del (Put k d) t = ins k d t"
| "dict_op ins del (Drop k) t = Some (del k t)"

fun dict_ops :: "('k \<Rightarrow> 'd \<Rightarrow> 't \<Rightarrow> 't option) \<Rightarrow> ('k \<Rightarrow> 't \<Rightarrow> 't) \<Rightarrow> ('k, 'd) dict_cmd list \<Rightarrow> 't \<Rightarrow> 't option" where
  "dict_ops ins del [] t = Some t"
| "dict_ops ins del (c # cs) t = (case dict_op ins del c t of None \<Rightarrow> None | Some t \<Rightarrow> dict_ops ins del cs t)"

context dictionary
begin

lemma refines_map:
  assumes "ok t" "card (dom (look t)) + length cs \<le> cap"
  shows "\<exists>t'. dict_ops ins del cs t = Some t' \<and> ok t' \<and> look t' = fold map_op cs (look t)"
  using assms
proof (induction cs arbitrary: t)
  case (Cons c cs)
  have "\<exists>t1. dict_op ins del c t = Some t1 \<and> ok t1 \<and> look t1 = map_op c (look t)"
    using ins [OF Cons.prems(1)] del [OF Cons.prems(1)] Cons.prems(2) by (cases c) auto
  then obtain t1 where 1: "dict_op ins del c t = Some t1" "ok t1" "look t1 = map_op c (look t)" by blast
  have "card (dom (look t1)) \<le> Suc (card (dom (look t)))"
    using finite_look [OF Cons.prems(1)]
    by (cases c) (auto simp: 1(3) card_insert_if card_Diff_singleton_if intro: le_SucI)
  then show ?case using Cons.IH [OF 1(2)] Cons.prems(2) 1 by simp
qed simp

end

interpretation hash: dictionary hash_ok hash_map vosHashInsert vosHashRemove "nat HASH_CAPACITY"
proof
  fix t :: "('k, 'd) hash_table" and k d
  assume ok: "hash_ok t"
  have "dom (hash_map t) = fst ` set (concat (hashList t))"
    using hash_map_entries [OF ok] by (force simp: dom_def image_iff)
  then show "finite (dom (hash_map t))" by simp
  show "hash_ok (vosHashRemove k t) \<and> hash_map (vosHashRemove k t) = (hash_map t)(k := None)"
    using remove_ok [OF ok] by simp
  assume "card (dom (hash_map t)) < nat HASH_CAPACITY"
  then have "hcount t < HASH_CAPACITY" using hcount_card [OF ok] by simp
  moreover have "1 \<le> primeOffset t" using ok by (simp add: hash_ok_def)
  ultimately show "\<exists>t'. vosHashInsert k d t = Some t' \<and> hash_ok t' \<and> hash_map t' = (hash_map t)(k \<mapsto> d)"
    using vosHashInsert_inserts [unfolded inserts_def, rule_format, of t k d] ok by auto
qed

subsection \<open>Properties\<close>

text \<open>C7: a hash table that starts empty behaves as a finite map: any sequence of insertions and removals
  (up to the capacity of the table of primes) succeeds, however often the table is rebuilt on the
  way, and afterwards a lookup gives for every key exactly what the same operations on a map give,
  with the counter of entries equal to the number of keys.\<close>

theorem hash_table_refines_map:
  assumes "vosHashCreate h (=) sz = Some t0" "int (length cs) \<le> HASH_CAPACITY"
  shows "\<exists>t. dict_ops vosHashInsert vosHashRemove cs t0 = Some t
    \<and> (\<forall>k. vosHashValue k t = fold map_op cs Map.empty k)
    \<and> vosHashCount t = int (card (dom (fold map_op cs (Map.empty :: 'k \<Rightarrow> 'd option))))"
proof -
  note new = create_ok [OF assms(1)]
  have "card (dom (hash_map t0)) + length cs \<le> nat HASH_CAPACITY" using assms(2) new(2) by simp
  from hash.refines_map [OF new(1) this] obtain t where t: "dict_ops vosHashInsert vosHashRemove cs t0 = Some t"
    "hash_ok t" "hash_map t = fold map_op cs Map.empty" using new(2) by auto
  moreover have "vosHashValue k t = fold map_op cs Map.empty k" for k using t(3) by (metis hash_map_def)
  moreover have "vosHashCount t = int (card (dom (fold map_op cs Map.empty)))"
    using hcount_card [OF t(2)] t(3) by (simp add: vosHashCount_def)
  ultimately show ?thesis by blast
qed

text \<open>Ten keys in a table that starts with thirteen buckets, one of them replaced, one removed.\<close>

definition example_dict_ops :: "(string, nat) dict_cmd list" where
  "example_dict_ops = [Put ''a'' 1, Put ''m'' 2, Put ''mode'' 3, Put ''a'' 4, Drop ''mode'']"

theorem hash_table_refines_map_witness:
  "\<exists>t0 t. vosHashCreate vosStringHash (=) 0 = Some t0
     \<and> dict_ops vosHashInsert vosHashRemove example_dict_ops t0 = Some t
     \<and> vosHashValue ''a'' t = Some 4 \<and> vosHashValue ''mode'' t = None \<and> vosHashCount t = 2"
proof -
  obtain t0 :: "(string, nat) hash_table" where t0: "vosHashCreate vosStringHash (=) 0 = Some t0"
    by (simp add: vosHashCreate_def primeSize_def primes_def)
  have m: "fold map_op example_dict_ops Map.empty = [''a'' \<mapsto> 4, ''m'' \<mapsto> 2]"
    by (auto simp: example_dict_ops_def fun_eq_iff)
  have "int (length example_dict_ops) \<le> HASH_CAPACITY" by (simp add: example_dict_ops_def HASH_CAPACITY_def threshold_of_def)
  from hash_table_refines_map [OF t0 this] obtain t where t: "dict_ops vosHashInsert vosHashRemove example_dict_ops t0 = Some t"
    "\<forall>k. vosHashValue k t = [''a'' \<mapsto> 4, ''m'' \<mapsto> 2] k" "vosHashCount t = int (card (dom [''a'' \<mapsto> 4, ''m'' \<mapsto> (2::nat)]))"
    unfolding m by blast
  then show ?thesis using t0 by (intro exI [of _ t0] exI [of _ t]) simp
qed

text \<open>Removing the first entry of a chain that has more entries lowers the count of used buckets
  although the bucket stays in use: the count that decides when to rebuild the table drifts below
  the number of buckets in use.\<close>

theorem remove_undercounts_buckets:
  assumes "hash_ok tab" "hashList tab ! HASH_INDEX k tab = (k, d) # e # es"
  shows "vosHashItems (vosHashRemove k tab) = vosHashItems tab - 1 \<and>
    length (filter (\<lambda>b. b \<noteq> []) (hashList (vosHashRemove k tab))) = length (filter (\<lambda>b. b \<noteq> []) (hashList tab))"
proof -
  have "hashList (vosHashRemove k tab) = (hashList tab)[HASH_INDEX k tab := e # es]" "items (vosHashRemove k tab) = items tab - 1"
    using assms(2) hash_okD(1) [OF assms(1)] by (simp_all add: vosHashRemove_def)
  then show ?thesis
    using length_filter_upd [of "HASH_INDEX k tab" "hashList tab" "\<lambda>b. b \<noteq> []" "e # es"] assms(2)
      HASH_INDEX_less [OF assms(1), of k] hash_okD(4) [OF assms(1)] by (simp add: vosHashItems_def)
qed

text \<open>Two keys of the same bucket, the first removed: no bucket is counted, one is in use.\<close>

definition example_colliding :: "(string, nat) hash_table" where
  "example_colliding = the (dict_ops vosHashInsert vosHashRemove [Put ''a'' 1, Put ''m'' 2]
     (the (vosHashCreate vosStringHash (=) 0)))"

lemma example_colliding_state:
  "hashList example_colliding ! HASH_INDEX ''a'' example_colliding = [(''a'', 1), (''m'', 2)]"
  "vosHashItems example_colliding = 1"
  "length (filter (\<lambda>b. b \<noteq> []) (hashList example_colliding)) = 1"
  by code_simp+

theorem remove_undercounts_buckets_witness:
  "vosHashItems (vosHashRemove ''a'' example_colliding) = 0 \<and>
   length (filter (\<lambda>b. b \<noteq> []) (hashList (vosHashRemove ''a'' example_colliding))) = 1"
proof -
  obtain t0 :: "(string, nat) hash_table" where t0: "vosHashCreate vosStringHash (=) 0 = Some t0"
    by (simp add: vosHashCreate_def primeSize_def primes_def)
  note new = create_ok [OF t0]
  have "card (dom (hash_map t0)) + length [Put ''a'' (1::nat), Put ''m'' 2] \<le> nat HASH_CAPACITY"
    using new(2) by (simp add: HASH_CAPACITY_def threshold_of_def)
  from hash.refines_map [OF new(1) this] have "hash_ok example_colliding"
    using t0 by (auto simp: example_colliding_def simp del: dict_ops.simps)
  from remove_undercounts_buckets [OF this example_colliding_state(1)] show ?thesis
    using example_colliding_state(2,3) by simp
qed

end
