(* ===== verification/Vos_Config.thy ===== *)
theory Vos_Config
  imports Vos_Hash
begin

unbundle bit_operations_syntax

text \<open>
  The configuration database of the virtual OS layer (\<^verbatim>\<open>vos/linux/src/vos_config.c\<close>): a table of
  modules (configuration files), each a table of sections, each a table of keys with string
  values; reading a file into it and writing it back. The mutex makes every call one step. The
  database is \<open>None\<close> before \<^verbatim>\<open>vosConfigInit\<close>. A result \<open>None\<close> of a function is the abort of the hash
  table or, in the parser, the access outside an object in \<^verbatim>\<open>trim\<close>. Strings hold no null byte.
\<close>

definition CFG_NOT_FLUSHED :: u32 where "CFG_NOT_FLUSHED = 0"
definition CFG_FLUSHED :: u32 where "CFG_FLUSHED = 1"

record CFG_KEY_DATA_t =
  key_flag :: u32
  key_data :: string

record CFG_SECTION_DATA_t =
  section_flag :: u32
  keys :: "(string, CFG_KEY_DATA_t) hash_table"

record CFG_MODULE_DATA_t =
  sections :: "(string, CFG_SECTION_DATA_t) hash_table"

type_synonym config = "(string, CFG_MODULE_DATA_t) hash_table option"

definition string_table :: "(string, 'd) hash_table" where
  "string_table = the (vosHashCreate vosStringHash vosEqualString 0)"

definition new_module :: CFG_MODULE_DATA_t where
  "new_module = \<lparr> sections = string_table \<rparr>"

definition new_section :: CFG_SECTION_DATA_t where
  "new_section = \<lparr> section_flag = CFG_NOT_FLUSHED, keys = string_table \<rparr>"

subsection \<open>Looking up\<close>

definition tmodule_of :: "config \<Rightarrow> string \<Rightarrow> CFG_MODULE_DATA_t option" where
  "tmodule_of db fname = (case db of None \<Rightarrow> None | Some t \<Rightarrow> vosHashValue fname t)"

definition tsection_of :: "config \<Rightarrow> string \<Rightarrow> string \<Rightarrow> CFG_SECTION_DATA_t option" where
  "tsection_of db fname section =
     (case tmodule_of db fname of None \<Rightarrow> None | Some m \<Rightarrow> vosHashValue section (sections m))"

definition tkey_of :: "config \<Rightarrow> string \<Rightarrow> string \<Rightarrow> string \<Rightarrow> CFG_KEY_DATA_t option" where
  "tkey_of db fname section key =
     (case tsection_of db fname section of None \<Rightarrow> None | Some s \<Rightarrow> vosHashValue key (keys s))"

definition vosConfigValueGet :: "config \<Rightarrow> string \<Rightarrow> string \<Rightarrow> string \<Rightarrow> string option \<Rightarrow> string option" where
  "vosConfigValueGet db fname section key default_value =
     (case tkey_of db fname section key of None \<Rightarrow> default_value | Some k \<Rightarrow> Some (key_data k))"

text \<open>\<^verbatim>\<open>strtoul (s, NULL, 0)\<close> of a 32-bit C library.\<close>

definition isspace :: "char \<Rightarrow> bool" where
  "isspace c \<longleftrightarrow> c \<in> {CHR '' '', CHR 0x09, CHR 0x0A, CHR 0x0B, CHR 0x0C, CHR 0x0D}"

definition digit_val :: "char \<Rightarrow> nat" where
  "digit_val c = (let n = of_char c in
     if 48 \<le> n \<and> n \<le> 57 then n - 48
     else if 97 \<le> n \<and> n \<le> 122 then n - 87
     else if 65 \<le> n \<and> n \<le> 90 then n - 55 else 99)"

definition is_digit :: "nat \<Rightarrow> char \<Rightarrow> bool" where
  "is_digit base c \<longleftrightarrow> digit_val c < base"

definition num_val :: "nat \<Rightarrow> string \<Rightarrow> nat" where
  "num_val base s = foldl (\<lambda>n c. n * base + digit_val c) 0 s"

definition prefixed :: "string \<Rightarrow> nat \<times> string" where
  "prefixed s =
     (if length s \<ge> 3 \<and> s ! 0 = CHR ''0'' \<and> (s ! 1 = CHR ''x'' \<or> s ! 1 = CHR ''X'') \<and> is_digit 16 (s ! 2)
      then (16, drop 2 s)
      else if s \<noteq> [] \<and> s ! 0 = CHR ''0'' then (8, s)
      else (10, s))"

definition signed :: "string \<Rightarrow> bool \<times> string" where
  "signed s = (case s of
       [] \<Rightarrow> (False, [])
     | c # cs \<Rightarrow> if c = CHR ''-'' then (True, cs) else if c = CHR ''+'' then (False, cs) else (False, s))"

definition strtoul0 :: "string \<Rightarrow> u32" where
  "strtoul0 s =
     (let (neg, s) = signed (dropWhile isspace s);
          (base, s) = prefixed s;
          n = num_val base (takeWhile (is_digit base) s)
      in if n \<ge> 2 ^ 32 then - 1 else if neg then - of_nat n else of_nat n)"

definition strtol0 :: "string \<Rightarrow> int" where
  "strtol0 s =
     (let (neg, s) = signed (dropWhile isspace s);
          (base, s) = prefixed s;
          n = int (num_val base (takeWhile (is_digit base) s))
      in if neg then max (- n) (- (2 ^ 31)) else min n (2 ^ 31 - 1))"

definition vosConfigIntegerGet :: "config \<Rightarrow> string \<Rightarrow> string \<Rightarrow> string \<Rightarrow> int \<Rightarrow> int" where
  "vosConfigIntegerGet db fname section key default_value =
     (case vosConfigValueGet db fname section key None of None \<Rightarrow> default_value | Some v \<Rightarrow> strtol0 v)"

definition vosConfigUInt32Get :: "config \<Rightarrow> string \<Rightarrow> string \<Rightarrow> string \<Rightarrow> u32 \<Rightarrow> u32" where
  "vosConfigUInt32Get db fname section key default_value =
     (case vosConfigValueGet db fname section key None of None \<Rightarrow> default_value | Some v \<Rightarrow> strtoul0 v)"

definition vosConfigModuleIsExisted :: "config \<Rightarrow> string \<Rightarrow> int" where
  "vosConfigModuleIsExisted db fname = (if tmodule_of db fname = None then - 1 else 0)"

definition vosConfigSectionIsExisted :: "config \<Rightarrow> string \<Rightarrow> string \<Rightarrow> int" where
  "vosConfigSectionIsExisted db fname section = (if tsection_of db fname section = None then - 1 else 0)"

definition vosConfigKeyIsExisted :: "config \<Rightarrow> string \<Rightarrow> string \<Rightarrow> string \<Rightarrow> int" where
  "vosConfigKeyIsExisted db fname section key = (if tkey_of db fname section key = None then - 1 else 0)"

definition vosConfigModuleCount :: "config \<Rightarrow> int" where
  "vosConfigModuleCount db = (case db of None \<Rightarrow> 0 | Some t \<Rightarrow> vosHashCount t)"

definition vosConfigSectionCount :: "config \<Rightarrow> string \<Rightarrow> int" where
  "vosConfigSectionCount db fname =
     (case tmodule_of db fname of None \<Rightarrow> 0 | Some m \<Rightarrow> vosHashCount (sections m))"

definition vosConfigKeyCount :: "config \<Rightarrow> string \<Rightarrow> string \<Rightarrow> int" where
  "vosConfigKeyCount db fname section =
     (case tsection_of db fname section of None \<Rightarrow> 0 | Some s \<Rightarrow> vosHashCount (keys s))"

definition vosConfigSectionGetByIndex :: "config \<Rightarrow> string \<Rightarrow> nat \<Rightarrow> string option" where
  "vosConfigSectionGetByIndex db fname index =
     (case tmodule_of db fname of None \<Rightarrow> None | Some m \<Rightarrow> map_option fst (vosHashValueGetByIndex index (sections m)))"

subsection \<open>Changing\<close>

text \<open>An entry, created when it is missing, and a change of its datum made in place.\<close>

definition with_entry :: "'k \<Rightarrow> 'd \<Rightarrow> ('d \<Rightarrow> 'd option) \<Rightarrow> ('k, 'd) hash_table \<Rightarrow> ('k, 'd) hash_table option" where
  "with_entry key new f t = do {
     t \<leftarrow> (case vosHashValue key t of None \<Rightarrow> vosHashInsert key new t | Some _ \<Rightarrow> Some t);
     d \<leftarrow> f (the (vosHashValue key t));
     Some (hash_change key (\<lambda>_. d) t) }"

definition with_module ::
    "string \<Rightarrow> (CFG_MODULE_DATA_t \<Rightarrow> CFG_MODULE_DATA_t option) \<Rightarrow> (string, CFG_MODULE_DATA_t) hash_table
       \<Rightarrow> (string, CFG_MODULE_DATA_t) hash_table option" where
  "with_module fname f t = with_entry fname new_module f t"

definition with_section ::
    "string \<Rightarrow> (CFG_SECTION_DATA_t \<Rightarrow> CFG_SECTION_DATA_t option) \<Rightarrow> CFG_MODULE_DATA_t \<Rightarrow> CFG_MODULE_DATA_t option" where
  "with_section section f m =
     map_option (\<lambda>ss. m\<lparr> sections := ss \<rparr>) (with_entry section new_section f (sections m))"

definition put_key :: "string \<Rightarrow> string \<Rightarrow> CFG_SECTION_DATA_t \<Rightarrow> CFG_SECTION_DATA_t option" where
  "put_key key value s =
     map_option (\<lambda>ks. s\<lparr> keys := ks \<rparr>)
       (vosHashInsert key \<lparr> key_flag = CFG_NOT_FLUSHED, key_data = value \<rparr> (keys s))"

definition vosConfigValueSet :: "string \<Rightarrow> string \<Rightarrow> string \<Rightarrow> string \<Rightarrow> config \<Rightarrow> (int \<times> config) option" where
  "vosConfigValueSet fname section key value db =
     (case db of
        None \<Rightarrow> Some (- 1, db)
      | Some t \<Rightarrow>
          map_option (\<lambda>t. (0, Some t)) (with_module fname (with_section section (put_key key value)) t))"

definition vosConfigIntegerSet :: "string \<Rightarrow> string \<Rightarrow> string \<Rightarrow> int \<Rightarrow> config \<Rightarrow> (int \<times> config) option" where
  "vosConfigIntegerSet fname section key value db =
     vosConfigValueSet fname section key
       (if value < 0 then CHR ''-'' # dec_digits (nat (- value)) else dec_digits (nat value)) db"

definition vosConfigUInt32Set :: "string \<Rightarrow> string \<Rightarrow> string \<Rightarrow> u32 \<Rightarrow> config \<Rightarrow> (int \<times> config) option" where
  "vosConfigUInt32Set fname section key value db =
     vosConfigValueSet fname section key (dec_digits (unat value)) db"

definition vosConfigSectionCreate :: "string \<Rightarrow> string \<Rightarrow> config \<Rightarrow> (int \<times> config) option" where
  "vosConfigSectionCreate fname section db =
     (case db of
        None \<Rightarrow> Some (- 1, db)
      | Some t \<Rightarrow> map_option (\<lambda>t. (0, Some t)) (with_module fname (with_section section Some) t))"

text \<open>The file of a deleted module is removed as well; \<open>files\<close> maps file names to contents.\<close>

definition vosConfigModuleDelete ::
    "string \<Rightarrow> config \<Rightarrow> (string \<Rightarrow> string option) \<Rightarrow> int \<times> config \<times> (string \<Rightarrow> string option)" where
  "vosConfigModuleDelete fname db files =
     (case db of
        None \<Rightarrow> (- 1, db, files)
      | Some t \<Rightarrow> if fname \<noteq> [] then (0, Some (vosHashRemove fname t), files(fname := None)) else (0, db, files))"

definition vosConfigSectionDelete :: "string \<Rightarrow> string \<Rightarrow> config \<Rightarrow> int \<times> config" where
  "vosConfigSectionDelete fname section db =
     (case tmodule_of db fname of
        None \<Rightarrow> (- 1, db)
      | Some m \<Rightarrow> (0, map_option (hash_change fname (\<lambda>m. m\<lparr> sections := vosHashRemove section (sections m) \<rparr>)) db))"

definition vosConfigKeyDelete :: "string \<Rightarrow> string \<Rightarrow> string \<Rightarrow> config \<Rightarrow> int \<times> config" where
  "vosConfigKeyDelete fname section key db =
     (case tsection_of db fname section of
        None \<Rightarrow> (- 1, db)
      | Some s \<Rightarrow> (0, map_option (hash_change fname (\<lambda>m. m\<lparr> sections := hash_change section
           (\<lambda>s. s\<lparr> keys := vosHashRemove key (keys s) \<rparr>) (sections m) \<rparr>)) db))"

subsection \<open>Reading a file\<close>

text \<open>
  \<^verbatim>\<open>vosFGetWholeLine\<close> until the end of the file: it cuts off the last character of a line, which is
  the newline except on a last line without one.
\<close>

function whole_lines :: "string \<Rightarrow> string list" where
  "whole_lines cs =
     (if cs = [] then []
      else case dropWhile (\<lambda>c. c \<noteq> CHR 0x0A) cs of
             [] \<Rightarrow> [butlast cs]
           | _ # rest \<Rightarrow> takeWhile (\<lambda>c. c \<noteq> CHR 0x0A) cs # whole_lines rest)"
  by pat_completeness auto
termination
proof (relation "measure length")
  fix cs rest :: string and x
  assume "dropWhile (\<lambda>c. c \<noteq> CHR 0x0A) cs = x # rest"
  then show "(rest, cs) \<in> measure length" using length_dropWhile_le [of "\<lambda>c. c \<noteq> CHR 0x0A" cs] by simp
qed simp

declare whole_lines.simps [simp del]

definition blank :: "char \<Rightarrow> bool" where
  "blank c \<longleftrightarrow> c = CHR '' '' \<or> c = CHR 0x09"

text \<open>
  The text between leading and trailing blanks. When nothing is left, the loop at the end reads
  the byte before the buffer: \<open>None\<close>.
\<close>

definition trim :: "string \<Rightarrow> string option" where
  "trim str =
     (let p = dropWhile blank str;
          r = rev (dropWhile (\<lambda>c. blank c \<or> c = CHR 0x0D) (rev p))
      in if r = [] then None else Some r)"

text \<open>One line of the loop; the pointer \<^verbatim>\<open>tsection\<close> is the name of the section.\<close>

definition parse_line ::
    "string \<Rightarrow> CFG_MODULE_DATA_t \<times> string option \<Rightarrow> (CFG_MODULE_DATA_t \<times> string option) option" where
  "parse_line line st =
     (let (m, tsection) = st; p = dropWhile blank line
      in if p \<noteq> [] \<and> (hd p = CHR ''#'' \<or> hd p = CHR '';'') then Some st
         else if p \<noteq> [] \<and> hd p = CHR ''['' then
           if CHR '']'' \<in> set (tl p) then do {
             section \<leftarrow> trim (takeWhile (\<lambda>c. c \<noteq> CHR '']'') (tl p));
             m \<leftarrow> with_section section Some m;
             Some (m, Some section) }
           else Some st
         else case tsection of
           None \<Rightarrow> Some st
         | Some section \<Rightarrow>
             if CHR ''='' \<notin> set p then Some st
             else do {
               key \<leftarrow> trim (takeWhile (\<lambda>c. c \<noteq> CHR ''='') p);
               value \<leftarrow> trim (tl (dropWhile (\<lambda>c. c \<noteq> CHR ''='') p));
               m \<leftarrow> with_section section (put_key key value) m;
               Some (m, tsection) })"

fun parse_lines ::
    "string list \<Rightarrow> CFG_MODULE_DATA_t \<times> string option \<Rightarrow> (CFG_MODULE_DATA_t \<times> string option) option" where
  "parse_lines [] st = Some st"
| "parse_lines (l # ls) st = (case parse_line l st of None \<Rightarrow> None | Some st \<Rightarrow> parse_lines ls st)"

definition vosConfigRefreshByModule ::
    "string \<Rightarrow> (string \<Rightarrow> string option) \<Rightarrow> config \<Rightarrow> (int \<times> config) option" where
  "vosConfigRefreshByModule fname files db =
     (case db of
        None \<Rightarrow> Some (- 1, db)
      | Some t \<Rightarrow>
          (case files fname of
             None \<Rightarrow> map_option (\<lambda>t. (- 1, Some t)) (with_module fname Some t)
           | Some text \<Rightarrow>
               map_option (\<lambda>t. (0, Some t))
                 (with_module fname (\<lambda>m. map_option fst (parse_lines (whole_lines text) (m, None))) t)))"

subsection \<open>Writing a file\<close>

definition vosConfigFlushKeyReset :: "string \<Rightarrow> CFG_KEY_DATA_t \<Rightarrow> unit \<Rightarrow> CFG_KEY_DATA_t \<times> unit" where
  "vosConfigFlushKeyReset key k w = (k\<lparr> key_flag := CFG_NOT_FLUSHED \<rparr>, w)"

definition vosConfigFlushSectionReset ::
    "string \<Rightarrow> CFG_SECTION_DATA_t \<Rightarrow> unit \<Rightarrow> CFG_SECTION_DATA_t \<times> unit" where
  "vosConfigFlushSectionReset key s w =
     (let (ks, w) = vosHashForEachDo (keys s) vosConfigFlushKeyReset w
      in (s\<lparr> section_flag := CFG_NOT_FLUSHED, keys := ks \<rparr>, w))"

definition vosConfigFlushKeyAppend :: "string \<Rightarrow> CFG_KEY_DATA_t \<Rightarrow> string \<Rightarrow> CFG_KEY_DATA_t \<times> string" where
  "vosConfigFlushKeyAppend key k stream =
     (if key_flag k = CFG_NOT_FLUSHED
      then (k\<lparr> key_flag := CFG_FLUSHED \<rparr>, stream @ key @ ''='' @ key_data k @ [CHR 0x0A])
      else (k, stream))"

definition vosConfigFlushSectionAppend ::
    "string \<Rightarrow> CFG_SECTION_DATA_t \<Rightarrow> string \<Rightarrow> CFG_SECTION_DATA_t \<times> string" where
  "vosConfigFlushSectionAppend key s stream =
     (if section_flag s = CFG_NOT_FLUSHED
      then let (ks, stream) = vosHashForEachDo (keys s) vosConfigFlushKeyAppend (stream @ ''['' @ key @ '']'' @ [CHR 0x0A])
           in (s\<lparr> section_flag := CFG_FLUSHED, keys := ks \<rparr>, stream)
      else (s, stream))"

text \<open>\<open>can_write\<close> tells whether the file opens for writing.\<close>

definition vosConfigFlushByModule ::
    "(string \<Rightarrow> bool) \<Rightarrow> string \<Rightarrow> config \<Rightarrow> (string \<Rightarrow> string option) \<Rightarrow> int \<times> config \<times> (string \<Rightarrow> string option)" where
  "vosConfigFlushByModule can_write fname db files =
     (if fname = [] then (- 1, db, files)
      else case db of
        None \<Rightarrow> (- 2, db, files)
      | Some t \<Rightarrow>
          (case vosHashValue fname t of
             None \<Rightarrow> (- 3, db, files)
           | Some m \<Rightarrow>
               let ss = fst (vosHashForEachDo (sections m) vosConfigFlushSectionReset ())
               in if \<not> can_write fname
                  then (- 4, Some (hash_change fname (\<lambda>_. m\<lparr> sections := ss \<rparr>) t), files)
                  else let (ss, text) = vosHashForEachDo ss vosConfigFlushSectionAppend []
                       in (0, Some (hash_change fname (\<lambda>_. m\<lparr> sections := ss \<rparr>) t), files(fname \<mapsto> text))))"

subsection \<open>The database as a map\<close>

definition module_ok :: "CFG_MODULE_DATA_t \<Rightarrow> bool" where
  "module_ok m \<longleftrightarrow> hash_ok (sections m) \<and> (\<forall>s sec. hash_map (sections m) s = Some sec \<longrightarrow> hash_ok (keys sec))"

definition config_ok :: "config \<Rightarrow> bool" where
  "config_ok db = (case db of None \<Rightarrow> True
     | Some t \<Rightarrow> hash_ok t \<and> (\<forall>f m. hash_map t f = Some m \<longrightarrow> module_ok m))"

text \<open>No table on the way to a key is full.\<close>

definition roomy :: "config \<Rightarrow> string \<Rightarrow> string \<Rightarrow> bool" where
  "roomy db fname section \<longleftrightarrow>
     (case db of None \<Rightarrow> True | Some t \<Rightarrow> hcount t < HASH_CAPACITY)
     \<and> (case tmodule_of db fname of None \<Rightarrow> True | Some m \<Rightarrow> hcount (sections m) < HASH_CAPACITY)
     \<and> (case tsection_of db fname section of None \<Rightarrow> True | Some s \<Rightarrow> hcount (keys s) < HASH_CAPACITY)"

lemma string_table_ok:
  "hash_ok (string_table :: (string, 'a) hash_table)" "hash_map (string_table :: (string, 'a) hash_table) = Map.empty"
  "hcount (string_table :: (string, 'a) hash_table) = 0"
proof -
  have eq: "vosEqualString = (=)" by (simp add: vosEqualString_def fun_eq_iff)
  have "vosHashCreate vosStringHash (=) 0 \<noteq> (None :: (string, 'a) hash_table option)"
    by (simp add: vosHashCreate_def primeSize_def primes_def)
  then obtain t :: "(string, 'a) hash_table" where t: "vosHashCreate vosStringHash (=) 0 = Some t" by blast
  then have "string_table = t" by (simp add: string_table_def eq)
  moreover have "hcount t = 0" using t by (auto simp: vosHashCreate_def split: option.splits)
  ultimately show "hash_ok (string_table :: (string, 'a) hash_table)"
    "hash_map (string_table :: (string, 'a) hash_table) = Map.empty"
    "hcount (string_table :: (string, 'a) hash_table) = 0"
    using create_ok [OF t] by simp_all
qed

lemma new_ok: "module_ok new_module" "hash_ok (keys new_section)" "hash_map (keys new_section) = Map.empty"
  "hash_map (sections new_module) = Map.empty" "hcount (keys new_section) = 0" "hcount (sections new_module) = 0"
  by (simp_all add: module_ok_def new_module_def new_section_def string_table_ok)

lemma insert_ok:
  assumes "hash_ok t" "hcount t < HASH_CAPACITY"
  shows "\<exists>t'. vosHashInsert k d t = Some t' \<and> hash_ok t' \<and> hash_map t' = (hash_map t)(k \<mapsto> d)"
  using hash.ins [OF assms(1), of k d] hcount_card [OF assms(1)] assms(2) by simp

lemma with_entry_ok:
  assumes "hash_ok t" "hcount t < HASH_CAPACITY" "f (case hash_map t k of None \<Rightarrow> new | Some d \<Rightarrow> d) = Some d'"
  shows "\<exists>t'. with_entry k new f t = Some t' \<and> hash_ok t' \<and> hash_map t' = (hash_map t)(k \<mapsto> d')"
proof -
  obtain t1 where t1: "(case hash_map t k of None \<Rightarrow> vosHashInsert k new t | Some _ \<Rightarrow> Some t) = Some t1" "hash_ok t1"
    "hash_map t1 = (hash_map t)(k \<mapsto> case hash_map t k of None \<Rightarrow> new | Some d \<Rightarrow> d)"
    using insert_ok [OF assms(1,2), of k new] assms(1) by (cases "hash_map t k") (auto simp: fun_upd_idem)
  then have "with_entry k new f t = Some (hash_change k (\<lambda>_. d') t1)"
    using assms(3) by (simp add: with_entry_def hash_map_def [symmetric])
  then show ?thesis using change_ok [OF t1(2), of k "\<lambda>_. d'"] t1(3) by (auto simp: fun_eq_iff)
qed

lemma put_key_ok:
  assumes "hash_ok (keys s)" "hcount (keys s) < HASH_CAPACITY"
  shows "\<exists>s'. put_key k v s = Some s' \<and> hash_ok (keys s')
    \<and> (\<forall>k'. map_option key_data (hash_map (keys s') k') = (if k' = k then Some v else map_option key_data (hash_map (keys s) k')))"
  using insert_ok [OF assms, of k "\<lparr> key_flag = CFG_NOT_FLUSHED, key_data = v \<rparr>"] by (auto simp: put_key_def)

lemma with_section_ok:
  assumes "module_ok m" "hcount (sections m) < HASH_CAPACITY"
    "f (case hash_map (sections m) section of None \<Rightarrow> new_section | Some s \<Rightarrow> s) = Some s'" "hash_ok (keys s')"
  shows "\<exists>m'. with_section section f m = Some m' \<and> module_ok m'
    \<and> hash_map (sections m') = (hash_map (sections m))(section \<mapsto> s')"
  using with_entry_ok [of "sections m" f new_section "section" s'] assms by (auto simp: with_section_def module_ok_def)

lemma tsection_map: "tsection_of db f s = (case tmodule_of db f of None \<Rightarrow> None | Some m \<Rightarrow> hash_map (sections m) s)"
  by (simp add: tsection_of_def hash_map_def split: option.split)

lemma tkey_map: "tkey_of db f s k = (case tsection_of db f s of None \<Rightarrow> None | Some s \<Rightarrow> hash_map (keys s) k)"
  by (simp add: tkey_of_def hash_map_def split: option.split)

lemma value_set_ok:
  assumes "config_ok (Some t)" "roomy (Some t) fname section"
  shows "\<exists>db'. vosConfigValueSet fname section key value (Some t) = Some (0, db') \<and> config_ok db'
    \<and> (\<forall>f s k d. vosConfigValueGet db' f s k d =
         (if (f, s, k) = (fname, section, key) then Some value else vosConfigValueGet (Some t) f s k d))
    \<and> (\<forall>f s. tsection_of db' f s \<noteq> None \<longleftrightarrow> (f, s) = (fname, section) \<or> tsection_of (Some t) f s \<noteq> None)
    \<and> (\<forall>f. tmodule_of db' f \<noteq> None \<longleftrightarrow> f = fname \<or> tmodule_of (Some t) f \<noteq> None)"
proof -
  define m where "m = (case hash_map t fname of None \<Rightarrow> new_module | Some m \<Rightarrow> m)"
  define s where "s = (case hash_map (sections m) section of None \<Rightarrow> new_section | Some s \<Rightarrow> s)"
  have m: "module_ok m" "hcount (sections m) < HASH_CAPACITY"
    using assms new_ok
    by (auto simp: m_def config_ok_def roomy_def tmodule_of_def hash_map_def HASH_CAPACITY_def threshold_of_def split: option.splits)
  have s: "hash_ok (keys s)" "hcount (keys s) < HASH_CAPACITY"
    using assms m(1) new_ok
    by (auto simp: s_def m_def module_ok_def roomy_def tsection_map tmodule_of_def hash_map_def HASH_CAPACITY_def
        threshold_of_def new_module_def string_table_ok(2) [unfolded hash_map_def fun_eq_iff] split: option.splits)
  obtain s' where s': "put_key key value s = Some s'" "hash_ok (keys s')"
    "\<And>k. map_option key_data (hash_map (keys s') k) = (if k = key then Some value else map_option key_data (hash_map (keys s) k))"
    using put_key_ok [OF s] by blast
  obtain m' where m': "with_section section (put_key key value) m = Some m'" "module_ok m'"
    "hash_map (sections m') = (hash_map (sections m))(section \<mapsto> s')"
    using with_section_ok [OF m, of "put_key key value" "section" s'] s' by (auto simp: s_def)
  obtain t' where t': "with_module fname (with_section section (put_key key value)) t = Some t'" "hash_ok t'"
    "hash_map t' = (hash_map t)(fname \<mapsto> m')"
    using with_entry_ok [of t "with_section section (put_key key value)" new_module fname m'] assms m'(1)
    by (auto simp: with_module_def m_def config_ok_def roomy_def)
  have mod: "tmodule_of (Some t') f = (if f = fname then Some m' else tmodule_of (Some t) f)" for f
    using t'(3) by (simp add: tmodule_of_def hash_map_def [symmetric] fun_eq_iff)
  have m0: "hash_map (sections m) x = (case tmodule_of (Some t) fname of None \<Rightarrow> None | Some m \<Rightarrow> hash_map (sections m) x)" for x
    using new_ok(4) by (simp add: m_def tmodule_of_def hash_map_def [symmetric] split: option.split)
  have sec: "tsection_of (Some t') f x = (if (f, x) = (fname, section) then Some s' else tsection_of (Some t) f x)" for f x
    using m'(3) m0 by (auto simp: tsection_map mod)
  have s0: "hash_map (keys s) x = (case tsection_of (Some t) fname section of None \<Rightarrow> None | Some s \<Rightarrow> hash_map (keys s) x)" for x
    using new_ok(3) m0 by (simp add: s_def tsection_map split: option.split)
  have key: "map_option key_data (tkey_of (Some t') f x k) = (if (f, x, k) = (fname, section, key) then Some value
      else map_option key_data (tkey_of (Some t) f x k))" for f x k
    using s'(3) s0 by (auto simp: tkey_map sec)
  have get: "vosConfigValueGet db f x k d = (case map_option key_data (tkey_of db f x k) of None \<Rightarrow> d | Some v \<Rightarrow> Some v)" for db f x k d
    by (simp add: vosConfigValueGet_def split: option.split)
  have "config_ok (Some t')" using t' m'(2) assms(1) by (auto simp: config_ok_def)
  moreover have "vosConfigValueSet fname section key value (Some t) = Some (0, Some t')"
    by (simp add: vosConfigValueSet_def t'(1))
  ultimately show ?thesis using mod sec by (intro exI [of _ "Some t'"]) (auto simp: get key)
qed

subsection \<open>Numbers as values\<close>

lemma digit_val_digit: "d < 10 \<Longrightarrow> digit_val (char_of (48 + d)) = d"
  by (simp add: digit_val_def Let_def)

lemma dec_digits_snoc:
  assumes "10 \<le> n"
  shows "dec_digits n = dec_digits (n div 10) @ [char_of (48 + n mod 10)]"
  using assms by (subst dec_digits.simps) simp

lemma dec_digits_one: "n < 10 \<Longrightarrow> dec_digits n = [char_of (48 + n)]"
  by (subst dec_digits.simps) simp

lemma dec_digits_facts:
  "list_all (\<lambda>c. digit_val c < 10) (dec_digits n) \<and> num_val 10 (dec_digits n) = n \<and> dec_digits n \<noteq> []
     \<and> (n \<noteq> 0 \<longrightarrow> digit_val (hd (dec_digits n)) \<noteq> 0)"
proof (induction n rule: dec_digits.induct)
  case (1 n)
  show ?case
  proof (cases "n < 10")
    case True
    then show ?thesis by (simp add: dec_digits_one digit_val_digit num_val_def)
  next
    case False
    then have "n div 10 \<noteq> 0" by simp
    with 1 [OF False] False show ?thesis
      by (simp add: dec_digits_snoc digit_val_digit num_val_def)
  qed
qed

lemma digit_plain: "digit_val c < 10 \<Longrightarrow> \<not> isspace c \<and> c \<noteq> CHR ''-'' \<and> c \<noteq> CHR ''+'' \<and> \<not> blank c \<and> c \<noteq> CHR 0x0D
   \<and> c \<noteq> CHR 0x0A"
  by (auto simp: isspace_def blank_def digit_val_def Let_def)

lemma strtoul0_dec_digits:
  assumes "n < 2 ^ 32"
  shows "strtoul0 (dec_digits n) = of_nat n"
proof (cases "n = 0")
  case True
  have "dec_digits 0 = ''0''" by (simp add: dec_digits_one) code_simp
  moreover have "strtoul0 ''0'' = 0"
    by (simp add: strtoul0_def signed_def prefixed_def isspace_def is_digit_def digit_val_def num_val_def)
  ultimately show ?thesis using True by simp
next
  case False
  note f = dec_digits_facts [of n]
  obtain c cs where c: "dec_digits n = c # cs" using f by (cases "dec_digits n") auto
  then have pl: "\<not> isspace c" "c \<noteq> CHR ''-''" "c \<noteq> CHR ''+''" using f digit_plain [of c] by auto
  have "digit_val (CHR ''0'') = 0" by code_simp
  then have "c \<noteq> CHR ''0''" using f False c by auto
  then have "prefixed (c # cs) = (10, c # cs)" by (simp add: prefixed_def)
  moreover have "takeWhile (is_digit 10) (c # cs) = c # cs"
    using f by (simp only: c takeWhile_eq_all_conv) (simp add: is_digit_def list_all_iff)
  moreover have "num_val 10 (c # cs) = n" using f c by simp
  ultimately show ?thesis using assms pl by (simp add: strtoul0_def signed_def c)
qed

subsection \<open>The store that its clients see\<close>

text \<open>
  Values at locations, with what the code relies on: a value that is set is there until it is set
  again. \<open>room\<close> is the condition under which setting succeeds.
\<close>

locale value_store =
  fixes ok :: "'c \<Rightarrow> bool" and room :: "'l \<Rightarrow> 'c \<Rightarrow> bool" and get :: "'l \<Rightarrow> 'c \<Rightarrow> string option"
    and put :: "'l \<Rightarrow> string \<Rightarrow> 'c \<Rightarrow> 'c option"
  assumes put: "ok c \<Longrightarrow> room l c \<Longrightarrow> \<exists>c'. put l v c = Some c' \<and> ok c' \<and> (\<forall>l'. get l' c' = (if l' = l then Some v else get l' c))"
begin

lemma number:
  assumes "ok c" "room l c"
  shows "\<exists>c'. put l (dec_digits (unat (x :: u32))) c = Some c' \<and> ok c'
    \<and> map_option strtoul0 (get l c') = Some x \<and> (\<forall>l'. l' \<noteq> l \<longrightarrow> get l' c' = get l' c)"
proof -
  obtain c' where "put l (dec_digits (unat x)) c = Some c'" "ok c'"
    "\<forall>l'. get l' c' = (if l' = l then Some (dec_digits (unat x)) else get l' c)" using put [OF assms] by blast
  moreover have "strtoul0 (dec_digits (unat x)) = x"
    using strtoul0_dec_digits [of "unat x"] unsigned_less [of x, where 'a = nat] by simp
  ultimately show ?thesis by auto
qed

end

definition config_get :: "string \<times> string \<times> string \<Rightarrow> config \<Rightarrow> string option" where
  "config_get l db = (case l of (fname, section, key) \<Rightarrow> vosConfigValueGet db fname section key None)"

definition config_put :: "string \<times> string \<times> string \<Rightarrow> string \<Rightarrow> config \<Rightarrow> config option" where
  "config_put l value db = (case l of (fname, section, key) \<Rightarrow>
     case vosConfigValueSet fname section key value db of Some (r, db') \<Rightarrow> if r = 0 then Some db' else None | None \<Rightarrow> None)"

lemma value_get_default:
  "vosConfigValueGet db f s k d = (case config_get (f, s, k) db of None \<Rightarrow> d | Some v \<Rightarrow> Some v)"
  by (simp add: config_get_def vosConfigValueGet_def split: option.split)

interpretation store: value_store "\<lambda>db. db \<noteq> None \<and> config_ok db" "\<lambda>(f, s, k) db. roomy db f s" config_get config_put
proof
  fix db :: config and l :: "string \<times> string \<times> string" and v :: string
  assume ok: "db \<noteq> None \<and> config_ok db" and room: "(case l of (f, s, k) \<Rightarrow> \<lambda>db. roomy db f s) db"
  obtain t where t: "db = Some t" using ok by blast
  obtain f s k where l: "l = (f, s, k)" by (metis prod.exhaust)
  obtain db' where db': "vosConfigValueSet f s k v (Some t) = Some (0, db')" "config_ok db'"
    "\<forall>f' s' k' d. vosConfigValueGet db' f' s' k' d = (if (f', s', k') = (f, s, k) then Some v else vosConfigValueGet (Some t) f' s' k' d)"
    "\<forall>f'. tmodule_of db' f' \<noteq> None \<longleftrightarrow> f' = f \<or> tmodule_of (Some t) f' \<noteq> None"
    using value_set_ok [of t f s k v] ok room by (auto simp: t l)
  have "db' \<noteq> None" using db'(4) [rule_format, of f] by (cases db') (simp_all add: tmodule_of_def)
  then show "\<exists>db'. config_put l v db = Some db' \<and> (db' \<noteq> None \<and> config_ok db')
      \<and> (\<forall>l'. config_get l' db' = (if l' = l then Some v else config_get l' db))"
    using db' by (auto simp: config_put_def config_get_def t l)
qed

subsection \<open>Properties\<close>

text \<open>A 32-bit number stored under a key of the configuration database is read back exactly,
  through its decimal text and \<^verbatim>\<open>strtoul\<close>, and no other key of any section or file changes; storing
  succeeds as long as no table on the way is full.\<close>

theorem config_number_roundtrip:
  assumes "config_ok (Some t)" "roomy (Some t) fname sec"
  shows "\<exists>db'. vosConfigUInt32Set fname sec key x (Some t) = Some (0, db') \<and> config_ok db'
    \<and> vosConfigUInt32Get db' fname sec key dflt = x
    \<and> (\<forall>f s k d. (f, s, k) \<noteq> (fname, sec, key) \<longrightarrow> vosConfigValueGet db' f s k d = vosConfigValueGet (Some t) f s k d)"
proof -
  from store.number [of "Some t" "(fname, sec, key)" x] obtain db' where db':
    "config_put (fname, sec, key) (dec_digits (unat x)) (Some t) = Some db'" "config_ok db'"
    "map_option strtoul0 (config_get (fname, sec, key) db') = Some x"
    "\<forall>l. l \<noteq> (fname, sec, key) \<longrightarrow> config_get l db' = config_get l (Some t)"
    using assms by auto
  have "vosConfigUInt32Set fname sec key x (Some t) = Some (0, db')"
    using db'(1) by (auto simp: config_put_def vosConfigUInt32Set_def split: option.splits if_splits)
  moreover have "vosConfigUInt32Get db' fname sec key dflt = x"
    using db'(3) by (auto simp: vosConfigUInt32Get_def config_get_def)
  ultimately show ?thesis
    using db'(2,4) by (intro exI [of _ db'] conjI) (simp_all add: value_get_default)
qed

theorem config_number_roundtrip_witness:
  "\<exists>db'. vosConfigUInt32Set ''/cfg/rstp.conf'' ''RSTP'' ''hello_time'' 4294967295 (Some string_table) = Some (0, db')
     \<and> vosConfigUInt32Get db' ''/cfg/rstp.conf'' ''RSTP'' ''hello_time'' 2 = 4294967295"
proof -
  have "config_ok (Some string_table)" by (simp add: config_ok_def string_table_ok)
  moreover have "roomy (Some string_table) ''/cfg/rstp.conf'' ''RSTP''"
    using fun_cong [OF string_table_ok(2) [where 'a = CFG_MODULE_DATA_t], of "''/cfg/rstp.conf''"]
    by (simp add: roomy_def tmodule_of_def tsection_of_def string_table_ok(3) hash_map_def HASH_CAPACITY_def threshold_of_def)
  ultimately show ?thesis using config_number_roundtrip by blast
qed

end
