(* ===== verification/Rstp_Bridge.thy ===== *)
theory Rstp_Bridge
  imports Rstp_Mgmt Vos_Config
begin

text \<open>
  The bridge task around the engine (\<^verbatim>\<open>rstp/src/rstp_bridge.c\<close>): reading the configuration database
  into the file-scope variables, starting the instance, and the map between port numbers. The state
  \<open>sys\<close> joins the engine with the configuration database; \<open>host\<close> holds what the code does not
  determine: the contents of uninitialised local structures and whether the timer thread starts.
\<close>

record uid_port_cfg_t =
  pc_enable :: int
  pc_path_cost :: int
  pc_priority :: int
  pc_edge_port :: int
  pc_p2plink :: int

record sys =
  engine :: iworld
  cfgdb :: config
  port_cfg :: "uid_port_cfg_t list"
  enabled_ports :: u32
  I_am_a_stupid_hub :: bool
  rsv_mac_ctrl :: "(u8 \<times> u8) option"

record host =
  callee_cfg :: uid_stp_cfg_t
  caller_cfg :: uid_stp_cfg_t
  caller_port :: uid_stp_port_cfg_t
  thread_starts :: bool

subsection \<open>The RSTP file\<close>

definition CFGFILE_RSTP :: string where "CFGFILE_RSTP = ''/cfg/rstp.conf''"
definition RSTP_SECTION_BRD :: string where "RSTP_SECTION_BRD = ''RSTP''"
definition RSTP_VALUE_ENABLE :: string where "RSTP_VALUE_ENABLE = ''enable''"
definition RSTP_VALUE_DISABLE :: string where "RSTP_VALUE_DISABLE = ''disable''"
definition RSTP_BRD_KEY_VALUE_MODE :: string where "RSTP_BRD_KEY_VALUE_MODE = ''mode''"
definition RSTP_BRD_KEY_U32_HELLOTIME :: string where "RSTP_BRD_KEY_U32_HELLOTIME = ''hello_time''"
definition RSTP_BRD_KEY_U32_MAXAGE :: string where "RSTP_BRD_KEY_U32_MAXAGE = ''max_age''"
definition RSTP_BRD_KEY_U32_FWDDELAY :: string where "RSTP_BRD_KEY_U32_FWDDELAY = ''forward_delay''"
definition RSTP_BRD_KEY_U32_VERSION :: string where "RSTP_BRD_KEY_U32_VERSION = ''force_version''"
definition RSTP_BRD_KEY_U32_PRI :: string where "RSTP_BRD_KEY_U32_PRI = ''bridge_priority''"
definition RSTP_BRD_KEY_U32_DIAMETER :: string where "RSTP_BRD_KEY_U32_DIAMETER = ''diameter''"
definition RSTP_BRD_KEY_U32_HANDLE_MODE :: string where "RSTP_BRD_KEY_U32_HANDLE_MODE = ''handle-mode''"
definition RSTP_PORT_KEY_U32_P2P :: string where "RSTP_PORT_KEY_U32_P2P = ''p2plink''"
definition RSTP_PORT_KEY_VALUE_MODE :: string where "RSTP_PORT_KEY_VALUE_MODE = ''mode''"
definition RSTP_PORT_KEY_VALUE_EDGE :: string where "RSTP_PORT_KEY_VALUE_EDGE = ''edge_port''"
definition RSTP_PORT_KEY_U32_PRI :: string where "RSTP_PORT_KEY_U32_PRI = ''priority''"
definition RSTP_PORT_KEY_U32_PCOST :: string where "RSTP_PORT_KEY_U32_PCOST = ''path_cost''"

definition RSTP_BRD_DEFAULT_PRI :: u32 where "RSTP_BRD_DEFAULT_PRI = 8"
definition RSTP_PORT_DEFAULT_PRI :: u32 where "RSTP_PORT_DEFAULT_PRI = 8"
definition RSTP_BRD_DEFAULT_HELLOTIME :: u32 where "RSTP_BRD_DEFAULT_HELLOTIME = 2"
definition RSTP_BRD_DEFAULT_FWDDELAYTIME :: u32 where "RSTP_BRD_DEFAULT_FWDDELAYTIME = 15"
definition RSTP_BRD_DEFAULT_MAXAGE :: u32 where "RSTP_BRD_DEFAULT_MAXAGE = 20"
definition RSTP_BRD_DEFAULT_FORCEVERSION :: u32 where "RSTP_BRD_DEFAULT_FORCEVERSION = 2"
definition RSTP_BRD_DEFAULT_DIAMETER :: u32 where "RSTP_BRD_DEFAULT_DIAMETER = 7"
definition RSTP_PORT_DEFAULT_PATH_COST :: u32 where "RSTP_PORT_DEFAULT_PATH_COST = 200000"
definition RSTP_PORT_DEFAULT_P2P_MODE :: u32 where "RSTP_PORT_DEFAULT_P2P_MODE = 2"
definition RSTP_BRD_DEFAULT_HANDLE_MODE :: u32 where "RSTP_BRD_DEFAULT_HANDLE_MODE = 0"

lemmas rstp_file_names = CFGFILE_RSTP_def RSTP_SECTION_BRD_def RSTP_VALUE_ENABLE_def RSTP_VALUE_DISABLE_def
  RSTP_BRD_KEY_VALUE_MODE_def RSTP_BRD_KEY_U32_HELLOTIME_def RSTP_BRD_KEY_U32_MAXAGE_def
  RSTP_BRD_KEY_U32_FWDDELAY_def RSTP_BRD_KEY_U32_VERSION_def RSTP_BRD_KEY_U32_PRI_def
  RSTP_BRD_KEY_U32_DIAMETER_def RSTP_BRD_KEY_U32_HANDLE_MODE_def RSTP_PORT_KEY_U32_P2P_def
  RSTP_PORT_KEY_VALUE_MODE_def RSTP_PORT_KEY_VALUE_EDGE_def RSTP_PORT_KEY_U32_PRI_def RSTP_PORT_KEY_U32_PCOST_def

text \<open>\<^verbatim>\<open>sprintf (str, "PORT %d", i)\<close>\<close>

definition port_section :: "nat \<Rightarrow> string" where
  "port_section i = ''PORT '' @ dec_digits i"

subsection \<open>Reading the configuration\<close>

text \<open>A number of the database, a C \<^verbatim>\<open>unsigned int\<close> that is assigned to an \<^verbatim>\<open>int\<close>.\<close>

definition brd_u32 :: "config \<Rightarrow> string \<Rightarrow> u32 \<Rightarrow> u32" where
  "brd_u32 db key dflt = vosConfigUInt32Get db CFGFILE_RSTP RSTP_SECTION_BRD key dflt"

definition enabled_value :: "config \<Rightarrow> string \<Rightarrow> string \<Rightarrow> string \<Rightarrow> bool" where
  "enabled_value db sec key dflt \<longleftrightarrow> vosConfigValueGet db CFGFILE_RSTP sec key (Some dflt) = Some RSTP_VALUE_ENABLE"

definition conf_read_bridge :: "config \<Rightarrow> uid_stp_cfg_t" where
  "conf_read_bridge db = zero_uid_cfg\<lparr>
     stp_enabled := (if enabled_value db RSTP_SECTION_BRD RSTP_BRD_KEY_VALUE_MODE RSTP_VALUE_DISABLE
                     then STP_ENABLED else STP_DISABLED),
     cfg_hello_time := sint (brd_u32 db RSTP_BRD_KEY_U32_HELLOTIME RSTP_BRD_DEFAULT_HELLOTIME),
     cfg_max_age := sint (brd_u32 db RSTP_BRD_KEY_U32_MAXAGE RSTP_BRD_DEFAULT_MAXAGE),
     cfg_forward_delay := sint (brd_u32 db RSTP_BRD_KEY_U32_FWDDELAY RSTP_BRD_DEFAULT_FWDDELAYTIME),
     force_version := sint (brd_u32 db RSTP_BRD_KEY_U32_VERSION RSTP_BRD_DEFAULT_FORCEVERSION),
     bridge_priority := sint (brd_u32 db RSTP_BRD_KEY_U32_PRI RSTP_BRD_DEFAULT_PRI * 4096),
     diameter := sint (brd_u32 db RSTP_BRD_KEY_U32_DIAMETER RSTP_BRD_DEFAULT_DIAMETER) \<rparr>"

text \<open>The priority and the path cost of every port are read from the section of the bridge.\<close>

definition mode_val :: "bool \<Rightarrow> int" where
  "mode_val b = (if b then 1 else 0)"

definition conf_read_port :: "config \<Rightarrow> nat \<Rightarrow> uid_port_cfg_t" where
  "conf_read_port db i =
     \<lparr> pc_enable = mode_val (enabled_value db (port_section i) RSTP_PORT_KEY_VALUE_MODE RSTP_VALUE_DISABLE),
       pc_path_cost = sint (brd_u32 db RSTP_PORT_KEY_U32_PCOST RSTP_PORT_DEFAULT_PATH_COST),
       pc_priority = sint (brd_u32 db RSTP_PORT_KEY_U32_PRI RSTP_PORT_DEFAULT_PRI * 16),
       pc_edge_port = mode_val (enabled_value db (port_section i) RSTP_PORT_KEY_VALUE_EDGE RSTP_VALUE_ENABLE),
       pc_p2plink = mode_val (enabled_value db (port_section i) RSTP_PORT_KEY_U32_P2P RSTP_VALUE_ENABLE) \<rparr>"

definition bridge_conf_read :: "sys \<Rightarrow> sys" where
  "bridge_conf_read s = s\<lparr> engine := ((fst (engine s))\<lparr> uid_cfg := conf_read_bridge (cfgdb s) \<rparr>, snd (engine s)),
     port_cfg := map (conf_read_port (cfgdb s)) [1..<NUMBER_OF_PORTS + 1] \<rparr>"

subsection \<open>Starting and stopping\<close>

definition BitmapSetBit :: "u32 \<Rightarrow> nat \<Rightarrow> u32" where
  "BitmapSetBit bmp i = bmp OR push_bit i 1"

definition BitmapClearBit :: "u32 \<Rightarrow> nat \<Rightarrow> u32" where
  "BitmapClearBit bmp i = bmp AND NOT (push_bit i 1)"

definition all_ports_bmp :: u32 where
  "all_ports_bmp = fold (\<lambda>i bmp. BitmapSetBit bmp (i - 1)) [1..<NUMBER_OF_PORTS + 1] 0"

text \<open>
  The call of \<^verbatim>\<open>STP_IN_stpm_set_cfg\<close> for the instance of VLAN 0. The callee changes the mask of the
  structure it is given; only \<^verbatim>\<open>bridge_start\<close> gives it one that outlives the call.
\<close>

definition set_cfg_0 :: "env \<Rightarrow> host \<Rightarrow> u32 option \<Rightarrow> uid_stp_cfg_t \<Rightarrow> sys \<Rightarrow> (rstp_errors_t \<times> uid_stp_cfg_t \<times> sys) option" where
  "set_cfg_0 e h bmp cfg s =
     map_option (\<lambda>(rc, cfg, w). (rc, cfg, s\<lparr> engine := w \<rparr>)) (STP_IN_stpm_set_cfg e (callee_cfg h) 0 bmp cfg (engine s))"

definition set_uid_cfg :: "uid_stp_cfg_t \<Rightarrow> sys \<Rightarrow> sys" where
  "set_uid_cfg cfg s = s\<lparr> engine := ((fst (engine s))\<lparr> uid_cfg := cfg \<rparr>, snd (engine s)) \<rparr>"

definition bridge_start :: "env \<Rightarrow> host \<Rightarrow> sys \<Rightarrow> (int \<times> sys) option" where
  "bridge_start e h s =
     (let s = s\<lparr> engine := (STP_IN_init (int NUMBER_OF_PORTS) (fst (engine s)), snd (engine s)), enabled_ports := 0 \<rparr>;
          s = bridge_conf_read s;
          cfg = (uid_cfg (fst (engine s)))\<lparr> field_mask := BR_CFG_STATE, cfg_vlan_name := ''Vlan0'' \<rparr>
      in case set_cfg_0 e h (Some all_ports_bmp) cfg (set_uid_cfg cfg s) of
           None \<Rightarrow> None
         | Some (rc, cfg, s) \<Rightarrow> Some (if rc = STP_OK then 0 else - 1, set_uid_cfg cfg s))"

text \<open>The thread that is destroyed with the instance has no state of its own.\<close>

definition bridge_shutdown :: "env \<Rightarrow> sys \<Rightarrow> sys option" where
  "bridge_shutdown e s = map_option (\<lambda>(rc, w). s\<lparr> engine := w \<rparr>) (STP_IN_stpm_delete e 0 (engine s))"

definition rstp_enable_port :: "nat \<Rightarrow> u8 \<Rightarrow> sys \<Rightarrow> sys" where
  "rstp_enable_port pindex enable s =
     s\<lparr> enabled_ports := (if enable = 1 then BitmapSetBit else BitmapClearBit) (enabled_ports s) (pindex - 1) \<rparr>"

text \<open>One turn of the endless loop of \<^verbatim>\<open>timer_event\<close> is a call of \<^verbatim>\<open>STP_IN_one_second\<close>.\<close>

definition one_second :: "env \<Rightarrow> sys \<Rightarrow> sys option" where
  "one_second e s = map_option (\<lambda>(n, w). s\<lparr> engine := w \<rparr>) (STP_IN_one_second e (engine s))"

definition ERR_TASK_CREATE_FAIL :: int where "ERR_TASK_CREATE_FAIL = 14"

definition rstp_init :: "env \<Rightarrow> host \<Rightarrow> sys \<Rightarrow> (int \<times> sys) option" where
  "rstp_init e h s =
     (let s = s\<lparr> engine := ((fst (engine s))\<lparr> rstp_dev_mac := vosHWAddrGet e \<rparr>, snd (engine s)) \<rparr>
      in case bridge_start e h s of
           None \<Rightarrow> None
         | Some (iRet, s) \<Rightarrow>
             if iRet \<noteq> 0 then Some (iRet, s)
             else (case one_second e (fold (\<lambda>i. rstp_enable_port i 1) [1..<NUMBER_OF_PORTS + 1] s) of
                     None \<Rightarrow> None
                   | Some s \<Rightarrow> Some (if thread_starts h then 0 else ERR_TASK_CREATE_FAIL, s)))"

subsection \<open>Port numbers\<close>

definition portPhyToLog :: "u16 \<Rightarrow> u16" where
  "portPhyToLog usPort =
     (if usPort = 1009 then 1 else if usPort = 288 then 3 else if usPort = 0 then 2 else if usPort = 1 then 4 else 0)"

definition portLogToPhy :: "u16 \<Rightarrow> u16" where
  "portLogToPhy usPort =
     (if usPort = 1 then 1009 else if usPort = 3 then 288 else if usPort = 2 then 0 else if usPort = 4 then 1 else 0xFF)"

subsection \<open>Properties\<close>

text \<open>The tables of port numbers are inverse to each other on the ports of the bridge, and no other
  physical port is taken for one of them.\<close>

theorem port_numbers_inverse:
  "(1 \<le> l \<and> l \<le> 4 \<longrightarrow> portPhyToLog (portLogToPhy l) = l)
   \<and> (portPhyToLog p \<noteq> 0 \<longrightarrow> portLogToPhy (portPhyToLog p) = p \<and> 1 \<le> portPhyToLog p \<and> portPhyToLog p \<le> 4)"
proof -
  have "l = 1 \<or> l = 2 \<or> l = 3 \<or> l = 4" if "1 \<le> l" "l \<le> 4"
  proof -
    have "unat l \<in> {1, 2, 3, 4}" using that by (auto simp: word_le_nat_alt)
    then show ?thesis by (auto simp: word_unat_eq_iff)
  qed
  then show ?thesis by (auto simp: portPhyToLog_def portLogToPhy_def)
qed

theorem port_numbers_inverse_witness:
  "portPhyToLog (portLogToPhy 3) = 3 \<and> portLogToPhy (portPhyToLog 1009) = 1009"
  using port_numbers_inverse [of 3 1009] by (simp add: portPhyToLog_def portLogToPhy_def)

text \<open>What is read of the ports does not depend on what the file says about their priority and path
  cost: all four ports get the same two values, those of keys in the section of the bridge.\<close>

theorem port_settings_read_from_bridge_section:
  assumes "\<forall>key d. vosConfigValueGet (cfgdb s) CFGFILE_RSTP RSTP_SECTION_BRD key d = vosConfigValueGet (cfgdb s') CFGFILE_RSTP RSTP_SECTION_BRD key d"
    "i < NUMBER_OF_PORTS" "j < NUMBER_OF_PORTS"
  shows "pc_priority (port_cfg (bridge_conf_read s) ! i) = pc_priority (port_cfg (bridge_conf_read s') ! j)
    \<and> pc_path_cost (port_cfg (bridge_conf_read s) ! i) = pc_path_cost (port_cfg (bridge_conf_read s') ! j)"
proof -
  have "brd_u32 (cfgdb s) key d = brd_u32 (cfgdb s') key d" for key d
    using assms(1) by (simp add: brd_u32_def vosConfigUInt32Get_def)
  then show ?thesis using assms(2,3) by (simp add: bridge_conf_read_def conf_read_port_def nth_append)
qed

definition example_sys :: sys where
  "example_sys = \<lparr> engine = (init_glob, []), cfgdb = Some string_table,
     port_cfg = replicate NUMBER_OF_PORTS \<lparr> pc_enable = 0, pc_path_cost = 0, pc_priority = 0, pc_edge_port = 0, pc_p2plink = 0 \<rparr>,
     enabled_ports = 0, I_am_a_stupid_hub = False, rsv_mac_ctrl = None \<rparr>"

lemma example_room: "config_ok (Some string_table)" "roomy (Some string_table) f n"
proof -
  show "config_ok (Some string_table)" by (simp add: config_ok_def string_table_ok)
  have "vosHashValue f (string_table :: (string, CFG_MODULE_DATA_t) hash_table) = None"
    using fun_cong [OF string_table_ok(2) [where 'a = CFG_MODULE_DATA_t], of f] by (simp add: hash_map_def)
  then show "roomy (Some string_table) f n"
    by (simp add: roomy_def tmodule_of_def tsection_of_def string_table_ok(3) HASH_CAPACITY_def threshold_of_def)
qed

theorem port_settings_read_from_bridge_section_witness:
  "\<exists>db. vosConfigUInt32Set CFGFILE_RSTP (port_section 1) RSTP_PORT_KEY_U32_PRI 3 (Some string_table) = Some (0, db)
     \<and> pc_priority (port_cfg (bridge_conf_read (example_sys\<lparr> cfgdb := db \<rparr>)) ! 0) = 128"
proof -
  have "port_section 1 \<noteq> RSTP_SECTION_BRD" by (simp add: port_section_def RSTP_SECTION_BRD_def)
  then obtain db where db: "vosConfigUInt32Set CFGFILE_RSTP (port_section 1) RSTP_PORT_KEY_U32_PRI 3 (Some string_table) = Some (0, db)"
    "\<forall>key d. vosConfigValueGet (cfgdb (example_sys\<lparr> cfgdb := db \<rparr>)) CFGFILE_RSTP RSTP_SECTION_BRD key d
       = vosConfigValueGet (cfgdb example_sys) CFGFILE_RSTP RSTP_SECTION_BRD key d"
    using value_set_ok [OF example_room, of CFGFILE_RSTP "port_section 1" RSTP_PORT_KEY_U32_PRI "dec_digits (unat (3 :: u32))"]
    by (auto simp: vosConfigUInt32Set_def example_sys_def)
  have "pc_priority (port_cfg (bridge_conf_read example_sys) ! 0) = 128" by code_simp
  then show ?thesis
    using db port_settings_read_from_bridge_section [OF db(2), of 0 0] by (auto simp: NUMBER_OF_PORTS_def)
qed

end
