(* ===== verification/Rstp_Cli.thy ===== *)
theory Rstp_Cli
  imports Rstp_Bridge Rstp_Config
begin

unbundle bit_operations_syntax

text \<open>
  The functions through which the management changes the engine (\<^verbatim>\<open>rstp/src/rstp_cli.c\<close>). Almost all of
  them discard the answer of the engine and return 0. The functions that print are left out.
\<close>

definition cli_mode :: "env \<Rightarrow> host \<Rightarrow> uid_stp_mode_t \<Rightarrow> bool \<Rightarrow> sys \<Rightarrow> (int \<times> sys) option" where
  "cli_mode e h mode hub s =
     (case set_cfg_0 e h None ((caller_cfg h)\<lparr> field_mask := BR_CFG_STATE, stp_enabled := mode \<rparr>) s of
        None \<Rightarrow> None
      | Some (rc, _, s) \<Rightarrow> Some (0, if rc = STP_OK then s\<lparr> I_am_a_stupid_hub := hub \<rparr> else s))"

definition cli_enable :: "env \<Rightarrow> host \<Rightarrow> sys \<Rightarrow> (int \<times> sys) option" where
  "cli_enable e h = cli_mode e h STP_ENABLED False"

definition cli_disable :: "env \<Rightarrow> host \<Rightarrow> sys \<Rightarrow> (int \<times> sys) option" where
  "cli_disable e h = cli_mode e h STP_DISABLED True"

subsection \<open>Settings of the bridge\<close>

definition bridge_cfg_value :: "uid_stp_cfg_t \<Rightarrow> u32 \<Rightarrow> u32 \<Rightarrow> uid_stp_cfg_t option" where
  "bridge_cfg_value stack value val_mask =
     (let cfg = stack\<lparr> field_mask := val_mask \<rparr>
      in if val_mask = BR_CFG_STATE then Some (cfg\<lparr> stp_enabled := (if value = 0 then STP_DISABLED else STP_ENABLED) \<rparr>)
         else if val_mask = BR_CFG_PRIO then Some (cfg\<lparr> bridge_priority := sint value \<rparr>)
         else if val_mask = BR_CFG_AGE then Some (cfg\<lparr> cfg_max_age := sint value \<rparr>)
         else if val_mask = BR_CFG_HELLO then Some (cfg\<lparr> cfg_hello_time := sint value \<rparr>)
         else if val_mask = BR_CFG_DELAY then Some (cfg\<lparr> cfg_forward_delay := sint value \<rparr>)
         else if val_mask = BR_CFG_FORCE_VER then Some (cfg\<lparr> force_version := sint value \<rparr>)
         else None)"

definition set_bridge_cfg_value :: "env \<Rightarrow> host \<Rightarrow> u32 \<Rightarrow> u32 \<Rightarrow> sys \<Rightarrow> sys option" where
  "set_bridge_cfg_value e h value val_mask s =
     (case bridge_cfg_value (caller_cfg h) value val_mask of
        None \<Rightarrow> Some s
      | Some cfg \<Rightarrow> map_option (\<lambda>(rc, _, s). s) (set_cfg_0 e h None cfg s))"

definition cli_br_prio :: "env \<Rightarrow> host \<Rightarrow> u32 \<Rightarrow> sys \<Rightarrow> (int \<times> sys) option" where
  "cli_br_prio e h value s = map_option (Pair 0) (set_bridge_cfg_value e h value BR_CFG_PRIO s)"

definition cli_br_maxage :: "env \<Rightarrow> host \<Rightarrow> u32 \<Rightarrow> sys \<Rightarrow> (int \<times> sys) option" where
  "cli_br_maxage e h value s = map_option (Pair 0) (set_bridge_cfg_value e h value BR_CFG_AGE s)"

definition cli_br_fdelay :: "env \<Rightarrow> host \<Rightarrow> u32 \<Rightarrow> sys \<Rightarrow> (int \<times> sys) option" where
  "cli_br_fdelay e h value s = map_option (Pair 0) (set_bridge_cfg_value e h value BR_CFG_DELAY s)"

definition cli_br_hellotime :: "env \<Rightarrow> host \<Rightarrow> u32 \<Rightarrow> sys \<Rightarrow> (int \<times> sys) option" where
  "cli_br_hellotime e h value s = map_option (Pair 0) (set_bridge_cfg_value e h value BR_CFG_HELLO s)"

definition cli_br_fvers :: "env \<Rightarrow> host \<Rightarrow> u32 \<Rightarrow> sys \<Rightarrow> (int \<times> sys) option" where
  "cli_br_fvers e h value s =
     (if value = 0 \<or> value = 1 \<or> value = 2
      then map_option (Pair 0) (set_bridge_cfg_value e h value BR_CFG_FORCE_VER s)
      else Some (0, s))"

definition diameter_cfg :: "uid_stp_cfg_t \<Rightarrow> u32 \<Rightarrow> u32 \<Rightarrow> uid_stp_cfg_t" where
  "diameter_cfg stack iHelloTime iDiameter = stack\<lparr> field_mask := BR_CFG_HELLO OR BR_CFG_DELAY OR BR_CFG_AGE,
     cfg_hello_time := sint iHelloTime, cfg_forward_delay := sint (iDiameter * iHelloTime + 1),
     cfg_max_age := sint ((iDiameter + 3) * iHelloTime) \<rparr>"

text \<open>Only this one returns the answer of the engine.\<close>

definition cli_br_diameter :: "env \<Rightarrow> host \<Rightarrow> u32 \<Rightarrow> u32 \<Rightarrow> sys \<Rightarrow> (int \<times> sys) option" where
  "cli_br_diameter e h iHelloTime iDiameter s =
     map_option (\<lambda>(rc, _, s). (err_code rc, s)) (set_cfg_0 e h None (diameter_cfg (caller_cfg h) iHelloTime iDiameter) s)"

subsection \<open>Settings of ports\<close>

definition set_port_cfg_0 :: "env \<Rightarrow> uid_stp_port_cfg_t \<Rightarrow> sys \<Rightarrow> sys option" where
  "set_port_cfg_0 e cfg s = map_option (\<lambda>(rc, w). s\<lparr> engine := w \<rparr>) (STP_IN_set_port_cfg e 0 cfg (engine s))"

text \<open>
  A value that is none of the three enumerators is stored as it is; the machine that reads it
  treats it as automatic.
\<close>

definition p2p_of :: "u32 \<Rightarrow> admin_p2p_t" where
  "p2p_of value = (if value = 0 then P2P_FORCE_TRUE else if value = 1 then P2P_FORCE_FALSE else P2P_AUTO)"

text \<open>\<^verbatim>\<open>BitmapSetAllBits\<close> fills the four bytes of the bitmap with \<^verbatim>\<open>0x0F\<close>.\<close>

definition BitmapSetAllBits :: u32 where
  "BitmapSetAllBits = 0x0F0F0F0F"

definition port_cfg_value :: "uid_stp_port_cfg_t \<Rightarrow> u32 \<Rightarrow> u32 \<Rightarrow> uid_stp_port_cfg_t option" where
  "port_cfg_value cfg value val_mask =
     (if val_mask = PT_CFG_MCHECK then Some cfg
      else if val_mask = PT_CFG_COST then Some (cfg\<lparr> admin_port_path_cost := value \<rparr>)
      else if val_mask = PT_CFG_PRIO then Some (cfg\<lparr> port_priority := sint value \<rparr>)
      else if val_mask = PT_CFG_P2P then Some (cfg\<lparr> admin_point2point := p2p_of value \<rparr>)
      else if val_mask = PT_CFG_EDGE then Some (cfg\<lparr> admin_edge := ucast value \<rparr>)
      else if val_mask = PT_CFG_NON_STP then Some (cfg\<lparr> pt_admin_non_stp := ucast value \<rparr>)
      else if val_mask = PT_CFG_DBG_SKIP_TX then Some (cfg\<lparr> pt_skip_tx := value \<rparr>)
      else if val_mask = PT_CFG_DBG_SKIP_RX then Some (cfg\<lparr> pt_skip_rx := value \<rparr>)
      else None)"

definition set_rstp_port_cfg_value :: "env \<Rightarrow> host \<Rightarrow> int \<Rightarrow> u32 \<Rightarrow> u32 \<Rightarrow> sys \<Rightarrow> sys option" where
  "set_rstp_port_cfg_value e h pindex value val_mask s =
     (let cfg = (caller_port h)\<lparr> pt_field_mask := val_mask,
            pt_port_bmp := (if pindex > 0 then BitmapSetBit 0 (nat (pindex - 1)) else BitmapSetAllBits) \<rparr>
      in case port_cfg_value cfg value val_mask of
           None \<Rightarrow> Some s
         | Some cfg \<Rightarrow> set_port_cfg_0 e cfg s)"

definition cli_prt_prio :: "env \<Rightarrow> host \<Rightarrow> int \<Rightarrow> u32 \<Rightarrow> sys \<Rightarrow> (int \<times> sys) option" where
  "cli_prt_prio e h pindex value s = map_option (Pair 0) (set_rstp_port_cfg_value e h pindex value PT_CFG_PRIO s)"

definition cli_prt_pcost :: "env \<Rightarrow> host \<Rightarrow> int \<Rightarrow> u32 \<Rightarrow> sys \<Rightarrow> (int \<times> sys) option" where
  "cli_prt_pcost e h pindex value s = map_option (Pair 0) (set_rstp_port_cfg_value e h pindex value PT_CFG_COST s)"

definition cli_prt_mcheck :: "env \<Rightarrow> host \<Rightarrow> int \<Rightarrow> sys \<Rightarrow> (int \<times> sys) option" where
  "cli_prt_mcheck e h pindex s = map_option (Pair 0) (set_rstp_port_cfg_value e h pindex 0 PT_CFG_MCHECK s)"

definition cli_prt_edge :: "env \<Rightarrow> host \<Rightarrow> int \<Rightarrow> u32 \<Rightarrow> sys \<Rightarrow> (int \<times> sys) option" where
  "cli_prt_edge e h pindex value s = map_option (Pair 0) (set_rstp_port_cfg_value e h pindex value PT_CFG_EDGE s)"

definition cli_prt_non_stp :: "env \<Rightarrow> host \<Rightarrow> int \<Rightarrow> u32 \<Rightarrow> sys \<Rightarrow> (int \<times> sys) option" where
  "cli_prt_non_stp e h pindex value s = map_option (Pair 0) (set_rstp_port_cfg_value e h pindex value PT_CFG_NON_STP s)"

definition cli_prt_p2p :: "env \<Rightarrow> host \<Rightarrow> int \<Rightarrow> u8 \<Rightarrow> sys \<Rightarrow> (int \<times> sys) option" where
  "cli_prt_p2p e h pindex value s = map_option (Pair 0) (set_rstp_port_cfg_value e h pindex (ucast value) PT_CFG_P2P s)"

definition stp_cli_init :: "sys \<Rightarrow> int \<times> sys" where
  "stp_cli_init s = (0, s\<lparr> I_am_a_stupid_hub := False \<rparr>)"

text \<open>
  Several ports at once: the values of the fields in the mask follow each other in an array. \<open>None\<close>
  is a read behind its end.
\<close>

definition multiport_fields :: "(u32 \<times> (u32 \<Rightarrow> uid_stp_port_cfg_t \<Rightarrow> uid_stp_port_cfg_t)) list" where
  "multiport_fields =
     [(PT_CFG_COST, \<lambda>v cfg. cfg\<lparr> admin_port_path_cost := v \<rparr>),
      (PT_CFG_PRIO, \<lambda>v cfg. cfg\<lparr> port_priority := sint v \<rparr>),
      (PT_CFG_P2P, \<lambda>v cfg. cfg\<lparr> admin_point2point := p2p_of v \<rparr>),
      (PT_CFG_EDGE, \<lambda>v cfg. cfg\<lparr> admin_edge := ucast v \<rparr>),
      (PT_CFG_NON_STP, \<lambda>v cfg. cfg\<lparr> pt_admin_non_stp := ucast v \<rparr>),
      (PT_CFG_DBG_SKIP_RX, \<lambda>v cfg. cfg\<lparr> pt_skip_rx := v \<rparr>),
      (PT_CFG_DBG_SKIP_TX, \<lambda>v cfg. cfg\<lparr> pt_skip_tx := v \<rparr>)]"

fun take_values ::
    "(u32 \<times> (u32 \<Rightarrow> uid_stp_port_cfg_t \<Rightarrow> uid_stp_port_cfg_t)) list \<Rightarrow> u32 \<Rightarrow> u32 list \<Rightarrow> uid_stp_port_cfg_t
       \<Rightarrow> uid_stp_port_cfg_t option" where
  "take_values [] ulMask vs cfg = Some cfg"
| "take_values ((fld, upd) # fs) ulMask vs cfg =
     (if masked fld ulMask
      then (case vs of [] \<Rightarrow> None | v # vs \<Rightarrow> take_values fs ulMask vs (upd v cfg))
      else take_values fs ulMask vs cfg)"

definition multiport_cfg :: "uid_stp_port_cfg_t \<Rightarrow> u32 \<Rightarrow> u32 list \<Rightarrow> u32 \<Rightarrow> uid_stp_port_cfg_t option" where
  "multiport_cfg stack ulPortBitmap aulValue ulMask =
     take_values multiport_fields ulMask aulValue
       (stack\<lparr> pt_port_bmp := (if ulPortBitmap = 0 then 0x0000000F else ulPortBitmap), pt_field_mask := ulMask \<rparr>)"

definition set_rstp_multiport_cfg_value :: "env \<Rightarrow> host \<Rightarrow> u32 \<Rightarrow> u32 list \<Rightarrow> u32 \<Rightarrow> sys \<Rightarrow> sys option" where
  "set_rstp_multiport_cfg_value e h ulPortBitmap aulValue ulMask s =
     (case multiport_cfg (caller_port h) ulPortBitmap aulValue ulMask of
        None \<Rightarrow> None
      | Some cfg \<Rightarrow> set_port_cfg_0 e cfg s)"

definition cli_multiport_prio :: "env \<Rightarrow> host \<Rightarrow> u32 \<Rightarrow> u32 \<Rightarrow> sys \<Rightarrow> (int \<times> sys) option" where
  "cli_multiport_prio e h bmp value s = map_option (Pair 0) (set_rstp_multiport_cfg_value e h bmp [value] PT_CFG_PRIO s)"

definition cli_multiport_pcost :: "env \<Rightarrow> host \<Rightarrow> u32 \<Rightarrow> u32 \<Rightarrow> sys \<Rightarrow> (int \<times> sys) option" where
  "cli_multiport_pcost e h bmp value s = map_option (Pair 0) (set_rstp_multiport_cfg_value e h bmp [value] PT_CFG_COST s)"

definition cli_multiport_mcheck :: "env \<Rightarrow> host \<Rightarrow> u32 \<Rightarrow> u32 \<Rightarrow> sys \<Rightarrow> (int \<times> sys) option" where
  "cli_multiport_mcheck e h bmp value s = map_option (Pair 0) (set_rstp_multiport_cfg_value e h bmp [value] PT_CFG_MCHECK s)"

definition cli_multiport_edge :: "env \<Rightarrow> host \<Rightarrow> u32 \<Rightarrow> u32 \<Rightarrow> sys \<Rightarrow> (int \<times> sys) option" where
  "cli_multiport_edge e h bmp value s = map_option (Pair 0) (set_rstp_multiport_cfg_value e h bmp [value] PT_CFG_EDGE s)"

definition cli_multiport_non_rstp :: "env \<Rightarrow> host \<Rightarrow> u32 \<Rightarrow> u32 \<Rightarrow> sys \<Rightarrow> (int \<times> sys) option" where
  "cli_multiport_non_rstp e h bmp value s = map_option (Pair 0) (set_rstp_multiport_cfg_value e h bmp [value] PT_CFG_NON_STP s)"

definition cli_multiport_p2p :: "env \<Rightarrow> host \<Rightarrow> u32 \<Rightarrow> u32 \<Rightarrow> sys \<Rightarrow> (int \<times> sys) option" where
  "cli_multiport_p2p e h bmp value s = map_option (Pair 0) (set_rstp_multiport_cfg_value e h bmp [value] PT_CFG_P2P s)"

end
