(* ===== verification/Rstp_Odm.thy ===== *)
theory Rstp_Odm
  imports Rstp_Cli
begin

unbundle bit_operations_syntax

text \<open>
  The management of the spanning tree (\<^verbatim>\<open>bridge/src/odm_rstp.c\<close>): every setting is given to the engine
  and stored in the configuration database; at the start the database is given back to the engine.
  The boards with the ACL of the AR8xxx switches, which program a further table in
  \<^verbatim>\<open>odmRstpPktHandleModeSet\<close>, are left out.
\<close>

datatype odm_status =
    NO_ERROR | OPL_ERROR | ERR_INVALID_PARAMETERS | ERR_NULL_POINTER
  | RSTP_BRD_ENABLE_ERROR | RSTP_BRD_DISABLE_ERROR | RSTP_BRD_HELLOTIME_SET_ERROR | RSTP_BRD_FWDDELAY_SET_ERROR
  | RSTP_BRD_MAXAGE_SET_ERROR | RSTP_BRD_VERSION_SET_ERROR | RSTP_BRD_PRI_SET_ERROR | RSTP_PORT_MODE_SET_ERROR
  | RSTP_PORT_EDGE_SET_ERROR | RSTP_PORT_P2P_SET_ERROR | RSTP_PORT_PATH_COST_SET_ERROR | RSTP_PORT_PRI_SET_ERROR
  | RSTP_BRD_NOT_ENABLE_WARNING | RSTP_BRD_CFG_RECOVER_ERROR | RSTP_PORT_CFG_RECOVER_ERROR
  | RSTP_CFG_FILE_BRD_MODE_SET_ERROR | RSTP_CFG_FILE_BRD_HELLOTIME_SET_ERROR | RSTP_CFG_FILE_BRD_FWDDELAY_SET_ERROR
  | RSTP_CFG_FILE_BRD_MAXAGE_SET_ERROR | RSTP_CFG_FILE_BRD_VERSION_SET_ERROR | RSTP_CFG_FILE_BRD_PRI_SET_ERROR
  | RSTP_CFG_FILE_PORT_MODE_SET_ERROR | RSTP_CFG_FILE_PORT_EDGE_SET_ERROR | RSTP_CFG_FILE_PORT_P2P_SET_ERROR
  | RSTP_CFG_FILE_PORT_PATH_COST_SET_ERROR | RSTP_CFG_FILE_PORT_PRI_SET_ERROR | RSTP_CFG_FILE_BRD_DIAMETER_SET_ERROR
  | RSTP_INIT_ERROR

subsection \<open>Access to the database\<close>

definition has_key :: "config \<Rightarrow> string \<Rightarrow> string \<Rightarrow> bool" where
  "has_key db sec key \<longleftrightarrow> vosConfigKeyIsExisted db CFGFILE_RSTP sec key = 0"

definition sec_u32 :: "config \<Rightarrow> string \<Rightarrow> string \<Rightarrow> u32 \<Rightarrow> u32" where
  "sec_u32 db sec key dflt = vosConfigUInt32Get db CFGFILE_RSTP sec key dflt"

text \<open>\<^verbatim>\<open>memcmp\<close> of the value with the seven characters of the word: the rest of the value is ignored.\<close>

definition disabled_value :: "config \<Rightarrow> string \<Rightarrow> string \<Rightarrow> bool" where
  "disabled_value db sec key \<longleftrightarrow>
     take (length RSTP_VALUE_DISABLE) (the (vosConfigValueGet db CFGFILE_RSTP sec key (Some RSTP_VALUE_DISABLE)))
       = RSTP_VALUE_DISABLE"

definition put_value :: "string \<Rightarrow> string \<Rightarrow> string \<Rightarrow> odm_status \<Rightarrow> sys \<Rightarrow> (odm_status \<times> sys) option" where
  "put_value sec key value err s =
     (case vosConfigValueSet CFGFILE_RSTP sec key value (cfgdb s) of
        None \<Rightarrow> None
      | Some (iRet, db) \<Rightarrow> Some (if iRet \<noteq> 0 then err else NO_ERROR, s\<lparr> cfgdb := db \<rparr>))"

definition put_u32 :: "string \<Rightarrow> string \<Rightarrow> u32 \<Rightarrow> odm_status \<Rightarrow> sys \<Rightarrow> (odm_status \<times> sys) option" where
  "put_u32 sec key value err s =
     (case vosConfigUInt32Set CFGFILE_RSTP sec key value (cfgdb s) of
        None \<Rightarrow> None
      | Some (iRet, db) \<Rightarrow> Some (if iRet \<noteq> 0 then err else NO_ERROR, s\<lparr> cfgdb := db \<rparr>))"

subsection \<open>Settings of the bridge\<close>

definition odmRstpEnable :: "env \<Rightarrow> host \<Rightarrow> int \<Rightarrow> sys \<Rightarrow> (odm_status \<times> sys) option" where
  "odmRstpEnable e h enable s =
     (if has_key (cfgdb s) RSTP_SECTION_BRD RSTP_BRD_KEY_VALUE_MODE
         \<and> (if disabled_value (cfgdb s) RSTP_SECTION_BRD RSTP_BRD_KEY_VALUE_MODE then 0 else 1) = enable
      then Some (NO_ERROR, s)
      else if enable = 1 then
        (case cli_enable e h s of
           None \<Rightarrow> None
         | Some (iRet, s) \<Rightarrow>
             if iRet \<noteq> 0 then Some (RSTP_BRD_ENABLE_ERROR, s)
             else put_value RSTP_SECTION_BRD RSTP_BRD_KEY_VALUE_MODE RSTP_VALUE_ENABLE RSTP_CFG_FILE_BRD_MODE_SET_ERROR s)
      else
        (case cli_disable e h s of
           None \<Rightarrow> None
         | Some (iRet, s) \<Rightarrow>
             if iRet \<noteq> 0 then Some (RSTP_BRD_DISABLE_ERROR, s)
             else put_value RSTP_SECTION_BRD RSTP_BRD_KEY_VALUE_MODE RSTP_VALUE_DISABLE RSTP_CFG_FILE_BRD_MODE_SET_ERROR s))"

text \<open>The common shape of the five functions that follow.\<close>

definition odm_set_u32 ::
    "string \<Rightarrow> u32 \<Rightarrow> (sys \<Rightarrow> (int \<times> sys) option) \<Rightarrow> odm_status \<Rightarrow> odm_status \<Rightarrow> u32 \<Rightarrow> sys \<Rightarrow> (odm_status \<times> sys) option" where
  "odm_set_u32 key dflt cli err cfg_err data s =
     (if has_key (cfgdb s) RSTP_SECTION_BRD key \<and> sec_u32 (cfgdb s) RSTP_SECTION_BRD key dflt = data
      then Some (NO_ERROR, s)
      else (case cli s of
              None \<Rightarrow> None
            | Some (iRet, s) \<Rightarrow>
                if iRet \<noteq> 0 then Some (err, s) else put_u32 RSTP_SECTION_BRD key data cfg_err s))"

definition odmRstpSetHello :: "env \<Rightarrow> host \<Rightarrow> u32 \<Rightarrow> sys \<Rightarrow> (odm_status \<times> sys) option" where
  "odmRstpSetHello e h data = odm_set_u32 RSTP_BRD_KEY_U32_HELLOTIME RSTP_BRD_DEFAULT_HELLOTIME
     (cli_br_hellotime e h data) RSTP_BRD_HELLOTIME_SET_ERROR RSTP_CFG_FILE_BRD_HELLOTIME_SET_ERROR data"

definition odmRstpSetForward :: "env \<Rightarrow> host \<Rightarrow> u32 \<Rightarrow> sys \<Rightarrow> (odm_status \<times> sys) option" where
  "odmRstpSetForward e h data = odm_set_u32 RSTP_BRD_KEY_U32_FWDDELAY RSTP_BRD_DEFAULT_FWDDELAYTIME
     (cli_br_fdelay e h data) RSTP_BRD_FWDDELAY_SET_ERROR RSTP_CFG_FILE_BRD_FWDDELAY_SET_ERROR data"

definition odmRstpSetMaxage :: "env \<Rightarrow> host \<Rightarrow> u32 \<Rightarrow> sys \<Rightarrow> (odm_status \<times> sys) option" where
  "odmRstpSetMaxage e h data = odm_set_u32 RSTP_BRD_KEY_U32_MAXAGE RSTP_BRD_DEFAULT_MAXAGE
     (cli_br_maxage e h data) RSTP_BRD_MAXAGE_SET_ERROR RSTP_CFG_FILE_BRD_MAXAGE_SET_ERROR data"

definition odmRstpSetForver :: "env \<Rightarrow> host \<Rightarrow> u32 \<Rightarrow> sys \<Rightarrow> (odm_status \<times> sys) option" where
  "odmRstpSetForver e h data = odm_set_u32 RSTP_BRD_KEY_U32_VERSION RSTP_BRD_DEFAULT_FORCEVERSION
     (cli_br_fvers e h data) RSTP_BRD_VERSION_SET_ERROR RSTP_CFG_FILE_BRD_VERSION_SET_ERROR data"

definition odmRstpSetPriority :: "env \<Rightarrow> host \<Rightarrow> u32 \<Rightarrow> sys \<Rightarrow> (odm_status \<times> sys) option" where
  "odmRstpSetPriority e h data = odm_set_u32 RSTP_BRD_KEY_U32_PRI RSTP_BRD_DEFAULT_PRI
     (cli_br_prio e h (data * 4096)) RSTP_BRD_PRI_SET_ERROR RSTP_CFG_FILE_BRD_PRI_SET_ERROR data"

text \<open>A value of the database that differs from what is wanted, or is missing.\<close>

definition must_update :: "config \<Rightarrow> string \<Rightarrow> u32 \<Rightarrow> u32 \<Rightarrow> bool" where
  "must_update db key dflt wanted \<longleftrightarrow>
     \<not> (has_key db RSTP_SECTION_BRD key \<and> wanted = sec_u32 db RSTP_SECTION_BRD key dflt)"

fun put_all_u32 :: "(bool \<times> string \<times> u32 \<times> odm_status) list \<Rightarrow> sys \<Rightarrow> (odm_status \<times> sys) option" where
  "put_all_u32 [] s = Some (NO_ERROR, s)"
| "put_all_u32 ((b, key, value, err) # us) s =
     (if b
      then (case put_u32 RSTP_SECTION_BRD key value err s of
              None \<Rightarrow> None
            | Some (rc, s) \<Rightarrow> if rc \<noteq> NO_ERROR then Some (rc, s) else put_all_u32 us s)
      else put_all_u32 us s)"

definition odmRstpSetDiameter :: "env \<Rightarrow> host \<Rightarrow> u32 \<Rightarrow> sys \<Rightarrow> (odm_status \<times> sys) option" where
  "odmRstpSetDiameter e h data s =
     (let ulHelloTime = RSTP_BRD_DEFAULT_HELLOTIME;
          ulFwdDelayTime = data * ulHelloTime + 1;
          ulMaxAge = (data + 3) * ulHelloTime;
          bUpdateHelloTime = must_update (cfgdb s) RSTP_BRD_KEY_U32_HELLOTIME RSTP_BRD_DEFAULT_HELLOTIME ulHelloTime;
          bUpdateFwdDelayTime = must_update (cfgdb s) RSTP_BRD_KEY_U32_FWDDELAY RSTP_BRD_DEFAULT_FWDDELAYTIME ulFwdDelayTime;
          bUpdateMaxAge = must_update (cfgdb s) RSTP_BRD_KEY_U32_MAXAGE RSTP_BRD_DEFAULT_MAXAGE ulMaxAge
      in case (if bUpdateHelloTime \<or> bUpdateFwdDelayTime \<or> bUpdateMaxAge
               then cli_br_diameter e h RSTP_BRD_DEFAULT_HELLOTIME data s else Some (0, s)) of
           None \<Rightarrow> None
         | Some (iRet, s) \<Rightarrow>
             if iRet \<noteq> 0 then Some (RSTP_BRD_HELLOTIME_SET_ERROR, s)
             else put_all_u32
               [(data \<noteq> sec_u32 (cfgdb s) RSTP_SECTION_BRD RSTP_BRD_KEY_U32_DIAMETER 0,
                   RSTP_BRD_KEY_U32_DIAMETER, data, RSTP_CFG_FILE_BRD_DIAMETER_SET_ERROR),
                (bUpdateHelloTime, RSTP_BRD_KEY_U32_HELLOTIME, ulHelloTime, RSTP_CFG_FILE_BRD_HELLOTIME_SET_ERROR),
                (bUpdateFwdDelayTime, RSTP_BRD_KEY_U32_FWDDELAY, ulFwdDelayTime, RSTP_CFG_FILE_BRD_FWDDELAY_SET_ERROR),
                (bUpdateMaxAge, RSTP_BRD_KEY_U32_MAXAGE, ulMaxAge, RSTP_CFG_FILE_BRD_MAXAGE_SET_ERROR)] s)"

subsection \<open>Settings of ports\<close>

text \<open>
  The loop over the ports of the bitmap that stores a setting: \<open>same\<close> tells that the section of
  the port has the value already, \<open>put\<close> stores it.
\<close>

fun each_port ::
    "(string \<Rightarrow> config \<Rightarrow> bool) \<Rightarrow> (string \<Rightarrow> sys \<Rightarrow> (odm_status \<times> sys) option) \<Rightarrow> u32 \<Rightarrow> nat list \<Rightarrow> sys
       \<Rightarrow> (odm_status \<times> sys) option" where
  "each_port same put bmp [] s = Some (NO_ERROR, s)"
| "each_port same put bmp (i # is) s =
     (if bmp AND push_bit (i - 1) 1 = 0 \<or> same (port_section i) (cfgdb s) then each_port same put bmp is s
      else (case put (port_section i) s of
              None \<Rightarrow> None
            | Some (rc, s) \<Rightarrow> if rc \<noteq> NO_ERROR then Some (rc, s) else each_port same put bmp is s))"

definition ODM_PORTS :: "nat list" where "ODM_PORTS = [1, 2, 3, 4]"

definition store_mode :: "string \<Rightarrow> int \<Rightarrow> odm_status \<Rightarrow> u32 \<Rightarrow> sys \<Rightarrow> (odm_status \<times> sys) option" where
  "store_mode key enable err bmp s =
     each_port (\<lambda>sec db. has_key db sec key \<and> (if disabled_value db sec key then 0 else 1) = enable)
       (\<lambda>sec. put_value sec key (if enable = 1 then RSTP_VALUE_ENABLE else RSTP_VALUE_DISABLE) err) bmp ODM_PORTS s"

definition store_u32 :: "string \<Rightarrow> u32 \<Rightarrow> u32 \<Rightarrow> odm_status \<Rightarrow> u32 \<Rightarrow> sys \<Rightarrow> (odm_status \<times> sys) option" where
  "store_u32 key dflt data err bmp s =
     each_port (\<lambda>sec db. has_key db sec key \<and> sec_u32 db sec key dflt = data) (\<lambda>sec. put_u32 sec key data err) bmp ODM_PORTS s"

definition odmRstpPortEnable :: "env \<Rightarrow> host \<Rightarrow> u32 \<Rightarrow> int \<Rightarrow> sys \<Rightarrow> (odm_status \<times> sys) option" where
  "odmRstpPortEnable e h ulPortBitmap enable s =
     (if enable = 1 \<and> \<not> enabled_value (cfgdb s) RSTP_SECTION_BRD RSTP_BRD_KEY_VALUE_MODE RSTP_VALUE_DISABLE
      then Some (RSTP_BRD_NOT_ENABLE_WARNING, s)
      else (case cli_multiport_non_rstp e h ulPortBitmap (if enable = 0 then 1 else 0) s of
              None \<Rightarrow> None
            | Some (iRet, s) \<Rightarrow>
                if iRet \<noteq> 0 then Some (RSTP_PORT_MODE_SET_ERROR, s)
                else store_mode RSTP_PORT_KEY_VALUE_MODE enable RSTP_CFG_FILE_PORT_MODE_SET_ERROR ulPortBitmap s))"

definition odmRstpEdgePortEnable :: "env \<Rightarrow> host \<Rightarrow> u32 \<Rightarrow> int \<Rightarrow> sys \<Rightarrow> (odm_status \<times> sys) option" where
  "odmRstpEdgePortEnable e h ulPortBitmap enable s =
     (case cli_multiport_edge e h ulPortBitmap (word_of_int enable) s of
        None \<Rightarrow> None
      | Some (iRet, s) \<Rightarrow>
          if iRet \<noteq> 0 then Some (RSTP_PORT_EDGE_SET_ERROR, s)
          else store_mode RSTP_PORT_KEY_VALUE_EDGE enable RSTP_CFG_FILE_PORT_EDGE_SET_ERROR ulPortBitmap s)"

definition odmRstpP2plinkMode :: "env \<Rightarrow> host \<Rightarrow> u32 \<Rightarrow> u32 \<Rightarrow> sys \<Rightarrow> (odm_status \<times> sys) option" where
  "odmRstpP2plinkMode e h ulPortBitmap data s =
     (case cli_multiport_p2p e h ulPortBitmap data s of
        None \<Rightarrow> None
      | Some (iRet, s) \<Rightarrow>
          if iRet \<noteq> 0 then Some (RSTP_PORT_P2P_SET_ERROR, s)
          else store_u32 RSTP_PORT_KEY_U32_P2P RSTP_PORT_DEFAULT_P2P_MODE data RSTP_CFG_FILE_PORT_P2P_SET_ERROR ulPortBitmap s)"

definition odmRstpSetPathCost :: "env \<Rightarrow> host \<Rightarrow> u32 \<Rightarrow> u32 \<Rightarrow> sys \<Rightarrow> (odm_status \<times> sys) option" where
  "odmRstpSetPathCost e h ulPortBitmap data s =
     (case cli_multiport_pcost e h ulPortBitmap data s of
        None \<Rightarrow> None
      | Some (iRet, s) \<Rightarrow>
          if iRet \<noteq> 0 then Some (RSTP_PORT_PATH_COST_SET_ERROR, s)
          else store_u32 RSTP_PORT_KEY_U32_PCOST RSTP_PORT_DEFAULT_PATH_COST data RSTP_CFG_FILE_PORT_PATH_COST_SET_ERROR ulPortBitmap s)"

definition odmRstpSetPortPriority :: "env \<Rightarrow> host \<Rightarrow> u32 \<Rightarrow> u32 \<Rightarrow> sys \<Rightarrow> (odm_status \<times> sys) option" where
  "odmRstpSetPortPriority e h ulPortBitmap data s =
     (case cli_multiport_prio e h ulPortBitmap (data * 16) s of
        None \<Rightarrow> None
      | Some (iRet, s) \<Rightarrow>
          if iRet \<noteq> 0 then Some (RSTP_PORT_PRI_SET_ERROR, s)
          else store_u32 RSTP_PORT_KEY_U32_PRI RSTP_PORT_DEFAULT_PRI data RSTP_CFG_FILE_PORT_PRI_SET_ERROR ulPortBitmap s)"

end
