(* ===== verification/Rstp_Settings.thy ===== *)
theory Rstp_Settings
  imports Rstp_Odm
begin

text \<open>
  What a setting of the bridge does to the two places it is kept in: the engine, which may refuse
  it, and the configuration database, which takes everything.
\<close>

subsection \<open>The engine\<close>

text \<open>The values that the engine accepts.\<close>

definition settings_ok :: "int \<times> int \<times> int \<times> int \<times> int \<Rightarrow> bool" where
  "settings_ok = (\<lambda>(pr, age, hello, delay, ver). 0 \<le> pr \<and> pr \<le> 61440 \<and> 1 \<le> hello \<and> hello \<le> 10
     \<and> 6 \<le> age \<and> age \<le> 40 \<and> 4 \<le> delay \<and> delay \<le> 30 \<and> age \<le> 2 * (delay - 1) \<and> 2 * (hello + 1) \<le> age)"

lemma check_settings_ok: "check_stpm_config cfg = STP_OK \<longleftrightarrow> settings_ok (settings cfg)"
  by (auto simp: check_stpm_config_def settings_ok_def settings_def cfg_limits)

lemma find_alone: "vlan_id b = 0 \<Longrightarrow> stpapi_stpm_find 0 [b] = Some 0"
  by (simp add: stpapi_stpm_find_def)

text \<open>A request that does not change the state of the instance.\<close>

definition keeps_state :: "uid_stp_cfg_t \<Rightarrow> stpm_t \<Rightarrow> bool" where
  "keeps_state cfg b \<longleftrightarrow> \<not> masked BR_CFG_STATE (field_mask cfg)
     \<or> stp_enabled cfg = STP_ENABLED \<and> admin_state b = STP_ENABLED"

lemma rest_alone:
  assumes "vlan_id b = 0" "keeps_state cfg b"
  shows "set_cfg_rest e 0 bmp cfg old (g, [b]) = Some (STP_OK, (g, [setting_done old b]))"
  using assms by (auto simp: keeps_state_def set_cfg_rest_def Let_def find_alone STP_stpm_check_bridge_priority_def upd_at_def
      setting_done_def apply_cfg_def set_prio_def)

lemma set_cfg_alone:
  assumes "engine s = (g, [b])" "vlan_id b = 0" "keeps_state cfg b"
    "want = wanted_settings cfg (bridge_settings b)"
  shows "\<exists>rc g' b'. set_cfg_0 e h bmp cfg s = Some (rc, cfg, s\<lparr> engine := (g', [b']) \<rparr>) \<and> vlan_id b' = 0
    \<and> (rc = STP_OK \<longleftrightarrow> settings_ok want) \<and> bridge_settings b' = (if settings_ok want then want else bridge_settings b)"
proof -
  obtain rc0 old0 where get: "STP_IN_stpm_get_cfg 0 (g, [b]) (callee_cfg h) = (rc0, old0)" by fastforce
  have 0: "rc0 = STP_OK" "settings old0 = bridge_settings b"
    using get_cfg_found [OF find_alone [OF assms(2)], of g "callee_cfg h"] by (simp_all add: get)
  define old where "old = merge_cfg cfg old0"
  have w: "settings old = want" using 0(2) by (simp add: old_def settings_merge assms(4))
  let ?g = "INCR100 (g\<lparr> tev := RSTP_PORT_MNGR_T \<rparr>)"
  have run: "STP_IN_stpm_set_cfg e (callee_cfg h) 0 bmp cfg (g, [b]) =
      (if settings_ok want then Some (STP_OK, cfg, (?g, [setting_done old b])) else Some (check_stpm_config old, cfg, (?g, [b])))"
    using assms(3) check_settings_ok [of old] rest_alone [OF assms(2,3)]
    by (auto simp: keeps_state_def STP_IN_stpm_set_cfg_def get 0(1) old_def [symmetric] w Let_def)
  have "bridge_settings (setting_done old b) = want" if "settings_ok want"
    using settings_apply [of old b] settings_reselect that w check_settings_ok [of old]
    by (simp add: setting_done_def Let_def)
  moreover have "vlan_id (setting_done old b) = 0"
    using assms(2) by (simp add: setting_done_def apply_cfg_def set_prio_def STP_stpm_update_after_bridge_management_def Let_def)
  ultimately show ?thesis
    using run check_settings_ok [of old] w assms(1,2) by (auto simp: set_cfg_0_def)
qed

subsection \<open>The database\<close>

text \<open>The number under a key of the bridge, when there is one.\<close>

definition stored :: "config \<Rightarrow> string \<Rightarrow> u32 option" where
  "stored db key = map_option strtoul0 (config_get (CFGFILE_RSTP, RSTP_SECTION_BRD, key) db)"

lemma stored_eq:
  "has_key db RSTP_SECTION_BRD key \<and> sec_u32 db RSTP_SECTION_BRD key d = x \<longleftrightarrow> stored db key = Some x"
  by (auto simp: has_key_def sec_u32_def vosConfigKeyIsExisted_def vosConfigUInt32Get_def vosConfigValueGet_def
      stored_def config_get_def split: option.splits)

lemma put_u32_ok:
  assumes "cfgdb s = Some t" "config_ok (Some t)" "roomy (Some t) CFGFILE_RSTP sec"
  shows "\<exists>t'. put_u32 sec key x err s = Some (NO_ERROR, s\<lparr> cfgdb := Some t' \<rparr>) \<and> config_ok (Some t')
    \<and> map_option strtoul0 (config_get (CFGFILE_RSTP, sec, key) (Some t')) = Some x
    \<and> (\<forall>l. l \<noteq> (CFGFILE_RSTP, sec, key) \<longrightarrow> config_get l (Some t') = config_get l (Some t))"
proof -
  obtain db' where db': "config_put (CFGFILE_RSTP, sec, key) (dec_digits (unat x)) (Some t) = Some db'" "db' \<noteq> None"
    "config_ok db'" "map_option strtoul0 (config_get (CFGFILE_RSTP, sec, key) db') = Some x"
    "\<forall>l. l \<noteq> (CFGFILE_RSTP, sec, key) \<longrightarrow> config_get l db' = config_get l (Some t)"
    using store.number [of "Some t" "(CFGFILE_RSTP, sec, key)" x] assms(2,3) by auto
  obtain t' where t': "db' = Some t'" using db'(2) by blast
  have "vosConfigUInt32Set CFGFILE_RSTP sec key x (Some t) = Some (0, db')"
    using db'(1) by (auto simp: config_put_def vosConfigUInt32Set_def split: option.splits if_splits)
  then show ?thesis using db' assms(1) by (intro exI [of _ t']) (simp add: put_u32_def t')
qed

subsection \<open>A setting that is kept in both\<close>

type_synonym brd_settings = "int \<times> int \<times> int \<times> int \<times> int"

text \<open>
  What the management relies on: the call for the engine returns, whether or not the engine takes
  the value, and a value that is taken changes the settings as wanted.
\<close>

locale managed_setting =
  fixes cli :: "u32 \<Rightarrow> sys \<Rightarrow> (int \<times> sys) option" and want :: "u32 \<Rightarrow> brd_settings \<Rightarrow> brd_settings"
    and ok :: "u32 \<Rightarrow> brd_settings \<Rightarrow> bool"
  assumes cli: "engine s = (g, [b]) \<Longrightarrow> vlan_id b = 0 \<Longrightarrow>
      \<exists>g' b'. cli x s = Some (0, s\<lparr> engine := (g', [b']) \<rparr>) \<and> vlan_id b' = 0
        \<and> bridge_settings b' = (if ok x (bridge_settings b) then want x (bridge_settings b) else bridge_settings b)"
begin

lemma set_both:
  assumes "engine s = (g, [b])" "vlan_id b = 0" "cfgdb s = Some t" "config_ok (Some t)"
    "roomy (Some t) CFGFILE_RSTP RSTP_SECTION_BRD"
  shows "\<exists>s' g' b'. odm_set_u32 key dflt (cli x) err cfg_err x s = Some (NO_ERROR, s') \<and> engine s' = (g', [b'])
    \<and> vlan_id b' = 0 \<and> cfgdb s' \<noteq> None \<and> config_ok (cfgdb s')
    \<and> stored (cfgdb s') key = Some x
    \<and> (\<forall>l. l \<noteq> (CFGFILE_RSTP, RSTP_SECTION_BRD, key) \<longrightarrow> config_get l (cfgdb s') = config_get l (cfgdb s))
    \<and> bridge_settings b' = (if stored (cfgdb s) key \<noteq> Some x \<and> ok x (bridge_settings b)
         then want x (bridge_settings b) else bridge_settings b)"
proof (cases "stored (cfgdb s) key = Some x")
  case True
  then show ?thesis using assms by (simp add: odm_set_u32_def stored_eq)
next
  case False
  obtain g' b' where c: "cli x s = Some (0, s\<lparr> engine := (g', [b']) \<rparr>)" "vlan_id b' = 0"
    "bridge_settings b' = (if ok x (bridge_settings b) then want x (bridge_settings b) else bridge_settings b)"
    using cli [OF assms(1,2), of x] by blast
  obtain t' where p: "put_u32 RSTP_SECTION_BRD key x cfg_err (s\<lparr> engine := (g', [b']) \<rparr>)
      = Some (NO_ERROR, s\<lparr> engine := (g', [b']), cfgdb := Some t' \<rparr>)" "config_ok (Some t')"
    "map_option strtoul0 (config_get (CFGFILE_RSTP, RSTP_SECTION_BRD, key) (Some t')) = Some x"
    "\<forall>l. l \<noteq> (CFGFILE_RSTP, RSTP_SECTION_BRD, key) \<longrightarrow> config_get l (Some t') = config_get l (Some t)"
    using put_u32_ok [of "s\<lparr> engine := (g', [b']) \<rparr>" t RSTP_SECTION_BRD key x cfg_err] assms(3-5) by auto
  have "odm_set_u32 key dflt (cli x) err cfg_err x s = Some (NO_ERROR, s\<lparr> engine := (g', [b']), cfgdb := Some t' \<rparr>)"
    using False c(1) p(1) by (simp add: odm_set_u32_def stored_eq)
  moreover have "stored (Some t') key = Some x" using p(3) by (simp add: stored_def)
  ultimately show ?thesis
    using False c(2,3) p(2,4) assms(3)
    by (intro exI [of _ "s\<lparr> engine := (g', [b']), cfgdb := Some t' \<rparr>"] exI [of _ g'] exI [of _ b']) simp
qed

end

text \<open>The five settings.\<close>

datatype brd_setting = Hello | Forward | Maxage | Forver | Priority

fun with_setting :: "brd_setting \<Rightarrow> u32 \<Rightarrow> brd_settings \<Rightarrow> brd_settings" where
  "with_setting Hello x (pr, age, hello, delay, ver) = (pr, age, sint x, delay, ver)"
| "with_setting Forward x (pr, age, hello, delay, ver) = (pr, age, hello, sint x, ver)"
| "with_setting Maxage x (pr, age, hello, delay, ver) = (pr, sint x, hello, delay, ver)"
| "with_setting Forver x (pr, age, hello, delay, ver) = (pr, age, hello, delay, sint x)"
| "with_setting Priority x (pr, age, hello, delay, ver) = (sint (x * 4096), age, hello, delay, ver)"

definition accepted :: "brd_setting \<Rightarrow> u32 \<Rightarrow> brd_settings \<Rightarrow> bool" where
  "accepted w x t \<longleftrightarrow> settings_ok (with_setting w x t) \<and> (w = Forver \<longrightarrow> x = 0 \<or> x = 1 \<or> x = 2)"

lemma accepted_plain:
  "accepted Hello x t = settings_ok (with_setting Hello x t)" "accepted Forward x t = settings_ok (with_setting Forward x t)"
  "accepted Maxage x t = settings_ok (with_setting Maxage x t)" "accepted Priority x t = settings_ok (with_setting Priority x t)"
  by (simp_all add: accepted_def)

definition sets :: "u32 \<Rightarrow> u32 \<Rightarrow> brd_setting \<Rightarrow> u32 \<Rightarrow> bool" where
  "sets m v w x \<longleftrightarrow> (\<forall>c t. \<exists>cfg. bridge_cfg_value c v m = Some cfg \<and> field_mask cfg = m
     \<and> wanted_settings cfg t = with_setting w x t)"

lemma sets_one:
  "sets BR_CFG_HELLO x Hello x" "sets BR_CFG_DELAY x Forward x" "sets BR_CFG_AGE x Maxage x"
  "sets BR_CFG_FORCE_VER x Forver x" "sets BR_CFG_PRIO (x * 4096) Priority x"
  by (simp_all add: sets_def bridge_cfg_value_def wanted_settings_def br_cfg masked_def Let_def)

lemma not_state: "\<not> masked BR_CFG_STATE BR_CFG_HELLO" "\<not> masked BR_CFG_STATE BR_CFG_DELAY"
  "\<not> masked BR_CFG_STATE BR_CFG_AGE" "\<not> masked BR_CFG_STATE BR_CFG_FORCE_VER" "\<not> masked BR_CFG_STATE BR_CFG_PRIO"
  by (simp_all add: br_cfg masked_def)

lemma bridge_value_alone:
  assumes "engine s = (g, [b])" "vlan_id b = 0" "sets m v w x" "\<not> masked BR_CFG_STATE m"
  shows "\<exists>g' b'. map_option (Pair 0) (set_bridge_cfg_value e h v m s) = Some (0, s\<lparr> engine := (g', [b']) \<rparr>) \<and> vlan_id b' = 0
    \<and> bridge_settings b' = (if settings_ok (with_setting w x (bridge_settings b)) then with_setting w x (bridge_settings b)
        else bridge_settings b)"
proof -
  obtain cfg where cfg: "bridge_cfg_value (caller_cfg h) v m = Some cfg" "field_mask cfg = m"
    "wanted_settings cfg (bridge_settings b) = with_setting w x (bridge_settings b)"
    using assms(3) unfolding sets_def by blast
  from set_cfg_alone [OF assms(1,2), of cfg "with_setting w x (bridge_settings b)" e h None] cfg(2,3) assms(4) keeps_state_def [of cfg b]
  obtain rc g' b' where "set_cfg_0 e h None cfg s = Some (rc, cfg, s\<lparr> engine := (g', [b']) \<rparr>)" "vlan_id b' = 0"
      "bridge_settings b' = (if settings_ok (with_setting w x (bridge_settings b)) then with_setting w x (bridge_settings b)
        else bridge_settings b)" by auto
  then show ?thesis by (intro exI [of _ g'] exI [of _ b']) (simp add: set_bridge_cfg_value_def cfg(1))
qed

interpretation hello: managed_setting "cli_br_hellotime e h" "with_setting Hello" "accepted Hello" for e h
  by unfold_locales (simp only: cli_br_hellotime_def accepted_plain, rule bridge_value_alone [OF _ _ sets_one(1) not_state(1)])

interpretation forward: managed_setting "cli_br_fdelay e h" "with_setting Forward" "accepted Forward" for e h
  by unfold_locales (simp only: cli_br_fdelay_def accepted_plain, rule bridge_value_alone [OF _ _ sets_one(2) not_state(2)])

interpretation maxage: managed_setting "cli_br_maxage e h" "with_setting Maxage" "accepted Maxage" for e h
  by unfold_locales (simp only: cli_br_maxage_def accepted_plain, rule bridge_value_alone [OF _ _ sets_one(3) not_state(3)])

interpretation priority: managed_setting "\<lambda>x. cli_br_prio e h (x * 4096)" "with_setting Priority" "accepted Priority" for e h
  by unfold_locales (simp only: cli_br_prio_def accepted_plain, rule bridge_value_alone [OF _ _ sets_one(5) not_state(5)])

interpretation forver: managed_setting "cli_br_fvers e h" "with_setting Forver" "accepted Forver" for e h
proof
  fix s :: sys and g b x
  assume a: "engine s = (g, [b])" "vlan_id b = 0"
  show "\<exists>g' b'. cli_br_fvers e h x s = Some (0, s\<lparr> engine := (g', [b']) \<rparr>) \<and> vlan_id b' = 0 \<and> bridge_settings b' =
      (if accepted Forver x (bridge_settings b) then with_setting Forver x (bridge_settings b) else bridge_settings b)"
  proof (cases "x = 0 \<or> x = 1 \<or> x = 2")
    case True
    then show ?thesis
      using bridge_value_alone [OF a sets_one(4) not_state(4), of e h] by (auto simp: cli_br_fvers_def accepted_def)
  next
    case False
    then show ?thesis using a by (intro exI [of _ g] exI [of _ b]) (simp add: cli_br_fvers_def accepted_def a(1) [symmetric])
  qed
qed

fun odm_setter :: "brd_setting \<Rightarrow> env \<Rightarrow> host \<Rightarrow> u32 \<Rightarrow> sys \<Rightarrow> (odm_status \<times> sys) option" where
  "odm_setter Hello e h = odmRstpSetHello e h"
| "odm_setter Forward e h = odmRstpSetForward e h"
| "odm_setter Maxage e h = odmRstpSetMaxage e h"
| "odm_setter Forver e h = odmRstpSetForver e h"
| "odm_setter Priority e h = odmRstpSetPriority e h"

fun setting_key :: "brd_setting \<Rightarrow> string" where
  "setting_key Hello = RSTP_BRD_KEY_U32_HELLOTIME"
| "setting_key Forward = RSTP_BRD_KEY_U32_FWDDELAY"
| "setting_key Maxage = RSTP_BRD_KEY_U32_MAXAGE"
| "setting_key Forver = RSTP_BRD_KEY_U32_VERSION"
| "setting_key Priority = RSTP_BRD_KEY_U32_PRI"

lemmas odm_setters = odmRstpSetHello_def odmRstpSetForward_def odmRstpSetMaxage_def odmRstpSetForver_def odmRstpSetPriority_def

lemma setter_both:
  assumes "engine s = (g, [b])" "vlan_id b = 0" "cfgdb s = Some t" "config_ok (Some t)"
    "roomy (Some t) CFGFILE_RSTP RSTP_SECTION_BRD"
  shows "\<exists>s' g' b'. odm_setter w e h x s = Some (NO_ERROR, s') \<and> engine s' = (g', [b'])
    \<and> vlan_id b' = 0 \<and> cfgdb s' \<noteq> None \<and> config_ok (cfgdb s')
    \<and> stored (cfgdb s') (setting_key w) = Some x
    \<and> (\<forall>l. l \<noteq> (CFGFILE_RSTP, RSTP_SECTION_BRD, setting_key w) \<longrightarrow> config_get l (cfgdb s') = config_get l (cfgdb s))
    \<and> bridge_settings b' = (if stored (cfgdb s) (setting_key w) \<noteq> Some x \<and> accepted w x (bridge_settings b)
         then with_setting w x (bridge_settings b) else bridge_settings b)"
proof (cases w)
  case Hello
  then show ?thesis using hello.set_both [OF assms] by (simp only: odm_setter.simps setting_key.simps odm_setters)
next
  case Forward
  then show ?thesis using forward.set_both [OF assms] by (simp only: odm_setter.simps setting_key.simps odm_setters)
next
  case Maxage
  then show ?thesis using maxage.set_both [OF assms] by (simp only: odm_setter.simps setting_key.simps odm_setters)
next
  case Forver
  then show ?thesis using forver.set_both [OF assms] by (simp only: odm_setter.simps setting_key.simps odm_setters)
next
  case Priority
  then show ?thesis using priority.set_both [OF assms] by (simp only: odm_setter.simps setting_key.simps odm_setters)
qed

subsection \<open>The diameter\<close>

lemma sint_u32: "sint (w :: u32) = (if uint w < 2 ^ 31 then uint w else uint w - 2 ^ 32)"
proof -
  have u: "0 \<le> uint w" "uint w < 2 ^ 32" using uint_nonnegative [of w] uint_bounded [of w] by simp_all
  have "sint w = (uint w + 2 ^ 31) mod 2 ^ 32 - 2 ^ 31"
    by (simp add: sint_uint signed_take_bit_eq_take_bit_shift take_bit_eq_mod)
  moreover have "(uint w + 2 ^ 31) mod 2 ^ 32 = (if uint w < 2 ^ 31 then uint w + 2 ^ 31 else uint w - 2 ^ 31)"
  proof (cases "uint w < 2 ^ 31")
    case False
    have "(uint w - 2 ^ 31 + 2 ^ 32) mod 2 ^ 32 = (uint w - 2 ^ 31) mod 2 ^ 32" by (rule mod_add_self2)
    also have "\<dots> = uint w - 2 ^ 31" using u False by (intro mod_pos_pos_trivial) simp_all
    finally have "(uint w - 2 ^ 31 + 2 ^ 32) mod 2 ^ 32 = uint w - 2 ^ 31" .
    moreover have "uint w + 2 ^ 31 = uint w - 2 ^ 31 + 2 ^ 32" by simp
    ultimately show ?thesis using False by (simp only: if_False)
  qed (use u in \<open>simp add: mod_pos_pos_trivial\<close>)
  ultimately show ?thesis by simp
qed

text \<open>Twice the diameter and a little more, in 32 bits: the highest bit of the diameter is lost.\<close>

lemma twice_plus:
  fixes d :: u32
  assumes "0 \<le> k" "k < 10" "m = uint d mod 2 ^ 31"
  shows "uint (d * 2 + word_of_int k) = (2 * m + k) mod 2 ^ 32"
proof -
  have "uint (d * 2 + word_of_int k) = (2 * uint d + k) mod 2 ^ 32"
    using assms(1,2) by (simp add: uint_word_ariths uint_word_of_int mod_simps mult.commute)
  also have "\<dots> = (2 * m + k) mod 2 ^ 32"
  proof -
    have "2 * uint d + k = 2 * m + k + 2 ^ 32 * (uint d div 2 ^ 31)"
      using arg_cong [OF mult_div_mod_eq [of "2 ^ 31" "uint d", symmetric], of "\<lambda>x. 2 * x + k"]
      by (simp only: assms(3) distrib_left) simp
    then show ?thesis by (simp only: mod_mult_self2)
  qed
  finally show ?thesis .
qed

lemma diameter_ok:
  fixes d :: u32
  assumes "m = uint d mod 2 ^ 31" "settings_ok (pr, age, hello, delay, ver)"
  shows "settings_ok (pr, sint ((d + 3) * 2), 2, sint (d * 2 + 1), ver) \<longleftrightarrow> 3 \<le> m \<and> m \<le> 14"
    "3 \<le> m \<Longrightarrow> m \<le> 14 \<Longrightarrow> sint ((d + 3) * 2) = 2 * m + 6 \<and> sint (d * 2 + 1) = 2 * m + 1"
proof -
  have m: "0 \<le> m" "m < 2 ^ 31" using assms(1) by simp_all
  have "(d + 3) * 2 = d * 2 + word_of_int 6" by (simp add: distrib_right)
  then have A: "uint ((d + 3) * 2) = (2 * m + 6) mod 2 ^ 32" using twice_plus [of 6 m d] assms(1) by simp
  have F: "uint (d * 2 + 1) = 2 * m + 1" using twice_plus [of 1 m d] assms(1) m by (simp add: mod_pos_pos_trivial)
  show small: "sint ((d + 3) * 2) = 2 * m + 6 \<and> sint (d * 2 + 1) = 2 * m + 1" if "3 \<le> m" "m \<le> 14"
    using that A F by (simp add: sint_u32 mod_pos_pos_trivial)
  have "m \<le> 14" if "4 \<le> sint (d * 2 + 1)" "sint (d * 2 + 1) \<le> 30"
    using that F m by (simp add: sint_u32 split: if_splits)
  moreover have "sint ((d + 3) * 2) = 2 * m + 6 \<and> sint (d * 2 + 1) = 2 * m + 1" if "m \<le> 14"
    using that A F m by (simp add: sint_u32 mod_pos_pos_trivial)
  ultimately show "settings_ok (pr, sint ((d + 3) * 2), 2, sint (d * 2 + 1), ver) \<longleftrightarrow> 3 \<le> m \<and> m \<le> 14"
    using assms(2) m(1) by (cases "m \<le> 14") (auto simp: settings_ok_def)
qed

lemma diameter_wanted:
  "wanted_settings (diameter_cfg c hello d) (pr, age, hel, delay, ver) = (pr, sint ((d + 3) * hello), sint hello, sint (d * hello + 1), ver)"
  "\<not> masked BR_CFG_STATE (field_mask (diameter_cfg c hello d))"
  by (simp_all add: wanted_settings_def diameter_cfg_def br_cfg masked_def Let_def)

lemma err_code_0: "err_code rc = 0 \<longleftrightarrow> rc = STP_OK"
  by (cases rc) simp_all

subsection \<open>Properties\<close>

text \<open>C23: a setting of the bridge (hello time, forward delay, maximum age, version, priority) that the
  management is asked for is reported as done and stored in the database, where nothing else
  changes. If the database did not have it already, the engine uses it exactly when the resulting
  settings satisfy the ranges and relations of the standard, and keeps its own settings otherwise.\<close>

theorem bridge_setting_stored_and_applied:
  assumes "engine s = (g, [b])" "vlan_id b = 0" "cfgdb s = Some t" "config_ok (Some t)"
    "roomy (Some t) CFGFILE_RSTP RSTP_SECTION_BRD"
  shows "\<exists>s' g' b'. odm_setter w e h x s = Some (NO_ERROR, s') \<and> engine s' = (g', [b'])
    \<and> stored (cfgdb s') (setting_key w) = Some x
    \<and> (\<forall>l. l \<noteq> (CFGFILE_RSTP, RSTP_SECTION_BRD, setting_key w) \<longrightarrow> config_get l (cfgdb s') = config_get l (cfgdb s))
    \<and> bridge_settings b' = (if stored (cfgdb s) (setting_key w) \<noteq> Some x \<and> accepted w x (bridge_settings b)
         then with_setting w x (bridge_settings b) else bridge_settings b)"
  using setter_both [OF assms] by meson

definition example_host :: host where
  "example_host = \<lparr> callee_cfg = zero_uid_cfg, caller_cfg = zero_uid_cfg, caller_port = zero_port_cfg, thread_starts = True \<rparr>"

definition example_managed :: sys where
  "example_managed = example_sys\<lparr> engine := (init_glob, [example_instance]) \<rparr>"

lemma example_managed_ok: "engine example_managed = (init_glob, [example_instance])" "vlan_id example_instance = 0"
  "cfgdb example_managed = Some string_table" "bridge_settings example_instance = (32768, 20, 2, 15, 2)"
  by (simp_all add: example_managed_def example_sys_def) code_simp+

lemma example_nothing_stored: "stored (Some string_table) key = None"
proof -
  have "vosHashValue CFGFILE_RSTP (string_table :: (string, CFG_MODULE_DATA_t) hash_table) = None"
    using fun_cong [OF string_table_ok(2) [where 'a = CFG_MODULE_DATA_t], of CFGFILE_RSTP] by (simp add: hash_map_def)
  then show ?thesis
    by (simp add: stored_def config_get_def vosConfigValueGet_def tkey_of_def tsection_of_def tmodule_of_def)
qed

theorem bridge_setting_stored_and_applied_witness:
  "\<exists>s' g' b'. odmRstpSetHello example_env example_host 3 example_managed = Some (NO_ERROR, s') \<and> engine s' = (g', [b'])
     \<and> stored (cfgdb s') RSTP_BRD_KEY_U32_HELLOTIME = Some 3 \<and> bridge_settings b' = (32768, 20, 3, 15, 2)"
  using bridge_setting_stored_and_applied [OF example_managed_ok(1,2,3) example_room, of Hello example_env example_host 3]
  by (simp add: example_managed_ok(3,4) example_nothing_stored accepted_def settings_ok_def)
     (auto simp: example_nothing_stored)

text \<open>A value that the engine refuses is stored all the same and reported as done: from then on the
  database and the engine disagree.\<close>

theorem refused_setting_is_stored:
  assumes "engine s = (g, [b])" "vlan_id b = 0" "cfgdb s = Some t" "config_ok (Some t)"
    "roomy (Some t) CFGFILE_RSTP RSTP_SECTION_BRD" "\<not> accepted w x (bridge_settings b)"
  shows "\<exists>s' g' b'. odm_setter w e h x s = Some (NO_ERROR, s') \<and> engine s' = (g', [b'])
    \<and> stored (cfgdb s') (setting_key w) = Some x \<and> bridge_settings b' = bridge_settings b"
  using setter_both [OF assms(1-5), of w e h x] assms(6) by auto

theorem refused_setting_is_stored_witness:
  "\<exists>s' g' b'. odmRstpSetHello example_env example_host 11 example_managed = Some (NO_ERROR, s') \<and> engine s' = (g', [b'])
     \<and> stored (cfgdb s') RSTP_BRD_KEY_U32_HELLOTIME = Some 11 \<and> bridge_settings b' = (32768, 20, 2, 15, 2)"
proof -
  have "\<not> accepted Hello 11 (bridge_settings example_instance)"
    by (simp add: example_managed_ok(4) accepted_def settings_ok_def)
  from refused_setting_is_stored [OF example_managed_ok(1,2,3) example_room this, of example_env example_host]
  show ?thesis by (simp add: example_managed_ok(4))
qed

text \<open>a diameter sets the times from the default hello time of 2 seconds, and the engine takes exactly
  the diameters from 3 to 14. The computation is done in 32 bits, so that the highest bit of the
  diameter has no influence; a diameter that is refused leaves the engine and the database alone.\<close>

theorem diameter_range:
  assumes "engine s = (g, [b])" "vlan_id b = 0" "bridge_settings b = (pr, age, hello, delay, ver)"
    "settings_ok (pr, age, hello, delay, ver)" "stored (cfgdb s) RSTP_BRD_KEY_U32_HELLOTIME = None" "m = uint d mod 2 ^ 31"
  shows "\<exists>rc s' g' b'. cli_br_diameter e h RSTP_BRD_DEFAULT_HELLOTIME d s = Some (rc, s') \<and> engine s' = (g', [b'])
    \<and> (rc = 0 \<longleftrightarrow> 3 \<le> m \<and> m \<le> 14)
    \<and> bridge_settings b' = (if 3 \<le> m \<and> m \<le> 14 then (pr, 2 * m + 6, 2, 2 * m + 1, ver) else bridge_settings b)
    \<and> (rc \<noteq> 0 \<longrightarrow> odmRstpSetDiameter e h d s = Some (RSTP_BRD_HELLOTIME_SET_ERROR, s') \<and> cfgdb s' = cfgdb s)"
proof -
  let ?want = "(pr, sint ((d + 3) * 2), 2, sint (d * 2 + 1), ver)"
  have w: "wanted_settings (diameter_cfg (caller_cfg h) RSTP_BRD_DEFAULT_HELLOTIME d) (bridge_settings b) = ?want"
    by (simp add: assms(3) diameter_wanted RSTP_BRD_DEFAULT_HELLOTIME_def)
  note ok = diameter_ok [OF assms(6,4)]
  obtain rc g' b' where run: "set_cfg_0 e h None (diameter_cfg (caller_cfg h) RSTP_BRD_DEFAULT_HELLOTIME d) s
      = Some (rc, diameter_cfg (caller_cfg h) RSTP_BRD_DEFAULT_HELLOTIME d, s\<lparr> engine := (g', [b']) \<rparr>)"
    "rc = STP_OK \<longleftrightarrow> settings_ok ?want" "bridge_settings b' = (if settings_ok ?want then ?want else bridge_settings b)"
    using set_cfg_alone [OF assms(1,2) _ w [symmetric], of e h None] diameter_wanted(2) by (auto simp: keeps_state_def)
  have cli: "cli_br_diameter e h RSTP_BRD_DEFAULT_HELLOTIME d s = Some (err_code rc, s\<lparr> engine := (g', [b']) \<rparr>)"
    by (simp add: cli_br_diameter_def run(1))
  have "must_update (cfgdb s) RSTP_BRD_KEY_U32_HELLOTIME RSTP_BRD_DEFAULT_HELLOTIME RSTP_BRD_DEFAULT_HELLOTIME"
    using assms(5) stored_eq [of "cfgdb s" RSTP_BRD_KEY_U32_HELLOTIME RSTP_BRD_DEFAULT_HELLOTIME RSTP_BRD_DEFAULT_HELLOTIME]
    by (auto simp: must_update_def)
  then have "odmRstpSetDiameter e h d s = Some (RSTP_BRD_HELLOTIME_SET_ERROR, s\<lparr> engine := (g', [b']) \<rparr>)" if "err_code rc \<noteq> 0"
    using that by (simp add: odmRstpSetDiameter_def cli Let_def)
  then show ?thesis
    using cli run(2,3) ok err_code_0 [of rc]
    by (intro exI [of _ "err_code rc"] exI [of _ "s\<lparr> engine := (g', [b']) \<rparr>"] exI [of _ g'] exI [of _ b']) auto
qed

theorem diameter_range_witness:
  "\<exists>s'. odmRstpSetDiameter example_env example_host 2 example_managed = Some (RSTP_BRD_HELLOTIME_SET_ERROR, s')"
proof -
  have "settings_ok (32768, 20, 2, 15, 2)" by (simp add: settings_ok_def)
  from diameter_range [OF example_managed_ok(1,2,4) this, of 2 2 example_env example_host]
  show ?thesis by (auto simp: example_managed_ok(3) example_nothing_stored)
qed

end
