(* ===== verification/Rstp_Recover.thy ===== *)
theory Rstp_Recover
  imports Rstp_Settings
begin

unbundle bit_operations_syntax

text \<open>
  The start of the management (\<^verbatim>\<open>odmRstpInit\<close> in \<^verbatim>\<open>bridge/src/odm_rstp.c\<close>): the engine is started and given
  the settings of the database; and the functions that report settings and set the treatment of
  received BPDUs by the hardware. What is shown is how the settings come back after a restart.
\<close>

subsection \<open>Treatment of received frames\<close>

text \<open>
  The register of the reserved address: the internal priority and the action, 1 for the processor
  and 2 for forwarding; \<open>None\<close> when the access fails.
\<close>

definition odmRstpPktHandleModeSet :: "u32 \<Rightarrow> sys \<Rightarrow> (odm_status \<times> sys) option" where
  "odmRstpPktHandleModeSet ulMode s =
     (case rsv_mac_ctrl s of
        None \<Rightarrow> Some (OPL_ERROR, s)
      | Some (ucIcos, ucMacCtrl) \<Rightarrow>
          if ulMode = 0 \<or> ulMode = 1
          then let ctrl = (if ulMode = 0 then 1 else 2)
               in if ucMacCtrl = ctrl then Some (NO_ERROR, s)
                  else put_u32 RSTP_SECTION_BRD RSTP_BRD_KEY_U32_HANDLE_MODE ulMode NO_ERROR
                         (s\<lparr> rsv_mac_ctrl := Some (ucIcos, ctrl) \<rparr>)
          else Some (ERR_INVALID_PARAMETERS, s))"

definition odmRstpPktHandleModeGet :: "sys \<Rightarrow> odm_status \<times> u32 option" where
  "odmRstpPktHandleModeGet s =
     (case rsv_mac_ctrl s of
        None \<Rightarrow> (OPL_ERROR, None)
      | Some (ucIcos, ucMacCtrl) \<Rightarrow>
          (NO_ERROR, Some (if ucMacCtrl = 1 then 0 else if ucMacCtrl = 2 then 1 else 0xffffffff)))"

subsection \<open>Loop detection\<close>

definition CFG_PORT_CFG :: string where "CFG_PORT_CFG = ''/cfg/port.conf''"
definition CFG_LOOP_DECTION_EN :: string where "CFG_LOOP_DECTION_EN = ''Loop Detect En''"
definition CFG_LOOP_DECTION_HOLD_DOWN_TIME :: string where "CFG_LOOP_DECTION_HOLD_DOWN_TIME = ''Loop Hold Down Time''"

text \<open>\<^verbatim>\<open>vosSprintf (portSectionBuff, "Port%0.4d", portId)\<close>\<close>

definition cfg_port_section :: "nat \<Rightarrow> string" where
  "cfg_port_section i = ''Port'' @ pad0 4 (dec_digits i)"

definition odmLoopDetectionGet :: "config \<Rightarrow> nat \<Rightarrow> u32" where
  "odmLoopDetectionGet db i = vosConfigUInt32Get db CFG_PORT_CFG (cfg_port_section i) CFG_LOOP_DECTION_EN 1"

definition odmLoopDetectionHoldDownTimeGet :: "config \<Rightarrow> nat \<Rightarrow> u32" where
  "odmLoopDetectionHoldDownTimeGet db i =
     vosConfigUInt32Get db CFG_PORT_CFG (cfg_port_section i) CFG_LOOP_DECTION_HOLD_DOWN_TIME 60"

definition init_loop_info :: "sys \<Rightarrow> sys" where
  "init_loop_info s = s\<lparr> engine := ((fst (engine s))\<lparr>
       abPortLoop := replicate NUMBER_OF_PORTS 0,
       rstpwarningstate := replicate NUMBER_OF_PORTS 0,
       bOnePortLoopDetectEn := map (\<lambda>i. odmLoopDetectionGet (cfgdb s) (i + 1)) [0..<NUMBER_OF_PORTS],
       bOnePortLoopWhile := map (\<lambda>i. odmLoopDetectionHoldDownTimeGet (cfgdb s) (i + 1)) [0..<NUMBER_OF_PORTS],
       bOnePortLooptimer := map (\<lambda>i. odmLoopDetectionHoldDownTimeGet (cfgdb s) (i + 1)) [0..<NUMBER_OF_PORTS] \<rparr>,
     snd (engine s)) \<rparr>"

subsection \<open>Giving the database back to the engine\<close>

definition when_key :: "config \<Rightarrow> string \<Rightarrow> string \<Rightarrow> ('a \<Rightarrow> 'a) \<Rightarrow> 'a \<Rightarrow> 'a" where
  "when_key db sec key f x = (if has_key db sec key then f x else x)"

definition recover_bridge_cfg :: "config \<Rightarrow> uid_stp_cfg_t \<Rightarrow> uid_stp_cfg_t" where
  "recover_bridge_cfg db stack =
     (let num = sec_u32 db RSTP_SECTION_BRD;
          cfg = stack\<lparr> field_mask := 0 \<rparr>;
          cfg = when_key db RSTP_SECTION_BRD RSTP_BRD_KEY_VALUE_MODE (\<lambda>c. c\<lparr> field_mask := field_mask c OR BR_CFG_STATE,
                  stp_enabled := (if disabled_value db RSTP_SECTION_BRD RSTP_BRD_KEY_VALUE_MODE
                                  then STP_DISABLED else STP_ENABLED) \<rparr>) cfg;
          cfg = when_key db RSTP_SECTION_BRD RSTP_BRD_KEY_U32_HELLOTIME (\<lambda>c. c\<lparr> field_mask := field_mask c OR BR_CFG_HELLO,
                  cfg_hello_time := sint (num RSTP_BRD_KEY_U32_HELLOTIME RSTP_BRD_DEFAULT_HELLOTIME) \<rparr>) cfg;
          cfg = when_key db RSTP_SECTION_BRD RSTP_BRD_KEY_U32_FWDDELAY (\<lambda>c. c\<lparr> field_mask := field_mask c OR BR_CFG_DELAY,
                  cfg_forward_delay := sint (num RSTP_BRD_KEY_U32_FWDDELAY RSTP_BRD_DEFAULT_FWDDELAYTIME) \<rparr>) cfg;
          cfg = when_key db RSTP_SECTION_BRD RSTP_BRD_KEY_U32_MAXAGE (\<lambda>c. c\<lparr> field_mask := field_mask c OR BR_CFG_AGE,
                  cfg_max_age := sint (num RSTP_BRD_KEY_U32_MAXAGE RSTP_BRD_DEFAULT_MAXAGE) \<rparr>) cfg;
          cfg = when_key db RSTP_SECTION_BRD RSTP_BRD_KEY_U32_VERSION (\<lambda>c. c\<lparr> field_mask := field_mask c OR BR_CFG_FORCE_VER,
                  force_version := sint (num RSTP_BRD_KEY_U32_VERSION RSTP_BRD_DEFAULT_FORCEVERSION) \<rparr>) cfg
      in when_key db RSTP_SECTION_BRD RSTP_BRD_KEY_U32_PRI (\<lambda>c. c\<lparr> field_mask := field_mask c OR BR_CFG_PRIO,
           bridge_priority := sint (num RSTP_BRD_KEY_U32_PRI RSTP_BRD_DEFAULT_PRI * 4096) \<rparr>) cfg)"

definition recover_bridge :: "env \<Rightarrow> host \<Rightarrow> sys \<Rightarrow> (odm_status \<times> sys) option" where
  "recover_bridge e h s =
     (if vosConfigSectionIsExisted (cfgdb s) CFGFILE_RSTP RSTP_SECTION_BRD \<noteq> 0 then Some (NO_ERROR, s)
      else (case set_cfg_0 e h None (recover_bridge_cfg (cfgdb s) (caller_cfg h)) s of
              None \<Rightarrow> None
            | Some (rc, _, s) \<Rightarrow>
                if rc \<noteq> STP_OK then Some (RSTP_BRD_CFG_RECOVER_ERROR, s)
                else if has_key (cfgdb s) RSTP_SECTION_BRD RSTP_BRD_KEY_U32_HANDLE_MODE
                then map_option (\<lambda>(_, s). (NO_ERROR, s)) (odmRstpPktHandleModeSet
                       (sec_u32 (cfgdb s) RSTP_SECTION_BRD RSTP_BRD_KEY_U32_HANDLE_MODE RSTP_BRD_DEFAULT_HANDLE_MODE) s)
                else Some (NO_ERROR, s)))"

text \<open>The path cost is multiplied by 16 here and the priority is not.\<close>

definition recover_port_cfg :: "config \<Rightarrow> nat \<Rightarrow> uid_stp_port_cfg_t" where
  "recover_port_cfg db i =
     (let sec = port_section i;
          cfg = zero_port_cfg\<lparr> pt_port_bmp := push_bit (i - 1) 1 \<rparr>;
          cfg = when_key db sec RSTP_PORT_KEY_VALUE_MODE (\<lambda>c. c\<lparr> pt_field_mask := pt_field_mask c OR PT_CFG_NON_STP,
                  pt_admin_non_stp := (if disabled_value db sec RSTP_PORT_KEY_VALUE_MODE then 1 else 0) \<rparr>) cfg;
          cfg = when_key db sec RSTP_PORT_KEY_VALUE_EDGE (\<lambda>c. c\<lparr> pt_field_mask := pt_field_mask c OR PT_CFG_EDGE,
                  admin_edge := (if disabled_value db sec RSTP_PORT_KEY_VALUE_EDGE then 0 else 1) \<rparr>) cfg;
          cfg = when_key db sec RSTP_PORT_KEY_U32_P2P (\<lambda>c. c\<lparr> pt_field_mask := pt_field_mask c OR PT_CFG_P2P,
                  admin_point2point := p2p_of (sec_u32 db sec RSTP_PORT_KEY_U32_P2P RSTP_PORT_DEFAULT_P2P_MODE) \<rparr>) cfg;
          cfg = when_key db sec RSTP_PORT_KEY_U32_PRI (\<lambda>c. c\<lparr> pt_field_mask := pt_field_mask c OR PT_CFG_PRIO,
                  port_priority := sint (sec_u32 db sec RSTP_PORT_KEY_U32_PRI RSTP_PORT_DEFAULT_PRI) \<rparr>) cfg
      in when_key db sec RSTP_PORT_KEY_U32_PCOST (\<lambda>c. c\<lparr> pt_field_mask := pt_field_mask c OR PT_CFG_COST,
           admin_port_path_cost := sec_u32 db sec RSTP_PORT_KEY_U32_PCOST RSTP_PORT_DEFAULT_PATH_COST * 16 \<rparr>) cfg)"

fun recover_ports :: "env \<Rightarrow> nat list \<Rightarrow> sys \<Rightarrow> (odm_status \<times> sys) option" where
  "recover_ports e [] s = Some (NO_ERROR, s)"
| "recover_ports e (i # is) s =
     (if vosConfigSectionIsExisted (cfgdb s) CFGFILE_RSTP (port_section i) \<noteq> 0 then recover_ports e is s
      else (case STP_IN_set_port_cfg e 0 (recover_port_cfg (cfgdb s) i) (engine s) of
              None \<Rightarrow> None
            | Some (rc, w) \<Rightarrow>
                let s = s\<lparr> engine := w \<rparr>
                in if rc \<noteq> STP_OK then Some (RSTP_PORT_CFG_RECOVER_ERROR, s) else recover_ports e is s))"

definition odmRstpInit :: "env \<Rightarrow> host \<Rightarrow> sys \<Rightarrow> (odm_status \<times> sys) option" where
  "odmRstpInit e h s =
     (case rstp_init e h (init_loop_info s) of
        None \<Rightarrow> None
      | Some (iRet, s) \<Rightarrow>
          if iRet \<noteq> 0 then Some (RSTP_INIT_ERROR, s)
          else if vosConfigModuleIsExisted (cfgdb s) CFGFILE_RSTP \<noteq> 0
          then (case odmRstpPortEnable e h 0x0000000F 0 s of
                  None \<Rightarrow> None
                | Some (_, s) \<Rightarrow> map_option (\<lambda>(_, s). (NO_ERROR, s)) (odmRstpEnable e h 0 s))
          else (case recover_bridge e h s of
                  None \<Rightarrow> None
                | Some (rc, s) \<Rightarrow> if rc \<noteq> NO_ERROR then Some (rc, s) else recover_ports e ODM_PORTS s))"

definition odmRstpDestroy :: "env \<Rightarrow> sys \<Rightarrow> sys option" where
  "odmRstpDestroy e s = bridge_shutdown e s"

subsection \<open>Reporting settings\<close>

datatype rstp_info_element_e = RSTP_BRD_MODE | RSTP_BRD_PRI | RSTP_BRD_MAXAGE | RSTP_BRD_HELLO | RSTP_BRD_FWDDELAY
  | RSTP_BRD_VER | RSTP_BRD_DIAMETER

primrec brd_info :: "rstp_info_element_e \<Rightarrow> uid_stp_cfg_t \<Rightarrow> int" where
  "brd_info RSTP_BRD_MODE c = mode_val (stp_enabled c = STP_ENABLED)"
| "brd_info RSTP_BRD_PRI c = bridge_priority c"
| "brd_info RSTP_BRD_MAXAGE c = cfg_max_age c"
| "brd_info RSTP_BRD_HELLO c = cfg_hello_time c"
| "brd_info RSTP_BRD_FWDDELAY c = cfg_forward_delay c"
| "brd_info RSTP_BRD_VER c = force_version c"
| "brd_info RSTP_BRD_DIAMETER c = diameter c"

text \<open>\<open>out\<close> is what the output pointer points to, \<open>None\<close> for a null pointer.\<close>

definition odmRstpBrdInfoGet :: "rstp_info_element_e \<Rightarrow> int option \<Rightarrow> sys \<Rightarrow> odm_status \<times> int option" where
  "odmRstpBrdInfoGet enType out s =
     (case out of
        None \<Rightarrow> (ERR_NULL_POINTER, None)
      | Some _ \<Rightarrow> (NO_ERROR, Some (brd_info enType (uid_cfg (fst (engine s))))))"

datatype rstp_port_element_e = RSTP_PORT_MODE | RSTP_PORT_PCOST | RSTP_PORT_PRI | RSTP_PORT_EDGE | RSTP_PORT_P2P

primrec port_info :: "rstp_port_element_e \<Rightarrow> uid_port_cfg_t \<Rightarrow> int" where
  "port_info RSTP_PORT_MODE c = pc_enable c"
| "port_info RSTP_PORT_PCOST c = pc_path_cost c"
| "port_info RSTP_PORT_PRI c = pc_priority c"
| "port_info RSTP_PORT_EDGE c = pc_edge_port c"
| "port_info RSTP_PORT_P2P c = pc_p2plink c"

text \<open>
  The element of a port is declared with the enumeration of the bridge; what counts is the value of
  the enumerator, and two of the bridge have no counterpart.
\<close>

primrec port_element :: "rstp_info_element_e \<Rightarrow> rstp_port_element_e option" where
  "port_element RSTP_BRD_MODE = Some RSTP_PORT_MODE"
| "port_element RSTP_BRD_PRI = Some RSTP_PORT_PCOST"
| "port_element RSTP_BRD_MAXAGE = Some RSTP_PORT_PRI"
| "port_element RSTP_BRD_HELLO = Some RSTP_PORT_EDGE"
| "port_element RSTP_BRD_FWDDELAY = Some RSTP_PORT_P2P"
| "port_element RSTP_BRD_VER = None"
| "port_element RSTP_BRD_DIAMETER = None"

text \<open>\<open>None\<close> is a read behind the end of \<^verbatim>\<open>port_cfg\<close>.\<close>

definition odmRstpPortInfoGet ::
    "u32 \<Rightarrow> rstp_info_element_e \<Rightarrow> int option \<Rightarrow> sys \<Rightarrow> (odm_status \<times> int option) option" where
  "odmRstpPortInfoGet ulPortId enType out s =
     (if ulPortId < 1 \<or> ulPortId > 4 then Some (ERR_INVALID_PARAMETERS, out)
      else case out of
             None \<Rightarrow> Some (ERR_NULL_POINTER, None)
           | Some _ \<Rightarrow>
               (case port_element enType of
                  None \<Rightarrow> Some (ERR_INVALID_PARAMETERS, out)
                | Some el \<Rightarrow>
                    if unat ulPortId < length (port_cfg s)
                    then Some (NO_ERROR, Some (port_info el (port_cfg s ! unat ulPortId)))
                    else None))"

subsection \<open>Settings after a restart\<close>

text \<open>The settings of an instance that starts with \<open>t\<close>, once those of the database are given to it.\<close>

definition restored :: "config \<Rightarrow> brd_settings \<Rightarrow> brd_settings" where
  "restored db = (\<lambda>(pr, age, hello, delay, ver).
     (case_option pr (\<lambda>x. sint (x * 4096)) (stored db RSTP_BRD_KEY_U32_PRI),
      case_option age sint (stored db RSTP_BRD_KEY_U32_MAXAGE), case_option hello sint (stored db RSTP_BRD_KEY_U32_HELLOTIME),
      case_option delay sint (stored db RSTP_BRD_KEY_U32_FWDDELAY), case_option ver sint (stored db RSTP_BRD_KEY_U32_VERSION)))"

lemma masked_or: "masked m (x OR y) \<longleftrightarrow> masked m x \<or> masked m y"
  by (auto simp: masked_def bit_eq_iff bit_simps)

lemma wanted_one:
  "wanted_settings (c\<lparr> field_mask := field_mask c OR BR_CFG_STATE, stp_enabled := v \<rparr>) t = wanted_settings c t"
  "wanted_settings (c\<lparr> field_mask := field_mask c OR BR_CFG_HELLO, cfg_hello_time := sint x \<rparr>) t = with_setting Hello x (wanted_settings c t)"
  "wanted_settings (c\<lparr> field_mask := field_mask c OR BR_CFG_DELAY, cfg_forward_delay := sint x \<rparr>) t = with_setting Forward x (wanted_settings c t)"
  "wanted_settings (c\<lparr> field_mask := field_mask c OR BR_CFG_AGE, cfg_max_age := sint x \<rparr>) t = with_setting Maxage x (wanted_settings c t)"
  "wanted_settings (c\<lparr> field_mask := field_mask c OR BR_CFG_FORCE_VER, force_version := sint x \<rparr>) t = with_setting Forver x (wanted_settings c t)"
  "wanted_settings (c\<lparr> field_mask := field_mask c OR BR_CFG_PRIO, bridge_priority := sint (x * 4096) \<rparr>) t = with_setting Priority x (wanted_settings c t)"
  by (cases t, simp add: wanted_settings_def masked_or Let_def, simp add: masked_def br_cfg)+

lemma wanted_when:
  assumes "\<And>c x. wanted_settings (f c x) t = with_setting w x (wanted_settings c t)"
  shows "wanted_settings (when_key db RSTP_SECTION_BRD key (\<lambda>c. f c (sec_u32 db RSTP_SECTION_BRD key d)) c) t
    = (case stored db key of None \<Rightarrow> wanted_settings c t | Some x \<Rightarrow> with_setting w x (wanted_settings c t))"
proof (cases "stored db key")
  case None
  then show ?thesis using stored_eq [of db key d "sec_u32 db RSTP_SECTION_BRD key d"] by (auto simp: when_key_def)
next
  case (Some x)
  then show ?thesis using stored_eq [of db key d x] assms by (simp add: when_key_def)
qed

lemmas wanted_keys = wanted_one(2-6) [THEN wanted_when]

lemma recovered_wanted: "wanted_settings (recover_bridge_cfg db stack) t = restored db t"
proof -
  obtain pr age hello delay ver where t: "t = (pr, age, hello, delay, ver)" by (cases t)
  have state: "wanted_settings (when_key db sec key (\<lambda>c. c\<lparr> field_mask := field_mask c OR BR_CFG_STATE, stp_enabled := v \<rparr>) c) t
      = wanted_settings c t" for sec key v c by (simp add: when_key_def wanted_one)
  show ?thesis
    unfolding recover_bridge_cfg_def Let_def wanted_keys state
    by (simp add: t restored_def wanted_settings_def masked_def split: option.splits)
qed

lemma recovered_state:
  "masked BR_CFG_STATE (field_mask (recover_bridge_cfg db stack)) \<longleftrightarrow> has_key db RSTP_SECTION_BRD RSTP_BRD_KEY_VALUE_MODE"
  "has_key db RSTP_SECTION_BRD RSTP_BRD_KEY_VALUE_MODE \<Longrightarrow> stp_enabled (recover_bridge_cfg db stack)
     = (if disabled_value db RSTP_SECTION_BRD RSTP_BRD_KEY_VALUE_MODE then STP_DISABLED else STP_ENABLED)"
  by (simp_all add: recover_bridge_cfg_def when_key_def masked_or not_state Let_def) (simp_all add: masked_def br_cfg)

lemma restored_put:
  assumes "stored db' (setting_key w) = Some x"
    "\<forall>l. l \<noteq> (CFGFILE_RSTP, RSTP_SECTION_BRD, setting_key w) \<longrightarrow> config_get l db' = config_get l db"
  shows "restored db' t = with_setting w x (restored db t)"
proof -
  have "stored db' key = stored db key" if "key \<noteq> setting_key w" for key
    using assms(2) that by (simp add: stored_def)
  then show ?thesis using assms(1) by (cases w; cases t) (simp_all add: restored_def rstp_file_names)
qed

lemma restored_stored: "stored db (setting_key w) = Some x \<Longrightarrow> with_setting w x (restored db t) = restored db t"
  by (cases w; cases t) (simp_all add: restored_def)

lemma no_section_nothing_stored:
  "vosConfigSectionIsExisted db CFGFILE_RSTP RSTP_SECTION_BRD \<noteq> 0 \<Longrightarrow> restored db t = t"
  by (cases t) (auto simp: restored_def stored_def config_get_def vosConfigValueGet_def vosConfigSectionIsExisted_def tkey_of_def
      split: option.splits)

text \<open>
  The database and the engine agree: what a restart would give an instance that starts with
  \<open>dflt\<close> is what the instance has.
\<close>

definition in_step :: "brd_settings \<Rightarrow> sys \<Rightarrow> bool" where
  "in_step dflt s \<longleftrightarrow> (\<exists>g b t. engine s = (g, [b]) \<and> vlan_id b = 0 \<and> cfgdb s = Some t \<and> config_ok (Some t)
     \<and> bridge_settings b = restored (Some t) dflt \<and> settings_ok (bridge_settings b))"

definition current_settings :: "sys \<Rightarrow> brd_settings" where
  "current_settings s = bridge_settings (hd (snd (engine s)))"

definition room_for_bridge :: "sys \<Rightarrow> bool" where
  "room_for_bridge s \<longleftrightarrow> roomy (cfgdb s) CFGFILE_RSTP RSTP_SECTION_BRD"

text \<open>A setting that the engine takes.\<close>

inductive setting_step :: "env \<Rightarrow> host \<Rightarrow> sys \<Rightarrow> sys \<Rightarrow> bool" for e h where
  setting: "setting_step e h s s'" if "room_for_bridge s" "accepted w x (current_settings s)" "odm_setter w e h x s = Some (rc, s')"

inductive_cases setting_stepE: "setting_step e h s s'"

lemma in_step_setter:
  assumes "in_step dflt s" "room_for_bridge s"
  shows "\<exists>s'. odm_setter w e h x s = Some (NO_ERROR, s') \<and> restored (cfgdb s') dflt = with_setting w x (current_settings s)
    \<and> current_settings s' = (if accepted w x (current_settings s) then with_setting w x (current_settings s) else current_settings s)
    \<and> cfgdb s' \<noteq> None \<and> config_ok (cfgdb s') \<and> (\<forall>key. key \<noteq> setting_key w \<longrightarrow> stored (cfgdb s') key = stored (cfgdb s) key)
    \<and> (accepted w x (current_settings s) \<longrightarrow> in_step dflt s')"
proof -
  from assms obtain g b t where s: "engine s = (g, [b])" "vlan_id b = 0" "cfgdb s = Some t" "config_ok (Some t)"
    "bridge_settings b = restored (Some t) dflt" "settings_ok (bridge_settings b)"
    "roomy (Some t) CFGFILE_RSTP RSTP_SECTION_BRD"
    by (auto simp: in_step_def room_for_bridge_def)
  from setter_both [OF s(1-4,7), of w e h x] obtain s' g' b' where s': "odm_setter w e h x s = Some (NO_ERROR, s')"
    "engine s' = (g', [b'])" "vlan_id b' = 0" "cfgdb s' \<noteq> None" "config_ok (cfgdb s')"
    and st: "stored (cfgdb s') (setting_key w) = Some x"
      "\<forall>l. l \<noteq> (CFGFILE_RSTP, RSTP_SECTION_BRD, setting_key w) \<longrightarrow> config_get l (cfgdb s') = config_get l (cfgdb s)"
    and new: "bridge_settings b' = (if stored (cfgdb s) (setting_key w) \<noteq> Some x \<and> accepted w x (bridge_settings b)
         then with_setting w x (bridge_settings b) else bridge_settings b)" by blast
  have db: "restored (cfgdb s') dflt = with_setting w x (bridge_settings b)"
    using restored_put [OF st] s(3,5) by simp
  have "with_setting w x (bridge_settings b) = bridge_settings b" if "stored (cfgdb s) (setting_key w) = Some x"
    using restored_stored [OF that] s(3,5) by simp
  then have cur: "bridge_settings b' = (if accepted w x (bridge_settings b) then with_setting w x (bridge_settings b)
      else bridge_settings b)" using new by auto
  have cs: "current_settings s = bridge_settings b" "current_settings s' = bridge_settings b'"
    using s(1) s'(2) by (simp_all add: current_settings_def)
  have "in_step dflt s'" if "accepted w x (bridge_settings b)"
    using that s' db cur by (auto simp: in_step_def accepted_def)
  then show ?thesis using s'(1,4,5) db cur st(2) by (simp add: cs stored_def)
qed

lemma setting_steps_in_step: "(setting_step e h)\<^sup>*\<^sup>* s s' \<Longrightarrow> in_step dflt s \<Longrightarrow> in_step dflt s'"
proof (induction rule: rtranclp_induct)
  case (step s' s'')
  from step.hyps(2) obtain w x rc where "room_for_bridge s'" "accepted w x (current_settings s')" "odm_setter w e h x s' = Some (rc, s'')"
    by (auto elim: setting_stepE)
  with in_step_setter [OF step.IH [OF step.prems], of w e h x] show ?case by auto
qed

lemma handle_mode_set:
  assumes "cfgdb s = Some t" "config_ok (Some t)" "room_for_bridge s"
  shows "\<exists>rc s'. odmRstpPktHandleModeSet m s = Some (rc, s') \<and> engine s' = engine s"
proof (cases "rsv_mac_ctrl s")
  case (Some ic)
  then obtain i c where ic: "rsv_mac_ctrl s = Some (i, c)" by (cases ic) simp
  have "\<exists>rc s'. put_u32 RSTP_SECTION_BRD RSTP_BRD_KEY_U32_HANDLE_MODE m NO_ERROR (s\<lparr> rsv_mac_ctrl := r \<rparr>) = Some (rc, s')
      \<and> engine s' = engine s" for r
    using put_u32_ok [of "s\<lparr> rsv_mac_ctrl := r \<rparr>" t RSTP_SECTION_BRD RSTP_BRD_KEY_U32_HANDLE_MODE m NO_ERROR] assms
    by (auto simp: room_for_bridge_def)
  then show ?thesis by (auto simp: odmRstpPktHandleModeSet_def ic Let_def)
qed (simp add: odmRstpPktHandleModeSet_def)

lemma has_key_stored: "has_key db RSTP_SECTION_BRD key \<longleftrightarrow> stored db key \<noteq> None"
  using stored_eq [of db key 0] by (auto simp: has_key_def)

text \<open>An instance whose state the database does not change.\<close>

definition state_agrees :: "config \<Rightarrow> stpm_t \<Rightarrow> bool" where
  "state_agrees db b \<longleftrightarrow> \<not> has_key db RSTP_SECTION_BRD RSTP_BRD_KEY_VALUE_MODE
     \<or> \<not> disabled_value db RSTP_SECTION_BRD RSTP_BRD_KEY_VALUE_MODE \<and> admin_state b = STP_ENABLED"

lemma recover_bridge_settings:
  assumes "engine s = (g, [b])" "vlan_id b = 0" "cfgdb s = Some t" "config_ok (Some t)"
    "has_key (Some t) RSTP_SECTION_BRD RSTP_BRD_KEY_U32_HANDLE_MODE \<Longrightarrow> room_for_bridge s" "state_agrees (Some t) b" "settings_ok (bridge_settings b)" "want = restored (Some t) (bridge_settings b)"
  shows "\<exists>s'. recover_bridge e h s = Some (if settings_ok want then NO_ERROR else RSTP_BRD_CFG_RECOVER_ERROR, s')
    \<and> current_settings s' = (if settings_ok want then want else bridge_settings b)"
proof (cases "vosConfigSectionIsExisted (Some t) CFGFILE_RSTP RSTP_SECTION_BRD = 0")
  case False
  then show ?thesis using no_section_nothing_stored [OF False] assms
    by (simp add: recover_bridge_def current_settings_def)
next
  case True
  let ?cfg = "recover_bridge_cfg (Some t) (caller_cfg h)"
  have "keeps_state ?cfg b"
    using assms(6) by (auto simp: keeps_state_def state_agrees_def recovered_state)
  from set_cfg_alone [OF assms(1,2) this, of want e h None] recovered_wanted assms(8)
  obtain rc g' b' where run: "set_cfg_0 e h None ?cfg s = Some (rc, ?cfg, s\<lparr> engine := (g', [b']) \<rparr>)"
    "rc = STP_OK \<longleftrightarrow> settings_ok want" "bridge_settings b' = (if settings_ok want then want else bridge_settings b)" by auto
  have hm: "\<exists>rc' s'. odmRstpPktHandleModeSet m (s\<lparr> engine := (g', [b']) \<rparr>) = Some (rc', s') \<and> engine s' = (g', [b'])"
    if "has_key (Some t) RSTP_SECTION_BRD RSTP_BRD_KEY_U32_HANDLE_MODE" for m
    using that handle_mode_set [of "s\<lparr> engine := (g', [b']) \<rparr>" t] assms(3-5) by (fastforce simp: room_for_bridge_def)
  show ?thesis
  proof (cases "has_key (Some t) RSTP_SECTION_BRD RSTP_BRD_KEY_U32_HANDLE_MODE")
    case has: True
    from hm [OF has] show ?thesis using True run assms(3) has by (fastforce simp: recover_bridge_def current_settings_def)
  qed (use True run assms(3) in \<open>auto simp: recover_bridge_def current_settings_def\<close>)
qed

subsection \<open>Settings of a port\<close>

definition port_stored :: "config \<Rightarrow> nat \<Rightarrow> string \<Rightarrow> u32 option" where
  "port_stored db i key = map_option strtoul0 (config_get (CFGFILE_RSTP, port_section i, key) db)"

lemma port_stored_key:
  "has_key db (port_section i) key \<longleftrightarrow> port_stored db i key \<noteq> None"
  "sec_u32 db (port_section i) key d = case_option d id (port_stored db i key)"
  by (auto simp: has_key_def sec_u32_def vosConfigKeyIsExisted_def vosConfigUInt32Get_def vosConfigValueGet_def
      port_stored_def config_get_def split: option.splits)

lemma multiport_one:
  "\<exists>cfg. multiport_cfg stack bmp [v] PT_CFG_PRIO = Some cfg \<and> pt_field_mask cfg = PT_CFG_PRIO \<and> port_priority cfg = sint v"
  "\<exists>cfg. multiport_cfg stack bmp [v] PT_CFG_COST = Some cfg \<and> pt_field_mask cfg = PT_CFG_COST \<and> admin_port_path_cost cfg = v"
  by (simp_all add: multiport_cfg_def multiport_fields_def masked_def PT_CFG_PRIO_def PT_CFG_COST_def PT_CFG_P2P_def PT_CFG_EDGE_def
      PT_CFG_NON_STP_def PT_CFG_DBG_SKIP_RX_def PT_CFG_DBG_SKIP_TX_def)

subsection \<open>Properties\<close>

text \<open>as long as the values that are asked for are taken by the engine, the configuration database
  follows the engine: what it would restore is what the engine uses, and that is admissible.\<close>

theorem database_follows_engine:
  assumes "in_step dflt s" "(setting_step e h)\<^sup>*\<^sup>* s s'"
  shows "restored (cfgdb s') dflt = current_settings s' \<and> settings_ok (current_settings s') \<and> config_ok (cfgdb s')"
  using setting_steps_in_step [OF assms(2,1)] by (auto simp: in_step_def current_settings_def)

lemma example_in_step: "in_step (32768, 20, 2, 15, 2) example_managed" "room_for_bridge example_managed"
  "current_settings example_managed = (32768, 20, 2, 15, 2)"
proof -
  have "restored (Some string_table) t = t" for t by (cases t) (simp add: restored_def example_nothing_stored)
  then show "in_step (32768, 20, 2, 15, 2) example_managed"
    by (simp add: in_step_def example_managed_ok example_room settings_ok_def)
qed (simp_all add: room_for_bridge_def current_settings_def example_managed_ok example_room)

lemma example_setting_step:
  assumes "accepted Hello 3 (current_settings example_managed)"
  shows "\<exists>s'. (setting_step example_env example_host)\<^sup>*\<^sup>* example_managed s' \<and> current_settings s' = (32768, 20, 3, 15, 2)
    \<and> (\<forall>key. key \<noteq> RSTP_BRD_KEY_U32_HELLOTIME \<longrightarrow> stored (cfgdb s') key = None)"
proof -
  from in_step_setter [OF example_in_step(1,2), of Hello example_env example_host 3] assms obtain s' where
    s': "odm_setter Hello example_env example_host 3 example_managed = Some (NO_ERROR, s')"
      "current_settings s' = (32768, 20, 3, 15, 2)" "\<forall>key. key \<noteq> RSTP_BRD_KEY_U32_HELLOTIME \<longrightarrow> stored (cfgdb s') key = None"
    by (auto simp: example_in_step(3) example_managed_ok(3) example_nothing_stored)
  then show ?thesis using setting_step.setting [OF example_in_step(2) assms s'(1)] by blast
qed

lemma example_accepted: "accepted Hello 3 (current_settings example_managed)" "settings_ok (32768, 20, 2, 15, 2)"
  by (simp_all add: example_in_step(3) accepted_def settings_ok_def)

lemma example_no_mode:
  assumes "\<forall>key. key \<noteq> RSTP_BRD_KEY_U32_HELLOTIME \<longrightarrow> stored db key = None"
  shows "state_agrees db b" "\<not> has_key db RSTP_SECTION_BRD RSTP_BRD_KEY_U32_HANDLE_MODE"
proof -
  have "RSTP_BRD_KEY_VALUE_MODE \<noteq> RSTP_BRD_KEY_U32_HELLOTIME" "RSTP_BRD_KEY_U32_HANDLE_MODE \<noteq> RSTP_BRD_KEY_U32_HELLOTIME"
    by (simp_all add: rstp_file_names)
  then show "state_agrees db b" "\<not> has_key db RSTP_SECTION_BRD RSTP_BRD_KEY_U32_HANDLE_MODE"
    using assms by (simp_all add: state_agrees_def has_key_stored)
qed

theorem database_follows_engine_witness:
  "\<exists>s'. (setting_step example_env example_host)\<^sup>*\<^sup>* example_managed s' \<and> restored (cfgdb s') (32768, 20, 2, 15, 2) = (32768, 20, 3, 15, 2)"
proof -
  obtain s' where "(setting_step example_env example_host)\<^sup>*\<^sup>* example_managed s'" "current_settings s' = (32768, 20, 3, 15, 2)"
    using example_setting_step [OF example_accepted(1)] by blast
  then show ?thesis using database_follows_engine [OF example_in_step(1)] by auto
qed



text \<open>C39: a value outside the ranges of the standard that was asked for once is reported as done, and
  makes the next start fail: the whole configuration of the bridge is refused.\<close>

theorem refused_setting_breaks_restart:
  assumes "in_step dflt s" "room_for_bridge s" "\<not> settings_ok (with_setting w x (current_settings s))"
    "engine r = (g, [b])" "vlan_id b = 0" "bridge_settings b = dflt" "settings_ok dflt"
  shows "\<exists>s'. odm_setter w e h x s = Some (NO_ERROR, s') \<and> current_settings s' = current_settings s \<and>
    (cfgdb r = cfgdb s' \<and> state_agrees (cfgdb r) b
       \<and> (has_key (cfgdb r) RSTP_SECTION_BRD RSTP_BRD_KEY_U32_HANDLE_MODE \<longrightarrow> room_for_bridge r) \<longrightarrow>
       (\<exists>r'. recover_bridge e h r = Some (RSTP_BRD_CFG_RECOVER_ERROR, r') \<and> current_settings r' = dflt))"
proof -
  from in_step_setter [OF assms(1,2), of w e h x] assms(3) obtain s' where s': "odm_setter w e h x s = Some (NO_ERROR, s')"
    "restored (cfgdb s') dflt = with_setting w x (current_settings s)" "current_settings s' = current_settings s"
    "cfgdb s' \<noteq> None" "config_ok (cfgdb s')" by (auto simp: accepted_def)
  then obtain t where t: "cfgdb s' = Some t" "config_ok (Some t)" by auto
  from recover_bridge_settings [OF assms(4,5) _ t(2) _ _ _ refl, of e h] show ?thesis
    using assms(3,6,7) s' t by auto
qed

theorem refused_setting_breaks_restart_witness:
  "\<exists>s' r'. odmRstpSetHello example_env example_host 11 example_managed = Some (NO_ERROR, s')
     \<and> recover_bridge example_env example_host (example_managed\<lparr> cfgdb := cfgdb s' \<rparr>) = Some (RSTP_BRD_CFG_RECOVER_ERROR, r')"
proof -
  have bad: "\<not> settings_ok (with_setting Hello 11 (current_settings example_managed))"
    by (simp add: example_in_step(3) settings_ok_def)
  from in_step_setter [OF example_in_step(1,2), of Hello example_env example_host 11] obtain s' where
    s': "odm_setter Hello example_env example_host 11 example_managed = Some (NO_ERROR, s')"
      "\<forall>key. key \<noteq> RSTP_BRD_KEY_U32_HELLOTIME \<longrightarrow> stored (cfgdb s') key = None"
    by (auto simp: example_managed_ok(3) example_nothing_stored)
  let ?r = "example_managed\<lparr> cfgdb := cfgdb s' \<rparr>"
  have r: "engine ?r = (init_glob, [example_instance])" by (simp add: example_managed_ok(1))
  from refused_setting_breaks_restart [OF example_in_step(1,2) bad r example_managed_ok(2,4) example_accepted(2),
      of example_env example_host] s' show ?thesis
    by (fastforce simp: example_no_mode [OF s'(2)])
qed

text \<open>The start scales the settings of a port the wrong way round. A priority is stored as a
  multiple of 16, and is given to the engine times 16 when it is set but as it is when it is
  restored; a path cost is given to the engine as it is when it is set but times 16 when it is
  restored.\<close>

theorem recovered_port_scaling:
  "port_priority (recover_port_cfg db i) = case_option 0 sint (port_stored db i RSTP_PORT_KEY_U32_PRI)
   \<and> admin_port_path_cost (recover_port_cfg db i) = case_option 0 (\<lambda>y. y * 16) (port_stored db i RSTP_PORT_KEY_U32_PCOST)
   \<and> (\<exists>cfg. port_priority cfg = sint (x * 16) \<and> pt_field_mask cfg = PT_CFG_PRIO
        \<and> cli_multiport_prio e h bmp (x * 16) s = map_option (Pair 0) (set_port_cfg_0 e cfg s))
   \<and> (\<exists>cfg. admin_port_path_cost cfg = y \<and> pt_field_mask cfg = PT_CFG_COST
        \<and> cli_multiport_pcost e h bmp y s = map_option (Pair 0) (set_port_cfg_0 e cfg s))"
proof (intro conjI)
  show "port_priority (recover_port_cfg db i) = case_option 0 sint (port_stored db i RSTP_PORT_KEY_U32_PRI)"
    "admin_port_path_cost (recover_port_cfg db i) = case_option 0 (\<lambda>y. y * 16) (port_stored db i RSTP_PORT_KEY_U32_PCOST)"
    by (simp_all add: recover_port_cfg_def Let_def when_key_def port_stored_key zero_port_cfg_def split: option.splits)
qed (use multiport_one(1) [of "caller_port h" bmp "x * 16"] multiport_one(2) [of "caller_port h" bmp y] in
      \<open>auto simp: cli_multiport_prio_def cli_multiport_pcost_def set_rstp_multiport_cfg_value_def\<close>)

text \<open>The report on the settings of a port tells those of the next port, and for the last port it
  reads behind the end of the table.\<close>

theorem port_info_off_by_one:
  assumes "1 \<le> i" "i \<le> 4" "port_element ty = Some el"
  shows "odmRstpPortInfoGet i ty (Some v) (bridge_conf_read s) =
    (if i < 4 then Some (NO_ERROR, Some (port_info el (conf_read_port (cfgdb s) (unat i + 1)))) else None)"
proof -
  have "port_cfg (bridge_conf_read s) = map (conf_read_port (cfgdb s)) [1..<5]"
    by (simp add: bridge_conf_read_def NUMBER_OF_PORTS_def)
  moreover have "unat i < 4 \<longleftrightarrow> i < 4" by (simp add: word_less_nat_alt)
  ultimately show ?thesis using assms by (auto simp: odmRstpPortInfoGet_def)
qed

theorem port_info_off_by_one_witness:
  "odmRstpPortInfoGet 4 RSTP_BRD_MODE (Some 0) (bridge_conf_read example_sys) = None"
  using port_info_off_by_one [of 4 RSTP_BRD_MODE RSTP_PORT_MODE 0 example_sys] by simp

end
