(* ===== verification/Vos_Text.thy ===== *)
theory Vos_Text
  imports Vos_Config
begin

text \<open>
  Configuration files: what \<^verbatim>\<open>vosConfigFlushByModule\<close> writes, \<^verbatim>\<open>vosConfigRefreshByModule\<close> reads back.
\<close>

subsection \<open>What is written\<close>

definition entries :: "('k, 'd) hash_table \<Rightarrow> ('k \<times> 'd) list" where
  "entries t = concat (hashList t)"

lemma entries_map: "hash_ok t \<Longrightarrow> (k, d) \<in> set (entries t) \<longleftrightarrow> hash_map t k = Some d"
  using hash_map_entries [of t k d] by (simp add: entries_def)

lemma entries_distinct: "hash_ok t \<Longrightarrow> distinct (map fst (entries t))"
  using distinct_concat_index [of "hashList t" "\<lambda>k. HASH_INDEX k t" 0] hash_okD(4,5,6) [of t]
  by (simp add: entries_def)

lemma each_chain_eq:
  "each_chain (\<lambda>k d w. (f k d, g k d w)) bs w =
     (map (map (\<lambda>(k, d). (k, f k d))) bs, fold (\<lambda>e. g (fst e) (snd e)) (concat bs) w)"
proof -
  have "each_entry (\<lambda>k d w. (f k d, g k d w)) es w = (map (\<lambda>(k, d). (k, f k d)) es, fold (\<lambda>e. g (fst e) (snd e)) es w)"
    for es w by (induction es arbitrary: w) auto
  then show ?thesis by (induction bs arbitrary: w) (auto simp: Let_def)
qed

lemma forEachDo_eq:
  assumes "\<And>k d w. cb k d w = (f k d, g k d w)"
  shows "vosHashForEachDo t cb w =
    (t\<lparr> hashList := map (map (\<lambda>(k, d). (k, f k d))) (hashList t) \<rparr>, fold (\<lambda>e. g (fst e) (snd e)) (entries t) w)"
proof -
  have "cb = (\<lambda>k d w. (f k d, g k d w))" using assms by (simp add: fun_eq_iff)
  then show ?thesis by (simp add: vosHashForEachDo_def each_chain_eq entries_def)
qed

lemma entries_mapped: "entries (t\<lparr> hashList := map (map (\<lambda>(k, d). (k, f k d))) (hashList t) \<rparr>)
    = map (\<lambda>(k, d). (k, f k d)) (entries t)"
  by (simp add: entries_def map_concat)

lemma fold_append: "fold (\<lambda>e w. w @ h e) es w = w @ concat (map h es)"
  by (induction es arbitrary: w) auto

definition key_line :: "string \<times> CFG_KEY_DATA_t \<Rightarrow> string" where
  "key_line e = fst e @ ''='' @ key_data (snd e)"

definition section_lines :: "string \<times> CFG_SECTION_DATA_t \<Rightarrow> string list" where
  "section_lines e = (''['' @ fst e @ '']'') # map key_line (entries (keys (snd e)))"

definition module_lines :: "CFG_MODULE_DATA_t \<Rightarrow> string list" where
  "module_lines m = concat (map section_lines (entries (sections m)))"

definition text_of :: "string list \<Rightarrow> string" where
  "text_of ls = concat (map (\<lambda>l. l @ [CHR 0x0A]) ls)"

lemma text_of_append [simp]: "text_of (ls @ ls') = text_of ls @ text_of ls'" "text_of [] = []"
  "text_of (l # ls) = l @ CHR 0x0A # text_of ls"
  by (simp_all add: text_of_def)

definition reset_section :: "CFG_SECTION_DATA_t \<Rightarrow> CFG_SECTION_DATA_t" where
  "reset_section s = s\<lparr> section_flag := CFG_NOT_FLUSHED,
     keys := (keys s)\<lparr> hashList := map (map (\<lambda>(k, d). (k, d\<lparr> key_flag := CFG_NOT_FLUSHED \<rparr>))) (hashList (keys s)) \<rparr> \<rparr>"

lemma flush_reset:
  "fst (vosHashForEachDo ss vosConfigFlushSectionReset ()) =
     ss\<lparr> hashList := map (map (\<lambda>(k, s). (k, reset_section s))) (hashList ss) \<rparr>"
proof -
  have "vosConfigFlushSectionReset k s w = (reset_section s, w)" for k s w
    using forEachDo_eq [of vosConfigFlushKeyReset "\<lambda>k d. d\<lparr> key_flag := CFG_NOT_FLUSHED \<rparr>" "\<lambda>k d w. w" "keys s" w]
    by (simp add: vosConfigFlushSectionReset_def vosConfigFlushKeyReset_def reset_section_def fold_id)
  from forEachDo_eq [of vosConfigFlushSectionReset "\<lambda>k. reset_section" "\<lambda>k d w. w", OF this]
  show ?thesis by simp
qed

lemma flush_section:
  "snd (vosConfigFlushSectionAppend n (reset_section s) w) = w @ text_of (section_lines (n, s))"
proof -
  let ?f = "\<lambda>k d. if key_flag d = CFG_NOT_FLUSHED then d\<lparr> key_flag := CFG_FLUSHED \<rparr> else d"
  let ?g = "\<lambda>k d w. if key_flag d = CFG_NOT_FLUSHED then w @ k @ ''='' @ key_data d @ [CHR 0x0A] else w"
  have cb: "vosConfigFlushKeyAppend k d w = (?f k d, ?g k d w)" for k d w
    by (simp add: vosConfigFlushKeyAppend_def)
  have "fold (\<lambda>e. ?g (fst e) (snd e)) (map (\<lambda>(k, d). (k, d\<lparr> key_flag := CFG_NOT_FLUSHED \<rparr>)) es) w
      = w @ text_of (map key_line es)" for es w
    by (induction es arbitrary: w) (auto simp: key_line_def)
  then have fld: "fold (\<lambda>e. ?g (fst e) (snd e)) (entries (keys (reset_section s))) w = w @ text_of (map key_line (entries (keys s)))" for w
    by (simp add: reset_section_def entries_mapped)
  show ?thesis
    by (simp add: vosConfigFlushSectionAppend_def forEachDo_eq [OF cb] fld section_lines_def)
       (simp add: reset_section_def)
qed

lemma flush_text:
  assumes "vosHashValue fname t = Some m" "can_write fname" "fname \<noteq> []"
  shows "\<exists>db'. vosConfigFlushByModule can_write fname (Some t) files = (0, db', files(fname \<mapsto> text_of (module_lines m)))"
proof -
  let ?ss = "(sections m)\<lparr> hashList := map (map (\<lambda>(k, s). (k, reset_section s))) (hashList (sections m)) \<rparr>"
  have "vosConfigFlushSectionAppend n s w = (fst (vosConfigFlushSectionAppend n s []), snd (vosConfigFlushSectionAppend n s w))" for n s w
    by (simp add: vosConfigFlushSectionAppend_def vosConfigFlushKeyAppend_def
        forEachDo_eq [of vosConfigFlushKeyAppend "\<lambda>k d. if key_flag d = CFG_NOT_FLUSHED then d\<lparr> key_flag := CFG_FLUSHED \<rparr> else d"
          "\<lambda>k d w. if key_flag d = CFG_NOT_FLUSHED then w @ k @ ''='' @ key_data d @ [CHR 0x0A] else w"])
  note step = forEachDo_eq [of vosConfigFlushSectionAppend, OF this]
  have "fold (\<lambda>e w. snd (vosConfigFlushSectionAppend (fst e) (snd e) w)) (map (\<lambda>(k, s). (k, reset_section s)) es) w
      = w @ text_of (concat (map section_lines es))" for es w
    by (induction es arbitrary: w) (auto simp: flush_section)
  then have "snd (vosHashForEachDo ?ss vosConfigFlushSectionAppend []) = text_of (module_lines m)"
    by (simp add: step entries_mapped module_lines_def)
  then show ?thesis
    using assms by (simp add: vosConfigFlushByModule_def flush_reset Let_def split: prod.split) auto
qed

subsection \<open>What is read\<close>

text \<open>Names and values that survive the trimming of the parser and its special characters.\<close>

definition clean :: "string \<Rightarrow> bool" where
  "clean s \<longleftrightarrow> s \<noteq> [] \<and> \<not> blank (hd s) \<and> \<not> blank (last s) \<and> last s \<noteq> CHR 0x0D \<and> CHR 0x0A \<notin> set s"

definition section_name_ok :: "string \<Rightarrow> bool" where
  "section_name_ok n \<longleftrightarrow> clean n \<and> CHR '']'' \<notin> set n"

definition key_name_ok :: "string \<Rightarrow> bool" where
  "key_name_ok k \<longleftrightarrow> clean k \<and> CHR ''='' \<notin> set k \<and> hd k \<notin> {CHR ''#'', CHR '';'', CHR ''[''}"

definition key_ok :: "string \<times> CFG_KEY_DATA_t \<Rightarrow> bool" where
  "key_ok e \<longleftrightarrow> key_name_ok (fst e) \<and> clean (key_data (snd e))"

definition section_ok :: "string \<times> CFG_SECTION_DATA_t \<Rightarrow> bool" where
  "section_ok e \<longleftrightarrow> section_name_ok (fst e) \<and> list_all key_ok (entries (keys (snd e)))
     \<and> hcount (keys (snd e)) \<le> HASH_CAPACITY"

definition writable :: "CFG_MODULE_DATA_t \<Rightarrow> bool" where
  "writable m \<longleftrightarrow> list_all section_ok (entries (sections m)) \<and> hcount (sections m) < HASH_CAPACITY"

lemma trim_clean: "clean s \<Longrightarrow> trim s = Some s"
proof -
  assume c: "clean s"
  then obtain a as where a: "s = a # as" by (cases s) (auto simp: clean_def)
  have "rev s \<noteq> [] \<and> hd (rev s) = last s" using c by (simp add: clean_def hd_rev)
  then obtain b bs where b: "rev s = b # bs" "b = last s" by (cases "rev s") auto
  have 1: "dropWhile blank s = s" using c by (simp add: clean_def a)
  have 2: "dropWhile (\<lambda>c. blank c \<or> c = CHR 0x0D) (rev s) = rev s" using c by (simp add: clean_def b)
  have "rev s \<noteq> []" by (simp add: a)
  then show ?thesis unfolding trim_def by (simp only: 1 2 Let_def rev_is_Nil_conv rev_rev_ident if_False)
qed

lemma parse_section:
  assumes "section_name_ok n"
  shows "parse_line (''['' @ n @ '']'') (m, ts) = map_option (\<lambda>m. (m, Some n)) (with_section n Some m)"
proof -
  have n: "clean n" "CHR '']'' \<notin> set n" using assms by (simp_all add: section_name_ok_def)
  have "takeWhile (\<lambda>c. c \<noteq> CHR '']'') (n @ '']'') = n" using n(2) by (subst takeWhile_append2) auto
  then show ?thesis by (simp add: parse_line_def blank_def trim_clean [OF n(1)] Option.map_conv_bind_option comp_def)
qed

lemma parse_setting:
  assumes "dropWhile blank l = p" "p \<noteq> []" "hd p \<notin> {CHR ''#'', CHR '';'', CHR ''[''}" "CHR ''='' \<in> set p"
    "trim (takeWhile (\<lambda>c. c \<noteq> CHR ''='') p) = Some k" "trim (tl (dropWhile (\<lambda>c. c \<noteq> CHR ''='') p)) = Some v"
  shows "parse_line l (m, Some n) = map_option (\<lambda>m. (m, Some n)) (with_section n (put_key k v) m)"
  using assms by (simp add: parse_line_def Option.map_conv_bind_option comp_def)

lemma parse_key:
  assumes "key_ok e"
  shows "parse_line (key_line e) (m, Some n) =
    map_option (\<lambda>m. (m, Some n)) (with_section n (put_key (fst e) (key_data (snd e))) m)"
proof (rule parse_setting)
  have k: "clean (fst e)" "CHR ''='' \<notin> set (fst e)" "hd (fst e) \<notin> {CHR ''#'', CHR '';'', CHR ''[''}"
    and v: "clean (key_data (snd e))"
    using assms by (simp_all add: key_ok_def key_name_ok_def)
  obtain a as where a: "fst e = a # as" using k(1) by (cases "fst e") (auto simp: clean_def)
  show "dropWhile blank (key_line e) = key_line e" using k(1) by (simp add: key_line_def clean_def a)
  show "key_line e \<noteq> []" "CHR ''='' \<in> set (key_line e)" by (simp_all add: key_line_def)
  show "hd (key_line e) \<notin> {CHR ''#'', CHR '';'', CHR ''[''}" using k(3) by (simp add: key_line_def a)
  have "takeWhile (\<lambda>c. c \<noteq> CHR ''='') (key_line e) = fst e" "tl (dropWhile (\<lambda>c. c \<noteq> CHR ''='') (key_line e)) = key_data (snd e)"
    unfolding key_line_def using k(2) by (subst takeWhile_append2 dropWhile_append2; auto)+
  then show "trim (takeWhile (\<lambda>c. c \<noteq> CHR ''='') (key_line e)) = Some (fst e)"
    "trim (tl (dropWhile (\<lambda>c. c \<noteq> CHR ''='') (key_line e))) = Some (key_data (snd e))"
    using trim_clean [OF k(1)] trim_clean [OF v] by simp_all
qed

lemma whole_lines_text: "list_all (\<lambda>l. CHR 0x0A \<notin> set l) ls \<Longrightarrow> whole_lines (text_of ls) = ls"
proof (induction ls)
  case (Cons l ls)
  then have n: "CHR 0x0A \<notin> set l" by simp
  have "dropWhile (\<lambda>c. c \<noteq> CHR 0x0A) (l @ CHR 0x0A # text_of ls) = CHR 0x0A # text_of ls"
    "takeWhile (\<lambda>c. c \<noteq> CHR 0x0A) (l @ CHR 0x0A # text_of ls) = l"
    using n by (subst takeWhile_append2 dropWhile_append2; auto)+
  then show ?case using Cons by (simp add: whole_lines.simps [of "l @ CHR 0x0A # text_of ls"])
qed (simp add: whole_lines.simps)

text \<open>The values of a section, and of a module, as maps.\<close>

definition key_vals :: "CFG_SECTION_DATA_t \<Rightarrow> string \<Rightarrow> string option" where
  "key_vals s k = map_option key_data (hash_map (keys s) k)"

definition section_vals :: "CFG_MODULE_DATA_t \<Rightarrow> string \<Rightarrow> (string \<Rightarrow> string option) option" where
  "section_vals m n = map_option key_vals (hash_map (sections m) n)"

lemma map_of_entries: "hash_ok t \<Longrightarrow> map_of (entries t) = hash_map t"
  using entries_map [of t] entries_distinct [of t]
  by (intro ext) (metis (no_types) map_of_eq_None_iff map_of_eq_Some_iff option.exhaust_sel)

definition put_all :: "('d \<Rightarrow> 'v) \<Rightarrow> ('k \<times> 'd) list \<Rightarrow> ('k \<Rightarrow> 'v option) \<Rightarrow> 'k \<Rightarrow> 'v option" where
  "put_all f es M = fold (\<lambda>e M. M(fst e \<mapsto> f (snd e))) es M"

lemma put_all_simps [simp]: "put_all f [] M = M" "put_all f (e # es) M = put_all f es (M(fst e \<mapsto> f (snd e)))"
  by (simp_all add: put_all_def)

lemma put_all_map_of:
  "distinct (map fst es) \<Longrightarrow> put_all f es M k = (case map_of es k of None \<Rightarrow> M k | Some d \<Rightarrow> Some (f d))"
proof (induction es arbitrary: M)
  case (Cons e es)
  show ?case
  proof (cases "k = fst e")
    case True
    then have "map_of es k = None" using Cons.prems by (simp add: map_of_eq_None_iff)
    then show ?thesis using Cons True by (cases e) simp
  next
    case False
    then show ?thesis using Cons by (cases e) (simp split: option.split)
  qed
qed simp

lemma put_all_entries: "hash_ok t \<Longrightarrow> put_all f (entries t) Map.empty = (\<lambda>k. map_option f (hash_map t k))"
  by (auto simp: put_all_map_of [OF entries_distinct] map_of_entries fun_eq_iff split: option.split)

lemma dom_key_vals: "dom (key_vals s) = dom (hash_map (keys s))"
  by (auto simp: dom_def key_vals_def)

lemma parse_keys:
  assumes "list_all key_ok es" "module_ok m" "hcount (sections m) < HASH_CAPACITY" "hash_map (sections m) n = Some s"
    "hcount (keys s) + int (length es) \<le> HASH_CAPACITY"
  shows "\<exists>m' s'. parse_lines (map key_line es) (m, Some n) = Some (m', Some n) \<and> module_ok m'
    \<and> hash_map (sections m') = (hash_map (sections m))(n \<mapsto> s')
    \<and> key_vals s' = put_all key_data es (key_vals s)"
  using assms
proof (induction es arbitrary: m s)
  case Nil
  then show ?case by (intro exI [of _ m] exI [of _ s] conjI) (simp_all add: fun_upd_idem)
next
  case (Cons e es)
  have hs: "hash_ok (keys s)" "hash_ok (sections m)" using Cons.prems by (auto simp: module_ok_def)
  obtain s1 where s1: "put_key (fst e) (key_data (snd e)) s = Some s1" "hash_ok (keys s1)"
    "\<forall>k. key_vals s1 k = (if k = fst e then Some (key_data (snd e)) else key_vals s k)"
    using put_key_ok [OF hs(1), of "fst e" "key_data (snd e)"] Cons.prems(5) by (auto simp: key_vals_def)
  obtain m1 where m1: "with_section n (put_key (fst e) (key_data (snd e))) m = Some m1" "module_ok m1"
    "hash_map (sections m1) = (hash_map (sections m))(n \<mapsto> s1)"
    using with_section_ok [OF Cons.prems(2,3), of "put_key (fst e) (key_data (snd e))" n s1] s1 Cons.prems(4) by auto
  have kv: "key_vals s1 = (key_vals s)(fst e \<mapsto> key_data (snd e))" using s1(3) by (simp add: fun_eq_iff)
  have "dom (hash_map (keys s1)) = insert (fst e) (dom (hash_map (keys s)))" using kv by (simp add: dom_key_vals [symmetric])
  then have "hcount (keys s1) \<le> hcount (keys s) + 1"
    using hcount_card [OF s1(2)] hcount_card [OF hs(1)] hash.finite_look [OF hs(1)] by (simp add: card_insert_if)
  moreover have "hcount (sections m1) = hcount (sections m)"
    using hcount_card [OF hs(2)] hcount_card [of "sections m1"] m1(2,3) Cons.prems(4)
    by (simp add: module_ok_def insert_absorb domIff)
  ultimately have "hcount (sections m1) < HASH_CAPACITY" "hcount (keys s1) + int (length es) \<le> HASH_CAPACITY"
    "hash_map (sections m1) n = Some s1" "list_all key_ok es" using Cons.prems m1(3) by simp_all
  then obtain m' s' where m': "parse_lines (map key_line es) (m1, Some n) = Some (m', Some n)" "module_ok m'"
      "hash_map (sections m') = (hash_map (sections m1))(n \<mapsto> s')"
      "key_vals s' = put_all key_data es (key_vals s1)"
    using Cons.IH [of m1 s1] m1(2) by blast
  then show ?case using Cons.prems(1) m1 by (intro exI [of _ m'] exI [of _ s'] conjI) (simp_all add: parse_key kv)
qed

lemma parse_one_section:
  assumes "section_ok e" "hash_ok (keys (snd e))" "module_ok m" "hcount (sections m) + 1 < HASH_CAPACITY"
    "hash_map (sections m) (fst e) = None"
  shows "\<exists>m'. parse_lines (section_lines e) (m, ts) = Some (m', Some (fst e)) \<and> module_ok m'
    \<and> section_vals m' = (section_vals m)(fst e \<mapsto> key_vals (snd e)) \<and> hcount (sections m') = hcount (sections m) + 1"
proof -
  have e: "section_name_ok (fst e)" "list_all key_ok (entries (keys (snd e)))" "hcount (keys (snd e)) \<le> HASH_CAPACITY"
    using assms(1) by (simp_all add: section_ok_def)
  have hs: "hash_ok (sections m)" using assms(3) by (simp add: module_ok_def)
  obtain m1 where m1: "with_section (fst e) Some m = Some m1" "module_ok m1"
    "hash_map (sections m1) = (hash_map (sections m))(fst e \<mapsto> new_section)"
    using with_section_ok [OF assms(3), of Some "fst e" new_section] assms(4,5) new_ok(2) by auto
  have card: "card (insert (fst e) (dom (hash_map (sections m)))) = Suc (card (dom (hash_map (sections m))))"
    using hash.finite_look [OF hs] assms(5) by (simp add: domIff)
  have n: "hcount (sections m1) = hcount (sections m) + 1"
    using hcount_card [OF hs] hcount_card [of "sections m1"] m1(2,3) card by (simp add: module_ok_def)
  have len: "hcount (keys (snd e)) = int (length (entries (keys (snd e))))"
    using assms(2) by (simp add: hash_ok_def entries_def)
  have "key_vals new_section = Map.empty" using new_ok(3) by (simp add: key_vals_def fun_eq_iff)
  moreover obtain m' s' where m': "parse_lines (map key_line (entries (keys (snd e)))) (m1, Some (fst e)) = Some (m', Some (fst e))"
    "module_ok m'" "hash_map (sections m') = (hash_map (sections m1))(fst e \<mapsto> s')"
    "key_vals s' = put_all key_data (entries (keys (snd e))) (key_vals new_section)"
    using parse_keys [OF e(2) m1(2), of "fst e" new_section] n assms(4) m1(3) e(3) len new_ok(5) by auto
  ultimately have "key_vals s' = key_vals (snd e)"
    by (simp add: put_all_entries [OF assms(2)]) (simp add: key_vals_def fun_eq_iff)
  then have "section_vals m' = (section_vals m)(fst e \<mapsto> key_vals (snd e))"
    using m'(3) m1(3) by (auto simp: section_vals_def fun_eq_iff)
  moreover have "hcount (sections m') = hcount (sections m) + 1"
    using hcount_card [OF hs] hcount_card [of "sections m'"] m'(2,3) m1(3) card by (simp add: module_ok_def)
  ultimately show ?thesis
    using m'(1,2) m1(1) parse_section [OF e(1), of m ts] by (intro exI [of _ m']) (simp add: section_lines_def)
qed

lemma parse_lines_append:
  "parse_lines (ls @ ls') st = (case parse_lines ls st of None \<Rightarrow> None | Some st \<Rightarrow> parse_lines ls' st)"
  by (induction ls arbitrary: st) (auto split: option.split)

lemma parse_sections:
  assumes "list_all section_ok es" "list_all (\<lambda>e. hash_ok (keys (snd e))) es" "distinct (map fst es)"
    "\<forall>e \<in> set es. hash_map (sections m) (fst e) = None" "module_ok m"
    "hcount (sections m) + int (length es) < HASH_CAPACITY"
  shows "\<exists>m' ts'. parse_lines (concat (map section_lines es)) (m, ts) = Some (m', ts') \<and> module_ok m'
    \<and> section_vals m' = put_all key_vals es (section_vals m)"
  using assms
proof (induction es arbitrary: m ts)
  case (Cons e es)
  obtain m1 where m1: "parse_lines (section_lines e) (m, ts) = Some (m1, Some (fst e))" "module_ok m1"
    "section_vals m1 = (section_vals m)(fst e \<mapsto> key_vals (snd e))" "hcount (sections m1) = hcount (sections m) + 1"
    using parse_one_section [of e m ts] Cons.prems by auto
  have "hash_map (sections m1) (fst e') = None" if "e' \<in> set es" for e'
  proof -
    have "fst e' \<noteq> fst e" using Cons.prems(3) that by (metis distinct.simps(2) image_eqI list.set_map list.simps(9))
    then have "section_vals m1 (fst e') = section_vals m (fst e')" by (simp add: m1(3))
    then show ?thesis using Cons.prems(4) that by (simp add: section_vals_def)
  qed
  then obtain m' ts' where "parse_lines (concat (map section_lines es)) (m1, Some (fst e)) = Some (m', ts')" "module_ok m'"
      "section_vals m' = put_all key_vals es (section_vals m1)"
    using Cons.IH [of m1 "Some (fst e)"] Cons.prems m1(2,4) by fastforce
  then show ?case using m1 by (intro exI [of _ m'] exI [of _ ts']) (simp add: parse_lines_append)
qed simp

lemma section_lines_plain: "section_ok e \<Longrightarrow> list_all (\<lambda>l. CHR 0x0A \<notin> set l) (section_lines e)"
  by (auto simp: section_ok_def section_lines_def section_name_ok_def clean_def list_all_iff key_ok_def key_name_ok_def key_line_def)

lemma read_back:
  assumes "module_ok m" "writable m"
  shows "\<exists>m'. map_option fst (parse_lines (whole_lines (text_of (module_lines m))) (new_module, None)) = Some m'
    \<and> module_ok m' \<and> section_vals m' = section_vals m"
proof -
  let ?es = "entries (sections m)"
  have h: "hash_ok (sections m)" using assms(1) by (simp add: module_ok_def)
  have es: "list_all section_ok ?es" "hcount (sections m) < HASH_CAPACITY" using assms(2) by (simp_all add: writable_def)
  have "list_all (\<lambda>e. hash_ok (keys (snd e))) ?es"
    using assms(1) entries_map [OF h] by (fastforce simp: list_all_iff module_ok_def)
  moreover have "hcount (sections m) = int (length ?es)" using h by (simp add: hash_ok_def entries_def)
  ultimately obtain m' ts' where m': "parse_lines (module_lines m) (new_module, None) = Some (m', ts')" "module_ok m'"
    "section_vals m' = put_all key_vals ?es (section_vals new_module)"
    using parse_sections [of ?es new_module None] es entries_distinct [OF h] new_ok(1,4,6) by (auto simp: module_lines_def)
  have "section_vals new_module = Map.empty" using new_ok(4) by (simp add: section_vals_def fun_eq_iff)
  then have "section_vals m' = section_vals m"
    by (simp add: m'(3) put_all_entries [OF h]) (simp add: section_vals_def fun_eq_iff)
  moreover have "list_all (\<lambda>l. CHR 0x0A \<notin> set l) (module_lines m)"
    using es(1) section_lines_plain by (fastforce simp: module_lines_def list_all_iff)
  ultimately show ?thesis using m' whole_lines_text by auto
qed

lemma value_get_vals:
  "vosConfigValueGet db f s k d =
     (case tmodule_of db f of None \<Rightarrow> d
      | Some m \<Rightarrow> (case section_vals m s of None \<Rightarrow> d
          | Some v \<Rightarrow> (case v k of None \<Rightarrow> d | Some x \<Rightarrow> Some x)))"
  by (simp add: vosConfigValueGet_def tkey_map tsection_map section_vals_def key_vals_def split: option.split)

lemma section_existed_vals:
  "vosConfigSectionIsExisted db f s = (case tmodule_of db f of None \<Rightarrow> - 1 | Some m \<Rightarrow> if section_vals m s = None then - 1 else 0)"
  by (simp add: vosConfigSectionIsExisted_def tsection_map section_vals_def split: option.split)

text \<open>A value without text stops the parser: nothing is left to trim.\<close>

lemma trim_empty [simp]: "trim [] = None"
  by (simp add: trim_def)

lemma parse_line_section: "parse_line l (m, Some n) = Some (m', ts) \<Longrightarrow> ts \<noteq> None"
  by (auto simp: parse_line_def Let_def split: if_splits Option.bind_splits dest: sym)

lemma parse_lines_section: "parse_lines ls (m, Some n) = Some (m', ts) \<Longrightarrow> ts \<noteq> None"
proof (induction ls arbitrary: m n)
  case (Cons l ls)
  then obtain m1 ts1 where 1: "parse_line l (m, Some n) = Some (m1, ts1)" "parse_lines ls (m1, ts1) = Some (m', ts)"
    by (auto split: option.splits)
  then obtain n1 where "ts1 = Some n1" using parse_line_section by blast
  then show ?case using Cons.IH 1(2) by blast
qed auto

lemma parse_empty_value:
  assumes "key_name_ok k"
  shows "parse_line (k @ ''='') (m, Some n) = None"
proof -
  have k: "clean k" "CHR ''='' \<notin> set k" "hd k \<notin> {CHR ''#'', CHR '';'', CHR ''[''}"
    using assms by (simp_all add: key_name_ok_def)
  obtain a as where a: "k = a # as" using k(1) by (cases k) (auto simp: clean_def)
  have "dropWhile (\<lambda>c. c \<noteq> CHR ''='') (k @ ''='') = ''=''" using k(2) by (subst dropWhile_append2) auto
  moreover have "takeWhile (\<lambda>c. c \<noteq> CHR ''='') (k @ ''='') = k" using k(2) by (subst takeWhile_append2) auto
  ultimately show ?thesis using k(1,3) trim_clean [OF k(1)] by (auto simp: parse_line_def clean_def a)
qed

lemma parse_lines_stuck:
  assumes "section_name_ok n" "key_name_ok k"
  shows "parse_lines (pre @ (''['' @ n @ '']'') # mid @ (k @ ''='') # post) st = None"
proof (cases "parse_lines pre st")
  case (Some st1)
  obtain m ts where "st1 = (m, ts)" by fastforce
  moreover have "parse_lines (mid @ (k @ ''='') # post) (m1, Some n) = None" for m1
    using parse_lines_section [of mid m1 n] parse_empty_value [OF assms(2)]
    by (auto simp: parse_lines_append split: option.split)
  ultimately show ?thesis
    using Some parse_section [OF assms(1), of m ts] by (auto simp: parse_lines_append split: option.split)
qed (simp add: parse_lines_append)

lemma in_module_lines:
  assumes "module_ok m" "hash_map (sections m) n = Some s" "hash_map (keys s) k = Some d"
  shows "\<exists>pre mid post. module_lines m = pre @ (''['' @ n @ '']'') # mid @ key_line (k, d) # post"
proof -
  have "(n, s) \<in> set (entries (sections m))" "(k, d) \<in> set (entries (keys s))"
    using assms entries_map [of "sections m" n s] entries_map [of "keys s" k d] by (auto simp: module_ok_def)
  then obtain es es' ks ks' where "entries (sections m) = es @ (n, s) # es'" "entries (keys s) = ks @ (k, d) # ks'"
    by (meson split_list)
  then have "module_lines m = concat (map section_lines es) @ (''['' @ n @ '']'') # map key_line ks @ key_line (k, d) #
      (map key_line ks' @ concat (map section_lines es'))"
    by (simp add: module_lines_def section_lines_def)
  then show ?thesis by blast
qed

subsection \<open>Properties\<close>

text \<open>C8: a module whose names and values are free of the characters that the file format gives a
  meaning is written to its file and read back, into a database that does not have the module, with
  exactly the same sections and the same value for every key; the other modules of the database
  stay as they were.\<close>

theorem config_file_roundtrip:
  assumes "config_ok (Some t)" "vosHashValue fname t = Some m" "writable m" "can_write fname" "fname \<noteq> []"
    "config_ok (Some t2)" "vosHashValue fname t2 = None" "hcount t2 < HASH_CAPACITY"
  shows "\<exists>db' files' db2. vosConfigFlushByModule can_write fname (Some t) files = (0, db', files')
    \<and> vosConfigRefreshByModule fname files' (Some t2) = Some (0, db2) \<and> config_ok db2
    \<and> (\<forall>s. vosConfigSectionIsExisted db2 fname s = vosConfigSectionIsExisted (Some t) fname s)
    \<and> (\<forall>s k d. vosConfigValueGet db2 fname s k d = vosConfigValueGet (Some t) fname s k d)
    \<and> (\<forall>f s k d. f \<noteq> fname \<longrightarrow> vosConfigValueGet db2 f s k d = vosConfigValueGet (Some t2) f s k d)"
proof -
  obtain db' where db': "vosConfigFlushByModule can_write fname (Some t) files = (0, db', files(fname \<mapsto> text_of (module_lines m)))"
    using flush_text [of fname t m can_write files] assms by auto
  have m: "module_ok m" using assms(1,2) by (simp add: config_ok_def hash_map_def)
  obtain m' where m': "map_option fst (parse_lines (whole_lines (text_of (module_lines m))) (new_module, None)) = Some m'"
    "module_ok m'" "section_vals m' = section_vals m" using read_back [OF m assms(3)] by blast
  obtain t' where t': "with_module fname (\<lambda>m0. map_option fst (parse_lines (whole_lines (text_of (module_lines m))) (m0, None))) t2 = Some t'"
    "hash_ok t'" "hash_map t' = (hash_map t2)(fname \<mapsto> m')"
    using with_entry_ok [of t2 "\<lambda>m0. map_option fst (parse_lines (whole_lines (text_of (module_lines m))) (m0, None))" new_module fname m']
      m'(1) assms(6-8) by (auto simp: with_module_def config_ok_def hash_map_def)
  have mod: "tmodule_of (Some t') f = (if f = fname then Some m' else tmodule_of (Some t2) f)" for f
    using t'(3) by (simp add: tmodule_of_def hash_map_def [symmetric])
  have mod0: "tmodule_of (Some t) fname = Some m" using assms(2) by (simp add: tmodule_of_def)
  have "config_ok (Some t')" using t'(2,3) m'(2) assms(6) by (auto simp: config_ok_def)
  moreover have "vosConfigRefreshByModule fname (files(fname \<mapsto> text_of (module_lines m))) (Some t2) = Some (0, Some t')"
    by (simp add: vosConfigRefreshByModule_def t'(1))
  ultimately show ?thesis
    using db' by (intro exI [of _ db'] exI [of _ "files(fname \<mapsto> text_of (module_lines m))"] exI [of _ "Some t'"] conjI)
      (simp_all add: value_get_vals section_existed_vals mod mod0 m'(3))
qed

definition example_file :: string where
  "example_file = ''/usr/local/etc/config/stp.conf''"

definition example_module :: CFG_MODULE_DATA_t where
  "example_module = the (tmodule_of (snd (the (vosConfigValueSet example_file ''STP'' ''stp_mode'' ''1'' (Some string_table)))) example_file)"

lemma example_set:
  "\<exists>t m. vosConfigValueSet example_file ''STP'' k v (Some string_table) = Some (0, Some t) \<and> config_ok (Some t)
     \<and> vosHashValue example_file t = Some m \<and> vosConfigValueGet (Some t) example_file ''STP'' k None = Some v"
proof -
  have "config_ok (Some string_table)" by (simp add: config_ok_def string_table_ok)
  moreover have "roomy (Some string_table) example_file ''STP''"
    using fun_cong [OF string_table_ok(2) [where 'a = CFG_MODULE_DATA_t], of example_file]
    by (simp add: roomy_def tmodule_of_def tsection_of_def string_table_ok(3) hash_map_def HASH_CAPACITY_def threshold_of_def)
  ultimately obtain db where db: "vosConfigValueSet example_file ''STP'' k v (Some string_table) = Some (0, db)" "config_ok db"
    "\<forall>f s k' d. vosConfigValueGet db f s k' d = (if (f, s, k') = (example_file, ''STP'', k) then Some v
       else vosConfigValueGet (Some string_table) f s k' d)"
    "\<forall>f. tmodule_of db f \<noteq> None \<longleftrightarrow> f = example_file \<or> tmodule_of (Some string_table) f \<noteq> None"
    using value_set_ok [of string_table example_file "''STP''" k v] by auto
  then have "tmodule_of db example_file \<noteq> None" by simp
  then obtain t m where "db = Some t" "vosHashValue example_file t = Some m" by (cases db) (auto simp: tmodule_of_def)
  then show ?thesis using db(1-3) by auto
qed

lemma example_module_writable: "writable example_module"
  by code_simp

theorem config_file_roundtrip_witness:
  "\<exists>t db' files' db2. vosConfigValueSet example_file ''STP'' ''stp_mode'' ''1'' (Some string_table) = Some (0, Some t)
     \<and> vosConfigFlushByModule (\<lambda>_. True) example_file (Some t) Map.empty = (0, db', files')
     \<and> vosConfigRefreshByModule example_file files' (Some string_table) = Some (0, db2)
     \<and> vosConfigValueGet db2 example_file ''STP'' ''stp_mode'' None = Some ''1''"
proof -
  obtain t m where t: "vosConfigValueSet example_file ''STP'' ''stp_mode'' ''1'' (Some string_table) = Some (0, Some t)"
    "config_ok (Some t)" "vosHashValue example_file t = Some m"
    "vosConfigValueGet (Some t) example_file ''STP'' ''stp_mode'' None = Some ''1''"
    using example_set by blast
  have m: "m = example_module" using t(1,3) by (simp add: example_module_def tmodule_of_def)
  have s: "config_ok (Some string_table)" "vosHashValue example_file (string_table :: (string, CFG_MODULE_DATA_t) hash_table) = None"
    "hcount (string_table :: (string, CFG_MODULE_DATA_t) hash_table) < HASH_CAPACITY" "example_file \<noteq> []"
    using fun_cong [OF string_table_ok(2) [where 'a = CFG_MODULE_DATA_t], of example_file]
    by (simp add: config_ok_def string_table_ok, simp add: hash_map_def,
        simp_all add: string_table_ok(3) HASH_CAPACITY_def threshold_of_def example_file_def)
  from config_file_roundtrip [OF t(2,3) example_module_writable [folded m] _ s(4,1,2,3), of "\<lambda>_. True" Map.empty]
  show ?thesis using t(1,4) by auto
qed

text \<open>C40: a key with an empty value is written as a line that cannot be read: reading the file back, into
  any database, accesses memory before the buffer of the value.\<close>

theorem empty_value_unreadable:
  assumes "config_ok (Some t)" "vosHashValue fname t = Some m" "vosConfigValueGet (Some t) fname n k None = Some []"
    "section_name_ok n" "key_name_ok k" "list_all (\<lambda>l. CHR 0x0A \<notin> set l) (module_lines m)" "can_write fname" "fname \<noteq> []"
  shows "\<exists>db' files'. vosConfigFlushByModule can_write fname (Some t) files = (0, db', files')
    \<and> vosConfigRefreshByModule fname files' (Some t2) = None"
proof -
  obtain db' where db': "vosConfigFlushByModule can_write fname (Some t) files = (0, db', files(fname \<mapsto> text_of (module_lines m)))"
    using flush_text [of fname t m can_write files] assms by auto
  have "tmodule_of (Some t) fname = Some m" using assms(2) by (simp add: tmodule_of_def)
  then obtain s d where "hash_map (sections m) n = Some s" "hash_map (keys s) k = Some d" and d: "key_data d = []"
    using assms(3) by (auto simp: vosConfigValueGet_def tkey_map tsection_map split: option.splits)
  moreover have "module_ok m" using assms(1,2) by (simp add: config_ok_def hash_map_def)
  ultimately obtain pre mid post where "module_lines m = pre @ (''['' @ n @ '']'') # mid @ (k @ ''='') # post"
    using in_module_lines [of m n s k d] by (auto simp: key_line_def)
  then have "parse_lines (whole_lines (text_of (module_lines m))) st = None" for st
    using whole_lines_text [OF assms(6)] parse_lines_stuck [OF assms(4,5)] by simp
  then have "vosConfigRefreshByModule fname (files(fname \<mapsto> text_of (module_lines m))) (Some t2) = None"
    by (simp add: vosConfigRefreshByModule_def with_module_def with_entry_def split: Option.bind_split)
  then show ?thesis using db' by blast
qed

definition example_empty :: CFG_MODULE_DATA_t where
  "example_empty = the (tmodule_of (snd (the (vosConfigValueSet example_file ''STP'' ''name'' [] (Some string_table)))) example_file)"

lemma example_empty_lines: "list_all (\<lambda>l. CHR 0x0A \<notin> set l) (module_lines example_empty)"
  by code_simp

theorem empty_value_unreadable_witness:
  "\<exists>t db' files'. vosConfigValueSet example_file ''STP'' ''name'' [] (Some string_table) = Some (0, Some t)
     \<and> vosConfigFlushByModule (\<lambda>_. True) example_file (Some t) Map.empty = (0, db', files')
     \<and> vosConfigRefreshByModule example_file files' (Some string_table) = None"
proof -
  obtain t m where t: "vosConfigValueSet example_file ''STP'' ''name'' [] (Some string_table) = Some (0, Some t)"
    "config_ok (Some t)" "vosHashValue example_file t = Some m"
    "vosConfigValueGet (Some t) example_file ''STP'' ''name'' None = Some []"
    using example_set by blast
  have m: "m = example_empty" using t(1,3) by (simp add: example_empty_def tmodule_of_def)
  have n: "section_name_ok ''STP''" "key_name_ok ''name''" "example_file \<noteq> []"
    by (simp_all add: section_name_ok_def key_name_ok_def clean_def blank_def example_file_def)
  from empty_value_unreadable [OF t(2,3,4) n(1,2) example_empty_lines [folded m] _ n(3), of "\<lambda>_. True" Map.empty]
  show ?thesis using t(1) by auto
qed

end
