(* ===== verification/Vos_Bytes.thy ===== *)
theory Vos_Bytes
  imports Rstp_Prelude
begin

text \<open>
  Buffers of bytes: the part of a buffer that a pointer into it addresses, and the copy of bytes
  into a buffer. Shared by the theories that read and build frames.
\<close>

definition slice_of :: "nat \<Rightarrow> nat \<Rightarrow> u8 list \<Rightarrow> u8 list" where
  "slice_of i n b = take n (drop i b)"

text \<open>\<^verbatim>\<open>memcpy (b + i, xs, sizeof xs)\<close> within the buffer.\<close>

definition patch :: "nat \<Rightarrow> u8 list \<Rightarrow> u8 list \<Rightarrow> u8 list" where
  "patch i xs b = take i b @ xs @ drop (i + length xs) b"

lemma length_patch: "i + length xs \<le> length b \<Longrightarrow> length (patch i xs b) = length b"
  by (simp add: patch_def)

lemma length_slice: "i + n \<le> length b \<Longrightarrow> length (slice_of i n b) = n"
  by (simp add: slice_of_def)

lemma slice_append: "i + n \<le> length f \<Longrightarrow> slice_of i n (f @ r) = slice_of i n f"
  by (simp add: slice_of_def)

lemma slice_within: "length pre = i \<Longrightarrow> slice_of (i + k) n (pre @ xs) = slice_of k n xs"
  by (simp add: slice_of_def)

lemma patch_split: "length a = i \<Longrightarrow> length xs = length b \<Longrightarrow> patch i xs (a @ b @ c) = a @ xs @ c"
  by (simp add: patch_def)

end
