(* ===== verification/Oam.thy ===== *)
theory Oam
  imports Vos_Config Vos_Bytes
begin

unbundle bit_operations_syntax

text \<open>
  The OAM client of the optical network unit (\<^verbatim>\<open>oamp/src/oam.c\<close>, \<^verbatim>\<open>oamp/h/oam.h\<close>): the discovery of IEEE
  802.3 clause 57 and its extension by China Telecom, by which the unit and the optical line
  terminal agree on the management protocol before user traffic is let through; the periodic
  information PDUs, the link timer, variable requests and loopback.

  A frame is a list of bytes. The buffers \<^verbatim>\<open>in_data\<close> and \<^verbatim>\<open>out_data\<close> are kept with what earlier frames
  left in them. Calls into other layers are appended to \<open>calls\<close>; the transmission switches of the
  two ports, which the discovery controls, are fields of their own. The configuration without
  \<^verbatim>\<open>OAM_SUPPORT_REG_CALLBACK\<close> and \<^verbatim>\<open>CTC_VOIP_DISPATCH\<close> is modelled, which is that of the build. \<open>None\<close>
  as a result is an access outside an array.
\<close>

subsection \<open>Constants\<close>

definition OAM_CODE_INFO :: u8 where "OAM_CODE_INFO = 0"
definition OAM_CODE_VARIABLE_REQ :: u8 where "OAM_CODE_VARIABLE_REQ = 2"
definition OAM_CODE_VARIABLE_RSP :: u8 where "OAM_CODE_VARIABLE_RSP = 3"
definition OAM_CODE_LOOPBACK :: u8 where "OAM_CODE_LOOPBACK = 4"
definition OAM_CODE_ORG_SPEC :: u8 where "OAM_CODE_ORG_SPEC = 0xFE"
definition INFO_LOCAL_END :: u8 where "INFO_LOCAL_END = 0"
definition INFO_LOCAL_TYPE :: u8 where "INFO_LOCAL_TYPE = 1"
definition INFO_REMOTE_TYPE :: u8 where "INFO_REMOTE_TYPE = 2"
definition INFO_ORG_SPEC_TYPE :: u8 where "INFO_ORG_SPEC_TYPE = 0xFE"
definition OAM_MAXIMUM_PDU_SIZE :: nat where "OAM_MAXIMUM_PDU_SIZE = 1518"
definition OAM_MINIMIZE_PDU_SIZE :: nat where "OAM_MINIMIZE_PDU_SIZE = 60"
definition OAM_BRANCH_STANDARD_ATTRIB :: u8 where "OAM_BRANCH_STANDARD_ATTRIB = 0x07"
definition OAM_ATTR_FRM_TX_OK :: u16 where "OAM_ATTR_FRM_TX_OK = 0x0002"
definition OAM_ATTR_FRM_RX_OK :: u16 where "OAM_ATTR_FRM_RX_OK = 0x0005"
definition MAX_FLAG_8_FOUND_CNT :: u8 where "MAX_FLAG_8_FOUND_CNT = 5"

definition OAM_VER_CTC_0_1_SUPPORT :: u32 where "OAM_VER_CTC_0_1_SUPPORT = 0"
definition OAM_VER_CTC_2_0_SUPPORT :: u32 where "OAM_VER_CTC_2_0_SUPPORT = 1"
definition OAM_VER_CTC_2_1_SUPPORT :: u32 where "OAM_VER_CTC_2_1_SUPPORT = 2"
definition OAM_VER_CTC_20_21_MIX_SUPPORT :: u32 where "OAM_VER_CTC_20_21_MIX_SUPPORT = 3"
definition OAM_VER_MAX :: u32 where "OAM_VER_MAX = 5"

definition oam_dest_mac :: "u8 list" where "oam_dest_mac = [0x01, 0x80, 0xc2, 0x00, 0x00, 0x02]"
definition oam_length_type :: "u8 list" where "oam_length_type = [0x88, 0x09]"
definition oam_oui :: "u8 list" where "oam_oui = [0x11, 0x11, 0x11]"
definition oam_onu_vendor :: "u8 list" where "oam_onu_vendor = [0x47, 0x57, 0x44, 0x4C]"
definition ctc_oui :: "u8 list" where "ctc_oui = [0x11, 0x11, 0x11]"
definition fiberhome_oui :: "u8 list" where "fiberhome_oui = [0x00, 0x0a, 0xc2]"
definition zte_oui :: "u8 list" where "zte_oui = [0x00, 0x0F, 0x3E]"
definition g_tx_power_set_pdu :: "u8 list" where "g_tx_power_set_pdu = [0x11, 0x11, 0x11, 0x03, 0xc7, 0x00, 0xa1]"

lemmas oam_consts = OAM_CODE_INFO_def OAM_CODE_VARIABLE_REQ_def OAM_CODE_VARIABLE_RSP_def OAM_CODE_LOOPBACK_def
  OAM_CODE_ORG_SPEC_def INFO_LOCAL_END_def INFO_LOCAL_TYPE_def INFO_REMOTE_TYPE_def INFO_ORG_SPEC_TYPE_def
  OAM_MAXIMUM_PDU_SIZE_def OAM_MINIMIZE_PDU_SIZE_def OAM_BRANCH_STANDARD_ATTRIB_def OAM_ATTR_FRM_TX_OK_def
  OAM_ATTR_FRM_RX_OK_def

subsection \<open>State\<close>

datatype local_pdu_state_t = PDU_LF_INFO | PDU_RX_INFO | PDU_INFO | PDU_ANY | PDU_ANY_NO_Ext

text \<open>The variable for the mode is never assigned: it keeps the 0 it starts with.\<close>

datatype oam_mode_t = OAM_MODE_0 | OAM_ACTIVE | OAM_PASSIVE

datatype discovery_state_t =
    DISCOVERY_FAULT | DISCOVERY_ACTIVE_SEND_LOCAL | DISCOVERY_PASSIVE_WAIT | DISCOVERY_SEND_LOCAL_REMOTE
  | DISCOVERY_SEND_LOCAL_REMOTE_OK | DISCOVERY_SEND_ANY | EX_DISCOVERY_PASSIVE_WAIT | EX_DISCOVERY_SEND_EXT_INFO
  | EX_DISCOVERY_SEND_OAM_EXT_INFO_ACK | EX_DISCOVERY_SEND_OAM_EXT_INFO_NACK | EX_DISCOVERY_SEND_ANY
  | EX_DISCOVERY_SEND_ANY_NO_EXT

primrec state_code :: "discovery_state_t \<Rightarrow> nat" where
  "state_code DISCOVERY_FAULT = 1"
| "state_code DISCOVERY_ACTIVE_SEND_LOCAL = 2"
| "state_code DISCOVERY_PASSIVE_WAIT = 3"
| "state_code DISCOVERY_SEND_LOCAL_REMOTE = 4"
| "state_code DISCOVERY_SEND_LOCAL_REMOTE_OK = 5"
| "state_code DISCOVERY_SEND_ANY = 6"
| "state_code EX_DISCOVERY_PASSIVE_WAIT = 7"
| "state_code EX_DISCOVERY_SEND_EXT_INFO = 8"
| "state_code EX_DISCOVERY_SEND_OAM_EXT_INFO_ACK = 9"
| "state_code EX_DISCOVERY_SEND_OAM_EXT_INFO_NACK = 10"
| "state_code EX_DISCOVERY_SEND_ANY = 11"
| "state_code EX_DISCOVERY_SEND_ANY_NO_EXT = 12"

text \<open>An event is a number: one call passes the number of a state.\<close>

definition EOPL_LOCAL_LINK_STATUS_CHANGE :: nat where "EOPL_LOCAL_LINK_STATUS_CHANGE = 1"
definition EOPL_PDU_TIMER :: nat where "EOPL_PDU_TIMER = 2"
definition EOPL_LOST_LINK_TIMER :: nat where "EOPL_LOST_LINK_TIMER = 3"
definition EOPL_OAM_PDU_RX :: nat where "EOPL_OAM_PDU_RX = 4"

lemmas oam_events = EOPL_LOCAL_LINK_STATUS_CHANGE_def EOPL_PDU_TIMER_def EOPL_LOST_LINK_TIMER_def EOPL_OAM_PDU_RX_def

text \<open>\<^verbatim>\<open>struct oam_state\<close>, without the members that no function uses.\<close>

record oam_state =
  local_pdu :: local_pdu_state_t
  local_oam_mode :: oam_mode_t
  local_link_timer_running :: bool
  action_state :: u8
  remote_action_state :: u8
  oam_flags :: u16
  oam_config :: u8
  remote_oam_config :: u8
  oampdu_config :: u16
  remote_oampdu_config :: u16
  oam_st :: discovery_state_t
  OAM_Ext_Status :: bool
  remote_state_valid :: bool
  local_satisfied :: bool
  local_stable :: bool
  usLInfoTlvVer :: u16
  usRInfoTlvVer :: u16
  ucOamVersion :: u8
  ucRmtOamVer :: u8
  aucOui :: "u8 list"
  aucRmtOui :: "u8 list"
  ucExVer :: u8
  aucVendor :: "u8 list"
  aucRmtVendor :: "u8 list"

datatype oam_reg = REG_CP_OAM_REGI_CTRL | REG_MPCP_GATE_TIMEOUT | Oam_reg nat

datatype oam_call =
    Eopl_host_send "u8 list"
  | OplRegWrite oam_reg u32
  | Eopl_ctc_pdu_process "u8 list"
  | Eopl_ctc_pdu_process_2_0 "u8 list"
  | Eopl_zte_pdu_process "u8 list"
  | BoardReset

text \<open>The state of the module; \<open>pon_cfg\<close> is the configuration database.\<close>

record oam_sys =
  oams :: oam_state
  oam_ver_type :: u32
  oam_cfg_ver_type :: u8
  oam_src_mac :: "u8 list"
  olt_mac_addr :: "u8 list"
  in_data :: "u8 list"
  in_data_len :: u16
  out_data :: "u8 list"
  aucTimeOut :: "u8 list"
  g_usOutDataIdx :: u16
  eopl_remote_info :: "u8 list"
  flag48Found :: bool
  flag8FoundCnt :: u8
  g_iOamAuthCode :: int
  g_ucDbgOamSendNum :: u8
  g_ucOamActiveSend :: u8
  link_lost_cnt :: u32
  link_lost_flag :: bool
  oamTx :: u32
  oamTxFail :: u32
  ge_trsmt_en :: bool
  pon_trsmt_en :: bool
  pon_lp :: bool
  pon_cfg :: config
  calls :: "oam_call list"

text \<open>
  What the module is told by others: whether the host interface takes a frame (0) at this point,
  the chip revision, and the flag of the LED task that asks for a reset of the board.
\<close>

record oam_env =
  eopl_host_send :: "oam_call list \<Rightarrow> u8 list \<Rightarrow> int"
  IS_ONU_RESPIN :: bool
  oam_lost_link_flag :: bool

definition with_oams :: "(oam_state \<Rightarrow> oam_state) \<Rightarrow> oam_sys \<Rightarrow> oam_sys" where
  "with_oams f s = s\<lparr> oams := f (oams s) \<rparr>"

definition goto :: "discovery_state_t \<Rightarrow> oam_sys \<Rightarrow> oam_sys" where
  "goto st = with_oams (\<lambda>t. t\<lparr> oam_st := st \<rparr>)"

definition log_call :: "oam_call \<Rightarrow> oam_sys \<Rightarrow> oam_sys" where
  "log_call c s = s\<lparr> calls := calls s @ [c] \<rparr>"

definition trsmt_en :: "bool \<Rightarrow> oam_sys \<Rightarrow> oam_sys" where
  "trsmt_en b s = s\<lparr> ge_trsmt_en := b, pon_trsmt_en := b \<rparr>"

definition SET_BITS :: "'a::len word \<Rightarrow> 'a word \<Rightarrow> 'a word" where
  "SET_BITS dest m = dest OR m"

definition WRITE_BITS :: "u16 \<Rightarrow> u16 \<Rightarrow> u16 \<Rightarrow> u16" where
  "WRITE_BITS dest m val = (dest AND NOT m) OR (val AND m)"

definition READ_BITS :: "u16 \<Rightarrow> u16 \<Rightarrow> u16" where
  "READ_BITS src m = src AND m"

subsection \<open>PDU formats\<close>

record oam_info_tlv =
  info_type :: u8
  info_length :: u8
  tlv_oam_version :: u8
  revision :: u16
  tlv_state :: u8
  tlv_oam_config :: u8
  tlv_oampdu_config :: u16
  tlv_oui :: "u8 list"
  vendor_info :: "u8 list"

definition info_bytes :: "oam_info_tlv \<Rightarrow> u8 list" where
  "info_bytes t = [info_type t, info_length t, tlv_oam_version t] @ store16 (revision t)
     @ [tlv_state t, tlv_oam_config t] @ store16 (tlv_oampdu_config t) @ tlv_oui t @ vendor_info t"

definition info_at :: "nat \<Rightarrow> u8 list \<Rightarrow> oam_info_tlv" where
  "info_at i b = \<lparr> info_type = b ! i, info_length = b ! (i + 1), tlv_oam_version = b ! (i + 2),
     revision = load16 (slice_of (i + 3) 2 b), tlv_state = b ! (i + 5), tlv_oam_config = b ! (i + 6),
     tlv_oampdu_config = load16 (slice_of (i + 7) 2 b), tlv_oui = slice_of (i + 9) 3 b, vendor_info = slice_of (i + 12) 4 b \<rparr>"

text \<open>The 18 bytes of \<^verbatim>\<open>struct oampdu_hdr\<close>.\<close>

definition hdr_bytes :: "u8 list \<Rightarrow> u16 \<Rightarrow> u8 \<Rightarrow> u8 list" where
  "hdr_bytes src flags pcode = oam_dest_mac @ src @ oam_length_type @ [3] @ store16 flags @ [pcode]"

text \<open>
  A received frame starts with 4 bytes of the host interface: the header is at 4, the first
  information TLV at 22, the second at 38 and the extended one at 54.
\<close>

definition hdr_src :: "u8 list \<Rightarrow> u8 list" where "hdr_src b = slice_of 10 6 b"
definition hdr_flags :: "u8 list \<Rightarrow> u16" where "hdr_flags b = load16 (slice_of 19 2 b)"
definition hdr_pcode :: "u8 list \<Rightarrow> u8" where "hdr_pcode b = b ! 21"
definition p_info :: "u8 list \<Rightarrow> oam_info_tlv" where "p_info b = info_at 22 b"
definition pstRmtInfo :: "u8 list \<Rightarrow> oam_info_tlv" where "pstRmtInfo b = info_at 38 b"

record EX_OAM_INFO_TLV_t =
  ucType :: u8
  ucLength :: u8
  ex_aucOui :: "u8 list"
  ucSupport :: u8
  ucVersion :: u8
  aucVersionList :: "u8 list"

text \<open>The version list is what follows in the buffer.\<close>

definition pstExInfoTlv :: "u8 list \<Rightarrow> EX_OAM_INFO_TLV_t" where
  "pstExInfoTlv b = \<lparr> ucType = b ! 54, ucLength = b ! 55, ex_aucOui = slice_of 56 3 b, ucSupport = b ! 59,
     ucVersion = b ! 60, aucVersionList = drop 61 b \<rparr>"

definition ex_bytes :: "EX_OAM_INFO_TLV_t \<Rightarrow> u8 list" where
  "ex_bytes t = [ucType t, ucLength t] @ ex_aucOui t @ [ucSupport t, ucVersion t] @ aucVersionList t"

subsection \<open>Sending\<close>

text \<open>
  The packet for the host interface: the byte with the outgoing port 1 and the priority 7, and the
  frame. \<^verbatim>\<open>aucPkt\<close> has 1518 bytes.
\<close>

definition host_pkt :: "u8 list \<Rightarrow> u8 list" where
  "host_pkt frame = 0x1D # frame"

definition frame_send :: "oam_env \<Rightarrow> u8 list \<Rightarrow> oam_sys \<Rightarrow> oam_sys" where
  "frame_send e frame s =
     (let s' = log_call (Eopl_host_send (host_pkt frame)) s
      in if eopl_host_send e (calls s) (host_pkt frame) \<noteq> 0 then s'\<lparr> oamTxFail := oamTxFail s + 1 \<rparr>
         else s'\<lparr> oamTx := oamTx s + 1 \<rparr>)"

definition OamFrameSend :: "oam_env \<Rightarrow> u8 list \<Rightarrow> oam_sys \<Rightarrow> oam_sys option" where
  "OamFrameSend e frame s = (if length frame + 1 > OAM_MAXIMUM_PDU_SIZE then None else Some (frame_send e frame s))"

text \<open>
  The header is written to the start of the buffer and the first \<open>usLen\<close> bytes are sent. The
  callers send 60 or 80 bytes; the answer is 0 whether or not the frame was sent.
\<close>

definition eopl_oam_pdu_request :: "oam_env \<Rightarrow> u8 \<Rightarrow> nat \<Rightarrow> u8 list \<Rightarrow> oam_sys \<Rightarrow> u8 list \<times> oam_sys" where
  "eopl_oam_pdu_request e ucOamCode usLen pucData s =
     (let buf = patch 0 (hdr_bytes (oam_src_mac s) (oam_flags (oams s)) ucOamCode) pucData
      in (buf, frame_send e (take usLen buf) s))"

definition request_out :: "oam_env \<Rightarrow> u8 \<Rightarrow> nat \<Rightarrow> oam_sys \<Rightarrow> oam_sys" where
  "request_out e code len s = (let (buf, s) = eopl_oam_pdu_request e code len (out_data s) s in s\<lparr> out_data := buf \<rparr>)"

definition eopl_oam_info_tlv :: "u8 \<Rightarrow> oam_sys \<Rightarrow> u8 list \<times> oam_sys" where
  "eopl_oam_info_tlv type s =
     (let t = oams s
      in (info_bytes \<lparr> info_type = type, info_length = 0x10, tlv_oam_version = 0x01, revision = usLInfoTlvVer t,
            tlv_state = action_state t, tlv_oam_config = oam_config t, tlv_oampdu_config = oampdu_config t,
            tlv_oui = oam_oui, vendor_info = oam_onu_vendor \<rparr>,
          s\<lparr> oams := t\<lparr> usLInfoTlvVer := usLInfoTlvVer t + 1 \<rparr> \<rparr>))"

definition eopl_oam_remote_info_tlv :: "u8 \<Rightarrow> oam_sys \<Rightarrow> u8 list" where
  "eopl_oam_remote_info_tlv type s =
     (let t = oams s
      in info_bytes \<lparr> info_type = type, info_length = 0x10, tlv_oam_version = ucRmtOamVer t, revision = usRInfoTlvVer t,
           tlv_state = remote_action_state t, tlv_oam_config = remote_oam_config t, tlv_oampdu_config = remote_oampdu_config t,
           tlv_oui = aucRmtOui t, vendor_info = aucRmtVendor t \<rparr>)"

text \<open>The buffer cleared and filled with the local and the remote TLV.\<close>

definition two_infos :: "oam_sys \<Rightarrow> u8 list \<times> oam_sys" where
  "two_infos s =
     (let (l, s) = eopl_oam_info_tlv INFO_LOCAL_TYPE s
      in (patch 34 (eopl_oam_remote_info_tlv INFO_REMOTE_TYPE s) (patch 18 l (replicate (OAM_MAXIMUM_PDU_SIZE + 4) 0)), s))"

definition fill_infos :: "oam_sys \<Rightarrow> oam_sys" where
  "fill_infos s = (let (buf, s) = two_infos s in s\<lparr> out_data := buf \<rparr>)"

definition oam_pdu_padding :: "nat \<Rightarrow> nat \<Rightarrow> u8 list \<Rightarrow> u8 list" where
  "oam_pdu_padding i len buf = patch i (replicate len 0) buf"

definition OamInfoSend :: "oam_env \<Rightarrow> oam_sys \<Rightarrow> oam_sys" where
  "OamInfoSend e s =
     (let s = with_oams (\<lambda>t. t\<lparr> local_pdu := PDU_ANY, usLInfoTlvVer := usLInfoTlvVer t - 1 \<rparr>) s;
          (buf, s) = two_infos s;
          (buf, s) = eopl_oam_pdu_request e OAM_CODE_INFO OAM_MINIMIZE_PDU_SIZE buf s
      in s\<lparr> aucTimeOut := buf \<rparr>)"

subsection \<open>Actions of the discovery\<close>

definition eopl_oam_fault_state :: "nat \<Rightarrow> oam_sys \<Rightarrow> oam_sys" where
  "eopl_oam_fault_state event s =
     (let flags = oam_flags (oams s);
          s = with_oams (\<lambda>t. t\<lparr> local_link_timer_running := False \<rparr>) s
      in if event = EOPL_LOCAL_LINK_STATUS_CHANGE \<and> READ_BITS flags 0 = 0
         then with_oams (\<lambda>t. if local_oam_mode t = OAM_ACTIVE
                then t\<lparr> local_pdu := PDU_INFO, oam_st := DISCOVERY_ACTIVE_SEND_LOCAL \<rparr>
                else t\<lparr> local_pdu := PDU_RX_INFO, oam_st := DISCOVERY_PASSIVE_WAIT \<rparr>) s
         else s)"

text \<open>
  In the second state the pointer stays on the TLV just written, which the padding then clears;
  nothing is sent.
\<close>

definition eopl_oam_timer_process :: "oam_sys \<Rightarrow> oam_sys" where
  "eopl_oam_timer_process s =
     (let s = s\<lparr> out_data := patch 0 (hdr_bytes (oam_src_mac s) (oam_flags (oams s)) OAM_CODE_INFO) (out_data s) \<rparr>
      in if oam_st (oams s) = DISCOVERY_ACTIVE_SEND_LOCAL
         then let (l, s) = eopl_oam_info_tlv INFO_LOCAL_TYPE s
              in s\<lparr> out_data := oam_pdu_padding 18 (OAM_MINIMIZE_PDU_SIZE - 34) (patch 18 l (out_data s)) \<rparr>
         else if oam_st (oams s) \<in> {DISCOVERY_PASSIVE_WAIT, DISCOVERY_SEND_LOCAL_REMOTE, DISCOVERY_SEND_LOCAL_REMOTE_OK, DISCOVERY_SEND_ANY}
         then let (l, s) = eopl_oam_info_tlv INFO_LOCAL_TYPE s
              in s\<lparr> out_data := oam_pdu_padding 50 (OAM_MINIMIZE_PDU_SIZE - 50)
                     (patch 34 (eopl_remote_info s) (patch 18 l (out_data s))) \<rparr>
         else if oam_st (oams s) = DISCOVERY_FAULT
         then s\<lparr> out_data := oam_pdu_padding 18 (OAM_MINIMIZE_PDU_SIZE - 18) (out_data s) \<rparr>
         else s)"

definition ex_info :: "u8 \<Rightarrow> u8 \<Rightarrow> u8 \<Rightarrow> u8 list \<Rightarrow> u8 list" where
  "ex_info len support version vlist = ex_bytes \<lparr> ucType = INFO_ORG_SPEC_TYPE, ucLength = len, ex_aucOui = ctc_oui,
     ucSupport = support, ucVersion = version, aucVersionList = vlist \<rparr>"

definition ex_versions :: "u8 \<Rightarrow> u8 list" where
  "ex_versions cfg_ver =
     (if ucast cfg_ver = OAM_VER_CTC_2_0_SUPPORT then ex_info 11 1 0 (ctc_oui @ [0x01])
      else if ucast cfg_ver = OAM_VER_CTC_2_1_SUPPORT then ex_info 11 1 0 (ctc_oui @ [0x21])
      else if ucast cfg_ver = OAM_VER_CTC_20_21_MIX_SUPPORT then ex_info 15 1 0 (ctc_oui @ [0x01] @ ctc_oui @ [0x21])
      else ex_info 7 0 0 [])"

definition ex_ack :: "u32 \<Rightarrow> u8 \<Rightarrow> u8 list" where
  "ex_ack ver cfg_ver =
     ex_info 7
       (if ver = ucast cfg_ver \<or> ver = OAM_VER_CTC_0_1_SUPPORT \<and> ucast cfg_ver = OAM_VER_CTC_2_0_SUPPORT
           \<or> ucast cfg_ver = OAM_VER_CTC_20_21_MIX_SUPPORT then 1 else 0)
       (if ver = OAM_VER_CTC_0_1_SUPPORT then 0x01 else if ver = OAM_VER_CTC_2_0_SUPPORT then 0x20
        else if ver = OAM_VER_CTC_2_1_SUPPORT then 0x21 else 0) []"

definition send_infos :: "oam_env \<Rightarrow> oam_sys \<Rightarrow> oam_sys" where
  "send_infos e s = request_out e OAM_CODE_INFO OAM_MINIMIZE_PDU_SIZE (fill_infos s)"

text \<open>With a third TLV; 80 bytes.\<close>

definition send_ex_infos :: "oam_env \<Rightarrow> u8 list \<Rightarrow> oam_sys \<Rightarrow> oam_sys" where
  "send_ex_infos e ex s =
     (let s = fill_infos s in request_out e OAM_CODE_INFO 80 (s\<lparr> out_data := patch 50 ex (out_data s) \<rparr>))"

primrec machine_action :: "discovery_state_t \<Rightarrow> oam_env \<Rightarrow> nat \<Rightarrow> oam_sys \<Rightarrow> oam_sys" where
  "machine_action DISCOVERY_FAULT e event s = eopl_oam_fault_state event s"
| "machine_action DISCOVERY_ACTIVE_SEND_LOCAL e event s =
     with_oams (\<lambda>t. t\<lparr> local_pdu := PDU_INFO, oam_flags := SET_BITS (oam_flags t) 0x08 \<rparr>) s"
| "machine_action DISCOVERY_PASSIVE_WAIT e event s =
     with_oams (\<lambda>t. t\<lparr> local_pdu := PDU_RX_INFO, oam_flags := SET_BITS (oam_flags t) 0x08 \<rparr>) s"
| "machine_action DISCOVERY_SEND_LOCAL_REMOTE e event s =
     goto DISCOVERY_SEND_LOCAL_REMOTE_OK (send_infos e
       (with_oams (\<lambda>t. t\<lparr> oam_flags := WRITE_BITS (oam_flags t) 0x18 0x10, local_pdu := PDU_INFO \<rparr>) s))"
| "machine_action DISCOVERY_SEND_LOCAL_REMOTE_OK e event s =
     send_infos e (with_oams (\<lambda>t. t\<lparr> oam_flags := WRITE_BITS (oam_flags t) 0x18 0x10, local_pdu := PDU_INFO \<rparr>) s)"
| "machine_action DISCOVERY_SEND_ANY e event s =
     goto EX_DISCOVERY_PASSIVE_WAIT (send_infos e
       (with_oams (\<lambda>t. t\<lparr> local_pdu := PDU_ANY,
          oam_flags := WRITE_BITS (WRITE_BITS (oam_flags t) 0x18 0x10) 0x60 0x40, action_state := 0 \<rparr>) s))"
| "machine_action EX_DISCOVERY_PASSIVE_WAIT e event s =
     with_oams (\<lambda>t. t\<lparr> local_pdu := PDU_INFO, OAM_Ext_Status := False, oam_st := EX_DISCOVERY_SEND_EXT_INFO \<rparr>) s"
| "machine_action EX_DISCOVERY_SEND_EXT_INFO e event s =
     send_ex_infos e (ex_versions (oam_cfg_ver_type s)) (with_oams (\<lambda>t. t\<lparr> local_pdu := PDU_INFO \<rparr>) s)"
| "machine_action EX_DISCOVERY_SEND_OAM_EXT_INFO_ACK e event s =
     (let s = with_oams (\<lambda>t. t\<lparr> local_pdu := PDU_INFO, OAM_Ext_Status := True \<rparr>) s;
          s = goto EX_DISCOVERY_SEND_ANY (send_ex_infos e (ex_ack (oam_ver_type s) (oam_cfg_ver_type s)) s);
          s = log_call (OplRegWrite REG_CP_OAM_REGI_CTRL 1) (trsmt_en True s)
      in if IS_ONU_RESPIN e then s else log_call (OplRegWrite REG_CP_OAM_REGI_CTRL 0) s)"
| "machine_action EX_DISCOVERY_SEND_OAM_EXT_INFO_NACK e event s =
     (let s = with_oams (\<lambda>t. t\<lparr> local_pdu := PDU_INFO, OAM_Ext_Status := False \<rparr>) s;
          buf = patch 18 (ex_info 7 1 (ucExVer (oams s)) []) (out_data s);
          (tail, s) = eopl_oam_pdu_request e OAM_CODE_INFO OAM_MINIMIZE_PDU_SIZE (drop 18 buf) s
      in s\<lparr> out_data := take 18 buf @ tail \<rparr>)"
| "machine_action EX_DISCOVERY_SEND_ANY e event s =
     (let s = fill_infos (with_oams (\<lambda>t. t\<lparr> local_pdu := PDU_ANY, usLInfoTlvVer := usLInfoTlvVer t - 1 \<rparr>) s)
      in (request_out e OAM_CODE_INFO OAM_MINIMIZE_PDU_SIZE ^^ unat (g_ucDbgOamSendNum s)) s)"
| "machine_action EX_DISCOVERY_SEND_ANY_NO_EXT e event s = with_oams (\<lambda>t. t\<lparr> local_pdu := PDU_ANY_NO_Ext \<rparr>) s"

definition eopl_oam_state_machine :: "oam_env \<Rightarrow> nat \<Rightarrow> oam_sys \<Rightarrow> oam_sys" where
  "eopl_oam_state_machine e event s =
     (if event = EOPL_LOCAL_LINK_STATUS_CHANGE \<and> READ_BITS (oam_flags (oams s)) 0 = 0 \<or> event = EOPL_LOST_LINK_TIMER
      then eopl_oam_fault_state event s
      else let s = (if event = EOPL_PDU_TIMER then eopl_oam_timer_process s else s)
           in machine_action (oam_st (oams s)) e event s)"

subsection \<open>Initialisation\<close>

definition odmPonOAMVerGet :: "config \<Rightarrow> u8" where
  "odmPonOAMVerGet db = ucast (vosConfigUInt32Get db ''/cfg/pmac.conf'' ''Pmac'' ''OAMVer'' 3)"

definition OamInit :: "oam_env \<Rightarrow> oam_sys \<Rightarrow> oam_sys" where
  "OamInit e s =
     (let s = s\<lparr> g_iOamAuthCode := 0 \<rparr>;
          s = with_oams (\<lambda>t. t\<lparr> oam_flags := 0x08, ucOamVersion := 0x01, usLInfoTlvVer := 0x0004, usRInfoTlvVer := 0,
                action_state := 0x06, oam_config := SET_BITS (oam_config t) 0x14, oampdu_config := of_nat OAM_MAXIMUM_PDU_SIZE,
                aucOui := oam_oui, aucVendor := oam_onu_vendor, ucExVer := 0x01, local_pdu := PDU_RX_INFO,
                local_stable := False, oam_st := DISCOVERY_FAULT, local_link_timer_running := True \<rparr>) s;
          s = s\<lparr> oam_ver_type := OAM_VER_CTC_2_0_SUPPORT, oam_cfg_ver_type := odmPonOAMVerGet (pon_cfg s) \<rparr>;
          s = eopl_oam_state_machine e EOPL_LOCAL_LINK_STATUS_CHANGE s;
          s = (if IS_ONU_RESPIN e then log_call (OplRegWrite REG_CP_OAM_REGI_CTRL 0) s else s)
      in trsmt_en False (s\<lparr> flag8FoundCnt := 0 \<rparr>))"

subsection \<open>Variable requests and loopback\<close>

text \<open>
  A variable container is written behind the earlier ones: branch, leaf, width and the first byte
  of the value. Both counters are answered by the same function.
\<close>

definition OamGetFrmTxOk :: "oam_sys \<Rightarrow> oam_sys option" where
  "OamGetFrmTxOk s =
     (let s = (if g_usOutDataIdx s = 0
               then s\<lparr> out_data := patch 0 (hdr_bytes (oam_src_mac s) (oam_flags (oams s)) OAM_CODE_VARIABLE_RSP) (out_data s),
                      g_usOutDataIdx := 18 \<rparr>
               else s);
          con = [OAM_BRANCH_STANDARD_ATTRIB] @ store16 OAM_ATTR_FRM_TX_OK @ [4, 0xFF];
          i = unat (g_usOutDataIdx s)
      in if i + length con > length (out_data s) then None
         else Some (s\<lparr> out_data := patch i con (out_data s), g_usOutDataIdx := g_usOutDataIdx s + 8 \<rparr>))"

definition OamVarAttr :: "u8 list \<Rightarrow> oam_sys \<Rightarrow> oam_sys option" where
  "OamVarAttr pucData s =
     (let leaf = load16 (slice_of 1 2 pucData)
      in if leaf = OAM_ATTR_FRM_TX_OK \<or> leaf = OAM_ATTR_FRM_RX_OK then OamGetFrmTxOk s else Some s)"

text \<open>
  The loop over the descriptors, of 3 bytes each: every descriptor of the standard branch is
  answered with the attribute of the first one. \<open>None\<close> stands for running over the end of
  \<^verbatim>\<open>in_data\<close> or writing behind the end of \<^verbatim>\<open>out_data\<close>.
\<close>

fun var_loop :: "u8 list \<Rightarrow> u8 list \<Rightarrow> oam_sys \<Rightarrow> oam_sys option" where
  "var_loop pucData [] s = None"
| "var_loop pucData (branch # rest) s =
     (if branch = 0 then Some s
      else (case (if branch = OAM_BRANCH_STANDARD_ATTRIB then OamVarAttr pucData s else Some s) of
              None \<Rightarrow> None
            | Some s \<Rightarrow> var_loop pucData (drop 2 rest) s))"

definition OamVarReq :: "oam_env \<Rightarrow> u8 list \<Rightarrow> oam_sys \<Rightarrow> oam_sys option" where
  "OamVarReq e pucData s =
     (case var_loop pucData pucData s of
        None \<Rightarrow> None
      | Some s \<Rightarrow>
          let i = unat (g_usOutDataIdx s);
              s = (if i < OAM_MINIMIZE_PDU_SIZE
                   then s\<lparr> out_data := oam_pdu_padding i (OAM_MINIMIZE_PDU_SIZE - i) (out_data s),
                          g_usOutDataIdx := of_nat OAM_MINIMIZE_PDU_SIZE \<rparr>
                   else s)
          in map_option (\<lambda>s. s\<lparr> g_usOutDataIdx := 0 \<rparr>) (OamFrameSend e (take (unat (g_usOutDataIdx s)) (out_data s)) s))"

definition loopback_answer :: "oam_env \<Rightarrow> u8 \<Rightarrow> oam_sys \<Rightarrow> oam_sys" where
  "loopback_answer e act s =
     request_out e OAM_CODE_LOOPBACK OAM_MINIMIZE_PDU_SIZE (fill_infos (with_oams (\<lambda>t. t\<lparr> action_state := act \<rparr>) s))"

definition OamEnableLp :: "oam_env \<Rightarrow> oam_sys \<Rightarrow> oam_sys" where
  "OamEnableLp e s = loopback_answer e 5 (s\<lparr> pon_lp := True, pon_trsmt_en := False \<rparr>)"

definition OamDisableLp :: "oam_env \<Rightarrow> oam_sys \<Rightarrow> oam_sys" where
  "OamDisableLp e s = loopback_answer e 0 (s\<lparr> pon_lp := False, pon_trsmt_en := True \<rparr>)"

definition OamLoopback :: "oam_env \<Rightarrow> u8 \<Rightarrow> oam_sys \<Rightarrow> oam_sys" where
  "OamLoopback e code s = (if code = 0x01 then OamEnableLp e s else if code = 0x02 then OamDisableLp e s else s)"

text \<open>The registers of the PDU that the hardware sends when the power fails.\<close>

definition OamDygaspCfg :: "oam_sys \<Rightarrow> oam_sys" where
  "OamDygaspCfg s =
     (let s = log_call (OplRegWrite (Oam_reg (0x4030 * 4)) (0x80000000 OR push_bit 8 0x0052)) s;
          (l, s) = eopl_oam_info_tlv INFO_LOCAL_TYPE s;
          auiCfgReg = l @ eopl_oam_remote_info_tlv INFO_REMOTE_TYPE s
      in fold (\<lambda>i. log_call (OplRegWrite (Oam_reg ((0x4031 + i) * 4)) (load32 (slice_of (4 * i) 4 auiCfgReg)))) [0..<8] s)"

subsection \<open>Receiving\<close>

definition eopl_oam_chk_satisfied :: "oam_info_tlv \<Rightarrow> oam_state \<Rightarrow> bool" where
  "eopl_oam_chk_satisfied r t \<longleftrightarrow> tlv_oam_version r = ucOamVersion t \<and> tlv_oampdu_config r = oampdu_config t"

definition take_remote :: "oam_info_tlv \<Rightarrow> oam_state \<Rightarrow> oam_state" where
  "take_remote r t = t\<lparr> ucRmtOamVer := tlv_oam_version r, remote_action_state := tlv_state r,
     remote_oam_config := tlv_oam_config r, remote_oampdu_config := tlv_oampdu_config r,
     aucRmtOui := tlv_oui r, aucRmtVendor := vendor_info r \<rparr>"

definition local_info :: "u8 list \<Rightarrow> bool" where
  "local_info b \<longleftrightarrow> hdr_pcode b = OAM_CODE_INFO \<and> info_type (p_info b) = INFO_LOCAL_TYPE \<and> info_length (p_info b) = 0x10"

text \<open>The first state of the switch; the second label shares it.\<close>

definition rx_PASSIVE_WAIT :: "oam_env \<Rightarrow> oam_sys \<Rightarrow> oam_sys" where
  "rx_PASSIVE_WAIT e s =
     (let s = trsmt_en False s; b = in_data s
      in if local_info b
         then let s = with_oams (take_remote (p_info b)) s;
                  s = with_oams (\<lambda>t. t\<lparr> remote_state_valid := True, oam_st := DISCOVERY_SEND_LOCAL_REMOTE \<rparr>) s;
                  s = OamDygaspCfg s;
                  s = (if eopl_oam_chk_satisfied (p_info b) (oams s) then goto DISCOVERY_SEND_LOCAL_REMOTE_OK s else s)
              in eopl_oam_state_machine e EOPL_OAM_PDU_RX s
         else s)"

definition rx_SEND_LOCAL_REMOTE :: "oam_env \<Rightarrow> oam_sys \<Rightarrow> oam_sys" where
  "rx_SEND_LOCAL_REMOTE e s =
     (let b = in_data s
      in eopl_oam_state_machine e EOPL_OAM_PDU_RX
           (if local_info b
            then with_oams (\<lambda>t. (take_remote (p_info b) t)\<lparr> remote_state_valid := True, local_satisfied := True,
                   oam_st := DISCOVERY_SEND_LOCAL_REMOTE_OK \<rparr>) s
            else s))"

definition rx_SEND_LOCAL_REMOTE_OK :: "oam_env \<Rightarrow> oam_sys \<Rightarrow> oam_sys" where
  "rx_SEND_LOCAL_REMOTE_OK e s =
     (let b = in_data s
      in if hdr_pcode b = OAM_CODE_INFO
         then eopl_oam_state_machine e EOPL_OAM_PDU_RX
                (if READ_BITS (hdr_flags b) 0x10 \<noteq> 0
                 then goto DISCOVERY_SEND_ANY (with_oams (take_remote (p_info b)) s)
                 else goto DISCOVERY_SEND_LOCAL_REMOTE s)
         else s)"

definition rx_SEND_ANY :: "oam_env \<Rightarrow> oam_sys \<Rightarrow> oam_sys" where
  "rx_SEND_ANY e s =
     (let b = in_data s
      in if hdr_pcode b = OAM_CODE_INFO
         then eopl_oam_state_machine e EOPL_OAM_PDU_RX (goto EX_DISCOVERY_PASSIVE_WAIT (with_oams (take_remote (p_info b)) s))
         else s)"

definition rx_EX_PASSIVE_WAIT :: "oam_env \<Rightarrow> oam_sys \<Rightarrow> oam_sys" where
  "rx_EX_PASSIVE_WAIT e s =
     (let b = in_data s; ex = pstExInfoTlv b
      in if hdr_pcode b = OAM_CODE_INFO
         then let s = with_oams (take_remote (p_info b)) s
              in eopl_oam_state_machine e EOPL_OAM_PDU_RX
                   (if ucType ex = INFO_ORG_SPEC_TYPE \<and> 0x0B \<le> ucLength ex
                    then goto EX_DISCOVERY_SEND_EXT_INFO (with_oams (\<lambda>t. t\<lparr> aucOui := ex_aucOui ex \<rparr>) s)
                    else goto DISCOVERY_SEND_ANY s)
         else s)"

definition ver_of_ack :: "u8 \<Rightarrow> u32" where
  "ver_of_ack v = (if v = 0x01 then OAM_VER_CTC_0_1_SUPPORT else if v = 0x20 then OAM_VER_CTC_2_0_SUPPORT
     else if v = 0x21 then OAM_VER_CTC_2_1_SUPPORT else OAM_VER_MAX)"

definition rx_EX_SEND_EXT_INFO :: "oam_env \<Rightarrow> oam_sys \<Rightarrow> oam_sys" where
  "rx_EX_SEND_EXT_INFO e s =
     (let b = in_data s; ex = pstExInfoTlv b
      in if hdr_pcode b = OAM_CODE_INFO
         then let s = with_oams (take_remote (p_info b)) s
              in if ucType ex = INFO_ORG_SPEC_TYPE \<and> aucOui (oams s) = ex_aucOui ex
                 then let s = (if ucLength ex < 7 + 4 then s\<lparr> oam_ver_type := ver_of_ack (ucVersion ex) \<rparr> else s)
                      in goto EX_DISCOVERY_SEND_ANY
                           (eopl_oam_state_machine e EOPL_OAM_PDU_RX (goto EX_DISCOVERY_SEND_OAM_EXT_INFO_ACK s))
                 else s
         else s)"

text \<open>The revision was stored before, so that the last test is true for an information PDU only when it is 0.\<close>

definition rx_EX_SEND_OAM_EXT_INFO_ACK :: "oam_env \<Rightarrow> oam_sys \<Rightarrow> oam_sys" where
  "rx_EX_SEND_OAM_EXT_INFO_ACK e s =
     (let b = in_data s; ex = pstExInfoTlv b;
          s = (if ucType ex = INFO_ORG_SPEC_TYPE \<and> aucOui (oams s) = ex_aucOui ex
               then s\<lparr> oam_ver_type := (if ucLength ex < 7 + 4 then OAM_VER_CTC_2_0_SUPPORT
                        else if aucVersionList ex ! 3 = 0x20 then OAM_VER_CTC_2_0_SUPPORT
                        else if aucVersionList ex ! 3 = 0x21 then OAM_VER_CTC_2_1_SUPPORT else oam_ver_type s) \<rparr>
               else s)
      in if usRInfoTlvVer (oams s) = 0 \<or> usRInfoTlvVer (oams s) < revision (p_info b)
         then eopl_oam_state_machine e EOPL_OAM_PDU_RX (goto EX_DISCOVERY_SEND_ANY s) else s)"

text \<open>
  After the discovery. The PDUs of the management protocol are handed to their layer, which is not
  part of this model. The call for an information PDU passes a state as the event.
\<close>

definition rx_org_spec :: "oam_sys \<Rightarrow> oam_sys" where
  "rx_org_spec s =
     (let b = in_data s; oui = slice_of 22 3 b; frame = slice_of 4 (unat (in_data_len s)) b
      in if oui = ctc_oui
         then if oam_ver_type s = OAM_VER_CTC_0_1_SUPPORT \<or> oam_ver_type s = OAM_VER_CTC_2_0_SUPPORT
              then log_call (Eopl_ctc_pdu_process_2_0 frame) s
              else if oam_ver_type s = OAM_VER_CTC_2_1_SUPPORT then log_call (Eopl_ctc_pdu_process frame) s
              else s
         else if oui = fiberhome_oui then s
         else (if oui = zte_oui then log_call (Eopl_zte_pdu_process frame) s else s)\<lparr> g_usOutDataIdx := 0 \<rparr>)"

definition rx_EX_SEND_ANY :: "oam_env \<Rightarrow> oam_sys \<Rightarrow> oam_sys option" where
  "rx_EX_SEND_ANY e s =
     (let b = in_data s; ex = pstExInfoTlv b
      in if hdr_pcode b = OAM_CODE_INFO
         then let s = with_oams (take_remote (p_info b)) s;
                  s = (if ucType ex = INFO_ORG_SPEC_TYPE \<and> 0x07 \<le> ucLength ex \<and> ex_aucOui ex = ctc_oui
                       then with_oams (\<lambda>t. t\<lparr> aucOui := ex_aucOui ex \<rparr>) s else s)
              in Some (eopl_oam_state_machine e (state_code EX_DISCOVERY_SEND_ANY) s)
         else if hdr_pcode b = OAM_CODE_ORG_SPEC then Some (rx_org_spec s)
         else if hdr_pcode b = OAM_CODE_VARIABLE_REQ then OamVarReq e (drop 22 b) s
         else if hdr_pcode b = OAM_CODE_LOOPBACK then Some (OamLoopback e (b ! 22) s)
         else Some s)"

primrec rx_in_state :: "discovery_state_t \<Rightarrow> oam_env \<Rightarrow> oam_sys \<Rightarrow> oam_sys option" where
  "rx_in_state DISCOVERY_FAULT e s = Some s"
| "rx_in_state DISCOVERY_ACTIVE_SEND_LOCAL e s = Some (rx_PASSIVE_WAIT e s)"
| "rx_in_state DISCOVERY_PASSIVE_WAIT e s = Some (rx_PASSIVE_WAIT e s)"
| "rx_in_state DISCOVERY_SEND_LOCAL_REMOTE e s = Some (rx_SEND_LOCAL_REMOTE e s)"
| "rx_in_state DISCOVERY_SEND_LOCAL_REMOTE_OK e s = Some (rx_SEND_LOCAL_REMOTE_OK e s)"
| "rx_in_state DISCOVERY_SEND_ANY e s = Some (rx_SEND_ANY e s)"
| "rx_in_state EX_DISCOVERY_PASSIVE_WAIT e s = Some (rx_EX_PASSIVE_WAIT e s)"
| "rx_in_state EX_DISCOVERY_SEND_EXT_INFO e s = Some (rx_EX_SEND_EXT_INFO e s)"
| "rx_in_state EX_DISCOVERY_SEND_OAM_EXT_INFO_ACK e s = Some (rx_EX_SEND_OAM_EXT_INFO_ACK e s)"
| "rx_in_state EX_DISCOVERY_SEND_OAM_EXT_INFO_NACK e s = Some s"
| "rx_in_state EX_DISCOVERY_SEND_ANY e s = rx_EX_SEND_ANY e s"
| "rx_in_state EX_DISCOVERY_SEND_ANY_NO_EXT e s = Some s"

text \<open>The three reasons to start the discovery again, in their order.\<close>

definition rx_lone_info :: "oam_env \<Rightarrow> oam_sys \<Rightarrow> oam_sys" where
  "rx_lone_info e s =
     (let b = in_data s
      in if local_info b \<and> info_type (pstRmtInfo b) = INFO_LOCAL_END \<and> info_length (pstRmtInfo b) = 0 then OamInit e s else s)"

definition rx_flag_48 :: "oam_env \<Rightarrow> oam_sys \<Rightarrow> oam_sys" where
  "rx_flag_48 e s =
     (let b = in_data s
      in if hdr_pcode b = OAM_CODE_INFO \<and> hdr_flags b = 0x48 \<and> \<not> flag48Found s then OamInit e (s\<lparr> flag48Found := True \<rparr>) else s)"

definition rx_flag_8 :: "oam_env \<Rightarrow> oam_sys \<Rightarrow> oam_sys" where
  "rx_flag_8 e s =
     (let b = in_data s
      in if hdr_pcode b = OAM_CODE_INFO \<and> hdr_flags b = 0x8
         then let s = s\<lparr> flag8FoundCnt := (if oam_flags (oams s) = 0x10 then flag8FoundCnt s + 1 else 0) \<rparr>
              in if flag8FoundCnt s \<ge> MAX_FLAG_8_FOUND_CNT
                 then log_call (OplRegWrite REG_MPCP_GATE_TIMEOUT 0x03B9ACA0)
                        (OamInit e (log_call (OplRegWrite REG_MPCP_GATE_TIMEOUT 1) s))
                 else s
         else s)"

text \<open>What is noted of every PDU.\<close>

definition rx_note :: "u16 \<Rightarrow> oam_sys \<Rightarrow> oam_sys" where
  "rx_note framelen s =
     (let b = in_data s;
          s = s\<lparr> in_data_len := framelen - 4 \<rparr>;
          s = (if take 3 (hdr_src b) = [0x00, 0x0c, 0xd5] then s\<lparr> olt_mac_addr := hdr_src b \<rparr> else s);
          s = with_oams (\<lambda>t. t\<lparr> oam_flags := WRITE_BITS (oam_flags t) 0x60 (push_bit 2 (READ_BITS (hdr_flags b) 0x18)) \<rparr>) s
      in if hdr_pcode b = OAM_CODE_INFO \<and> info_length (p_info b) = 0x16
         then s\<lparr> eopl_remote_info := INFO_REMOTE_TYPE # slice_of 23 15 b \<rparr> else s)"

definition eopl_oam_pdu_process :: "oam_env \<Rightarrow> u16 \<Rightarrow> oam_sys \<Rightarrow> oam_sys option" where
  "eopl_oam_pdu_process e framelen s =
     (let s = rx_lone_info e (rx_note framelen s); b = in_data s
      in if hdr_pcode b = OAM_CODE_ORG_SPEC \<and> slice_of 22 7 b = g_tx_power_set_pdu
         then Some (log_call (Eopl_ctc_pdu_process (slice_of 4 (unat (in_data_len s)) b)) s)
         else let s = rx_flag_8 e (rx_flag_48 e s)
              in if hdr_pcode b \<noteq> OAM_CODE_INFO \<or> usRInfoTlvVer (oams s) = 0 \<or> usRInfoTlvVer (oams s) < revision (p_info b)
                    \<or> state_code DISCOVERY_SEND_ANY < state_code (oam_st (oams s))
                 then let s = (if hdr_pcode b = OAM_CODE_INFO
                               then with_oams (\<lambda>t. t\<lparr> usRInfoTlvVer := revision (p_info b) \<rparr>) s else s)
                      in rx_in_state (oam_st (oams s)) e s
                 else Some s)"

datatype oam_status = EOPL_OK | PARAMETER_INPUT_POINTER_NULL | PARAMETER_RANGE_ERROR

definition eopl_oam_pdu_receive :: "oam_env \<Rightarrow> u8 list option \<Rightarrow> oam_sys \<Rightarrow> (oam_status \<times> oam_sys) option" where
  "eopl_oam_pdu_receive e pucFrameIn s =
     (case pucFrameIn of
        None \<Rightarrow> Some (PARAMETER_INPUT_POINTER_NULL, s)
      | Some frame \<Rightarrow>
          if OAM_MINIMIZE_PDU_SIZE + 4 > length frame \<or> OAM_MAXIMUM_PDU_SIZE + 4 < length frame
          then Some (PARAMETER_RANGE_ERROR, s)
          else map_option (Pair EOPL_OK) (eopl_oam_pdu_process e (of_nat (length frame))
                 (s\<lparr> link_lost_cnt := 0, in_data := patch 0 frame (in_data s) \<rparr>)))"

subsection \<open>Timers\<close>

definition TimerUnit :: "oam_sys \<Rightarrow> oam_sys" where
  "TimerUnit s =
     (let n = link_lost_cnt s + 1
      in if n = 1000 then s\<lparr> link_lost_cnt := 0, link_lost_flag := True \<rparr> else s\<lparr> link_lost_cnt := n \<rparr>)"

text \<open>One turn of the loop of the timer thread; \<open>second\<close> tells that a second has passed since the last report.\<close>

definition timer_turn :: "oam_env \<Rightarrow> bool \<Rightarrow> oam_sys \<Rightarrow> oam_sys" where
  "timer_turn e second s =
     (let s = (if second \<and> oam_st (oams s) = EX_DISCOVERY_SEND_ANY \<and> g_ucOamActiveSend s = 1 then OamInfoSend e s else s)
      in if link_lost_flag s
         then let s = s\<lparr> link_lost_flag := False \<rparr>
              in if \<not> oam_lost_link_flag e then OamInit e s else log_call BoardReset s
         else s)"

definition OamDbgSendNumSet :: "u8 \<Rightarrow> oam_sys \<Rightarrow> oam_sys" where
  "OamDbgSendNumSet ucNum s = s\<lparr> g_ucDbgOamSendNum := ucNum \<rparr>"

definition OamDbgActiveEnable :: "u8 \<Rightarrow> oam_sys \<Rightarrow> oam_sys" where
  "OamDbgActiveEnable ucEnable s = s\<lparr> g_ucOamActiveSend := ucEnable \<rparr>"

definition OamStatusGet :: "oam_sys \<Rightarrow> discovery_state_t" where
  "OamStatusGet s = oam_st (oams s)"

text \<open>The handler of the link timer, when the timer could be stopped (\<open>stopped\<close>).\<close>

definition LinkLostHandler :: "oam_env \<Rightarrow> bool \<Rightarrow> oam_sys \<Rightarrow> oam_sys" where
  "LinkLostHandler e stopped s = (if stopped then OamInit e s else s)"

text \<open>The registers of the reset PDU; \<open>wr\<close> is the answer of the register access.\<close>

definition OamOplRstCfg :: "(oam_reg \<Rightarrow> int) \<Rightarrow> u8 \<Rightarrow> u16 \<Rightarrow> u8 \<Rightarrow> u32 \<Rightarrow> oam_sys \<Rightarrow> int \<times> oam_sys" where
  "OamOplRstCfg wr ucEndis usFlag ucCode uiPayLoad s =
     (let uiRstCfg = push_bit 24 (ucast (ucEndis AND 0x01)) OR push_bit 8 (ucast usFlag) OR ucast ucCode;
          s = log_call (OplRegWrite (Oam_reg 0x4039) uiRstCfg) s
      in if wr (Oam_reg 0x4039) \<noteq> 0 then (wr (Oam_reg 0x4039), s)
         else (wr (Oam_reg 0x403A), log_call (OplRegWrite (Oam_reg 0x403A) uiPayLoad) s))"

end
