(* ===== verification/Vos_Events.thy ===== *)
theory Vos_Events
  imports Main
begin

text \<open>
  Components that are driven by events, each of which may end in a fault (\<open>None\<close>): sequences of events and
  what they keep. Shared by the OAM client and the multicast control.
\<close>

primrec run_events :: "('e \<Rightarrow> 's \<Rightarrow> 's option) \<Rightarrow> 'e list \<Rightarrow> 's \<Rightarrow> 's option" where
  "run_events step [] s = Some s"
| "run_events step (ev # evs) s = (case step ev s of None \<Rightarrow> None | Some s' \<Rightarrow> run_events step evs s')"

lemma run_events_append:
  "run_events step (evs @ evs') s = (case run_events step evs s of None \<Rightarrow> None | Some s' \<Rightarrow> run_events step evs' s')"
  by (induction evs arbitrary: s) (auto split: option.splits)

locale event_system =
  fixes step :: "'e \<Rightarrow> 's \<Rightarrow> 's option" and inv :: "'s \<Rightarrow> bool"
  assumes kept: "inv s \<Longrightarrow> step ev s = Some s' \<Longrightarrow> inv s'"
begin

lemma run_kept: "run_events step evs s = Some s' \<Longrightarrow> inv s \<Longrightarrow> inv s'"
  by (induction evs arbitrary: s) (auto split: option.splits dest: kept)

end

text \<open>An abstraction that every event respects: what the steps do to the abstract state.\<close>

locale event_refinement = event_system +
  fixes alpha :: "'b \<Rightarrow> 'c" and astep :: "'a \<Rightarrow> 'c \<Rightarrow> 'c"
  assumes simulates: "inv s \<Longrightarrow> step ev s = Some s' \<Longrightarrow> alpha s' = astep ev (alpha s)"
begin

lemma run_simulates: "run_events step evs s = Some s' \<Longrightarrow> inv s \<Longrightarrow> alpha s' = fold astep evs (alpha s)"
proof (induction evs arbitrary: s)
  case (Cons ev evs)
  then obtain t where t: "step ev s = Some t" "run_events step evs t = Some s'" by (auto split: option.splits)
  show ?case using Cons.IH [OF t(2) kept [OF Cons.prems(2) t(1)]] simulates [OF Cons.prems(2) t(1)] by simp
qed simp

end

text \<open>A relation with an abstract state that every event keeps, and no event fails.\<close>

locale event_simulation =
  fixes step :: "'e \<Rightarrow> 's \<Rightarrow> 's option"
    and rel :: "'s \<Rightarrow> 'a \<Rightarrow> bool"
    and astep :: "'e \<Rightarrow> 'a \<Rightarrow> 'a"
  assumes simulated: "rel s a \<Longrightarrow> \<exists>s'. step ev s = Some s' \<and> rel s' (astep ev a)"
begin

lemma run_simulated: "rel s a \<Longrightarrow> \<exists>s'. run_events step evs s = Some s' \<and> rel s' (fold astep evs a)"
proof (induction evs arbitrary: s a)
  case (Cons ev evs)
  obtain s' where "step ev s = Some s'" "rel s' (astep ev a)" using simulated [OF Cons.prems] by blast
  then show ?case using Cons.IH by auto
qed simp

end

end
