(* ===== verification/Oam_Discovery.thy ===== *)
theory Oam_Discovery
  imports Oam Vos_Events
begin

text \<open>
  The discovery of the OAM client as a state machine driven by received frames and timers. Shown
  are the states in which it rests, that user traffic is let through only after the discovery, that
  the discovery completes when the other side plays its part, that information PDUs say what they
  should, and where a variable request overruns the buffers.
\<close>

subsection \<open>Events\<close>

datatype oam_event =
    Receive "u8 list option"
  | Tick
  | Turn bool
  | Info_send
  | Restart
  | Link_lost bool
  | Send_num u8
  | Active_send u8

primrec oam_step :: "oam_env \<Rightarrow> oam_event \<Rightarrow> oam_sys \<Rightarrow> oam_sys option" where
  "oam_step e (Receive frame) s = map_option snd (eopl_oam_pdu_receive e frame s)"
| "oam_step e Tick s = Some (TimerUnit s)"
| "oam_step e (Turn second) s = Some (timer_turn e second s)"
| "oam_step e Info_send s = Some (OamInfoSend e s)"
| "oam_step e Restart s = Some (OamInit e s)"
| "oam_step e (Link_lost stopped) s = Some (LinkLostHandler e stopped s)"
| "oam_step e (Send_num n) s = Some (OamDbgSendNumSet n s)"
| "oam_step e (Active_send n) s = Some (OamDbgActiveEnable n s)"

subsection \<open>Sending leaves the discovery alone\<close>

definition oam_wf :: "oam_sys \<Rightarrow> bool" where
  "oam_wf s \<longleftrightarrow> length (in_data s) = OAM_MAXIMUM_PDU_SIZE + 4 \<and> length (out_data s) = OAM_MAXIMUM_PDU_SIZE + 4
     \<and> length (oam_src_mac s) = 6 \<and> length (aucOui (oams s)) = 3 \<and> length (aucRmtOui (oams s)) = 3
     \<and> length (aucRmtVendor (oams s)) = 4"

text \<open>Two states that differ in what is sent only.\<close>

definition core_eq :: "oam_sys \<Rightarrow> oam_sys \<Rightarrow> bool" where
  "core_eq s s' \<longleftrightarrow> oam_st (oams s') = oam_st (oams s) \<and> usRInfoTlvVer (oams s') = usRInfoTlvVer (oams s)
     \<and> aucOui (oams s') = aucOui (oams s) \<and> oam_flags (oams s') = oam_flags (oams s) \<and> local_oam_mode (oams s') = local_oam_mode (oams s)
     \<and> in_data s' = in_data s \<and> ge_trsmt_en s' = ge_trsmt_en s \<and> pon_trsmt_en s' = pon_trsmt_en s
     \<and> (oam_wf s \<longrightarrow> oam_wf s')"

lemma core_eq_refl [simp]: "core_eq s s"
  by (simp add: core_eq_def)

lemma core_eq_trans: "core_eq s s' \<Longrightarrow> core_eq s' s'' \<Longrightarrow> core_eq s s''"
  by (simp add: core_eq_def)

lemma length_hdr: "length src = 6 \<Longrightarrow> length (hdr_bytes src fl c) = 18"
  by (simp add: hdr_bytes_def oam_dest_mac_def oam_length_type_def)

lemma length_info: "length (info_bytes t) = 9 + length (tlv_oui t) + length (vendor_info t)"
  by (simp add: info_bytes_def)

lemma core_eq_log: "core_eq s (log_call c s)"
  by (simp add: core_eq_def log_call_def oam_wf_def)

lemma core_eq_frame: "core_eq s (frame_send e frame s)"
  by (simp add: core_eq_def frame_send_def log_call_def oam_wf_def Let_def)

lemma core_eq_request: "core_eq s (request_out e code len s)"
proof -
  have "oam_wf s \<Longrightarrow> length (patch 0 (hdr_bytes (oam_src_mac s) fl code) (out_data s)) = length (out_data s)" for fl
    by (rule length_patch) (simp add: oam_wf_def length_hdr OAM_MAXIMUM_PDU_SIZE_def)
  then show ?thesis
    by (auto simp: core_eq_def request_out_def eopl_oam_pdu_request_def frame_send_def log_call_def oam_wf_def Let_def)
qed

lemma two_infos_length: "oam_wf s \<Longrightarrow> length (fst (two_infos s)) = OAM_MAXIMUM_PDU_SIZE + 4"
  by (simp add: two_infos_def eopl_oam_info_tlv_def eopl_oam_remote_info_tlv_def oam_wf_def length_patch length_info
      oam_oui_def oam_onu_vendor_def OAM_MAXIMUM_PDU_SIZE_def Let_def)

lemma two_infos_snd: "snd (two_infos s) = with_oams (\<lambda>t. t\<lparr> usLInfoTlvVer := usLInfoTlvVer t + 1 \<rparr>) s"
  by (simp add: two_infos_def eopl_oam_info_tlv_def with_oams_def Let_def)

lemma core_eq_fill: "core_eq s (fill_infos s)"
  using two_infos_length [of s] two_infos_snd [of s]
  by (auto simp: core_eq_def fill_infos_def with_oams_def oam_wf_def split: prod.splits)

lemma core_eq_send: "core_eq s (send_infos e s)"
  by (simp add: send_infos_def core_eq_trans [OF core_eq_fill core_eq_request])

lemma core_eq_patch: "length ex \<le> 22 \<Longrightarrow> core_eq s (s\<lparr> out_data := patch 50 ex (out_data s) \<rparr>)"
  by (simp add: core_eq_def oam_wf_def length_patch OAM_MAXIMUM_PDU_SIZE_def)

lemma core_eq_send_ex: "length ex \<le> 22 \<Longrightarrow> core_eq s (send_ex_infos e ex s)"
  unfolding send_ex_infos_def Let_def
  by (rule core_eq_trans [OF core_eq_fill core_eq_trans [OF core_eq_patch core_eq_request]])

lemma length_ex: "length (ex_versions v) \<le> 22" "length (ex_ack ver v) \<le> 22"
  by (simp_all add: ex_versions_def ex_ack_def ex_info_def ex_bytes_def ctc_oui_def)

lemma core_eq_dygasp: "core_eq s (OamDygaspCfg s)"
proof -
  have fold: "core_eq s (fold (\<lambda>i. log_call (f i)) is s)" for f :: "nat \<Rightarrow> oam_call" and "is" s
    by (induction "is" arbitrary: s) (auto intro: core_eq_trans [OF core_eq_log])
  show ?thesis
    unfolding OamDygaspCfg_def eopl_oam_info_tlv_def Let_def prod.case
    by (rule core_eq_trans [OF _ fold]) (simp add: core_eq_def log_call_def oam_wf_def)
qed

lemma core_eq_repeat: "core_eq s ((request_out e code len ^^ n) s)"
  by (induction n) (auto intro: core_eq_trans core_eq_request)

lemma core_eq_upd:
  "core_eq s (with_oams (\<lambda>t. t\<lparr> local_pdu := a, usLInfoTlvVer := b t \<rparr>) s)" "core_eq s (with_oams (\<lambda>t. t\<lparr> local_pdu := a \<rparr>) s)"
  "core_eq s (with_oams (\<lambda>t. t\<lparr> local_pdu := a, OAM_Ext_Status := c \<rparr>) s)"
  by (simp_all add: core_eq_def with_oams_def oam_wf_def)

lemma core_eq_info_send: "core_eq s (OamInfoSend e s)"
proof -
  define s1 where "s1 = with_oams (\<lambda>t. t\<lparr> local_pdu := PDU_ANY, usLInfoTlvVer := usLInfoTlvVer t - 1 \<rparr>) s"
  define s2 where "s2 = snd (two_infos s1)"
  define s3 where "s3 = snd (eopl_oam_pdu_request e OAM_CODE_INFO OAM_MINIMIZE_PDU_SIZE (fst (two_infos s1)) s2)"
  have "core_eq s s1" unfolding s1_def by (rule core_eq_upd(1))
  moreover have "core_eq s1 s2" by (simp add: s2_def two_infos_snd core_eq_def with_oams_def oam_wf_def)
  moreover have "core_eq s2 s3" by (simp add: s3_def eopl_oam_pdu_request_def Let_def core_eq_frame)
  moreover have "core_eq s3 (OamInfoSend e s)"
    by (simp add: OamInfoSend_def Let_def case_prod_beta s1_def [symmetric] s2_def [symmetric] s3_def [symmetric])
       (simp add: core_eq_def oam_wf_def)
  ultimately show ?thesis by (rule core_eq_trans [OF core_eq_trans [OF core_eq_trans]])
qed

subsection \<open>The machine\<close>

text \<open>The step from a state to the one in which the machine rests, and what it switches.\<close>

fun rests_in :: "discovery_state_t \<Rightarrow> discovery_state_t" where
  "rests_in DISCOVERY_SEND_LOCAL_REMOTE = DISCOVERY_SEND_LOCAL_REMOTE_OK"
| "rests_in DISCOVERY_SEND_ANY = EX_DISCOVERY_PASSIVE_WAIT"
| "rests_in EX_DISCOVERY_PASSIVE_WAIT = EX_DISCOVERY_SEND_EXT_INFO"
| "rests_in EX_DISCOVERY_SEND_OAM_EXT_INFO_ACK = EX_DISCOVERY_SEND_ANY"
| "rests_in st = st"

definition machine_states :: "discovery_state_t set" where
  "machine_states = {DISCOVERY_SEND_LOCAL_REMOTE, DISCOVERY_SEND_LOCAL_REMOTE_OK, DISCOVERY_SEND_ANY,
     EX_DISCOVERY_SEND_EXT_INFO, EX_DISCOVERY_SEND_OAM_EXT_INFO_ACK, EX_DISCOVERY_SEND_ANY}"

definition moved :: "discovery_state_t \<Rightarrow> bool \<times> bool \<Rightarrow> oam_sys \<Rightarrow> oam_sys \<Rightarrow> bool" where
  "moved st en s s' \<longleftrightarrow> oam_st (oams s') = st \<and> usRInfoTlvVer (oams s') = usRInfoTlvVer (oams s)
     \<and> aucOui (oams s') = aucOui (oams s) \<and> local_oam_mode (oams s') = local_oam_mode (oams s)
     \<and> in_data s' = in_data s \<and> (ge_trsmt_en s', pon_trsmt_en s') = en \<and> (oam_wf s \<longrightarrow> oam_wf s')"

definition enabled :: "oam_sys \<Rightarrow> bool \<times> bool" where
  "enabled s = (ge_trsmt_en s, pon_trsmt_en s)"

lemma moved_core: "moved st en s s1 \<Longrightarrow> core_eq s1 s2 \<Longrightarrow> moved st en s s2"
  by (auto simp: moved_def core_eq_def)

lemma core_moved: "core_eq s s' \<Longrightarrow> moved (oam_st (oams s)) (enabled s) s s'"
  by (auto simp: moved_def core_eq_def enabled_def)

lemma moved_goto: "moved st en s s1 \<Longrightarrow> moved st' en s (goto st' s1)"
  by (auto simp: moved_def goto_def with_oams_def oam_wf_def)

lemma moved_trsmt: "moved st en s s1 \<Longrightarrow> moved st (b, b) s (trsmt_en b s1)"
  by (auto simp: moved_def trsmt_en_def oam_wf_def)

lemma moved_upd:
  "moved (oam_st (oams s)) (enabled s) s (with_oams (\<lambda>t. t\<lparr> oam_flags := f t, local_pdu := p \<rparr>) s)"
  "moved (oam_st (oams s)) (enabled s) s (with_oams (\<lambda>t. t\<lparr> local_pdu := p, oam_flags := f t, action_state := a \<rparr>) s)"
  by (simp_all add: moved_def with_oams_def oam_wf_def enabled_def)

lemma machine_moves:
  assumes "oam_st (oams s) \<in> machine_states" "event = EOPL_OAM_PDU_RX \<or> event = state_code EX_DISCOVERY_SEND_ANY"
  shows "moved (rests_in (oam_st (oams s)))
    (if oam_st (oams s) = EX_DISCOVERY_SEND_OAM_EXT_INFO_ACK then (True, True) else enabled s) s (eopl_oam_state_machine e event s)"
proof -
  have run: "eopl_oam_state_machine e event s = machine_action (oam_st (oams s)) e event s"
    using assms(2) by (auto simp: eopl_oam_state_machine_def oam_events)
  have lr: "moved DISCOVERY_SEND_LOCAL_REMOTE_OK (enabled s) s (machine_action DISCOVERY_SEND_LOCAL_REMOTE e event s)"
    "moved EX_DISCOVERY_PASSIVE_WAIT (enabled s) s (machine_action DISCOVERY_SEND_ANY e event s)"
    unfolding machine_action.simps by (rule moved_goto, rule moved_core [OF _ core_eq_send], rule moved_upd)+
  have ok: "moved (oam_st (oams s)) (enabled s) s (machine_action DISCOVERY_SEND_LOCAL_REMOTE_OK e event s)"
    unfolding machine_action.simps by (rule moved_core [OF _ core_eq_send], rule moved_upd)
  have any: "moved (oam_st (oams s)) (enabled s) s (machine_action EX_DISCOVERY_SEND_ANY e event s)"
    unfolding machine_action.simps Let_def
    by (rule moved_core [OF _ core_eq_repeat], rule moved_core [OF _ core_eq_fill], rule core_moved, rule core_eq_upd)
  have ext: "moved (oam_st (oams s)) (enabled s) s (machine_action EX_DISCOVERY_SEND_EXT_INFO e event s)"
    unfolding machine_action.simps by (rule moved_core [OF _ core_eq_send_ex [OF length_ex(1)]], rule core_moved, rule core_eq_upd)
  have ack: "moved EX_DISCOVERY_SEND_ANY (True, True) s (machine_action EX_DISCOVERY_SEND_OAM_EXT_INFO_ACK e event s)"
  proof -
    let ?s1 = "with_oams (\<lambda>t. t\<lparr> local_pdu := PDU_INFO, OAM_Ext_Status := True \<rparr>) s"
    let ?s2 = "log_call (OplRegWrite REG_CP_OAM_REGI_CTRL 1) (trsmt_en True
      (goto EX_DISCOVERY_SEND_ANY (send_ex_infos e (ex_ack (oam_ver_type ?s1) (oam_cfg_ver_type ?s1)) ?s1)))"
    have "moved EX_DISCOVERY_SEND_ANY (True, True) s ?s2"
      by (rule moved_core [OF _ core_eq_log], rule moved_trsmt, rule moved_goto, rule moved_core [OF _ core_eq_send_ex [OF length_ex(2)]],
          rule core_moved, rule core_eq_upd)
    then show ?thesis by (simp add: Let_def moved_core [OF _ core_eq_log])
  qed
  show ?thesis using assms(1) lr ok any ext ack by (auto simp: run machine_states_def)
qed

subsection \<open>Receiving in each state\<close>

lemma moved_trans: "moved st en s s1 \<Longrightarrow> moved st' en' s1 s2 \<Longrightarrow> moved st' en' s s2"
  by (simp add: moved_def)

lemma moved_facts:
  assumes "moved st en s s'"
  shows "oam_st (oams s') = st" "enabled s' = en" "in_data s' = in_data s" "usRInfoTlvVer (oams s') = usRInfoTlvVer (oams s)"
    "aucOui (oams s') = aucOui (oams s)" "oam_wf s \<Longrightarrow> oam_wf s'"
  using assms by (auto simp: moved_def enabled_def)

lemma info_lengths: "i + 16 \<le> length b \<Longrightarrow> length (tlv_oui (info_at i b)) = 3 \<and> length (vendor_info (info_at i b)) = 4"
  by (simp add: info_at_def length_slice)

lemma moved_take: "moved (oam_st (oams s)) (enabled s) s (with_oams (take_remote (p_info (in_data s))) s)"
  using info_lengths [of 22 "in_data s"]
  by (auto simp: moved_def with_oams_def take_remote_def enabled_def oam_wf_def p_info_def OAM_MAXIMUM_PDU_SIZE_def)

lemma machine_from:
  assumes "moved st en s s1" "st \<in> machine_states" "st \<noteq> EX_DISCOVERY_SEND_OAM_EXT_INFO_ACK"
  shows "moved (rests_in st) en s (eopl_oam_state_machine e EOPL_OAM_PDU_RX s1)"
  using moved_trans [OF assms(1) machine_moves [of s1 EOPL_OAM_PDU_RX e]] assms(2,3) moved_facts(1,2) [OF assms(1)] by simp

lemma rx_passive:
  "moved (if local_info (in_data s) then DISCOVERY_SEND_LOCAL_REMOTE_OK else oam_st (oams s)) (False, False) s (rx_PASSIVE_WAIT e s)"
proof (cases "local_info (in_data s)")
  case True
  define s0 where "s0 = trsmt_en False s"
  define s1 where "s1 = OamDygaspCfg (with_oams (\<lambda>t. t\<lparr> remote_state_valid := True, oam_st := DISCOVERY_SEND_LOCAL_REMOTE \<rparr>)
    (with_oams (take_remote (p_info (in_data s0))) s0))"
  have s0: "moved (oam_st (oams s)) (False, False) s s0" by (simp add: s0_def moved_def trsmt_en_def oam_wf_def)
  have "moved DISCOVERY_SEND_LOCAL_REMOTE en s (with_oams (\<lambda>t. t\<lparr> remote_state_valid := True, oam_st := DISCOVERY_SEND_LOCAL_REMOTE \<rparr>) s2)"
    if "moved st en s s2" for st en s s2
    using that by (auto simp: moved_def with_oams_def oam_wf_def)
  from this [OF moved_take, of s0] have "moved DISCOVERY_SEND_LOCAL_REMOTE (False, False) s0 s1"
    using moved_facts(2) [OF s0] unfolding s1_def by (auto intro: moved_core [OF _ core_eq_dygasp])
  from moved_trans [OF s0 this] have s1: "moved DISCOVERY_SEND_LOCAL_REMOTE (False, False) s s1" .
  have "moved DISCOVERY_SEND_LOCAL_REMOTE_OK (False, False) s (eopl_oam_state_machine e EOPL_OAM_PDU_RX
     (if sat then goto DISCOVERY_SEND_LOCAL_REMOTE_OK s1 else s1))" for sat
    using machine_from [OF s1, of e] machine_from [OF moved_goto [OF s1], of DISCOVERY_SEND_LOCAL_REMOTE_OK e]
    by (auto simp: machine_states_def)
  moreover have "in_data (trsmt_en False s) = in_data s" by (simp add: trsmt_en_def)
  then have "rx_PASSIVE_WAIT e s = eopl_oam_state_machine e EOPL_OAM_PDU_RX
     (if eopl_oam_chk_satisfied (p_info (in_data s)) (oams s1) then goto DISCOVERY_SEND_LOCAL_REMOTE_OK s1 else s1)"
    using True by (simp only: rx_PASSIVE_WAIT_def Let_def s0_def s1_def if_True)
  ultimately show ?thesis using True by simp
next
  case False
  moreover have "in_data (trsmt_en False s) = in_data s" by (simp add: trsmt_en_def)
  ultimately show ?thesis by (simp add: rx_PASSIVE_WAIT_def Let_def) (simp add: moved_def trsmt_en_def oam_wf_def)
qed

lemma rx_ok:
  assumes "hdr_pcode (in_data s) = OAM_CODE_INFO"
  shows "moved (if READ_BITS (hdr_flags (in_data s)) 0x10 \<noteq> 0 then EX_DISCOVERY_PASSIVE_WAIT else DISCOVERY_SEND_LOCAL_REMOTE_OK)
    (enabled s) s (rx_SEND_LOCAL_REMOTE_OK e s)"
  using assms machine_from [OF moved_goto [OF moved_take], of DISCOVERY_SEND_ANY s e]
    machine_from [OF moved_goto [OF core_moved [OF core_eq_refl]], of DISCOVERY_SEND_LOCAL_REMOTE s e]
  by (simp add: rx_SEND_LOCAL_REMOTE_OK_def machine_states_def Let_def)

definition with_oui :: "u8 list \<Rightarrow> oam_sys \<Rightarrow> oam_sys" where
  "with_oui oui = with_oams (\<lambda>t. t\<lparr> aucOui := oui \<rparr>)"

lemma rx_ex_wait:
  assumes "hdr_pcode (in_data s) = OAM_CODE_INFO" "oam_wf s"
  defines "ex \<equiv> pstExInfoTlv (in_data s)"
  shows "if ucType ex = INFO_ORG_SPEC_TYPE \<and> 0x0B \<le> ucLength ex
    then moved EX_DISCOVERY_SEND_EXT_INFO (enabled s) (with_oui (ex_aucOui ex) s) (rx_EX_PASSIVE_WAIT e s)
    else moved EX_DISCOVERY_PASSIVE_WAIT (enabled s) s (rx_EX_PASSIVE_WAIT e s)"
proof -
  let ?s1 = "with_oams (take_remote (p_info (in_data s))) s"
  have len: "length (ex_aucOui ex) = 3"
    using assms(2) by (simp add: ex_def pstExInfoTlv_def length_slice oam_wf_def OAM_MAXIMUM_PDU_SIZE_def)
  have oui: "moved (oam_st (oams s)) (enabled s) (with_oui (ex_aucOui ex) s) (with_oams (\<lambda>t. t\<lparr> aucOui := ex_aucOui ex \<rparr>) ?s1)"
    using moved_take [of s] assms(2) len by (auto simp: moved_def with_oui_def with_oams_def take_remote_def oam_wf_def enabled_def)
  show ?thesis
    using assms(1) machine_from [OF moved_goto [OF oui], of EX_DISCOVERY_SEND_EXT_INFO e]
      machine_from [OF moved_goto [OF moved_take], of DISCOVERY_SEND_ANY s e]
    by (simp add: rx_EX_PASSIVE_WAIT_def machine_states_def Let_def ex_def)
qed

lemma rx_ext_info:
  assumes "hdr_pcode (in_data s) = OAM_CODE_INFO" "oam_st (oams s) = EX_DISCOVERY_SEND_EXT_INFO"
  defines "ex \<equiv> pstExInfoTlv (in_data s)"
  shows "if ucType ex = INFO_ORG_SPEC_TYPE \<and> aucOui (oams s) = ex_aucOui ex
    then moved EX_DISCOVERY_SEND_ANY (True, True) s (rx_EX_SEND_EXT_INFO e s)
    else moved EX_DISCOVERY_SEND_EXT_INFO (enabled s) s (rx_EX_SEND_EXT_INFO e s)"
proof -
  let ?s1 = "with_oams (take_remote (p_info (in_data s))) s"
  have ack: "moved EX_DISCOVERY_SEND_ANY (True, True) s (goto EX_DISCOVERY_SEND_ANY
      (eopl_oam_state_machine e EOPL_OAM_PDU_RX (goto EX_DISCOVERY_SEND_OAM_EXT_INFO_ACK s2)))"
    if "moved st en s s2" for st en s2
  proof -
    from moved_goto [OF that] have m: "moved EX_DISCOVERY_SEND_OAM_EXT_INFO_ACK en s (goto EX_DISCOVERY_SEND_OAM_EXT_INFO_ACK s2)" .
    from moved_goto [OF moved_trans [OF m machine_moves]] moved_facts(1) [OF m] show ?thesis by (simp add: machine_states_def)
  qed
  have ver: "moved st en s s2 \<Longrightarrow> moved st en s (s2\<lparr> oam_ver_type := v \<rparr>)" for st en s2 v
    by (auto simp: moved_def oam_wf_def)
  show ?thesis
    using assms(1,2) ack [OF moved_take] ack [OF ver [OF moved_take]] moved_take [of s]
    by (auto simp: rx_EX_SEND_EXT_INFO_def Let_def ex_def with_oams_def take_remote_def)
qed

subsection \<open>Starting and starting again\<close>

definition start_state :: "oam_sys \<Rightarrow> discovery_state_t" where
  "start_state s = (if local_oam_mode (oams s) = OAM_ACTIVE then DISCOVERY_ACTIVE_SEND_LOCAL else DISCOVERY_PASSIVE_WAIT)"

lemma OamInit_facts:
  "oam_st (oams (OamInit e s)) = start_state s" "enabled (OamInit e s) = (False, False)" "in_data (OamInit e s) = in_data s"
  "usRInfoTlvVer (oams (OamInit e s)) = 0" "oam_flags (oams (OamInit e s)) = 0x08" "local_oam_mode (oams (OamInit e s)) = local_oam_mode (oams s)"
  "flag8FoundCnt (OamInit e s) = 0" "oam_wf s \<Longrightarrow> oam_wf (OamInit e s)"
  by (simp_all add: OamInit_def eopl_oam_state_machine_def eopl_oam_fault_state_def READ_BITS_def with_oams_def trsmt_en_def
      log_call_def start_state_def enabled_def oam_wf_def oam_oui_def Let_def)

definition resting :: "discovery_state_t set" where
  "resting = {DISCOVERY_ACTIVE_SEND_LOCAL, DISCOVERY_PASSIVE_WAIT, DISCOVERY_SEND_LOCAL_REMOTE_OK, EX_DISCOVERY_PASSIVE_WAIT,
     EX_DISCOVERY_SEND_EXT_INFO, EX_DISCOVERY_SEND_ANY}"

definition oam_inv :: "oam_sys \<Rightarrow> bool" where
  "oam_inv s \<longleftrightarrow> oam_wf s \<and> oam_st (oams s) \<in> resting
     \<and> (enabled s = (False, False) \<or> oam_st (oams s) = EX_DISCOVERY_SEND_ANY)"

lemma oam_inv_init: "oam_wf s \<Longrightarrow> oam_inv (OamInit e s)"
  by (auto simp: oam_inv_def OamInit_facts start_state_def resting_def)

lemma oam_inv_moved:
  assumes "oam_inv s" "moved st en s s'" "st \<in> resting" "en = (False, False) \<or> st = EX_DISCOVERY_SEND_ANY"
  shows "oam_inv s'"
  using assms moved_facts [OF assms(2)] by (auto simp: oam_inv_def)

lemma oam_inv_same: "oam_inv s \<Longrightarrow> moved (oam_st (oams s)) (enabled s) s s' \<Longrightarrow> oam_inv s'"
  by (rule oam_inv_moved) (auto simp: oam_inv_def)

lemma oam_inv_core: "oam_inv s \<Longrightarrow> core_eq s s' \<Longrightarrow> oam_inv s'"
  by (rule oam_inv_same [OF _ core_moved])

lemma note_moved: "moved (oam_st (oams s)) (enabled s) s (rx_note n s)"
  by (simp add: moved_def rx_note_def with_oams_def oam_wf_def enabled_def Let_def)

lemma oam_inv_pre:
  assumes "oam_inv s"
  shows "oam_inv (rx_lone_info e s)" "oam_inv (rx_flag_48 e s)" "oam_inv (rx_flag_8 e s)"
proof -
  have wf: "oam_wf s" using assms by (simp add: oam_inv_def)
  show "oam_inv (rx_lone_info e s)" using assms oam_inv_init [OF wf] by (simp add: rx_lone_info_def Let_def)
  have "oam_wf (s\<lparr> flag48Found := True \<rparr>)" using wf by (simp add: oam_wf_def)
  then show "oam_inv (rx_flag_48 e s)" using assms oam_inv_init by (simp add: rx_flag_48_def Let_def)
  have cnt: "core_eq s (s\<lparr> flag8FoundCnt := n \<rparr>)" for n by (simp add: core_eq_def oam_wf_def)
  have "oam_inv (OamInit e (log_call c (s\<lparr> flag8FoundCnt := n \<rparr>)))" for c n
    using core_eq_trans [OF cnt core_eq_log] wf by (intro oam_inv_init) (auto simp: core_eq_def)
  then show "oam_inv (rx_flag_8 e s)"
    using assms oam_inv_core [OF assms cnt] by (simp add: rx_flag_8_def Let_def oam_inv_core [OF _ core_eq_log])
qed

subsection \<open>Variable requests and loopback\<close>

text \<open>The discovery is not touched.\<close>

definition still :: "oam_sys \<Rightarrow> oam_sys \<Rightarrow> bool" where
  "still s s' \<longleftrightarrow> oams s' = oams s \<and> in_data s' = in_data s \<and> enabled s' = enabled s \<and> (oam_wf s \<longrightarrow> oam_wf s')"

lemma still_trans: "still s s' \<Longrightarrow> still s' s'' \<Longrightarrow> still s s''"
  by (simp add: still_def)

lemma still_tx_ok: "OamGetFrmTxOk s = Some s' \<Longrightarrow> oam_wf s \<Longrightarrow> still s s'"
  by (auto simp: OamGetFrmTxOk_def still_def enabled_def oam_wf_def length_patch length_hdr OAM_MAXIMUM_PDU_SIZE_def Let_def
      split: if_splits)

lemma still_loop: "var_loop d bs s = Some s' \<Longrightarrow> oam_wf s \<Longrightarrow> still s s'"
proof (induction d bs s rule: var_loop.induct)
  case (2 d b bs s)
  show ?case
  proof (cases "b = 0")
    case False
    with 2 obtain s1 where s1: "(if b = OAM_BRANCH_STANDARD_ATTRIB then OamVarAttr d s else Some s) = Some s1"
      "var_loop d (drop 2 bs) s1 = Some s'" by (auto split: option.splits)
    then have "still s s1" using still_tx_ok 2(3) by (auto simp: OamVarAttr_def still_def Let_def split: if_splits)
    then show ?thesis using "2.IH" [OF False s1] 2(3) still_trans by (auto simp: still_def)
  qed (use 2 in \<open>simp add: still_def\<close>)
qed simp

lemma still_frame: "still s (frame_send e frame s)"
  by (simp add: still_def frame_send_def log_call_def enabled_def oam_wf_def Let_def)

lemma still_buf: "length buf = length (out_data s) \<Longrightarrow> still s (s\<lparr> out_data := buf, g_usOutDataIdx := i \<rparr>)"
  by (simp add: still_def enabled_def oam_wf_def)

lemma still_var_req:
  assumes "OamVarReq e d s = Some s'" "oam_wf s"
  shows "still s s'"
proof -
  obtain s1 where s1: "var_loop d d s = Some s1" using assms(1) by (auto simp: OamVarReq_def split: option.splits)
  note st = still_loop [OF s1 assms(2)]
  define s2 where "s2 = (if unat (g_usOutDataIdx s1) < OAM_MINIMIZE_PDU_SIZE
    then s1\<lparr> out_data := oam_pdu_padding (unat (g_usOutDataIdx s1)) (OAM_MINIMIZE_PDU_SIZE - unat (g_usOutDataIdx s1)) (out_data s1),
      g_usOutDataIdx := of_nat OAM_MINIMIZE_PDU_SIZE \<rparr> else s1)"
  have "still s1 s2"
    using st assms(2) by (auto simp: s2_def oam_pdu_padding_def length_patch still_def oam_wf_def
        OAM_MINIMIZE_PDU_SIZE_def OAM_MAXIMUM_PDU_SIZE_def intro!: still_buf) (simp_all add: still_def enabled_def oam_wf_def)
  moreover obtain fr where "s' = (frame_send e fr s2)\<lparr> g_usOutDataIdx := 0 \<rparr>"
    using assms(1) by (auto simp: OamVarReq_def s1 Let_def s2_def [symmetric] OamFrameSend_def split: if_splits)
  moreover have "still s2 ((frame_send e fr s2)\<lparr> g_usOutDataIdx := 0 \<rparr>)"
    by (rule still_trans [OF still_frame [of s2 e fr]]) (simp add: still_def enabled_def oam_wf_def)
  ultimately show ?thesis using st by (auto intro: still_trans)
qed

lemma loopback_keeps:
  "oam_st (oams (OamLoopback e c s)) = oam_st (oams s)" "oam_wf s \<Longrightarrow> oam_wf (OamLoopback e c s)"
proof -
  have "core_eq (with_oams (\<lambda>t. t\<lparr> action_state := a \<rparr>) s) (loopback_answer e a s)" for a s
    unfolding loopback_answer_def by (rule core_eq_trans [OF core_eq_fill core_eq_request])
  then have "oam_st (oams (loopback_answer e a s)) = oam_st (oams s) \<and> (oam_wf s \<longrightarrow> oam_wf (loopback_answer e a s))" for a s
    by (auto simp: core_eq_def with_oams_def oam_wf_def)
  then show "oam_st (oams (OamLoopback e c s)) = oam_st (oams s)" "oam_wf s \<Longrightarrow> oam_wf (OamLoopback e c s)"
    by (auto simp: OamLoopback_def OamEnableLp_def OamDisableLp_def oam_wf_def)
qed

lemma org_spec_core: "core_eq s (rx_org_spec s)"
proof -
  have "core_eq s1 (s1\<lparr> g_usOutDataIdx := 0 \<rparr>)" for s1 by (simp add: core_eq_def oam_wf_def)
  then show ?thesis
    by (auto simp: rx_org_spec_def Let_def core_eq_log intro: core_eq_trans [OF core_eq_log])
qed

lemma rx_any:
  assumes "oam_inv s" "oam_st (oams s) = EX_DISCOVERY_SEND_ANY" "rx_EX_SEND_ANY e s = Some s'"
  shows "oam_inv s'"
proof -
  have wf: "oam_wf s" using assms(1) by (simp add: oam_inv_def)
  have inv: "oam_inv s2" if "oam_st (oams s2) = EX_DISCOVERY_SEND_ANY" "oam_wf s2" for s2
    using that by (simp add: oam_inv_def resting_def)
  have info: "oam_inv (eopl_oam_state_machine e (state_code EX_DISCOVERY_SEND_ANY) s2)"
    if "oam_st (oams s2) = EX_DISCOVERY_SEND_ANY" "oam_wf s2" for s2
    using machine_moves [of s2 "state_code EX_DISCOVERY_SEND_ANY" e] that by (intro inv) (auto simp: machine_states_def moved_def)
  let ?s1 = "with_oams (take_remote (p_info (in_data s))) s"
  have s1: "oam_st (oams ?s1) = EX_DISCOVERY_SEND_ANY" "oam_wf ?s1"
    using moved_facts(1,6) [OF moved_take [of s]] wf assms(2) by simp_all
  have "oam_inv (eopl_oam_state_machine e (state_code EX_DISCOVERY_SEND_ANY) (with_oams (\<lambda>t. t\<lparr> aucOui := ctc_oui \<rparr>) ?s1))"
    by (rule info) (use s1 in \<open>simp_all add: with_oams_def oam_wf_def ctc_oui_def\<close>)
  moreover note info [OF s1]
  moreover have "oam_inv s2" if "OamVarReq e d s = Some s2" for d s2
    using still_var_req [OF that wf] wf assms(2) by (intro inv) (auto simp: still_def)
  ultimately show ?thesis
    using assms(3) oam_inv_core [OF assms(1) org_spec_core] inv [OF _ loopback_keeps(2) [OF wf]] assms(1,2) loopback_keeps(1)
    by (auto simp: rx_EX_SEND_ANY_def Let_def split: if_splits)
qed

subsection \<open>The invariant\<close>

lemma rx_in_state_inv:
  assumes "oam_inv s" "rx_in_state (oam_st (oams s)) e s = Some s'"
  shows "oam_inv s'"
proof -
  have wf: "oam_wf s" and rest: "oam_st (oams s) \<in> resting" using assms(1) by (auto simp: oam_inv_def)
  from rest consider "oam_st (oams s) \<in> {DISCOVERY_ACTIVE_SEND_LOCAL, DISCOVERY_PASSIVE_WAIT}"
    | "oam_st (oams s) = DISCOVERY_SEND_LOCAL_REMOTE_OK" | "oam_st (oams s) = EX_DISCOVERY_PASSIVE_WAIT"
    | "oam_st (oams s) = EX_DISCOVERY_SEND_EXT_INFO" | "oam_st (oams s) = EX_DISCOVERY_SEND_ANY"
    by (auto simp: resting_def)
  then show ?thesis
  proof cases
    case 1
    then have "s' = rx_PASSIVE_WAIT e s" using assms(2) by auto
    then show ?thesis using oam_inv_moved [OF assms(1) rx_passive] rest by (auto simp: resting_def)
  next
    case 2
    then have s': "s' = rx_SEND_LOCAL_REMOTE_OK e s" "enabled s = (False, False)" using assms by (auto simp: oam_inv_def)
    show ?thesis
    proof (cases "hdr_pcode (in_data s) = OAM_CODE_INFO")
      case True
      show ?thesis using oam_inv_moved [OF assms(1) rx_ok [OF True, of e]] s' by (auto simp: resting_def)
    qed (use s' assms(1) in \<open>simp add: rx_SEND_LOCAL_REMOTE_OK_def Let_def\<close>)
  next
    case 3
    then have s': "s' = rx_EX_PASSIVE_WAIT e s" "enabled s = (False, False)" using assms by (auto simp: oam_inv_def)
    show ?thesis
    proof (cases "hdr_pcode (in_data s) = OAM_CODE_INFO")
      case True
      let ?s1 = "with_oui (ex_aucOui (pstExInfoTlv (in_data s))) s"
      have "oam_inv ?s1"
        using assms(1) by (auto simp: oam_inv_def with_oui_def with_oams_def enabled_def oam_wf_def pstExInfoTlv_def length_slice
            OAM_MAXIMUM_PDU_SIZE_def)
      then show ?thesis
        using rx_ex_wait [OF True wf, of e] oam_inv_moved [OF assms(1), of EX_DISCOVERY_PASSIVE_WAIT "(False, False)"]
          oam_inv_moved [of ?s1 EX_DISCOVERY_SEND_EXT_INFO "(False, False)"] s'
        by (auto simp: resting_def split: if_splits)
    qed (use s' assms(1) in \<open>simp add: rx_EX_PASSIVE_WAIT_def Let_def\<close>)
  next
    case 4
    then have s': "s' = rx_EX_SEND_EXT_INFO e s" "enabled s = (False, False)" using assms by (auto simp: oam_inv_def)
    show ?thesis
    proof (cases "hdr_pcode (in_data s) = OAM_CODE_INFO")
      case True
      show ?thesis
        using rx_ext_info [OF True 4, of e] oam_inv_moved [OF assms(1), of EX_DISCOVERY_SEND_ANY "(True, True)"]
          oam_inv_moved [OF assms(1), of EX_DISCOVERY_SEND_EXT_INFO "(False, False)"] s'
        by (auto simp: resting_def split: if_splits)
    qed (use s' assms(1) in \<open>simp add: rx_EX_SEND_EXT_INFO_def Let_def\<close>)
  next
    case 5
    then show ?thesis using rx_any [OF assms(1) 5] assms(2) by simp
  qed
qed

lemma oam_inv_revision: "oam_inv s \<Longrightarrow> oam_inv (with_oams (\<lambda>t. t\<lparr> usRInfoTlvVer := v \<rparr>) s)"
  by (simp add: oam_inv_def with_oams_def enabled_def oam_wf_def)

lemma process_inv:
  assumes "oam_inv s" "eopl_oam_pdu_process e n s = Some s'"
  shows "oam_inv s'"
proof -
  define s1 where "s1 = rx_lone_info e (rx_note n s)"
  define s2 where "s2 = rx_flag_8 e (rx_flag_48 e s1)"
  have s1: "oam_inv s1" unfolding s1_def by (intro oam_inv_pre oam_inv_same [OF assms(1) note_moved])
  then have s2: "oam_inv s2" unfolding s2_def by (intro oam_inv_pre)
  have log: "oam_inv (log_call c s1)" for c by (rule oam_inv_core [OF s1 core_eq_log])
  have "oam_inv s'" if "rx_in_state (oam_st (oams s3)) e s3 = Some s'" "s3 = (if c then with_oams (\<lambda>t. t\<lparr> usRInfoTlvVer := v \<rparr>) s2 else s2)" for s3 c v
    using rx_in_state_inv [OF _ that(1)] that(2) s2 oam_inv_revision by simp
  then show ?thesis
    using assms(2) s2 log by (auto simp: eopl_oam_pdu_process_def Let_def s1_def [symmetric] s2_def [symmetric] split: if_splits)
qed

lemma receive_inv:
  assumes "oam_inv s" "eopl_oam_pdu_receive e frame s = Some (rc, s')"
  shows "oam_inv s'"
proof -
  have "oam_inv (s\<lparr> link_lost_cnt := 0, in_data := patch 0 fr (in_data s) \<rparr>)" if "length fr \<le> OAM_MAXIMUM_PDU_SIZE + 4" for fr
    using assms(1) that by (simp add: oam_inv_def oam_wf_def enabled_def length_patch)
  then have "oam_inv s'" if "length fr \<le> OAM_MAXIMUM_PDU_SIZE + 4"
      "eopl_oam_pdu_process e n (s\<lparr> link_lost_cnt := 0, in_data := patch 0 fr (in_data s) \<rparr>) = Some s'" for fr n
    using process_inv [OF _ that(2)] that(1) by simp
  then show ?thesis
    using assms by (auto simp: eopl_oam_pdu_receive_def not_less split: option.splits if_splits)
qed

interpretation oam_client: event_system "oam_step e" oam_inv for e
proof
  fix s s' ev
  assume inv: "oam_inv s" and step: "oam_step e ev s = Some s'"
  have same: "core_eq s (s\<lparr> link_lost_cnt := n, link_lost_flag := f \<rparr>)" "core_eq s (s\<lparr> link_lost_cnt := n \<rparr>)"
    "core_eq s (s\<lparr> link_lost_flag := f \<rparr>)" "core_eq s (s\<lparr> g_ucDbgOamSendNum := m \<rparr>)" "core_eq s (s\<lparr> g_ucOamActiveSend := m \<rparr>)" for s n f m
    by (simp_all add: core_eq_def oam_wf_def)
  have wf: "oam_inv s \<Longrightarrow> oam_wf s" for s by (simp add: oam_inv_def)
  show "oam_inv s'"
  proof (cases ev)
    case (Receive frame)
    then show ?thesis using step receive_inv [OF inv] by auto
  next
    case (Turn sec)
    have "oam_inv (OamInit e (s1\<lparr> link_lost_flag := False \<rparr>))" "oam_inv (log_call BoardReset (s1\<lparr> link_lost_flag := False \<rparr>))"
      if "oam_inv s1" for s1
      using oam_inv_core [OF that same(3)] oam_inv_init [OF wf] oam_inv_core [OF _ core_eq_log] by simp_all
    then show ?thesis
      using step Turn inv oam_inv_core [OF inv core_eq_info_send, of e]
      by (auto simp: timer_turn_def Let_def split: if_splits)
  qed (use step inv oam_inv_init [OF wf] oam_inv_core [OF inv same(1)] oam_inv_core [OF inv same(2)] oam_inv_core [OF inv same(4)]
      oam_inv_core [OF inv same(5)] oam_inv_core [OF inv core_eq_info_send, of e] in
      \<open>auto simp: TimerUnit_def LinkLostHandler_def OamDbgSendNumSet_def OamDbgActiveEnable_def Let_def split: if_splits\<close>)
qed

subsection \<open>The course of a discovery\<close>

declare oam_step.simps(1) [simp del]

definition frame_ok :: "u8 list \<Rightarrow> bool" where
  "frame_ok f \<longleftrightarrow> OAM_MINIMIZE_PDU_SIZE + 4 \<le> length f \<and> length f \<le> OAM_MAXIMUM_PDU_SIZE + 4"

lemma info_append: "i + 16 \<le> length f \<Longrightarrow> info_at i (f @ r) = info_at i f"
  by (simp add: info_at_def nth_append slice_append)

text \<open>What is read of a received frame does not depend on what the buffer held before.\<close>

lemma frame_fields:
  assumes "frame_ok f"
  shows "hdr_pcode (patch 0 f b) = hdr_pcode f" "hdr_flags (patch 0 f b) = hdr_flags f" "p_info (patch 0 f b) = p_info f"
    "pstRmtInfo (patch 0 f b) = pstRmtInfo f" "ucType (pstExInfoTlv (patch 0 f b)) = ucType (pstExInfoTlv f)"
    "ucLength (pstExInfoTlv (patch 0 f b)) = ucLength (pstExInfoTlv f)" "ex_aucOui (pstExInfoTlv (patch 0 f b)) = ex_aucOui (pstExInfoTlv f)"
    "local_info (patch 0 f b) = local_info f"
  using assms
  by (simp_all add: frame_ok_def patch_def hdr_pcode_def hdr_flags_def p_info_def pstRmtInfo_def pstExInfoTlv_def local_info_def
      nth_append slice_append info_append OAM_MINIMIZE_PDU_SIZE_def)

text \<open>An information PDU of a partner that is satisfied and has heard of the unit.\<close>

definition lone_info :: "u8 list \<Rightarrow> bool" where
  "lone_info f \<longleftrightarrow> local_info f \<and> info_type (pstRmtInfo f) = INFO_LOCAL_END \<and> info_length (pstRmtInfo f) = 0"

definition stable_info :: "u8 list \<Rightarrow> bool" where
  "stable_info f \<longleftrightarrow> hdr_pcode f = OAM_CODE_INFO \<and> READ_BITS (hdr_flags f) 0x10 \<noteq> 0 \<and> \<not> lone_info f"

text \<open>The discovery at its start.\<close>

definition waiting :: "oam_sys \<Rightarrow> bool" where
  "waiting s \<longleftrightarrow> oam_wf s \<and> oam_st (oams s) \<in> {DISCOVERY_ACTIVE_SEND_LOCAL, DISCOVERY_PASSIVE_WAIT} \<and> usRInfoTlvVer (oams s) = 0"

lemma waiting_init: "oam_wf s \<Longrightarrow> waiting (OamInit e s)"
  by (auto simp: waiting_def OamInit_facts start_state_def)

lemma waiting_kept:
  assumes "waiting s"
  shows "waiting (rx_note n s)" "waiting (rx_lone_info e s)" "waiting (rx_flag_48 e s)" "waiting (rx_flag_8 e s)"
proof -
  show "waiting (rx_note n s)" using assms moved_facts [OF note_moved [of s n]] by (simp add: waiting_def)
  have wf: "oam_wf s" using assms by (simp add: waiting_def)
  show "waiting (rx_lone_info e s)" using assms waiting_init [OF wf] by (simp add: rx_lone_info_def Let_def)
  show "waiting (rx_flag_48 e s)" using assms waiting_init [of "s\<lparr> flag48Found := True \<rparr>"] wf
    by (simp add: rx_flag_48_def Let_def oam_wf_def)
  have "oam_wf (log_call c (s\<lparr> flag8FoundCnt := m \<rparr>))" for c m using wf by (simp add: log_call_def oam_wf_def)
  then have "waiting (log_call c' (OamInit e (log_call c (s\<lparr> flag8FoundCnt := m \<rparr>))))" for c c' m
    using waiting_init [of "log_call c (s\<lparr> flag8FoundCnt := m \<rparr>)" e] by (simp add: waiting_def log_call_def oam_wf_def)
  moreover have "waiting (s\<lparr> flag8FoundCnt := m \<rparr>)" for m using assms by (simp add: waiting_def oam_wf_def)
  ultimately show "waiting (rx_flag_8 e s)" using assms by (simp add: rx_flag_8_def Let_def)
qed

lemma pre_in_data:
  "in_data (rx_note n s) = in_data s" "in_data (rx_lone_info e s) = in_data s" "in_data (rx_flag_48 e s) = in_data s"
  "in_data (rx_flag_8 e s) = in_data s"
  by (simp_all add: rx_note_def rx_lone_info_def rx_flag_48_def rx_flag_8_def with_oams_def log_call_def OamInit_facts Let_def)

lemma process_first:
  assumes "waiting s" "local_info (in_data s)"
  shows "\<exists>s'. eopl_oam_pdu_process e n s = Some s' \<and> oam_wf s' \<and> oam_st (oams s') = DISCOVERY_SEND_LOCAL_REMOTE_OK
    \<and> usRInfoTlvVer (oams s') = revision (p_info (in_data s))"
proof -
  define s1 where "s1 = rx_flag_8 e (rx_flag_48 e (rx_lone_info e (rx_note n s)))"
  define s2 where "s2 = with_oams (\<lambda>t. t\<lparr> usRInfoTlvVer := revision (p_info (in_data s)) \<rparr>) s1"
  have s1: "waiting s1" "in_data s1 = in_data s"
    by (simp_all add: s1_def waiting_kept assms(1) pre_in_data)
  have info: "hdr_pcode (in_data s) = OAM_CODE_INFO" "hdr_pcode (in_data s) \<noteq> OAM_CODE_ORG_SPEC"
    using assms(2) by (simp_all add: local_info_def oam_consts)
  have "oam_st (oams s2) = oam_st (oams s1)" by (simp add: s2_def with_oams_def)
  then have "rx_in_state (oam_st (oams s2)) e s2 = Some (rx_PASSIVE_WAIT e s2)"
    using s1(1) by (auto simp: waiting_def)
  then have run: "eopl_oam_pdu_process e n s = Some (rx_PASSIVE_WAIT e s2)"
    using info s1 by (simp add: eopl_oam_pdu_process_def Let_def pre_in_data s1_def [symmetric] s2_def [symmetric] waiting_def)
  have s2: "oam_wf s2" "in_data s2 = in_data s" "usRInfoTlvVer (oams s2) = revision (p_info (in_data s))"
    using s1 by (auto simp: s2_def with_oams_def waiting_def oam_wf_def)
  show ?thesis using moved_facts [OF rx_passive [of s2 e]] s2 assms(2) by (simp add: run)
qed

text \<open>A later PDU: the reasons to start again do not apply.\<close>

lemma process_later:
  assumes "stable_info (in_data s)" "usRInfoTlvVer (oams s) = 0 \<or> usRInfoTlvVer (oams s) < revision (p_info (in_data s))
    \<or> state_code DISCOVERY_SEND_ANY < state_code (oam_st (oams s))"
  shows "\<exists>s1. eopl_oam_pdu_process e n s = rx_in_state (oam_st (oams s)) e s1 \<and> in_data s1 = in_data s
    \<and> oam_st (oams s1) = oam_st (oams s) \<and> aucOui (oams s1) = aucOui (oams s) \<and> enabled s1 = enabled s \<and> (oam_wf s \<longrightarrow> oam_wf s1)"
proof -
  have flags: "hdr_flags (in_data s) \<noteq> 0x48" "hdr_flags (in_data s) \<noteq> 0x8"
    using assms(1) by (auto simp: stable_info_def READ_BITS_def)
  have info: "hdr_pcode (in_data s) = OAM_CODE_INFO" "hdr_pcode (in_data s) \<noteq> OAM_CODE_ORG_SPEC" "\<not> lone_info (in_data s)"
    using assms(1) by (simp_all add: stable_info_def oam_consts)
  have lone: "rx_lone_info e (rx_note n s) = rx_note n s"
    using info(3) by (auto simp: rx_lone_info_def pre_in_data lone_info_def Let_def)
  have quiet: "rx_flag_48 e (rx_note n s) = rx_note n s" "rx_flag_8 e (rx_note n s) = rx_note n s"
    using flags by (simp_all add: rx_flag_48_def rx_flag_8_def pre_in_data Let_def)
  note m = moved_facts [OF note_moved [of s n]]
  let ?s1 = "with_oams (\<lambda>t. t\<lparr> usRInfoTlvVer := revision (p_info (in_data s)) \<rparr>) (rx_note n s)"
  have "eopl_oam_pdu_process e n s = rx_in_state (oam_st (oams s)) e ?s1"
    using assms(2) info m
    by (simp add: eopl_oam_pdu_process_def Let_def lone quiet pre_in_data) (simp add: with_oams_def)
  moreover have "in_data ?s1 = in_data s" "oam_st (oams ?s1) = oam_st (oams s)" "aucOui (oams ?s1) = aucOui (oams s)"
    "enabled ?s1 = enabled s" "oam_wf s \<longrightarrow> oam_wf ?s1"
    using m by (auto simp: with_oams_def enabled_def oam_wf_def)
  ultimately show ?thesis by blast
qed

lemma receive_ok:
  assumes "frame_ok f"
  shows "oam_step e (Receive (Some f)) s
    = eopl_oam_pdu_process e (of_nat (length f)) (s\<lparr> link_lost_cnt := 0, in_data := patch 0 f (in_data s) \<rparr>)"
  using assms by (simp add: oam_step.simps(1) eopl_oam_pdu_receive_def frame_ok_def option.map_comp comp_def option.map_ident)

lemma buffered:
  assumes "frame_ok f" "oam_wf s"
  defines "s' \<equiv> s\<lparr> link_lost_cnt := 0, in_data := patch 0 f (in_data s) \<rparr>"
  shows "oam_wf s'" "oams s' = oams s" "enabled s' = enabled s" "in_data s' = patch 0 f (in_data s)"
    "stable_info (in_data s') = stable_info f" "waiting s' = waiting s"
  using assms
  by (simp_all add: s'_def oam_wf_def length_patch frame_ok_def enabled_def stable_info_def lone_info_def frame_fields waiting_def)

lemma step_first:
  assumes "frame_ok f" "waiting s" "local_info f"
  shows "\<exists>s'. oam_step e (Receive (Some f)) s = Some s' \<and> oam_wf s' \<and> oam_st (oams s') = DISCOVERY_SEND_LOCAL_REMOTE_OK
    \<and> usRInfoTlvVer (oams s') = revision (p_info f)"
proof -
  have wf: "oam_wf s" using assms(2) by (simp add: waiting_def)
  show ?thesis
    using process_first [of "s\<lparr> link_lost_cnt := 0, in_data := patch 0 f (in_data s) \<rparr>" e] buffered [OF assms(1) wf] assms
    by (simp add: receive_ok frame_fields)
qed

lemma step_later:
  assumes "frame_ok f" "oam_wf s" "stable_info f" "usRInfoTlvVer (oams s) = 0 \<or> usRInfoTlvVer (oams s) < revision (p_info f)
    \<or> state_code DISCOVERY_SEND_ANY < state_code (oam_st (oams s))"
  shows "\<exists>s1. oam_step e (Receive (Some f)) s = rx_in_state (oam_st (oams s)) e s1 \<and> in_data s1 = patch 0 f (in_data s)
    \<and> oam_st (oams s1) = oam_st (oams s) \<and> aucOui (oams s1) = aucOui (oams s) \<and> enabled s1 = enabled s \<and> oam_wf s1"
  using process_later [of "s\<lparr> link_lost_cnt := 0, in_data := patch 0 f (in_data s) \<rparr>" e "of_nat (length f)"] buffered [OF assms(1,2)] assms
  by (simp add: receive_ok frame_fields)

lemma step_ok:
  assumes "frame_ok f" "oam_wf s" "stable_info f" "oam_st (oams s) = DISCOVERY_SEND_LOCAL_REMOTE_OK"
    "usRInfoTlvVer (oams s) = 0 \<or> usRInfoTlvVer (oams s) < revision (p_info f)"
  shows "\<exists>s'. oam_step e (Receive (Some f)) s = Some s' \<and> oam_wf s' \<and> oam_st (oams s') = EX_DISCOVERY_PASSIVE_WAIT"
proof -
  obtain s1 where s1: "oam_step e (Receive (Some f)) s = Some (rx_SEND_LOCAL_REMOTE_OK e s1)" "in_data s1 = patch 0 f (in_data s)" "oam_wf s1"
    using step_later [OF assms(1-3), of e] assms(4,5) by auto
  then have "hdr_pcode (in_data s1) = OAM_CODE_INFO" "READ_BITS (hdr_flags (in_data s1)) 0x10 \<noteq> 0"
    using assms(1,3) by (simp_all add: frame_fields stable_info_def)
  from moved_facts [OF rx_ok [OF this(1), of e]] this show ?thesis using s1 by simp
qed

lemma step_ex_wait:
  assumes "frame_ok f" "oam_wf s" "stable_info f" "oam_st (oams s) = EX_DISCOVERY_PASSIVE_WAIT"
    "ucType (pstExInfoTlv f) = INFO_ORG_SPEC_TYPE" "0x0B \<le> ucLength (pstExInfoTlv f)"
  shows "\<exists>s'. oam_step e (Receive (Some f)) s = Some s' \<and> oam_wf s' \<and> oam_st (oams s') = EX_DISCOVERY_SEND_EXT_INFO
    \<and> aucOui (oams s') = ex_aucOui (pstExInfoTlv f)"
proof -
  obtain s1 where s1: "oam_step e (Receive (Some f)) s = Some (rx_EX_PASSIVE_WAIT e s1)" "in_data s1 = patch 0 f (in_data s)" "oam_wf s1"
    using step_later [OF assms(1-3), of e] assms(4) by auto
  then have info: "hdr_pcode (in_data s1) = OAM_CODE_INFO" using assms(1,3) by (simp add: frame_fields stable_info_def)
  have m: "moved EX_DISCOVERY_SEND_EXT_INFO (enabled s1) (with_oui (ex_aucOui (pstExInfoTlv f)) s1) (rx_EX_PASSIVE_WAIT e s1)"
    using rx_ex_wait [OF info s1(3), of e] assms(1,5,6) s1(2) by (simp add: frame_fields)
  have "length (ex_aucOui (pstExInfoTlv f)) = 3"
    using assms(1) by (simp add: pstExInfoTlv_def length_slice frame_ok_def OAM_MINIMIZE_PDU_SIZE_def)
  then have "oam_wf (with_oui (ex_aucOui (pstExInfoTlv f)) s1)" using s1(3) by (simp add: with_oui_def with_oams_def oam_wf_def)
  from moved_facts(1,5,6) [OF m] this show ?thesis using s1 by (simp add: with_oui_def with_oams_def)
qed

lemma step_ext_info:
  assumes "frame_ok f" "oam_wf s" "stable_info f" "oam_st (oams s) = EX_DISCOVERY_SEND_EXT_INFO"
    "ucType (pstExInfoTlv f) = INFO_ORG_SPEC_TYPE" "ex_aucOui (pstExInfoTlv f) = aucOui (oams s)"
  shows "\<exists>s'. oam_step e (Receive (Some f)) s = Some s' \<and> oam_st (oams s') = EX_DISCOVERY_SEND_ANY \<and> enabled s' = (True, True)"
proof -
  obtain s1 where s1: "oam_step e (Receive (Some f)) s = Some (rx_EX_SEND_EXT_INFO e s1)" "in_data s1 = patch 0 f (in_data s)"
    "oam_st (oams s1) = EX_DISCOVERY_SEND_EXT_INFO" "aucOui (oams s1) = aucOui (oams s)"
    using step_later [OF assms(1-3), of e] assms(4) by auto
  then have info: "hdr_pcode (in_data s1) = OAM_CODE_INFO" using assms(1,3) by (simp add: frame_fields stable_info_def)
  have "moved EX_DISCOVERY_SEND_ANY (True, True) s1 (rx_EX_SEND_EXT_INFO e s1)"
    using rx_ext_info [OF info s1(3), of e] assms(1,5,6) s1(2,4) by (simp add: frame_fields)
  from moved_facts(1,2) [OF this] show ?thesis using s1(1) by simp
qed

lemma discovery_runs:
  assumes "oam_wf s" "frame_ok f1" "frame_ok f2" "frame_ok f3" "frame_ok f4" "local_info f1" "stable_info f2" "stable_info f3" "stable_info f4"
    "revision (p_info f1) = 0 \<or> revision (p_info f1) < revision (p_info f2)"
    "ucType (pstExInfoTlv f3) = INFO_ORG_SPEC_TYPE" "0x0B \<le> ucLength (pstExInfoTlv f3)"
    "ucType (pstExInfoTlv f4) = INFO_ORG_SPEC_TYPE" "ex_aucOui (pstExInfoTlv f4) = ex_aucOui (pstExInfoTlv f3)"
  shows "\<exists>s'. run_events (oam_step e) [Receive (Some f1), Receive (Some f2), Receive (Some f3), Receive (Some f4)] (OamInit e s) = Some s'
    \<and> OamStatusGet s' = EX_DISCOVERY_SEND_ANY \<and> ge_trsmt_en s' \<and> pon_trsmt_en s'"
proof -
  obtain s1 where s1: "oam_step e (Receive (Some f1)) (OamInit e s) = Some s1" "oam_wf s1"
    "oam_st (oams s1) = DISCOVERY_SEND_LOCAL_REMOTE_OK" "usRInfoTlvVer (oams s1) = revision (p_info f1)"
    using step_first [OF assms(2) waiting_init [OF assms(1)] assms(6)] by blast
  obtain s2 where s2: "oam_step e (Receive (Some f2)) s1 = Some s2" "oam_wf s2" "oam_st (oams s2) = EX_DISCOVERY_PASSIVE_WAIT"
    using step_ok [OF assms(3) s1(2) assms(7) s1(3), of e] s1(4) assms(10) by auto
  obtain s3 where s3: "oam_step e (Receive (Some f3)) s2 = Some s3" "oam_wf s3" "oam_st (oams s3) = EX_DISCOVERY_SEND_EXT_INFO"
    "aucOui (oams s3) = ex_aucOui (pstExInfoTlv f3)"
    using step_ex_wait [OF assms(4) s2(2) assms(8) s2(3) assms(11,12)] by blast
  obtain s4 where "oam_step e (Receive (Some f4)) s3 = Some s4" "oam_st (oams s4) = EX_DISCOVERY_SEND_ANY" "enabled s4 = (True, True)"
    using step_ext_info [OF assms(5) s3(2) assms(9) s3(3) assms(13)] s3(4) assms(14) by auto
  then show ?thesis using s1(1) s2(1) s3(1) by (simp add: OamStatusGet_def enabled_def)
qed

subsection \<open>Information PDUs\<close>

lemma nth_within: "length pre = i \<Longrightarrow> (pre @ xs) ! (i + k) = xs ! k"
  by (simp add: nth_append)

lemma info_within: "length pre = i \<Longrightarrow> info_at i (pre @ xs) = info_at 0 xs"
  using nth_within [of pre i xs 0] by (simp only: info_at_def slice_within nth_within add_0 add_0_right)

lemma info_decodes:
  assumes "length pre = i" "length (tlv_oui t) = 3" "length (vendor_info t) = 4"
  shows "info_at i (pre @ info_bytes t @ post) = t"
proof -
  have "info_at 0 (info_bytes t @ post) = t"
    using assms(2,3) load16_store16_exact [of "revision t"] load16_store16_exact [of "tlv_oampdu_config t"]
    by (simp add: info_at_def info_bytes_def slice_of_def store16_def)
  then show ?thesis by (simp add: info_within [OF assms(1)])
qed

lemma info_buffer:
  assumes "length h = 18" "length l = 16" "length r = 16"
  shows "take 60 (patch 0 h (patch 34 r (patch 18 l (replicate 1522 0)))) = h @ l @ r @ replicate 10 0"
proof -
  have z: "replicate 1522 (0 :: u8) = replicate 18 0 @ replicate 16 0 @ replicate 16 0 @ replicate 1472 0"
    by (simp add: replicate_add [symmetric] append_assoc [symmetric] del: append_assoc)
  have "patch 18 l (replicate 1522 0) = replicate 18 0 @ l @ replicate 16 0 @ replicate 1472 0"
    unfolding z by (rule patch_split) (simp_all add: assms)
  moreover have "patch 34 r (replicate 18 0 @ l @ replicate 16 0 @ replicate 1472 0) = (replicate 18 0 @ l) @ r @ replicate 1472 0"
    using patch_split [of "replicate 18 0 @ l" 34 r "replicate 16 0" "replicate 1472 0"] assms by simp
  moreover have "patch 0 h ((replicate 18 0 @ l) @ r @ replicate 1472 0) = h @ l @ r @ replicate 1472 0"
    using patch_split [of "[]" 0 h "replicate 18 0" "l @ r @ replicate 1472 0"] assms by simp
  ultimately show ?thesis using assms by simp
qed

lemma send_infos_frame:
  assumes "oam_wf s"
  defines "frame \<equiv> hdr_bytes (oam_src_mac s) (oam_flags (oams s)) OAM_CODE_INFO @ fst (eopl_oam_info_tlv INFO_LOCAL_TYPE s)
    @ eopl_oam_remote_info_tlv INFO_REMOTE_TYPE s @ replicate 10 0"
  shows "calls (send_infos e s) = calls s @ [Eopl_host_send (host_pkt frame)]"
proof -
  let ?h = "hdr_bytes (oam_src_mac s) (oam_flags (oams s)) OAM_CODE_INFO" and ?l = "fst (eopl_oam_info_tlv INFO_LOCAL_TYPE s)"
    and ?r = "eopl_oam_remote_info_tlv INFO_REMOTE_TYPE s"
  have len: "length ?h = 18" "length ?l = 16" "length ?r = 16"
    using assms(1) by (simp_all add: oam_wf_def length_hdr eopl_oam_info_tlv_def eopl_oam_remote_info_tlv_def length_info
        oam_oui_def oam_onu_vendor_def Let_def)
  have "fst (two_infos s) = patch 34 ?r (patch 18 ?l (replicate 1522 0))"
    by (simp add: two_infos_def eopl_oam_info_tlv_def eopl_oam_remote_info_tlv_def OAM_MAXIMUM_PDU_SIZE_def Let_def)
  then have "take 60 (patch 0 ?h (fst (two_infos s))) = frame" using info_buffer [OF len] by (simp add: frame_def)
  then show ?thesis
    using two_infos_snd [of s]
    by (cases "two_infos s") (auto simp: send_infos_def request_out_def fill_infos_def eopl_oam_pdu_request_def frame_send_def
        log_call_def Let_def OAM_MINIMIZE_PDU_SIZE_def with_oams_def)
qed

subsection \<open>Long variable requests\<close>

definition tx_ok_request :: "nat \<Rightarrow> u8 list" where
  "tx_ok_request n = concat (replicate n ([OAM_BRANCH_STANDARD_ATTRIB] @ store16 OAM_ATTR_FRM_TX_OK)) @ [0]"

lemma tx_ok_request_Suc: "tx_ok_request (Suc n) @ r = 7 # 0 # 2 # tx_ok_request n @ r"
  by (simp add: tx_ok_request_def oam_consts store16_def)

lemma tx_ok_more:
  assumes "length (out_data s) = 1522" "g_usOutDataIdx s \<noteq> 0" "i = unat (g_usOutDataIdx s)" "i < 1600"
  shows "OamGetFrmTxOk s = None \<and> 1517 < i \<or>
    (\<exists>s'. OamGetFrmTxOk s = Some s' \<and> length (out_data s') = 1522 \<and> unat (g_usOutDataIdx s') = i + 8 \<and> i \<le> 1517)"
proof -
  have "unat (g_usOutDataIdx s + 8) = i + 8" using assms(3,4) by (simp add: unat_word_ariths)
  then show ?thesis using assms by (auto simp: OamGetFrmTxOk_def Let_def length_patch)
qed

lemma var_loop_more:
  assumes "length (out_data s) = 1522" "g_usOutDataIdx s \<noteq> 0" "unat (g_usOutDataIdx s) < 1600"
    "load16 (slice_of 1 2 d) = OAM_ATTR_FRM_TX_OK"
  shows "(if unat (g_usOutDataIdx s) + 8 * n \<le> 1525 \<or> n = 0
    then \<exists>s'. var_loop d (tx_ok_request n @ r) s = Some s' \<and> length (out_data s') = 1522
      \<and> unat (g_usOutDataIdx s') = unat (g_usOutDataIdx s) + 8 * n
    else var_loop d (tx_ok_request n @ r) s = None)"
  using assms
proof (induction n arbitrary: s)
  case 0
  then show ?case by (simp add: tx_ok_request_def)
next
  case (Suc n)
  have attr: "OamVarAttr d s = OamGetFrmTxOk s" using Suc.prems(4) by (simp add: OamVarAttr_def Let_def)
  from tx_ok_more [OF Suc.prems(1,2) refl Suc.prems(3)] show ?case
  proof
    assume "OamGetFrmTxOk s = None \<and> 1517 < unat (g_usOutDataIdx s)"
    then show ?case using attr by (simp add: tx_ok_request_Suc oam_consts)
  next
    assume "\<exists>s'. OamGetFrmTxOk s = Some s' \<and> length (out_data s') = 1522 \<and> unat (g_usOutDataIdx s') = unat (g_usOutDataIdx s) + 8
      \<and> unat (g_usOutDataIdx s) \<le> 1517"
    then obtain s' where s': "OamGetFrmTxOk s = Some s'" "length (out_data s') = 1522"
      "unat (g_usOutDataIdx s') = unat (g_usOutDataIdx s) + 8" "unat (g_usOutDataIdx s) \<le> 1517" by blast
    then have "g_usOutDataIdx s' \<noteq> 0" "unat (g_usOutDataIdx s') < 1600" by auto
    from Suc.IH [OF s'(2) this Suc.prems(4)] show ?case using s' attr
      by (auto simp: tx_ok_request_Suc oam_consts split: if_splits)
  qed
qed

lemma var_request:
  assumes "length (out_data s) = 1522" "length (oam_src_mac s) = 6" "g_usOutDataIdx s = 0"
  shows "OamVarReq e (tx_ok_request n @ r) s = None \<longleftrightarrow> 187 < n"
proof (cases n)
  case 0
  then show ?thesis
    using assms by (simp add: OamVarReq_def tx_ok_request_def OamFrameSend_def Let_def oam_consts)
next
  case (Suc m)
  let ?d = "tx_ok_request n @ r"
  have leaf: "load16 (slice_of 1 2 ?d) = OAM_ATTR_FRM_TX_OK"
    by (simp add: Suc tx_ok_request_Suc slice_of_def load16_def oam_consts)
  obtain s1 where s1: "OamGetFrmTxOk s = Some s1" "length (out_data s1) = 1522" "g_usOutDataIdx s1 = 26"
    using assms by (auto simp: OamGetFrmTxOk_def Let_def length_patch length_hdr)
  have first: "var_loop ?d ?d s = var_loop ?d (tx_ok_request m @ r) s1"
    using s1(1) leaf by (simp add: Suc tx_ok_request_Suc OamVarAttr_def Let_def oam_consts)
  have run: "if 26 + 8 * m \<le> 1525 \<or> m = 0
    then \<exists>s'. var_loop ?d ?d s = Some s' \<and> length (out_data s') = 1522 \<and> unat (g_usOutDataIdx s') = 26 + 8 * m
    else var_loop ?d ?d s = None"
  proof -
    have i: "unat (g_usOutDataIdx s1) = 26" "g_usOutDataIdx s1 \<noteq> 0" using s1(3) by simp_all
    show ?thesis using var_loop_more [OF s1(2) i(2) _ leaf, of m r] unfolding first i(1) by simp
  qed
  have short: "OamFrameSend e (take k b) s2 = None \<longleftrightarrow> 1517 < k" if "length b = 1522" "k \<le> 1522" for k b s2
    using that by (simp add: OamFrameSend_def OAM_MAXIMUM_PDU_SIZE_def min_def)
  show ?thesis
  proof (cases "m < 187")
    case True
    then obtain s' where s': "var_loop ?d ?d s = Some s'" "length (out_data s') = 1522" "unat (g_usOutDataIdx s') = 26 + 8 * m"
      using run by (auto split: if_splits)
    show ?thesis
      using s' True Suc short [of _ 60] short [OF s'(2), of "26 + 8 * m"]
      by (auto simp: OamVarReq_def Let_def oam_pdu_padding_def length_patch OAM_MINIMIZE_PDU_SIZE_def)
  next
    case False
    show ?thesis
    proof (cases "m = 187")
      case m: True
      then obtain s' where "var_loop ?d ?d s = Some s'" "length (out_data s') = 1522" "unat (g_usOutDataIdx s') = 1522"
        using run by auto
      then show ?thesis using m Suc by (simp add: OamVarReq_def Let_def OamFrameSend_def OAM_MINIMIZE_PDU_SIZE_def OAM_MAXIMUM_PDU_SIZE_def)
    qed (use False run Suc in \<open>simp add: OamVarReq_def\<close>)
  qed
qed

lemma receive_var_request:
  assumes "oam_wf s" "oam_st (oams s) = EX_DISCOVERY_SEND_ANY" "frame_ok f" "hdr_pcode f = OAM_CODE_VARIABLE_REQ"
  shows "\<exists>s1. oam_step e (Receive (Some f)) s = OamVarReq e (drop 22 f @ drop (length f) (in_data s)) s1 \<and> oam_wf s1
    \<and> g_usOutDataIdx s1 = g_usOutDataIdx s"
proof -
  let ?s0 = "s\<lparr> link_lost_cnt := 0, in_data := patch 0 f (in_data s) \<rparr>" and ?n = "of_nat (length f)"
  have code: "hdr_pcode (in_data ?s0) = OAM_CODE_VARIABLE_REQ" using assms(3,4) by (simp add: frame_fields)
  then have pre: "rx_lone_info e (rx_note ?n ?s0) = rx_note ?n ?s0" "rx_flag_48 e (rx_note ?n ?s0) = rx_note ?n ?s0"
    "rx_flag_8 e (rx_note ?n ?s0) = rx_note ?n ?s0"
    by (simp_all add: rx_lone_info_def rx_flag_48_def rx_flag_8_def local_info_def pre_in_data oam_consts Let_def)
  have wf: "oam_wf ?s0" using buffered(1) [OF assms(3,1)] .
  note m = moved_facts [OF note_moved [of ?s0 ?n]]
  have "drop 22 (patch 0 f (in_data s)) = drop 22 f @ drop (length f) (in_data s)"
    using assms(3) by (simp add: patch_def frame_ok_def OAM_MINIMIZE_PDU_SIZE_def)
  then have "oam_step e (Receive (Some f)) s = OamVarReq e (drop 22 f @ drop (length f) (in_data s)) (rx_note ?n ?s0)"
    using code assms(2) m(1) by (simp add: receive_ok [OF assms(3)] eopl_oam_pdu_process_def Let_def pre pre_in_data rx_EX_SEND_ANY_def)
      (simp add: oam_consts)
  moreover have "g_usOutDataIdx (rx_note ?n ?s0) = g_usOutDataIdx s"
    by (simp add: rx_note_def with_oams_def Let_def)
  ultimately show ?thesis using m(6) [OF wf] by blast
qed

subsection \<open>Example\<close>

definition example_oam_state :: oam_state where
  "example_oam_state = \<lparr> local_pdu = PDU_RX_INFO, local_oam_mode = OAM_MODE_0, local_link_timer_running = False, action_state = 0,
     remote_action_state = 0, oam_flags = 0, oam_config = 0, remote_oam_config = 0, oampdu_config = 0, remote_oampdu_config = 0,
     oam_st = EX_DISCOVERY_SEND_ANY, OAM_Ext_Status = False, remote_state_valid = False, local_satisfied = False, local_stable = False,
     usLInfoTlvVer = 0, usRInfoTlvVer = 0, ucOamVersion = 0, ucRmtOamVer = 0, aucOui = [0, 0, 0], aucRmtOui = [0, 0, 0], ucExVer = 0,
     aucVendor = [0, 0, 0, 0], aucRmtVendor = [0, 0, 0, 0] \<rparr>"

definition example_oam :: oam_sys where
  "example_oam = \<lparr> oams = example_oam_state, oam_ver_type = 0, oam_cfg_ver_type = 0, oam_src_mac = [0, 7, 0x49, 8, 0x30, 0xc8],
     olt_mac_addr = [0, 0, 0, 0, 0, 0], in_data = replicate 1522 0, in_data_len = 0, out_data = replicate 1522 0,
     aucTimeOut = replicate 1522 0, g_usOutDataIdx = 0, eopl_remote_info = replicate 16 0, flag48Found = False, flag8FoundCnt = 0,
     g_iOamAuthCode = 0, g_ucDbgOamSendNum = 1, g_ucOamActiveSend = 0, link_lost_cnt = 0, link_lost_flag = False, oamTx = 0,
     oamTxFail = 0, ge_trsmt_en = False, pon_trsmt_en = False, pon_lp = False, pon_cfg = None, calls = [] \<rparr>"

definition example_oam_env :: oam_env where
  "example_oam_env = \<lparr> eopl_host_send = \<lambda>cs pkt. 0, IS_ONU_RESPIN = True, oam_lost_link_flag = False \<rparr>"

lemma example_oam_wf: "oam_wf example_oam"
  by (simp add: oam_wf_def example_oam_def example_oam_state_def OAM_MAXIMUM_PDU_SIZE_def)

definition example_info :: "u8 \<Rightarrow> u16 \<Rightarrow> u8 list" where
  "example_info ty n = info_bytes \<lparr> info_type = ty, info_length = 0x10, tlv_oam_version = 1, revision = n, tlv_state = 0,
     tlv_oam_config = 0x1d, tlv_oampdu_config = 1518, tlv_oui = [0, 0x0c, 0xd5], vendor_info = [0, 0, 0, 0] \<rparr>"

text \<open>The frames of a line terminal.\<close>

definition example_olt_frame :: "u16 \<Rightarrow> u16 \<Rightarrow> u8 list \<Rightarrow> u8 list" where
  "example_olt_frame flags n rest = [0, 0, 0, 0] @ hdr_bytes [0, 0x0c, 0xd5, 1, 2, 3] flags OAM_CODE_INFO @ example_info INFO_LOCAL_TYPE n @ rest"

definition olt1 :: "u8 list" where "olt1 = example_olt_frame 0x08 1 (replicate 26 0)"
definition olt2 :: "u8 list" where "olt2 = example_olt_frame 0x50 2 (example_info INFO_REMOTE_TYPE 4 @ replicate 10 0)"
definition olt3 :: "u8 list" where
  "olt3 = example_olt_frame 0x50 3 (example_info INFO_REMOTE_TYPE 5 @ [0xFE, 0x0B, 0x11, 0x11, 0x11, 1, 0, 0x11, 0x11, 0x11, 0x20])"
definition olt4 :: "u8 list" where
  "olt4 = example_olt_frame 0x50 4 (example_info INFO_REMOTE_TYPE 6 @ [0xFE, 0x07, 0x11, 0x11, 0x11, 1, 0x20, 0, 0, 0])"

lemma olt_frames:
  "frame_ok olt1" "frame_ok olt2" "frame_ok olt3" "frame_ok olt4" "local_info olt1" "stable_info olt2" "stable_info olt3" "stable_info olt4"
  "revision (p_info olt1) = 0 \<or> revision (p_info olt1) < revision (p_info olt2)"
  "ucType (pstExInfoTlv olt3) = INFO_ORG_SPEC_TYPE" "0x0B \<le> ucLength (pstExInfoTlv olt3)"
  "ucType (pstExInfoTlv olt4) = INFO_ORG_SPEC_TYPE" "ex_aucOui (pstExInfoTlv olt4) = ex_aucOui (pstExInfoTlv olt3)"
  by code_simp+

subsection \<open>Properties\<close>

text \<open>C19: user traffic is let through only after the discovery. Whatever frames are received and whatever
  the timers do, the transmission of the Ethernet and of the optical port is switched on only
  while the extended discovery is complete.\<close>

theorem user_traffic_gated:
  assumes "oam_wf s" "run_events (oam_step e) evs (OamInit e s) = Some s'" "ge_trsmt_en s' \<or> pon_trsmt_en s'"
  shows "OamStatusGet s' = EX_DISCOVERY_SEND_ANY"
  using oam_client.run_kept [OF assms(2) oam_inv_init [OF assms(1)]] assms(3)
  by (auto simp: oam_inv_def enabled_def OamStatusGet_def)

theorem user_traffic_gated_witness:
  "\<exists>s'. run_events (oam_step example_oam_env) [Receive (Some olt1), Receive (Some olt2), Receive (Some olt3), Receive (Some olt4)]
       (OamInit example_oam_env example_oam) = Some s' \<and> ge_trsmt_en s' \<and> OamStatusGet s' = EX_DISCOVERY_SEND_ANY"
proof -
  obtain s' where s': "run_events (oam_step example_oam_env) [Receive (Some olt1), Receive (Some olt2), Receive (Some olt3), Receive (Some olt4)]
       (OamInit example_oam_env example_oam) = Some s'" "ge_trsmt_en s'"
    using discovery_runs [OF example_oam_wf olt_frames] by blast
  with user_traffic_gated [OF example_oam_wf s'(1)] show ?thesis by blast
qed

text \<open>C22: between two events the discovery is in one of six of its twelve states (the fault state, the
  negative acknowledgement and four others are never rested in), and the buffers and identifiers
  keep their sizes, so that the fixed positions at which the code reads and writes lie inside.\<close>

theorem oam_state_well_formed:
  assumes "oam_wf s" "run_events (oam_step e) evs (OamInit e s) = Some s'"
  shows "OamStatusGet s' \<in> {DISCOVERY_ACTIVE_SEND_LOCAL, DISCOVERY_PASSIVE_WAIT, DISCOVERY_SEND_LOCAL_REMOTE_OK,
      EX_DISCOVERY_PASSIVE_WAIT, EX_DISCOVERY_SEND_EXT_INFO, EX_DISCOVERY_SEND_ANY}
    \<and> length (in_data s') = 1522 \<and> length (out_data s') = 1522
    \<and> length (aucOui (oams s')) = 3 \<and> length (aucRmtOui (oams s')) = 3 \<and> length (aucRmtVendor (oams s')) = 4"
  using oam_client.run_kept [OF assms(2) oam_inv_init [OF assms(1)]]
  by (auto simp: oam_inv_def resting_def OamStatusGet_def oam_wf_def OAM_MAXIMUM_PDU_SIZE_def)

theorem oam_state_well_formed_witness:
  "length (in_data (TimerUnit (OamInit example_oam_env example_oam))) = 1522"
proof -
  have "run_events (oam_step example_oam_env) [Tick] (OamInit example_oam_env example_oam) = Some (TimerUnit (OamInit example_oam_env example_oam))"
    by simp
  from oam_state_well_formed [OF example_oam_wf this] show ?thesis by blast
qed

text \<open>C20: the discovery completes with a partner that plays its part: a first information PDU, a newer one
  that reports the partner stable, one that offers the extension and one that confirms it under
  the same identifier. User traffic is then let through.\<close>

theorem discovery_completes:
  assumes "oam_wf s" "frame_ok f1" "frame_ok f2" "frame_ok f3" "frame_ok f4" "local_info f1" "stable_info f2" "stable_info f3" "stable_info f4"
    "revision (p_info f1) = 0 \<or> revision (p_info f1) < revision (p_info f2)"
    "ucType (pstExInfoTlv f3) = INFO_ORG_SPEC_TYPE" "0x0B \<le> ucLength (pstExInfoTlv f3)"
    "ucType (pstExInfoTlv f4) = INFO_ORG_SPEC_TYPE" "ex_aucOui (pstExInfoTlv f4) = ex_aucOui (pstExInfoTlv f3)"
  shows "\<exists>s'. run_events (oam_step e) [Receive (Some f1), Receive (Some f2), Receive (Some f3), Receive (Some f4)] (OamInit e s) = Some s'
    \<and> OamStatusGet s' = EX_DISCOVERY_SEND_ANY \<and> ge_trsmt_en s' \<and> pon_trsmt_en s'"
  using discovery_runs [OF assms] .

theorem discovery_completes_witness:
  "\<exists>s'. run_events (oam_step example_oam_env) [Receive (Some olt1), Receive (Some olt2), Receive (Some olt3), Receive (Some olt4)]
       (OamInit example_oam_env example_oam) = Some s' \<and> ge_trsmt_en s'"
  using discovery_completes [OF example_oam_wf olt_frames] by blast

text \<open>C21: an information PDU that is sent says what it should: received by a partner (behind the four bytes
  of the host interface), its header carries the flags, its first TLV the local and its second the
  remote settings.\<close>

theorem info_pdu_decodes:
  assumes "oam_wf s" "length h = 4"
  shows "\<exists>frame. calls (send_infos e s) = calls s @ [Eopl_host_send (host_pkt frame)] \<and> length frame = OAM_MINIMIZE_PDU_SIZE
    \<and> local_info (h @ frame) \<and> hdr_flags (h @ frame) = oam_flags (oams s)
    \<and> p_info (h @ frame) = \<lparr> info_type = INFO_LOCAL_TYPE, info_length = 0x10, tlv_oam_version = 1, revision = usLInfoTlvVer (oams s),
         tlv_state = action_state (oams s), tlv_oam_config = oam_config (oams s), tlv_oampdu_config = oampdu_config (oams s),
         tlv_oui = oam_oui, vendor_info = oam_onu_vendor \<rparr>
    \<and> take_remote (pstRmtInfo (h @ frame)) (oams s) = oams s \<and> revision (pstRmtInfo (h @ frame)) = usRInfoTlvVer (oams s)"
proof -
  define L where "L = \<lparr> info_type = INFO_LOCAL_TYPE, info_length = 0x10, tlv_oam_version = 1, revision = usLInfoTlvVer (oams s),
    tlv_state = action_state (oams s), tlv_oam_config = oam_config (oams s), tlv_oampdu_config = oampdu_config (oams s),
    tlv_oui = oam_oui, vendor_info = oam_onu_vendor \<rparr>"
  define R where "R = \<lparr> info_type = INFO_REMOTE_TYPE, info_length = 0x10, tlv_oam_version = ucRmtOamVer (oams s),
    revision = usRInfoTlvVer (oams s), tlv_state = remote_action_state (oams s), tlv_oam_config = remote_oam_config (oams s),
    tlv_oampdu_config = remote_oampdu_config (oams s), tlv_oui = aucRmtOui (oams s), vendor_info = aucRmtVendor (oams s) \<rparr>"
  let ?h = "hdr_bytes (oam_src_mac s) (oam_flags (oams s)) OAM_CODE_INFO"
  let ?frame = "?h @ info_bytes L @ info_bytes R @ replicate 10 0"
  have mac: "length (oam_src_mac s) = 6" using assms(1) by (simp add: oam_wf_def)
  have oui: "length (tlv_oui L) = 3" "length (vendor_info L) = 4" "length (tlv_oui R) = 3" "length (vendor_info R) = 4"
    using assms(1) by (simp_all add: L_def R_def oam_wf_def oam_oui_def oam_onu_vendor_def)
  then have len: "length ?h = 18" "length (info_bytes L) = 16" "length (info_bytes R) = 16" by (simp_all add: length_hdr mac length_info)
  have p: "p_info (h @ ?frame) = L"
    using info_decodes [of "h @ ?h" 22 L "info_bytes R @ replicate 10 0"] len assms(2) oui by (simp add: p_info_def)
  have r: "pstRmtInfo (h @ ?frame) = R"
    using info_decodes [of "h @ ?h @ info_bytes L" 38 R "replicate 10 0"] len assms(2) oui by (simp add: pstRmtInfo_def)
  let ?pre = "h @ oam_dest_mac @ oam_src_mac s @ oam_length_type @ [3]"
  have pre: "length ?pre = 19" using assms(2) mac by (simp add: oam_dest_mac_def oam_length_type_def)
  have split: "h @ ?frame = ?pre @ store16 (oam_flags (oams s)) @ [OAM_CODE_INFO] @ info_bytes L @ info_bytes R @ replicate 10 0"
    by (simp add: hdr_bytes_def)
  have f: "hdr_flags (h @ ?frame) = oam_flags (oams s)" "hdr_pcode (h @ ?frame) = OAM_CODE_INFO"
    unfolding split hdr_flags_def hdr_pcode_def
    using slice_within [OF pre, of 0 2] nth_within [OF pre, of _ 2] load16_store16_exact [of "oam_flags (oams s)"]
    by (simp_all add: slice_of_def store16_def)
  have "calls (send_infos e s) = calls s @ [Eopl_host_send (host_pkt ?frame)]"
    using send_infos_frame [OF assms(1), of e] by (simp add: eopl_oam_info_tlv_def eopl_oam_remote_info_tlv_def L_def R_def Let_def)
  moreover have "length ?frame = OAM_MINIMIZE_PDU_SIZE" by (simp add: len OAM_MINIMIZE_PDU_SIZE_def)
  moreover have "local_info (h @ ?frame)" by (simp only: local_info_def p f) (simp add: L_def)
  moreover have "take_remote R (oams s) = oams s" "revision R = usRInfoTlvVer (oams s)" by (simp_all add: R_def take_remote_def)
  ultimately show ?thesis using p r f by (intro exI [of _ ?frame]) (simp only: L_def simp_thms)
qed

theorem info_pdu_decodes_witness:
  "\<exists>frame. calls (send_infos example_oam_env example_oam) = [Eopl_host_send (host_pkt frame)] \<and> local_info ([0, 0, 0, 0] @ frame)"
proof -
  have "calls example_oam = []" by (simp add: example_oam_def)
  then show ?thesis using info_pdu_decodes [OF example_oam_wf, of "[0, 0, 0, 0]" example_oam_env] by auto
qed

text \<open>C38: a variable request can overrun the buffers. A frame of legal size that asks for the same counter
  188 times or more, received after the discovery, makes the answer longer than the arrays it is
  built in.\<close>

theorem variable_request_overflow:
  assumes "oam_wf s" "OamStatusGet s = EX_DISCOVERY_SEND_ANY" "g_usOutDataIdx s = 0" "frame_ok f"
    "hdr_pcode f = OAM_CODE_VARIABLE_REQ" "drop 22 f = tx_ok_request n @ pad"
  shows "eopl_oam_pdu_receive e (Some f) s = None \<longleftrightarrow> 187 < n"
proof -
  obtain s1 where s1: "oam_step e (Receive (Some f)) s = OamVarReq e (tx_ok_request n @ pad @ drop (length f) (in_data s)) s1"
    "oam_wf s1" "g_usOutDataIdx s1 = 0"
    using receive_var_request [OF assms(1) _ assms(4,5), of e] assms(2,3,6) by (auto simp: OamStatusGet_def)
  have "oam_step e (Receive (Some f)) s = None \<longleftrightarrow> 187 < n"
    using var_request [of s1 e n] s1 by (simp add: oam_wf_def OAM_MAXIMUM_PDU_SIZE_def)
  then show ?thesis by (simp add: oam_step.simps(1))
qed

theorem variable_request_overflow_witness:
  "eopl_oam_pdu_receive example_oam_env (Some (replicate 21 0 @ [2] @ tx_ok_request 188)) example_oam = None"
proof -
  have len: "length (tx_ok_request 188) = 565" by (simp add: tx_ok_request_def length_concat sum_list_replicate)
  show ?thesis
    using variable_request_overflow [of example_oam "replicate 21 0 @ [2] @ tx_ok_request 188" 188 "[]" example_oam_env] len
    by (simp add: example_oam_wf frame_ok_def hdr_pcode_def nth_append oam_consts)
       (simp add: example_oam_def example_oam_state_def OamStatusGet_def)
qed

end
