(* ===== verification/Mc_Tables.thy ===== *)
theory Mc_Tables
  imports Vos_Config Vos_Bytes
begin

unbundle bit_operations_syntax

text \<open>
  The tables of the multicast control (\<^verbatim>\<open>multicast/src/mc_control.c\<close>, \<^verbatim>\<open>multicast/h/mc_control.h\<close>): the
  multicast groups of each port with the hosts that have joined them, the multicast VLANs, the
  operation on tags, the translation of VLANs and the router ports. The build for the four-port
  board with the AR8228 switch is modelled (\<^verbatim>\<open>ONU_4PORT_AR8228\<close>). A list of the source
  (\<^verbatim>\<open>clList\<close>, \<^verbatim>\<open>opapi_comm_list.c\<close>) is a list, a pointer to one of its nodes the position. An array that is
  indexed by port or VLAN numbers is a function. Fields that are assigned and never read are left
  out. Allocation succeeds.
\<close>

subsection \<open>Constants\<close>

definition OPL_OK :: int where "OPL_OK = 0"
definition OPL_ERROR :: int where "OPL_ERROR = - 1"
definition OPL_BAD_PARA :: int where "OPL_BAD_PARA = - 2"
definition OPL_EXIST :: int where "OPL_EXIST = - 4"
definition OPL_NOT_EXIST :: int where "OPL_NOT_EXIST = - 5"
definition OPL_FULL :: int where "OPL_FULL = - 13"

lemmas opl_codes = OPL_OK_def OPL_ERROR_def OPL_BAD_PARA_def OPL_EXIST_def OPL_NOT_EXIST_def OPL_FULL_def

definition PORT_PON_LOGIC :: u32 where "PORT_PON_LOGIC = 0"
definition ODM_START_PORT_NUN :: u32 where "ODM_START_PORT_NUN = 1"
definition ODM_NUM_OF_PORTS :: u32 where "ODM_NUM_OF_PORTS = 4"

text \<open>The loop \<^verbatim>\<open>for (i = ODM_START_PORT_NUN; i < ODM_NUM_OF_PORTS + 1; i++)\<close>.\<close>

definition host_ports :: "u32 list" where "host_ports = [1, 2, 3, 4]"

definition IS_VALID_PORT_ID :: "u32 \<Rightarrow> bool" where
  "IS_VALID_PORT_ID pid \<longleftrightarrow> ODM_START_PORT_NUN \<le> pid \<and> pid \<le> ODM_NUM_OF_PORTS"

definition IS_VALID_VLAN_ID :: "u32 \<Rightarrow> bool" where
  "IS_VALID_VLAN_ID vid \<longleftrightarrow> vid \<le> 4095"

definition MC_BITMAP_GDA_MAC :: u32 where "MC_BITMAP_GDA_MAC = 1"
definition MC_BITMAP_GDA_IP :: u32 where "MC_BITMAP_GDA_IP = 2"
definition MC_BITMAP_HOST_PORT_ID :: u32 where "MC_BITMAP_HOST_PORT_ID = 4"
definition MC_BITMAP_VLAN_ID :: u32 where "MC_BITMAP_VLAN_ID = 8"
definition MC_BITMAP_SA_MAC :: u32 where "MC_BITMAP_SA_MAC = 16"
definition MC_BITMAP_HOST_SRC_IP :: u32 where "MC_BITMAP_HOST_SRC_IP = 32"
definition MC_BITMAP_HOST_SA_MAC :: u32 where "MC_BITMAP_HOST_SA_MAC = 64"

lemmas mc_bits = MC_BITMAP_GDA_MAC_def MC_BITMAP_GDA_IP_def MC_BITMAP_HOST_PORT_ID_def MC_BITMAP_VLAN_ID_def
  MC_BITMAP_SA_MAC_def MC_BITMAP_HOST_SRC_IP_def MC_BITMAP_HOST_SA_MAC_def

definition CTC_CONTROL_BITMAP_GDA_MAC :: u32 where "CTC_CONTROL_BITMAP_GDA_MAC = MC_BITMAP_GDA_MAC OR MC_BITMAP_HOST_PORT_ID"
definition CTC_CONTROL_BITMAP_GDA_MAC_VLAN_ID :: u32 where
  "CTC_CONTROL_BITMAP_GDA_MAC_VLAN_ID = MC_BITMAP_GDA_MAC OR MC_BITMAP_HOST_PORT_ID"
definition CTC_CONTROL_BITMAP_GDA_MAC_SA_MAC :: u32 where
  "CTC_CONTROL_BITMAP_GDA_MAC_SA_MAC = MC_BITMAP_GDA_MAC OR MC_BITMAP_SA_MAC OR MC_BITMAP_HOST_PORT_ID"
definition CTC_CONTROL_BITMAP_GDA_IP_VLAN_ID :: u32 where
  "CTC_CONTROL_BITMAP_GDA_IP_VLAN_ID = MC_BITMAP_GDA_IP OR MC_BITMAP_HOST_PORT_ID"

definition MC_MODE_SNOOPING :: u32 where "MC_MODE_SNOOPING = 0"
definition MC_MODE_CTC :: u32 where "MC_MODE_CTC = 1"
definition MC_LEAVE_MODE_NON_FAST_LEAVE :: u32 where "MC_LEAVE_MODE_NON_FAST_LEAVE = 1"
definition MC_LEAVE_MODE_FAST :: u32 where "MC_LEAVE_MODE_FAST = 2"
definition MC_CTL_GDA_MAC :: u32 where "MC_CTL_GDA_MAC = 0"
definition MC_CTL_GDA_MAC_VID :: u32 where "MC_CTL_GDA_MAC_VID = 1"
definition MC_CTL_GDA_GDA_SA_MAC :: u32 where "MC_CTL_GDA_GDA_SA_MAC = 2"
definition MC_CTL_GDA_GDA_IP_VID :: u32 where "MC_CTL_GDA_GDA_IP_VID = 3"
definition MC_TAG_OPER_MODE_TRANSPARENT :: u32 where "MC_TAG_OPER_MODE_TRANSPARENT = 0"
definition MC_TAG_OPER_MODE_STRIP :: u32 where "MC_TAG_OPER_MODE_STRIP = 1"
definition MC_TAG_OPER_MODE_TRANSLATION :: u32 where "MC_TAG_OPER_MODE_TRANSLATION = 2"
definition GROUP_STATE_LEARNING :: u32 where "GROUP_STATE_LEARNING = 0"
definition GROUP_STATE_CONFIG_BY_OAM :: u32 where "GROUP_STATE_CONFIG_BY_OAM = 2"
definition MC_ROUTER_PORT_NUM :: nat where "MC_ROUTER_PORT_NUM = 1"
definition MC_VLAN_TRANSLATION_ENTRY :: nat where "MC_VLAN_TRANSLATION_ENTRY = 1024"

subsection \<open>Data\<close>

record MC_HOST_t =
  h_saMac :: "u8 list"
  h_srcIp :: u32
  h_state :: u32
  h_hostAgingTime :: u32
  h_isLastReportRecevied :: bool
  h_isNonFastLeaveTimerStart :: bool

record MC_GROUP_t =
  groupMac :: "u8 list"
  groupAddress :: u32
  mcVlan :: u32
  hostPortId :: u32
  g_state :: u32
  hostList :: "MC_HOST_t list"
  hostTotalNum :: u32
  g_hostAgingTime :: u32
  g_isLastReportRecevied :: bool
  g_isNonFastLeaveTimerStart :: bool

record MC_CONTROL_t =
  mcRecvEn :: u32
  mcMode :: u32
  leaveMode :: u32
  ctcControlType :: u32
  mc_bitmap :: u32
  hostBitmap :: u32
  cb_hostAgingTime :: u32
  lastQueryInterval :: u32
  lastQueryCount :: u32
  maxGroupNum :: "u32 \<Rightarrow> u32"
  isInitialized :: bool

record MC_VLAN_TRANSLATION_ENTRY_t =
  vt_enable :: bool
  vt_portId :: u32
  vt_mcVid :: u32
  vt_userVid :: u32

record MC_ROUTER_PORT_ENTRY_t =
  rp_enable :: bool
  routerPortId :: u32

record MC_CONTROL_STATS_t =
  generalQueryV1RxCount :: u32
  generalQueryV2RxCount :: u32
  groupSpecificV2QueryRxCount :: u32
  otherHostRxUnknownCount :: u32
  otherRouterRxUnknownCount :: u32
  joinReportV1RxCount :: u32
  joinReportV2RxCount :: u32
  leaveV2RxCount :: u32
  memAllocCount :: u32
  memfreeCount :: u32

datatype TAG_TYPE_t = TAG_TYPE_UNTAG | TAG_TYPE_SINGLE_TAG

record MC_PACKET_DESC_t =
  igmpGroupMac :: "u8 list"
  daMac :: "u8 list"
  saMac :: "u8 list"
  cTpid :: u32
  cVlan :: u32
  destIp :: u32
  srcIp :: u32
  igmpType :: u32
  igmpMaxRespTime :: u32
  igmpGroupAdress :: u32
  ingressPacketLength :: nat
  ingressPacket :: "u8 list"
  ingressPortId :: u32
  ingressTagType :: TAG_TYPE_t
  d_isNonFastLeaveTimerStart :: bool

datatype MC_TIMER_MSG_TYPE_e = MC_SNOOP_NON_FAST_LEAVE | MC_CTC_LEAVE_ACTIVE

text \<open>The calls into the drivers.\<close>

datatype mc_call =
    DalArlMultiPortMacAdd u32 "u8 list" u32
  | DalArlMultiPortMacDel u32 "u8 list" u32
  | Eopl_send_to_uplink u32 "u8 list"
  | Eopl_send_to_down_link u32 "u8 list"
  | DalMulticastVlanCreate u32
  | DalMulticastVlanDelete u32
  | DalMulticastVlanAddPort u32 u32
  | DalMulticastVlanDelPort u32 u32
  | DalVttTagEntryAdd u32 u32 u32
  | DalVttTagEntryDel u32 u32 u32
  | DalMulticastPortVlanMacAdd u32 u32 "u8 list" bool
  | DalMulticastPortVlanMacDel u32 u32 "u8 list" bool
  | DalMulticastRuleDelAll
  | DalMulticastInit
  | DalMulticastEnable
  | DalMulticastDisable

text \<open>
  The file-scope variables. \<open>mc_timers\<close> are the timers of pending leaves that run, with the
  descriptor each was started with; \<open>leave_ticks\<close> and \<open>ctc_leave_ticks\<close> are the static variables
  \<^verbatim>\<open>i\<close> of the two functions that run when such a timer expires.
\<close>

record mc_sys =
  mcb :: MC_CONTROL_t
  mcVlanMap :: "u32 \<Rightarrow> u32"
  mcTagOperPerPort :: "u32 \<Rightarrow> u32"
  mcTagTranslationTable :: "MC_VLAN_TRANSLATION_ENTRY_t list"
  mcRouterPort :: "MC_ROUTER_PORT_ENTRY_t list"
  mcGroupList :: "MC_GROUP_t list"
  mcGroupTotalNum :: u32
  mcControlStats :: MC_CONTROL_STATS_t
  leave_ticks :: u32
  ctc_leave_ticks :: u32
  mc_timers :: "(MC_TIMER_MSG_TYPE_e \<times> MC_PACKET_DESC_t) list"
  mc_calls :: "mc_call list"
  mc_cfg :: config

text \<open>
  What the sources do not determine: the contents of fresh memory, the addresses of the unit, the
  VLAN of a port, and whether a further timer is free when some are in use.
\<close>

record mc_env =
  fresh_memory :: "u8 list"
  vosHWAddrGet :: "u8 list option"
  vosIPAddrGet :: "u32 option"
  dalPortPvidGet :: "u32 \<Rightarrow> u16"
  vosTimerGetFree :: "nat \<Rightarrow> bool"

definition mc_log :: "mc_call \<Rightarrow> mc_sys \<Rightarrow> mc_sys" where
  "mc_log c s = s\<lparr> mc_calls := mc_calls s @ [c] \<rparr>"

definition with_stats :: "(MC_CONTROL_STATS_t \<Rightarrow> MC_CONTROL_STATS_t) \<Rightarrow> mc_sys \<Rightarrow> mc_sys" where
  "with_stats f s = s\<lparr> mcControlStats := f (mcControlStats s) \<rparr>"

definition count_alloc :: "mc_sys \<Rightarrow> mc_sys" where
  "count_alloc = with_stats (\<lambda>t. t\<lparr> memAllocCount := memAllocCount t + 1 \<rparr>)"

definition count_free :: "mc_sys \<Rightarrow> mc_sys" where
  "count_free = with_stats (\<lambda>t. t\<lparr> memfreeCount := memfreeCount t + 1 \<rparr>)"

subsection \<open>Multicast VLANs\<close>

definition mcVlanMapAdd :: "u32 \<Rightarrow> u32 \<Rightarrow> mc_sys \<Rightarrow> mc_sys" where
  "mcVlanMapAdd portId vlanId s =
     s\<lparr> mcVlanMap := (mcVlanMap s)(vlanId := mcVlanMap s vlanId OR push_bit (unat portId) 1) \<rparr>"

definition mcVlanMapDel :: "u32 \<Rightarrow> u32 \<Rightarrow> mc_sys \<Rightarrow> mc_sys" where
  "mcVlanMapDel portId vlanId s =
     s\<lparr> mcVlanMap := (mcVlanMap s)(vlanId := mcVlanMap s vlanId AND NOT (push_bit (unat portId) 1)) \<rparr>"

definition mcVlanMapExist :: "u32 \<Rightarrow> u32 \<Rightarrow> mc_sys \<Rightarrow> bool" where
  "mcVlanMapExist portId vlanId s \<longleftrightarrow> mcVlanMap s vlanId AND push_bit (unat portId) 1 \<noteq> 0"

subsection \<open>Operation on tags and translation of VLANs\<close>

definition mcTagOperPerPortSet :: "u32 \<Rightarrow> u32 \<Rightarrow> mc_sys \<Rightarrow> mc_sys" where
  "mcTagOperPerPortSet portId tagOper s = s\<lparr> mcTagOperPerPort := (mcTagOperPerPort s)(portId := tagOper) \<rparr>"

definition mcTagOperPerPortGet :: "u32 \<Rightarrow> mc_sys \<Rightarrow> u32" where
  "mcTagOperPerPortGet portId s = mcTagOperPerPort s portId"

text \<open>The first position with a property; \<open>None\<close> when the loop runs to its end.\<close>

fun find_pos :: "('a \<Rightarrow> bool) \<Rightarrow> 'a list \<Rightarrow> nat option" where
  "find_pos P [] = None"
| "find_pos P (x # xs) = (if P x then Some 0 else map_option Suc (find_pos P xs))"

definition zero_entry :: MC_VLAN_TRANSLATION_ENTRY_t where
  "zero_entry = \<lparr> vt_enable = False, vt_portId = 0, vt_mcVid = 0, vt_userVid = 0 \<rparr>"

definition entry_is :: "u32 \<Rightarrow> u32 \<Rightarrow> u32 \<Rightarrow> MC_VLAN_TRANSLATION_ENTRY_t \<Rightarrow> bool" where
  "entry_is portId mcVid userVid t \<longleftrightarrow> vt_enable t \<and> vt_portId t = portId \<and> vt_mcVid t = mcVid \<and> vt_userVid t = userVid"

definition mcTagTranslationTableAdd :: "u32 \<Rightarrow> u32 \<Rightarrow> u32 \<Rightarrow> mc_sys \<Rightarrow> int \<times> mc_sys" where
  "mcTagTranslationTableAdd portId mcVid userVid s =
     (case find_pos (entry_is portId mcVid userVid) (mcTagTranslationTable s) of
        Some _ \<Rightarrow> (OPL_OK, s)
      | None \<Rightarrow>
          (case find_pos (\<lambda>t. \<not> vt_enable t) (mcTagTranslationTable s) of
             None \<Rightarrow> (OPL_FULL, s)
           | Some i \<Rightarrow> (OPL_OK, s\<lparr> mcTagTranslationTable := (mcTagTranslationTable s)[i :=
               \<lparr> vt_enable = True, vt_portId = portId, vt_mcVid = mcVid, vt_userVid = userVid \<rparr>] \<rparr>)))"

definition mcTagTranslationTableDel :: "u32 \<Rightarrow> u32 \<Rightarrow> u32 \<Rightarrow> mc_sys \<Rightarrow> int \<times> mc_sys" where
  "mcTagTranslationTableDel portId mcVid userVid s =
     (case find_pos (entry_is portId mcVid userVid) (mcTagTranslationTable s) of
        None \<Rightarrow> (OPL_NOT_EXIST, s)
      | Some i \<Rightarrow> (OPL_OK, s\<lparr> mcTagTranslationTable := (mcTagTranslationTable s)[i := zero_entry] \<rparr>))"

definition mcTagTranslationTableGet :: "u32 \<Rightarrow> u32 \<Rightarrow> mc_sys \<Rightarrow> u32 option" where
  "mcTagTranslationTableGet portId mcVid s =
     map_option (\<lambda>i. vt_userVid (mcTagTranslationTable s ! i))
       (find_pos (\<lambda>t. vt_enable t \<and> vt_portId t = portId \<and> vt_mcVid t = mcVid) (mcTagTranslationTable s))"

definition mcTagTranslationTableClear :: "u32 \<Rightarrow> mc_sys \<Rightarrow> mc_sys" where
  "mcTagTranslationTableClear portId s = s\<lparr> mcTagTranslationTable :=
     map (\<lambda>t. if vt_enable t \<and> vt_portId t = portId then zero_entry else t) (mcTagTranslationTable s) \<rparr>"

subsection \<open>Router ports\<close>

definition is_router :: "u32 \<Rightarrow> MC_ROUTER_PORT_ENTRY_t \<Rightarrow> bool" where
  "is_router portId r \<longleftrightarrow> rp_enable r \<and> routerPortId r = portId"

definition mcRouterPortAdd :: "u32 \<Rightarrow> mc_sys \<Rightarrow> int \<times> mc_sys" where
  "mcRouterPortAdd portId s =
     (case find_pos (is_router portId) (mcRouterPort s) of
        Some _ \<Rightarrow> (OPL_EXIST, s)
      | None \<Rightarrow>
          (case find_pos (\<lambda>r. \<not> rp_enable r) (mcRouterPort s) of
             None \<Rightarrow> (OPL_FULL, s)
           | Some i \<Rightarrow> (OPL_OK, s\<lparr> mcRouterPort := (mcRouterPort s)[i := \<lparr> rp_enable = True, routerPortId = portId \<rparr>] \<rparr>)))"

definition mcRouterPortDel :: "u32 \<Rightarrow> mc_sys \<Rightarrow> int \<times> mc_sys" where
  "mcRouterPortDel portId s =
     (case find_pos (is_router portId) (mcRouterPort s) of
        None \<Rightarrow> (OPL_NOT_EXIST, s)
      | Some i \<Rightarrow> (OPL_OK, s\<lparr> mcRouterPort := (mcRouterPort s)[i := \<lparr> rp_enable = False, routerPortId = 0 \<rparr>] \<rparr>))"

definition mcRouterPortExist :: "u32 \<Rightarrow> mc_sys \<Rightarrow> bool" where
  "mcRouterPortExist portId s \<longleftrightarrow> find_pos (is_router portId) (mcRouterPort s) \<noteq> None"

definition mcRouterPortInit :: "mc_sys \<Rightarrow> mc_sys" where
  "mcRouterPortInit s = snd (mcRouterPortAdd PORT_PON_LOGIC
     (s\<lparr> mcRouterPort := replicate MC_ROUTER_PORT_NUM \<lparr> rp_enable = False, routerPortId = 0 \<rparr> \<rparr>))"

subsection \<open>Groups\<close>

text \<open>What a group is looked up by: host port, group MAC, group address and multicast VLAN.\<close>

type_synonym gkey = "u32 \<times> u8 list \<times> u32 \<times> u32"

definition group_key :: "MC_GROUP_t \<Rightarrow> gkey" where
  "group_key g = (hostPortId g, groupMac g, groupAddress g, mcVlan g)"

definition bit_if :: "u32 \<Rightarrow> u32 \<Rightarrow> bool \<Rightarrow> u32" where
  "bit_if bitmap b c = (if bitmap AND b \<noteq> 0 \<and> c then b else 0)"

text \<open>The macro \<^verbatim>\<open>GROUP_COMPARE\<close> with the test \<^verbatim>\<open>bitmap==compareResult\<close> that follows it everywhere.\<close>

definition group_compare :: "u32 \<Rightarrow> gkey \<Rightarrow> MC_GROUP_t \<Rightarrow> bool" where
  "group_compare bitmap = (\<lambda>(port, gmac, addr, vlan) node. bitmap =
     (bit_if bitmap MC_BITMAP_HOST_PORT_ID (hostPortId node = port) OR bit_if bitmap MC_BITMAP_GDA_MAC (groupMac node = gmac)
      OR bit_if bitmap MC_BITMAP_GDA_IP (groupAddress node = addr) OR bit_if bitmap MC_BITMAP_VLAN_ID (mcVlan node = vlan)))"

definition zero_group :: MC_GROUP_t where
  "zero_group = \<lparr> groupMac = replicate 6 0, groupAddress = 0, mcVlan = 0, hostPortId = 0, g_state = 0, hostList = [],
     hostTotalNum = 0, g_hostAgingTime = 0, g_isLastReportRecevied = False, g_isNonFastLeaveTimerStart = False \<rparr>"

definition with_group :: "nat \<Rightarrow> (MC_GROUP_t \<Rightarrow> MC_GROUP_t) \<Rightarrow> mc_sys \<Rightarrow> mc_sys" where
  "with_group i f s = s\<lparr> mcGroupList := upd_at i f (mcGroupList s) \<rparr>"

definition del_at :: "nat \<Rightarrow> 'a list \<Rightarrow> 'a list" where
  "del_at i xs = take i xs @ drop (Suc i) xs"

definition mcGroupListGet :: "gkey \<Rightarrow> u32 \<Rightarrow> mc_sys \<Rightarrow> nat option" where
  "mcGroupListGet k bitmap s = find_pos (group_compare bitmap k) (mcGroupList s)"

definition set_key :: "gkey \<Rightarrow> u32 \<Rightarrow> u32 \<Rightarrow> MC_GROUP_t \<Rightarrow> MC_GROUP_t" where
  "set_key = (\<lambda>(port, gmac, addr, vlan) state bitmap g.
     (if bitmap AND MC_BITMAP_GDA_MAC \<noteq> 0 then g\<lparr> groupMac := gmac \<rparr> else g)
       \<lparr> groupAddress := addr, mcVlan := vlan, hostPortId := port, g_state := state \<rparr>)"

definition mcGroupListAdd :: "gkey \<Rightarrow> u32 \<Rightarrow> u32 \<Rightarrow> mc_sys \<Rightarrow> nat \<times> mc_sys" where
  "mcGroupListAdd k state bitmap s =
     (case mcGroupListGet k bitmap s of
        Some i \<Rightarrow> (i, with_group i (set_key k state bitmap) s)
      | None \<Rightarrow> (0, (count_alloc s)\<lparr> mcGroupList := set_key k state bitmap zero_group # mcGroupList s,
          mcGroupTotalNum := mcGroupTotalNum s + 1 \<rparr>))"

definition mcGroupListDel :: "gkey \<Rightarrow> u32 \<Rightarrow> mc_sys \<Rightarrow> int \<times> mc_sys" where
  "mcGroupListDel k bitmap s =
     (case mcGroupListGet k bitmap s of
        None \<Rightarrow> (OPL_NOT_EXIST, s)
      | Some i \<Rightarrow> (OPL_OK, (count_free s)\<lparr> mcGroupList := del_at i (mcGroupList s), mcGroupTotalNum := mcGroupTotalNum s - 1 \<rparr>))"

definition mcGroupNumPerPort :: "u32 \<Rightarrow> mc_sys \<Rightarrow> u32" where
  "mcGroupNumPerPort port s = of_nat (length (filter (\<lambda>g. hostPortId g = port) (mcGroupList s)))"

text \<open>The answer \<^verbatim>\<open>OPL_TRUE\<close>; the two others are not told apart by the callers.\<close>

definition mcGroupListHostListEmpty :: "gkey \<Rightarrow> u32 \<Rightarrow> mc_sys \<Rightarrow> bool" where
  "mcGroupListHostListEmpty k bitmap s =
     (case mcGroupListGet k bitmap s of None \<Rightarrow> False | Some i \<Rightarrow> hostList (mcGroupList s ! i) = [])"

definition group_set :: "(MC_GROUP_t \<Rightarrow> MC_GROUP_t) \<Rightarrow> gkey \<Rightarrow> u32 \<Rightarrow> mc_sys \<Rightarrow> int \<times> mc_sys" where
  "group_set f k bitmap s =
     (case mcGroupListGet k bitmap s of None \<Rightarrow> (OPL_NOT_EXIST, s) | Some i \<Rightarrow> (OPL_OK, with_group i f s))"

definition mcGroupListSetHostAgingTime :: "gkey \<Rightarrow> u32 \<Rightarrow> u32 \<Rightarrow> mc_sys \<Rightarrow> int \<times> mc_sys" where
  "mcGroupListSetHostAgingTime k bitmap t = group_set (\<lambda>g. g\<lparr> g_hostAgingTime := t \<rparr>) k bitmap"

definition mcGroupListSetisLastReportRecevied :: "gkey \<Rightarrow> u32 \<Rightarrow> bool \<Rightarrow> mc_sys \<Rightarrow> int \<times> mc_sys" where
  "mcGroupListSetisLastReportRecevied k bitmap b = group_set (\<lambda>g. g\<lparr> g_isLastReportRecevied := b \<rparr>) k bitmap"

subsection \<open>Hosts of a group\<close>

text \<open>The macro \<^verbatim>\<open>HOST_COMPARE\<close> with the test that follows it. A host is looked up by its MAC and its address.\<close>

definition host_compare :: "u32 \<Rightarrow> u8 list \<times> u32 \<Rightarrow> MC_HOST_t \<Rightarrow> bool" where
  "host_compare hbm = (\<lambda>(mac, ip) node. hbm =
     (bit_if hbm MC_BITMAP_HOST_SRC_IP (h_srcIp node = ip) OR bit_if hbm MC_BITMAP_HOST_SA_MAC (h_saMac node = mac)))"

definition host_key :: "MC_HOST_t \<Rightarrow> u8 list \<times> u32" where
  "host_key h = (h_saMac h, h_srcIp h)"

definition zero_host :: MC_HOST_t where
  "zero_host = \<lparr> h_saMac = replicate 6 0, h_srcIp = 0, h_state = 0, h_hostAgingTime = 0,
     h_isLastReportRecevied = False, h_isNonFastLeaveTimerStart = False \<rparr>"

definition mcHostListGet :: "nat \<Rightarrow> u8 list \<times> u32 \<Rightarrow> u32 \<Rightarrow> mc_sys \<Rightarrow> nat option" where
  "mcHostListGet g k hbm s = find_pos (host_compare hbm k) (hostList (mcGroupList s ! g))"

definition with_host :: "nat \<Rightarrow> nat \<Rightarrow> (MC_HOST_t \<Rightarrow> MC_HOST_t) \<Rightarrow> mc_sys \<Rightarrow> mc_sys" where
  "with_host g i f = with_group g (\<lambda>gr. gr\<lparr> hostList := upd_at i f (hostList gr) \<rparr>)"

definition set_host_key :: "u8 list \<times> u32 \<Rightarrow> u32 \<Rightarrow> u32 \<Rightarrow> MC_HOST_t \<Rightarrow> MC_HOST_t" where
  "set_host_key = (\<lambda>(mac, ip) state hbm h.
     (if hbm AND MC_BITMAP_HOST_SA_MAC \<noteq> 0 then h\<lparr> h_saMac := mac \<rparr> else h)\<lparr> h_srcIp := ip, h_state := state \<rparr>)"

definition mcHostListAdd :: "nat \<Rightarrow> u8 list \<times> u32 \<Rightarrow> u32 \<Rightarrow> u32 \<Rightarrow> mc_sys \<Rightarrow> nat \<times> mc_sys" where
  "mcHostListAdd g k state hbm s =
     (case mcHostListGet g k hbm s of
        Some i \<Rightarrow> (i, with_host g i (set_host_key k state hbm) s)
      | None \<Rightarrow> (0, with_group g (\<lambda>gr. gr\<lparr> hostList := set_host_key k state hbm zero_host # hostList gr,
          hostTotalNum := hostTotalNum gr + 1 \<rparr>) (count_alloc s)))"

definition mcHostListDel :: "nat \<Rightarrow> u8 list \<times> u32 \<Rightarrow> u32 \<Rightarrow> mc_sys \<Rightarrow> int \<times> mc_sys" where
  "mcHostListDel g k hbm s =
     (case mcHostListGet g k hbm s of
        None \<Rightarrow> (OPL_NOT_EXIST, s)
      | Some i \<Rightarrow> (OPL_OK, with_group g (\<lambda>gr. gr\<lparr> hostList := del_at i (hostList gr), hostTotalNum := hostTotalNum gr - 1 \<rparr>)
          (count_free s)))"

definition host_set :: "(MC_HOST_t \<Rightarrow> MC_HOST_t) \<Rightarrow> nat \<Rightarrow> u8 list \<times> u32 \<Rightarrow> u32 \<Rightarrow> mc_sys \<Rightarrow> int \<times> mc_sys" where
  "host_set f g k hbm s =
     (case mcHostListGet g k hbm s of None \<Rightarrow> (OPL_NOT_EXIST, s) | Some i \<Rightarrow> (OPL_OK, with_host g i f s))"

definition mcHostListSetHostAgingTime :: "nat \<Rightarrow> u8 list \<times> u32 \<Rightarrow> u32 \<Rightarrow> u32 \<Rightarrow> mc_sys \<Rightarrow> int \<times> mc_sys" where
  "mcHostListSetHostAgingTime g k hbm t = host_set (\<lambda>h. h\<lparr> h_hostAgingTime := t \<rparr>) g k hbm"

definition mcHostListSetisLastReportRecevied :: "nat \<Rightarrow> u8 list \<times> u32 \<Rightarrow> u32 \<Rightarrow> bool \<Rightarrow> mc_sys \<Rightarrow> int \<times> mc_sys" where
  "mcHostListSetisLastReportRecevied g k hbm b = host_set (\<lambda>h. h\<lparr> h_isLastReportRecevied := b \<rparr>) g k hbm"

text \<open>\<^verbatim>\<open>mcGroupListDestory\<close>, which calls \<^verbatim>\<open>mcHostListDestory\<close> for each group.\<close>

definition mcGroupListDestory :: "mc_sys \<Rightarrow> mc_sys" where
  "mcGroupListDestory s =
     (fold (\<lambda>g. count_free \<circ> fold (\<lambda>_. count_free) (hostList g)) (mcGroupList s) s)\<lparr> mcGroupList := [], mcGroupTotalNum := 0 \<rparr>"

end
