(* ===== verification/Mc_Control.thy ===== *)
theory Mc_Control
  imports Mc_Tables
begin

unbundle bit_operations_syntax

text \<open>
  The multicast control at work (\<^verbatim>\<open>multicast/src/mc_control.c\<close>, \<^verbatim>\<open>mc_control_dal.c\<close>): IGMP messages of
  hosts and routers in the two modes (snooping, and control by the terminal according to CTC), the
  timers of pending leaves and the ageing of hosts. \<open>None\<close> as a result is an access outside an array
  or through a null pointer.
\<close>

subsection \<open>Groups in the switch\<close>

definition clMcMacGetByMcIp :: "u32 \<Rightarrow> u8 list" where
  "clMcMacGetByMcIp mcip = [0x01, 0x0, 0x5e, ucast (drop_bit 16 (mcip AND 0x7fffff)), ucast (drop_bit 8 (mcip AND 0x7fffff)),
     ucast (mcip AND 0x7fffff)]"

definition dal_group_mac :: "gkey \<Rightarrow> mc_sys \<Rightarrow> u8 list" where
  "dal_group_mac = (\<lambda>(_, gmac, addr, _) s.
     if ctcControlType (mcb s) = MC_CTL_GDA_MAC \<or> ctcControlType (mcb s) = MC_CTL_GDA_MAC_VID then gmac
     else if ctcControlType (mcb s) = MC_CTL_GDA_GDA_IP_VID then clMcMacGetByMcIp addr
     else replicate 6 0)"

definition dalMcGroupAdd :: "gkey \<Rightarrow> mc_sys \<Rightarrow> mc_sys" where
  "dalMcGroupAdd k s = (let (port, _, _, vlan) = k in mc_log (DalArlMultiPortMacAdd port (dal_group_mac k s) vlan) s)"

definition dalMcGroupDel :: "gkey \<Rightarrow> mc_sys \<Rightarrow> mc_sys" where
  "dalMcGroupDel k s = (let (port, _, _, vlan) = k in mc_log (DalArlMultiPortMacDel port (dal_group_mac k s) vlan) s)"

definition odmMcGroupAdd :: "gkey \<Rightarrow> u32 \<Rightarrow> u32 \<Rightarrow> mc_sys \<Rightarrow> int \<times> mc_sys" where
  "odmMcGroupAdd k state bitmap s = (OPL_OK, snd (mcGroupListAdd k state bitmap (dalMcGroupAdd k s)))"

definition odmMcGroupDel :: "gkey \<Rightarrow> u32 \<Rightarrow> mc_sys \<Rightarrow> int \<times> mc_sys" where
  "odmMcGroupDel k bitmap s = mcGroupListDel k bitmap (dalMcGroupDel k s)"

subsection \<open>Sending\<close>

definition frame_vid :: "u8 list \<Rightarrow> u32" where
  "frame_vid b = ucast (load16 (slice_of 14 2 b)) AND 0xFFF"

definition set_vid :: "u32 \<Rightarrow> u8 list \<Rightarrow> u8 list" where
  "set_vid vid b = patch 14 (store16 ((load16 (slice_of 14 2 b) AND 0xF000) OR (ucast vid AND 0xFFF))) b"

definition mc_send :: "u32 \<Rightarrow> u8 list \<Rightarrow> mc_sys \<Rightarrow> mc_sys" where
  "mc_send egressPortId pkt =
     mc_log (if egressPortId = PORT_PON_LOGIC then Eopl_send_to_uplink egressPortId pkt else Eopl_send_to_down_link egressPortId pkt)"

definition strips_tag :: "u32 \<Rightarrow> TAG_TYPE_t \<Rightarrow> u8 list \<Rightarrow> mc_sys \<Rightarrow> bool" where
  "strips_tag egressPortId tagType packet s \<longleftrightarrow> tagType = TAG_TYPE_SINGLE_TAG
     \<and> (egressPortId \<noteq> PORT_PON_LOGIC \<and> mcTagOperPerPortGet egressPortId s = MC_TAG_OPER_MODE_STRIP \<or> frame_vid packet = 0xfff)"

definition translates :: "u32 \<Rightarrow> TAG_TYPE_t \<Rightarrow> bool \<Rightarrow> mc_sys \<Rightarrow> bool" where
  "translates egressPortId tagType isLastQueryPacket s \<longleftrightarrow> egressPortId \<noteq> PORT_PON_LOGIC \<and> tagType = TAG_TYPE_SINGLE_TAG
     \<and> mcTagOperPerPortGet egressPortId s = MC_TAG_OPER_MODE_TRANSLATION \<and> \<not> isLastQueryPacket"

text \<open>The frame without its tag; the length \<^verbatim>\<open>packetLen-16\<close> of the second copy wraps for a short frame.\<close>

definition untag_packet :: "u8 list \<Rightarrow> nat \<Rightarrow> u8 list option" where
  "untag_packet packet packetLen = (if packetLen < 16 then None else Some (take 12 packet @ slice_of 16 (packetLen - 16) packet))"

definition mcSnoopingOutput :: "u32 \<Rightarrow> TAG_TYPE_t \<Rightarrow> u8 list \<Rightarrow> nat \<Rightarrow> bool \<Rightarrow> mc_sys \<Rightarrow> mc_sys option" where
  "mcSnoopingOutput egressPortId tagType packet packetLen isLastQueryPacket s =
     (if strips_tag egressPortId tagType packet s
      then map_option (\<lambda>pkt. mc_send egressPortId pkt s) (untag_packet packet packetLen)
      else if translates egressPortId tagType isLastQueryPacket s
      then let mcVid = frame_vid packet;
               tagPacket = (case mcTagTranslationTableGet egressPortId mcVid s of
                 Some userVid \<Rightarrow> set_vid userVid packet | None \<Rightarrow> set_vid mcVid packet)
           in Some (mc_send egressPortId (take packetLen tagPacket) s)
      else Some (mc_send egressPortId (take packetLen packet) s))"

text \<open>
  The same in the other mode, where the translation is written into the packet itself. The function has
  no return statement on this board; its callers test the value, after which nothing more happens.
\<close>

definition mcCtcOutput :: "u32 \<Rightarrow> TAG_TYPE_t \<Rightarrow> u8 list \<Rightarrow> nat \<Rightarrow> bool \<Rightarrow> mc_sys \<Rightarrow> (u8 list \<times> mc_sys) option" where
  "mcCtcOutput egressPortId tagType packet packetLen isLastQueryPacket s =
     (if strips_tag egressPortId tagType packet s
      then map_option (\<lambda>pkt. (packet, mc_send egressPortId pkt s)) (untag_packet packet packetLen)
      else let packet = (if translates egressPortId tagType isLastQueryPacket s
                 then (case mcTagTranslationTableGet egressPortId (frame_vid packet) s of
                         Some userVid \<Rightarrow> set_vid userVid packet | None \<Rightarrow> packet)
                 else packet)
           in Some (packet, mc_send egressPortId (take packetLen packet) s))"

text \<open>The loop over the router ports.\<close>

fun snooping_to_routers :: "MC_ROUTER_PORT_ENTRY_t list \<Rightarrow> bool \<Rightarrow> MC_PACKET_DESC_t \<Rightarrow> mc_sys \<Rightarrow> mc_sys option" where
  "snooping_to_routers [] isLast d s = Some s"
| "snooping_to_routers (r # rs) isLast d s =
     (if rp_enable r
      then mcSnoopingOutput (routerPortId r) (ingressTagType d) (ingressPacket d) (ingressPacketLength d) isLast s
        \<bind> snooping_to_routers rs isLast d
      else snooping_to_routers rs isLast d s)"

fun ctc_to_routers :: "MC_ROUTER_PORT_ENTRY_t list \<Rightarrow> bool \<Rightarrow> MC_PACKET_DESC_t \<Rightarrow> mc_sys \<Rightarrow> (MC_PACKET_DESC_t \<times> mc_sys) option" where
  "ctc_to_routers [] isLast d s = Some (d, s)"
| "ctc_to_routers (r # rs) isLast d s =
     (if rp_enable r
      then mcCtcOutput (routerPortId r) (ingressTagType d) (ingressPacket d) (ingressPacketLength d) isLast s
        \<bind> (\<lambda>(pkt, s). ctc_to_routers rs isLast (d\<lparr> ingressPacket := pkt \<rparr>) s)
      else ctc_to_routers rs isLast d s)"

subsection \<open>Queries of the router\<close>

definition MULTICAST_ALL_HOST_GROUP :: u32 where "MULTICAST_ALL_HOST_GROUP = 0xE0000001"
definition MULTICAST_ALL_ROUTERS_GROUP :: u32 where "MULTICAST_ALL_ROUTERS_GROUP = 0xE0000002"

definition desc_key :: "MC_PACKET_DESC_t \<Rightarrow> gkey" where
  "desc_key d = (ingressPortId d, igmpGroupMac d, igmpGroupAdress d, cVlan d)"

definition desc_host :: "MC_PACKET_DESC_t \<Rightarrow> u8 list \<times> u32" where
  "desc_host d = (saMac d, srcIp d)"

definition vlan_ports :: "u32 \<Rightarrow> mc_sys \<Rightarrow> u32 list" where
  "vlan_ports vlan s = filter (\<lambda>i. mcVlanMapExist i vlan s) host_ports"

definition count_router_unknown :: "mc_sys \<Rightarrow> mc_sys" where
  "count_router_unknown = with_stats (\<lambda>t. t\<lparr> otherRouterRxUnknownCount := otherRouterRxUnknownCount t + 1 \<rparr>)"

definition count_host_unknown :: "mc_sys \<Rightarrow> mc_sys" where
  "count_host_unknown = with_stats (\<lambda>t. t\<lparr> otherHostRxUnknownCount := otherHostRxUnknownCount t + 1 \<rparr>)"

definition count_query :: "MC_PACKET_DESC_t \<Rightarrow> mc_sys \<Rightarrow> mc_sys" where
  "count_query d = with_stats (\<lambda>t.
     if igmpMaxRespTime d \<noteq> 0
     then if igmpGroupAdress d \<noteq> 0 then t\<lparr> groupSpecificV2QueryRxCount := groupSpecificV2QueryRxCount t + 1 \<rparr>
          else t\<lparr> generalQueryV2RxCount := generalQueryV2RxCount t + 1 \<rparr>
     else t\<lparr> generalQueryV1RxCount := generalQueryV1RxCount t + 1 \<rparr>)"

fun flood_snooping :: "u32 list \<Rightarrow> MC_PACKET_DESC_t \<Rightarrow> mc_sys \<Rightarrow> mc_sys option" where
  "flood_snooping [] d s = Some s"
| "flood_snooping (i # is) d s =
     mcSnoopingOutput i (ingressTagType d) (ingressPacket d) (ingressPacketLength d) False s \<bind> flood_snooping is d"

fun flood_ctc :: "u32 list \<Rightarrow> MC_PACKET_DESC_t \<Rightarrow> mc_sys \<Rightarrow> (MC_PACKET_DESC_t \<times> mc_sys) option" where
  "flood_ctc [] d s = Some (d, s)"
| "flood_ctc (i # is) d s =
     mcCtcOutput i (ingressTagType d) (ingressPacket d) (ingressPacketLength d) False s
       \<bind> (\<lambda>(pkt, s). flood_ctc is (d\<lparr> ingressPacket := pkt \<rparr>) s)"

text \<open>
  On this board a specific query is sent to every port of the VLAN
  (\<^verbatim>\<open>SEND_SPECIFIC_QUERY_TO_UNI_PORT_DIRECTLY\<close>).
\<close>

definition mcSnoopingQueryAction :: "MC_PACKET_DESC_t \<Rightarrow> mc_sys \<Rightarrow> (int \<times> mc_sys) option" where
  "mcSnoopingQueryAction d s =
     (if ingressTagType d = TAG_TYPE_UNTAG then Some (OPL_ERROR, count_router_unknown s)
      else if vlan_ports (cVlan d) s = [] then Some (OPL_ERROR, count_router_unknown s)
      else if \<not> mcRouterPortExist (ingressPortId d) s then Some (OPL_ERROR, count_host_unknown s)
      else
        let s = count_query d s
        in if igmpGroupAdress d = 0 \<and> destIp d = MULTICAST_ALL_HOST_GROUP
           then map_option (Pair OPL_OK) (flood_snooping (vlan_ports (cVlan d) s) d s)
           else if igmpGroupAdress d = destIp d \<and> igmpGroupAdress d \<noteq> MULTICAST_ALL_HOST_GROUP
           then map_option (Pair OPL_OK) (flood_snooping (vlan_ports (cVlan d) s) d s)
           else Some (OPL_ERROR, s))"

definition mcCtcQueryAction :: "MC_PACKET_DESC_t \<Rightarrow> mc_sys \<Rightarrow> (MC_PACKET_DESC_t \<times> mc_sys) option" where
  "mcCtcQueryAction d s =
     (if ingressTagType d = TAG_TYPE_UNTAG then Some (d, count_router_unknown s)
      else if vlan_ports (cVlan d) s = [] then Some (d, count_router_unknown s)
      else if \<not> mcRouterPortExist (ingressPortId d) s then Some (d, count_host_unknown s)
      else
        let s = count_query d s
        in if igmpGroupAdress d = 0 \<and> destIp d = MULTICAST_ALL_HOST_GROUP then flood_ctc (vlan_ports (cVlan d) s) d s
           else if igmpGroupAdress d = destIp d \<and> igmpGroupAdress d \<noteq> MULTICAST_ALL_HOST_GROUP
           then flood_ctc (filter (\<lambda>i. mcGroupListGet (i, igmpGroupMac d, igmpGroupAdress d, cVlan d) (mc_bitmap (mcb s)) s \<noteq> None)
                  (vlan_ports (cVlan d) s)) d s
           else Some (d, s))"

subsection \<open>The query that the unit sends itself\<close>

text \<open>
  The sum of the 16-bit words. The odd byte of an odd length is taken from the start of the data, as
  the pointer to it is not advanced.
\<close>

fun chksum_words :: "u8 list \<Rightarrow> u32" where
  "chksum_words (a # b # r) = ucast (load16 [a, b]) + chksum_words r"
| "chksum_words _ = 0"

definition chksum :: "u8 list \<Rightarrow> u32" where
  "chksum bs = chksum_words bs + (if odd (length bs) then push_bit 8 (ucast (hd bs)) else 0)"

function fold_carry :: "u32 \<Rightarrow> u32" where
  "fold_carry acc = (if drop_bit 16 acc = 0 then acc else fold_carry ((acc AND 0xffff) + drop_bit 16 acc))"
  by pat_completeness auto

lemma fold_carry_less:
  assumes "drop_bit 16 (acc :: u32) \<noteq> 0"
  shows "unat ((acc AND 0xffff) + drop_bit 16 acc) < unat acc"
proof -
  have "acc AND 0xffff = take_bit 16 acc" by (simp add: take_bit_eq_mask mask_numeral)
  then have m: "unat (acc AND 0xffff) = unat acc mod 65536"
    by (simp only: unsigned_take_bit_eq) (simp add: take_bit_eq_mod)
  have d: "unat (drop_bit 16 acc) = unat acc div 65536"
    using unat_div_distrib [of acc "2 ^ 16"] by (simp add: drop_bit_eq_div)
  have "0 < unat acc div 65536" using assms d by (metis gr0I unat_eq_zero)
  moreover have "unat acc div 65536 * 65536 + unat acc mod 65536 = unat acc" by (rule div_mult_mod_eq)
  ultimately have "unat acc mod 65536 + unat acc div 65536 < unat acc" by linarith
  then show ?thesis using unsigned_less [of acc] by (simp add: unat_word_ariths m d)
qed

termination fold_carry
  by (relation "measure unat") (use fold_carry_less in auto)

declare fold_carry.simps [simp del]

definition op_lib_inet_chksum :: "u8 list \<Rightarrow> u16" where
  "op_lib_inet_chksum bs = NOT (ucast (fold_carry (chksum bs) AND 0xffff))"

text \<open>
  The VLAN of the query: the first multicast VLAN of the port (translated when an entry asks for it),
  or the VLAN of the port when it has none.
\<close>

function first_vlan :: "u32 \<Rightarrow> nat \<Rightarrow> mc_sys \<Rightarrow> u32 option" where
  "first_vlan port vid s =
     (if 4096 \<le> vid then None else if mcVlanMapExist port (of_nat vid) s then Some (of_nat vid) else first_vlan port (Suc vid) s)"
  by pat_completeness auto
termination first_vlan by (relation "measure (\<lambda>(_, vid, _). 4096 - vid)") auto

declare first_vlan.simps [simp del]

definition odmMulticastTagTranslationGet :: "u32 \<Rightarrow> mc_sys \<Rightarrow> (u32 \<times> u32) list" where
  "odmMulticastTagTranslationGet portId s =
     map (\<lambda>t. (vt_mcVid t AND 0xFFFF, vt_userVid t AND 0xFFFF)) (filter (\<lambda>t. vt_enable t \<and> vt_portId t = portId) (mcTagTranslationTable s))"

text \<open>\<^verbatim>\<open>translation_entry\<close> has room for 16 entries.\<close>

definition query_vid :: "mc_env \<Rightarrow> u32 \<Rightarrow> mc_sys \<Rightarrow> u32 option" where
  "query_vid e port s =
     (case first_vlan port 1 s of
        None \<Rightarrow> Some (ucast (dalPortPvidGet e port))
      | Some vid \<Rightarrow>
          let es = odmMulticastTagTranslationGet port s
          in if 16 < length es then None else Some (case map_of es vid of None \<Rightarrow> vid | Some v \<Rightarrow> v))"

definition query_ip :: "u32 \<Rightarrow> u32 \<Rightarrow> u16 \<Rightarrow> u8 list" where
  "query_ip src dst ck = [0x46, 0] @ store16 32 @ store16 0 @ store16 0 @ [64, 2] @ store16 ck @ store32 src @ store32 dst
     @ [0x94, 0x04, 0, 0]"

definition query_igmp :: "u32 \<Rightarrow> u16 \<Rightarrow> u8 list" where
  "query_igmp grp ck = [0x11, 100] @ store16 ck @ store32 grp"

text \<open>
  Packet, length and tag type. \<open>None\<close> is the overflow of the local array, \<open>Some None\<close> the failure of
  the function, which its callers do not test.
\<close>

definition mcSnoopingQueryPacketGenerate ::
    "mc_env \<Rightarrow> MC_PACKET_DESC_t \<Rightarrow> mc_sys \<Rightarrow> (u8 list \<times> nat \<times> TAG_TYPE_t) option option" where
  "mcSnoopingQueryPacketGenerate e d s =
     (case vosHWAddrGet e of
        None \<Rightarrow> Some None
      | Some hostSaMac \<Rightarrow>
          (case vosIPAddrGet e of
             None \<Rightarrow> Some None
           | Some hostSrcIp \<Rightarrow>
               (case query_vid e (ingressPortId d) s of
                  None \<Rightarrow> None
                | Some vid \<Rightarrow>
                    let ip = query_ip hostSrcIp (igmpGroupAdress d) (op_lib_inet_chksum (query_ip hostSrcIp (igmpGroupAdress d) 0));
                        igmp = query_igmp (igmpGroupAdress d) (op_lib_inet_chksum (query_igmp (igmpGroupAdress d) 0));
                        pkt = igmpGroupMac d @ hostSaMac @ store16 (ucast (cTpid d)) @ store16 (ucast vid AND 0xFFF) @ store16 0x0800
                          @ ip @ igmp @ replicate 14 0
                    in Some (Some (if ingressTagType d = TAG_TYPE_UNTAG
                         then (take 12 pkt @ drop 16 pkt, 60, TAG_TYPE_UNTAG) else (pkt, 64, TAG_TYPE_SINGLE_TAG))))))"

subsection \<open>Pending leaves\<close>

definition kill_timer :: "nat \<Rightarrow> mc_sys \<Rightarrow> mc_sys" where
  "kill_timer k s = count_free (count_free (s\<lparr> mc_timers := del_at k (mc_timers s) \<rparr>))"

text \<open>The removal of a host, and of its group when no host is left.\<close>

definition drop_host :: "nat \<Rightarrow> u8 list \<times> u32 \<Rightarrow> mc_sys \<Rightarrow> int \<times> mc_sys" where
  "drop_host g hk s =
     (let k = group_key (mcGroupList s ! g);
          (ret, s) = mcHostListDel g hk (hostBitmap (mcb s)) s
      in if ret \<noteq> OPL_OK then (ret, s)
         else if mcGroupListHostListEmpty k (mc_bitmap (mcb s)) s then odmMcGroupDel k (mc_bitmap (mcb s)) s
         else (OPL_OK, s))"

definition mcSnoopingNonFastLeaveAction :: "mc_env \<Rightarrow> nat \<Rightarrow> mc_sys \<Rightarrow> mc_sys option" where
  "mcSnoopingNonFastLeaveAction e t s =
     (let d = snd (mc_timers s ! t)
      in do {
        query \<leftarrow> mcSnoopingQueryPacketGenerate e d s;
        let i = leave_ticks s + 1;
        let kill = (\<lambda>s. Some (kill_timer t (s\<lparr> leave_ticks := 0 \<rparr>)));
        case mcGroupListGet (desc_key d) (mc_bitmap (mcb s)) s of
          None \<Rightarrow> kill s
        | Some g \<Rightarrow>
            (case mcHostListGet g (desc_host d) (hostBitmap (mcb s)) s of
               None \<Rightarrow> kill s
             | Some h \<Rightarrow>
                 if lastQueryCount (mcb s) + 1 < i then kill s
                 else if h_isLastReportRecevied (hostList (mcGroupList s ! g) ! h)
                 then kill (with_host g h (\<lambda>x. x\<lparr> h_isNonFastLeaveTimerStart := False \<rparr>) s)
                 else if i < lastQueryCount (mcb s) + 1
                 then (case query of
                         None \<Rightarrow> None
                       | Some (pkt, len, tag) \<Rightarrow> mcSnoopingOutput (ingressPortId d) tag pkt len True (s\<lparr> leave_ticks := i \<rparr>))
                 else snooping_to_routers (mcRouterPort s) True d
                        (snd (drop_host g (host_key (hostList (mcGroupList s ! g) ! h)) s)) \<bind> kill)
      })"

subsection \<open>Leaving and joining a group: snooping\<close>

definition all_routers_mac :: "u8 list" where "all_routers_mac = [0x01, 0x00, 0x5e, 0x0, 0x0, 0x02]"

definition not_multicast :: "u32 \<Rightarrow> bool" where "not_multicast a \<longleftrightarrow> a AND 0xe0000000 \<noteq> 0xe0000000"

definition start_leave_timer :: "mc_env \<Rightarrow> MC_TIMER_MSG_TYPE_e \<Rightarrow> MC_PACKET_DESC_t \<Rightarrow> mc_sys \<Rightarrow> mc_sys" where
  "start_leave_timer e ty d s =
     (if vosTimerGetFree e (length (mc_timers s)) then s\<lparr> mc_timers := mc_timers s @ [(ty, d)] \<rparr> else s)"

definition mcSnoopingLeaveAction :: "mc_env \<Rightarrow> MC_PACKET_DESC_t \<Rightarrow> mc_sys \<Rightarrow> (int \<times> MC_PACKET_DESC_t \<times> mc_sys) option" where
  "mcSnoopingLeaveAction e d s =
     (if \<not> (ODM_START_PORT_NUN \<le> ingressPortId d \<and> ingressPortId d \<le> ODM_NUM_OF_PORTS) then Some (OPL_ERROR, d, s)
      else if daMac d \<noteq> all_routers_mac then Some (OPL_ERROR, d, s)
      else if not_multicast (igmpGroupAdress d) then Some (OPL_ERROR, d, s)
      else if destIp d \<noteq> MULTICAST_ALL_ROUTERS_GROUP then Some (OPL_ERROR, d, s)
      else
        (case mcGroupListGet (desc_key d) (mc_bitmap (mcb s)) s of
           None \<Rightarrow> Some (OPL_ERROR, d, s)
         | Some g \<Rightarrow>
             (case mcHostListGet g (desc_host d) (hostBitmap (mcb s)) s of
                None \<Rightarrow> Some (OPL_ERROR, d, s)
              | Some h \<Rightarrow>
                  let hk = host_key (hostList (mcGroupList s ! g) ! h)
                  in if leaveMode (mcb s) = MC_LEAVE_MODE_FAST
                     then let (ret, s) = drop_host g hk s
                          in if ret \<noteq> OPL_OK then Some (ret, d, s)
                             else map_option (\<lambda>s. (OPL_OK, d, s)) (snooping_to_routers (mcRouterPort s) False d s)
                     else if leaveMode (mcb s) = MC_LEAVE_MODE_NON_FAST_LEAVE
                     then if h_isNonFastLeaveTimerStart (hostList (mcGroupList s ! g) ! h) then Some (OPL_ERROR, d, s)
                          else let s = count_alloc (with_host g h (\<lambda>x. x\<lparr> h_isNonFastLeaveTimerStart := True \<rparr>) s);
                                   d' = d\<lparr> d_isNonFastLeaveTimerStart := True \<rparr>;
                                   (ret, s) = mcHostListSetisLastReportRecevied g hk (hostBitmap (mcb s)) False s
                               in if ret \<noteq> OPL_OK then Some (ret, d', s)
                                  else Some (OPL_OK, d', start_leave_timer e MC_SNOOP_NON_FAST_LEAVE d s)
                     else Some (OPL_ERROR, d, s))))"

text \<open>The checks of a report, common to both modes.\<close>

definition report_refused :: "MC_PACKET_DESC_t \<Rightarrow> bool" where
  "report_refused d \<longleftrightarrow> \<not> (ODM_START_PORT_NUN \<le> ingressPortId d \<and> ingressPortId d \<le> ODM_NUM_OF_PORTS)
     \<or> not_multicast (igmpGroupAdress d) \<or> igmpGroupAdress d \<noteq> destIp d \<or> clMcMacGetByMcIp (igmpGroupAdress d) \<noteq> daMac d"

text \<open>The group of a report, made when there is none; the error code or the group.\<close>

definition join_group :: "MC_PACKET_DESC_t \<Rightarrow> mc_sys \<Rightarrow> (int + nat) \<times> mc_sys" where
  "join_group d s =
     (case mcGroupListGet (desc_key d) (mc_bitmap (mcb s)) s of
        Some g \<Rightarrow> (Inr g, s)
      | None \<Rightarrow>
          if mcGroupNumPerPort (ingressPortId d) s = maxGroupNum (mcb s) (ingressPortId d) then (Inl OPL_ERROR, s)
          else let (ret, s) = odmMcGroupAdd (desc_key d) GROUP_STATE_LEARNING (mc_bitmap (mcb s)) s
               in if ret \<noteq> OPL_OK then (Inl ret, s)
                  else (case mcGroupListGet (desc_key d) (mc_bitmap (mcb s)) s of
                          None \<Rightarrow> (Inl OPL_NOT_EXIST, s) | Some g \<Rightarrow> (Inr g, s)))"

definition join_host :: "nat \<Rightarrow> MC_PACKET_DESC_t \<Rightarrow> mc_sys \<Rightarrow> int \<times> mc_sys" where
  "join_host g d s =
     (let hbm = hostBitmap (mcb s);
          s = (case mcHostListGet g (desc_host d) hbm s of
                 Some _ \<Rightarrow> s | None \<Rightarrow> snd (mcHostListAdd g (desc_host d) GROUP_STATE_LEARNING hbm s));
          (ret, s) = mcHostListSetHostAgingTime g (desc_host d) hbm (cb_hostAgingTime (mcb s)) s
      in if ret \<noteq> OPL_OK then (ret, s) else mcHostListSetisLastReportRecevied g (desc_host d) hbm True s)"

definition mcSnoopingJoinAction :: "MC_PACKET_DESC_t \<Rightarrow> mc_sys \<Rightarrow> (int \<times> mc_sys) option" where
  "mcSnoopingJoinAction d s =
     (if report_refused d then Some (OPL_ERROR, s)
      else case join_group d s of
        (Inl ret, s) \<Rightarrow> Some (ret, s)
      | (Inr g, s) \<Rightarrow>
          let (ret, s) = join_host g d s
          in if ret \<noteq> OPL_OK then Some (ret, s)
             else map_option (Pair OPL_OK) (snooping_to_routers (mcRouterPort s) False d s))"

definition count_message :: "MC_PACKET_DESC_t \<Rightarrow> mc_sys \<Rightarrow> mc_sys" where
  "count_message d =
     (if igmpType d = 0x11 then id
      else if igmpType d = 0x12 then with_stats (\<lambda>t. t\<lparr> joinReportV1RxCount := joinReportV1RxCount t + 1 \<rparr>)
      else if igmpType d = 0x16 then with_stats (\<lambda>t. t\<lparr> joinReportV2RxCount := joinReportV2RxCount t + 1 \<rparr>)
      else if igmpType d = 0x17 then with_stats (\<lambda>t. t\<lparr> leaveV2RxCount := leaveV2RxCount t + 1 \<rparr>)
      else if ODM_START_PORT_NUN \<le> ingressPortId d \<and> ingressPortId d \<le> ODM_NUM_OF_PORTS then count_host_unknown
      else count_router_unknown)"

text \<open>The answers of the actions are dropped.\<close>

definition mcSnoopingInput :: "mc_env \<Rightarrow> MC_PACKET_DESC_t \<Rightarrow> mc_sys \<Rightarrow> (MC_PACKET_DESC_t \<times> mc_sys) option" where
  "mcSnoopingInput e d s =
     (let s = count_message d s
      in if igmpType d = 0x11 then map_option (\<lambda>(_, s). (d, s)) (mcSnoopingQueryAction d s)
         else if igmpType d = 0x12 \<or> igmpType d = 0x16 then map_option (\<lambda>(_, s). (d, s)) (mcSnoopingJoinAction d s)
         else if igmpType d = 0x17 then map_option snd (mcSnoopingLeaveAction e d s)
         else Some (d, s))"

subsection \<open>Control by the terminal\<close>

text \<open>The loop that makes room for a tag moves the bytes from 11 on, and leaves the last one where it is.\<close>

fun move_tail :: "nat \<Rightarrow> u8 list \<Rightarrow> u8 list" where
  "move_tail n packet = (if 12 < n then move_tail (n - 1) (packet[n + 2 := packet ! (n - 2)]) else packet)"

declare move_tail.simps [simp del]

definition mcCtcPacketSetVlan :: "u16 \<Rightarrow> u32 \<Rightarrow> MC_PACKET_DESC_t \<Rightarrow> MC_PACKET_DESC_t" where
  "mcCtcPacketSetVlan tpid vlanId d =
     (let d = (if ingressTagType d = TAG_TYPE_UNTAG
               then d\<lparr> ingressPacket := move_tail (ingressPacketLength d) (ingressPacket d),
                       ingressPacketLength := ingressPacketLength d + 4, ingressTagType := TAG_TYPE_SINGLE_TAG \<rparr>
               else d);
          pkt = set_vid vlanId (patch 12 (store16 tpid) (ingressPacket d))
      in d\<lparr> ingressPacket := patch 14 (store16 (load16 (slice_of 14 2 pkt) AND 0x1FFF)) pkt \<rparr>)"

definition VLAN_DEFAULT_STPID :: u16 where "VLAN_DEFAULT_STPID = 0x88a8"
definition VLAN_DEFAULT_CTPID :: u16 where "VLAN_DEFAULT_CTPID = 0x8100"

definition mcCtcNonFastLeaveAction :: "mc_env \<Rightarrow> nat \<Rightarrow> mc_sys \<Rightarrow> mc_sys option" where
  "mcCtcNonFastLeaveAction e t s =
     (let d = snd (mc_timers s ! t)
      in do {
        query \<leftarrow> mcSnoopingQueryPacketGenerate e d s;
        let i = ctc_leave_ticks s + 1;
        let kill = (\<lambda>s. Some (kill_timer t (s\<lparr> ctc_leave_ticks := 0 \<rparr>)));
        case mcGroupListGet (desc_key d) (mc_bitmap (mcb s)) s of
          None \<Rightarrow> kill s
        | Some g \<Rightarrow>
            if lastQueryCount (mcb s) + 1 < i then kill s
            else if g_isLastReportRecevied (mcGroupList s ! g)
            then kill (with_group g (\<lambda>x. x\<lparr> g_isNonFastLeaveTimerStart := False \<rparr>) s)
            else if i < lastQueryCount (mcb s) + 1
            then (case query of
                    None \<Rightarrow> None
                  | Some (pkt, len, tag) \<Rightarrow> map_option snd (mcCtcOutput (ingressPortId d) tag pkt len True (s\<lparr> ctc_leave_ticks := i \<rparr>)))
            else let k = group_key (mcGroupList s ! g);
                     s = (if mcGroupListHostListEmpty k (mc_bitmap (mcb s)) s then snd (odmMcGroupDel k (mc_bitmap (mcb s)) s) else s)
                 in ctc_to_routers (mcRouterPort s) True d s \<bind> (\<lambda>(_, s). kill s)
      })"

definition mcCtcLeaveAction :: "mc_env \<Rightarrow> MC_PACKET_DESC_t \<Rightarrow> mc_sys \<Rightarrow> (MC_PACKET_DESC_t \<times> mc_sys) option" where
  "mcCtcLeaveAction e d s =
     (if \<not> (ODM_START_PORT_NUN \<le> ingressPortId d \<and> ingressPortId d \<le> ODM_NUM_OF_PORTS) then Some (d, s)
      else if daMac d \<noteq> all_routers_mac then Some (d, s)
      else if not_multicast (igmpGroupAdress d) then Some (d, s)
      else if destIp d \<noteq> MULTICAST_ALL_ROUTERS_GROUP then Some (d, s)
      else
        (case mcGroupListGet (desc_key d) (mc_bitmap (mcb s)) s of
           None \<Rightarrow>
             if leaveMode (mcb s) = MC_LEAVE_MODE_FAST
             then ctc_to_routers (mcRouterPort s) False (mcCtcPacketSetVlan VLAN_DEFAULT_CTPID (ingressPortId d) d) s
             else Some (d, s)
         | Some g \<Rightarrow>
             let d = mcCtcPacketSetVlan VLAN_DEFAULT_CTPID (ingressPortId d) d; k = group_key (mcGroupList s ! g)
             in if leaveMode (mcb s) = MC_LEAVE_MODE_FAST
                then let (ret, s) = (if mcGroupListHostListEmpty k (mc_bitmap (mcb s)) s
                           then odmMcGroupDel k (mc_bitmap (mcb s)) s else (OPL_OK, s))
                     in if ret \<noteq> OPL_OK then Some (d, s) else ctc_to_routers (mcRouterPort s) False d s
                else if leaveMode (mcb s) = MC_LEAVE_MODE_NON_FAST_LEAVE
                then if g_isNonFastLeaveTimerStart (mcGroupList s ! g) then Some (d, s)
                     else let s = count_alloc (with_group g (\<lambda>x. x\<lparr> g_isNonFastLeaveTimerStart := True \<rparr>) s);
                              d' = d\<lparr> d_isNonFastLeaveTimerStart := True \<rparr>;
                              (ret, s) = mcGroupListSetisLastReportRecevied k (mc_bitmap (mcb s)) False s
                          in if ret \<noteq> OPL_OK then Some (d', s) else Some (d', start_leave_timer e MC_CTC_LEAVE_ACTIVE d s)
                else Some (d, s)))"

definition mcCtcJoinAction :: "MC_PACKET_DESC_t \<Rightarrow> mc_sys \<Rightarrow> (MC_PACKET_DESC_t \<times> mc_sys) option" where
  "mcCtcJoinAction d s =
     (if report_refused d then Some (d, s)
      else
        let d = mcCtcPacketSetVlan VLAN_DEFAULT_CTPID (ingressPortId d) d
        in case mcGroupListGet (desc_key d) (mc_bitmap (mcb s)) s of
             None \<Rightarrow> ctc_to_routers (mcRouterPort s) False d s
           | Some g \<Rightarrow>
               let k = group_key (mcGroupList s ! g);
                   (ret, s) = mcGroupListSetHostAgingTime k (mc_bitmap (mcb s)) (cb_hostAgingTime (mcb s)) s
               in if ret \<noteq> OPL_OK then Some (d, s)
                  else let (ret, s) = mcGroupListSetisLastReportRecevied k (mc_bitmap (mcb s)) True s
                       in if ret \<noteq> OPL_OK then Some (d, s) else ctc_to_routers (mcRouterPort s) False d s)"

definition mcCtcInput :: "mc_env \<Rightarrow> MC_PACKET_DESC_t \<Rightarrow> mc_sys \<Rightarrow> (MC_PACKET_DESC_t \<times> mc_sys) option" where
  "mcCtcInput e d s =
     (let s = count_message d s
      in if igmpType d = 0x11 then mcCtcQueryAction d s
         else if igmpType d = 0x12 \<or> igmpType d = 0x16 then mcCtcJoinAction d s
         else if igmpType d = 0x17 then mcCtcLeaveAction e d s
         else Some (d, s))"

subsection \<open>Received frames\<close>

text \<open>
  The descriptor of a frame in a fresh buffer. The two other values of the header length leave the pointer
  to the IGMP message null.
\<close>

definition raw_packet :: "mc_env \<Rightarrow> u8 list \<Rightarrow> u8 list" where
  "raw_packet e pkt = patch 0 pkt (patch 0 (replicate 4 0) (fresh_memory e))"

definition parse_igmp :: "u8 list \<Rightarrow> nat \<Rightarrow> u32 \<Rightarrow> MC_PACKET_DESC_t option" where
  "parse_igmp raw len portId =
     (let tpid = load16 (slice_of 12 2 raw);
          tagged = (tpid = VLAN_DEFAULT_STPID \<or> tpid = VLAN_DEFAULT_CTPID);
          ip = (if tagged then 18 else 14);
          ihl = raw ! ip AND 0xF
      in if ihl = 5 \<or> ihl = 6
         then let igmp = ip + (if ihl = 5 then 20 else 24); grp = load32 (slice_of (igmp + 4) 4 raw)
              in Some \<lparr> igmpGroupMac = clMcMacGetByMcIp grp, daMac = slice_of 0 6 raw, saMac = slice_of 6 6 raw,
                   cTpid = (if tagged then ucast tpid else 0), cVlan = (if tagged then frame_vid raw else 0),
                   destIp = load32 (slice_of (ip + 16) 4 raw), srcIp = load32 (slice_of (ip + 12) 4 raw),
                   igmpType = ucast (raw ! igmp), igmpMaxRespTime = ucast (raw ! (igmp + 1)), igmpGroupAdress = grp,
                   ingressPacketLength = len, ingressPacket = raw, ingressPortId = portId,
                   ingressTagType = (if tagged then TAG_TYPE_SINGLE_TAG else TAG_TYPE_UNTAG), d_isNonFastLeaveTimerStart = False \<rparr>
         else None)"

definition mcInput :: "mc_env \<Rightarrow> u8 list \<Rightarrow> u32 \<Rightarrow> mc_sys \<Rightarrow> (int \<times> mc_sys) option" where
  "mcInput e ingressRawPkt portId s =
     (if 1518 < length ingressRawPkt then Some (OPL_BAD_PARA, s)
      else if mcRecvEn (mcb s) = 0 then Some (OPL_ERROR, s)
      else if \<not> isInitialized (mcb s) then Some (OPL_ERROR, s)
      else do {
        let s = count_alloc s;
        d \<leftarrow> parse_igmp (raw_packet e ingressRawPkt) (length ingressRawPkt) portId;
        if take 3 (daMac d) \<noteq> [0x01, 0x00, 0x5e] then Some (OPL_ERROR, count_free s)
        else do {
          (d, s) \<leftarrow> (if mcMode (mcb s) = MC_MODE_SNOOPING then mcSnoopingInput e d s
                     else if mcMode (mcb s) = MC_MODE_CTC then mcCtcInput e d s else Some (d, s));
          Some (OPL_OK, if d_isNonFastLeaveTimerStart d then s else count_free s)
        }
      })"

subsection \<open>Ageing\<close>

text \<open>
  The loop over the hosts of a group: the hosts before the present one (\<open>kept\<close>) and those after it. The
  first host with the key of an expired one is removed, which may be one before it.
\<close>

fun age_hosts :: "u32 \<Rightarrow> MC_HOST_t list \<Rightarrow> MC_HOST_t list \<Rightarrow> nat \<Rightarrow> MC_HOST_t list \<times> nat" where
  "age_hosts hbm kept [] n = (kept, n)"
| "age_hosts hbm kept (h # hs) n =
     (if h_hostAgingTime h = 0
      then (case find_pos (host_compare hbm (host_key h)) (kept @ h # hs) of
              None \<Rightarrow> age_hosts hbm (kept @ [h]) hs n
            | Some i \<Rightarrow> age_hosts hbm (del_at i (kept @ [h])) hs (Suc n))
      else age_hosts hbm (kept @ [h\<lparr> h_hostAgingTime := h_hostAgingTime h - 1 \<rparr>]) hs n)"

text \<open>
  The loop over the groups: \<open>n\<close> groups are still to come. A group is deleted when its last host has been
  removed, at the end of the loop over its hosts.
\<close>

fun age_groups :: "nat \<Rightarrow> mc_sys \<Rightarrow> mc_sys" where
  "age_groups 0 s = s"
| "age_groups (Suc n) s =
     (let g = length (mcGroupList s) - Suc n; node = mcGroupList s ! g;
          (hs, dead) = age_hosts (hostBitmap (mcb s)) [] (hostList node) 0;
          s = with_group g (\<lambda>x. x\<lparr> hostList := hs, hostTotalNum := hostTotalNum x - of_nat dead \<rparr>) s;
          s = (count_free ^^ dead) s;
          s = (if dead \<noteq> 0 \<and> hs = [] then snd (odmMcGroupDel (group_key node) (mc_bitmap (mcb s)) s) else s)
      in age_groups n s)"

definition mcHostAgingTimerSnoopingHandler :: "mc_sys \<Rightarrow> mc_sys" where
  "mcHostAgingTimerSnoopingHandler s = (if cb_hostAgingTime (mcb s) = 0 then s else age_groups (length (mcGroupList s)) s)"

text \<open>\<^verbatim>\<open>mcHostAgingTimerCtcHandler\<close> does nothing. \<^verbatim>\<open>mcHostAgingTimerSet\<close> gives every host a new age.\<close>

definition mcHostAgingTimerSet :: "u32 \<Rightarrow> mc_sys \<Rightarrow> mc_sys" where
  "mcHostAgingTimerSet t s = s\<lparr> mcGroupList :=
     map (\<lambda>g. g\<lparr> hostList := map (\<lambda>h. h\<lparr> h_hostAgingTime := t \<rparr>) (hostList g) \<rparr>) (mcGroupList s) \<rparr>"

subsection \<open>Events\<close>

text \<open>
  What the two threads of the module do: a frame from the queue (whose buffer \<^verbatim>\<open>mcInputMsgSend\<close> has allocated), an expired timer of a leave, and the second
  of the ageing timer in snooping mode.
\<close>

datatype mc_event = Igmp_frame "u8 list" u32 | Leave_timer nat | Ageing_second

definition mc_timer_msg :: "mc_env \<Rightarrow> nat \<Rightarrow> mc_sys \<Rightarrow> mc_sys option" where
  "mc_timer_msg e t s =
     (if t < length (mc_timers s)
      then (case fst (mc_timers s ! t) of
              MC_SNOOP_NON_FAST_LEAVE \<Rightarrow> mcSnoopingNonFastLeaveAction e t s
            | MC_CTC_LEAVE_ACTIVE \<Rightarrow> mcCtcNonFastLeaveAction e t s)
      else Some s)"

primrec mc_step :: "mc_env \<Rightarrow> mc_event \<Rightarrow> mc_sys \<Rightarrow> mc_sys option" where
  "mc_step e (Igmp_frame pkt portId) s = map_option (count_free \<circ> snd) (mcInput e pkt portId (count_alloc s))"
| "mc_step e (Leave_timer t) s = mc_timer_msg e t s"
| "mc_step e Ageing_second s = Some (mcHostAgingTimerSnoopingHandler s)"

end
