(* ===== verification/Mc_Manage.thy ===== *)
theory Mc_Manage
  imports Mc_Control
begin

unbundle bit_operations_syntax

text \<open>
  The management of the multicast control (\<^verbatim>\<open>multicast/src/mc_control.c\<close>, \<^verbatim>\<open>mc_control_dal.c\<close>): settings,
  multicast VLANs, operation on tags, translation of VLANs, control entries, the switch of the mode, and
  the start from the configuration file \<^verbatim>\<open>/cfg/multicast.conf\<close>. \<open>None\<close> is an access outside an array or
  through a null pointer, a shift by more than the width, or a configuration table without room. The drivers
  answer without error, the queues and threads of the module can be created.
\<close>

subsection \<open>Keys of the configuration file\<close>

definition CFGFILE_MULTICAST :: string where "CFGFILE_MULTICAST = ''/cfg/multicast.conf''"
definition CFGSECTION_MULTICAST_IGMP_MANAGEMENT :: string where "CFGSECTION_MULTICAST_IGMP_MANAGEMENT = ''IGMP''"
definition CFGKEY_MULTICAST_IGMP_MANAGEMENT_IGMP_MODE :: string where "CFGKEY_MULTICAST_IGMP_MANAGEMENT_IGMP_MODE = ''igmp_mode''"
definition CFGKEY_MULTICAST_IGMP_MANAGEMENT_MODE :: string where "CFGKEY_MULTICAST_IGMP_MANAGEMENT_MODE = ''mode''"
definition CFGKEY_MULTICAST_IGMP_MANAGEMENT_CTC_CONTROL_TYPE :: string where
  "CFGKEY_MULTICAST_IGMP_MANAGEMENT_CTC_CONTROL_TYPE = ''ctc_control_type''"
definition CFGKEY_MULTICAST_IGMP_MANAGEMENT_LEAVE_MODE :: string where "CFGKEY_MULTICAST_IGMP_MANAGEMENT_LEAVE_MODE = ''leave_mode''"
definition CFGKEY_MULTICAST_IGMP_MANAGEMENT_HOST_AGING_TIME :: string where
  "CFGKEY_MULTICAST_IGMP_MANAGEMENT_HOST_AGING_TIME = ''host_aging_time''"
definition CFGKEY_MULTICAST_IGMP_MANAGEMENT_LAST_QUERY_INTERVAL :: string where
  "CFGKEY_MULTICAST_IGMP_MANAGEMENT_LAST_QUERY_INTERVAL = ''last_query_interval''"
definition CFGKEY_MULTICAST_IGMP_MANAGEMENT_LAST_QUERY_COUNT :: string where
  "CFGKEY_MULTICAST_IGMP_MANAGEMENT_LAST_QUERY_COUNT = ''last_query_count''"
definition CFGSECTION_MULTICAST_IGMP_PORT :: string where "CFGSECTION_MULTICAST_IGMP_PORT = ''Port_''"
definition CFGKEY_MULTICAST_IGMP_PORT_MULTICAST_VLAN :: string where "CFGKEY_MULTICAST_IGMP_PORT_MULTICAST_VLAN = ''multicast_vlan''"
definition CFGKEY_MULTICAST_IGMP_PORT_TAGSTRIP :: string where "CFGKEY_MULTICAST_IGMP_PORT_TAGSTRIP = ''tagstrip_mode''"
definition CFGKEY_MULTICAST_IGMP_PORT_TAGSTRIP_TRANSLATION_VLAN :: string where
  "CFGKEY_MULTICAST_IGMP_PORT_TAGSTRIP_TRANSLATION_VLAN = ''translation_vlan_''"
definition CFGKEY_MULTICAST_IGMP_PORT_MAX_GROUP_NUM :: string where "CFGKEY_MULTICAST_IGMP_PORT_MAX_GROUP_NUM = ''max_group_num''"

definition BIG_BUF_LEN :: nat where "BIG_BUF_LEN = 2048"
definition IGMP_HOST_AGING_TIME_DEFAULT :: u32 where "IGMP_HOST_AGING_TIME_DEFAULT = 260"
definition LAST_MEMBER_QUERY_INTERVAL_DEFAULT :: u32 where "LAST_MEMBER_QUERY_INTERVAL_DEFAULT = 1000"
definition LAST_MEMBER_QUERY_COUNT_DEFAULT :: u32 where "LAST_MEMBER_QUERY_COUNT_DEFAULT = 2"
definition IGMP_MAX_GROUP_NUMBER_PER_PORT :: u32 where "IGMP_MAX_GROUP_NUMBER_PER_PORT = 8"
definition ODM_MAX_GRUP_NUM_PER_PORT :: u32 where "ODM_MAX_GRUP_NUM_PER_PORT = 64"
definition ERR_INVALID_PARAMETERS :: int where "ERR_INVALID_PARAMETERS = 502"

text \<open>Numbers of ports and VLANs as \<^verbatim>\<open>%d\<close> writes them, and the loop over the VLANs.\<close>

definition num_text :: "u32 \<Rightarrow> string" where "num_text n = dec_digits (unat n)"

definition port_section :: "u32 \<Rightarrow> string" where
  "port_section portId = CFGSECTION_MULTICAST_IGMP_PORT @ num_text portId"

definition translation_key :: "u32 \<Rightarrow> string" where
  "translation_key vid = CFGKEY_MULTICAST_IGMP_PORT_TAGSTRIP_TRANSLATION_VLAN @ num_text vid"

definition vlan_ids :: "u32 list" where "vlan_ids = map of_nat [1..<4096]"

text \<open>Storing; the answers of the database are not looked at.\<close>

definition mc_put :: "string \<Rightarrow> string \<Rightarrow> string \<Rightarrow> mc_sys \<Rightarrow> mc_sys option" where
  "mc_put section key value s =
     map_option (\<lambda>(_, db). s\<lparr> mc_cfg := db \<rparr>) (vosConfigValueSet CFGFILE_MULTICAST section key value (mc_cfg s))"

definition mc_put_u32 :: "string \<Rightarrow> string \<Rightarrow> u32 \<Rightarrow> mc_sys \<Rightarrow> mc_sys option" where
  "mc_put_u32 section key value s =
     map_option (\<lambda>(_, db). s\<lparr> mc_cfg := db \<rparr>) (vosConfigUInt32Set CFGFILE_MULTICAST section key value (mc_cfg s))"

definition mc_del_key :: "string \<Rightarrow> string \<Rightarrow> mc_sys \<Rightarrow> mc_sys" where
  "mc_del_key section key s = s\<lparr> mc_cfg := snd (vosConfigKeyDelete CFGFILE_MULTICAST section key (mc_cfg s)) \<rparr>"

definition mc_get_u32 :: "string \<Rightarrow> string \<Rightarrow> u32 \<Rightarrow> mc_sys \<Rightarrow> u32" where
  "mc_get_u32 section key dflt s = vosConfigUInt32Get (mc_cfg s) CFGFILE_MULTICAST section key dflt"

definition done_ok :: "mc_sys option \<Rightarrow> (int \<times> mc_sys) option" where
  "done_ok = map_option (Pair OPL_OK)"

definition with_mcb :: "(MC_CONTROL_t \<Rightarrow> MC_CONTROL_t) \<Rightarrow> mc_sys \<Rightarrow> mc_sys" where
  "with_mcb f s = s\<lparr> mcb := f (mcb s) \<rparr>"

subsection \<open>Settings of the control block\<close>

definition odmMcControlBlockRecvEnSet :: "u32 \<Rightarrow> mc_sys \<Rightarrow> (int \<times> mc_sys) option" where
  "odmMcControlBlockRecvEnSet en s =
     (let s = mc_log (if en \<noteq> 0 then DalMulticastEnable else DalMulticastDisable) s
      in done_ok (mc_put_u32 CFGSECTION_MULTICAST_IGMP_MANAGEMENT CFGKEY_MULTICAST_IGMP_MANAGEMENT_IGMP_MODE en
           (with_mcb (\<lambda>cb. cb\<lparr> mcRecvEn := en \<rparr>) s)))"

definition odmMcControlBlockModeSet :: "u32 \<Rightarrow> mc_sys \<Rightarrow> (int \<times> mc_sys) option" where
  "odmMcControlBlockModeSet mode s =
     done_ok (mc_put_u32 CFGSECTION_MULTICAST_IGMP_MANAGEMENT CFGKEY_MULTICAST_IGMP_MANAGEMENT_MODE mode
       (with_mcb (\<lambda>cb. cb\<lparr> mcMode := mode \<rparr>) s))"

definition odmMcControlBlockLeaveModeSet :: "u32 \<Rightarrow> mc_sys \<Rightarrow> (int \<times> mc_sys) option" where
  "odmMcControlBlockLeaveModeSet mode s =
     done_ok (mc_put_u32 CFGSECTION_MULTICAST_IGMP_MANAGEMENT CFGKEY_MULTICAST_IGMP_MANAGEMENT_LEAVE_MODE mode
       (with_mcb (\<lambda>cb. cb\<lparr> leaveMode := mode \<rparr>) s))"

definition odmMcControlBlockHostAgingTimeSet :: "u32 \<Rightarrow> mc_sys \<Rightarrow> (int \<times> mc_sys) option" where
  "odmMcControlBlockHostAgingTimeSet t s =
     done_ok (mc_put_u32 CFGSECTION_MULTICAST_IGMP_MANAGEMENT CFGKEY_MULTICAST_IGMP_MANAGEMENT_HOST_AGING_TIME t
       (with_mcb (\<lambda>cb. cb\<lparr> cb_hostAgingTime := t \<rparr>) s))"

definition odmMcControlBlockLastQueryIntervalSet :: "u32 \<Rightarrow> mc_sys \<Rightarrow> (int \<times> mc_sys) option" where
  "odmMcControlBlockLastQueryIntervalSet t s =
     done_ok (mc_put_u32 CFGSECTION_MULTICAST_IGMP_MANAGEMENT CFGKEY_MULTICAST_IGMP_MANAGEMENT_LAST_QUERY_INTERVAL t
       (with_mcb (\<lambda>cb. cb\<lparr> lastQueryInterval := t \<rparr>) s))"

definition odmMcControlBlockLastQueryCountSet :: "u32 \<Rightarrow> mc_sys \<Rightarrow> (int \<times> mc_sys) option" where
  "odmMcControlBlockLastQueryCountSet n s =
     done_ok (mc_put_u32 CFGSECTION_MULTICAST_IGMP_MANAGEMENT CFGKEY_MULTICAST_IGMP_MANAGEMENT_LAST_QUERY_COUNT n
       (with_mcb (\<lambda>cb. cb\<lparr> lastQueryCount := n \<rparr>) s))"

text \<open>The bitmap of a control type; another value leaves the bitmap as it is.\<close>

definition control_bitmap :: "MC_CONTROL_t \<Rightarrow> u32" where
  "control_bitmap cb =
     (if ctcControlType cb = MC_CTL_GDA_MAC then CTC_CONTROL_BITMAP_GDA_MAC
      else if ctcControlType cb = MC_CTL_GDA_MAC_VID then CTC_CONTROL_BITMAP_GDA_MAC_VLAN_ID
      else if ctcControlType cb = MC_CTL_GDA_GDA_SA_MAC then CTC_CONTROL_BITMAP_GDA_MAC_SA_MAC
      else if ctcControlType cb = MC_CTL_GDA_GDA_IP_VID then CTC_CONTROL_BITMAP_GDA_IP_VLAN_ID
      else mc_bitmap cb)"

subsection \<open>Multicast VLANs\<close>

definition fuzzy_mac :: "u8 list" where "fuzzy_mac = [0x01, 0x00, 0x5e, 0x00, 0x00, 0x00]"

definition dalMcVlanMapAdd :: "u32 \<Rightarrow> u32 \<Rightarrow> mc_sys \<Rightarrow> mc_sys" where
  "dalMcVlanMapAdd portId vlanId s =
     (let s = mc_log (DalMulticastVlanAddPort portId vlanId) (mc_log (DalMulticastVlanCreate vlanId) s);
          tagOper = mcTagOperPerPortGet portId s;
          s = (if tagOper = MC_TAG_OPER_MODE_TRANSPARENT then mc_log (DalVttTagEntryAdd vlanId vlanId portId) s
               else if tagOper = MC_TAG_OPER_MODE_STRIP then mc_log (DalVttTagEntryAdd 0 vlanId portId) s
               else s)
      in mc_log (DalMulticastPortVlanMacAdd portId vlanId fuzzy_mac True) s)"

definition dalMcVlanMapDel :: "u32 \<Rightarrow> u32 \<Rightarrow> mc_sys \<Rightarrow> mc_sys" where
  "dalMcVlanMapDel portId vlanId s =
     (let tagOper = mcTagOperPerPortGet portId s;
          s = (if tagOper = MC_TAG_OPER_MODE_TRANSPARENT then mc_log (DalVttTagEntryDel vlanId vlanId portId) s
               else if tagOper = MC_TAG_OPER_MODE_STRIP then mc_log (DalVttTagEntryDel 0 vlanId portId) s
               else s);
          s = mc_log (DalMulticastVlanDelPort portId vlanId) s
      in if vlan_ports vlanId s \<noteq> [] then s
         else mc_log (DalMulticastPortVlanMacDel portId vlanId fuzzy_mac True) (mc_log (DalMulticastVlanDelete vlanId) s))"

text \<open>\<^verbatim>\<open>strstr\<close>: the position of the first occurrence.\<close>

fun strstr :: "string \<Rightarrow> string \<Rightarrow> nat option" where
  "strstr pat [] = (if pat = [] then Some 0 else None)"
| "strstr pat (c # cs) = (if take (length pat) (c # cs) = pat then Some 0 else map_option Suc (strstr pat cs))"

text \<open>The list of VLANs with another one; \<open>None\<close> when the text of the VLAN occurs in it.\<close>

definition vlan_text_add :: "string \<Rightarrow> string option \<Rightarrow> string option" where
  "vlan_text_add vlanIdStr configFileStr =
     (case configFileStr of
        None \<Rightarrow> Some vlanIdStr
      | Some text \<Rightarrow> if strstr vlanIdStr text \<noteq> None then None else Some (text @ '','' @ vlanIdStr))"

text \<open>The list without a VLAN: not found, the key is to be deleted, or the new list.\<close>

datatype vlan_text = Not_found | Delete_key | New_text string

definition vlan_text_del :: "string \<Rightarrow> string \<Rightarrow> vlan_text" where
  "vlan_text_del vlanIdStr newStr =
     (case strstr vlanIdStr newStr of
        None \<Rightarrow> Not_found
      | Some p \<Rightarrow>
          (case strstr '','' (drop p newStr) of
             None \<Rightarrow> if p = 0 then Delete_key else New_text (take (p - 1) newStr)
           | Some q \<Rightarrow> New_text (take p newStr @ drop (p + q + 1) newStr)))"

definition stored_vlans :: "u32 \<Rightarrow> mc_sys \<Rightarrow> string option" where
  "stored_vlans portId s =
     vosConfigValueGet (mc_cfg s) CFGFILE_MULTICAST (port_section portId) CFGKEY_MULTICAST_IGMP_PORT_MULTICAST_VLAN None"

definition odmMcVlanMapAdd :: "u32 \<Rightarrow> u32 \<Rightarrow> mc_sys \<Rightarrow> (int \<times> mc_sys) option" where
  "odmMcVlanMapAdd portId vlanId s =
     (if mcVlanMapExist portId vlanId s then Some (OPL_OK, s)
      else
        let s = dalMcVlanMapAdd portId vlanId s
        in case vlan_text_add (num_text vlanId) (stored_vlans portId s) of
             None \<Rightarrow> Some (OPL_EXIST, s)
           | Some newStr \<Rightarrow>
               if BIG_BUF_LEN \<le> length newStr then None
               else done_ok (map_option (mcVlanMapAdd portId vlanId)
                      (mc_put (port_section portId) CFGKEY_MULTICAST_IGMP_PORT_MULTICAST_VLAN newStr s)))"

definition odmMcVlanMapDel :: "u32 \<Rightarrow> u32 \<Rightarrow> mc_sys \<Rightarrow> (int \<times> mc_sys) option" where
  "odmMcVlanMapDel portId vlanId s =
     (let s = dalMcVlanMapDel portId vlanId (mcVlanMapDel portId vlanId s)
      in case stored_vlans portId s of
           None \<Rightarrow> Some (OPL_ERROR, s)
         | Some text \<Rightarrow>
             if BIG_BUF_LEN \<le> length text then None
             else (case vlan_text_del (num_text vlanId) text of
                     Not_found \<Rightarrow> Some (OPL_ERROR, s)
                   | Delete_key \<Rightarrow> Some (OPL_OK, mc_del_key (port_section portId) CFGKEY_MULTICAST_IGMP_PORT_MULTICAST_VLAN s)
                   | New_text t \<Rightarrow> done_ok (mc_put (port_section portId) CFGKEY_MULTICAST_IGMP_PORT_MULTICAST_VLAN t s)))"

text \<open>A sequence of operations whose answers are not looked at.\<close>

fun each_ignoring :: "('a \<Rightarrow> mc_sys \<Rightarrow> (int \<times> mc_sys) option) \<Rightarrow> 'a list \<Rightarrow> mc_sys \<Rightarrow> mc_sys option" where
  "each_ignoring f [] s = Some s"
| "each_ignoring f (x # xs) s = f x s \<bind> (\<lambda>(_, s). each_ignoring f xs s)"

text \<open>The port number 255 stands for all ports.\<close>

definition ports_of :: "u32 \<Rightarrow> u32 list" where
  "ports_of portId = (if portId = 255 then host_ports else [portId])"

definition odmMulticastVlanAdd :: "u32 \<Rightarrow> u32 \<Rightarrow> mc_sys \<Rightarrow> (int \<times> mc_sys) option" where
  "odmMulticastVlanAdd portId vlanId s =
     (if \<not> (IS_VALID_PORT_ID portId \<or> portId = 255) then Some (OPL_BAD_PARA, s)
      else if \<not> IS_VALID_VLAN_ID vlanId then Some (OPL_BAD_PARA, s)
      else done_ok (each_ignoring (\<lambda>i. odmMcVlanMapAdd i vlanId) (ports_of portId) s))"

text \<open>The shift \<^verbatim>\<open>1<<255\<close> is undefined.\<close>

definition odmMulticastVlanDelete :: "u32 \<Rightarrow> u32 \<Rightarrow> mc_sys \<Rightarrow> (int \<times> mc_sys) option" where
  "odmMulticastVlanDelete portId vlanId s =
     (if \<not> (IS_VALID_PORT_ID portId \<or> portId = 255) then Some (OPL_BAD_PARA, s)
      else if \<not> IS_VALID_VLAN_ID vlanId then Some (OPL_BAD_PARA, s)
      else if portId = 255 then None
      else if mcVlanMapExist portId vlanId s then odmMcVlanMapDel portId vlanId s
      else Some (OPL_OK, s))"

definition clear_vlan :: "u32 \<Rightarrow> u32 \<Rightarrow> mc_sys \<Rightarrow> (int \<times> mc_sys) option" where
  "clear_vlan i j s = (if mcVlanMapExist i j s then odmMcVlanMapDel i j s else Some (OPL_OK, s))"

definition odmMulticastVlanClear :: "u32 \<Rightarrow> mc_sys \<Rightarrow> (int \<times> mc_sys) option" where
  "odmMulticastVlanClear portId s =
     (if \<not> (IS_VALID_PORT_ID portId \<or> portId = 255) then Some (OPL_BAD_PARA, s)
      else done_ok (each_ignoring (\<lambda>i s. done_ok (each_ignoring (clear_vlan i) vlan_ids s)) (ports_of portId) s))"

text \<open>The VLANs of a port and their number, which is counted in eight bits.\<close>

definition odmMulticastVlanGet :: "u32 \<Rightarrow> mc_sys \<Rightarrow> (int \<times> (u32 list \<times> u8) option) option" where
  "odmMulticastVlanGet portId s =
     (if \<not> (IS_VALID_PORT_ID portId \<or> portId = 255) then Some (OPL_BAD_PARA, None)
      else if portId = 255 then None
      else let vlans = filter (\<lambda>j. mcVlanMapExist portId j s) vlan_ids in Some (OPL_OK, Some (vlans, of_nat (length vlans))))"

subsection \<open>Operation on tags\<close>

definition dalMcVlanInXxxModeSetAction :: "u32 \<Rightarrow> u32 \<Rightarrow> mc_sys \<Rightarrow> mc_sys" where
  "dalMcVlanInXxxModeSetAction portId tagOper s =
     (let vlans = filter (\<lambda>j. mcVlanMapExist portId j s) vlan_ids
      in if tagOper = MC_TAG_OPER_MODE_TRANSPARENT then fold (\<lambda>j. mc_log (DalVttTagEntryAdd j j portId)) vlans s
         else if tagOper = MC_TAG_OPER_MODE_STRIP then fold (\<lambda>j. mc_log (DalVttTagEntryAdd 0 j portId)) vlans s
         else s)"

definition dalMcVlanInXxxModeClear :: "u32 \<Rightarrow> u32 \<Rightarrow> mc_sys \<Rightarrow> mc_sys" where
  "dalMcVlanInXxxModeClear portId tagOper s =
     (let vlans = filter (\<lambda>j. mcVlanMapExist portId j s) vlan_ids
      in if tagOper = MC_TAG_OPER_MODE_TRANSPARENT then fold (\<lambda>j. mc_log (DalVttTagEntryDel j j portId)) vlans s
         else if tagOper = MC_TAG_OPER_MODE_STRIP then fold (\<lambda>j. mc_log (DalVttTagEntryDel 0 j portId)) vlans s
         else s)"

definition dalMcTagOperSet :: "u32 \<Rightarrow> u32 \<Rightarrow> mc_sys \<Rightarrow> mc_sys" where
  "dalMcTagOperSet portId tagOper s =
     dalMcVlanInXxxModeSetAction portId tagOper (dalMcVlanInXxxModeClear portId (mcTagOperPerPortGet portId s) s)"

definition dalMcTagTranslationAdd :: "u32 \<Rightarrow> u32 \<Rightarrow> u32 \<Rightarrow> mc_sys \<Rightarrow> mc_sys" where
  "dalMcTagTranslationAdd portId mcVid userVid = mc_log (DalVttTagEntryAdd userVid mcVid portId)"

definition dalMcTagTranslationDel :: "u32 \<Rightarrow> u32 \<Rightarrow> u32 \<Rightarrow> mc_sys \<Rightarrow> mc_sys" where
  "dalMcTagTranslationDel portId mcVid userVid = mc_log (DalVttTagEntryDel userVid mcVid portId)"

definition odmMcTagTranslationClear :: "u32 \<Rightarrow> mc_sys \<Rightarrow> mc_sys" where
  "odmMcTagTranslationClear portId s =
     (if mcTagOperPerPortGet portId s \<noteq> MC_TAG_OPER_MODE_TRANSLATION then s
      else
        let s = fold (\<lambda>t. if vt_enable t \<and> vt_portId t = portId then dalMcTagTranslationDel portId (vt_mcVid t) (vt_userVid t) else id)
                  (mcTagTranslationTable s) s;
            s = mcTagTranslationTableClear portId s
        in fold (\<lambda>i. mc_del_key (port_section portId) (translation_key i)) vlan_ids s)"

definition odmMcTagOperSet :: "u32 \<Rightarrow> u32 \<Rightarrow> mc_sys \<Rightarrow> (int \<times> mc_sys) option" where
  "odmMcTagOperSet portId tagOper s =
     (if tagOper = mcTagOperPerPortGet portId s then Some (OPL_OK, s)
      else
        let s = (if tagOper \<noteq> MC_TAG_OPER_MODE_TRANSLATION then odmMcTagTranslationClear portId s else s);
            s = mcTagOperPerPortSet portId tagOper (dalMcTagOperSet portId tagOper s)
        in done_ok (mc_put_u32 (port_section portId) CFGKEY_MULTICAST_IGMP_PORT_TAGSTRIP tagOper s))"

definition odmMulticastTagstripSet :: "bool \<Rightarrow> u32 \<Rightarrow> u32 \<Rightarrow> mc_sys \<Rightarrow> (int \<times> mc_sys) option" where
  "odmMulticastTagstripSet IS_ONU_RESPIN portId tagOper s =
     (if IS_ONU_RESPIN \<and> portId = 0 then Some (OPL_OK, s)
      else if \<not> (IS_VALID_PORT_ID portId \<or> portId = 255) then Some (OPL_BAD_PARA, s)
      else done_ok (each_ignoring (\<lambda>i. odmMcTagOperSet i tagOper) (ports_of portId) s))"

definition odmMulticastTagstripGet :: "u32 \<Rightarrow> mc_sys \<Rightarrow> (int \<times> u8 option) option" where
  "odmMulticastTagstripGet portId s =
     (if \<not> (IS_VALID_PORT_ID portId \<or> portId = 255) then Some (OPL_BAD_PARA, None)
      else if portId = 255 then None
      else Some (OPL_OK, Some (ucast (mcTagOperPerPortGet portId s))))"

text \<open>A check of the table that is no longer called.\<close>

definition mcTagTranslationTableCheck :: "u32 \<Rightarrow> u32 \<Rightarrow> u32 \<Rightarrow> mc_sys \<Rightarrow> int" where
  "mcTagTranslationTableCheck portId mcVid userVid s =
     (if mcVid = userVid then OPL_ERROR
      else if \<exists>t\<in>set (mcTagTranslationTable s). vt_enable t \<and> vt_portId t = portId
                \<and> (vt_mcVid t = userVid \<or> vt_userVid t = userVid \<or> vt_userVid t = mcVid) then OPL_ERROR
      else OPL_OK)"

text \<open>The loop over the table: the answer of the first entry of the port that decides, if there is one.\<close>

fun translation_verdict :: "u32 \<Rightarrow> u32 \<Rightarrow> u32 \<Rightarrow> MC_VLAN_TRANSLATION_ENTRY_t list \<Rightarrow> int option" where
  "translation_verdict portId mcVid userVid [] = None"
| "translation_verdict portId mcVid userVid (t # ts) =
     (if \<not> vt_enable t \<or> vt_portId t \<noteq> portId then translation_verdict portId mcVid userVid ts
      else if vt_userVid t = userVid then Some (if vt_mcVid t = mcVid then OPL_OK else OPL_ERROR)
      else if vt_userVid t = mcVid then Some OPL_ERROR
      else if vt_mcVid t = userVid then Some OPL_ERROR
      else translation_verdict portId mcVid userVid ts)"

definition drop_translation :: "u32 \<Rightarrow> u32 \<Rightarrow> u32 \<Rightarrow> mc_sys \<Rightarrow> int \<times> mc_sys" where
  "drop_translation portId mcVid userVid s =
     (case mcTagTranslationTableGet portId mcVid s of
        None \<Rightarrow> (OPL_OK, s)
      | Some oldUserVid \<Rightarrow>
          mcTagTranslationTableDel portId mcVid oldUserVid (dalMcTagTranslationDel portId mcVid oldUserVid s))"

definition odmMcTagTranslationSet :: "u32 \<Rightarrow> u32 \<Rightarrow> u32 \<Rightarrow> mc_sys \<Rightarrow> (int \<times> mc_sys) option" where
  "odmMcTagTranslationSet portId mcVid userVid s =
     (if mcTagOperPerPortGet portId s \<noteq> MC_TAG_OPER_MODE_TRANSLATION then Some (OPL_ERROR, s)
      else case translation_verdict portId mcVid userVid (mcTagTranslationTable s) of
        Some ret \<Rightarrow> Some (ret, s)
      | None \<Rightarrow>
          if mcTagTranslationTableGet portId mcVid s = Some userVid then Some (OPL_OK, s)
          else
            let (ret, s) = drop_translation portId mcVid userVid s
            in if ret \<noteq> OPL_OK then Some (ret, s)
               else
                 let (ret, s) = mcTagTranslationTableAdd portId mcVid userVid (dalMcTagTranslationAdd portId mcVid userVid s)
                 in if ret \<noteq> OPL_OK then Some (ret, s)
                    else done_ok (mc_put_u32 (port_section portId) (translation_key mcVid) userVid s))"

definition odmVlanRangeCheck :: "u32 \<Rightarrow> bool" where
  "odmVlanRangeCheck vlanId \<longleftrightarrow> 1 \<le> vlanId \<and> vlanId \<le> 4094"

definition odmMulticastTagTranslationAdd :: "u32 \<Rightarrow> u32 \<Rightarrow> u32 \<Rightarrow> mc_sys \<Rightarrow> (int \<times> mc_sys) option" where
  "odmMulticastTagTranslationAdd portId mcVid userVid s =
     (if \<not> (IS_VALID_PORT_ID portId \<or> portId = 255) then Some (OPL_BAD_PARA, s)
      else if \<not> odmVlanRangeCheck mcVid then Some (OPL_BAD_PARA, s)
      else if \<not> odmVlanRangeCheck userVid then Some (OPL_BAD_PARA, s)
      else if portId = 255 then done_ok (each_ignoring (\<lambda>i. odmMcTagTranslationSet i mcVid userVid) host_ports s)
      else odmMcTagTranslationSet portId mcVid userVid s)"

text \<open>The array of the operations has five entries.\<close>

definition odmMulticastVlanTranslateEntryClear :: "u32 \<Rightarrow> mc_sys \<Rightarrow> (int \<times> mc_sys) option" where
  "odmMulticastVlanTranslateEntryClear portId s =
     (if \<not> (IS_VALID_PORT_ID portId \<or> portId = 255) then Some (OPL_BAD_PARA, s)
      else if portId = 255 then None
      else Some (OPL_OK, odmMcTagTranslationClear portId s))"

subsection \<open>Control entries\<close>

text \<open>
  The loops that delete groups start again at the head of the list after each deletion. \<open>n\<close> is the number of
  groups to delete, or the length of the list, when all that match are to go.
\<close>

fun del_groups :: "(MC_GROUP_t \<Rightarrow> bool) \<Rightarrow> nat \<Rightarrow> mc_sys \<Rightarrow> int \<times> mc_sys" where
  "del_groups P 0 s = (OPL_OK, s)"
| "del_groups P (Suc n) s =
     (case find_pos P (mcGroupList s) of
        None \<Rightarrow> (OPL_OK, s)
      | Some i \<Rightarrow>
          let (ret, s) = odmMcGroupDel (group_key (mcGroupList s ! i)) (mc_bitmap (mcb s)) s
          in if ret \<noteq> OPL_OK then (ret, s) else del_groups P n s)"

definition odmMulticastControlEntryNumGet :: "u32 \<Rightarrow> mc_sys \<Rightarrow> u32" where
  "odmMulticastControlEntryNumGet portId s = (if IS_VALID_PORT_ID portId then mcGroupNumPerPort portId s else 0)"

definition odmMulticastControlEntryNumSet :: "u32 \<Rightarrow> u32 \<Rightarrow> mc_sys \<Rightarrow> int \<times> mc_sys" where
  "odmMulticastControlEntryNumSet portId num s =
     (if \<not> IS_VALID_PORT_ID portId then (OPL_BAD_PARA, s)
      else
        let entryNum = mcGroupNumPerPort portId s
        in if entryNum \<le> num then (OPL_OK, s)
           else del_groups (\<lambda>g. hostPortId g = portId) (unat (entryNum - num)) s)"

definition odmMcControlBlockMaxGroupNumSet :: "u32 \<Rightarrow> u32 \<Rightarrow> mc_sys \<Rightarrow> (int \<times> mc_sys) option" where
  "odmMcControlBlockMaxGroupNumSet portId maxGroup s =
     done_ok (map_option (\<lambda>s. snd (odmMulticastControlEntryNumSet portId maxGroup s))
       (mc_put_u32 (port_section portId) CFGKEY_MULTICAST_IGMP_PORT_MAX_GROUP_NUM maxGroup
         (with_mcb (\<lambda>cb. cb\<lparr> maxGroupNum := (maxGroupNum cb)(portId := maxGroup) \<rparr>) s)))"

definition odmMulticastGroupMaxNumSet :: "bool \<Rightarrow> u32 \<Rightarrow> u32 \<Rightarrow> mc_sys \<Rightarrow> (int \<times> mc_sys) option" where
  "odmMulticastGroupMaxNumSet IS_ONU_RESPIN portId num s =
     (if IS_ONU_RESPIN \<and> portId = 0 then Some (OPL_OK, s)
      else if \<not> (IS_VALID_PORT_ID portId \<or> portId = 255) then Some (OPL_BAD_PARA, s)
      else if ODM_MAX_GRUP_NUM_PER_PORT < num \<or> num = 0 then Some (ERR_INVALID_PARAMETERS, s)
      else done_ok (each_ignoring (\<lambda>i. odmMcControlBlockMaxGroupNumSet i num) (ports_of portId) s))"

definition odmMulticastControlEntryClear :: "mc_sys \<Rightarrow> (int \<times> mc_sys) option" where
  "odmMulticastControlEntryClear s =
     (let s = mc_log DalMulticastRuleDelAll s;
          s = mcGroupListDestory (fold (\<lambda>g. dalMcGroupDel (group_key g)) (mcGroupList s) s)
      in if ctcControlType (mcb s) = MC_CTL_GDA_MAC_VID \<or> ctcControlType (mcb s) = MC_CTL_GDA_GDA_IP_VID
         then done_ok (each_ignoring odmMulticastVlanClear host_ports s)
         else Some (OPL_OK, s))"

definition odmMcControlBlockCtcControlTypeSet :: "u32 \<Rightarrow> mc_sys \<Rightarrow> (int \<times> mc_sys) option" where
  "odmMcControlBlockCtcControlTypeSet ty s =
     (if ty = ctcControlType (mcb s) then Some (OPL_OK, s)
      else odmMulticastControlEntryClear s \<bind> (\<lambda>(_, s).
        let s = with_mcb (\<lambda>cb. cb\<lparr> ctcControlType := ty \<rparr>) s; s = with_mcb (\<lambda>cb. cb\<lparr> mc_bitmap := control_bitmap cb \<rparr>) s
        in done_ok (mc_put_u32 CFGSECTION_MULTICAST_IGMP_MANAGEMENT CFGKEY_MULTICAST_IGMP_MANAGEMENT_CTC_CONTROL_TYPE ty s)))"

text \<open>The group that an entry of the management stands for; the MAC address is a null pointer when it is named by its IP address.\<close>

definition entry_key :: "u32 \<Rightarrow> u32 \<Rightarrow> u8 list \<Rightarrow> mc_sys \<Rightarrow> gkey option" where
  "entry_key portId vlanId mac s =
     (if ctcControlType (mcb s) = MC_CTL_GDA_MAC \<or> ctcControlType (mcb s) = MC_CTL_GDA_MAC_VID then Some (portId, mac, 0, vlanId)
      else if ctcControlType (mcb s) = MC_CTL_GDA_GDA_IP_VID then Some (portId, replicate 6 0, load32 (slice_of 2 4 mac), vlanId)
      else None)"

definition null_mac_read :: "mc_sys \<Rightarrow> bool" where
  "null_mac_read s \<longleftrightarrow> ctcControlType (mcb s) = MC_CTL_GDA_GDA_IP_VID \<and> mc_bitmap (mcb s) AND MC_BITMAP_GDA_MAC \<noteq> 0"

definition with_vlan :: "mc_sys \<Rightarrow> bool" where
  "with_vlan s \<longleftrightarrow> ctcControlType (mcb s) = MC_CTL_GDA_MAC_VID \<or> ctcControlType (mcb s) = MC_CTL_GDA_GDA_IP_VID"

definition odmMulticastControlEntryAdd :: "u32 \<Rightarrow> u32 \<Rightarrow> u8 list \<Rightarrow> mc_sys \<Rightarrow> (int \<times> mc_sys) option" where
  "odmMulticastControlEntryAdd portId vlanId mac s =
     (if \<not> (IS_VALID_PORT_ID portId \<or> portId = 255) then Some (OPL_BAD_PARA, s)
      else if \<not> IS_VALID_VLAN_ID vlanId then Some (OPL_BAD_PARA, s)
      else if mcMode (mcb s) \<noteq> MC_MODE_CTC then Some (OPL_ERROR, s)
      else if null_mac_read s then None
      else
        let (ret, s) = (case entry_key portId vlanId mac s of
                 None \<Rightarrow> (OPL_OK, s)
               | Some k \<Rightarrow> odmMcGroupAdd k GROUP_STATE_CONFIG_BY_OAM (mc_bitmap (mcb s)) s)
        in if ret \<noteq> OPL_OK then Some (ret, s)
           else if with_vlan s then odmMulticastVlanAdd portId vlanId s else Some (OPL_OK, s))"

text \<open>Ports and VLANs of the groups. The list that they are copied to by the deletion has 256 entries.\<close>

definition odmMulticastControlEntryGet :: "mc_sys \<Rightarrow> (u16 \<times> u16) list option" where
  "odmMulticastControlEntryGet s =
     (if 256 < length (mcGroupList s) then None else Some (map (\<lambda>g. (ucast (hostPortId g), ucast (mcVlan g))) (mcGroupList s)))"

definition odmMulticastControlEntryDelete :: "u32 \<Rightarrow> u32 \<Rightarrow> u8 list \<Rightarrow> mc_sys \<Rightarrow> (int \<times> mc_sys) option" where
  "odmMulticastControlEntryDelete portId vlanId mac s =
     (if \<not> (IS_VALID_PORT_ID portId \<or> portId = 255) then Some (OPL_BAD_PARA, s)
      else if \<not> IS_VALID_VLAN_ID vlanId then Some (OPL_BAD_PARA, s)
      else if mcMode (mcb s) \<noteq> MC_MODE_CTC then Some (OPL_ERROR, s)
      else if null_mac_read s \<and> mcGroupList s \<noteq> [] then None
      else case entry_key portId vlanId mac s \<bind> (\<lambda>k. mcGroupListGet k (mc_bitmap (mcb s)) s) of
        None \<Rightarrow> Some (OPL_ERROR, s)
      | Some g \<Rightarrow>
          let k = group_key (mcGroupList s ! g);
              (ret, s) = (if mcGroupListHostListEmpty k (mc_bitmap (mcb s)) s then odmMcGroupDel k (mc_bitmap (mcb s)) s else (OPL_OK, s))
          in if ret \<noteq> OPL_OK then Some (ret, s)
             else if with_vlan s
             then odmMulticastControlEntryGet s \<bind> (\<lambda>es.
               if \<exists>(port, vid)\<in>set es. ucast port = portId \<and> ucast vid = vlanId then Some (OPL_ERROR, s)
               else odmMulticastVlanDelete portId vlanId s \<bind> (\<lambda>(_, s). Some (OPL_ERROR, s)))
             else Some (OPL_ERROR, s))"

definition odmMulticastControlEntryDeleteByVlan :: "u32 \<Rightarrow> mc_sys \<Rightarrow> (int \<times> mc_sys) option" where
  "odmMulticastControlEntryDeleteByVlan vlanId s =
     (if \<not> IS_VALID_VLAN_ID vlanId then Some (OPL_BAD_PARA, s)
      else
        let (ret, s) = del_groups (\<lambda>g. mcVlan g = vlanId) (length (mcGroupList s)) s
        in if ret \<noteq> OPL_OK then Some (ret, s)
           else if with_vlan s then done_ok (each_ignoring (\<lambda>i. odmMulticastVlanDelete i vlanId) host_ports s)
           else Some (OPL_OK, s))"

subsection \<open>Other calls of the management\<close>

definition odmMulticastHostAgingTimeSet :: "u32 \<Rightarrow> mc_sys \<Rightarrow> (int \<times> mc_sys) option" where
  "odmMulticastHostAgingTimeSet t s =
     (if mcMode (mcb s) \<noteq> MC_MODE_SNOOPING then Some (OPL_ERROR, s)
      else odmMcControlBlockHostAgingTimeSet t s \<bind> (\<lambda>(_, s). Some (OPL_OK, mcHostAgingTimerSet t s)))"

definition odmMulticastFastleaveModeSet :: "u32 \<Rightarrow> mc_sys \<Rightarrow> (int \<times> mc_sys) option" where
  "odmMulticastFastleaveModeSet enable s =
     (if enable = 1 then odmMcControlBlockLeaveModeSet MC_LEAVE_MODE_FAST s
      else if enable = 0 then odmMcControlBlockLeaveModeSet MC_LEAVE_MODE_NON_FAST_LEAVE s
      else Some (OPL_OK, s))"

definition odmMulticastFastleaveAdminStateGet :: "mc_sys \<Rightarrow> int" where
  "odmMulticastFastleaveAdminStateGet s =
     (if leaveMode (mcb s) = MC_LEAVE_MODE_FAST then 0 else if leaveMode (mcb s) = MC_LEAVE_MODE_NON_FAST_LEAVE then 1 else OPL_ERROR)"

definition odmMulticastControlTypeSet :: "u32 \<Rightarrow> mc_sys \<Rightarrow> (int \<times> mc_sys) option" where
  "odmMulticastControlTypeSet ty s = odmMcControlBlockCtcControlTypeSet ty s \<bind> (\<lambda>(_, s). Some (OPL_OK, s))"

definition odmMulticastSwitchGet :: "mc_sys \<Rightarrow> int" where
  "odmMulticastSwitchGet s = (if mcMode (mcb s) = MC_MODE_SNOOPING then 0 else if mcMode (mcb s) = MC_MODE_CTC then 1 else OPL_ERROR)"

text \<open>The answer has eight bits. The limit of port 255 is outside the array.\<close>

definition odmMulticastGroupMaxNumGet :: "u32 \<Rightarrow> mc_sys \<Rightarrow> u8 option" where
  "odmMulticastGroupMaxNumGet portId s =
     (if \<not> (IS_VALID_PORT_ID portId \<or> portId = 255) then Some (of_int OPL_BAD_PARA)
      else if portId = 255 then None else Some (ucast (maxGroupNum (mcb s) portId)))"

text \<open>A frame that the driver of the switch delivers: the answer and the event for the queue. Before the frame of a
  host there are four bytes.\<close>

definition odmMulticastIgmpMsgHandler_MultiPort :: "u8 \<Rightarrow> u8 \<Rightarrow> u8 list \<Rightarrow> nat \<Rightarrow> u8 list \<Rightarrow> int \<times> mc_event option" where
  "odmMulticastIgmpMsgHandler_MultiPort portNum withTag payLoad len raw_pkt =
     (let port = ucast portNum :: u32
      in if 1518 + 4 < len then (OPL_BAD_PARA, None)
         else if \<not> (port = PORT_PON_LOGIC \<or> IS_VALID_PORT_ID port) then (OPL_ERROR, None)
         else if port = PORT_PON_LOGIC then (OPL_OK, Some (Igmp_frame (take len payLoad) port))
         else let packetLength = (if withTag = 1 then 12 + 4 + len else 12 + len)
              in (OPL_OK, Some (Igmp_frame (slice_of 4 packetLength raw_pkt) port)))"

definition mode_switch_port :: "bool \<Rightarrow> u32 \<Rightarrow> mc_sys \<Rightarrow> (int \<times> mc_sys) option" where
  "mode_switch_port IS_ONU_RESPIN i s = do {
     (_, s) \<leftarrow> odmMulticastVlanClear i s;
     (_, s) \<leftarrow> odmMulticastTagstripSet IS_ONU_RESPIN i MC_TAG_OPER_MODE_TRANSPARENT s;
     odmMulticastVlanTranslateEntryClear i s }"

definition mcModeSwitch :: "bool \<Rightarrow> mc_sys \<Rightarrow> (int \<times> mc_sys) option" where
  "mcModeSwitch IS_ONU_RESPIN s = do {
     (_, s) \<leftarrow> odmMulticastControlEntryClear (with_mcb (\<lambda>cb. cb\<lparr> isInitialized := False \<rparr>) s);
     s \<leftarrow> each_ignoring (mode_switch_port IS_ONU_RESPIN) host_ports s;
     Some (OPL_OK, with_mcb (\<lambda>cb. cb\<lparr> isInitialized := True \<rparr>) s) }"

definition odmMulticastSwitchSet :: "bool \<Rightarrow> u32 \<Rightarrow> mc_sys \<Rightarrow> (int \<times> mc_sys) option" where
  "odmMulticastSwitchSet IS_ONU_RESPIN mode s =
     (if (mode = 0 \<or> mode = 1) \<and> mcMode (mcb s) \<noteq> mode
      then odmMcControlBlockModeSet mode s \<bind> (\<lambda>(_, s). mcModeSwitch IS_ONU_RESPIN s) \<bind> (\<lambda>(_, s). Some (OPL_OK, s))
      else Some (OPL_OK, s))"

subsection \<open>The start\<close>

definition mcControlBlockInit :: "mc_sys \<Rightarrow> mc_sys" where
  "mcControlBlockInit s = s\<lparr> mcb :=
     \<lparr> mcRecvEn = 1, mcMode = MC_MODE_SNOOPING, leaveMode = MC_LEAVE_MODE_FAST, ctcControlType = MC_CTL_GDA_GDA_IP_VID,
       mc_bitmap = CTC_CONTROL_BITMAP_GDA_IP_VLAN_ID, hostBitmap = MC_BITMAP_HOST_SRC_IP,
       cb_hostAgingTime = IGMP_HOST_AGING_TIME_DEFAULT, lastQueryInterval = LAST_MEMBER_QUERY_INTERVAL_DEFAULT,
       lastQueryCount = LAST_MEMBER_QUERY_COUNT_DEFAULT,
       maxGroupNum = (\<lambda>i. if i \<in> set host_ports then IGMP_MAX_GROUP_NUMBER_PER_PORT else 0), isInitialized = False \<rparr> \<rparr>"

text \<open>The tokens of \<^verbatim>\<open>strtok_r (text, ",")\<close>, and \<^verbatim>\<open>atol\<close>.\<close>

fun comma_tokens :: "string \<Rightarrow> string \<Rightarrow> string list" where
  "comma_tokens acc [] = (if acc = [] then [] else [acc])"
| "comma_tokens acc (c # cs) =
     (if c = CHR '','' then (if acc = [] then comma_tokens [] cs else acc # comma_tokens [] cs) else comma_tokens (acc @ [c]) cs)"

definition atol10 :: "string \<Rightarrow> u32" where
  "atol10 s = (let (neg, s) = signed (dropWhile isspace s); n = int (num_val 10 (takeWhile (is_digit 10) s))
     in of_int (if neg then max (- n) (- (2 ^ 31)) else min n (2 ^ 31 - 1)))"

definition start_vlan :: "u32 \<Rightarrow> string \<Rightarrow> mc_sys \<Rightarrow> (int \<times> mc_sys) option" where
  "start_vlan i p s =
     (let vlanId = atol10 p
      in if vlanId = 0 then Some (OPL_OK, s)
         else if \<not> IS_VALID_VLAN_ID vlanId then None
         else Some (OPL_OK, mcVlanMapAdd i vlanId (dalMcVlanMapAdd i vlanId s)))"

definition start_vlans :: "u32 \<Rightarrow> mc_sys \<Rightarrow> mc_sys option" where
  "start_vlans i s =
     (case stored_vlans i s of
        None \<Rightarrow> Some s
      | Some text \<Rightarrow> if BIG_BUF_LEN \<le> length text then None else each_ignoring (start_vlan i) (comma_tokens [] text) s)"

text \<open>The loop over the translations of a port ends when the table is full.\<close>

fun start_translations :: "u32 \<Rightarrow> u32 list \<Rightarrow> mc_sys \<Rightarrow> int \<times> mc_sys" where
  "start_translations i [] s = (OPL_OK, s)"
| "start_translations i (j # js) s =
     (let userVid = mc_get_u32 (port_section i) (translation_key j) 0 s
      in if userVid = 0 then start_translations i js s
         else let (ret, s) = mcTagTranslationTableAdd i j userVid (dalMcTagTranslationAdd i j userVid s)
              in if ret \<noteq> OPL_OK then (ret, s) else start_translations i js s)"

fun start_ports :: "u32 list \<Rightarrow> mc_sys \<Rightarrow> (int \<times> mc_sys) option" where
  "start_ports [] s = Some (OPL_OK, s)"
| "start_ports (i # is) s =
     start_vlans i s \<bind> (\<lambda>s.
       let tagOper = mc_get_u32 (port_section i) CFGKEY_MULTICAST_IGMP_PORT_TAGSTRIP MC_TAG_OPER_MODE_TRANSPARENT s;
           s = mcTagOperPerPortSet i tagOper (dalMcTagOperSet i tagOper s);
           (ret, s) = start_translations i vlan_ids s
       in if ret \<noteq> OPL_OK then Some (ret, s)
          else start_ports is (with_mcb (\<lambda>cb. cb\<lparr> maxGroupNum := (maxGroupNum cb)(i :=
                 mc_get_u32 (port_section i) CFGKEY_MULTICAST_IGMP_PORT_MAX_GROUP_NUM (maxGroupNum cb i) s) \<rparr>) s))"

text \<open>The settings of the control block that are read, in the order of the code.\<close>

definition start_mode :: "mc_sys \<Rightarrow> mc_sys" where
  "start_mode s =
     (let get = (\<lambda>key d. mc_get_u32 CFGSECTION_MULTICAST_IGMP_MANAGEMENT key d s); cb = mcb s;
          cb = cb\<lparr> mcMode := get CFGKEY_MULTICAST_IGMP_MANAGEMENT_MODE (mcMode cb) \<rparr>;
          cb = (if mcMode cb = MC_MODE_SNOOPING then cb\<lparr> hostBitmap := MC_BITMAP_HOST_SRC_IP \<rparr>
                else if mcMode cb = MC_MODE_CTC then cb\<lparr> hostBitmap := 0 \<rparr> else cb);
          cb = cb\<lparr> ctcControlType := get CFGKEY_MULTICAST_IGMP_MANAGEMENT_CTC_CONTROL_TYPE (ctcControlType cb) \<rparr>;
          cb = (if mcMode cb = MC_MODE_SNOOPING then cb\<lparr> mc_bitmap := CTC_CONTROL_BITMAP_GDA_IP_VLAN_ID \<rparr>
                else if mcMode cb = MC_MODE_CTC then cb\<lparr> mc_bitmap := control_bitmap cb \<rparr> else cb)
      in s\<lparr> mcb := cb\<lparr> leaveMode := get CFGKEY_MULTICAST_IGMP_MANAGEMENT_LEAVE_MODE (leaveMode cb),
             cb_hostAgingTime := get CFGKEY_MULTICAST_IGMP_MANAGEMENT_HOST_AGING_TIME (cb_hostAgingTime cb),
             lastQueryInterval := get CFGKEY_MULTICAST_IGMP_MANAGEMENT_LAST_QUERY_INTERVAL (lastQueryInterval cb),
             lastQueryCount := get CFGKEY_MULTICAST_IGMP_MANAGEMENT_LAST_QUERY_COUNT (lastQueryCount cb) \<rparr> \<rparr>)"

definition mcInitFromConfigFile :: "mc_sys \<Rightarrow> (int \<times> mc_sys) option" where
  "mcInitFromConfigFile s = do {
     let s = with_mcb (\<lambda>cb. cb\<lparr> mcRecvEn := 0 \<rparr>) s;
     s \<leftarrow> mc_put_u32 CFGSECTION_MULTICAST_IGMP_MANAGEMENT CFGKEY_MULTICAST_IGMP_MANAGEMENT_IGMP_MODE 0 s;
     start_ports host_ports (start_mode (mc_log DalMulticastDisable s)) }"

definition zero_stats :: MC_CONTROL_STATS_t where
  "zero_stats = \<lparr> generalQueryV1RxCount = 0, generalQueryV2RxCount = 0, groupSpecificV2QueryRxCount = 0,
     otherHostRxUnknownCount = 0, otherRouterRxUnknownCount = 0, joinReportV1RxCount = 0, joinReportV2RxCount = 0,
     leaveV2RxCount = 0, memAllocCount = 0, memfreeCount = 0 \<rparr>"

definition odmMulticastInit :: "mc_sys \<Rightarrow> (int \<times> mc_sys) option" where
  "odmMulticastInit s = do {
     let s = mcControlBlockInit s;
     let s = s\<lparr> mcVlanMap := (\<lambda>_. 0), mcTagOperPerPort := (\<lambda>_. 0), mcTagTranslationTable := replicate MC_VLAN_TRANSLATION_ENTRY zero_entry \<rparr>;
     (_, s) \<leftarrow> odmMulticastControlEntryClear (mcRouterPortInit s);
     (_, s) \<leftarrow> mcInitFromConfigFile (mc_log DalMulticastInit (s\<lparr> mcControlStats := zero_stats \<rparr>));
     Some (OPL_OK, with_mcb (\<lambda>cb. cb\<lparr> isInitialized := True \<rparr>) s) }"

end
