(* ===== verification/Mc_Snooping.thy ===== *)
theory Mc_Snooping
  imports Mc_Control Vos_Events
begin

unbundle bit_operations_syntax

text \<open>
  IGMP snooping: the tables of groups and hosts implement a map from members (host port, group address,
  address of the host) to the seconds they have left, in which reports put, leaves delete and every
  second counts down. Then what pending leaves do, and faults.
\<close>

subsection \<open>Positions in lists\<close>

lemma find_pos_None: "find_pos P xs = None \<longleftrightarrow> (\<forall>x\<in>set xs. \<not> P x)"
  by (induction xs) auto

lemma find_pos_Some:
  "find_pos P xs = Some i \<Longrightarrow> \<exists>as x bs. xs = as @ x # bs \<and> length as = i \<and> P x \<and> (\<forall>a\<in>set as. \<not> P a)"
proof (induction xs arbitrary: i)
  case (Cons y ys)
  show ?case
  proof (cases "P y")
    case True
    then show ?thesis using Cons.prems by (intro exI [of _ "[]"]) auto
  next
    case False
    then obtain j where j: "find_pos P ys = Some j" "i = Suc j" using Cons.prems by auto
    from Cons.IH [OF j(1)] obtain as x bs where "ys = as @ x # bs" "length as = j" "P x" "\<forall>a\<in>set as. \<not> P a" by blast
    then show ?thesis using False j(2) by (intro exI [of _ "y # as"]) auto
  qed
qed simp

lemma find_pos_split [simp]: "\<forall>a\<in>set as. \<not> P a \<Longrightarrow> P x \<Longrightarrow> find_pos P (as @ x # bs) = Some (length as)"
  by (induction as) auto

lemma distinct_around: "distinct (map f (as @ x # bs)) \<Longrightarrow> (\<forall>a\<in>set as. f a \<noteq> f x) \<and> (\<forall>b\<in>set bs. f b \<noteq> f x)"
  by simp (metis image_eqI)

lemma upd_at_split [simp]: "upd_at (length as) f (as @ x # bs) = as @ f x # bs"
  by (simp add: upd_at_def)

lemma del_at_split [simp]: "del_at (length as) (as @ x # bs) = as @ bs"
  by (simp add: del_at_def)

lemma upd_at_0 [simp]: "upd_at 0 f (x # xs) = f x # xs"
  by (simp add: upd_at_def)

subsection \<open>Lookup in snooping mode\<close>

definition snoop_cfg :: "MC_CONTROL_t \<Rightarrow> bool" where
  "snoop_cfg cb \<longleftrightarrow> mcMode cb = MC_MODE_SNOOPING \<and> mc_bitmap cb = CTC_CONTROL_BITMAP_GDA_IP_VLAN_ID
     \<and> hostBitmap cb = MC_BITMAP_HOST_SRC_IP"

definition gid :: "MC_GROUP_t \<Rightarrow> u32 \<times> u32" where "gid g = (hostPortId g, groupAddress g)"

lemma group_compare_snoop:
  "group_compare CTC_CONTROL_BITMAP_GDA_IP_VLAN_ID (p, m, a, v) g \<longleftrightarrow> gid g = (p, a)"
  by (auto simp: group_compare_def CTC_CONTROL_BITMAP_GDA_IP_VLAN_ID_def mc_bits bit_if_def gid_def)

lemma group_compare_key: "group_compare CTC_CONTROL_BITMAP_GDA_IP_VLAN_ID (group_key x) g \<longleftrightarrow> gid g = gid x"
  by (simp add: group_key_def group_compare_snoop) (simp add: gid_def)

lemma host_compare_snoop: "host_compare MC_BITMAP_HOST_SRC_IP (mac, ip) h \<longleftrightarrow> h_srcIp h = ip"
  by (auto simp: host_compare_def mc_bits bit_if_def)

lemma find_group: "find_pos (group_compare CTC_CONTROL_BITMAP_GDA_IP_VLAN_ID (p, m, a, v)) = find_pos (\<lambda>g. gid g = (p, a))"
  by (rule arg_cong [where f = find_pos]) (simp add: fun_eq_iff group_compare_snoop)

lemma find_group_key: "find_pos (group_compare CTC_CONTROL_BITMAP_GDA_IP_VLAN_ID (group_key x)) = find_pos (\<lambda>g. gid g = gid x)"
  by (rule arg_cong [where f = find_pos]) (simp add: fun_eq_iff group_compare_key)

lemma find_host: "find_pos (host_compare MC_BITMAP_HOST_SRC_IP (mac, ip)) = find_pos (\<lambda>h. h_srcIp h = ip)"
  by (rule arg_cong [where f = find_pos]) (simp add: fun_eq_iff host_compare_snoop)

text \<open>What the operations that send and count leave alone.\<close>

definition tables :: "mc_sys \<Rightarrow> _" where
  "tables s = (mcb s, mcGroupList s, mcGroupTotalNum s, mc_timers s, leave_ticks s, mcRouterPort s)"

lemma tables_frame [simp]:
  "tables (mc_log c s) = tables s" "tables (count_alloc s) = tables s" "tables (count_free s) = tables s"
  "tables (count_message d s) = tables s" "tables (count_query d s) = tables s" "tables (count_router_unknown s) = tables s"
  "tables (count_host_unknown s) = tables s" "tables (mc_send p pkt s) = tables s"
  by (simp_all add: tables_def mc_log_def count_alloc_def count_free_def with_stats_def count_message_def count_query_def
      count_router_unknown_def count_host_unknown_def mc_send_def)

lemma tables_output: "mcSnoopingOutput p tag pkt len b s = Some s' \<Longrightarrow> tables s' = tables s"
  by (auto simp: mcSnoopingOutput_def Let_def split: if_splits option.splits)

lemma tables_routers: "snooping_to_routers rs b d s = Some s' \<Longrightarrow> tables s' = tables s"
proof (induction rs arbitrary: s)
  case (Cons r rs)
  show ?case
  proof (cases "rp_enable r")
    case True
    with Cons.prems obtain t where t: "mcSnoopingOutput (routerPortId r) (ingressTagType d) (ingressPacket d) (ingressPacketLength d) b s = Some t"
      "snooping_to_routers rs b d t = Some s'" by (auto simp: bind_eq_Some_conv)
    then show ?thesis using Cons.IH tables_output by metis
  next
    case False
    then show ?thesis using Cons by simp
  qed
qed simp

lemma tables_flood: "flood_snooping is d s = Some s' \<Longrightarrow> tables s' = tables s"
proof (induction "is" arbitrary: s)
  case (Cons i "is")
  then obtain t where "mcSnoopingOutput i (ingressTagType d) (ingressPacket d) (ingressPacketLength d) False s = Some t"
    "flood_snooping is d t = Some s'" by (auto simp: bind_eq_Some_conv)
  then show ?case using Cons.IH tables_output by metis
qed simp

subsection \<open>The abstract table\<close>

definition host_age :: "MC_HOST_t list \<Rightarrow> u32 \<Rightarrow> u32 option" where
  "host_age hs = map_of (map (\<lambda>h. (h_srcIp h, h_hostAgingTime h)) hs)"

definition entries :: "MC_GROUP_t \<Rightarrow> ((u32 \<times> u32 \<times> u32) \<times> u32) list" where
  "entries g = map (\<lambda>h. ((hostPortId g, groupAddress g, h_srcIp h), h_hostAgingTime h)) (hostList g)"

text \<open>The seconds that a member has left.\<close>

definition ages :: "mc_sys \<Rightarrow> u32 \<times> u32 \<times> u32 \<Rightarrow> u32 option" where
  "ages s = map_of (concat (map entries (mcGroupList s)))"

definition group_ok :: "MC_CONTROL_t \<Rightarrow> MC_GROUP_t \<Rightarrow> bool" where
  "group_ok cb g \<longleftrightarrow> hostList g \<noteq> [] \<and> distinct (map h_srcIp (hostList g)) \<and> hostTotalNum g = of_nat (length (hostList g))
     \<and> (\<forall>h\<in>set (hostList g). h_hostAgingTime h \<le> cb_hostAgingTime cb)"

definition groups_ok :: "MC_CONTROL_t \<Rightarrow> MC_GROUP_t list \<Rightarrow> bool" where
  "groups_ok cb gs \<longleftrightarrow> distinct (map gid gs) \<and> (\<forall>g\<in>set gs. group_ok cb g)
     \<and> (\<forall>p. length (filter (\<lambda>g. hostPortId g = p) gs) \<le> unat (maxGroupNum cb p))"

definition mc_inv :: "mc_sys \<Rightarrow> bool" where
  "mc_inv s \<longleftrightarrow> snoop_cfg (mcb s) \<and> groups_ok (mcb s) (mcGroupList s) \<and> mcGroupTotalNum s = of_nat (length (mcGroupList s))"

lemma mc_inv_tables: "tables s' = tables s \<Longrightarrow> mc_inv s' = mc_inv s"
  by (simp add: mc_inv_def tables_def)

lemma ages_tables: "tables s' = tables s \<Longrightarrow> ages s' = ages s"
  by (simp add: ages_def tables_def)

lemma entries_lookup: "map_of (entries g) (p, a, ip) = (if gid g = (p, a) then host_age (hostList g) ip else None)"
proof -
  have "map_of (map (\<lambda>h. ((hostPortId g, groupAddress g, h_srcIp h), h_hostAgingTime h)) hs) (p, a, ip)
      = (if gid g = (p, a) then map_of (map (\<lambda>h. (h_srcIp h, h_hostAgingTime h)) hs) ip else None)" for hs
    by (induction hs) (auto simp: gid_def)
  from this [of "hostList g"] show ?thesis unfolding entries_def host_age_def .
qed

lemma members_elsewhere: "(p, a) \<notin> gid ` set gs \<Longrightarrow> map_of (concat (map entries gs)) (p, a, ip) = None"
  by (induction gs) (auto simp: entries_lookup map_add_def split: option.splits)

lemma members_split:
  assumes "distinct (map gid (as @ x # bs))"
  shows "map_of (concat (map entries (as @ x # bs))) (p, a, ip) =
    (if gid x = (p, a) then host_age (hostList x) ip else map_of (concat (map entries (as @ bs))) (p, a, ip))"
proof (cases "gid x = (p, a)")
  case True
  then have "(p, a) \<notin> gid ` set as" "(p, a) \<notin> gid ` set bs" using assms by force+
  then show ?thesis using True by (simp add: map_add_def members_elsewhere entries_lookup split: option.splits)
next
  case False
  then show ?thesis by (simp add: map_add_def entries_lookup split: option.splits)
qed

lemma host_age_simps [simp]: "host_age [] = Map.empty" "host_age (h # hs) ip = (if h_srcIp h = ip then Some (h_hostAgingTime h) else host_age hs ip)"
  by (auto simp: host_age_def)

lemma host_age_None: "host_age hs ip = None \<longleftrightarrow> (\<forall>h\<in>set hs. h_srcIp h \<noteq> ip)"
  by (induction hs) (auto simp: host_age_def)

text \<open>The members of a table are the hosts of its groups.\<close>

lemma ages_group:
  assumes "distinct (map gid gs)" "g \<in> set gs"
  shows "map_of (concat (map entries gs)) (hostPortId g, groupAddress g, ip) = host_age (hostList g) ip"
proof -
  obtain as bs where "gs = as @ g # bs" using assms(2) by (auto dest: split_list)
  then show ?thesis using members_split [of as g bs] assms(1) by (simp add: gid_def)
qed

lemma group_has_member:
  assumes "mc_inv s"
  shows "(\<exists>ip. ages s (p, a, ip) \<noteq> None) \<longleftrightarrow> (p, a) \<in> gid ` set (mcGroupList s)"
proof
  assume "\<exists>ip. ages s (p, a, ip) \<noteq> None"
  then show "(p, a) \<in> gid ` set (mcGroupList s)" unfolding ages_def by (metis members_elsewhere)
next
  assume "(p, a) \<in> gid ` set (mcGroupList s)"
  then obtain g where g: "g \<in> set (mcGroupList s)" "gid g = (p, a)" by auto
  then obtain h where "h \<in> set (hostList g)" using assms by (fastforce simp: mc_inv_def groups_ok_def group_ok_def)
  then have "host_age (hostList g) (h_srcIp h) \<noteq> None" by (auto simp: host_age_None)
  then show "\<exists>ip. ages s (p, a, ip) \<noteq> None"
    using ages_group [OF _ g(1)] g(2) assms by (auto simp: mc_inv_def groups_ok_def ages_def gid_def)
qed

text \<open>The number of groups of a port, from the members.\<close>

definition groups_on :: "(u32 \<times> u32 \<times> u32 \<Rightarrow> u32 option) \<Rightarrow> u32 \<Rightarrow> nat" where
  "groups_on m p = card {a. \<exists>ip. m (p, a, ip) \<noteq> None}"

lemma groups_on_ages:
  assumes "mc_inv s"
  shows "groups_on (ages s) p = length (filter (\<lambda>g. hostPortId g = p) (mcGroupList s))"
proof -
  let ?gs = "filter (\<lambda>g. hostPortId g = p) (mcGroupList s)"
  have "{a. \<exists>ip. ages s (p, a, ip) \<noteq> None} = groupAddress ` set ?gs"
    unfolding group_has_member [OF assms] by (force simp: gid_def)
  moreover have "inj_on groupAddress (set ?gs)"
    using assms unfolding mc_inv_def groups_ok_def distinct_map inj_on_def gid_def by auto
  moreover have "distinct ?gs" using assms by (auto simp: mc_inv_def groups_ok_def distinct_map)
  ultimately show ?thesis unfolding groups_on_def by (simp only: card_image distinct_card)
qed

subsection \<open>Reports\<close>

definition put_host :: "u32 \<Rightarrow> u32 \<Rightarrow> MC_GROUP_t \<Rightarrow> MC_GROUP_t" where
  "put_host t ip g =
     (case find_pos (\<lambda>h. h_srcIp h = ip) (hostList g) of
        Some i \<Rightarrow> g\<lparr> hostList := upd_at i (\<lambda>h. h\<lparr> h_hostAgingTime := t, h_isLastReportRecevied := True \<rparr>) (hostList g) \<rparr>
      | None \<Rightarrow> g\<lparr> hostList := zero_host\<lparr> h_srcIp := ip, h_state := GROUP_STATE_LEARNING, h_hostAgingTime := t,
                    h_isLastReportRecevied := True \<rparr> # hostList g, hostTotalNum := hostTotalNum g + 1 \<rparr>)"

lemma gid_put_host [simp]: "gid (put_host t ip g) = gid g" "hostPortId (put_host t ip g) = hostPortId g"
  by (auto simp: put_host_def gid_def split: option.splits)

lemma host_age_split:
  "host_age (as @ x # bs) ip = (if ip \<in> h_srcIp ` set as then host_age as ip
     else if h_srcIp x = ip then Some (h_hostAgingTime x) else host_age bs ip)"
  by (induction as) (auto simp: host_age_def)

lemma host_age_put: "host_age (hostList (put_host t ip g)) = (host_age (hostList g))(ip \<mapsto> t)"
proof (cases "find_pos (\<lambda>h. h_srcIp h = ip) (hostList g)")
  case None
  then show ?thesis by (simp add: put_host_def host_age_def fun_eq_iff)
next
  case (Some i)
  from find_pos_Some [OF this] obtain as x bs where
    "hostList g = as @ x # bs" "length as = i" "h_srcIp x = ip" "\<forall>a\<in>set as. h_srcIp a \<noteq> ip" by blast
  then show ?thesis using Some by (auto simp: put_host_def host_age_split fun_eq_iff)
qed

lemma group_ok_put:
  assumes "hostList g = [] \<and> hostTotalNum g = 0 \<or> group_ok cb g" "t \<le> cb_hostAgingTime cb"
  shows "group_ok cb (put_host t ip g)"
proof (cases "find_pos (\<lambda>h. h_srcIp h = ip) (hostList g)")
  case None
  moreover have "\<forall>h\<in>set (hostList g). h_srcIp h \<noteq> ip" using None by (simp add: find_pos_None)
  ultimately show ?thesis using assms by (auto simp: put_host_def group_ok_def)
next
  case (Some i)
  from find_pos_Some [OF this] obtain as x bs where
    "hostList g = as @ x # bs" "length as = i" "h_srcIp x = ip" by blast
  then show ?thesis using assms Some by (auto simp: put_host_def group_ok_def)
qed

lemma join_host_eq:
  assumes "snoop_cfg (mcb s)" "mcGroupList s = as @ x # bs"
  shows "\<exists>s'. join_host (length as) d s = (OPL_OK, s') \<and> tables s' = tables
    (s\<lparr> mcGroupList := as @ put_host (cb_hostAgingTime (mcb s)) (srcIp d) x # bs \<rparr>)"
proof -
  have hb: "hostBitmap (mcb s) = MC_BITMAP_HOST_SRC_IP" using assms(1) by (simp add: snoop_cfg_def)
  have no_mac: "MC_BITMAP_HOST_SRC_IP AND MC_BITMAP_HOST_SA_MAC = 0" by (simp add: mc_bits)
  note defs = join_host_def desc_host_def mcHostListGet_def mcHostListAdd_def mcHostListSetHostAgingTime_def
    mcHostListSetisLastReportRecevied_def host_set_def with_host_def with_group_def find_host put_host_def hb assms(2)
    tables_def count_alloc_def with_stats_def set_host_key_def
  show ?thesis
  proof (cases "find_pos (\<lambda>h. h_srcIp h = srcIp d) (hostList x)")
    case None
    then show ?thesis by (simp add: defs Let_def no_mac)
  next
    case (Some i)
    from find_pos_Some [OF this] obtain hs h hs' where
      h: "hostList x = hs @ h # hs'" "length hs = i" "h_srcIp h = srcIp d" "\<forall>a\<in>set hs. h_srcIp a \<noteq> srcIp d" by blast
    then show ?thesis using Some by (simp add: defs Let_def flip: h(2))
  qed
qed

definition new_group :: "MC_PACKET_DESC_t \<Rightarrow> MC_GROUP_t" where
  "new_group d = zero_group\<lparr> groupAddress := igmpGroupAdress d, mcVlan := cVlan d, hostPortId := ingressPortId d,
     g_state := GROUP_STATE_LEARNING \<rparr>"

definition desc_gid :: "MC_PACKET_DESC_t \<Rightarrow> u32 \<times> u32" where
  "desc_gid d = (ingressPortId d, igmpGroupAdress d)"

lemma gid_new_group [simp]: "gid (new_group d) = desc_gid d" "hostPortId (new_group d) = ingressPortId d" "hostList (new_group d) = []"
  by (simp_all add: gid_def new_group_def desc_gid_def zero_group_def)

lemma join_group_known:
  assumes "snoop_cfg (mcb s)" "mcGroupList s = as @ x # bs" "gid x = desc_gid d" "\<forall>g\<in>set as. gid g \<noteq> desc_gid d"
  shows "join_group d s = (Inr (length as), s)"
proof -
  have "mcGroupListGet (desc_key d) (mc_bitmap (mcb s)) s = Some (length as)"
    using assms by (auto simp: mcGroupListGet_def snoop_cfg_def desc_key_def find_group desc_gid_def intro!: find_pos_split)
  then show ?thesis by (simp add: join_group_def)
qed

lemma join_group_new:
  assumes "snoop_cfg (mcb s)" "\<forall>g\<in>set (mcGroupList s). gid g \<noteq> desc_gid d"
  shows "join_group d s = (if mcGroupNumPerPort (ingressPortId d) s = maxGroupNum (mcb s) (ingressPortId d) then (Inl OPL_ERROR, s)
    else (Inr 0, snd (odmMcGroupAdd (desc_key d) GROUP_STATE_LEARNING (mc_bitmap (mcb s)) s)))"
    and "tables (snd (odmMcGroupAdd (desc_key d) GROUP_STATE_LEARNING (mc_bitmap (mcb s)) s)) =
      tables (s\<lparr> mcGroupList := new_group d # mcGroupList s, mcGroupTotalNum := mcGroupTotalNum s + 1 \<rparr>)"
proof -
  have bm: "mc_bitmap (mcb s) = CTC_CONTROL_BITMAP_GDA_IP_VLAN_ID" using assms(1) by (simp add: snoop_cfg_def)
  have none: "mcGroupListGet (desc_key d) CTC_CONTROL_BITMAP_GDA_IP_VLAN_ID t = None" if "mcGroupList t = mcGroupList s" for t
    using assms(2) that by (auto simp: mcGroupListGet_def desc_key_def find_group find_pos_None desc_gid_def)
  have key: "set_key (desc_key d) GROUP_STATE_LEARNING CTC_CONTROL_BITMAP_GDA_IP_VLAN_ID zero_group = new_group d"
    by (simp add: set_key_def desc_key_def new_group_def CTC_CONTROL_BITMAP_GDA_IP_VLAN_ID_def mc_bits)
  have add: "odmMcGroupAdd (desc_key d) GROUP_STATE_LEARNING (mc_bitmap (mcb s)) s = (OPL_OK, t) \<longrightarrow>
      mcGroupList t = new_group d # mcGroupList s \<and> mcGroupTotalNum t = mcGroupTotalNum s + 1 \<and> mcb t = mcb s
      \<and> mc_timers t = mc_timers s \<and> leave_ticks t = leave_ticks s \<and> mcRouterPort t = mcRouterPort s" for t
    unfolding odmMcGroupAdd_def bm
    by (auto simp: mcGroupListAdd_def dalMcGroupAdd_def mc_log_def none key count_alloc_def with_stats_def
        split: prod.splits)
  obtain t where t: "odmMcGroupAdd (desc_key d) GROUP_STATE_LEARNING (mc_bitmap (mcb s)) s = (OPL_OK, t)"
    by (simp add: odmMcGroupAdd_def)
  have get: "mcGroupListGet (desc_key d) CTC_CONTROL_BITMAP_GDA_IP_VLAN_ID t = Some 0"
    using add [of t] t by (simp add: mcGroupListGet_def desc_key_def find_group desc_gid_def)
  show "join_group d s = (if mcGroupNumPerPort (ingressPortId d) s = maxGroupNum (mcb s) (ingressPortId d) then (Inl OPL_ERROR, s)
    else (Inr 0, snd (odmMcGroupAdd (desc_key d) GROUP_STATE_LEARNING (mc_bitmap (mcb s)) s)))"
    using t get add [of t] none [of s] by (simp add: join_group_def bm)
  show "tables (snd (odmMcGroupAdd (desc_key d) GROUP_STATE_LEARNING (mc_bitmap (mcb s)) s)) =
      tables (s\<lparr> mcGroupList := new_group d # mcGroupList s, mcGroupTotalNum := mcGroupTotalNum s + 1 \<rparr>)"
    using t add [of t] by (simp add: tables_def)
qed

text \<open>A report that is taken: the group is known or may be added.\<close>

definition admitted :: "MC_PACKET_DESC_t \<Rightarrow> mc_sys \<Rightarrow> bool" where
  "admitted d s \<longleftrightarrow> \<not> report_refused d \<and> ((\<exists>g\<in>set (mcGroupList s). gid g = desc_gid d)
     \<or> length (filter (\<lambda>g. hostPortId g = ingressPortId d) (mcGroupList s)) < unat (maxGroupNum (mcb s) (ingressPortId d)))"

definition desc_member :: "MC_PACKET_DESC_t \<Rightarrow> u32 \<times> u32 \<times> u32" where
  "desc_member d = (ingressPortId d, igmpGroupAdress d, srcIp d)"

lemma groups_ok_replace:
  assumes "groups_ok cb (as @ x # bs)" "gid x' = gid x" "group_ok cb x'"
  shows "groups_ok cb (as @ x' # bs)"
proof -
  have "hostPortId x' = hostPortId x" using assms(2) by (simp add: gid_def)
  then have "length (filter (\<lambda>g. hostPortId g = p) (as @ x' # bs)) = length (filter (\<lambda>g. hostPortId g = p) (as @ x # bs))" for p
    by simp
  then show ?thesis using assms unfolding groups_ok_def by (simp only: map_append list.map set_append list.set) auto
qed

lemma groups_ok_Cons:
  assumes "groups_ok cb gs" "group_ok cb x" "\<forall>g\<in>set gs. gid g \<noteq> gid x"
    "length (filter (\<lambda>g. hostPortId g = hostPortId x) gs) < unat (maxGroupNum cb (hostPortId x))"
  shows "groups_ok cb (x # gs)"
  using assms by (auto simp: groups_ok_def image_iff)

lemma ages_replace:
  assumes "distinct (map gid (as @ x # bs))" "gid x' = gid x" "\<And>ip. host_age (hostList x') ip = f ip (host_age (hostList x) ip)"
  shows "map_of (concat (map entries (as @ x' # bs))) (p, a, ip) =
    (if gid x = (p, a) then f ip (map_of (concat (map entries (as @ x # bs))) (p, a, ip))
     else map_of (concat (map entries (as @ x # bs))) (p, a, ip))"
  using assms members_split [of as x bs] members_split [of as x' bs] by simp

lemma room_for_group:
  assumes "mc_inv s"
  shows "mcGroupNumPerPort p s = maxGroupNum (mcb s) p \<longleftrightarrow>
    \<not> length (filter (\<lambda>g. hostPortId g = p) (mcGroupList s)) < unat (maxGroupNum (mcb s) p)"
proof -
  have le: "length (filter (\<lambda>g. hostPortId g = p) (mcGroupList s)) \<le> unat (maxGroupNum (mcb s) p)"
    using assms by (simp add: mc_inv_def groups_ok_def)
  then have "unat (mcGroupNumPerPort p s) = length (filter (\<lambda>g. hostPortId g = p) (mcGroupList s))"
    using unsigned_less [of "maxGroupNum (mcb s) p", where ?'a = nat] by (simp add: mcGroupNumPerPort_def unat_of_nat)
  then show ?thesis using le by (auto simp: word_unat_eq_iff)
qed

lemma join_tables:
  assumes "mc_inv s" "\<not> report_refused d" "admitted d s"
  shows "\<exists>g s'. join_group d s = (Inr g, s') \<and> (\<exists>t. join_host g d s' = (OPL_OK, t) \<and> mc_inv t
    \<and> ages t = (ages s)(desc_member d \<mapsto> cb_hostAgingTime (mcb s)) \<and> mc_timers t = mc_timers s \<and> mcb t = mcb s)"
proof -
  have cfg: "snoop_cfg (mcb s)" and ok: "groups_ok (mcb s) (mcGroupList s)" using assms(1) by (simp_all add: mc_inv_def)
  let ?put = "put_host (cb_hostAgingTime (mcb s)) (srcIp d)"
  show ?thesis
  proof (cases "\<exists>g\<in>set (mcGroupList s). gid g = desc_gid d")
    case True
    then obtain as x bs where gs: "mcGroupList s = as @ x # bs" "gid x = desc_gid d" "\<forall>g\<in>set as. gid g \<noteq> desc_gid d"
      using split_list_first_prop [OF True] by blast
    obtain t where t: "join_host (length as) d s = (OPL_OK, t)" "tables t = tables (s\<lparr> mcGroupList := as @ ?put x # bs \<rparr>)"
      using join_host_eq [OF cfg gs(1)] by blast
    have "group_ok (mcb s) x" using ok gs(1) by (simp add: groups_ok_def)
    then have "group_ok (mcb s) (?put x)" by (intro group_ok_put) simp_all
    with ok gs(1) have "groups_ok (mcb s) (as @ ?put x # bs)" by (simp add: groups_ok_replace [of _ as x])
    then have "mc_inv t" using assms(1) t(2) gs(1) by (simp add: mc_inv_def tables_def)
    moreover have "ages t = (ages s)(desc_member d \<mapsto> cb_hostAgingTime (mcb s))"
      using ok gs t(2) ages_replace [of as x bs "?put x" "\<lambda>ip o'. if ip = srcIp d then Some (cb_hostAgingTime (mcb s)) else o'"]
      by (auto simp: fun_eq_iff ages_def tables_def groups_ok_def host_age_put desc_member_def desc_gid_def)
    ultimately show ?thesis
      using join_group_known [OF cfg gs] t by (auto simp: tables_def)
  next
    case False
    then have nw: "\<forall>g\<in>set (mcGroupList s). gid g \<noteq> desc_gid d" by blast
    let ?u = "snd (odmMcGroupAdd (desc_key d) GROUP_STATE_LEARNING (mc_bitmap (mcb s)) s)"
    have jg: "join_group d s = (Inr 0, ?u)"
      using join_group_new(1) [OF cfg nw] assms(3) False room_for_group [OF assms(1)] by (auto simp: admitted_def)
    have u: "mcGroupList ?u = [] @ new_group d # mcGroupList s" "mcb ?u = mcb s"
      "mcGroupTotalNum ?u = mcGroupTotalNum s + 1" "mc_timers ?u = mc_timers s"
      using join_group_new(2) [OF cfg nw] by (simp_all add: tables_def)
    obtain t where t: "join_host 0 d ?u = (OPL_OK, t)" "tables t = tables (?u\<lparr> mcGroupList := ?put (new_group d) # mcGroupList s \<rparr>)"
      using join_host_eq [of ?u, OF _ u(1)] cfg u(2) by auto
    have dist: "distinct (map gid (mcGroupList s))" using ok by (simp add: groups_ok_def)
    have "group_ok (mcb s) (?put (new_group d))" by (intro group_ok_put) (simp_all add: new_group_def zero_group_def)
    moreover have "length (filter (\<lambda>g. hostPortId g = ingressPortId d) (mcGroupList s)) < unat (maxGroupNum (mcb s) (ingressPortId d))"
      using assms(3) False by (simp add: admitted_def)
    ultimately have "groups_ok (mcb s) (?put (new_group d) # mcGroupList s)"
      using ok nw by (intro groups_ok_Cons) simp_all
    then have "mc_inv t" using assms(1) t(2) u by (simp add: mc_inv_def tables_def)
    moreover have "ages t = (ages s)(desc_member d \<mapsto> cb_hostAgingTime (mcb s))"
    proof
      fix k :: "u32 \<times> u32 \<times> u32"
      obtain p a q where k: "k = (p, a, q)" by (cases k) auto
      have "distinct (map gid (?put (new_group d) # mcGroupList s))" using nw dist by (auto simp: image_iff)
      then have look: "map_of (concat (map entries (?put (new_group d) # mcGroupList s))) (p, a, q) = (if desc_gid d = (p, a)
          then host_age (hostList (?put (new_group d))) q else map_of (concat (map entries (mcGroupList s))) (p, a, q))"
        using members_split [of "[]" "?put (new_group d)" "mcGroupList s" p a q] by simp
      show "ages t k = ((ages s)(desc_member d \<mapsto> cb_hostAgingTime (mcb s))) k"
      proof (cases "(p, a) = desc_gid d")
        case True
        then have "(p, a) \<notin> gid ` set (mcGroupList s)" using nw by auto
        note members_elsewhere [OF this, of q]
        then show ?thesis using True look t(2) k
          by (simp add: ages_def tables_def host_age_put desc_member_def desc_gid_def)
      next
        case False
        then show ?thesis using look t(2) k by (auto simp: ages_def tables_def desc_member_def desc_gid_def)
      qed
    qed
    ultimately show ?thesis using jg t u by (auto simp: tables_def)
  qed
qed

lemma join_action:
  assumes "mc_inv s" "mcSnoopingJoinAction d s = Some (ret, s')"
  shows "mc_inv s' \<and> mc_timers s' = mc_timers s \<and> mcb s' = mcb s
    \<and> ages s' = (if admitted d s then (ages s)(desc_member d \<mapsto> cb_hostAgingTime (mcb s)) else ages s)"
proof (cases "admitted d s")
  case True
  then have nr: "\<not> report_refused d" by (simp add: admitted_def)
  from join_tables [OF assms(1) nr True] obtain g u t where
    t: "join_group d s = (Inr g, u)" "join_host g d u = (OPL_OK, t)" "mc_inv t"
       "ages t = (ages s)(desc_member d \<mapsto> cb_hostAgingTime (mcb s))" "mc_timers t = mc_timers s" "mcb t = mcb s" by blast
  then obtain r where "snooping_to_routers r False d t = Some s'" using assms(2) nr by (auto simp: mcSnoopingJoinAction_def)
  note tables_routers [OF this]
  then show ?thesis using t True mc_inv_tables [of s' t] ages_tables [of s' t] by (simp add: tables_def)
next
  case False
  have cfg: "snoop_cfg (mcb s)" using assms(1) by (simp add: mc_inv_def)
  have "s' = s"
  proof (cases "report_refused d")
    case True
    then show ?thesis using assms(2) by (simp add: mcSnoopingJoinAction_def)
  next
    case ok: False
    then have "\<forall>g\<in>set (mcGroupList s). gid g \<noteq> desc_gid d" using False by (auto simp: admitted_def)
    from join_group_new(1) [OF cfg this] have "join_group d s = (Inl OPL_ERROR, s)"
      using False ok room_for_group [OF assms(1)] by (auto simp: admitted_def)
    then show ?thesis using assms(2) ok by (simp add: mcSnoopingJoinAction_def)
  qed
  then show ?thesis using False assms(1) by simp
qed

subsection \<open>Removing a host\<close>

lemma host_age_append: "host_age (as @ bs) ip = (if ip \<in> h_srcIp ` set as then host_age as ip else host_age bs ip)"
  by (induction as) (auto simp: host_age_def)

lemma host_age_drop:
  assumes "distinct (map h_srcIp (as @ x # bs))"
  shows "host_age (as @ bs) = (host_age (as @ x # bs))(h_srcIp x := None)"
proof -
  have "host_age bs (h_srcIp x) = None" "h_srcIp x \<notin> h_srcIp ` set as"
    using distinct_around [OF assms] by (auto simp: host_age_None)
  then show ?thesis by (auto simp: fun_eq_iff host_age_append host_age_split)
qed

lemma groups_ok_drop:
  assumes "groups_ok cb (as @ x # bs)"
  shows "groups_ok cb (as @ bs)"
proof -
  have "length (filter P (as @ bs)) \<le> length (filter P (as @ x # bs))" for P by simp
  moreover have "length (filter (\<lambda>g. hostPortId g = p) (as @ x # bs)) \<le> unat (maxGroupNum cb p)" for p
    using assms unfolding groups_ok_def by blast
  ultimately have "\<forall>p. length (filter (\<lambda>g. hostPortId g = p) (as @ bs)) \<le> unat (maxGroupNum cb p)"
    by (blast intro: le_trans)
  then show ?thesis using assms by (simp add: groups_ok_def)
qed

lemma ages_delete:
  assumes "distinct (map gid (as @ x # bs))" "\<And>ip'. host_age (hostList x) ip' = None \<or> ip' = ip"
  shows "map_of (concat (map entries (as @ bs))) = (map_of (concat (map entries (as @ x # bs))))((hostPortId x, groupAddress x, ip) := None)"
proof
  fix k :: "u32 \<times> u32 \<times> u32"
  obtain p a q where k: "k = (p, a, q)" by (cases k) auto
  show "map_of (concat (map entries (as @ bs))) k = ((map_of (concat (map entries (as @ x # bs))))((hostPortId x, groupAddress x, ip) := None)) k"
  proof (cases "gid x = (p, a)")
    case True
    then have "(p, a) \<notin> gid ` set (as @ bs)" using assms(1) by auto
    then show ?thesis using members_split [OF assms(1)] members_elsewhere [of p a "as @ bs"] assms(2) [of q] True k
      by (auto simp: gid_def)
  next
    case False
    then show ?thesis using members_split [OF assms(1)] k by (auto simp: gid_def)
  qed
qed

lemma drop_host_tables:
  assumes "mc_inv s" "mcGroupList s = as @ x # bs" "hostList x = hs @ h # hs'"
  shows "\<exists>s'. drop_host (length as) (host_key h) s = (OPL_OK, s') \<and> mc_inv s'
    \<and> ages s' = (ages s)((hostPortId x, groupAddress x, h_srcIp h) := None)
    \<and> mc_timers s' = mc_timers s \<and> mcb s' = mcb s \<and> mcRouterPort s' = mcRouterPort s \<and> leave_ticks s' = leave_ticks s
    \<and> mcGroupList s' = (if hs @ hs' = [] then as @ bs
        else as @ x\<lparr> hostList := hs @ hs', hostTotalNum := hostTotalNum x - 1 \<rparr> # bs)"
proof -
  have bm: "mc_bitmap (mcb s) = CTC_CONTROL_BITMAP_GDA_IP_VLAN_ID" "hostBitmap (mcb s) = MC_BITMAP_HOST_SRC_IP"
    using assms(1) by (simp_all add: mc_inv_def snoop_cfg_def)
  have ok: "groups_ok (mcb s) (as @ x # bs)" and gok: "group_ok (mcb s) x" and dist: "distinct (map gid (as @ x # bs))"
    using assms(1,2) by (auto simp: mc_inv_def groups_ok_def)
  have dh: "distinct (map h_srcIp (hs @ h # hs'))" using gok assms(3) by (simp add: group_ok_def)
  let ?x = "x\<lparr> hostList := hs @ hs', hostTotalNum := hostTotalNum x - 1 \<rparr>"
  have fh: "find_pos (\<lambda>g. h_srcIp g = h_srcIp h) (hs @ h # hs') = Some (length hs)"
    using distinct_around [OF dh] by (intro find_pos_split) auto
  have del: "mcHostListDel (length as) (host_key h) MC_BITMAP_HOST_SRC_IP s = (OPL_OK, (count_free s)\<lparr> mcGroupList := as @ ?x # bs \<rparr>)"
    using fh by (simp add: mcHostListDel_def mcHostListGet_def host_key_def find_host assms(2,3) with_group_def count_free_def with_stats_def)
  have fg: "find_pos (\<lambda>g. gid g = gid x) (as @ ?x # bs) = Some (length as)"
    using distinct_around [OF dist] by (intro find_pos_split) (auto simp: gid_def)
  show ?thesis
  proof (cases "hs @ hs' = []")
    case True
    let ?s = "mcGroupListDel (group_key x) CTC_CONTROL_BITMAP_GDA_IP_VLAN_ID (dalMcGroupDel (group_key x) ((count_free s)\<lparr> mcGroupList := as @ ?x # bs \<rparr>))"
    have s': "fst ?s = OPL_OK" "mcGroupList (snd ?s) = as @ bs" "mcGroupTotalNum (snd ?s) = mcGroupTotalNum s - 1" "mcb (snd ?s) = mcb s"
      "mc_timers (snd ?s) = mc_timers s" "mcRouterPort (snd ?s) = mcRouterPort s" "leave_ticks (snd ?s) = leave_ticks s"
      using fg by (simp_all add: mcGroupListDel_def mcGroupListGet_def find_group_key dalMcGroupDel_def mc_log_def count_free_def
          with_stats_def split: prod.split)
    have "mc_inv (snd ?s)"
      using assms(1,2) ok groups_ok_drop [OF ok] s' by (simp add: mc_inv_def)
    moreover have "ages (snd ?s) = (ages s)((hostPortId x, groupAddress x, h_srcIp h) := None)"
      using ages_delete [OF dist, of "h_srcIp h"] s'(2) assms(2,3) True by (simp add: ages_def)
    moreover have "drop_host (length as) (host_key h) s = ?s"
      using del fg True by (simp add: drop_host_def bm assms(2) mcGroupListHostListEmpty_def mcGroupListGet_def find_group_key
          odmMcGroupDel_def count_free_def with_stats_def Let_def)
    ultimately show ?thesis using s' True by (cases ?s) auto
  next
    case False
    let ?s = "(count_free s)\<lparr> mcGroupList := as @ ?x # bs \<rparr>"
    have "group_ok (mcb s) ?x" using gok assms(3) False dh by (auto simp: group_ok_def)
    then have "mc_inv ?s" using assms(1,2) ok groups_ok_replace [of _ as x bs ?x]
      by (simp add: mc_inv_def gid_def count_free_def with_stats_def)
    moreover have "ages ?s = (ages s)((hostPortId x, groupAddress x, h_srcIp h) := None)"
    proof
      fix k show "ages ?s k = ((ages s)((hostPortId x, groupAddress x, h_srcIp h) := None)) k"
        using ages_replace [OF dist, of ?x "\<lambda>ip o'. if ip = h_srcIp h then None else o'"] host_age_drop [OF dh] assms(2,3)
        by (cases k) (auto simp: ages_def gid_def)
    qed
    moreover have "drop_host (length as) (host_key h) s = (OPL_OK, ?s)"
      using del fg False by (auto simp: drop_host_def bm assms(2) mcGroupListHostListEmpty_def mcGroupListGet_def find_group_key
          odmMcGroupDel_def count_free_def with_stats_def)
    ultimately show ?thesis using False by (auto simp: count_free_def with_stats_def)
  qed
qed

subsection \<open>Leaves\<close>

text \<open>A leave message that is in order.\<close>

definition leave_valid :: "MC_PACKET_DESC_t \<Rightarrow> bool" where
  "leave_valid d \<longleftrightarrow> ODM_START_PORT_NUN \<le> ingressPortId d \<and> ingressPortId d \<le> ODM_NUM_OF_PORTS \<and> daMac d = all_routers_mac
     \<and> \<not> not_multicast (igmpGroupAdress d) \<and> destIp d = MULTICAST_ALL_ROUTERS_GROUP"

lemma ages_at:
  assumes "mc_inv s" "mcGroupList s = as @ x # bs" "gid x = (p, a)"
  shows "ages s (p, a, ip) = host_age (hostList x) ip"
  unfolding ages_def assms(2) using assms members_split [of as x bs p a ip] by (simp only: mc_inv_def groups_ok_def if_True refl)

text \<open>Where the member of a message is found.\<close>

lemma find_member:
  assumes "mc_inv s" "ages s (desc_member d) \<noteq> None"
  obtains as x bs hs h hs' where "mcGroupList s = as @ x # bs" "hostList x = hs @ h # hs'" "gid x = desc_gid d" "h_srcIp h = srcIp d"
    "mcGroupListGet (desc_key d) (mc_bitmap (mcb s)) s = Some (length as)"
    "mcHostListGet (length as) (desc_host d) (hostBitmap (mcb s)) s = Some (length hs)"
proof -
  have bm: "mc_bitmap (mcb s) = CTC_CONTROL_BITMAP_GDA_IP_VLAN_ID" "hostBitmap (mcb s) = MC_BITMAP_HOST_SRC_IP"
    and dist: "distinct (map gid (mcGroupList s))"
    using assms(1) by (simp_all add: mc_inv_def snoop_cfg_def groups_ok_def)
  have "\<exists>g\<in>set (mcGroupList s). gid g = desc_gid d"
    using group_has_member [OF assms(1), of "ingressPortId d" "igmpGroupAdress d"] assms(2)
    by (auto simp: desc_member_def desc_gid_def)
  from split_list_first_prop [OF this] obtain as x bs where
    x: "mcGroupList s = as @ x # bs" "gid x = desc_gid d" "\<forall>g\<in>set as. gid g \<noteq> desc_gid d" by blast
  have "host_age (hostList x) (srcIp d) \<noteq> None"
    using assms(2) ages_at [OF assms(1) x(1)] x(2) by (simp add: desc_member_def desc_gid_def)
  then have "\<exists>h\<in>set (hostList x). h_srcIp h = srcIp d" by (auto simp: host_age_None)
  from split_list_first_prop [OF this] obtain hs h hs' where
    h: "hostList x = hs @ h # hs'" "h_srcIp h = srcIp d" "\<forall>g\<in>set hs. h_srcIp g \<noteq> srcIp d" by blast
  have "mcGroupListGet (desc_key d) (mc_bitmap (mcb s)) s = Some (length as)"
    using x by (simp add: mcGroupListGet_def bm desc_key_def find_group desc_gid_def)
  moreover have "mcHostListGet (length as) (desc_host d) (hostBitmap (mcb s)) s = Some (length hs)"
    using x(1) h by (simp add: mcHostListGet_def bm desc_host_def find_host)
  ultimately show ?thesis using that x h by blast
qed

lemma no_member:
  assumes "mc_inv s" "ages s (desc_member d) = None" "mcGroupListGet (desc_key d) (mc_bitmap (mcb s)) s = Some g"
  shows "mcHostListGet g (desc_host d) (hostBitmap (mcb s)) s = None"
proof -
  have bm: "mc_bitmap (mcb s) = CTC_CONTROL_BITMAP_GDA_IP_VLAN_ID" "hostBitmap (mcb s) = MC_BITMAP_HOST_SRC_IP"
    and dist: "distinct (map gid (mcGroupList s))"
    using assms(1) by (simp_all add: mc_inv_def snoop_cfg_def groups_ok_def)
  from assms(3) obtain as x bs where x: "mcGroupList s = as @ x # bs" "length as = g" "gid x = desc_gid d"
    by (auto simp: mcGroupListGet_def bm desc_key_def find_group desc_gid_def dest!: find_pos_Some)
  then have "host_age (hostList x) (srcIp d) = None"
    using assms(2) ages_at [OF assms(1) x(1)] by (simp add: desc_member_def desc_gid_def)
  then show ?thesis using x by (auto simp: mcHostListGet_def bm desc_host_def find_host find_pos_None host_age_None nth_append)
qed

lemma fast_leave:
  assumes "mc_inv s" "leaveMode (mcb s) = MC_LEAVE_MODE_FAST" "mcSnoopingLeaveAction e d s = Some (ret, d', s')"
  shows "mc_inv s' \<and> mc_timers s' = mc_timers s \<and> mcb s' = mcb s \<and> d_isNonFastLeaveTimerStart d' = d_isNonFastLeaveTimerStart d
    \<and> ages s' = (if leave_valid d then (ages s)(desc_member d := None) else ages s)"
proof (cases "leave_valid d \<and> ages s (desc_member d) \<noteq> None")
  case True
  from find_member [OF assms(1), of d] True obtain as x bs hs h hs' where
    m: "mcGroupList s = as @ x # bs" "hostList x = hs @ h # hs'" "gid x = desc_gid d" "h_srcIp h = srcIp d"
    "mcGroupListGet (desc_key d) (mc_bitmap (mcb s)) s = Some (length as)"
    "mcHostListGet (length as) (desc_host d) (hostBitmap (mcb s)) s = Some (length hs)" by blast
  from drop_host_tables [OF assms(1) m(1,2)] obtain t where
    t: "drop_host (length as) (host_key h) s = (OPL_OK, t)" "mc_inv t" "mc_timers t = mc_timers s" "mcb t = mcb s"
       "ages t = (ages s)((hostPortId x, groupAddress x, h_srcIp h) := None)" by blast
  have "map_option (\<lambda>s. (OPL_OK, d, s)) (snooping_to_routers (mcRouterPort t) False d t) = Some (ret, d', s')"
    using True assms(2,3) m t(1) by (auto simp: mcSnoopingLeaveAction_def leave_valid_def)
  then have "snooping_to_routers (mcRouterPort t) False d t = Some s'" "d' = d" by auto
  moreover from tables_routers [OF this(1)] have "tables s' = tables t" .
  ultimately show ?thesis using True t m(3,4) mc_inv_tables [of s' t] ages_tables [of s' t]
    by (simp add: tables_def desc_member_def gid_def desc_gid_def)
next
  case False
  have "s' = s \<and> d' = d"
  proof (cases "leave_valid d")
    case True
    then have "ages s (desc_member d) = None" using False by simp
    from no_member [OF assms(1) this] show ?thesis
      using assms(3) True by (auto simp: mcSnoopingLeaveAction_def leave_valid_def split: option.splits)
  next
    case False
    then show ?thesis using assms(3) by (auto simp: mcSnoopingLeaveAction_def leave_valid_def split: if_splits)
  qed
  then show ?thesis using False assms(1) by (auto simp: fun_eq_iff)
qed

lemma query_action: "mcSnoopingQueryAction d s = Some (ret, s') \<Longrightarrow> tables s' = tables s"
  by (auto simp: mcSnoopingQueryAction_def Let_def split: if_splits dest!: tables_flood)

subsection \<open>Ageing\<close>

definition older :: "MC_HOST_t \<Rightarrow> MC_HOST_t" where
  "older h = h\<lparr> h_hostAgingTime := h_hostAgingTime h - 1 \<rparr>"

definition survivors :: "MC_HOST_t list \<Rightarrow> MC_HOST_t list" where
  "survivors hs = map older (filter (\<lambda>h. h_hostAgingTime h \<noteq> 0) hs)"

lemma survivors_simps [simp]: "survivors [] = []"
  "survivors (h # hs) = (if h_hostAgingTime h = 0 then survivors hs else older h # survivors hs)"
  by (simp_all add: survivors_def)

lemma srcIp_older [simp]: "h_srcIp (older h) = h_srcIp h" "h_hostAgingTime (older h) = h_hostAgingTime h - 1"
  by (simp_all add: older_def)

lemma survivors_from: "x \<in> set (survivors hs) \<Longrightarrow> \<exists>h\<in>set hs. h_srcIp x = h_srcIp h \<and> h_hostAgingTime h \<noteq> 0
    \<and> h_hostAgingTime x = h_hostAgingTime h - 1"
  by (auto simp: survivors_def)

lemma length_survivors: "length (survivors hs) + length (filter (\<lambda>h. h_hostAgingTime h = 0) hs) = length hs"
  by (induction hs) auto

lemma age_hosts_snoop:
  "distinct (map h_srcIp (kept @ hs)) \<Longrightarrow>
   age_hosts MC_BITMAP_HOST_SRC_IP kept hs n = (kept @ survivors hs, n + length (filter (\<lambda>h. h_hostAgingTime h = 0) hs))"
proof (induction hs arbitrary: kept n)
  case (Cons h hs)
  have "find_pos (\<lambda>g. h_srcIp g = h_srcIp h) (kept @ h # hs) = Some (length kept)"
    using distinct_around [OF Cons.prems] by (intro find_pos_split) auto
  then have "find_pos (host_compare MC_BITMAP_HOST_SRC_IP (host_key h)) (kept @ h # hs) = Some (length kept)"
    by (simp add: host_key_def find_host)
  moreover have "del_at (length kept) (kept @ [h]) = kept" using del_at_split [of kept h "[]"] by simp
  ultimately show ?case
    using Cons.prems Cons.IH [of kept "Suc n"] Cons.IH [of "kept @ [older h]" n] by (simp add: older_def)
qed simp

definition older_group :: "MC_GROUP_t \<Rightarrow> MC_GROUP_t" where
  "older_group g = g\<lparr> hostList := survivors (hostList g), hostTotalNum := of_nat (length (survivors (hostList g))) \<rparr>"

lemma older_group_simps [simp]: "gid (older_group g) = gid g" "hostPortId (older_group g) = hostPortId g"
  "hostList (older_group g) = survivors (hostList g)" "group_key (older_group g) = group_key g"
  by (simp_all add: older_group_def gid_def group_key_def)

lemma distinct_survivors: "distinct (map h_srcIp hs) \<Longrightarrow> distinct (map h_srcIp (survivors hs))"
  by (induction hs) (auto dest!: survivors_from simp: image_iff)

text \<open>The loop over the groups, of which the last \<open>n\<close> are still to be treated.\<close>

lemma age_groups_snoop:
  assumes "snoop_cfg (mcb s)" "mcGroupList s = done' @ todo" "distinct (map gid (done' @ todo))" "\<forall>g\<in>set todo. group_ok (mcb s) g"
  shows "\<exists>s'. age_groups (length todo) s = s' \<and> mcGroupList s' = done' @ filter (\<lambda>g. hostList g \<noteq> []) (map older_group todo)
    \<and> mcb s' = mcb s \<and> mc_timers s' = mc_timers s
    \<and> mcGroupTotalNum s' = mcGroupTotalNum s - of_nat (length (filter (\<lambda>g. survivors (hostList g) = []) todo))"
  using assms
proof (induction todo arbitrary: s done')
  case (Cons g todo)
  let ?hbm = "MC_BITMAP_HOST_SRC_IP"
  have bm: "mc_bitmap (mcb s) = CTC_CONTROL_BITMAP_GDA_IP_VLAN_ID" "hostBitmap (mcb s) = ?hbm"
    using Cons.prems(1) by (simp_all add: snoop_cfg_def)
  have gok: "group_ok (mcb s) g" using Cons.prems(4) by simp
  define dead where "dead = length (filter (\<lambda>h. h_hostAgingTime h = 0) (hostList g))"
  have hosts: "age_hosts ?hbm [] (hostList g) 0 = (survivors (hostList g), dead)"
    using age_hosts_snoop [of "[]" "hostList g" 0] gok by (simp add: group_ok_def dead_def)
  have num: "hostTotalNum g - of_nat dead = of_nat (length (survivors (hostList g)))"
    using gok length_survivors [of "hostList g", symmetric] by (simp add: group_ok_def dead_def)
  have dead0: "survivors (hostList g) = [] \<Longrightarrow> dead \<noteq> 0"
    using gok length_survivors [of "hostList g"] by (auto simp: group_ok_def dead_def)
  define u where "u = (count_free ^^ dead) (s\<lparr> mcGroupList := done' @ older_group g # todo \<rparr>)"
  have u: "mcGroupList u = done' @ older_group g # todo" "mcb u = mcb s" "mc_timers u = mc_timers s" "mcGroupTotalNum u = mcGroupTotalNum s"
  proof -
    have "tables ((count_free ^^ n) t) = tables t" for n t by (induction n) simp_all
    from this [of dead "s\<lparr> mcGroupList := done' @ older_group g # todo \<rparr>"]
    show "mcGroupList u = done' @ older_group g # todo" "mcb u = mcb s" "mc_timers u = mc_timers s" "mcGroupTotalNum u = mcGroupTotalNum s"
      by (simp_all add: u_def tables_def)
  qed
  define v where "v = (if survivors (hostList g) = [] then snd (odmMcGroupDel (group_key g) (mc_bitmap (mcb u)) u) else u)"
  have step: "age_groups (length (g # todo)) s = age_groups (length todo) v"
    using hosts dead0 num bm Cons.prems(2)
    by (simp add: Let_def with_group_def u_def v_def older_group_def u(2) split: prod.splits)
  have "find_pos (\<lambda>x. gid x = gid g) (done' @ older_group g # todo) = Some (length done')"
    using distinct_around [of gid done' g todo] Cons.prems(3) by (intro find_pos_split) auto
  then have del: "mcGroupList v = done' @ todo \<and> mcb v = mcb s \<and> mc_timers v = mc_timers s \<and> mcGroupTotalNum v = mcGroupTotalNum s - 1"
    if "survivors (hostList g) = []"
    using that u bm by (simp add: v_def odmMcGroupDel_def mcGroupListDel_def mcGroupListGet_def find_group_key dalMcGroupDel_def
        mc_log_def count_free_def with_stats_def split: prod.splits)
  show ?case
  proof (cases "survivors (hostList g) = []")
    case True
    then show ?thesis using step del [OF True] Cons.IH [of v done'] Cons.prems by (auto simp: algebra_simps)
  next
    case False
    then have "v = u" by (simp add: v_def)
    then show ?thesis using step False u Cons.IH [of u "done' @ [older_group g]"] Cons.prems by auto
  qed
qed auto

definition tick :: "u32 \<Rightarrow> u32 option" where
  "tick t = (if t = 0 then None else Some (t - 1))"

lemma host_age_survivors: "distinct (map h_srcIp hs) \<Longrightarrow> host_age (survivors hs) ip = host_age hs ip \<bind> tick"
proof (induction hs)
  case (Cons h hs)
  show ?case
  proof (cases "h_srcIp h = ip")
    case True
    then have "host_age (survivors hs) ip = None"
      using Cons.prems by (auto simp: host_age_None dest!: survivors_from)
    then show ?thesis using True by (simp add: tick_def)
  next
    case False
    then show ?thesis using Cons by (simp add: tick_def)
  qed
qed simp

lemma members_older:
  assumes "distinct (map gid gs)" "\<forall>g\<in>set gs. distinct (map h_srcIp (hostList g))"
  shows "map_of (concat (map entries (filter (\<lambda>g. hostList g \<noteq> []) (map older_group gs)))) k = map_of (concat (map entries gs)) k \<bind> tick"
  using assms
proof (induction gs)
  case (Cons g gs)
  obtain p a ip where k: "k = (p, a, ip)" by (cases k) auto
  have elsewhere: "map_of (concat (map entries (filter (\<lambda>g. hostList g \<noteq> []) (map older_group gs)))) (p, a, ip) = None"
    if "gid g = (p, a)"
    using Cons.prems(1) that by (intro members_elsewhere) (auto simp: image_iff)
  have skip: "entries (older_group g) = []" if "survivors (hostList g) = []" using that by (simp add: entries_def)
  have "map_of (entries (older_group g)) k = (if gid g = (p, a) then host_age (hostList g) ip \<bind> tick else None)"
    using Cons.prems(2) host_age_survivors [of "hostList g"] by (simp add: k entries_lookup)
  then show ?case using Cons elsewhere skip k
    by (cases "survivors (hostList g) = []") (auto simp: map_add_def entries_lookup split: option.splits bind_splits)
qed simp

lemma groups_ok_older:
  assumes "groups_ok cb gs"
  shows "groups_ok cb (filter (\<lambda>g. hostList g \<noteq> []) (map older_group gs))"
proof -
  have "distinct (map gid (filter (\<lambda>g. hostList g \<noteq> []) (map older_group gs)))"
    using assms by (simp add: groups_ok_def distinct_map_filter o_def)
  moreover have "group_ok cb (older_group g)" if "g \<in> set gs" "survivors (hostList g) \<noteq> []" for g
  proof -
    have "x - 1 \<le> t" if "x \<le> t" "x \<noteq> 0" for x t :: u32
    proof -
      have "unat x \<le> unat t" "unat x \<noteq> 0" using that by (simp_all add: word_le_nat_alt unat_eq_zero)
      then show ?thesis using that by (simp add: word_le_nat_alt unat_minus_one)
    qed
    then show ?thesis
      using assms that distinct_survivors [of "hostList g"]
      by (fastforce simp: groups_ok_def group_ok_def older_group_def dest!: survivors_from)
  qed
  moreover have "length (filter (\<lambda>g. hostPortId g = p) (filter (\<lambda>g. hostList g \<noteq> []) (map older_group gs)))
      \<le> length (filter (\<lambda>g. hostPortId g = p) gs)" for p
    by (induction gs) auto
  then have "\<forall>p. length (filter (\<lambda>g. hostPortId g = p) (filter (\<lambda>g. hostList g \<noteq> []) (map older_group gs))) \<le> unat (maxGroupNum cb p)"
    using assms unfolding groups_ok_def by (blast intro: le_trans)
  ultimately show ?thesis unfolding groups_ok_def by auto
qed

lemma ageing:
  assumes "mc_inv s"
  shows "mc_inv (mcHostAgingTimerSnoopingHandler s) \<and> mcb (mcHostAgingTimerSnoopingHandler s) = mcb s
    \<and> mc_timers (mcHostAgingTimerSnoopingHandler s) = mc_timers s
    \<and> ages (mcHostAgingTimerSnoopingHandler s) = (\<lambda>k. if cb_hostAgingTime (mcb s) = 0 then ages s k else ages s k \<bind> tick)"
proof (cases "cb_hostAgingTime (mcb s) = 0")
  case True
  then show ?thesis using assms by (simp add: mcHostAgingTimerSnoopingHandler_def)
next
  case False
  have ok: "snoop_cfg (mcb s)" "groups_ok (mcb s) (mcGroupList s)" "mcGroupTotalNum s = of_nat (length (mcGroupList s))"
    using assms by (simp_all add: mc_inv_def)
  let ?s = "mcHostAgingTimerSnoopingHandler s" and ?alive = "filter (\<lambda>g. hostList g \<noteq> []) (map older_group (mcGroupList s))"
  have s': "mcGroupList ?s = ?alive" "mcb ?s = mcb s" "mc_timers ?s = mc_timers s"
    "mcGroupTotalNum ?s = mcGroupTotalNum s - of_nat (length (filter (\<lambda>g. survivors (hostList g) = []) (mcGroupList s)))"
    using age_groups_snoop [of s "[]" "mcGroupList s"] ok(1,2) False
    by (auto simp: mcHostAgingTimerSnoopingHandler_def groups_ok_def)
  have "length ?alive + length (filter (\<lambda>g. survivors (hostList g) = []) (mcGroupList s)) = length (mcGroupList s)"
    using sum_length_filter_compl [of "\<lambda>g. survivors (hostList g) \<noteq> []" "mcGroupList s"] by (simp add: filter_map o_def)
  from arg_cong [OF this [symmetric], of "of_nat :: nat \<Rightarrow> u32"] have "mcGroupTotalNum ?s = of_nat (length ?alive)"
    unfolding s'(4) ok(3) by (simp del: filter_map length_map)
  then have "mc_inv ?s" using s' ok groups_ok_older [OF ok(2)] by (simp add: mc_inv_def)
  moreover have "ages ?s k = ages s k \<bind> tick" for k
    unfolding ages_def s'(1) using ok(2) by (intro members_older) (auto simp: groups_ok_def group_ok_def)
  ultimately show ?thesis using s' False by auto
qed

subsection \<open>Pending leaves\<close>

text \<open>Changes of a host that keep its address and its age.\<close>

lemma count_of_map: "length (filter (\<lambda>x. q x = p) xs) = length (filter (\<lambda>y. y = p) (map q xs))"
  by (induction xs) auto

lemma all_of_map: "(\<forall>x\<in>set xs. P (q x)) \<longleftrightarrow> (\<forall>y\<in>set (map q xs). P y)"
  by auto

lemma with_host_tables:
  assumes "\<And>h. h_srcIp (f h) = h_srcIp h \<and> h_hostAgingTime (f h) = h_hostAgingTime h"
  shows "mc_inv (with_host g i f s) = mc_inv s" "ages (with_host g i f s) = ages s"
    "mc_timers (with_host g i f s) = mc_timers s" "mcb (with_host g i f s) = mcb s"
proof -
  let ?f = "\<lambda>gr. gr\<lparr> hostList := upd_at i f (hostList gr) \<rparr>"
  have m: "map h_srcIp (upd_at i f hs) = map h_srcIp hs" "map h_hostAgingTime (upd_at i f hs) = map h_hostAgingTime hs" for hs
    using assms by (intro map_upd_at, simp)+
  have ents: "entries (?f gr) = entries gr" for gr
  proof -
    have "map (\<lambda>h. ((hostPortId gr, groupAddress gr, h_srcIp h), h_hostAgingTime h)) (upd_at i f (hostList gr)) =
        map (\<lambda>h. ((hostPortId gr, groupAddress gr, h_srcIp h), h_hostAgingTime h)) (hostList gr)"
      using assms by (intro map_upd_at) simp
    then show ?thesis by (simp add: entries_def)
  qed
  have "upd_at i f hs \<noteq> [] \<longleftrightarrow> hs \<noteq> []" for hs by (metis length_upd_at length_0_conv)
  moreover have "(\<forall>h\<in>set (upd_at i f hs). h_hostAgingTime h \<le> t) \<longleftrightarrow> (\<forall>h\<in>set hs. h_hostAgingTime h \<le> t)" for hs t
    using m(2) [of hs] all_of_map [of _ "\<lambda>a. a \<le> t" h_hostAgingTime] by metis
  ultimately have "group_ok cb (?f gr) = group_ok cb gr" for cb gr by (simp add: group_ok_def m)
  then have all: "(\<forall>x\<in>set (upd_at g ?f gs). group_ok cb x) = (\<forall>x\<in>set gs. group_ok cb x)" for gs cb
    unfolding all_of_map [where P = "\<lambda>b. b" and q = "group_ok cb"] using map_upd_at [of "group_ok cb" ?f g gs] by simp
  have gids: "map gid (upd_at g ?f gs) = map gid gs" for gs by (intro map_upd_at) (simp add: gid_def)
  have ports: "length (filter (\<lambda>x. hostPortId x = p) (upd_at g ?f gs)) = length (filter (\<lambda>x. hostPortId x = p) gs)" for gs p
    using map_upd_at [of hostPortId ?f g gs] unfolding count_of_map [of hostPortId] by simp
  show "mc_inv (with_host g i f s) = mc_inv s"
    by (simp add: mc_inv_def with_host_def with_group_def groups_ok_def all gids ports)
  show "ages (with_host g i f s) = ages s"
    using map_upd_at [of entries ?f g "mcGroupList s"] ents by (simp add: ages_def with_host_def with_group_def)
qed (simp_all add: with_host_def with_group_def)

text \<open>What a step leaves alone that only counts, sends or sets flags of hosts.\<close>

definition quiet :: "mc_sys \<Rightarrow> mc_sys \<Rightarrow> bool" where
  "quiet s s' \<longleftrightarrow> mc_inv s' = mc_inv s \<and> ages s' = ages s \<and> mcb s' = mcb s \<and> mc_timers s' = mc_timers s"

lemma quiet_refl [simp]: "quiet s s"
  by (simp add: quiet_def)

lemma quiet_trans: "quiet s t \<Longrightarrow> quiet t u \<Longrightarrow> quiet s u"
  by (simp add: quiet_def)

lemma quiet_tables: "tables s' = tables s \<Longrightarrow> quiet s s'"
  using mc_inv_tables [of s' s] ages_tables [of s' s] by (simp add: quiet_def tables_def)

lemma quiet_with_host: "(\<And>h. h_srcIp (f h) = h_srcIp h \<and> h_hostAgingTime (f h) = h_hostAgingTime h) \<Longrightarrow> quiet s (with_host g i f s)"
  by (simp add: quiet_def with_host_tables)

lemma quiet_last_report: "quiet s (snd (mcHostListSetisLastReportRecevied g k hbm b s))"
  by (auto simp: mcHostListSetisLastReportRecevied_def host_set_def split: option.split intro: quiet_with_host)

lemma non_fast_leave:
  assumes "leaveMode (mcb s) \<noteq> MC_LEAVE_MODE_FAST" "mcSnoopingLeaveAction e d s = Some (ret, d', s')"
  shows "\<exists>u. quiet s u \<and> (s' = u \<or> s' = start_leave_timer e MC_SNOOP_NON_FAST_LEAVE d u)"
proof -
  have q: "quiet s (count_alloc (with_host g h (\<lambda>x. x\<lparr> h_isNonFastLeaveTimerStart := True \<rparr>) s))" for g h
    by (rule quiet_trans [OF quiet_with_host quiet_tables]) simp_all
  have "quiet s (snd (mcHostListSetisLastReportRecevied g k hbm b (count_alloc (with_host g' h (\<lambda>x. x\<lparr> h_isNonFastLeaveTimerStart := True \<rparr>) s))))"
    for g g' h k hbm b by (rule quiet_trans [OF q quiet_last_report])
  then have q': "quiet s t" if "mcHostListSetisLastReportRecevied g k hbm b (count_alloc (with_host g' h (\<lambda>x. x\<lparr> h_isNonFastLeaveTimerStart := True \<rparr>) s)) = (r, t)"
    for g g' h k hbm b r t using that by (metis snd_conv)
  show ?thesis using assms
    by (auto simp: mcSnoopingLeaveAction_def Let_def split: if_splits option.splits prod.splits dest!: q' intro: quiet_refl)
qed

lemma timers_start: "set (mc_timers (start_leave_timer e ty d s)) \<subseteq> insert (ty, d) (set (mc_timers s))"
  "mc_inv (start_leave_timer e ty d s) = mc_inv s" "mcb (start_leave_timer e ty d s) = mcb s" "ages (start_leave_timer e ty d s) = ages s"
  by (auto simp: start_leave_timer_def mc_inv_def ages_def)

definition killed :: "nat \<Rightarrow> mc_sys \<Rightarrow> mc_sys" where
  "killed t s = kill_timer t (s\<lparr> leave_ticks := 0 \<rparr>)"

lemma killed_frame [simp]: "mc_inv (killed t s) = mc_inv s" "mcb (killed t s) = mcb s" "ages (killed t s) = ages s"
  "mc_timers (killed t s) = del_at t (mc_timers s)" "leave_ticks (killed t s) = 0" "mc_calls (killed t s) = mc_calls s"
  "mcGroupList (killed t s) = mcGroupList s"
  by (simp_all add: killed_def kill_timer_def count_free_def with_stats_def mc_inv_def ages_def)

lemma set_del_at: "set (del_at t xs) \<subseteq> set xs"
  by (auto simp: del_at_def dest: in_set_takeD in_set_dropD)

text \<open>What the expired timer of a member does: group, host and query are given.\<close>

definition leave_tick :: "nat \<Rightarrow> MC_PACKET_DESC_t \<Rightarrow> nat \<Rightarrow> nat \<Rightarrow> MC_HOST_t \<Rightarrow> (u8 list \<times> nat \<times> TAG_TYPE_t) option \<Rightarrow> mc_sys \<Rightarrow> mc_sys option" where
  "leave_tick t d g i h query s =
     (if lastQueryCount (mcb s) + 1 < leave_ticks s + 1 then Some (killed t s)
      else if h_isLastReportRecevied h then Some (killed t (with_host g i (\<lambda>x. x\<lparr> h_isNonFastLeaveTimerStart := False \<rparr>) s))
      else if leave_ticks s + 1 < lastQueryCount (mcb s) + 1
      then (case query of None \<Rightarrow> None
              | Some (pkt, len, tag) \<Rightarrow> mcSnoopingOutput (ingressPortId d) tag pkt len True (s\<lparr> leave_ticks := leave_ticks s + 1 \<rparr>))
      else map_option (killed t) (snooping_to_routers (mcRouterPort s) True d (snd (drop_host g (host_key h) s))))"

lemma leave_timer_member:
  assumes "mc_inv s" "snd (mc_timers s ! t) = d" "ages s (desc_member d) \<noteq> None"
  obtains as x bs hs h hs' where "mcGroupList s = as @ x # bs" "hostList x = hs @ h # hs'" "gid x = desc_gid d" "h_srcIp h = srcIp d"
    "mcSnoopingNonFastLeaveAction e t s =
       mcSnoopingQueryPacketGenerate e d s \<bind> (\<lambda>query. leave_tick t d (length as) (length hs) h query s)"
proof -
  from find_member [OF assms(1,3)] obtain as x bs hs h hs' where
    m: "mcGroupList s = as @ x # bs" "hostList x = hs @ h # hs'" "gid x = desc_gid d" "h_srcIp h = srcIp d"
    "mcGroupListGet (desc_key d) (mc_bitmap (mcb s)) s = Some (length as)"
    "mcHostListGet (length as) (desc_host d) (hostBitmap (mcb s)) s = Some (length hs)" by blast
  have bind_killed: "r \<bind> (\<lambda>s. Some (killed t s)) = map_option (killed t) r" for r by (cases r) simp_all
  show ?thesis
    by (intro that [OF m(1-4)])
      (simp add: mcSnoopingNonFastLeaveAction_def m assms(2) Let_def leave_tick_def bind_killed flip: killed_def cong: if_cong option.case_cong)
qed

lemma leave_timer_stranger:
  assumes "mc_inv s" "snd (mc_timers s ! t) = d" "ages s (desc_member d) = None"
  shows "mcSnoopingNonFastLeaveAction e t s = mcSnoopingQueryPacketGenerate e d s \<bind> (\<lambda>_. Some (killed t s))"
  using no_member [OF assms(1,3)]
  by (cases "mcSnoopingQueryPacketGenerate e d s")
    (auto simp: mcSnoopingNonFastLeaveAction_def assms(2) Let_def killed_def split: option.split)

lemma leave_timer_kept:
  assumes "mc_inv s" "mcSnoopingNonFastLeaveAction e t s = Some s'"
  shows "mc_inv s' \<and> mcb s' = mcb s \<and> set (mc_timers s') \<subseteq> set (mc_timers s)
    \<and> (ages s' k = ages s k \<or> ages s' k = None)"
proof (cases "ages s (desc_member (snd (mc_timers s ! t)))")
  case None
  from leave_timer_stranger [OF assms(1) refl None] assms show ?thesis
    using set_del_at [of t "mc_timers s"] by (auto simp: bind_eq_Some_conv)
next
  case (Some a)
  then have mem: "ages s (desc_member (snd (mc_timers s ! t))) \<noteq> None" by simp
  let ?d = "snd (mc_timers s ! t)"
  from leave_timer_member [OF assms(1) refl mem, of e] obtain as x bs hs h hs' where
    m: "mcGroupList s = as @ x # bs" "hostList x = hs @ h # hs'"
    and act: "mcSnoopingNonFastLeaveAction e t s =
      mcSnoopingQueryPacketGenerate e ?d s \<bind> (\<lambda>query. leave_tick t ?d (length as) (length hs) h query s)" by metis
  obtain query where r: "leave_tick t ?d (length as) (length hs) h query s = Some s'"
    using assms(2) unfolding act by (auto simp: bind_eq_Some_conv)
  have flag: "quiet s (with_host (length as) (length hs) (\<lambda>x. x\<lparr> h_isNonFastLeaveTimerStart := False \<rparr>) s)"
    by (intro quiet_with_host) simp
  have send: "quiet s u" if "mcSnoopingOutput p tag pkt len True (s\<lparr> leave_ticks := leave_ticks s + 1 \<rparr>) = Some u" for p tag pkt len u
    using tables_output [OF that] by (auto simp: quiet_def tables_def mc_inv_def ages_def)
  from drop_host_tables [OF assms(1) m] obtain v where
    v: "drop_host (length as) (host_key h) s = (OPL_OK, v)" "mc_inv v" "mc_timers v = mc_timers s" "mcb v = mcb s"
       "ages v = (ages s)((hostPortId x, groupAddress x, h_srcIp h) := None)" by blast
  have drop: "mc_inv u \<and> mcb u = mcb s \<and> mc_timers u = mc_timers s \<and> (ages u k = ages s k \<or> ages u k = None)"
    if "snooping_to_routers rs True d v = Some u" for rs d u
    using tables_routers [OF that] v mc_inv_tables [of u v] ages_tables [of u v] by (simp add: tables_def)
  show ?thesis
    using r assms(1) flag v(1) set_del_at [of t "mc_timers s"]
    by (auto simp: leave_tick_def quiet_def split: if_splits option.splits prod.splits dest!: drop send)
qed

subsection \<open>All events\<close>

definition snoop_inv :: "mc_sys \<Rightarrow> bool" where
  "snoop_inv s \<longleftrightarrow> mc_inv s \<and> (\<forall>t\<in>set (mc_timers s). fst t = MC_SNOOP_NON_FAST_LEAVE)"

text \<open>The effect of a message on the members.\<close>

definition is_report :: "MC_PACKET_DESC_t \<Rightarrow> bool" where
  "is_report d \<longleftrightarrow> igmpType d = 0x12 \<or> igmpType d = 0x16"

definition message_effect :: "MC_PACKET_DESC_t \<Rightarrow> mc_sys \<Rightarrow> u32 \<times> u32 \<times> u32 \<Rightarrow> u32 option" where
  "message_effect d s =
     (if is_report d \<and> admitted d s then (ages s)(desc_member d \<mapsto> cb_hostAgingTime (mcb s))
      else if igmpType d = 0x17 \<and> leave_valid d \<and> leaveMode (mcb s) = MC_LEAVE_MODE_FAST then (ages s)(desc_member d := None)
      else ages s)"

lemma message_effect_tables: "tables t = tables s \<Longrightarrow> message_effect d t = message_effect d s"
proof -
  assume t: "tables t = tables s"
  then have "admitted d t = admitted d s" "mcb t = mcb s" by (simp_all add: admitted_def tables_def)
  then show ?thesis using ages_tables [OF t] by (simp add: message_effect_def)
qed

lemma snooping_input:
  assumes "mc_inv s" "mcSnoopingInput e d s = Some (d', s')"
  shows "mc_inv s' \<and> mcb s' = mcb s \<and> ages s' = message_effect d s
    \<and> (\<forall>t\<in>set (mc_timers s'). t \<in> set (mc_timers s) \<or> fst t = MC_SNOOP_NON_FAST_LEAVE)
    \<and> (leaveMode (mcb s) = MC_LEAVE_MODE_FAST \<longrightarrow> mc_timers s' = mc_timers s)"
proof -
  let ?s = "count_message d s"
  have tabs: "tables ?s = tables s" by simp
  then have inv: "mc_inv ?s" and cb: "mcb ?s = mcb s" and tm: "mc_timers ?s = mc_timers s" and ag: "ages ?s = ages s"
    using assms(1) mc_inv_tables [OF tabs] ages_tables [OF tabs] by (simp_all add: tables_def)
  have adm: "admitted d ?s = admitted d s" using tabs by (simp add: admitted_def tables_def)
  show ?thesis
  proof (cases "igmpType d = 0x11 \<or> is_report d \<or> igmpType d = 0x17")
    case False
    then show ?thesis using assms(2) inv cb tm ag
      by (auto simp: mcSnoopingInput_def Let_def is_report_def message_effect_def split: if_splits)
  next
    case True
    then consider (query) "igmpType d = 0x11" | (join) "is_report d" | (leave) "igmpType d = 0x17" by blast
    then show ?thesis
    proof cases
      case query
      then obtain r where "mcSnoopingQueryAction d ?s = Some (r, s')" using assms(2) by (auto simp: mcSnoopingInput_def Let_def)
      then show ?thesis using quiet_tables [OF query_action] inv cb tm ag query
        by (auto simp: quiet_def message_effect_def is_report_def)
    next
      case join
      then obtain r where "mcSnoopingJoinAction d ?s = Some (r, s')"
        using assms(2) by (auto simp: mcSnoopingInput_def Let_def is_report_def split: if_splits)
      from join_action [OF inv this] join show ?thesis using cb tm ag adm by (auto simp: message_effect_def is_report_def)
    next
      case leave
      then obtain r where l: "mcSnoopingLeaveAction e d ?s = Some (r, d', s')"
        using assms(2) by (auto simp: mcSnoopingInput_def Let_def)
      show ?thesis
      proof (cases "leaveMode (mcb ?s) = MC_LEAVE_MODE_FAST")
        case True
        from fast_leave [OF inv True l] leave cb tm ag True show ?thesis by (simp add: message_effect_def is_report_def)
      next
        case False
        from non_fast_leave [OF False l] obtain v where "quiet ?s v" "s' = v \<or> s' = start_leave_timer e MC_SNOOP_NON_FAST_LEAVE d v" by blast
        then show ?thesis using leave inv cb tm ag False timers_start [of e MC_SNOOP_NON_FAST_LEAVE d v]
          by (auto simp: quiet_def message_effect_def is_report_def)
      qed
    qed
  qed
qed

text \<open>The message of a frame that reaches the snooping.\<close>

definition frame_desc :: "mc_env \<Rightarrow> MC_CONTROL_t \<Rightarrow> u8 list \<Rightarrow> u32 \<Rightarrow> MC_PACKET_DESC_t option" where
  "frame_desc e cb pkt portId =
     (if 1518 < length pkt \<or> mcRecvEn cb = 0 \<or> \<not> isInitialized cb then None
      else case parse_igmp (raw_packet e pkt) (length pkt) portId of
        None \<Rightarrow> None
      | Some d \<Rightarrow> if take 3 (daMac d) = [0x01, 0x00, 0x5e] then Some d else None)"

lemma frame_input:
  assumes "mcMode (mcb s) = MC_MODE_SNOOPING" "mc_step e (Igmp_frame pkt p) s = Some s'"
  shows "case frame_desc e (mcb s) pkt p of None \<Rightarrow> tables s' = tables s
    | Some d \<Rightarrow> \<exists>t d' u. tables t = tables s \<and> mcSnoopingInput e d t = Some (d', u) \<and> tables s' = tables u"
proof -
  have cb: "mcb (count_alloc u) = mcb u" for u by (simp add: count_alloc_def with_stats_def)
  obtain r u where u: "mcInput e pkt p (count_alloc s) = Some (r, u)" "s' = count_free u" using assms(2) by auto
  show ?thesis
  proof (cases "frame_desc e (mcb s) pkt p")
    case None
    then show ?thesis using u
      by (auto simp: frame_desc_def mcInput_def cb Let_def bind_eq_Some_conv split: if_splits option.splits)
  next
    case (Some d)
    let ?t = "count_alloc (count_alloc s)"
    from Some u(1) assms(1) obtain d' v where v: "mcSnoopingInput e d ?t = Some (d', v)"
        "u = (if d_isNonFastLeaveTimerStart d' then v else count_free v)"
      by (auto simp: frame_desc_def mcInput_def cb Let_def bind_eq_Some_conv opl_codes split: if_splits option.splits prod.splits)
    then have "tables s' = tables v" using u(2) by simp
    moreover have "tables ?t = tables s" by simp
    ultimately show ?thesis using Some v(1) by (simp only: option.case) blast
  qed
qed

text \<open>A step keeps the invariant and does to the members what the event says.\<close>

primrec step_effect :: "mc_env \<Rightarrow> mc_event \<Rightarrow> mc_sys \<Rightarrow> u32 \<times> u32 \<times> u32 \<Rightarrow> u32 option" where
  "step_effect e (Igmp_frame pkt p) s = (case frame_desc e (mcb s) pkt p of None \<Rightarrow> ages s | Some d \<Rightarrow> message_effect d s)"
| "step_effect e (Leave_timer t) s = ages s"
| "step_effect e Ageing_second s = (\<lambda>k. if cb_hostAgingTime (mcb s) = 0 then ages s k else ages s k \<bind> tick)"

lemma snoop_step:
  assumes "snoop_inv s" "mc_step e ev s = Some s'"
  shows "snoop_inv s' \<and> mcb s' = mcb s \<and> (ages s' k = step_effect e ev s k \<or> (\<exists>t. ev = Leave_timer t \<and> t < length (mc_timers s)) \<and> ages s' k = None)
    \<and> (leaveMode (mcb s) = MC_LEAVE_MODE_FAST \<and> mc_timers s = [] \<longrightarrow> mc_timers s' = [])"
proof (cases ev)
  case (Igmp_frame pkt p)
  have inv: "mc_inv s" and mode: "mcMode (mcb s) = MC_MODE_SNOOPING" and tm: "\<forall>t\<in>set (mc_timers s). fst t = MC_SNOOP_NON_FAST_LEAVE"
    using assms(1) by (simp_all add: snoop_inv_def mc_inv_def snoop_cfg_def)
  note io = frame_input [OF mode assms(2) [unfolded Igmp_frame]]
  show ?thesis
  proof (cases "frame_desc e (mcb s) pkt p")
    case None
    with io have "tables s' = tables s" by simp
    then show ?thesis using None Igmp_frame inv tm mc_inv_tables [of s' s] ages_tables [of s' s] by (simp add: snoop_inv_def tables_def)
  next
    case (Some d)
    with io obtain t d' u where t: "tables t = tables s" "mcSnoopingInput e d t = Some (d', u)" "tables s' = tables u" by auto
    have "mc_inv t" using inv t(1) mc_inv_tables by blast
    from snooping_input [OF this t(2)] show ?thesis
      using Some Igmp_frame t(1,3) tm mc_inv_tables [OF t(3)] ages_tables [OF t(3)] message_effect_tables [OF t(1)]
      by (auto simp: snoop_inv_def tables_def)
  qed
next
  case (Leave_timer t)
  then have "mc_timer_msg e t s = Some s'" using assms(2) by simp
  moreover have "fst (mc_timers s ! t) = MC_SNOOP_NON_FAST_LEAVE" if "t < length (mc_timers s)"
    using assms(1) that by (simp add: snoop_inv_def)
  ultimately have "s' = s \<or> t < length (mc_timers s) \<and> mcSnoopingNonFastLeaveAction e t s = Some s'"
    by (auto simp: mc_timer_msg_def split: if_splits)
  then show ?thesis using leave_timer_kept [of s e t s' k] assms(1) Leave_timer by (auto simp: snoop_inv_def)
next
  case Ageing_second
  then show ?thesis using assms ageing [of s] by (auto simp: snoop_inv_def)
qed

interpretation snooping: event_system "mc_step e" snoop_inv for e
  by unfold_locales (use snoop_step in blast)

end
