(* ===== verification/Mc_Query.thy ===== *)
theory Mc_Query
  imports Mc_Control
begin

unbundle bit_operations_syntax

text \<open>
  The query that the unit sends itself while a leave is pending: its checksums are the internet checksum,
  and the unit itself reads the frame back as the query it stands for.
\<close>

subsection \<open>The sum of the carries\<close>

lemma split16: "unat ((acc :: u32) AND 0xffff) = unat acc mod 65536" "unat (drop_bit 16 acc) = unat acc div 65536"
proof -
  have "acc AND 0xffff = take_bit 16 acc" by (simp add: take_bit_eq_mask mask_numeral)
  then show "unat (acc AND 0xffff) = unat acc mod 65536"
    by (simp only: unsigned_take_bit_eq) (simp add: take_bit_eq_mod)
  show "unat (drop_bit 16 acc) = unat acc div 65536"
    using unat_div_distrib [of acc "2 ^ 16"] by (simp add: drop_bit_eq_div)
qed

lemma unat_carry: "unat (((acc :: u32) AND 0xffff) + drop_bit 16 acc) = unat acc mod 65536 + unat acc div 65536"
proof -
  have "unat acc div 65536 < 65536" using unsigned_less [of acc, where ?'a = nat] by simp
  moreover have "unat acc mod 65536 < 65536" by simp
  ultimately show ?thesis by (simp add: unat_word_ariths split16)
qed

lemma carry_mod: "(n mod 65536 + n div 65536) mod 65535 = n mod (65535 :: nat)"
proof -
  have "n = n div 65536 * 65535 + (n mod 65536 + n div 65536)" using div_mult_mod_eq [of n 65536] by simp
  then show ?thesis by (metis mod_mult_self3)
qed

text \<open>The remainder modulo 65535, with 65535 in place of 0 except for 0 itself.\<close>

lemma fold_carry_spec:
  "unat (fold_carry acc) \<le> 65535 \<and> unat (fold_carry acc) mod 65535 = unat acc mod 65535 \<and> (fold_carry acc = 0 \<longleftrightarrow> acc = 0)"
proof (induction acc rule: fold_carry.induct)
  case (1 acc)
  show ?case
  proof (cases "drop_bit 16 acc = 0")
    case True
    then have "unat acc div 65536 = 0" using split16(2) [of acc] by (metis unsigned_0)
    then show ?thesis using True by (auto simp: fold_carry.simps [of acc] div_eq_0_iff)
  next
    case False
    let ?next = "(acc AND 0xffff) + drop_bit 16 acc"
    have "unat acc div 65536 \<noteq> 0" using False split16(2) [of acc] by (metis unat_eq_zero)
    then have "?next \<noteq> 0" "acc \<noteq> 0" using unat_carry [of acc] by (auto simp: unat_eq_zero [symmetric])
    then show ?thesis
      using 1 [OF False] False unat_carry [of acc] carry_mod [of "unat acc"] by (simp add: fold_carry.simps [of acc])
  qed
qed

subsection \<open>Checksums\<close>

lemma chksum_words_bound: "unat (chksum_words bs) \<le> length bs * 65535"
proof (induction bs rule: chksum_words.induct)
  case (1 a b r)
  have "unat (ucast (load16 [a, b]) + chksum_words r) \<le> unat (ucast (load16 [a, b]) :: u32) + unat (chksum_words r)"
    by (simp add: unat_word_ariths)
  moreover have "unat (ucast (load16 [a, b]) :: u32) \<le> 65535"
    using unsigned_less [of "load16 [a, b]", where ?'a = nat] by (simp add: unsigned_ucast_eq take_bit_eq_mod)
  ultimately show ?case using 1 by simp
qed simp_all

lemma unat_not16: "unat (NOT (w :: u16)) = 65535 - unat w"
proof -
  have "unat (- 1 - w) = unat (- 1 :: u16) - unat w" by (intro unat_sub) simp
  moreover have "NOT w = - 1 - w" by (simp add: not_eq_complement)
  ultimately show ?thesis by (simp add: unsigned_minus_1_eq_mask mask_eq_exp_minus_1)
qed

lemma unat_chksum: "unat (op_lib_inet_chksum bs) = 65535 - unat (fold_carry (chksum bs))"
proof -
  have "unat (ucast (w AND 0xffff) :: u16) = unat w" if "unat w \<le> 65535" for w :: u32
    using that split16(1) [of w] by (simp add: unsigned_ucast_eq take_bit_eq_mod)
  then show ?thesis using fold_carry_spec [of "chksum bs"] by (simp add: op_lib_inet_chksum_def unat_not16)
qed

text \<open>A message with its checksum in place has checksum 0.\<close>

lemma chksum_completes:
  assumes "\<And>ck. chksum (msg ck) = c + ucast ck" "unat c \<le> 2000000" "c \<noteq> 0"
  shows "op_lib_inet_chksum (msg (op_lib_inet_chksum (msg 0))) = 0"
proof -
  let ?f = "unat (fold_carry c)" and ?ck = "op_lib_inet_chksum (msg 0)"
  have f: "?f \<le> 65535" "?f mod 65535 = unat c mod 65535" using fold_carry_spec [of c] by simp_all
  have "unat (c + ucast ?ck) = unat c + (65535 - ?f)"
    using assms(2) unat_chksum [of "msg 0"] assms(1) [of 0]
    by (simp add: unat_word_ariths unsigned_ucast_eq take_bit_eq_mod)
  moreover have "(unat c + (65535 - ?f)) mod 65535 = (?f + (65535 - ?f)) mod 65535"
    using f(2) by (metis mod_add_left_eq)
  moreover have "unat c \<noteq> 0" using assms(3) by (simp add: unat_eq_zero)
  ultimately have x: "unat (c + ucast ?ck) mod 65535 = 0" "c + ucast ?ck \<noteq> 0" using f(1) by (auto simp: unat_eq_zero [symmetric])
  have "n \<le> 65535 \<Longrightarrow> n mod 65535 = 0 \<Longrightarrow> n \<noteq> 0 \<Longrightarrow> n = 65535" for n :: nat by (cases "n < 65535") auto
  from this [of "unat (fold_carry (c + ucast ?ck))"] have "unat (fold_carry (c + ucast ?ck)) = 65535"
    using fold_carry_spec [of "c + ucast ?ck"] x by (simp add: unat_eq_zero)
  then have "unat (op_lib_inet_chksum (msg ?ck)) = 0" using unat_chksum [of "msg ?ck"] assms(1) [of ?ck] by simp
  then show ?thesis by (simp add: unat_eq_zero)
qed

lemma chksum_words_append: "even (length as) \<Longrightarrow> chksum_words (as @ bs) = chksum_words as + chksum_words bs"
  by (induction as rule: chksum_words.induct) (auto simp: algebra_simps)

lemma chksum_words_store16 [simp]: "chksum_words (store16 x @ bs) = ucast x + chksum_words bs"
proof -
  obtain a b where ab: "store16 x = [a, b]" by (simp add: store16_def)
  then have "load16 [a, b] = x" using load16_store16_exact [of x] by simp
  then show ?thesis by (simp add: ab)
qed

lemma chksum_in_place:
  assumes "even (length pre)" "even (length post)" "length pre + length post \<le> 30" "chksum_words pre \<noteq> 0"
  shows "op_lib_inet_chksum (pre @ store16 (op_lib_inet_chksum (pre @ store16 0 @ post)) @ post) = 0"
proof (rule chksum_completes)
  show "chksum (pre @ store16 ck @ post) = (chksum_words pre + chksum_words post) + ucast ck" for ck
    using assms(1,2) by (simp add: chksum_def chksum_words_append)
  have "unat (chksum_words pre) + unat (chksum_words post) \<le> (length pre + length post) * 65535"
    using chksum_words_bound [of pre] chksum_words_bound [of post] by simp
  also have "\<dots> \<le> 2000000" using assms(3) by simp
  finally have "unat (chksum_words pre + chksum_words post) = unat (chksum_words pre) + unat (chksum_words post)"
    "unat (chksum_words pre) + unat (chksum_words post) \<le> 2000000" by (simp_all add: unat_word_ariths)
  then show "unat (chksum_words pre + chksum_words post) \<le> 2000000" "chksum_words pre + chksum_words post \<noteq> 0"
    using assms(4) by (auto simp: unat_eq_zero [symmetric])
qed

lemma query_ip_checksum: "op_lib_inet_chksum (query_ip src dst (op_lib_inet_chksum (query_ip src dst 0))) = 0"
proof -
  let ?pre = "[0x46, 0] @ store16 32 @ store16 0 @ store16 0 @ [64, 2]" and ?post = "store32 src @ store32 dst @ [0x94, 0x04, 0, 0]"
  have "query_ip src dst ck = ?pre @ store16 ck @ ?post" for ck by (simp add: query_ip_def)
  moreover have "chksum_words ?pre \<noteq> 0" by code_simp
  then have "op_lib_inet_chksum (?pre @ store16 (op_lib_inet_chksum (?pre @ store16 0 @ ?post)) @ ?post) = 0"
    by (intro chksum_in_place) simp_all
  ultimately show ?thesis by metis
qed

lemma query_igmp_checksum: "op_lib_inet_chksum (query_igmp grp (op_lib_inet_chksum (query_igmp grp 0))) = 0"
proof -
  have "chksum_words [0x11, 100] \<noteq> 0" by code_simp
  then show ?thesis unfolding query_igmp_def by (intro chksum_in_place) simp_all
qed

subsection \<open>The frame\<close>

text \<open>The parts of a frame of the unit: addresses, perhaps a tag, the IP header with an option, and the message.\<close>

lemma parse_query:
  assumes "length da = 6" "length sa = 6"
    "tag = [] \<or> (\<exists>tpid tci. tag = store16 tpid @ store16 tci \<and> (tpid = VLAN_DEFAULT_STPID \<or> tpid = VLAN_DEFAULT_CTPID))"
  and raw_def: "raw = da @ sa @ tag @ store16 0x0800 @ query_ip src dst ck @ query_igmp grp ck' @ rest"
  shows "\<exists>q. parse_igmp raw len p = Some q \<and> igmpType q = 0x11 \<and> igmpMaxRespTime q = 100 \<and> igmpGroupAdress q = grp
    \<and> destIp q = dst \<and> srcIp q = src \<and> ingressTagType q = (if tag = [] then TAG_TYPE_UNTAG else TAG_TYPE_SINGLE_TAG)"
proof -
  have ip: "length (query_ip src dst ck) = 24" by (simp add: query_ip_def)
  have at: "slice_of (12 + length tag + 2 + k) n raw = slice_of k n (query_ip src dst ck @ query_igmp grp ck' @ rest)"
    "raw ! (12 + length tag + 2 + k) = (query_ip src dst ck @ query_igmp grp ck' @ rest) ! k" for k n
    using assms(1,2) by (simp_all add: raw_def slice_of_def nth_append)
  have src: "slice_of 12 4 (query_ip src dst ck @ r) = store32 src" "slice_of 16 4 (query_ip src dst ck @ r) = store32 dst"
      "slice_of 28 4 (query_ip src dst ck @ query_igmp grp ck' @ r) = store32 grp" for r
    by (simp_all add: query_ip_def query_igmp_def slice_of_def store16_def store32_def)
  have byte: "(query_ip src dst ck @ r) ! 0 = 0x46" "(query_ip src dst ck @ query_igmp grp ck' @ r) ! 24 = 0x11"
      "(query_ip src dst ck @ query_igmp grp ck' @ r) ! 25 = 100" for r
    by (simp_all add: query_ip_def query_igmp_def store16_def store32_def)
  show ?thesis
  proof (cases "tag = []")
    case True
    then have "slice_of 12 2 raw = store16 0x0800" using assms(1,2) by (simp add: raw_def slice_of_def)
    then show ?thesis using True at [of 0] at [of 24] at [of 25] at(1) [of 12] at(1) [of 16] at(1) [of 28] src byte
      by (simp add: parse_igmp_def Let_def VLAN_DEFAULT_STPID_def VLAN_DEFAULT_CTPID_def)
  next
    case False
    with assms(3) obtain tpid tci where t: "tag = store16 tpid @ store16 tci" "tpid = VLAN_DEFAULT_STPID \<or> tpid = VLAN_DEFAULT_CTPID" by blast
    then have "slice_of 12 2 raw = store16 tpid" using assms(1,2) by (simp add: raw_def slice_of_def)
    then show ?thesis using False t at [of 0] at [of 24] at [of 25] at(1) [of 12] at(1) [of 16] at(1) [of 28] src byte
      by (simp add: parse_igmp_def Let_def)
  qed
qed


subsection \<open>Examples\<close>

text \<open>Examples: a unit with one router port, reports and leaves of a host, and a query to all hosts.\<close>

definition sample_cb :: "u32 \<Rightarrow> MC_CONTROL_t" where
  "sample_cb mode = \<lparr> mcRecvEn = 1, mcMode = MC_MODE_SNOOPING, leaveMode = mode, ctcControlType = MC_CTL_GDA_GDA_IP_VID,
     mc_bitmap = CTC_CONTROL_BITMAP_GDA_IP_VLAN_ID, hostBitmap = MC_BITMAP_HOST_SRC_IP, cb_hostAgingTime = 2,
     lastQueryInterval = 1000, lastQueryCount = 2, maxGroupNum = (\<lambda>_. 2), isInitialized = True \<rparr>"

definition sample_mc :: "u32 \<Rightarrow> mc_sys" where
  "sample_mc mode = \<lparr> mcb = sample_cb mode, mcVlanMap = (\<lambda>_. 0x1E), mcTagOperPerPort = (\<lambda>_. 0), mcTagTranslationTable = [],
     mcRouterPort = [\<lparr> rp_enable = True, routerPortId = PORT_PON_LOGIC \<rparr>], mcGroupList = [], mcGroupTotalNum = 0,
     mcControlStats = \<lparr> generalQueryV1RxCount = 0, generalQueryV2RxCount = 0, groupSpecificV2QueryRxCount = 0,
       otherHostRxUnknownCount = 0, otherRouterRxUnknownCount = 0, joinReportV1RxCount = 0, joinReportV2RxCount = 0,
       leaveV2RxCount = 0, memAllocCount = 0, memfreeCount = 0 \<rparr>,
     leave_ticks = 0, ctc_leave_ticks = 0, mc_timers = [], mc_calls = [], mc_cfg = None \<rparr>"

definition sample_env :: mc_env where
  "sample_env = \<lparr> fresh_memory = [], vosHWAddrGet = Some [2, 0, 0, 0, 0, 1], vosIPAddrGet = Some 0x0A000001,
     dalPortPvidGet = (\<lambda>_. 1), vosTimerGetFree = (\<lambda>n. n < 4) \<rparr>"

definition igmp_frame :: "u8 \<Rightarrow> u32 \<Rightarrow> u32 \<Rightarrow> u32 \<Rightarrow> u8 list" where
  "igmp_frame ty src dst grp = clMcMacGetByMcIp dst @ [2, 0, 0, 0, 0, 9] @ store16 0x0800 @ query_ip src dst 0 @ [ty, 0, 0, 0] @ store32 grp"

definition report_of :: "u32 \<Rightarrow> u32 \<Rightarrow> u32 \<Rightarrow> mc_event" where
  "report_of p grp src = Igmp_frame (igmp_frame 0x16 src grp grp) p"

definition leave_of :: "u32 \<Rightarrow> u32 \<Rightarrow> u32 \<Rightarrow> mc_event" where
  "leave_of p grp src = Igmp_frame (igmp_frame 0x17 src MULTICAST_ALL_ROUTERS_GROUP grp) p"

definition sample_leave :: MC_PACKET_DESC_t where
  "sample_leave = the (parse_igmp (igmp_frame 0x17 5 MULTICAST_ALL_ROUTERS_GROUP 0xE1010203) 46 1)"


end
