(* ===== verification/Mc_Members.thy ===== *)
theory Mc_Members
  imports Mc_Snooping Mc_Query
begin

unbundle bit_operations_syntax

text \<open>
  What the snooping promises: the tables stay consistent, they implement a map of members, silent hosts are
  forgotten, and a pending leave is carried out after its queries. Then faults of the code.
\<close>

subsection \<open>The map of members\<close>

text \<open>What an event does to the map of members when leaves are carried out at once.\<close>

definition may_join :: "MC_CONTROL_t \<Rightarrow> MC_PACKET_DESC_t \<Rightarrow> (u32 \<times> u32 \<times> u32 \<Rightarrow> u32 option) \<Rightarrow> bool" where
  "may_join cb d m \<longleftrightarrow> \<not> report_refused d \<and> ((\<exists>ip. m (ingressPortId d, igmpGroupAdress d, ip) \<noteq> None)
     \<or> groups_on m (ingressPortId d) < unat (maxGroupNum cb (ingressPortId d)))"

primrec member_step :: "mc_env \<Rightarrow> MC_CONTROL_t \<Rightarrow> mc_event \<Rightarrow> (u32 \<times> u32 \<times> u32 \<Rightarrow> u32 option) \<Rightarrow> u32 \<times> u32 \<times> u32 \<Rightarrow> u32 option" where
  "member_step e cb (Igmp_frame pkt p) m =
     (case frame_desc e cb pkt p of
        None \<Rightarrow> m
      | Some d \<Rightarrow> if is_report d \<and> may_join cb d m then m(desc_member d \<mapsto> cb_hostAgingTime cb)
                  else if igmpType d = 0x17 \<and> leave_valid d then m(desc_member d := None)
                  else m)"
| "member_step e cb (Leave_timer t) m = m"
| "member_step e cb Ageing_second m = (\<lambda>k. if cb_hostAgingTime cb = 0 then m k else m k \<bind> tick)"

lemma may_join_admitted:
  assumes "mc_inv s"
  shows "may_join (mcb s) d (ages s) = admitted d s"
proof -
  have "(\<exists>ip. ages s (ingressPortId d, igmpGroupAdress d, ip) \<noteq> None) \<longleftrightarrow> (\<exists>g\<in>set (mcGroupList s). gid g = desc_gid d)"
    unfolding group_has_member [OF assms] desc_gid_def by (simp add: image_iff eq_commute)
  then show ?thesis by (simp add: may_join_def admitted_def groups_on_ages [OF assms])
qed

definition fast_inv :: "MC_CONTROL_t \<Rightarrow> mc_sys \<Rightarrow> bool" where
  "fast_inv cb s \<longleftrightarrow> snoop_inv s \<and> mcb s = cb \<and> leaveMode cb = MC_LEAVE_MODE_FAST \<and> mc_timers s = []"

lemma fast_step:
  assumes "fast_inv cb s" "mc_step e ev s = Some s'"
  shows "fast_inv cb s' \<and> ages s' = member_step e cb ev (ages s)"
proof -
  have s: "snoop_inv s" "mcb s = cb" "leaveMode cb = MC_LEAVE_MODE_FAST" "mc_timers s = []" using assms(1) by (simp_all add: fast_inv_def)
  note st = snoop_step [OF s(1) assms(2)]
  have "ages s' k = step_effect e ev s k" for k using st [of k] s(4) by auto
  moreover have "step_effect e ev s = member_step e cb ev (ages s)"
    using s may_join_admitted [of s] by (cases ev) (auto simp: snoop_inv_def message_effect_def split: option.split)
  ultimately have "ages s' = member_step e cb ev (ages s)" by (simp add: fun_eq_iff)
  then show ?thesis using st s by (auto simp: fast_inv_def)
qed

interpretation fast_snooping: event_refinement "mc_step e" "fast_inv cb" ages "member_step e cb" for e cb
  by unfold_locales (use fast_step in blast)+

text \<open>The state after the start, with empty tables.\<close>

definition fresh_tables :: "mc_sys \<Rightarrow> bool" where
  "fresh_tables s \<longleftrightarrow> snoop_cfg (mcb s) \<and> mcGroupList s = [] \<and> mcGroupTotalNum s = 0 \<and> mc_timers s = []"

lemma fresh_inv: "fresh_tables s \<Longrightarrow> snoop_inv s"
  by (simp add: fresh_tables_def snoop_inv_def mc_inv_def groups_ok_def)

lemma fresh_ages: "fresh_tables s \<Longrightarrow> ages s = Map.empty"
  by (simp add: fresh_tables_def ages_def)

lemma sample_fresh: "fresh_tables (sample_mc m)"
  by (simp add: fresh_tables_def sample_mc_def sample_cb_def snoop_cfg_def)

text \<open>C10: With fast leave the tables implement a map from members (port, group and address of the host) to the
  seconds they have left: after any sequence of events that does not end in a fault, the map is what the
  abstract steps make of the empty map. A report puts its host (if the group is known or the port has
  room for another one), a leave deletes it, and a second counts down.
\<close>

theorem snooping_refines_members:
  assumes "fresh_tables s" "leaveMode (mcb s) = MC_LEAVE_MODE_FAST" "run_events (mc_step e) evs s = Some s'"
  shows "ages s' = fold (member_step e (mcb s)) evs Map.empty"
proof -
  have "fast_inv (mcb s) s" using assms(1,2) fresh_inv [of s] by (simp add: fast_inv_def fresh_tables_def)
  from fast_snooping.run_simulates [OF assms(3) this] show ?thesis using fresh_ages [OF assms(1)] by simp
qed

theorem snooping_refines_members_witness:
  "\<exists>s'. run_events (mc_step sample_env) [report_of 1 0xE1010203 5, Ageing_second, leave_of 1 0xE1010203 6] (sample_mc MC_LEAVE_MODE_FAST) = Some s'
    \<and> ages s' (1, 0xE1010203, 5) = Some 1
    \<and> ages s' = fold (member_step sample_env (sample_cb MC_LEAVE_MODE_FAST)) [report_of 1 0xE1010203 5, Ageing_second, leave_of 1 0xE1010203 6] Map.empty"
proof -
  have "case run_events (mc_step sample_env) [report_of 1 0xE1010203 5, Ageing_second, leave_of 1 0xE1010203 6] (sample_mc MC_LEAVE_MODE_FAST)
      of None \<Rightarrow> False | Some s' \<Rightarrow> ages s' (1, 0xE1010203, 5) = Some 1" by code_simp
  then obtain s' where s': "run_events (mc_step sample_env) [report_of 1 0xE1010203 5, Ageing_second, leave_of 1 0xE1010203 6]
      (sample_mc MC_LEAVE_MODE_FAST) = Some s'" "ages s' (1, 0xE1010203, 5) = Some 1" by (auto split: option.splits)
  have "mcb (sample_mc MC_LEAVE_MODE_FAST) = sample_cb MC_LEAVE_MODE_FAST" "leaveMode (sample_cb MC_LEAVE_MODE_FAST) = MC_LEAVE_MODE_FAST"
    by (simp_all add: sample_mc_def sample_cb_def)
  then show ?thesis using snooping_refines_members [OF sample_fresh _ s'(1)] s' by auto
qed

subsection \<open>Silent hosts\<close>

definition reports_member :: "mc_env \<Rightarrow> MC_CONTROL_t \<Rightarrow> mc_event \<Rightarrow> u32 \<times> u32 \<times> u32 \<Rightarrow> bool" where
  "reports_member e cb ev k =
     (case ev of Igmp_frame pkt p \<Rightarrow> (case frame_desc e cb pkt p of None \<Rightarrow> False | Some d \<Rightarrow> is_report d \<and> desc_member d = k) | _ \<Rightarrow> False)"

lemma step_effect_silent:
  assumes "\<not> reports_member e (mcb s) ev k"
  shows "step_effect e ev s k = None \<or> step_effect e ev s k = (if ev = Ageing_second \<and> cb_hostAgingTime (mcb s) \<noteq> 0 then ages s k \<bind> tick else ages s k)"
  using assms by (cases ev) (auto simp: reports_member_def message_effect_def split: option.splits)

text \<open>How long a member that is not heard of can stay.\<close>

definition left :: "u32 option \<Rightarrow> nat" where
  "left a = (case a of None \<Rightarrow> 0 | Some t \<Rightarrow> Suc (unat t))"

lemma left_tick: "left (a \<bind> tick) = left a - 1"
proof (cases a)
  case (Some t)
  then show ?thesis using unat_minus_one [of t] unat_eq_zero [of t] by (auto simp: left_def tick_def)
qed (simp add: left_def)

lemma silent_run:
  assumes "snoop_inv s" "run_events (mc_step e) evs s = Some s'" "cb_hostAgingTime (mcb s) \<noteq> 0"
    "\<forall>ev\<in>set evs. \<not> reports_member e (mcb s) ev k"
  shows "left (ages s' k) \<le> left (ages s k) - length (filter (\<lambda>ev. ev = Ageing_second) evs)"
  using assms
proof (induction evs arbitrary: s)
  case (Cons ev evs)
  then obtain t where t: "mc_step e ev s = Some t" "run_events (mc_step e) evs t = Some s'" by (auto split: option.splits)
  note st = snoop_step [OF Cons.prems(1) t(1), of k]
  have "left (ages t k) \<le> left (ages s k) - (if ev = Ageing_second then 1 else 0)"
    using st step_effect_silent [of e s ev k] Cons.prems(3,4) left_tick [of "ages s k"] by (auto simp: left_def split: if_splits)
  moreover have "left (ages s' k) \<le> left (ages t k) - length (filter (\<lambda>ev. ev = Ageing_second) evs)"
    using Cons.IH [OF _ t(2)] st Cons.prems(3,4) by simp
  ultimately show ?case by auto
qed simp



subsection \<open>Pending leaves\<close>

text \<open>A leave that is pending at the timer \<open>t\<close>: its host is a member that has not been heard of since, and the messages can be made.\<close>

definition silent :: "MC_PACKET_DESC_t \<Rightarrow> mc_sys \<Rightarrow> bool" where
  "silent d s \<longleftrightarrow> (\<forall>g\<in>set (mcGroupList s). gid g = desc_gid d \<longrightarrow>
     (\<forall>h\<in>set (hostList g). h_srcIp h = srcIp d \<longrightarrow> \<not> h_isLastReportRecevied h))"

definition leave_pending :: "mc_env \<Rightarrow> nat \<Rightarrow> MC_PACKET_DESC_t \<Rightarrow> mc_sys \<Rightarrow> bool" where
  "leave_pending e t d s \<longleftrightarrow> t < length (mc_timers s) \<and> mc_timers s ! t = (MC_SNOOP_NON_FAST_LEAVE, d)
     \<and> ages s (desc_member d) \<noteq> None \<and> silent d s \<and> vosHWAddrGet e \<noteq> None \<and> vosIPAddrGet e \<noteq> None
     \<and> length (odmMulticastTagTranslationGet (ingressPortId d) s) \<le> 16 \<and> 16 \<le> ingressPacketLength d
     \<and> ingressPortId d \<noteq> PORT_PON_LOGIC \<and> (\<forall>r\<in>set (mcRouterPort s). rp_enable r \<longrightarrow> routerPortId r = PORT_PON_LOGIC)"

text \<open>The number of frames sent to a port.\<close>

definition to_port :: "u32 \<Rightarrow> mc_call \<Rightarrow> bool" where
  "to_port p c = (case c of Eopl_send_to_uplink q _ \<Rightarrow> q = p | Eopl_send_to_down_link q _ \<Rightarrow> q = p | _ \<Rightarrow> False)"

definition sent_to :: "u32 \<Rightarrow> mc_sys \<Rightarrow> nat" where
  "sent_to p s = length (filter (to_port p) (mc_calls s))"

lemma sent_to_log: "sent_to p (mc_log c s) = sent_to p s + (if to_port p c then 1 else 0)"
  by (simp add: sent_to_def mc_log_def)

lemma sent_to_send: "sent_to p (mc_send q pkt s) = sent_to p s + (if q = p then 1 else 0)"
  by (simp add: mc_send_def sent_to_log to_port_def)

lemma sent_to_frame [simp]:
  "sent_to p (count_free s) = sent_to p s" "sent_to p (killed t s) = sent_to p s" "sent_to p (s\<lparr> leave_ticks := i \<rparr>) = sent_to p s"
  "sent_to p (with_group g f s) = sent_to p s" "sent_to p (s\<lparr> mcGroupList := gs \<rparr>) = sent_to p s"
  by (simp_all add: sent_to_def count_free_def with_stats_def with_group_def)

lemma sent_to_drop: "sent_to p (snd (drop_host g k s)) = sent_to p s"
proof -
  have "sent_to p (dalMcGroupDel k s) = sent_to p s" for k s by (simp add: dalMcGroupDel_def sent_to_log to_port_def split: prod.split)
  moreover have "sent_to p (snd (mcGroupListDel k b s)) = sent_to p s" for k b s
    by (auto simp: mcGroupListDel_def sent_to_def count_free_def with_stats_def split: option.split)
  moreover have "sent_to p (snd (mcHostListDel g k b s)) = sent_to p s" for k b s
    by (auto simp: mcHostListDel_def split: option.split)
  then have "sent_to p u = sent_to p s" if "mcHostListDel g k b s = (r, u)" for k b s r u using that by (metis snd_conv)
  ultimately show ?thesis by (auto simp: drop_host_def odmMcGroupDel_def Let_def split: prod.splits)
qed

lemma output_sends: "16 \<le> len \<Longrightarrow> \<exists>pkt'. mcSnoopingOutput p tag pkt len b s = Some (mc_send p pkt' s)"
  by (auto simp: mcSnoopingOutput_def untag_packet_def Let_def)

lemma routers_sent:
  assumes "16 \<le> ingressPacketLength d" "\<forall>r\<in>set rs. rp_enable r \<longrightarrow> routerPortId r \<noteq> p"
  shows "\<exists>s'. snooping_to_routers rs b d s = Some s' \<and> sent_to p s' = sent_to p s"
  using assms(2)
proof (induction rs arbitrary: s)
  case (Cons r rs)
  obtain pkt where pkt: "mcSnoopingOutput (routerPortId r) (ingressTagType d) (ingressPacket d) (ingressPacketLength d) b s
      = Some (mc_send (routerPortId r) pkt s)" using output_sends [OF assms(1)] by blast
  show ?case using Cons.IH [of "mc_send (routerPortId r) pkt s"] Cons.IH [of s] Cons.prems pkt by (auto simp: sent_to_send)
qed simp

lemma query_generated:
  assumes "leave_pending e t d s"
  shows "\<exists>pkt len tag. mcSnoopingQueryPacketGenerate e d s = Some (Some (pkt, len, tag)) \<and> 16 \<le> len"
  using assms by (auto simp: leave_pending_def mcSnoopingQueryPacketGenerate_def query_vid_def Let_def split: option.split)

lemma pending_member:
  assumes "snoop_inv s" "leave_pending e t d s"
  obtains as x bs hs h hs' pkt len tag where "mcGroupList s = as @ x # bs" "hostList x = hs @ h # hs'" "gid x = desc_gid d" "h_srcIp h = srcIp d"
    "\<not> h_isLastReportRecevied h" "16 \<le> len" "mc_step e (Leave_timer t) s = leave_tick t d (length as) (length hs) h (Some (pkt, len, tag)) s"
proof -
  have tm: "t < length (mc_timers s)" "mc_timers s ! t = (MC_SNOOP_NON_FAST_LEAVE, d)" and mem: "ages s (desc_member d) \<noteq> None" and si: "silent d s"
    using assms(2) by (simp_all add: leave_pending_def)
  have inv: "mc_inv s" using assms(1) by (simp add: snoop_inv_def)
  have d: "snd (mc_timers s ! t) = d" using tm(2) by simp
  from query_generated [OF assms(2)] obtain pkt len tag where
    q: "mcSnoopingQueryPacketGenerate e d s = Some (Some (pkt, len, tag))" "16 \<le> len" by blast
  from leave_timer_member [OF inv d mem, of e] obtain as x bs hs h hs' where
    m: "mcGroupList s = as @ x # bs" "hostList x = hs @ h # hs'" "gid x = desc_gid d" "h_srcIp h = srcIp d"
    and act: "mcSnoopingNonFastLeaveAction e t s =
       mcSnoopingQueryPacketGenerate e d s \<bind> (\<lambda>query. leave_tick t d (length as) (length hs) h query s)" by metis
  have "mc_step e (Leave_timer t) s = leave_tick t d (length as) (length hs) h (Some (pkt, len, tag)) s"
    using act q(1) tm by (simp add: mc_timer_msg_def)
  moreover have "\<not> h_isLastReportRecevied h" using si m by (auto simp: silent_def)
  ultimately show ?thesis using that m q(2) by blast
qed

lemma unat_plus_one: "unat (a :: u32) < 4294967295 \<Longrightarrow> unat (a + 1) = Suc (unat a)"
  by (simp add: unat_word_ariths)

lemma u32_step: "a < (b :: u32) \<Longrightarrow> b \<noteq> - 1 \<Longrightarrow> unat (a + 1) = Suc (unat a) \<and> a + 1 < b + 1 \<and> \<not> b + 1 < a + 1"
proof -
  assume "a < b" "b \<noteq> - 1"
  moreover have "unat (- 1 :: u32) = 4294967295" by (simp add: unsigned_minus_1_eq_mask mask_eq_exp_minus_1)
  then have "unat b \<noteq> 4294967295" using \<open>b \<noteq> - 1\<close> by (metis word_unat_eq_iff)
  moreover have "unat b < 4294967296" using unsigned_less [of b, where ?'a = nat] by simp
  ultimately show ?thesis using unat_plus_one [of a] unat_plus_one [of b] by (simp add: word_less_nat_alt)
qed

text \<open>Before the count is reached a query is sent, and nothing else happens.\<close>

lemma leave_waits:
  assumes "snoop_inv s" "leave_pending e t d s" "leave_ticks s < lastQueryCount (mcb s)" "lastQueryCount (mcb s) \<noteq> - 1"
  shows "\<exists>pkt. mc_step e (Leave_timer t) s = Some (mc_send (ingressPortId d) pkt (s\<lparr> leave_ticks := leave_ticks s + 1 \<rparr>))"
proof -
  obtain h g i pkt len tag where h: "\<not> h_isLastReportRecevied h" "16 \<le> (len :: nat)"
    "mc_step e (Leave_timer t) s = leave_tick t d g i h (Some (pkt, len, tag)) s"
    using pending_member [OF assms(1,2)] by metis
  then show ?thesis using u32_step [OF assms(3,4)] output_sends [OF h(2)] by (simp add: leave_tick_def)
qed

text \<open>When it is reached, whichever leave has brought it there, the host of the timer is removed.\<close>

lemma leave_done:
  assumes "snoop_inv s" "leave_pending e t d s" "leave_ticks s = lastQueryCount (mcb s)"
  shows "\<exists>s'. mc_step e (Leave_timer t) s = Some s' \<and> ages s' = (ages s)(desc_member d := None) \<and> leave_ticks s' = 0
    \<and> mc_timers s' = del_at t (mc_timers s) \<and> sent_to (ingressPortId d) s' = sent_to (ingressPortId d) s"
proof -
  obtain as x bs hs h hs' pkt len tag where
    m: "mcGroupList s = as @ x # bs" "hostList x = hs @ h # hs'" "gid x = desc_gid d" "h_srcIp h = srcIp d" "\<not> h_isLastReportRecevied h"
    and st: "mc_step e (Leave_timer t) s = leave_tick t d (length as) (length hs) h (Some (pkt, len, tag)) s"
    using pending_member [OF assms(1,2)] by metis
  have "mc_inv s" using assms(1) by (simp add: snoop_inv_def)
  from drop_host_tables [OF this m(1,2)] obtain v where
    v: "drop_host (length as) (host_key h) s = (OPL_OK, v)" "mc_timers v = mc_timers s"
       "ages v = (ages s)((hostPortId x, groupAddress x, h_srcIp h) := None)" by blast
  have "\<forall>r\<in>set (mcRouterPort s). rp_enable r \<longrightarrow> routerPortId r \<noteq> ingressPortId d" "16 \<le> ingressPacketLength d"
    using assms(2) by (auto simp: leave_pending_def)
  from routers_sent [OF this(2,1), of True v] obtain u where
    u: "snooping_to_routers (mcRouterPort s) True d v = Some u" "sent_to (ingressPortId d) u = sent_to (ingressPortId d) v" by blast
  have "mc_step e (Leave_timer t) s = Some (killed t u)"
    using st v(1) u(1) m(5) assms(3) by (simp add: leave_tick_def)
  moreover have "tables u = tables v" using tables_routers [OF u(1)] .
  ultimately show ?thesis
    using v u ages_tables [of u v] sent_to_drop [of "ingressPortId d" "length as" "host_key h" s] m(3,4)
    by (simp add: tables_def desc_member_def gid_def desc_gid_def)
qed

text \<open>What the queries leave alone.\<close>

lemma pending_frame:
  "leave_pending e t d (mc_send p pkt (s\<lparr> leave_ticks := i \<rparr>)) = leave_pending e t d s"
  "snoop_inv (mc_send p pkt (s\<lparr> leave_ticks := i \<rparr>)) = snoop_inv s"
  by (simp_all add: leave_pending_def silent_def ages_def snoop_inv_def mc_inv_def mc_send_def mc_log_def odmMulticastTagTranslationGet_def)

lemma queries_sent:
  assumes "snoop_inv s" "leave_pending e t d s" "lastQueryCount (mcb s) \<noteq> - 1" "unat (leave_ticks s) + n \<le> unat (lastQueryCount (mcb s))"
  shows "\<exists>s'. run_events (mc_step e) (replicate n (Leave_timer t)) s = Some s' \<and> snoop_inv s' \<and> ages s' = ages s \<and> mcb s' = mcb s
    \<and> mc_timers s' = mc_timers s \<and> leave_ticks s' = leave_ticks s + of_nat n
    \<and> (\<forall>t' d'. leave_pending e t' d' s' = leave_pending e t' d' s)
    \<and> (\<forall>p. sent_to p s' = sent_to p s + (if p = ingressPortId d then n else 0))"
  using assms
proof (induction n arbitrary: s)
  case (Suc n)
  then have lt: "leave_ticks s < lastQueryCount (mcb s)" by (simp add: word_less_nat_alt)
  from leave_waits [OF Suc.prems(1,2) lt Suc.prems(3)] obtain pkt where
    st: "mc_step e (Leave_timer t) s = Some (mc_send (ingressPortId d) pkt (s\<lparr> leave_ticks := leave_ticks s + 1 \<rparr>))" by blast
  let ?u = "mc_send (ingressPortId d) pkt (s\<lparr> leave_ticks := leave_ticks s + 1 \<rparr>)"
  have u: "mcb ?u = mcb s" "leave_ticks ?u = leave_ticks s + 1" "ages ?u = ages s" "mc_timers ?u = mc_timers s"
    by (simp_all add: mc_send_def mc_log_def ages_def)
  have "unat (leave_ticks s + 1) = Suc (unat (leave_ticks s))"
    using u32_step [OF lt Suc.prems(3)] by simp
  then have "\<exists>s'. run_events (mc_step e) (replicate n (Leave_timer t)) ?u = Some s' \<and> snoop_inv s' \<and> ages s' = ages ?u \<and> mcb s' = mcb ?u
    \<and> mc_timers s' = mc_timers ?u \<and> leave_ticks s' = leave_ticks ?u + of_nat n
    \<and> (\<forall>t' d'. leave_pending e t' d' s' = leave_pending e t' d' ?u)
    \<and> (\<forall>p. sent_to p s' = sent_to p ?u + (if p = ingressPortId d then n else 0))"
    using Suc.prems u by (intro Suc.IH) (simp_all add: pending_frame)
  then show ?case using st by (simp add: u pending_frame sent_to_send) (auto simp: add.assoc)
qed simp


text \<open>A run from the start, for the examples.\<close>

lemma sample_run:
  assumes "case run_events (mc_step sample_env) evs (sample_mc m) of None \<Rightarrow> False | Some s \<Rightarrow> P s"
  obtains s where "run_events (mc_step sample_env) evs (sample_mc m) = Some s" "snoop_inv s" "P s"
  using assms snooping.run_kept [OF _ fresh_inv [OF sample_fresh], of sample_env evs m] by (auto split: option.splits)

lemma sample_count: "lastQueryCount (mcb s) = 2 \<Longrightarrow> unat (lastQueryCount (mcb s)) = 2 \<and> lastQueryCount (mcb s) \<noteq> - 1"
  by simp

lemma two_then: "replicate 2 x @ [y] = [x, x, y]"
  by (simp add: numeral_2_eq_2)


text \<open>C31: The expirations of all timers are counted in one static variable. When one pending leave has sent its
  queries, the first expiration of the timer of another one removes its host without a query to its port.
\<close>

theorem leave_without_query:
  assumes "snoop_inv s" "leave_pending e t d s" "leave_pending e t' d' s" "ingressPortId d' \<noteq> ingressPortId d"
    "leave_ticks s = 0" "lastQueryCount (mcb s) \<noteq> - 1"
  shows "\<exists>s'. run_events (mc_step e) (replicate (unat (lastQueryCount (mcb s))) (Leave_timer t) @ [Leave_timer t']) s = Some s'
    \<and> ages s (desc_member d') \<noteq> None \<and> ages s' (desc_member d') = None \<and> sent_to (ingressPortId d') s' = sent_to (ingressPortId d') s"
proof -
  from queries_sent [OF assms(1,2,6), of "unat (lastQueryCount (mcb s))"] assms(5) obtain u where
    u: "run_events (mc_step e) (replicate (unat (lastQueryCount (mcb s))) (Leave_timer t)) s = Some u" "snoop_inv u"
      "mcb u = mcb s" "leave_ticks u = lastQueryCount (mcb s)" "leave_pending e t' d' u" "sent_to (ingressPortId d') u = sent_to (ingressPortId d') s"
    using assms(3,4) by auto
  from leave_done [OF u(2,5)] u(3,4) obtain v where "mc_step e (Leave_timer t') u = Some v" "ages v = (ages u)(desc_member d' := None)"
    "sent_to (ingressPortId d') v = sent_to (ingressPortId d') u" by auto
  then show ?thesis using u assms(3) by (simp add: run_events_append leave_pending_def)
qed

theorem leave_without_query_witness:
  "\<exists>s s'. run_events (mc_step sample_env) [report_of 1 0xE1010203 5, report_of 2 0xE1010204 6, leave_of 1 0xE1010203 5, leave_of 2 0xE1010204 6]
      (sample_mc MC_LEAVE_MODE_NON_FAST_LEAVE) = Some s
    \<and> run_events (mc_step sample_env) [Leave_timer 0, Leave_timer 0, Leave_timer 1] s = Some s'
    \<and> ages s (2, 0xE1010204, 6) \<noteq> None \<and> ages s' (2, 0xE1010204, 6) = None \<and> sent_to 2 s' = sent_to 2 s"
proof -
  let ?P = "\<lambda>s. leave_pending sample_env 0 (snd (mc_timers s ! 0)) s \<and> leave_pending sample_env 1 (snd (mc_timers s ! 1)) s
        \<and> ingressPortId (snd (mc_timers s ! 0)) = 1 \<and> ingressPortId (snd (mc_timers s ! 1)) = 2
        \<and> desc_member (snd (mc_timers s ! 1)) = (2, 0xE1010204, 6) \<and> leave_ticks s = 0 \<and> lastQueryCount (mcb s) = 2"
  have "case run_events (mc_step sample_env) [report_of 1 0xE1010203 5, report_of 2 0xE1010204 6, leave_of 1 0xE1010203 5, leave_of 2 0xE1010204 6]
      (sample_mc MC_LEAVE_MODE_NON_FAST_LEAVE) of None \<Rightarrow> False | Some s \<Rightarrow> ?P s" by code_simp
  then obtain s where s: "run_events (mc_step sample_env) [report_of 1 0xE1010203 5, report_of 2 0xE1010204 6, leave_of 1 0xE1010203 5, leave_of 2 0xE1010204 6]
      (sample_mc MC_LEAVE_MODE_NON_FAST_LEAVE) = Some s" "snoop_inv s" "?P s" by (rule sample_run)
  then have pend: "leave_pending sample_env 0 (snd (mc_timers s ! 0)) s" "leave_pending sample_env 1 (snd (mc_timers s ! 1)) s"
      "ingressPortId (snd (mc_timers s ! 1)) \<noteq> ingressPortId (snd (mc_timers s ! 0))" "leave_ticks s = 0" by simp_all
  from leave_without_query [OF s(2) this] sample_count [of s] s(3) obtain s' where
    "run_events (mc_step sample_env) (replicate 2 (Leave_timer 0) @ [Leave_timer 1]) s = Some s'"
    "ages s (2, 0xE1010204, 6) \<noteq> None" "ages s' (2, 0xE1010204, 6) = None" "sent_to 2 s' = sent_to 2 s" by auto
  then show ?thesis using s(1) unfolding two_then by blast
qed

subsection \<open>Faults\<close>

text \<open>A frame whose IP header is neither five nor six words long makes the parser read the message through a
  null pointer, whatever the rest of the frame is, as soon as the module is enabled and initialised.
\<close>

theorem odd_header_length_faults:
  assumes "mcRecvEn (mcb s) \<noteq> 0" "isInitialized (mcb s)" "15 \<le> length pkt" "length pkt \<le> 1518"
    "load16 (slice_of 12 2 pkt) \<noteq> VLAN_DEFAULT_STPID" "load16 (slice_of 12 2 pkt) \<noteq> VLAN_DEFAULT_CTPID"
    "pkt ! 14 AND 0xF \<noteq> 5" "pkt ! 14 AND 0xF \<noteq> 6"
  shows "mc_step e (Igmp_frame pkt p) s = None"
proof -
  obtain r where raw: "raw_packet e pkt = pkt @ r" by (simp add: raw_packet_def patch_def)
  have "slice_of 12 2 (pkt @ r) = slice_of 12 2 pkt" "(pkt @ r) ! 14 = pkt ! 14"
    using assms(3) by (simp_all add: slice_append nth_append)
  then have "parse_igmp (raw_packet e pkt) (length pkt) p = None" using assms(5-8) by (simp add: raw parse_igmp_def Let_def)
  then show ?thesis using assms(1,2,4) by (simp add: mcInput_def count_alloc_def with_stats_def)
qed

theorem odd_header_length_faults_witness:
  "mc_step sample_env (Igmp_frame ([1, 0, 0x5e, 0, 0, 1, 2, 0, 0, 0, 0, 9] @ store16 0x0800 @ [0x47]) 1) (sample_mc MC_LEAVE_MODE_FAST) = None"
proof (rule odd_header_length_faults)
  let ?pkt = "[1, 0, 0x5e, 0, 0, 1, 2, 0, 0, 0, 0, 9] @ store16 0x0800 @ [0x47]"
  show "mcRecvEn (mcb (sample_mc MC_LEAVE_MODE_FAST)) \<noteq> 0" "isInitialized (mcb (sample_mc MC_LEAVE_MODE_FAST))"
    "15 \<le> length ?pkt" "length ?pkt \<le> 1518" "load16 (slice_of 12 2 ?pkt) \<noteq> VLAN_DEFAULT_STPID"
    "load16 (slice_of 12 2 ?pkt) \<noteq> VLAN_DEFAULT_CTPID" "?pkt ! 14 AND 0xF \<noteq> 5" "?pkt ! 14 AND 0xF \<noteq> 6"
    by code_simp+
qed

text \<open>The frames that reach the switch are those of all groups with the same last 23 bits.\<close>

lemma calls_routers: "snooping_to_routers rs b d s = Some s' \<Longrightarrow> \<exists>cs. mc_calls s' = mc_calls s @ cs"
proof (induction rs arbitrary: s)
  case (Cons r rs)
  have out: "\<exists>cs. mc_calls t = mc_calls s @ cs" if "mcSnoopingOutput q tag pkt len b s = Some t" for q tag pkt len t
    using that by (auto simp: mcSnoopingOutput_def Let_def mc_send_def mc_log_def split: if_splits option.splits)
  show ?case using Cons.prems Cons.IH by (auto simp: bind_eq_Some_conv split: if_splits dest!: out) fastforce
qed simp

lemma drop_last_host_calls:
  assumes "mc_inv s" "mcGroupList s = as @ x # bs" "hostList x = [h]"
  shows "mc_calls (snd (drop_host (length as) (host_key h) s)) =
    mc_calls s @ [DalArlMultiPortMacDel (hostPortId x) (dal_group_mac (group_key x) s) (mcVlan x)]"
proof -
  have bm: "mc_bitmap (mcb s) = CTC_CONTROL_BITMAP_GDA_IP_VLAN_ID" "hostBitmap (mcb s) = MC_BITMAP_HOST_SRC_IP"
    and dist: "distinct (map gid (as @ x # bs))"
    using assms(1,2) by (simp_all add: mc_inv_def snoop_cfg_def groups_ok_def)
  have fg: "find_pos (\<lambda>g. gid g = gid x) (as @ x\<lparr> hostList := [], hostTotalNum := n \<rparr> # bs) = Some (length as)" for n
    using distinct_around [OF dist] by (intro find_pos_split) (auto simp: gid_def)
  have mac: "dal_group_mac k (t\<lparr> mcGroupList := gs \<rparr>) = dal_group_mac k t" "dal_group_mac k (t\<lparr> mcControlStats := c \<rparr>) = dal_group_mac k t" for k gs t c
    by (simp_all add: dal_group_mac_def fun_eq_iff split: prod.split)
  have "mcHostListDel (length as) (host_key h) MC_BITMAP_HOST_SRC_IP s =
      (OPL_OK, (count_free s)\<lparr> mcGroupList := as @ x\<lparr> hostList := [], hostTotalNum := hostTotalNum x - 1 \<rparr> # bs \<rparr>)"
    using del_at_split [of "[]" h "[]"]
    by (simp add: mcHostListDel_def mcHostListGet_def host_key_def find_host assms(2,3) with_group_def count_free_def with_stats_def)
  moreover have "dalMcGroupDel (group_key x) t = mc_log (DalArlMultiPortMacDel (hostPortId x) (dal_group_mac (group_key x) t) (mcVlan x)) t" for t
    by (simp add: dalMcGroupDel_def group_key_def)
  ultimately show ?thesis
    using fg by (simp add: drop_host_def bm assms(2) mcGroupListHostListEmpty_def mcGroupListGet_def find_group_key Let_def mac
        odmMcGroupDel_def mcGroupListDel_def mc_log_def count_free_def with_stats_def)
qed

text \<open>C32: Groups are told apart by their addresses but programmed into the switch by their MAC addresses, which
  hold the last 23 bits only. When the last host leaves one of two groups of a port that agree in these, the
  switch is told to stop forwarding to the port, although the other group is still in the table.
\<close>

theorem leave_stops_aliased_group:
  assumes "snoop_inv s" "leaveMode (mcb s) = MC_LEAVE_MODE_FAST" "ctcControlType (mcb s) = MC_CTL_GDA_GDA_IP_VID" "leave_valid d"
    "x \<in> set (mcGroupList s)" "gid x = desc_gid d" "hostList x = [h]" "h_srcIp h = srcIp d"
    "y \<in> set (mcGroupList s)" "y \<noteq> x" "hostPortId y = hostPortId x" "mcVlan y = mcVlan x"
    "groupAddress y AND 0x7fffff = groupAddress x AND 0x7fffff" "mcSnoopingLeaveAction e d s = Some (ret, d', s')"
  shows "y \<in> set (mcGroupList s') \<and> (\<exists>cs. mc_calls s' =
    mc_calls s @ DalArlMultiPortMacDel (hostPortId y) (clMcMacGetByMcIp (groupAddress y)) (mcVlan y) # cs)"
proof -
  have inv: "mc_inv s" using assms(1) by (simp add: snoop_inv_def)
  then have dist: "distinct (map gid (mcGroupList s))" by (simp add: mc_inv_def groups_ok_def)
  have "ages s (desc_member d) \<noteq> None"
    using ages_group [OF dist assms(5), of "srcIp d"] assms(6-8) by (simp add: ages_def desc_member_def gid_def desc_gid_def)
  from find_member [OF inv this] obtain as z bs hs h' hs' where
    m: "mcGroupList s = as @ z # bs" "hostList z = hs @ h' # hs'" "gid z = desc_gid d" "h_srcIp h' = srcIp d"
    "mcGroupListGet (desc_key d) (mc_bitmap (mcb s)) s = Some (length as)"
    "mcHostListGet (length as) (desc_host d) (hostBitmap (mcb s)) s = Some (length hs)" by blast
  have "z \<in> set (mcGroupList s)" using m(1) by simp
  then have "z = x" using dist m(3) assms(5,6) unfolding distinct_map inj_on_def by metis
  then have z: "z = x" "hs = []" "h' = h" "hs' = []" using m(2) assms(7) by (auto simp: Cons_eq_append_conv)
  from drop_host_tables [OF inv m(1,2)] z obtain t where
    t: "drop_host (length as) (host_key h) s = (OPL_OK, t)" "mcGroupList t = as @ bs" by auto
  have out: "snooping_to_routers (mcRouterPort t) False d t = Some s'"
    using assms(2,4,14) m z t(1) by (auto simp: mcSnoopingLeaveAction_def leave_valid_def)
  have "mcGroupList s' = as @ bs" using tables_routers [OF out] t(2) by (simp add: tables_def)
  moreover have "y \<in> set (as @ bs)" using assms(9,10) m(1) z(1) by auto
  moreover have "clMcMacGetByMcIp (groupAddress y) = clMcMacGetByMcIp (groupAddress x)" using assms(13) by (simp add: clMcMacGetByMcIp_def)
  moreover have "mc_calls t = mc_calls s @ [DalArlMultiPortMacDel (hostPortId x) (clMcMacGetByMcIp (groupAddress x)) (mcVlan x)]"
    using drop_last_host_calls [OF inv, of as x bs h] m(1) z t(1) assms(3,7)
    by (simp add: dal_group_mac_def group_key_def MC_CTL_GDA_MAC_def MC_CTL_GDA_MAC_VID_def MC_CTL_GDA_GDA_IP_VID_def)
  ultimately show ?thesis using calls_routers [OF out] assms(11,12) by auto
qed

theorem leave_stops_aliased_group_witness:
  "\<exists>s s' ret d'. run_events (mc_step sample_env) [report_of 1 0xE1010203 5, report_of 1 0xE2010203 6] (sample_mc MC_LEAVE_MODE_FAST) = Some s
    \<and> mcSnoopingLeaveAction sample_env sample_leave s = Some (ret, d', s') \<and> map groupAddress (mcGroupList s) = [0xE2010203, 0xE1010203]
    \<and> hd (mcGroupList s) \<in> set (mcGroupList s')
    \<and> (\<exists>cs. mc_calls s' = mc_calls s @ DalArlMultiPortMacDel 1 (clMcMacGetByMcIp 0xE2010203) 0 # cs)"
proof -
  let ?P = "\<lambda>s. mcSnoopingLeaveAction sample_env sample_leave s \<noteq> None \<and> map groupAddress (mcGroupList s) = [0xE2010203, 0xE1010203]
    \<and> map hostPortId (mcGroupList s) = [1, 1] \<and> map mcVlan (mcGroupList s) = [0, 0] \<and> map (map h_srcIp \<circ> hostList) (mcGroupList s) = [[6], [5]]
    \<and> leaveMode (mcb s) = MC_LEAVE_MODE_FAST \<and> ctcControlType (mcb s) = MC_CTL_GDA_GDA_IP_VID \<and> desc_gid sample_leave = (1, 0xE1010203)
    \<and> srcIp sample_leave = 5 \<and> leave_valid sample_leave"
  have "case run_events (mc_step sample_env) [report_of 1 0xE1010203 5, report_of 1 0xE2010203 6] (sample_mc MC_LEAVE_MODE_FAST) of
      None \<Rightarrow> False | Some s \<Rightarrow> ?P s" by code_simp
  then obtain s where s: "run_events (mc_step sample_env) [report_of 1 0xE1010203 5, report_of 1 0xE2010203 6] (sample_mc MC_LEAVE_MODE_FAST) = Some s"
      "snoop_inv s" "?P s" by (rule sample_run)
  then obtain y x h ret d' s' where g: "mcGroupList s = [y, x]" "hostList x = [h]" "h_srcIp h = 5"
      "mcSnoopingLeaveAction sample_env sample_leave s = Some (ret, d', s')"
    by (auto simp: map_eq_Cons_conv)
  have a: "groupAddress y = 0xE2010203" "groupAddress x = 0xE1010203" using s(3) g(1) by simp_all
  then have "y \<noteq> x" by auto
  moreover have "groupAddress y AND 0x7fffff = groupAddress x AND 0x7fffff" using a by simp
  ultimately have "y \<in> set (mcGroupList s') \<and> (\<exists>cs. mc_calls s' =
      mc_calls s @ DalArlMultiPortMacDel (hostPortId y) (clMcMacGetByMcIp (groupAddress y)) (mcVlan y) # cs)"
    using s(3) g by (intro leave_stops_aliased_group [OF s(2), of sample_leave x h y sample_env ret d']) (simp_all add: gid_def)
  then show ?thesis using s g a by (auto simp del: run_events.simps)
qed

end
