(* ===== verification/Mc_Vlans.thy ===== *)
theory Mc_Vlans
  imports Mc_Manage Mc_Members
begin

unbundle bit_operations_syntax

text \<open>
  The multicast VLANs of a port, kept in a table of bits and, as a text of numbers and commas, in the
  configuration file: adding, deleting, and restoring them at the start.
\<close>

subsection \<open>Texts between commas\<close>

lemma take_before:
  assumes "x \<notin> set pat"
  shows "take (length pat) (as @ x # bs) = pat \<longleftrightarrow> take (length pat) as = pat"
proof (cases "length pat \<le> length as")
  case False
  then have "x \<in> set (take (length pat) (as @ x # bs))" by (cases "length pat - length as") (auto simp: take_Cons')
  then have "take (length pat) (as @ x # bs) \<noteq> pat" using assms by metis
  moreover have "take (length pat) as \<noteq> pat" using False by (auto dest: arg_cong [where f = length])
  ultimately show ?thesis by blast
qed simp

lemma strstr_self [simp]: "strstr pat (pat @ bs) = Some 0"
proof (cases "pat @ bs")
  case (Cons c cs)
  then have "take (length pat) (c # cs) = pat" by (metis append_eq_conv_conj)
  then show ?thesis unfolding Cons by simp
qed simp

lemma strstr_sep:
  assumes "x \<notin> set pat" "pat \<noteq> []"
  shows "strstr pat (as @ x # bs) =
    (case strstr pat as of Some p \<Rightarrow> Some p | None \<Rightarrow> map_option (\<lambda>p. Suc (length as) + p) (strstr pat bs))"
proof (induction as)
  case Nil
  have "take (length pat) (x # bs) \<noteq> pat" using assms by (cases pat) auto
  then show ?case using assms(2) by (cases "strstr pat bs") simp_all
next
  case (Cons c as)
  then show ?case using take_before [OF assms(1), of "c # as" bs]
    by (cases "strstr pat bs") (auto simp: option.map_comp comp_def split: option.split)
qed

lemma strstr_char: "x \<notin> set as \<Longrightarrow> strstr [x] (as @ x # bs) = Some (length as)" "x \<notin> set as \<Longrightarrow> strstr [x] as = None"
  by (induction as) auto

subsection \<open>Lists of VLANs as text\<close>

fun vlan_list :: "u32 list \<Rightarrow> string" where
  "vlan_list [] = []"
| "vlan_list [v] = num_text v"
| "vlan_list (v # w # vs) = num_text v @ '','' @ vlan_list (w # vs)"

lemma vlan_list_append: "as \<noteq> [] \<Longrightarrow> bs \<noteq> [] \<Longrightarrow> vlan_list (as @ bs) = vlan_list as @ '','' @ vlan_list bs"
  by (induction as rule: vlan_list.induct) (auto simp: neq_Nil_conv)

lemma vlan_list_Cons: "vs \<noteq> [] \<Longrightarrow> vlan_list (v # vs) = num_text v @ '','' @ vlan_list vs"
  by (cases vs) simp_all

lemma num_text_digits: "CHR '','' \<notin> set (num_text v)" "num_text v \<noteq> []"
proof -
  have "\<forall>c\<in>set (num_text v). digit_val c < 10" using dec_digits_facts [of "unat v"] by (simp add: num_text_def list_all_iff)
  moreover have "\<not> digit_val (CHR '','') < 10" by code_simp
  ultimately show "CHR '','' \<notin> set (num_text v)" by blast
  show "num_text v \<noteq> []" using dec_digits_facts [of "unat v"] by (simp add: num_text_def)
qed

text \<open>The digits of a VLAN occur in the number of another one.\<close>

definition hidden_in :: "u32 \<Rightarrow> u32 \<Rightarrow> bool" where
  "hidden_in v w \<longleftrightarrow> strstr (num_text v) (num_text w) \<noteq> None"

lemma hidden_refl [simp]: "hidden_in v v"
  using strstr_self [of "num_text v" "[]"] by (simp add: hidden_in_def)

lemma strstr_vlan_list: "strstr (num_text v) (vlan_list vs) = None \<longleftrightarrow> (\<forall>w\<in>set vs. \<not> hidden_in v w)"
proof (induction vs)
  case Nil
  then show ?case using num_text_digits(2) by simp
next
  case (Cons w vs)
  show ?case
  proof (cases "vs = []")
    case True
    then show ?thesis by (simp add: hidden_in_def)
  next
    case False
    then show ?thesis using Cons strstr_sep [OF num_text_digits] by (auto simp: vlan_list_Cons hidden_in_def split: option.split)
  qed
qed

lemma vlan_text_add_list:
  assumes "vs \<noteq> []"
  shows "vlan_text_add (num_text v) (Some (vlan_list vs)) = (if \<exists>w\<in>set vs. hidden_in v w then None else Some (vlan_list (vs @ [v])))"
  using assms strstr_vlan_list [of v vs] by (auto simp: vlan_text_add_def vlan_list_append)

lemma vlan_text_del_list:
  assumes "\<forall>a\<in>set as. \<not> hidden_in v a"
  shows "vlan_text_del (num_text v) (vlan_list (as @ v # bs)) = (if as @ bs = [] then Delete_key else New_text (vlan_list (as @ bs)))"
proof -
  define pre where "pre = (if as = [] then [] else vlan_list as @ '','')"
  have eq: "vlan_list (as @ v # bs) = pre @ vlan_list (v # bs)" by (simp add: pre_def vlan_list_append)
  have s: "strstr (num_text v) (vlan_list (v # bs)) = Some 0"
    using strstr_self [of "num_text v" "[]"] by (cases "bs = []") (simp_all add: vlan_list_Cons)
  have p: "strstr (num_text v) (vlan_list (as @ v # bs)) = Some (length pre)"
    using assms s strstr_sep [OF num_text_digits, of v "vlan_list as"] strstr_vlan_list [of v as] by (simp add: eq pre_def)
  show ?thesis
  proof (cases "bs = []")
    case True
    then show ?thesis using p strstr_char(2) [OF num_text_digits(1)] eq by (auto simp: vlan_text_del_def pre_def)
  next
    case False
    have q: "strstr '','' (num_text v @ CHR '','' # vlan_list bs) = Some (length (num_text v))" by (rule strstr_char) (rule num_text_digits)
    have "vlan_list (as @ bs) = pre @ vlan_list bs" using False by (simp add: pre_def vlan_list_append)
    then show ?thesis using False p q eq by (simp add: vlan_text_del_def vlan_list_Cons)
  qed
qed

lemma comma_tokens_plain: "CHR '','' \<notin> set t \<Longrightarrow> comma_tokens acc (t @ r) = comma_tokens (acc @ t) r"
  by (induction t arbitrary: acc) auto

lemma tokens_vlan_list: "comma_tokens [] (vlan_list vs) = map num_text vs"
proof (induction vs)
  case (Cons v vs)
  note t = comma_tokens_plain [OF num_text_digits(1), of "[]" v]
  then show ?case using Cons num_text_digits(2) [of v] t [of "[]"] by (cases "vs = []") (simp_all add: vlan_list_Cons)
qed simp

lemma atol10_num_text:
  assumes "v \<le> 4095"
  shows "atol10 (num_text v) = v"
proof -
  note f = dec_digits_facts [of "unat v"]
  obtain c cs where c: "num_text v = c # cs" using num_text_digits(2) by (meson neq_Nil_conv)
  then have pl: "\<not> isspace c" "c \<noteq> CHR ''-''" "c \<noteq> CHR ''+''" using f digit_plain [of c] by (auto simp: num_text_def)
  have "takeWhile (is_digit 10) (c # cs) = c # cs"
    using f by (simp only: c [symmetric] takeWhile_eq_all_conv) (simp add: num_text_def is_digit_def list_all_iff)
  moreover have "num_val 10 (c # cs) = unat v" using f c by (simp add: num_text_def)
  moreover have "uint v \<le> 4095" using assms by (simp add: word_le_def)
  ultimately show ?thesis using pl by (simp add: atol10_def c signed_def min_absorb1)
qed

lemma num_text_inj: "num_text v = num_text w \<Longrightarrow> v = w"
  using dec_digits_facts [of "unat v"] dec_digits_facts [of "unat w"] by (metis num_text_def word_unat_eq_iff)

subsection \<open>The table of bits\<close>

lemma exist_bit: "unat p < 32 \<Longrightarrow> mcVlanMapExist p v s \<longleftrightarrow> bit (mcVlanMap s v) (unat p)"
  using and_exp_eq_0_iff_not_bit [of "mcVlanMap s v" "unat p"] by (simp add: mcVlanMapExist_def push_bit_eq_mult)

lemma valid_port: "IS_VALID_PORT_ID p \<Longrightarrow> unat p < 32"
  by (simp add: IS_VALID_PORT_ID_def ODM_START_PORT_NUN_def ODM_NUM_OF_PORTS_def word_le_nat_alt)

lemma exist_add:
  assumes "IS_VALID_PORT_ID p" "IS_VALID_PORT_ID q"
  shows "mcVlanMapExist q w (mcVlanMapAdd p v s) \<longleftrightarrow> (q, w) = (p, v) \<or> mcVlanMapExist q w s"
  using assms [THEN valid_port] by (auto simp: exist_bit mcVlanMapAdd_def bit_simps word_unat_eq_iff [symmetric])

lemma exist_del:
  assumes "IS_VALID_PORT_ID p" "IS_VALID_PORT_ID q"
  shows "mcVlanMapExist q w (mcVlanMapDel p v s) \<longleftrightarrow> (q, w) \<noteq> (p, v) \<and> mcVlanMapExist q w s"
  using assms [THEN valid_port] by (auto simp: exist_bit mcVlanMapDel_def bit_simps word_unat_eq_iff [symmetric])

lemma vlan_frame:
  "mcVlanMapExist q w (dalMcVlanMapAdd p v s) = mcVlanMapExist q w s" "mcVlanMapExist q w (dalMcVlanMapDel p v s) = mcVlanMapExist q w s"
  "mc_cfg (dalMcVlanMapAdd p v s) = mc_cfg s" "mc_cfg (dalMcVlanMapDel p v s) = mc_cfg s"
  "mc_cfg (mcVlanMapAdd p v s) = mc_cfg s" "mc_cfg (mcVlanMapDel p v s) = mc_cfg s"
  by (simp_all add: dalMcVlanMapAdd_def dalMcVlanMapDel_def mc_log_def mcVlanMapExist_def Let_def mcVlanMapAdd_def mcVlanMapDel_def)

subsection \<open>The stored list\<close>

definition vlan_loc :: "u32 \<Rightarrow> string \<times> string \<times> string" where
  "vlan_loc p = (CFGFILE_MULTICAST, port_section p, CFGKEY_MULTICAST_IGMP_PORT_MULTICAST_VLAN)"

lemma stored_get: "stored_vlans p s = config_get (vlan_loc p) (mc_cfg s)"
  by (simp add: stored_vlans_def config_get_def vlan_loc_def)

lemma vlan_loc_inj: "vlan_loc p = vlan_loc q \<longleftrightarrow> p = q"
  by (auto simp: vlan_loc_def port_section_def dest: num_text_inj)

text \<open>The database is there and has room for the list of a port.\<close>

definition vlan_room :: "u32 \<Rightarrow> mc_sys \<Rightarrow> bool" where
  "vlan_room p s \<longleftrightarrow> mc_cfg s \<noteq> None \<and> config_ok (mc_cfg s) \<and> roomy (mc_cfg s) CFGFILE_MULTICAST (port_section p)"

lemma put_list:
  assumes "vlan_room p s"
  shows "\<exists>db. mc_put (port_section p) CFGKEY_MULTICAST_IGMP_PORT_MULTICAST_VLAN lst s = Some (s\<lparr> mc_cfg := db \<rparr>)
    \<and> (\<forall>q. config_get (vlan_loc q) db = (if q = p then Some lst else config_get (vlan_loc q) (mc_cfg s)))"
proof -
  obtain db where db: "config_put (vlan_loc p) lst (mc_cfg s) = Some db"
    "\<forall>l. config_get l db = (if l = vlan_loc p then Some lst else config_get l (mc_cfg s))"
    using store.put [of "mc_cfg s" "vlan_loc p" lst] assms by (auto simp: vlan_room_def vlan_loc_def)
  have "mc_put (port_section p) CFGKEY_MULTICAST_IGMP_PORT_MULTICAST_VLAN lst s = Some (s\<lparr> mc_cfg := db \<rparr>)"
    using db(1) by (auto simp: config_put_def mc_put_def vlan_loc_def split: option.splits if_splits)
  then show ?thesis by (intro exI [of _ db]) (simp add: spec [OF db(2)] vlan_loc_inj)
qed

lemma key_delete:
  assumes "config_ok db"
  shows "config_get l (snd (vosConfigKeyDelete f sec k db)) = (if l = (f, sec, k) then None else config_get l db)"
proof (cases "tsection_of db f sec")
  case None
  then show ?thesis by (cases l) (auto simp: vosConfigKeyDelete_def config_get_def vosConfigValueGet_def tkey_of_def)
next
  case (Some x)
  then obtain t m where t: "db = Some t" "hash_map t f = Some m" "hash_map (sections m) sec = Some x"
    by (auto simp: tsection_map tmodule_of_def hash_map_def [symmetric] split: option.splits)
  then have ok: "hash_ok t" "hash_ok (sections m)" "hash_ok (keys x)" using assms by (auto simp: config_ok_def module_ok_def)
  let ?x = "x\<lparr> keys := vosHashRemove k (keys x) \<rparr>"
  let ?g = "\<lambda>m. m\<lparr> sections := hash_change sec (\<lambda>s. s\<lparr> keys := vosHashRemove k (keys s) \<rparr>) (sections m) \<rparr>"
  have db: "snd (vosConfigKeyDelete f sec k db) = Some (hash_change f ?g t)" using Some t(1) by (simp add: vosConfigKeyDelete_def)
  have md: "tmodule_of db f = Some m" using t by (simp add: tmodule_of_def hash_map_def [symmetric])
  have mod: "tmodule_of (Some (hash_change f ?g t)) f' = (if f' = f then Some (?g m) else tmodule_of db f')" for f'
    using change_ok(2) [OF ok(1), of f ?g] t by (simp add: tmodule_of_def hash_map_def [symmetric])
  have sec: "tsection_of (Some (hash_change f ?g t)) f' s' = (if (f', s') = (f, sec) then Some ?x else tsection_of db f' s')" for f' s'
    using change_ok(2) [OF ok(2), of sec] t md by (auto simp: tsection_map mod)
  have "map_option key_data (tkey_of (Some (hash_change f ?g t)) f' s' k') = (if (f', s', k') = (f, sec, k) then None else map_option key_data (tkey_of db f' s' k'))" for f' s' k'
    using remove_ok(2) [OF ok(3), of k] Some by (auto simp: tkey_map sec)
  then show ?thesis by (cases l) (simp add: db config_get_def vosConfigValueGet_def option.case_eq_if map_option_case split: option.splits)
qed

subsection \<open>Table and list agree\<close>

text \<open>
  The list of a port is stored, and the table has exactly its VLANs. No number contains the digits of a later
  one, as adding refuses such a VLAN.
\<close>

definition vlans_kept :: "u32 \<Rightarrow> u32 list \<Rightarrow> mc_sys \<Rightarrow> bool" where
  "vlans_kept p vs s \<longleftrightarrow> stored_vlans p s = (if vs = [] then None else Some (vlan_list vs)) \<and> (\<forall>v\<in>set vs. 1 \<le> v \<and> v \<le> 4095)
     \<and> sorted_wrt (\<lambda>a b. \<not> hidden_in b a) vs \<and> (\<forall>v. 1 \<le> v \<and> v \<le> 4095 \<longrightarrow> mcVlanMapExist p v s = (v \<in> set vs))"

definition others_kept :: "u32 \<Rightarrow> mc_sys \<Rightarrow> mc_sys \<Rightarrow> bool" where
  "others_kept p s s' \<longleftrightarrow> (\<forall>q ws. q \<noteq> p \<and> IS_VALID_PORT_ID q \<and> vlans_kept q ws s \<longrightarrow> vlans_kept q ws s')"

lemma vlan_added:
  assumes "vlan_room p s" "vlans_kept p vs s" "IS_VALID_PORT_ID p" "1 \<le> v" "v \<le> 4095" "v \<notin> set vs" "\<forall>w\<in>set vs. \<not> hidden_in v w"
    "length (vlan_list (vs @ [v])) < BIG_BUF_LEN"
  shows "\<exists>s'. odmMcVlanMapAdd p v s = Some (OPL_OK, s') \<and> vlans_kept p (vs @ [v]) s' \<and> others_kept p s s'"
proof -
  let ?s = "dalMcVlanMapAdd p v s"
  have "vlan_room p ?s" using assms(1) by (simp add: vlan_room_def vlan_frame)
  from put_list [OF this] obtain db where db:
    "mc_put (port_section p) CFGKEY_MULTICAST_IGMP_PORT_MULTICAST_VLAN (vlan_list (vs @ [v])) ?s = Some (?s\<lparr> mc_cfg := db \<rparr>)"
    "\<forall>q. config_get (vlan_loc q) db = (if q = p then Some (vlan_list (vs @ [v])) else config_get (vlan_loc q) (mc_cfg ?s))" by blast
  have k: "stored_vlans p s = (if vs = [] then None else Some (vlan_list vs))" "\<not> mcVlanMapExist p v s"
    using assms by (auto simp: vlans_kept_def)
  have st: "stored_vlans p ?s = stored_vlans p s" by (simp add: stored_get vlan_frame)
  have "vlan_text_add (num_text v) (stored_vlans p ?s) = Some (vlan_list (vs @ [v]))"
    using vlan_text_add_list [of vs v] assms(7) by (auto simp: st k(1)) (simp add: vlan_text_add_def)
  then have r: "odmMcVlanMapAdd p v s = Some (OPL_OK, mcVlanMapAdd p v (?s\<lparr> mc_cfg := db \<rparr>))"
    using k(2) db(1) assms(8) by (simp add: odmMcVlanMapAdd_def done_ok_def)
  have ex: "mcVlanMapExist q w (mcVlanMapAdd p v (?s\<lparr> mc_cfg := db \<rparr>)) \<longleftrightarrow> (q, w) = (p, v) \<or> mcVlanMapExist q w s" if "IS_VALID_PORT_ID q" for q w
    using exist_add [OF assms(3) that, of w v "?s\<lparr> mc_cfg := db \<rparr>"] vlan_frame(1) [of q w p v s] by (simp add: mcVlanMapExist_def)
  have gt: "stored_vlans q (mcVlanMapAdd p v (?s\<lparr> mc_cfg := db \<rparr>)) = (if q = p then Some (vlan_list (vs @ [v])) else stored_vlans q s)" for q
    using db(2) by (simp add: stored_get vlan_frame)
  show ?thesis using r assms(2,4,5,7) ex [OF assms(3)] ex gt by (auto simp: vlans_kept_def others_kept_def sorted_wrt_append)
qed

lemma vlan_refused:
  assumes "vlans_kept p vs s" "1 \<le> v" "v \<le> 4095" "v \<notin> set vs" "w \<in> set vs" "hidden_in v w"
  shows "odmMcVlanMapAdd p v s = Some (OPL_EXIST, dalMcVlanMapAdd p v s)"
proof -
  have k: "stored_vlans p s = Some (vlan_list vs)" "\<not> mcVlanMapExist p v s" "vs \<noteq> []"
    using assms by (auto simp: vlans_kept_def)
  have "stored_vlans p (dalMcVlanMapAdd p v s) = stored_vlans p s" by (simp add: stored_get vlan_frame)
  then show ?thesis using k vlan_text_add_list [OF k(3), of v] assms(5,6) by (auto simp: odmMcVlanMapAdd_def)
qed

lemma kept_frame:
  assumes "mc_cfg s' = mc_cfg s" "\<And>q w. mcVlanMapExist q w s' = mcVlanMapExist q w s"
  shows "vlans_kept q ws s' = vlans_kept q ws s"
  using assms by (simp add: vlans_kept_def stored_get)

lemma vlan_deleted:
  assumes "vlan_room p s" "vlans_kept p vs s" "IS_VALID_PORT_ID p" "v \<in> set vs" "length (vlan_list vs) < BIG_BUF_LEN"
  shows "\<exists>s'. odmMcVlanMapDel p v s = Some (OPL_OK, s') \<and> vlans_kept p (removeAll v vs) s' \<and> others_kept p s s'"
proof -
  obtain as bs where vs: "vs = as @ v # bs" using assms(4) by (meson split_list)
  have sw: "\<forall>a\<in>set as. \<not> hidden_in v a" "\<forall>b\<in>set bs. \<not> hidden_in b v" "sorted_wrt (\<lambda>a b. \<not> hidden_in b a) (as @ bs)"
    using assms(2) by (auto simp: vlans_kept_def vs sorted_wrt_append)
  then have nin: "v \<notin> set as" "v \<notin> set bs" by auto
  then have rem: "removeAll v vs = as @ bs" by (simp add: vs)
  let ?s = "dalMcVlanMapDel p v (mcVlanMapDel p v s)"
  have room: "vlan_room p ?s" using assms(1) by (simp add: vlan_room_def vlan_frame)
  have ex: "mcVlanMapExist q w ?s \<longleftrightarrow> (q, w) \<noteq> (p, v) \<and> mcVlanMapExist q w s" if "IS_VALID_PORT_ID q" for q w
    using exist_del [OF assms(3) that] by (simp add: vlan_frame)
  have st: "stored_vlans p ?s = Some (vlan_list vs)" using assms(2) by (auto simp: vlans_kept_def vs stored_get vlan_frame)
  have del: "vlan_text_del (num_text v) (vlan_list vs) = (if as @ bs = [] then Delete_key else New_text (vlan_list (as @ bs)))"
    using vlan_text_del_list [OF sw(1), of bs] by (simp add: vs)
  obtain s' where s': "odmMcVlanMapDel p v s = Some (OPL_OK, s')" "\<And>q w. mcVlanMapExist q w s' = mcVlanMapExist q w ?s"
    "\<And>q. stored_vlans q s' = (if q = p then (if as @ bs = [] then None else Some (vlan_list (as @ bs))) else stored_vlans q s)"
  proof (cases "as @ bs = []")
    case True
    let ?t = "mc_del_key (port_section p) CFGKEY_MULTICAST_IGMP_PORT_MULTICAST_VLAN ?s"
    have "odmMcVlanMapDel p v s = Some (OPL_OK, ?t)" using st del True assms(5) by (simp add: odmMcVlanMapDel_def)
    moreover have "stored_vlans q ?t = (if q = p then None else stored_vlans q s)" for q
      using key_delete [of "mc_cfg ?s" "vlan_loc q" CFGFILE_MULTICAST "port_section p"] room vlan_loc_inj [of q p]
      by (simp add: stored_get mc_del_key_def vlan_room_def vlan_loc_def vlan_frame)
    ultimately show thesis using that [of ?t] True by (simp add: mc_del_key_def mcVlanMapExist_def)
  next
    case False
    obtain db where db: "mc_put (port_section p) CFGKEY_MULTICAST_IGMP_PORT_MULTICAST_VLAN (vlan_list (as @ bs)) ?s = Some (?s\<lparr> mc_cfg := db \<rparr>)"
      "\<forall>q. config_get (vlan_loc q) db = (if q = p then Some (vlan_list (as @ bs)) else config_get (vlan_loc q) (mc_cfg ?s))"
      using put_list [OF room] by blast
    have "odmMcVlanMapDel p v s = Some (OPL_OK, ?s\<lparr> mc_cfg := db \<rparr>)" using st del False assms(5) db(1) by (auto simp: odmMcVlanMapDel_def done_ok_def)
    moreover have "stored_vlans q (?s\<lparr> mc_cfg := db \<rparr>) = (if q = p then Some (vlan_list (as @ bs)) else stored_vlans q s)" for q
      using db(2) by (simp add: stored_get vlan_frame)
    ultimately show thesis using that [of "?s\<lparr> mc_cfg := db \<rparr>"] False by (auto simp: mcVlanMapExist_def)
  qed
  show ?thesis
    using s' ex [OF assms(3)] ex assms(2) sw(3) nin by (auto simp: rem vlans_kept_def others_kept_def vs)
qed

subsection \<open>The start\<close>

lemma start_list:
  assumes "IS_VALID_PORT_ID p" "\<forall>v\<in>set vs. 1 \<le> v \<and> v \<le> 4095"
  shows "\<exists>s'. each_ignoring (start_vlan p) (map num_text vs) s = Some s' \<and> mc_cfg s' = mc_cfg s
    \<and> (\<forall>q w. IS_VALID_PORT_ID q \<longrightarrow> mcVlanMapExist q w s' = (q = p \<and> w \<in> set vs \<or> mcVlanMapExist q w s))"
  using assms(2)
proof (induction vs arbitrary: s)
  case (Cons v vs)
  let ?s = "mcVlanMapAdd p v (dalMcVlanMapAdd p v s)"
  obtain s' where s': "each_ignoring (start_vlan p) (map num_text vs) ?s = Some s'" "mc_cfg s' = mc_cfg ?s"
    "\<forall>q w. IS_VALID_PORT_ID q \<longrightarrow> mcVlanMapExist q w s' = (q = p \<and> w \<in> set vs \<or> mcVlanMapExist q w ?s)" using Cons by fastforce
  have "v \<noteq> 0" using Cons.prems by auto
  then have "start_vlan p (num_text v) s = Some (OPL_OK, ?s)"
    using Cons.prems atol10_num_text [of v] by (simp add: start_vlan_def IS_VALID_VLAN_ID_def)
  then show ?case using s' exist_add [OF assms(1)] by (auto simp: vlan_frame)
qed simp

subsection \<open>Examples\<close>

text \<open>A unit without multicast VLANs and with an empty database.\<close>

definition plain_mc :: mc_sys where
  "plain_mc = (sample_mc MC_LEAVE_MODE_FAST)\<lparr> mcVlanMap := (\<lambda>_. 0), mc_cfg := Some string_table \<rparr>"

lemma plain_vlans_kept: "IS_VALID_PORT_ID p \<Longrightarrow> vlans_kept p [] plain_mc" "IS_VALID_PORT_ID p \<Longrightarrow> vlan_room p plain_mc"
proof -
  have h: "vosHashValue k (string_table :: (string, CFG_MODULE_DATA_t) hash_table) = None" for k
    using fun_cong [OF string_table_ok(2) [where 'a = CFG_MODULE_DATA_t], of k] by (simp add: hash_map_def)
  show "vlan_room p plain_mc"
    by (simp add: vlan_room_def plain_mc_def config_ok_def string_table_ok roomy_def tmodule_of_def tsection_of_def h HASH_CAPACITY_def threshold_of_def)
  show "vlans_kept p [] plain_mc"
    by (simp add: vlans_kept_def stored_vlans_def vosConfigValueGet_def tkey_of_def tsection_of_def tmodule_of_def h plain_mc_def mcVlanMapExist_def)
qed

lemma port_1: "IS_VALID_PORT_ID 1"
  by (simp add: IS_VALID_PORT_ID_def ODM_START_PORT_NUN_def ODM_NUM_OF_PORTS_def)

lemma hundred: "num_text 100 = ''100''" "num_text 10 = ''10''" "length ''100'' < BIG_BUF_LEN"
  by code_simp+

lemma with_100: "\<exists>s. vlans_kept 1 [100] s"
  using vlan_added [OF plain_vlans_kept(2) plain_vlans_kept(1), OF port_1 port_1 port_1, of 100] hundred by auto

subsection \<open>Properties\<close>

text \<open>C14: As long as the text of the list fits into the buffer and the database has room, the table of multicast
  VLANs of a port and the list in the configuration file agree after every call: adding a VLAN (1 to 4095) appends it to
  both, unless it is there already or its digits occur in the number of a VLAN that is there, when both stay;
  deleting it removes it from both. The calls answer success, and the VLANs of other ports stay.\<close>

theorem vlan_table_and_file_agree:
  assumes "vlan_room p s" "vlans_kept p vs s" "IS_VALID_PORT_ID p" "1 \<le> v" "v \<le> 4095" "length (vlan_list (vs @ [v])) < BIG_BUF_LEN"
  shows "(\<exists>s'. odmMulticastVlanAdd p v s = Some (OPL_OK, s') \<and> others_kept p s s'
      \<and> vlans_kept p (if \<exists>w\<in>set vs. hidden_in v w then vs else vs @ [v]) s')
    \<and> (\<exists>s'. odmMulticastVlanDelete p v s = Some (OPL_OK, s') \<and> others_kept p s s' \<and> vlans_kept p (removeAll v vs) s')"
proof -
  have p: "p \<noteq> 255" using assms(3) by (auto simp: IS_VALID_PORT_ID_def ODM_NUM_OF_PORTS_def)
  have v: "IS_VALID_VLAN_ID v" using assms(5) by (simp add: IS_VALID_VLAN_ID_def)
  have len: "length (vlan_list vs) < BIG_BUF_LEN" using assms(6) by (cases "vs = []") (simp_all add: vlan_list_append)
  have ex: "mcVlanMapExist p v s \<longleftrightarrow> v \<in> set vs" using assms(2,4,5) by (simp add: vlans_kept_def)
  have add: "odmMulticastVlanAdd p v s = (case odmMcVlanMapAdd p v s of None \<Rightarrow> None | Some (_, s') \<Rightarrow> Some (OPL_OK, s'))"
    using assms(3) p v by (simp add: odmMulticastVlanAdd_def ports_of_def done_ok_def split: option.split)
  have "\<exists>r s'. odmMcVlanMapAdd p v s = Some (r, s') \<and> others_kept p s s'
      \<and> vlans_kept p (if \<exists>w\<in>set vs. hidden_in v w then vs else vs @ [v]) s'"
  proof (cases "\<exists>w\<in>set vs. hidden_in v w")
    case False
    then have "v \<notin> set vs" by auto
    then show ?thesis using vlan_added [OF assms(1-5) _ _ assms(6)] False by auto
  next
    case True
    then obtain w where w: "w \<in> set vs" "hidden_in v w" by blast
    show ?thesis
    proof (cases "v \<in> set vs")
      case False
      let ?s = "dalMcVlanMapAdd p v s"
      have fr: "vlans_kept q ws ?s = vlans_kept q ws s" for q ws by (rule kept_frame) (simp_all add: vlan_frame)
      then show ?thesis using vlan_refused [OF assms(2,4,5) False w] True assms(2) by (auto simp: others_kept_def)
    qed (use True ex assms(2) in \<open>auto simp: odmMcVlanMapAdd_def others_kept_def\<close>)
  qed
  moreover have "\<exists>s'. odmMulticastVlanDelete p v s = Some (OPL_OK, s') \<and> others_kept p s s' \<and> vlans_kept p (removeAll v vs) s'"
  proof (cases "v \<in> set vs")
    case True
    then have "odmMulticastVlanDelete p v s = odmMcVlanMapDel p v s" using assms(3) p v ex by (simp add: odmMulticastVlanDelete_def)
    then show ?thesis using vlan_deleted [OF assms(1-3) True len] by auto
  next
    case False
    then show ?thesis using assms(2,3) p v ex by (auto simp: odmMulticastVlanDelete_def others_kept_def removeAll_id)
  qed
  ultimately show ?thesis unfolding add by fastforce
qed

theorem vlan_table_and_file_agree_witness:
  "\<exists>s'. odmMulticastVlanAdd 1 100 plain_mc = Some (OPL_OK, s') \<and> vlans_kept 1 [100] s' \<and> stored_vlans 1 s' = Some ''100''"
proof -
  obtain s' where "odmMulticastVlanAdd 1 100 plain_mc = Some (OPL_OK, s')" "vlans_kept 1 [100] s'"
    using vlan_table_and_file_agree [OF plain_vlans_kept(2) plain_vlans_kept(1), OF port_1 port_1 port_1, of 100] hundred by auto
  then show ?thesis using hundred by (auto simp: vlans_kept_def)
qed

text \<open>C15: The multicast VLANs of a port survive a restart: from the list in the configuration file the start rebuilds
  exactly the table that was there when the list was stored, and no other port is touched.\<close>

theorem vlans_restored_at_start:
  assumes "vlans_kept p vs s" "IS_VALID_PORT_ID p" "length (vlan_list vs) < BIG_BUF_LEN"
    "mc_cfg t = mc_cfg s" "\<forall>v. \<not> mcVlanMapExist p v t"
  shows "\<exists>t'. start_vlans p t = Some t' \<and> vlans_kept p vs t'
    \<and> (\<forall>v. 1 \<le> v \<and> v \<le> 4095 \<longrightarrow> mcVlanMapExist p v t' = mcVlanMapExist p v s)
    \<and> (\<forall>q v. q \<noteq> p \<and> IS_VALID_PORT_ID q \<longrightarrow> mcVlanMapExist q v t' = mcVlanMapExist q v t)"
proof -
  have k: "stored_vlans p t = (if vs = [] then None else Some (vlan_list vs))" "\<forall>v\<in>set vs. 1 \<le> v \<and> v \<le> 4095"
    using assms(1,4) by (simp_all add: vlans_kept_def stored_get)
  obtain t' where t': "each_ignoring (start_vlan p) (map num_text vs) t = Some t'" "mc_cfg t' = mc_cfg t"
    "\<forall>q w. IS_VALID_PORT_ID q \<longrightarrow> mcVlanMapExist q w t' = (q = p \<and> w \<in> set vs \<or> mcVlanMapExist q w t)"
    using start_list [OF assms(2) k(2)] by blast
  have "start_vlans p t = Some t'" using k(1) t'(1) assms(3) by (auto simp: start_vlans_def tokens_vlan_list)
  moreover have "vlans_kept p vs t'" using t'(2,3) assms by (simp add: vlans_kept_def stored_get)
  ultimately show ?thesis using t'(3) assms(1,2,5) by (auto simp: vlans_kept_def)
qed

theorem vlans_restored_at_start_witness:
  "\<exists>s t'. vlans_kept 1 [100] s \<and> start_vlans 1 (plain_mc\<lparr> mc_cfg := mc_cfg s \<rparr>) = Some t' \<and> mcVlanMapExist 1 100 t'"
proof -
  obtain s where s: "vlans_kept 1 [100] s" using with_100 by blast
  let ?t = "plain_mc\<lparr> mc_cfg := mc_cfg s \<rparr>"
  have "\<forall>v. \<not> mcVlanMapExist 1 v ?t" by (simp add: mcVlanMapExist_def plain_mc_def)
  then obtain t' where "start_vlans 1 ?t = Some t'" "vlans_kept 1 [100] t'"
    using vlans_restored_at_start [OF s port_1, of ?t] hundred by auto
  then show ?thesis using s by (auto simp: vlans_kept_def)
qed

text \<open>C33: A VLAN whose digits occur in the number of a multicast VLAN of the port cannot be added. The call answers
  success and the switch is programmed with the VLAN, but neither the table nor the configuration file has it; deleting
  it afterwards answers success and leaves the switch as it is.\<close>

theorem contained_vlan_lost:
  assumes "vlans_kept p vs s" "IS_VALID_PORT_ID p" "1 \<le> v" "v \<le> 4095" "v \<notin> set vs" "w \<in> set vs" "hidden_in v w"
  shows "\<exists>s'. odmMulticastVlanAdd p v s = Some (OPL_OK, s') \<and> odmMcVlanMapAdd p v s = Some (OPL_EXIST, s')
    \<and> (\<exists>cs. mc_calls s' = mc_calls s @ DalMulticastVlanCreate v # DalMulticastVlanAddPort p v # cs)
    \<and> \<not> mcVlanMapExist p v s' \<and> mc_cfg s' = mc_cfg s \<and> odmMulticastVlanDelete p v s' = Some (OPL_OK, s')"
proof -
  let ?s = "dalMcVlanMapAdd p v s"
  have p: "p \<noteq> 255" using assms(2) by (auto simp: IS_VALID_PORT_ID_def ODM_NUM_OF_PORTS_def)
  have v: "IS_VALID_VLAN_ID v" using assms(4) by (simp add: IS_VALID_VLAN_ID_def)
  have r: "odmMcVlanMapAdd p v s = Some (OPL_EXIST, ?s)" by (rule vlan_refused [OF assms(1,3-7)])
  then have "odmMulticastVlanAdd p v s = Some (OPL_OK, ?s)" using assms(2) p v by (simp add: odmMulticastVlanAdd_def ports_of_def done_ok_def)
  moreover have "\<exists>cs. mc_calls ?s = mc_calls s @ DalMulticastVlanCreate v # DalMulticastVlanAddPort p v # cs"
    by (simp add: dalMcVlanMapAdd_def mc_log_def Let_def)
  moreover have "\<not> mcVlanMapExist p v ?s" using assms(1,3-5) by (simp add: vlan_frame vlans_kept_def)
  ultimately show ?thesis using r assms(2) p v by (auto simp: vlan_frame odmMulticastVlanDelete_def)
qed

theorem contained_vlan_lost_witness:
  "\<exists>s s'. vlans_kept 1 [100] s \<and> odmMulticastVlanAdd 1 10 s = Some (OPL_OK, s') \<and> odmMcVlanMapAdd 1 10 s = Some (OPL_EXIST, s')
    \<and> \<not> mcVlanMapExist 1 10 s'"
proof -
  obtain s where s: "vlans_kept 1 [100] s" using with_100 by blast
  have "hidden_in 10 100" by (simp add: hidden_in_def hundred)
  then show ?thesis using contained_vlan_lost [OF s port_1, of 10 100] s by fastforce
qed

end
