(* ===== verification/Mc_Translation.thy ===== *)
theory Mc_Translation
  imports Mc_Manage Mc_Members
begin

unbundle bit_operations_syntax

text \<open>
  The translation of multicast VLANs: no two entries of a port have the same multicast VLAN or the same
  user VLAN, and no user VLAN is the multicast VLAN of another entry.
\<close>

subsection \<open>Entries without conflict\<close>

definition apart :: "MC_VLAN_TRANSLATION_ENTRY_t \<Rightarrow> MC_VLAN_TRANSLATION_ENTRY_t \<Rightarrow> bool" where
  "apart t t' \<longleftrightarrow> (vt_enable t \<and> vt_enable t' \<and> vt_portId t = vt_portId t' \<longrightarrow>
     vt_mcVid t \<noteq> vt_mcVid t' \<and> vt_userVid t \<noteq> vt_userVid t' \<and> vt_userVid t \<noteq> vt_mcVid t' \<and> vt_userVid t' \<noteq> vt_mcVid t)"

definition conflict_free :: "mc_sys \<Rightarrow> bool" where
  "conflict_free s \<longleftrightarrow> sorted_wrt apart (mcTagTranslationTable s)"

lemma apart_sym: "apart t t' = apart t' t"
  by (auto simp: apart_def)

lemma apart_disabled [simp]: "\<not> vt_enable t \<Longrightarrow> apart t t'" "\<not> vt_enable t' \<Longrightarrow> apart t t'"
  by (simp_all add: apart_def)

lemma conflict_free_split:
  "mcTagTranslationTable s = as @ t # bs \<Longrightarrow> conflict_free s \<longleftrightarrow> sorted_wrt apart (as @ bs) \<and> (\<forall>x\<in>set (as @ bs). apart t x)"
  by (auto simp: conflict_free_def sorted_wrt_append apart_sym [of t])

lemma two_apart:
  assumes "conflict_free s" "x \<in> set (mcTagTranslationTable s)" "y \<in> set (mcTagTranslationTable s)" "x \<noteq> y"
  shows "apart x y"
proof -
  obtain as bs where s: "mcTagTranslationTable s = as @ x # bs" using assms(2) by (meson split_list)
  then show ?thesis using assms by (auto simp: conflict_free_split [OF s])
qed

lemma translation_iff:
  assumes "conflict_free s"
  shows "mcTagTranslationTableGet p m s = Some u \<longleftrightarrow> (\<exists>t\<in>set (mcTagTranslationTable s). entry_is p m u t)"
proof
  assume "mcTagTranslationTableGet p m s = Some u"
  then show "\<exists>t\<in>set (mcTagTranslationTable s). entry_is p m u t"
    by (auto simp: mcTagTranslationTableGet_def entry_is_def dest!: find_pos_Some)
next
  assume "\<exists>t\<in>set (mcTagTranslationTable s). entry_is p m u t"
  then obtain t where t: "t \<in> set (mcTagTranslationTable s)" "entry_is p m u t" by blast
  let ?P = "\<lambda>t. vt_enable t \<and> vt_portId t = p \<and> vt_mcVid t = m"
  have "find_pos ?P (mcTagTranslationTable s) \<noteq> None" using t by (auto simp: find_pos_None entry_is_def)
  then obtain i where i: "find_pos ?P (mcTagTranslationTable s) = Some i" by blast
  then obtain as x bs where x: "mcTagTranslationTable s = as @ x # bs" "length as = i" "?P x" using find_pos_Some by fast
  have "\<not> apart x t" using x(3) t(2) by (auto simp: apart_def entry_is_def)
  then have "x = t" using two_apart [OF assms, of x t] t(1) x(1) by auto
  then show "mcTagTranslationTableGet p m s = Some u" using i x t(2) by (auto simp: mcTagTranslationTableGet_def entry_is_def)
qed

text \<open>The table as a set of entries: what an operation does to the set decides what is looked up.\<close>

definition active :: "mc_sys \<Rightarrow> (u32 \<times> u32 \<times> u32) set" where
  "active s = {(p, m, u). \<exists>t\<in>set (mcTagTranslationTable s). entry_is p m u t}"

lemma active_lookup:
  assumes "conflict_free s"
  shows "mcTagTranslationTableGet p m s = Some u \<longleftrightarrow> (p, m, u) \<in> active s"
  using translation_iff [OF assms] by (simp add: active_def)

lemma active_frame: "mcTagTranslationTable s' = mcTagTranslationTable s \<Longrightarrow> active s' = active s"
  "mcTagTranslationTable s' = mcTagTranslationTable s \<Longrightarrow> conflict_free s' = conflict_free s"
  by (simp_all add: active_def conflict_free_def)

definition without :: "u32 \<Rightarrow> u32 \<Rightarrow> (u32 \<times> u32 \<times> u32) set \<Rightarrow> (u32 \<times> u32 \<times> u32) set" where
  "without p m S = {(q, v, w) \<in> S. (q, v) \<noteq> (p, m)}"

lemma only_one:
  assumes "(p, m, u) \<in> S" "\<And>b. (p, m, b) \<in> S \<Longrightarrow> b = u"
  shows "insert (p, m, u) (without p m S) = S"
proof (rule set_eqI)
  fix k :: "u32 \<times> u32 \<times> u32"
  obtain q v w where k: "k = (q, v, w)" by (cases k)
  have "w = u" if "(p, m, w) \<in> S" using assms(2) [OF that] .
  then show "k \<in> insert (p, m, u) (without p m S) \<longleftrightarrow> k \<in> S" using assms(1) by (auto simp: k without_def)
qed

subsection \<open>Operations on the table\<close>

lemma verdict_None:
  "translation_verdict p m u ts = None \<longleftrightarrow>
     (\<forall>t\<in>set ts. vt_enable t \<and> vt_portId t = p \<longrightarrow> vt_userVid t \<noteq> u \<and> vt_userVid t \<noteq> m \<and> vt_mcVid t \<noteq> u)"
  by (induction ts) auto

lemma verdict_Some:
  "translation_verdict p m u ts = Some r \<Longrightarrow> r = OPL_ERROR \<or> r = OPL_OK \<and> (\<exists>t\<in>set ts. entry_is p m u t)"
  by (induction ts) (auto simp: entry_is_def split: if_splits)

lemma active_replace:
  assumes "mcTagTranslationTable s = as @ x # bs" "mcTagTranslationTable s' = as @ y # bs" "conflict_free s"
  shows "active s' = (active s - (if vt_enable x then {(vt_portId x, vt_mcVid x, vt_userVid x)} else {}))
    \<union> (if vt_enable y then {(vt_portId y, vt_mcVid y, vt_userVid y)} else {})"
proof -
  have ap: "apart x t" if "t \<in> set as \<or> t \<in> set bs" for t using conflict_free_split [OF assms(1)] assms(3) that by auto
  have "\<not> entry_is (vt_portId x) (vt_mcVid x) (vt_userVid x) t" if "vt_enable x" "t \<in> set as \<or> t \<in> set bs" for t
    using ap [OF that(2)] that(1) by (auto simp: entry_is_def apart_def)
  then show ?thesis using assms(1,2) by (auto simp: active_def entry_is_def)
qed

lemma table_del:
  assumes "conflict_free s" "(p, m, u) \<in> active s"
  shows "\<exists>s'. mcTagTranslationTableDel p m u s = (OPL_OK, s') \<and> conflict_free s' \<and> active s' = active s - {(p, m, u)}
    \<and> (\<exists>t\<in>set (mcTagTranslationTable s'). \<not> vt_enable t)"
proof -
  have "find_pos (entry_is p m u) (mcTagTranslationTable s) \<noteq> None" using assms(2) by (auto simp: find_pos_None active_def)
  then obtain i where i: "find_pos (entry_is p m u) (mcTagTranslationTable s) = Some i" by blast
  then obtain as x bs where x: "mcTagTranslationTable s = as @ x # bs" "length as = i" "entry_is p m u x" using find_pos_Some by fast
  let ?s = "s\<lparr> mcTagTranslationTable := as @ zero_entry # bs \<rparr>"
  have s': "mcTagTranslationTableDel p m u s = (OPL_OK, ?s)" using i x by (auto simp: mcTagTranslationTableDel_def)
  have "conflict_free ?s" using assms(1) conflict_free_split [OF x(1)] conflict_free_split [of ?s as zero_entry bs]
    by (auto simp: zero_entry_def)
  moreover have "active ?s = active s - {(p, m, u)}"
    using active_replace [OF x(1), of ?s zero_entry] assms(1) x(3) by (simp add: entry_is_def zero_entry_def)
  ultimately show ?thesis using s' by (auto simp: zero_entry_def)
qed

lemma table_add:
  assumes "conflict_free s" "\<forall>x\<in>set (mcTagTranslationTable s). vt_enable x \<and> vt_portId x = p \<longrightarrow>
      vt_mcVid x \<noteq> m \<and> vt_userVid x \<noteq> u \<and> vt_userVid x \<noteq> m \<and> vt_mcVid x \<noteq> u"
  shows "(\<forall>t\<in>set (mcTagTranslationTable s). vt_enable t) \<and> mcTagTranslationTableAdd p m u s = (OPL_FULL, s)
    \<or> (\<exists>s'. mcTagTranslationTableAdd p m u s = (OPL_OK, s') \<and> conflict_free s' \<and> active s' = insert (p, m, u) (active s))"
proof -
  have n: "find_pos (entry_is p m u) (mcTagTranslationTable s) = None" using assms(2) by (auto simp: find_pos_None entry_is_def)
  show ?thesis
  proof (cases "find_pos (\<lambda>t. \<not> vt_enable t) (mcTagTranslationTable s)")
    case None
    then have "\<forall>t\<in>set (mcTagTranslationTable s). vt_enable t" by (simp add: find_pos_None)
    moreover have "mcTagTranslationTableAdd p m u s = (OPL_FULL, s)" using n None by (simp add: mcTagTranslationTableAdd_def)
    ultimately show ?thesis by blast
  next
    case (Some i)
    then obtain as x bs where x: "mcTagTranslationTable s = as @ x # bs" "length as = i" "\<not> vt_enable x" using find_pos_Some by fast
    let ?y = "\<lparr> vt_enable = True, vt_portId = p, vt_mcVid = m, vt_userVid = u \<rparr>"
    let ?s = "s\<lparr> mcTagTranslationTable := as @ ?y # bs \<rparr>"
    have s': "mcTagTranslationTableAdd p m u s = (OPL_OK, ?s)" using n Some x by (auto simp: mcTagTranslationTableAdd_def)
    have "\<forall>t\<in>set (as @ bs). apart ?y t" using assms(2) x(1) by (auto simp: apart_def)
    then have "conflict_free ?s" using assms(1) conflict_free_split [OF x(1)] conflict_free_split [of ?s as ?y bs] by auto
    moreover have "active ?s = insert (p, m, u) (active s)"
      using active_replace [OF x(1), of ?s ?y] assms(1) x(3) by simp
    ultimately show ?thesis using s' by blast
  qed
qed

subsection \<open>Setting a translation\<close>

lemma table_log [simp]:
  "mcTagTranslationTable (dalMcTagTranslationAdd p m u s) = mcTagTranslationTable s"
  "mcTagTranslationTable (dalMcTagTranslationDel p m u s) = mcTagTranslationTable s"
  "mcTagTranslationTable (mc_del_key sec key s) = mcTagTranslationTable s"
  by (simp_all add: dalMcTagTranslationAdd_def dalMcTagTranslationDel_def mc_log_def mc_del_key_def)

lemma table_put: "mc_put_u32 sec key n s = Some s' \<Longrightarrow> mcTagTranslationTable s' = mcTagTranslationTable s"
  by (auto simp: mc_put_u32_def)

lemma drop_ok:
  assumes "conflict_free s"
  shows "\<exists>s'. drop_translation p m u s = (OPL_OK, s') \<and> conflict_free s' \<and> active s' = without p m (active s)
    \<and> (mcTagTranslationTableGet p m s = None \<and> s' = s \<or> (\<exists>t\<in>set (mcTagTranslationTable s'). \<not> vt_enable t))"
proof (cases "mcTagTranslationTableGet p m s")
  case None
  then have "(p, m, v) \<notin> active s" for v using active_lookup [OF assms, of p m v] by simp
  then show ?thesis using None assms by (auto simp: drop_translation_def without_def)
next
  case (Some v)
  let ?s = "dalMcTagTranslationDel p m v s"
  have fr: "conflict_free ?s" "active ?s = active s" using assms active_frame [of ?s s] by auto
  then have v: "(p, m, v) \<in> active ?s" using Some active_lookup [OF assms] by simp
  have "w = v" if "(p, m, w) \<in> active s" for w using that Some active_lookup [OF assms, of p m w] by simp
  then have "active s - {(p, m, v)} = without p m (active s)" by (auto simp: without_def)
  then show ?thesis using table_del [OF fr(1) v] Some fr(2) by (auto simp: drop_translation_def)
qed

text \<open>
  The answer: an error, a full table, or success; the entries change in the last case only, and then to the new
  translation and no other.
\<close>

lemma translation_set:
  assumes "conflict_free s" "odmMcTagTranslationSet p m u s = Some (r, s')"
  shows "conflict_free s' \<and> (r = OPL_OK \<and> active s' = insert (p, m, u) (without p m (active s))
    \<or> (r = OPL_ERROR \<or> r = OPL_FULL) \<and> active s' = active s)"
proof (cases "mcTagOperPerPortGet p s = MC_TAG_OPER_MODE_TRANSLATION \<and> translation_verdict p m u (mcTagTranslationTable s) = None
    \<and> mcTagTranslationTableGet p m s \<noteq> Some u")
  case True
  obtain t where t: "drop_translation p m u s = (OPL_OK, t)" "conflict_free t" "active t = without p m (active s)"
    "mcTagTranslationTableGet p m s = None \<and> t = s \<or> (\<exists>x\<in>set (mcTagTranslationTable t). \<not> vt_enable x)"
    using drop_ok [OF assms(1)] by blast
  let ?t = "dalMcTagTranslationAdd p m u t"
  have fr: "conflict_free ?t" "active ?t = active t" using t(2) active_frame [of ?t t] by auto
  have "vt_mcVid x \<noteq> m \<and> vt_userVid x \<noteq> u \<and> vt_userVid x \<noteq> m \<and> vt_mcVid x \<noteq> u"
    if "x \<in> set (mcTagTranslationTable ?t)" "vt_enable x" "vt_portId x = p" for x
  proof -
    have "(p, vt_mcVid x, vt_userVid x) \<in> active t" using that by (auto simp: active_def entry_is_def)
    then have a: "(p, vt_mcVid x, vt_userVid x) \<in> active s" "vt_mcVid x \<noteq> m" using t(3) by (auto simp: without_def)
    then obtain y where y: "y \<in> set (mcTagTranslationTable s)" "entry_is p (vt_mcVid x) (vt_userVid x) y" by (auto simp: active_def)
    have "\<forall>t\<in>set (mcTagTranslationTable s). vt_enable t \<and> vt_portId t = p \<longrightarrow> vt_userVid t \<noteq> u \<and> vt_userVid t \<noteq> m \<and> vt_mcVid t \<noteq> u"
      using True by (simp add: verdict_None)
    from bspec [OF this y(1)] have "vt_userVid y \<noteq> u \<and> vt_userVid y \<noteq> m \<and> vt_mcVid y \<noteq> u" using y(2) by (simp add: entry_is_def)
    then show ?thesis using y(2) a(2) by (simp add: entry_is_def)
  qed
  then have out: "\<forall>x\<in>set (mcTagTranslationTable ?t). vt_enable x \<and> vt_portId x = p \<longrightarrow> vt_mcVid x \<noteq> m \<and> vt_userVid x \<noteq> u \<and> vt_userVid x \<noteq> m \<and> vt_mcVid x \<noteq> u"
    by blast
  consider (full) "\<forall>x\<in>set (mcTagTranslationTable t). vt_enable x" "mcTagTranslationTableAdd p m u ?t = (OPL_FULL, ?t)"
    | (ok) v where "mcTagTranslationTableAdd p m u ?t = (OPL_OK, v)" "conflict_free v" "active v = insert (p, m, u) (active t)"
    using table_add [of ?t p m u, OF fr(1) out] unfolding fr(2) table_log by metis
  then show ?thesis
  proof cases
    case full
    then have "mcTagTranslationTableGet p m s = None \<and> t = s" using t(4) by auto
    then show ?thesis using full True assms(2) t(1) fr by (auto simp: odmMcTagTranslationSet_def OPL_OK_def OPL_FULL_def)
  next
    case (ok v)
    then have "r = OPL_OK" "mcTagTranslationTable s' = mcTagTranslationTable v"
      using True assms(2) t(1) table_put by (auto simp: odmMcTagTranslationSet_def done_ok_def split: option.splits)
    then show ?thesis using ok active_frame [of s' v] t(3) by auto
  qed
next
  case False
  then have "s' = s" "r = OPL_ERROR \<or> r = OPL_OK \<and> (p, m, u) \<in> active s"
    using assms(2) active_lookup [OF assms(1)]
    by (auto simp: odmMcTagTranslationSet_def active_def dest!: verdict_Some split: if_splits option.splits)
  moreover have "(p, m, u) \<in> active s \<Longrightarrow> active s = insert (p, m, u) (without p m (active s))"
  proof -
    assume "(p, m, u) \<in> active s"
    then have "b = u" if "(p, m, b) \<in> active s" for b using that by (simp add: active_lookup [OF assms(1), symmetric])
    then show "active s = insert (p, m, u) (without p m (active s))" using only_one [OF \<open>(p, m, u) \<in> active s\<close>] by metis
  qed
  ultimately show ?thesis using assms(1) by metis
qed

lemma translation_clear:
  assumes "conflict_free s"
  shows "conflict_free (odmMcTagTranslationClear q s)
    \<and> (mcTagOperPerPortGet q s = MC_TAG_OPER_MODE_TRANSLATION \<longrightarrow> active (odmMcTagTranslationClear q s) = {(p, m, u) \<in> active s. p \<noteq> q})"
proof (cases "mcTagOperPerPortGet q s = MC_TAG_OPER_MODE_TRANSLATION")
  case True
  let ?f = "\<lambda>t. if vt_enable t \<and> vt_portId t = q then zero_entry else t"
  have del: "mcTagTranslationTable (fold (\<lambda>i. mc_del_key sec (key i)) is t) = mcTagTranslationTable t" for sec key "is" t
    by (induction "is" arbitrary: t) simp_all
  have log: "mcTagTranslationTable (fold (\<lambda>x. if P x then dalMcTagTranslationDel q (f x) (g x) else id) xs t) = mcTagTranslationTable t" for P f g xs t
    by (induction xs arbitrary: t) simp_all
  have tbl: "mcTagTranslationTable (odmMcTagTranslationClear q s) = map ?f (mcTagTranslationTable s)"
    using True by (simp add: odmMcTagTranslationClear_def del log mcTagTranslationTableClear_def Let_def)
  have ap: "apart x y \<Longrightarrow> apart (?f x) (?f y)" for x y by (auto simp: apart_def zero_entry_def)
  have "sorted_wrt (\<lambda>x y. apart (?f x) (?f y)) (mcTagTranslationTable s)"
    by (rule sorted_wrt_mono_rel [OF _ assms [unfolded conflict_free_def]]) (rule ap)
  then have "conflict_free (odmMcTagTranslationClear q s)" by (simp add: conflict_free_def tbl sorted_wrt_map)
  moreover have "active (odmMcTagTranslationClear q s) = {(p, m, u) \<in> active s. p \<noteq> q}"
    by (auto simp: active_def tbl entry_is_def zero_entry_def split: if_splits)
  ultimately show ?thesis by blast
qed (use assms in \<open>simp add: odmMcTagTranslationClear_def\<close>)

text \<open>C16: The table of VLAN translations is a map per port, and stays free of conflicts: no two entries of a port
  have the same multicast VLAN or user VLAN, and no user VLAN is the multicast VLAN of another entry. Setting a
  translation answers success, an error or a full table; it replaces the translation of this VLAN of this port
  in the first case and changes nothing looked up in the two others. Clearing a port removes its translations and no
  others.\<close>

theorem translations_without_conflict:
  assumes "conflict_free s" "odmMcTagTranslationSet p m u s = Some (r, s')"
  shows "conflict_free s' \<and> r \<in> {OPL_OK, OPL_ERROR, OPL_FULL}
    \<and> (\<forall>q v. mcTagTranslationTableGet q v s' = (if r = OPL_OK \<and> (q, v) = (p, m) then Some u else mcTagTranslationTableGet q v s))
    \<and> conflict_free (odmMcTagTranslationClear p s')
    \<and> (r = OPL_OK \<and> mcTagOperPerPortGet p s' = MC_TAG_OPER_MODE_TRANSLATION \<longrightarrow> (\<forall>q v. mcTagTranslationTableGet q v (odmMcTagTranslationClear p s')
         = (if q = p then None else mcTagTranslationTableGet q v s)))"
proof -
  note st = translation_set [OF assms]
  then have cf: "conflict_free s'" by blast
  note cl = translation_clear [OF cf, of p]
  have look: "mcTagTranslationTableGet q v t = Some w \<longleftrightarrow> (q, v, w) \<in> active t" if "conflict_free t" for t q v w
    using active_lookup [OF that] .
  have opt: "a = b" if "\<And>w. a = Some w \<longleftrightarrow> b = Some w" for a b :: "u32 option" using that by (metis option.exhaust)
  consider (ok) "r = OPL_OK" "active s' = insert (p, m, u) (without p m (active s))"
    | (no) "r = OPL_ERROR \<or> r = OPL_FULL" "active s' = active s" using st by metis
  then have get: "mcTagTranslationTableGet q v s' = (if r = OPL_OK \<and> (q, v) = (p, m) then Some u else mcTagTranslationTableGet q v s)" for q v
  proof cases
    case ok
    show ?thesis by (cases "(q, v) = (p, m)"; rule opt) (auto simp: look [OF cf] look [OF assms(1)] ok without_def)
  next
    case no
    then have "r \<noteq> OPL_OK" by (auto simp: opl_codes)
    then show ?thesis by (simp, intro opt) (auto simp: look [OF cf] look [OF assms(1)] no(2))
  qed
  have "mcTagTranslationTableGet q v (odmMcTagTranslationClear p s') = (if q = p then None else mcTagTranslationTableGet q v s')"
    if "mcTagOperPerPortGet p s' = MC_TAG_OPER_MODE_TRANSLATION" for q v
  proof -
    have a: "conflict_free (odmMcTagTranslationClear p s')" "active (odmMcTagTranslationClear p s') = {(q, m, u) \<in> active s'. q \<noteq> p}" using cl that by auto
    show ?thesis by (cases "q = p"; rule opt) (auto simp: look [OF a(1)] look [OF cf] a(2))
  qed
  then show ?thesis using st cl get by auto
qed

definition sample_translated :: mc_sys where
  "sample_translated = (sample_mc MC_LEAVE_MODE_FAST)\<lparr> mcTagOperPerPort := (\<lambda>_. MC_TAG_OPER_MODE_TRANSLATION),
     mcTagTranslationTable := [\<lparr> vt_enable = True, vt_portId = 1, vt_mcVid = 100, vt_userVid = 10 \<rparr>, zero_entry] \<rparr>"

theorem translations_without_conflict_witness:
  "\<exists>s'. odmMcTagTranslationSet 1 100 20 sample_translated = Some (OPL_OK, s') \<and> conflict_free s'
    \<and> mcTagTranslationTableGet 1 100 s' = Some 20 \<and> mcTagTranslationTableGet 1 200 s' = None"
proof -
  have "conflict_free sample_translated"
    by (simp add: conflict_free_def sample_translated_def zero_entry_def apart_def)
  moreover have "\<exists>s'. odmMcTagTranslationSet 1 100 20 sample_translated = Some (OPL_OK, s')"
    by (simp add: odmMcTagTranslationSet_def sample_translated_def mcTagOperPerPortGet_def mcTagTranslationTableGet_def drop_translation_def
        dalMcTagTranslationDel_def dalMcTagTranslationAdd_def mc_log_def mcTagTranslationTableDel_def mcTagTranslationTableAdd_def entry_is_def
        zero_entry_def done_ok_def mc_put_u32_def vosConfigUInt32Set_def vosConfigValueSet_def sample_mc_def)
  moreover have "mcTagTranslationTableGet 1 200 sample_translated = None"
    by (simp add: mcTagTranslationTableGet_def sample_translated_def zero_entry_def)
  ultimately show ?thesis using translations_without_conflict [of sample_translated 1 100 20 OPL_OK] by fastforce
qed

end
