(* ===== verification/Mc_Settings.thy ===== *)
theory Mc_Settings
  imports Mc_Vlans Mc_Translation
begin

unbundle bit_operations_syntax

text \<open>
  What the management of the multicast control promises: the tables of the snooping stay sound while it
  works, the translations of VLANs are a map without conflicts, the multicast VLANs of a port are kept in
  the configuration file and restored at the start. Then faults of the code.
\<close>

subsection \<open>What leaves the tables of groups alone\<close>

lemma each_ignoring_kept:
  assumes "\<And>x s r s'. f x s = Some (r, s') \<Longrightarrow> Q s \<Longrightarrow> Q s'" "each_ignoring f xs s = Some s'" "Q s"
  shows "Q s'"
  using assms(2,3)
proof (induction xs arbitrary: s)
  case (Cons x xs)
  then obtain r t where "f x s = Some (r, t)" "each_ignoring f xs t = Some s'" by (auto simp: bind_eq_Some_conv)
  then show ?case using Cons.IH assms(1) Cons.prems(2) by blast
qed simp

lemma each_tables:
  "(\<And>x s r s'. f x s = Some (r, s') \<Longrightarrow> tables s' = tables s) \<Longrightarrow> each_ignoring f xs s = Some s' \<Longrightarrow> tables s' = tables s"
  by (rule each_ignoring_kept [where Q = "\<lambda>t. tables t = tables s"]) auto

lemma fold_kept: "(\<And>x s. q (f x s) = q s) \<Longrightarrow> q (fold f xs s) = q s"
  by (induction xs arbitrary: s) simp_all

lemma done_ok_iff [simp]: "done_ok r = Some (ret, s) \<longleftrightarrow> ret = OPL_OK \<and> r = Some s"
  by (auto simp: done_ok_def)

lemma tables_put:
  "mc_put sec key txt s = Some s' \<Longrightarrow> tables s' = tables s" "mc_put_u32 sec key n s = Some s' \<Longrightarrow> tables s' = tables s"
  "tables (mc_del_key sec key s) = tables s" "tables (mcVlanMapAdd p v s) = tables s" "tables (mcVlanMapDel p v s) = tables s"
  "tables (mcTagOperPerPortSet p t s) = tables s"
  by (auto simp: mc_put_def mc_put_u32_def mc_del_key_def mcVlanMapAdd_def mcVlanMapDel_def mcTagOperPerPortSet_def tables_def)

lemma tables_dal:
  "tables (dalMcVlanMapAdd p v s) = tables s" "tables (dalMcVlanMapDel p v s) = tables s" "tables (dalMcTagOperSet p t s) = tables s"
  "tables (dalMcTagTranslationAdd p v u s) = tables s" "tables (dalMcTagTranslationDel p v u s) = tables s"
  by (simp_all add: dalMcVlanMapAdd_def dalMcVlanMapDel_def dalMcTagOperSet_def dalMcVlanInXxxModeSetAction_def
      dalMcVlanInXxxModeClear_def dalMcTagTranslationAdd_def dalMcTagTranslationDel_def Let_def fold_kept [where q = tables])

lemma tables_translation:
  "tables (snd (mcTagTranslationTableAdd p v u s)) = tables s" "tables (snd (mcTagTranslationTableDel p v u s)) = tables s"
  "tables (mcTagTranslationTableClear p s) = tables s"
  by (simp_all add: mcTagTranslationTableAdd_def mcTagTranslationTableDel_def mcTagTranslationTableClear_def tables_def split: option.split)

lemmas tables_ops = tables_put tables_dal tables_translation

lemma tables_vlan:
  "odmMcVlanMapAdd p v s = Some (r, s') \<Longrightarrow> tables s' = tables s" "odmMcVlanMapDel p v s = Some (r, s') \<Longrightarrow> tables s' = tables s"
  "clear_vlan p v s = Some (r, s') \<Longrightarrow> tables s' = tables s"
proof -
  show *: "odmMcVlanMapDel p v s = Some (r, s') \<Longrightarrow> tables s' = tables s" for p v s s' r
    by (auto simp: odmMcVlanMapDel_def Let_def tables_ops dest!: tables_put(1,2) split: option.splits if_splits vlan_text.splits)
  show "odmMcVlanMapAdd p v s = Some (r, s') \<Longrightarrow> tables s' = tables s"
    by (auto simp: odmMcVlanMapAdd_def Let_def tables_ops dest!: tables_put(1,2) split: option.splits if_splits)
  show "clear_vlan p v s = Some (r, s') \<Longrightarrow> tables s' = tables s" using * by (auto simp: clear_vlan_def split: if_splits)
qed

lemma tables_vlan_calls:
  "odmMulticastVlanAdd p v s = Some (r, s') \<Longrightarrow> tables s' = tables s" "odmMulticastVlanDelete p v s = Some (r, s') \<Longrightarrow> tables s' = tables s"
  "odmMulticastVlanClear p s = Some (r, s') \<Longrightarrow> tables s' = tables s"
proof -
  have each_add: "each_ignoring (\<lambda>i. odmMcVlanMapAdd i v) xs s = Some s' \<Longrightarrow> tables s' = tables s" for xs
    by (rule each_tables) (auto dest: tables_vlan)
  show "odmMulticastVlanAdd p v s = Some (r, s') \<Longrightarrow> tables s' = tables s"
    by (auto simp: odmMulticastVlanAdd_def split: if_splits dest: each_add)
  show "odmMulticastVlanDelete p v s = Some (r, s') \<Longrightarrow> tables s' = tables s"
    by (auto simp: odmMulticastVlanDelete_def split: if_splits dest: tables_vlan)
  have "each_ignoring (clear_vlan i) js t = Some t' \<Longrightarrow> tables t' = tables t" for i js t t'
    by (rule each_tables) (auto dest: tables_vlan)
  then have "each_ignoring (\<lambda>i s. done_ok (each_ignoring (clear_vlan i) vlan_ids s)) xs s = Some s' \<Longrightarrow> tables s' = tables s" for xs
    by (rule each_tables) auto
  then show "odmMulticastVlanClear p s = Some (r, s') \<Longrightarrow> tables s' = tables s" by (auto simp: odmMulticastVlanClear_def split: if_splits)
qed

lemma tables_translation_clear: "tables (odmMcTagTranslationClear p s) = tables s"
  by (simp add: odmMcTagTranslationClear_def Let_def tables_ops fold_kept [where q = tables])

lemma tables_tag_oper: "odmMcTagOperSet p t s = Some (r, s') \<Longrightarrow> tables s' = tables s"
  by (auto simp: odmMcTagOperSet_def Let_def tables_ops tables_translation_clear dest!: tables_put(1,2) split: if_splits)

lemma tables_translation_set: "odmMcTagTranslationSet p v u s = Some (r, s') \<Longrightarrow> tables s' = tables s"
proof -
  have d: "tables (snd (drop_translation p v u s)) = tables s" by (simp add: drop_translation_def tables_ops split: option.split)
  show "odmMcTagTranslationSet p v u s = Some (r, s') \<Longrightarrow> tables s' = tables s"
    using d tables_translation(1) [of p v u] tables_dal(4) [of p v u]
    by (auto simp: odmMcTagTranslationSet_def dest!: tables_put(1,2) split: if_splits option.splits prod.splits) (metis snd_conv)+
qed

lemma tables_tag_calls:
  "odmMulticastTagstripSet b p t s = Some (r, s') \<Longrightarrow> tables s' = tables s"
  "odmMulticastTagTranslationAdd p v u s = Some (r, s') \<Longrightarrow> tables s' = tables s"
  "odmMulticastVlanTranslateEntryClear p s = Some (r, s') \<Longrightarrow> tables s' = tables s"
proof -
  have each_oper: "each_ignoring (\<lambda>i. odmMcTagOperSet i t) xs s = Some s' \<Longrightarrow> tables s' = tables s" for xs
    by (rule each_tables) (auto dest: tables_tag_oper)
  have each_set: "each_ignoring (\<lambda>i. odmMcTagTranslationSet i v u) xs s = Some s' \<Longrightarrow> tables s' = tables s" for xs
    by (rule each_tables) (auto dest: tables_translation_set)
  show "odmMulticastTagstripSet b p t s = Some (r, s') \<Longrightarrow> tables s' = tables s"
    by (auto simp: odmMulticastTagstripSet_def split: if_splits dest: each_oper)
  show "odmMulticastTagTranslationAdd p v u s = Some (r, s') \<Longrightarrow> tables s' = tables s"
    by (auto simp: odmMulticastTagTranslationAdd_def split: if_splits 
        dest: tables_translation_set each_set)
  show "odmMulticastVlanTranslateEntryClear p s = Some (r, s') \<Longrightarrow> tables s' = tables s"
    by (auto simp: odmMulticastVlanTranslateEntryClear_def tables_translation_clear split: if_splits)
qed

subsection \<open>Limits of groups and the ageing time\<close>

text \<open>The tables without the limits on the numbers of groups.\<close>

definition lists_ok :: "mc_sys \<Rightarrow> bool" where
  "lists_ok s \<longleftrightarrow> snoop_cfg (mcb s) \<and> distinct (map gid (mcGroupList s)) \<and> (\<forall>g\<in>set (mcGroupList s). group_ok (mcb s) g)
     \<and> mcGroupTotalNum s = of_nat (length (mcGroupList s))"

definition groups_at :: "u32 \<Rightarrow> mc_sys \<Rightarrow> nat" where
  "groups_at p s = length (filter (\<lambda>g. hostPortId g = p) (mcGroupList s))"

lemma mc_inv_lists: "mc_inv s \<longleftrightarrow> lists_ok s \<and> (\<forall>p. groups_at p s \<le> unat (maxGroupNum (mcb s) p))"
  by (auto simp: mc_inv_def lists_ok_def groups_ok_def groups_at_def)

lemma delete_group:
  assumes "lists_ok s" "mcGroupList s = as @ x # bs"
  shows "\<exists>s'. odmMcGroupDel (group_key x) (mc_bitmap (mcb s)) s = (OPL_OK, s') \<and> lists_ok s' \<and> mcb s' = mcb s
    \<and> mc_timers s' = mc_timers s \<and> mcGroupList s' = as @ bs"
proof -
  have bm: "mc_bitmap (mcb s) = CTC_CONTROL_BITMAP_GDA_IP_VLAN_ID" using assms(1) by (simp add: lists_ok_def snoop_cfg_def)
  have dist: "distinct (map gid (as @ x # bs))" using assms by (simp add: lists_ok_def)
  have fg: "find_pos (\<lambda>g. gid g = gid x) (as @ x # bs) = Some (length as)"
    using distinct_around [OF dist] by (intro find_pos_split) auto
  let ?d = "odmMcGroupDel (group_key x) CTC_CONTROL_BITMAP_GDA_IP_VLAN_ID s"
  have "fst ?d = OPL_OK \<and> mcb (snd ?d) = mcb s \<and> mc_timers (snd ?d) = mc_timers s \<and> mcGroupList (snd ?d) = as @ bs
      \<and> mcGroupTotalNum (snd ?d) = mcGroupTotalNum s - 1"
    using fg by (simp add: odmMcGroupDel_def mcGroupListDel_def mcGroupListGet_def find_group_key dalMcGroupDel_def mc_log_def
        count_free_def with_stats_def assms(2) split: prod.split)
  moreover from this have "lists_ok (snd ?d)" using assms by (auto simp: lists_ok_def)
  ultimately show ?thesis using bm by (cases ?d) auto
qed

lemma delete_groups:
  assumes "lists_ok s"
  shows "\<exists>s'. del_groups (\<lambda>g. hostPortId g = p) n s = (OPL_OK, s') \<and> lists_ok s' \<and> mcb s' = mcb s \<and> mc_timers s' = mc_timers s
    \<and> (\<forall>q. groups_at q s' = (if q = p then groups_at p s - n else groups_at q s))"
  using assms
proof (induction n arbitrary: s)
  case (Suc n)
  show ?case
  proof (cases "find_pos (\<lambda>g. hostPortId g = p) (mcGroupList s)")
    case None
    then have "groups_at p s = 0" by (simp add: find_pos_None groups_at_def filter_empty_conv)
    then show ?thesis using None Suc.prems by auto
  next
    case (Some i)
    then obtain as x bs where x: "mcGroupList s = as @ x # bs" "length as = i" "hostPortId x = p" using find_pos_Some by fast
    obtain t where t: "odmMcGroupDel (group_key x) (mc_bitmap (mcb s)) s = (OPL_OK, t)" "lists_ok t" "mcb t = mcb s"
      "mc_timers t = mc_timers s" "mcGroupList t = as @ bs" using delete_group [OF Suc.prems x(1)] by blast
    have at: "groups_at q s = (if q = p then Suc (groups_at p t) else groups_at q t)" for q using x t(5) by (simp add: groups_at_def)
    have "del_groups (\<lambda>g. hostPortId g = p) (Suc n) s = del_groups (\<lambda>g. hostPortId g = p) n t"
      using Some x t(1) by (auto simp: Let_def)
    then show ?thesis using Suc.IH [OF t(2)] t(3,4) at by auto
  qed
qed auto

lemma max_groups_set:
  assumes "snoop_inv s" "odmMcControlBlockMaxGroupNumSet p n s = Some (r, s')" "IS_VALID_PORT_ID p"
  shows "snoop_inv s'"
proof -
  let ?t = "with_mcb (\<lambda>cb. cb\<lparr> maxGroupNum := (maxGroupNum cb)(p := n) \<rparr>) s"
  obtain t where t: "mc_put_u32 (port_section p) CFGKEY_MULTICAST_IGMP_PORT_MAX_GROUP_NUM n ?t = Some t"
    "s' = snd (odmMulticastControlEntryNumSet p n t)"
    using assms(2) by (auto simp: odmMcControlBlockMaxGroupNumSet_def)
  have inv: "lists_ok s" "\<And>q. groups_at q s \<le> unat (maxGroupNum (mcb s) q)" using assms(1) by (simp_all add: snoop_inv_def mc_inv_lists)
  have tb: "tables t = tables ?t" using tables_put(2) [OF t(1)] .
  then have l: "lists_ok t" using inv(1) by (simp add: lists_ok_def with_mcb_def tables_def snoop_cfg_def group_ok_def)
  have cnt: "groups_at q t = groups_at q s" for q using tb by (simp add: groups_at_def tables_def with_mcb_def)
  have lim: "maxGroupNum (mcb t) q = (if q = p then n else maxGroupNum (mcb s) q)" for q using tb by (simp add: tables_def with_mcb_def)
  have "groups_at p s < 2 ^ 32" using inv(2) [of p] unsigned_less [of "maxGroupNum (mcb s) p", where 'a = nat] by simp
  then have num: "unat (mcGroupNumPerPort p t) = groups_at p s"
    using cnt [of p] by (simp add: mcGroupNumPerPort_def groups_at_def unsigned_of_nat take_bit_nat_eq_self)
  have timers: "mc_timers t = mc_timers s" using tb by (simp add: tables_def with_mcb_def)
  show ?thesis
  proof (cases "mcGroupNumPerPort p t \<le> n")
    case True
    then have "s' = t" "groups_at p s \<le> unat n"
      using t(2) assms(3) num by (simp_all add: odmMulticastControlEntryNumSet_def word_le_nat_alt)
    then show ?thesis using l cnt lim inv(2) assms(1) timers by (simp add: snoop_inv_def mc_inv_lists)
  next
    case False
    then have less: "groups_at p s - unat (mcGroupNumPerPort p t - n) = unat n"
      using num by (simp add: unat_sub word_le_nat_alt)
    obtain u where u: "del_groups (\<lambda>g. hostPortId g = p) (unat (mcGroupNumPerPort p t - n)) t = (OPL_OK, u)" "lists_ok u" "mcb u = mcb t"
      "mc_timers u = mc_timers t" "\<And>q. groups_at q u = (if q = p then groups_at p t - unat (mcGroupNumPerPort p t - n) else groups_at q t)"
      using delete_groups [OF l] by blast
    have "s' = u" using False t(2) u(1) assms(3) by (simp add: odmMulticastControlEntryNumSet_def)
    then show ?thesis using u(2-5) less cnt lim inv(2) assms(1) timers by (simp add: snoop_inv_def mc_inv_lists)
  qed
qed

lemma ageing_time_set:
  assumes "snoop_inv s" "odmMulticastHostAgingTimeSet t s = Some (r, s')"
  shows "snoop_inv s'"
proof -
  have "mcMode (mcb s) = MC_MODE_SNOOPING" using assms(1) by (simp add: snoop_inv_def mc_inv_def snoop_cfg_def)
  then obtain u where u: "s' = mcHostAgingTimerSet t u" "tables u = tables (with_mcb (\<lambda>cb. cb\<lparr> cb_hostAgingTime := t \<rparr>) s)"
    using assms(2) tables_put(2)
    by (fastforce simp: odmMulticastHostAgingTimeSet_def odmMcControlBlockHostAgingTimeSet_def bind_eq_Some_conv)
  define gs where "gs = map (\<lambda>g. g\<lparr> hostList := map (\<lambda>h. h\<lparr> h_hostAgingTime := t \<rparr>) (hostList g) \<rparr>) (mcGroupList s)"
  have s': "mcb s' = (mcb s)\<lparr> cb_hostAgingTime := t \<rparr>" "mcGroupList s' = gs"
    "mcGroupTotalNum s' = mcGroupTotalNum s" "mc_timers s' = mc_timers s"
    using u by (simp_all add: mcHostAgingTimerSet_def tables_def with_mcb_def gs_def)
  have "map gid gs = map gid (mcGroupList s)" "map hostPortId gs = map hostPortId (mcGroupList s)" by (simp_all add: gs_def gid_def)
  then have "lists_ok s'" "groups_at p s' = groups_at p s" for p
    using assms(1) s' count_of_map [of hostPortId p]
    by (auto simp: snoop_inv_def mc_inv_lists lists_ok_def groups_at_def snoop_cfg_def group_ok_def gs_def comp_def cong: map_cong)
  then show ?thesis using assms(1) s' by (simp add: snoop_inv_def mc_inv_lists)
qed

subsection \<open>Snooping under management\<close>

text \<open>The calls of the management that are meant for the snooping mode, between the events.\<close>

datatype mc_action =
    Traffic mc_event
  | Set_group_limit u32 u32
  | Set_ageing_time u32
  | Set_fast_leave u32
  | Set_query_interval u32
  | Set_query_count u32
  | Set_receive u32
  | Vlan_add u32 u32
  | Vlan_delete u32 u32
  | Vlan_clear u32
  | Tag_operation u32 u32
  | Translation_add u32 u32 u32
  | Translation_clear u32

primrec mc_manage :: "mc_env \<Rightarrow> bool \<Rightarrow> mc_action \<Rightarrow> mc_sys \<Rightarrow> mc_sys option" where
  "mc_manage e respin (Traffic ev) s = mc_step e ev s"
| "mc_manage e respin (Set_group_limit p n) s = map_option snd (odmMulticastGroupMaxNumSet respin p n s)"
| "mc_manage e respin (Set_ageing_time t) s = map_option snd (odmMulticastHostAgingTimeSet t s)"
| "mc_manage e respin (Set_fast_leave b) s = map_option snd (odmMulticastFastleaveModeSet b s)"
| "mc_manage e respin (Set_query_interval t) s = map_option snd (odmMcControlBlockLastQueryIntervalSet t s)"
| "mc_manage e respin (Set_query_count n) s = map_option snd (odmMcControlBlockLastQueryCountSet n s)"
| "mc_manage e respin (Set_receive b) s = map_option snd (odmMcControlBlockRecvEnSet b s)"
| "mc_manage e respin (Vlan_add p v) s = map_option snd (odmMulticastVlanAdd p v s)"
| "mc_manage e respin (Vlan_delete p v) s = map_option snd (odmMulticastVlanDelete p v s)"
| "mc_manage e respin (Vlan_clear p) s = map_option snd (odmMulticastVlanClear p s)"
| "mc_manage e respin (Tag_operation p t) s = map_option snd (odmMulticastTagstripSet respin p t s)"
| "mc_manage e respin (Translation_add p v u) s = map_option snd (odmMulticastTagTranslationAdd p v u s)"
| "mc_manage e respin (Translation_clear p) s = map_option snd (odmMulticastVlanTranslateEntryClear p s)"

lemma snoop_inv_tables: "tables s' = tables s \<Longrightarrow> snoop_inv s \<Longrightarrow> snoop_inv s'"
  using mc_inv_tables [of s' s] by (simp add: snoop_inv_def tables_def)

text \<open>Settings that the invariant does not mention.\<close>

lemma other_settings:
  assumes "snoop_inv s" "tables s' = tables (with_mcb f s)" "\<And>cb. snoop_cfg (f cb) = snoop_cfg cb"
    "\<And>cb. maxGroupNum (f cb) = maxGroupNum cb" "\<And>cb. cb_hostAgingTime (f cb) = cb_hostAgingTime cb"
  shows "snoop_inv s'"
  using assms by (auto simp: snoop_inv_def mc_inv_def groups_ok_def group_ok_def tables_def with_mcb_def)

lemma limit_set:
  assumes "snoop_inv s" "odmMulticastGroupMaxNumSet respin p n s = Some (r, s')"
  shows "snoop_inv s'"
proof -
  have each: "each_ignoring (\<lambda>i. odmMcControlBlockMaxGroupNumSet i n) ps t = Some t' \<Longrightarrow> \<forall>i\<in>set ps. IS_VALID_PORT_ID i \<Longrightarrow> snoop_inv t \<Longrightarrow> snoop_inv t'"
    for ps t t'
  proof (induction ps arbitrary: t)
    case (Cons i ps)
    then obtain r u where "odmMcControlBlockMaxGroupNumSet i n t = Some (r, u)" "each_ignoring (\<lambda>i. odmMcControlBlockMaxGroupNumSet i n) ps u = Some t'"
      by (auto simp: bind_eq_Some_conv)
    then show ?case using Cons.IH [of u] Cons.prems max_groups_set by simp
  qed simp
  have "\<forall>i\<in>set host_ports. IS_VALID_PORT_ID i" by (simp add: host_ports_def IS_VALID_PORT_ID_def ODM_START_PORT_NUN_def ODM_NUM_OF_PORTS_def)
  then have "(IS_VALID_PORT_ID p \<or> p = 255) \<Longrightarrow> \<forall>i\<in>set (ports_of p). IS_VALID_PORT_ID i" by (auto simp: ports_of_def)
  then show ?thesis using assms each by (auto simp: odmMulticastGroupMaxNumSet_def split: if_splits)
qed

lemma settings_set:
  assumes "snoop_inv s"
  shows "odmMcControlBlockLeaveModeSet t s = Some (r, s') \<Longrightarrow> snoop_inv s'"
    "odmMcControlBlockLastQueryIntervalSet t s = Some (r, s') \<Longrightarrow> snoop_inv s'"
    "odmMcControlBlockLastQueryCountSet t s = Some (r, s') \<Longrightarrow> snoop_inv s'"
    "odmMcControlBlockRecvEnSet t s = Some (r, s') \<Longrightarrow> snoop_inv s'"
proof -
  show "odmMcControlBlockLeaveModeSet t s = Some (r, s') \<Longrightarrow> snoop_inv s'"
    by (rule other_settings [OF assms, where f = "\<lambda>cb. cb\<lparr> leaveMode := t \<rparr>"])
      (auto simp: odmMcControlBlockLeaveModeSet_def snoop_cfg_def dest: tables_put(2))
  show "odmMcControlBlockLastQueryIntervalSet t s = Some (r, s') \<Longrightarrow> snoop_inv s'"
    by (rule other_settings [OF assms, where f = "\<lambda>cb. cb\<lparr> lastQueryInterval := t \<rparr>"])
      (auto simp: odmMcControlBlockLastQueryIntervalSet_def snoop_cfg_def dest: tables_put(2))
  show "odmMcControlBlockLastQueryCountSet t s = Some (r, s') \<Longrightarrow> snoop_inv s'"
    by (rule other_settings [OF assms, where f = "\<lambda>cb. cb\<lparr> lastQueryCount := t \<rparr>"])
      (auto simp: odmMcControlBlockLastQueryCountSet_def snoop_cfg_def dest: tables_put(2))
  show "odmMcControlBlockRecvEnSet t s = Some (r, s') \<Longrightarrow> snoop_inv s'"
    by (rule other_settings [OF assms, where f = "\<lambda>cb. cb\<lparr> mcRecvEn := t \<rparr>"])
      (auto simp: odmMcControlBlockRecvEnSet_def snoop_cfg_def Let_def with_mcb_def tables_def mc_log_def dest!: tables_put(2))
qed

lemma manage_kept:
  assumes "snoop_inv s" "mc_manage e respin a s = Some s'"
  shows "snoop_inv s'"
  using assms
proof (cases a)
  case (Traffic ev)
  then show ?thesis using assms snoop_step [of s e ev s'] by simp
next
  case (Set_fast_leave b)
  then show ?thesis using assms settings_set(1) [OF assms(1)] by (auto simp: odmMulticastFastleaveModeSet_def split: if_splits)
qed (auto intro: snoop_inv_tables dest: tables_vlan_calls tables_tag_calls limit_set ageing_time_set settings_set)

interpretation managed: event_system "mc_manage e respin" snoop_inv for e respin
  by unfold_locales (use manage_kept in blast)

subsection \<open>The start\<close>

lemma each_idle: "(\<And>x. x \<in> set xs \<Longrightarrow> \<exists>r. f x s = Some (r, s)) \<Longrightarrow> each_ignoring f xs s = Some s"
proof (induction xs)
  case (Cons x xs)
  then obtain r where "f x s = Some (r, s)" by auto
  then show ?case using Cons by simp
qed simp

lemma clear_no_vlans:
  assumes "mcVlanMap s = (\<lambda>_. 0)" "IS_VALID_PORT_ID p"
  shows "odmMulticastVlanClear p s = Some (OPL_OK, s)"
proof -
  have "p \<noteq> 255" using assms(2) by (auto simp: IS_VALID_PORT_ID_def ODM_NUM_OF_PORTS_def)
  moreover have "each_ignoring (clear_vlan p) vlan_ids s = Some s"
    by (rule each_idle) (simp add: clear_vlan_def mcVlanMapExist_def assms(1))
  ultimately show ?thesis using assms(2) by (simp add: odmMulticastVlanClear_def ports_of_def done_ok_def)
qed

lemma valid_host_ports: "\<forall>p\<in>set host_ports. IS_VALID_PORT_ID p"
  by (simp add: host_ports_def IS_VALID_PORT_ID_def ODM_START_PORT_NUN_def ODM_NUM_OF_PORTS_def)

text \<open>What the start does not change.\<close>

definition base :: "mc_sys \<Rightarrow> _" where
  "base s = (mcb s, mcVlanMap s, mcTagOperPerPort s, mc_timers s, mc_cfg s)"

lemma base_frame [simp]: "base (mc_log c s) = base s" "base (count_free s) = base s" "base (dalMcGroupDel k s) = base s"
  "base (s\<lparr> mcGroupList := gs, mcGroupTotalNum := n \<rparr>) = base s"
  by (simp_all add: base_def mc_log_def count_free_def with_stats_def dalMcGroupDel_def split: prod.split)

lemma base_destroy: "base (mcGroupListDestory s) = base s"
proof -
  have "base (fold (\<lambda>_. count_free) hs t) = base t" for hs :: "MC_HOST_t list" and t by (rule fold_kept) simp
  then have "base (fold (\<lambda>g. count_free \<circ> fold (\<lambda>_. count_free) (hostList g)) gs t) = base t" for gs t by (intro fold_kept) simp
  then show ?thesis by (simp add: mcGroupListDestory_def)
qed

lemma clear_entries:
  assumes "mcVlanMap s = (\<lambda>_. 0)"
  shows "\<exists>s'. odmMulticastControlEntryClear s = Some (OPL_OK, s') \<and> base s' = base s \<and> mcGroupList s' = [] \<and> mcGroupTotalNum s' = 0"
proof -
  define t where "t = mc_log DalMulticastRuleDelAll s"
  define u where "u = mcGroupListDestory (fold (\<lambda>g. dalMcGroupDel (group_key g)) (mcGroupList t) t)"
  have u: "base u = base s" "mcGroupList u = []" "mcGroupTotalNum u = 0"
    unfolding u_def by (simp_all add: base_destroy fold_kept [where q = base] t_def) (simp_all add: mcGroupListDestory_def)
  then have "mcVlanMap u = (\<lambda>_. 0)" using assms by (simp add: base_def)
  then have "each_ignoring odmMulticastVlanClear host_ports u = Some u"
    using valid_host_ports clear_no_vlans by (intro each_idle) blast
  then have "odmMulticastControlEntryClear s = Some (OPL_OK, u)"
    by (simp add: odmMulticastControlEntryClear_def t_def [symmetric] u_def [symmetric] done_ok_def)
  then show ?thesis using u by blast
qed

text \<open>What the settings of the ports do not change.\<close>

definition rest :: "mc_sys \<Rightarrow> _" where
  "rest s = ((mcb s)\<lparr> maxGroupNum := (\<lambda>_. 0) \<rparr>, mcGroupList s, mcGroupTotalNum s, mc_timers s, mc_cfg s)"

lemma rest_frame [simp]:
  "rest (mc_log c s) = rest s" "rest (mcVlanMapAdd p v s) = rest s" "rest (mcTagOperPerPortSet p t s) = rest s"
  "rest (snd (mcTagTranslationTableAdd p v u s)) = rest s" "rest (dalMcTagTranslationAdd p v u s) = rest s"
  "rest (with_mcb (\<lambda>cb. cb\<lparr> maxGroupNum := f cb \<rparr>) s) = rest s"
  by (simp_all add: rest_def mc_log_def mcVlanMapAdd_def mcTagOperPerPortSet_def mcTagTranslationTableAdd_def dalMcTagTranslationAdd_def
      with_mcb_def split: option.split)

lemma rest_dal [simp]: "rest (dalMcVlanMapAdd p v s) = rest s" "rest (dalMcTagOperSet p t s) = rest s"
  by (simp_all add: dalMcVlanMapAdd_def dalMcTagOperSet_def dalMcVlanInXxxModeSetAction_def dalMcVlanInXxxModeClear_def Let_def
      fold_kept [where q = rest])

lemma rest_vlans: "start_vlans p s = Some s' \<Longrightarrow> rest s' = rest s"
proof -
  have "each_ignoring (start_vlan p) xs s = Some s' \<Longrightarrow> rest s' = rest s" for xs
    by (rule each_ignoring_kept [where Q = "\<lambda>t. rest t = rest s"]) (auto simp: start_vlan_def Let_def split: if_splits)
  then show "start_vlans p s = Some s' \<Longrightarrow> rest s' = rest s" by (auto simp: start_vlans_def split: option.splits if_splits)
qed

lemma rest_translations: "rest (snd (start_translations p js s)) = rest s"
proof (induction js arbitrary: s)
  case (Cons j js)
  have "rest t = rest s" if "mcTagTranslationTableAdd p j u (dalMcTagTranslationAdd p j u s) = (r, t)" for r t u
    using that rest_frame(4) [of p j u "dalMcTagTranslationAdd p j u s"] by simp
  then show ?case using Cons by (auto simp: Let_def split: prod.split)
qed simp

definition stored_ok :: "u32 \<Rightarrow> mc_sys \<Rightarrow> bool" where
  "stored_ok p s \<longleftrightarrow> (\<exists>vs. stored_vlans p s = (if vs = [] then None else Some (vlan_list vs)) \<and> (\<forall>v\<in>set vs. 1 \<le> v \<and> v \<le> 4095)
     \<and> length (vlan_list vs) < BIG_BUF_LEN)"

lemma start_ports_ok:
  assumes "\<forall>p\<in>set ps. IS_VALID_PORT_ID p \<and> stored_ok p s"
  shows "\<exists>r s'. start_ports ps s = Some (r, s') \<and> rest s' = rest s"
  using assms
proof (induction ps arbitrary: s)
  case (Cons p ps)
  then obtain vs where vs: "stored_vlans p s = (if vs = [] then None else Some (vlan_list vs))" "\<forall>v\<in>set vs. 1 \<le> v \<and> v \<le> 4095"
    "length (vlan_list vs) < BIG_BUF_LEN" by (auto simp: stored_ok_def)
  from start_list [of p vs s] obtain t where "each_ignoring (start_vlan p) (map num_text vs) s = Some t" using Cons.prems vs(2) by auto
  then have t: "start_vlans p s = Some t" using vs by (auto simp: start_vlans_def tokens_vlan_list)
  let ?g = "mc_get_u32 (port_section p) CFGKEY_MULTICAST_IGMP_PORT_TAGSTRIP MC_TAG_OPER_MODE_TRANSPARENT t"
  obtain r u where u: "start_translations p vlan_ids (mcTagOperPerPortSet p ?g (dalMcTagOperSet p ?g t)) = (r, u)" by (meson surj_pair)
  have ru: "rest u = rest s" using rest_vlans [OF t] rest_translations [of p vlan_ids] u by (metis rest_dal(2) rest_frame(3) snd_conv)
  let ?u = "with_mcb (\<lambda>cb. cb\<lparr> maxGroupNum := (maxGroupNum cb)(p :=
    mc_get_u32 (port_section p) CFGKEY_MULTICAST_IGMP_PORT_MAX_GROUP_NUM (maxGroupNum cb p) u) \<rparr>) u"
  have eq: "start_ports (p # ps) s = (if r \<noteq> OPL_OK then Some (r, u) else start_ports ps ?u)" using t u by (simp add: Let_def)
  have "mc_cfg ?u = mc_cfg s" using ru by (simp add: rest_def with_mcb_def)
  then have "\<forall>p\<in>set ps. IS_VALID_PORT_ID p \<and> stored_ok p ?u" using Cons.prems by (simp add: stored_ok_def stored_get)
  from Cons.IH [OF this] show ?case unfolding eq using ru by auto
qed simp

definition igmp_setting :: "string \<Rightarrow> u32 \<Rightarrow> mc_sys \<Rightarrow> u32" where
  "igmp_setting key dflt s = mc_get_u32 CFGSECTION_MULTICAST_IGMP_MANAGEMENT key dflt s"

lemma get_u32: "mc_get_u32 sec key d s = (case config_get (CFGFILE_MULTICAST, sec, key) (mc_cfg s) of None \<Rightarrow> d | Some v \<Rightarrow> strtoul0 v)"
  by (simp add: mc_get_u32_def vosConfigUInt32Get_def config_get_def)

lemma put_u32:
  assumes "mc_cfg s \<noteq> None" "config_ok (mc_cfg s)" "roomy (mc_cfg s) CFGFILE_MULTICAST sec"
  shows "\<exists>db. mc_put_u32 sec key n s = Some (s\<lparr> mc_cfg := db \<rparr>) \<and> map_option strtoul0 (config_get (CFGFILE_MULTICAST, sec, key) db) = Some n
    \<and> (\<forall>l. l \<noteq> (CFGFILE_MULTICAST, sec, key) \<longrightarrow> config_get l db = config_get l (mc_cfg s))"
proof -
  obtain db where db: "config_put (CFGFILE_MULTICAST, sec, key) (dec_digits (unat n)) (mc_cfg s) = Some db"
    "map_option strtoul0 (config_get (CFGFILE_MULTICAST, sec, key) db) = Some n"
    "\<forall>l. l \<noteq> (CFGFILE_MULTICAST, sec, key) \<longrightarrow> config_get l db = config_get l (mc_cfg s)"
    using store.number [of "mc_cfg s" "(CFGFILE_MULTICAST, sec, key)" n] assms by auto
  have "mc_put_u32 sec key n s = Some (s\<lparr> mc_cfg := db \<rparr>)"
    using db(1) by (auto simp: config_put_def mc_put_u32_def vosConfigUInt32Set_def split: option.splits if_splits)
  then show ?thesis using db(2,3) by blast
qed

lemmas igmp_keys = CFGKEY_MULTICAST_IGMP_MANAGEMENT_IGMP_MODE_def CFGKEY_MULTICAST_IGMP_MANAGEMENT_MODE_def
  CFGKEY_MULTICAST_IGMP_MANAGEMENT_CTC_CONTROL_TYPE_def CFGKEY_MULTICAST_IGMP_MANAGEMENT_LEAVE_MODE_def
  CFGKEY_MULTICAST_IGMP_MANAGEMENT_HOST_AGING_TIME_def CFGKEY_MULTICAST_IGMP_MANAGEMENT_LAST_QUERY_INTERVAL_def
  CFGKEY_MULTICAST_IGMP_MANAGEMENT_LAST_QUERY_COUNT_def

lemma other_igmp_key:
  assumes "\<forall>l. l \<noteq> (CFGFILE_MULTICAST, CFGSECTION_MULTICAST_IGMP_MANAGEMENT, CFGKEY_MULTICAST_IGMP_MANAGEMENT_IGMP_MODE) \<longrightarrow> config_get l db = config_get l (mc_cfg s)"
    "mc_cfg t = db" "key \<noteq> CFGKEY_MULTICAST_IGMP_MANAGEMENT_IGMP_MODE"
  shows "mc_get_u32 CFGSECTION_MULTICAST_IGMP_MANAGEMENT key d t = igmp_setting key d s"
  using assms by (simp add: get_u32 igmp_setting_def)

lemma port_section_other: "port_section p \<noteq> CFGSECTION_MULTICAST_IGMP_MANAGEMENT"
  by (simp add: port_section_def CFGSECTION_MULTICAST_IGMP_PORT_def CFGSECTION_MULTICAST_IGMP_MANAGEMENT_def)

abbreviation igmp_mode_loc :: "string \<times> string \<times> string" where
  "igmp_mode_loc \<equiv> (CFGFILE_MULTICAST, CFGSECTION_MULTICAST_IGMP_MANAGEMENT, CFGKEY_MULTICAST_IGMP_MANAGEMENT_IGMP_MODE)"

text \<open>The start up to the settings: the control block has its defaults, the tables are empty, the reception is disabled.\<close>

lemma start_prepared:
  assumes "mc_cfg s \<noteq> None" "config_ok (mc_cfg s)" "roomy (mc_cfg s) CFGFILE_MULTICAST CFGSECTION_MULTICAST_IGMP_MANAGEMENT" "mc_timers s = []"
  shows "\<exists>t. odmMulticastInit s = start_ports host_ports (start_mode t) \<bind> (\<lambda>(_, u). Some (OPL_OK, with_mcb (\<lambda>cb. cb\<lparr> isInitialized := True \<rparr>) u))
    \<and> mcb t = (mcb (mcControlBlockInit s))\<lparr> mcRecvEn := 0 \<rparr> \<and> mc_timers t = [] \<and> mcGroupList t = [] \<and> mcGroupTotalNum t = 0
    \<and> map_option strtoul0 (config_get igmp_mode_loc (mc_cfg t)) = Some 0 \<and> (\<forall>l. l \<noteq> igmp_mode_loc \<longrightarrow> config_get l (mc_cfg t) = config_get l (mc_cfg s))"
proof -
  define s1 where "s1 = mcRouterPortInit ((mcControlBlockInit s)\<lparr> mcVlanMap := (\<lambda>_. 0), mcTagOperPerPort := (\<lambda>_. 0),
    mcTagTranslationTable := replicate MC_VLAN_TRANSLATION_ENTRY zero_entry \<rparr>)"
  have s1: "mcVlanMap s1 = (\<lambda>_. 0)" "mcb s1 = mcb (mcControlBlockInit s)" "mc_cfg s1 = mc_cfg s" "mc_timers s1 = []"
    using assms(4) by (simp_all add: s1_def mcRouterPortInit_def mcRouterPortAdd_def mcControlBlockInit_def split: option.split)
  obtain s2 where s2: "odmMulticastControlEntryClear s1 = Some (OPL_OK, s2)" "base s2 = base s1" "mcGroupList s2 = []" "mcGroupTotalNum s2 = 0"
    using clear_entries [OF s1(1)] by blast
  define s3 where "s3 = with_mcb (\<lambda>cb. cb\<lparr> mcRecvEn := 0 \<rparr>) (mc_log DalMulticastInit (s2\<lparr> mcControlStats := zero_stats \<rparr>))"
  have s3: "mcb s3 = (mcb (mcControlBlockInit s))\<lparr> mcRecvEn := 0 \<rparr>" "mc_cfg s3 = mc_cfg s" "mc_timers s3 = []" "mcGroupList s3 = []" "mcGroupTotalNum s3 = 0"
    using s1 s2 by (simp_all add: s3_def with_mcb_def mc_log_def base_def)
  obtain db where db: "mc_put_u32 CFGSECTION_MULTICAST_IGMP_MANAGEMENT CFGKEY_MULTICAST_IGMP_MANAGEMENT_IGMP_MODE 0 s3 = Some (s3\<lparr> mc_cfg := db \<rparr>)"
    "map_option strtoul0 (config_get igmp_mode_loc db) = Some 0" "\<forall>l. l \<noteq> igmp_mode_loc \<longrightarrow> config_get l db = config_get l (mc_cfg s)"
    using put_u32 [of s3 CFGSECTION_MULTICAST_IGMP_MANAGEMENT CFGKEY_MULTICAST_IGMP_MANAGEMENT_IGMP_MODE 0] assms(1-3) s3(2) by auto
  let ?t = "mc_log DalMulticastDisable (s3\<lparr> mc_cfg := db \<rparr>)"
  have "mcInitFromConfigFile (mc_log DalMulticastInit (s2\<lparr> mcControlStats := zero_stats \<rparr>)) = start_ports host_ports (start_mode ?t)"
    using db(1) by (simp add: mcInitFromConfigFile_def s3_def [symmetric])
  then have "odmMulticastInit s = start_ports host_ports (start_mode ?t) \<bind> (\<lambda>(_, u). Some (OPL_OK, with_mcb (\<lambda>cb. cb\<lparr> isInitialized := True \<rparr>) u))"
    using s2(1) by (simp add: odmMulticastInit_def s1_def)
  then show ?thesis using s3 db(2,3) by (intro exI [of _ ?t]) (simp add: mc_log_def)
qed

lemma start_mode_fields:
  "mcMode (mcb (start_mode t)) = mc_get_u32 CFGSECTION_MULTICAST_IGMP_MANAGEMENT CFGKEY_MULTICAST_IGMP_MANAGEMENT_MODE (mcMode (mcb t)) t"
  "leaveMode (mcb (start_mode t)) = mc_get_u32 CFGSECTION_MULTICAST_IGMP_MANAGEMENT CFGKEY_MULTICAST_IGMP_MANAGEMENT_LEAVE_MODE (leaveMode (mcb t)) t"
  "cb_hostAgingTime (mcb (start_mode t)) =
     mc_get_u32 CFGSECTION_MULTICAST_IGMP_MANAGEMENT CFGKEY_MULTICAST_IGMP_MANAGEMENT_HOST_AGING_TIME (cb_hostAgingTime (mcb t)) t"
  "lastQueryInterval (mcb (start_mode t)) =
     mc_get_u32 CFGSECTION_MULTICAST_IGMP_MANAGEMENT CFGKEY_MULTICAST_IGMP_MANAGEMENT_LAST_QUERY_INTERVAL (lastQueryInterval (mcb t)) t"
  "lastQueryCount (mcb (start_mode t)) =
     mc_get_u32 CFGSECTION_MULTICAST_IGMP_MANAGEMENT CFGKEY_MULTICAST_IGMP_MANAGEMENT_LAST_QUERY_COUNT (lastQueryCount (mcb t)) t"
  "mcRecvEn (mcb (start_mode t)) = mcRecvEn (mcb t)"
  by (simp_all add: start_mode_def Let_def)

lemma start_mode_snooping: "mcMode (mcb (start_mode t)) = MC_MODE_SNOOPING \<Longrightarrow> snoop_cfg (mcb (start_mode t))"
  by (simp add: start_mode_def Let_def snoop_cfg_def split: if_splits)

text \<open>C17: The start of the multicast control takes leave mode, ageing time, query settings and mode from the configuration
  file (or the defaults), empties the group table, and makes the tables fit for snooping when this is the mode. It
  always disables the reception of IGMP messages, and overwrites the setting in the file: an enabled reception does
  not survive a restart.\<close>

theorem settings_restored_at_start:
  assumes "mc_cfg s \<noteq> None" "config_ok (mc_cfg s)" "roomy (mc_cfg s) CFGFILE_MULTICAST CFGSECTION_MULTICAST_IGMP_MANAGEMENT"
    "\<forall>p\<in>set host_ports. stored_ok p s" "mc_timers s = []"
  shows "\<exists>s'. odmMulticastInit s = Some (OPL_OK, s') \<and> mcGroupList s' = [] \<and> isInitialized (mcb s')
    \<and> leaveMode (mcb s') = igmp_setting CFGKEY_MULTICAST_IGMP_MANAGEMENT_LEAVE_MODE MC_LEAVE_MODE_FAST s
    \<and> cb_hostAgingTime (mcb s') = igmp_setting CFGKEY_MULTICAST_IGMP_MANAGEMENT_HOST_AGING_TIME IGMP_HOST_AGING_TIME_DEFAULT s
    \<and> lastQueryInterval (mcb s') = igmp_setting CFGKEY_MULTICAST_IGMP_MANAGEMENT_LAST_QUERY_INTERVAL LAST_MEMBER_QUERY_INTERVAL_DEFAULT s
    \<and> lastQueryCount (mcb s') = igmp_setting CFGKEY_MULTICAST_IGMP_MANAGEMENT_LAST_QUERY_COUNT LAST_MEMBER_QUERY_COUNT_DEFAULT s
    \<and> mcMode (mcb s') = igmp_setting CFGKEY_MULTICAST_IGMP_MANAGEMENT_MODE MC_MODE_SNOOPING s
    \<and> (mcMode (mcb s') = MC_MODE_SNOOPING \<longrightarrow> fresh_tables s')
    \<and> mcRecvEn (mcb s') = 0 \<and> igmp_setting CFGKEY_MULTICAST_IGMP_MANAGEMENT_IGMP_MODE 1 s' = 0"
proof -
  obtain t where t: "odmMulticastInit s = start_ports host_ports (start_mode t) \<bind> (\<lambda>(_, u). Some (OPL_OK, with_mcb (\<lambda>cb. cb\<lparr> isInitialized := True \<rparr>) u))"
    "mcb t = (mcb (mcControlBlockInit s))\<lparr> mcRecvEn := 0 \<rparr>" "mc_timers t = []" "mcGroupList t = []" "mcGroupTotalNum t = 0"
    "map_option strtoul0 (config_get igmp_mode_loc (mc_cfg t)) = Some 0" "\<forall>l. l \<noteq> igmp_mode_loc \<longrightarrow> config_get l (mc_cfg t) = config_get l (mc_cfg s)"
    using start_prepared [OF assms(1-3,5)] by blast
  have fr: "mc_cfg (start_mode t) = mc_cfg t" "mc_timers (start_mode t) = []" "mcGroupList (start_mode t) = []" "mcGroupTotalNum (start_mode t) = 0"
    using t(3-5) by (simp_all add: start_mode_def Let_def)
  have "\<forall>p\<in>set host_ports. IS_VALID_PORT_ID p \<and> stored_ok p (start_mode t)"
    using assms(4) valid_host_ports t(7) port_section_other by (simp add: stored_ok_def stored_get vlan_loc_def fr(1))
  from start_ports_ok [OF this] obtain r u where u: "start_ports host_ports (start_mode t) = Some (r, u)" "rest u = rest (start_mode t)" by blast
  have eq: "(mcb u)\<lparr> maxGroupNum := (\<lambda>_. 0) \<rparr> = (mcb (start_mode t))\<lparr> maxGroupNum := (\<lambda>_. 0) \<rparr>" using u(2) by (simp add: rest_def)
  note fields = arg_cong [OF eq, of mcMode, simplified] arg_cong [OF eq, of leaveMode, simplified] arg_cong [OF eq, of cb_hostAgingTime, simplified]
    arg_cong [OF eq, of lastQueryInterval, simplified] arg_cong [OF eq, of lastQueryCount, simplified] arg_cong [OF eq, of mcRecvEn, simplified]
    arg_cong [OF eq, of mc_bitmap, simplified] arg_cong [OF eq, of hostBitmap, simplified]
  note key = other_igmp_key [OF t(7) refl]
  have get: "mc_get_u32 CFGSECTION_MULTICAST_IGMP_MANAGEMENT k d t = igmp_setting k d s" if "k \<noteq> CFGKEY_MULTICAST_IGMP_MANAGEMENT_IGMP_MODE" for k d
    using key [OF that] .
  let ?s = "with_mcb (\<lambda>cb. cb\<lparr> isInitialized := True \<rparr>) u"
  have rs: "mc_cfg ?s = mc_cfg t" "mc_timers ?s = []" "mcGroupList ?s = []" "mcGroupTotalNum ?s = 0"
    using u(2) fr by (simp_all add: rest_def with_mcb_def)
  have "odmMulticastInit s = Some (OPL_OK, ?s)" using t(1) u(1) by simp
  moreover have "igmp_setting CFGKEY_MULTICAST_IGMP_MANAGEMENT_IGMP_MODE 1 ?s = 0"
    using t(6) rs(1) by (auto simp: igmp_setting_def get_u32)
  moreover have "fresh_tables ?s" if "mcMode (mcb ?s) = MC_MODE_SNOOPING"
    using that rs fields start_mode_snooping [of t] by (simp add: fresh_tables_def snoop_cfg_def with_mcb_def)
  ultimately show ?thesis using rs(3) fields
    by (intro exI [of _ ?s]) (simp add: with_mcb_def start_mode_fields get igmp_keys t(2) mcControlBlockInit_def)
qed

theorem settings_restored_at_start_witness:
  "\<exists>s'. odmMulticastInit plain_mc = Some (OPL_OK, s') \<and> leaveMode (mcb s') = MC_LEAVE_MODE_FAST \<and> mcRecvEn (mcb s') = 0 \<and> fresh_tables s'"
proof -
  have h: "vosHashValue k (string_table :: (string, CFG_MODULE_DATA_t) hash_table) = None" for k
    using fun_cong [OF string_table_ok(2) [where 'a = CFG_MODULE_DATA_t], of k] by (simp add: hash_map_def)
  have cfg: "mc_cfg plain_mc = Some string_table" "mc_timers plain_mc = []" by (simp_all add: plain_mc_def sample_mc_def)
  have "stored_ok p plain_mc" if "p \<in> set host_ports" for p
    using plain_vlans_kept(1) [of p] valid_host_ports that unfolding stored_ok_def
    by (intro exI [of _ "[]"]) (auto simp: vlans_kept_def BIG_BUF_LEN_def)
  moreover have "config_ok (Some string_table)" "roomy (Some string_table) CFGFILE_MULTICAST CFGSECTION_MULTICAST_IGMP_MANAGEMENT"
    by (simp_all add: config_ok_def string_table_ok roomy_def tmodule_of_def tsection_of_def h HASH_CAPACITY_def threshold_of_def)
  moreover have "igmp_setting k d plain_mc = d" for k d
    by (simp add: igmp_setting_def mc_get_u32_def vosConfigUInt32Get_def vosConfigValueGet_def tkey_of_def tsection_of_def tmodule_of_def cfg h)
  ultimately show ?thesis using settings_restored_at_start [of plain_mc] cfg by auto
qed

subsection \<open>Soundness under management\<close>

text \<open>C11: Whatever frames, timers and seconds follow the start of the snooping, and whatever limits of groups, ageing
  times, leave modes, query settings, VLANs and translations the management sets in between: no two groups agree in port and
  address, no group is without hosts, no two hosts of a group have the same address, the counters of
  groups and hosts are right, no port has more groups than it may have, and no host has more time left than
  the ageing time.
\<close>

theorem snooping_tables_sound:
  assumes "fresh_tables s" "run_events (mc_manage e respin) acts s = Some s'"
  shows "distinct (map gid (mcGroupList s')) \<and> mcGroupTotalNum s' = of_nat (length (mcGroupList s'))
    \<and> (\<forall>g\<in>set (mcGroupList s'). hostList g \<noteq> [] \<and> distinct (map h_srcIp (hostList g))
         \<and> hostTotalNum g = of_nat (length (hostList g)) \<and> (\<forall>h\<in>set (hostList g). h_hostAgingTime h \<le> cb_hostAgingTime (mcb s')))
    \<and> (\<forall>p. length (filter (\<lambda>g. hostPortId g = p) (mcGroupList s')) \<le> unat (maxGroupNum (mcb s') p))"
  using managed.run_kept [OF assms(2) fresh_inv [OF assms(1)]]
  by (simp add: snoop_inv_def mc_inv_def groups_ok_def group_ok_def)

theorem snooping_tables_sound_witness:
  "\<exists>s'. run_events (mc_manage sample_env False) [Traffic (report_of 1 0xE1010203 5), Traffic (report_of 1 0xE1010204 6), Set_group_limit 1 1, Set_ageing_time 7]
       (sample_mc MC_LEAVE_MODE_FAST) = Some s'
    \<and> mcGroupTotalNum s' = 1 \<and> distinct (map gid (mcGroupList s'))"
proof -
  let ?as = "[Traffic (report_of 1 0xE1010203 5), Traffic (report_of 1 0xE1010204 6), Set_group_limit 1 1, Set_ageing_time 7]"
  have "case run_events (mc_manage sample_env False) ?as (sample_mc MC_LEAVE_MODE_FAST) of None \<Rightarrow> False | Some s' \<Rightarrow> mcGroupTotalNum s' = 1" by code_simp
  then obtain s' where "run_events (mc_manage sample_env False) ?as (sample_mc MC_LEAVE_MODE_FAST) = Some s'" "mcGroupTotalNum s' = 1"
    by (auto split: option.splits)
  then show ?thesis using snooping_tables_sound [OF sample_fresh] by blast
qed

subsection \<open>Control entries\<close>

definition mac_control :: "mc_sys \<Rightarrow> bool" where
  "mac_control s \<longleftrightarrow> mcMode (mcb s) = MC_MODE_CTC \<and> ctcControlType (mcb s) = MC_CTL_GDA_MAC \<and> mc_bitmap (mcb s) = CTC_CONTROL_BITMAP_GDA_MAC"

lemmas control_types = MC_CTL_GDA_MAC_def MC_CTL_GDA_MAC_VID_def MC_CTL_GDA_GDA_IP_VID_def

lemma compare_new:
  "group_compare CTC_CONTROL_BITMAP_GDA_MAC (p, mac, a, v) (set_key (p, mac, a, v) st CTC_CONTROL_BITMAP_GDA_MAC zero_group)"
  by (simp add: group_compare_def set_key_def CTC_CONTROL_BITMAP_GDA_MAC_def mc_bits bit_if_def)

text \<open>C34: In the mode of control by group MAC address, an entry that was not there is added with success and
  deleted again: groups, their number and the switch are as before. But the deletion answers an error.\<close>

theorem control_entry_deleted_with_error:
  assumes "mac_control s" "IS_VALID_PORT_ID p" "IS_VALID_VLAN_ID v" "mcGroupListGet (p, mac, 0, v) CTC_CONTROL_BITMAP_GDA_MAC s = None"
  shows "\<exists>s1 s2. odmMulticastControlEntryAdd p v mac s = Some (OPL_OK, s1) \<and> mcGroupTotalNum s1 = mcGroupTotalNum s + 1
    \<and> mcGroupListGet (p, mac, 0, v) CTC_CONTROL_BITMAP_GDA_MAC s1 \<noteq> None
    \<and> odmMulticastControlEntryDelete p v mac s1 = Some (OPL_ERROR, s2) \<and> mcGroupList s2 = mcGroupList s \<and> mcGroupTotalNum s2 = mcGroupTotalNum s
    \<and> mc_calls s2 = mc_calls s @ [DalArlMultiPortMacAdd p mac v, DalArlMultiPortMacDel p mac v]"
proof -
  let ?g = "set_key (p, mac, 0, v) GROUP_STATE_CONFIG_BY_OAM CTC_CONTROL_BITMAP_GDA_MAC zero_group"
  let ?s = "snd (odmMcGroupAdd (p, mac, 0, v) GROUP_STATE_CONFIG_BY_OAM CTC_CONTROL_BITMAP_GDA_MAC s)"
  have m: "mcMode (mcb s) = MC_MODE_CTC" "ctcControlType (mcb s) = MC_CTL_GDA_MAC" "mc_bitmap (mcb s) = CTC_CONTROL_BITMAP_GDA_MAC"
    using assms(1) by (simp_all add: mac_control_def)
  have s: "mcGroupList ?s = ?g # mcGroupList s" "mcGroupTotalNum ?s = mcGroupTotalNum s + 1" "mcb ?s = mcb s"
    "mc_calls ?s = mc_calls s @ [DalArlMultiPortMacAdd p mac v]"
    using assms(4) m by (simp_all add: odmMcGroupAdd_def mcGroupListAdd_def mcGroupListGet_def dalMcGroupAdd_def mc_log_def count_alloc_def
        with_stats_def dal_group_mac_def)
  have add: "odmMulticastControlEntryAdd p v mac s = Some (OPL_OK, ?s)"
    using assms(2,3) m by (simp add: odmMulticastControlEntryAdd_def null_mac_read_def entry_key_def odmMcGroupAdd_def with_vlan_def s(3) [unfolded odmMcGroupAdd_def, simplified]
        control_types)
  have get: "mcGroupListGet (p, mac, 0, v) CTC_CONTROL_BITMAP_GDA_MAC ?s = Some 0" by (simp add: mcGroupListGet_def s(1) compare_new)
  have key: "group_key ?g = (p, mac, 0, v)" "hostList ?g = []"
    by (simp_all add: set_key_def group_key_def zero_group_def CTC_CONTROL_BITMAP_GDA_MAC_def mc_bits)
  let ?d = "odmMcGroupDel (p, mac, 0, v) CTC_CONTROL_BITMAP_GDA_MAC ?s"
  have d: "fst ?d = OPL_OK" "mcGroupList (snd ?d) = mcGroupList s" "mcGroupTotalNum (snd ?d) = mcGroupTotalNum s" "mcb (snd ?d) = mcb s"
    "mc_calls (snd ?d) = mc_calls s @ [DalArlMultiPortMacAdd p mac v, DalArlMultiPortMacDel p mac v]"
    using get m s by (simp_all add: odmMcGroupDel_def mcGroupListDel_def mcGroupListGet_def dalMcGroupDel_def mc_log_def count_free_def
        with_stats_def del_at_def dal_group_mac_def)
  have "odmMulticastControlEntryDelete p v mac ?s = Some (OPL_ERROR, snd ?d)"
    using assms(2,3) m s(1,3) get key d(1,4)
    by (cases ?d) (simp add: odmMulticastControlEntryDelete_def null_mac_read_def entry_key_def with_vlan_def mcGroupListHostListEmpty_def control_types)
  then show ?thesis using add get s d by blast
qed

definition ctc_mc :: mc_sys where
  "ctc_mc = (sample_mc MC_LEAVE_MODE_FAST)\<lparr> mcb := (sample_cb MC_LEAVE_MODE_FAST)\<lparr> mcMode := MC_MODE_CTC, ctcControlType := MC_CTL_GDA_MAC,
     mc_bitmap := CTC_CONTROL_BITMAP_GDA_MAC \<rparr> \<rparr>"

theorem control_entry_deleted_with_error_witness:
  "\<exists>s1 s2. odmMulticastControlEntryAdd 1 100 [1, 0, 94, 1, 2, 3] ctc_mc = Some (OPL_OK, s1) \<and> mcGroupTotalNum s1 = 1
    \<and> odmMulticastControlEntryDelete 1 100 [1, 0, 94, 1, 2, 3] s1 = Some (OPL_ERROR, s2) \<and> mcGroupList s2 = []"
proof -
  have "mac_control ctc_mc" "IS_VALID_VLAN_ID 100" by (simp_all add: mac_control_def ctc_mc_def IS_VALID_VLAN_ID_def)
  moreover have "mcGroupListGet (1, [1, 0, 94, 1, 2, 3], 0, 100) CTC_CONTROL_BITMAP_GDA_MAC ctc_mc = None" "mcGroupTotalNum ctc_mc = 0" "mcGroupList ctc_mc = []"
    by (simp_all add: mcGroupListGet_def ctc_mc_def sample_mc_def)
  ultimately show ?thesis using control_entry_deleted_with_error [of ctc_mc 1 100 "[1, 0, 94, 1, 2, 3]"] port_1 by fastforce
qed

end
