(* ===== verification/Cl_List.thy ===== *)
theory Cl_List
  imports Vos_Events "HOL-Library.Monad_Syntax" "HOL-Library.Multiset"
begin

text \<open>
  The doubly linked lists of the multicast control (\<^verbatim>\<open>multicast/src/opapi_comm_list.c\<close>) on an explicit store: a
  map from addresses to nodes. A pointer is an address or null (\<open>None\<close>); the result \<open>None\<close> of a function is an
  access through a null or dangling pointer, or a loop without end. \<open>vosAlloc\<close> is a parameter, the choice of the
  address of a new node; when it gives none, \<^verbatim>\<open>memset\<close> writes through the null pointer. A data pointer is a value
  of type \<open>'d\<close>; comparison is by identity.
\<close>

record 'd clList =
  cl_data :: 'd
  cl_next :: "nat option"
  cl_prev :: "nat option"

type_synonym 'd store = "nat \<Rightarrow> 'd clList option"

definition set_node :: "nat \<Rightarrow> ('d clList \<Rightarrow> 'd clList) \<Rightarrow> 'd store \<Rightarrow> 'd store option" where
  "set_node a f h = do { n \<leftarrow> h a; Some (h(a \<mapsto> f n)) }"

definition vosFree :: "nat \<Rightarrow> 'd store \<Rightarrow> 'd store" where
  "vosFree a h = h(a := None)"

subsection \<open>Operations\<close>

partial_function (option) last_loop :: "'d store \<Rightarrow> nat \<Rightarrow> nat option" where
  "last_loop h a = do { n \<leftarrow> h a; case cl_next n of None \<Rightarrow> Some a | Some b \<Rightarrow> last_loop h b }"

definition clListLast :: "nat option \<Rightarrow> 'd store \<Rightarrow> nat option option" where
  "clListLast list h = (case list of None \<Rightarrow> Some None | Some a \<Rightarrow> map_option Some (last_loop h a))"

definition new_node :: "'d \<Rightarrow> 'd clList" where
  "new_node data = \<lparr> cl_data = data, cl_next = None, cl_prev = None \<rparr>"

definition clListInsert :: "('d store \<Rightarrow> nat option) \<Rightarrow> nat option \<Rightarrow> 'd \<Rightarrow> 'd store \<Rightarrow> (nat option \<times> 'd store) option" where
  "clListInsert vosAlloc list data h =
     do {
       new_list \<leftarrow> vosAlloc h;
       let h = h(new_list \<mapsto> new_node data);
       case list of
           None \<Rightarrow> Some (Some new_list, h)
         | Some a \<Rightarrow> do {
             h \<leftarrow> set_node new_list (\<lambda>n. n\<lparr> cl_next := list \<rparr>) h;
             h \<leftarrow> set_node a (\<lambda>n. n\<lparr> cl_prev := Some new_list \<rparr>) h;
             Some (Some new_list, h) } }"

definition clListAppend :: "('d store \<Rightarrow> nat option) \<Rightarrow> nat option \<Rightarrow> 'd \<Rightarrow> 'd store \<Rightarrow> (nat option \<times> 'd store) option" where
  "clListAppend vosAlloc list data h =
     do {
       new_list \<leftarrow> vosAlloc h;
       let h = h(new_list \<mapsto> new_node data);
       case list of
           None \<Rightarrow> Some (Some new_list, h)
         | Some a \<Rightarrow> do {
             last \<leftarrow> clListLast list h;
             l \<leftarrow> last;
             h \<leftarrow> set_node l (\<lambda>n. n\<lparr> cl_next := Some new_list \<rparr>) h;
             h \<leftarrow> set_node new_list (\<lambda>n. n\<lparr> cl_prev := last \<rparr>) h;
             Some (list, h) } }"

definition unlink :: "nat option \<Rightarrow> nat \<Rightarrow> 'd store \<Rightarrow> (nat option \<times> 'd store) option" where
  "unlink list tmp h = do {
     n \<leftarrow> h tmp;
     h \<leftarrow> (case cl_prev n of None \<Rightarrow> Some h | Some p \<Rightarrow> set_node p (\<lambda>m. m\<lparr> cl_next := cl_next n \<rparr>) h);
     n \<leftarrow> h tmp;
     h \<leftarrow> (case cl_next n of None \<Rightarrow> Some h | Some q \<Rightarrow> set_node q (\<lambda>m. m\<lparr> cl_prev := cl_prev n \<rparr>) h);
     n \<leftarrow> h tmp;
     Some (if list = Some tmp then cl_next n else list, vosFree tmp h) }"

partial_function (option) remove_loop :: "nat option \<Rightarrow> nat option \<Rightarrow> 'd \<Rightarrow> 'd store \<Rightarrow> (nat option \<times> 'd store) option" where
  "remove_loop list tmp data h =
     (case tmp of
        None \<Rightarrow> Some (list, h)
      | Some t \<Rightarrow> do { n \<leftarrow> h t; if cl_data n \<noteq> data then remove_loop list (cl_next n) data h else unlink list t h })"

definition clListRemove :: "nat option \<Rightarrow> 'd \<Rightarrow> 'd store \<Rightarrow> (nat option \<times> 'd store) option" where
  "clListRemove list data h = remove_loop list list data h"

partial_function (option) clListNth :: "nat option \<Rightarrow> int \<Rightarrow> 'd store \<Rightarrow> nat option option" where
  "clListNth list n h =
     (if 0 < n then (case list of None \<Rightarrow> Some None | Some a \<Rightarrow> do { m \<leftarrow> h a; clListNth (cl_next m) (n - 1) h }) else Some list)"

text \<open>The data of the empty list is a null pointer.\<close>

definition clListNthData :: "nat option \<Rightarrow> int \<Rightarrow> 'd store \<Rightarrow> 'd option option" where
  "clListNthData list n h =
     (if list = None then Some None else do { tmp \<leftarrow> clListNth list n h; a \<leftarrow> tmp; m \<leftarrow> h a; Some (Some (cl_data m)) })"

partial_function (option) clListFree :: "nat option \<Rightarrow> 'd store \<Rightarrow> 'd store option" where
  "clListFree list h = (case list of None \<Rightarrow> Some h | Some a \<Rightarrow> do { n \<leftarrow> h a; clListFree (cl_next n) (vosFree a h) })"

partial_function (option) position_loop :: "nat option \<Rightarrow> nat option \<Rightarrow> int \<Rightarrow> 'd store \<Rightarrow> int option" where
  "position_loop list link i h =
     (case list of
        None \<Rightarrow> Some (- 1)
      | Some a \<Rightarrow> if list = link then Some i else do { n \<leftarrow> h a; position_loop (cl_next n) link (i + 1) h })"

definition clListPosition :: "nat option \<Rightarrow> nat option \<Rightarrow> 'd store \<Rightarrow> int option" where
  "clListPosition list link h = position_loop list link 0 h"

partial_function (option) len_loop :: "nat option \<Rightarrow> nat \<Rightarrow> 'd store \<Rightarrow> nat option" where
  "len_loop tmp i h = (case tmp of None \<Rightarrow> Some i | Some a \<Rightarrow> do { n \<leftarrow> h a; len_loop (cl_next n) (Suc i) h })"

definition clListLen :: "nat option \<Rightarrow> 'd store \<Rightarrow> nat option" where
  "clListLen list h = len_loop list 0 h"

text \<open>The inner loop of the sort with \<open>k\<close> comparisons to go, and the outer one.\<close>

fun bubble :: "('d \<Rightarrow> 'd \<Rightarrow> int) \<Rightarrow> nat \<Rightarrow> nat \<Rightarrow> 'd store \<Rightarrow> 'd store option" where
  "bubble key_compare 0 node h = Some h"
| "bubble key_compare (Suc k) node h = do {
     n \<leftarrow> h node;
     q \<leftarrow> cl_next n;
     m \<leftarrow> h q;
     h \<leftarrow> (if 0 < key_compare (cl_data n) (cl_data m)
           then do { h \<leftarrow> set_node q (\<lambda>x. x\<lparr> cl_data := cl_data n \<rparr>) h; set_node node (\<lambda>x. x\<lparr> cl_data := cl_data m \<rparr>) h }
           else Some h);
     n \<leftarrow> h node;
     q \<leftarrow> cl_next n;
     bubble key_compare k q h }"

fun bubble_passes :: "('d \<Rightarrow> 'd \<Rightarrow> int) \<Rightarrow> nat \<Rightarrow> nat \<Rightarrow> 'd store \<Rightarrow> 'd store option" where
  "bubble_passes key_compare 0 list h = Some h"
| "bubble_passes key_compare (Suc i) list h = do { h \<leftarrow> bubble key_compare i list h; bubble_passes key_compare i list h }"

definition clListBubbleSort :: "nat option \<Rightarrow> ('d \<Rightarrow> 'd \<Rightarrow> int) option \<Rightarrow> 'd store \<Rightarrow> 'd store option" where
  "clListBubbleSort list key_compare h =
     (case (list, key_compare) of
        (Some a, Some f) \<Rightarrow> do { len \<leftarrow> clListLen list h; if len < 2 then Some h else bubble_passes f len a h }
      | _ \<Rightarrow> Some h)"

subsection \<open>Lists in the store\<close>

text \<open>
  The nodes \<open>xs\<close> (addresses and data) stand in the store one after the other, between the nodes \<open>pr\<close> and \<open>nx\<close>.
\<close>

definition first_of :: "(nat \<times> 'd) list \<Rightarrow> nat option \<Rightarrow> nat option" where
  "first_of xs nx = (case xs of [] \<Rightarrow> nx | (a, _) # _ \<Rightarrow> Some a)"

definition last_of :: "nat option \<Rightarrow> (nat \<times> 'd) list \<Rightarrow> nat option" where
  "last_of pr xs = (if xs = [] then pr else Some (fst (last xs)))"

fun chain :: "'d store \<Rightarrow> nat option \<Rightarrow> (nat \<times> 'd) list \<Rightarrow> nat option \<Rightarrow> bool" where
  "chain h pr [] nx \<longleftrightarrow> True"
| "chain h pr ((a, d) # xs) nx \<longleftrightarrow> h a = Some \<lparr> cl_data = d, cl_next = first_of xs nx, cl_prev = pr \<rparr> \<and> chain h (Some a) xs nx"

definition is_list :: "nat option \<Rightarrow> (nat \<times> 'd) list \<Rightarrow> 'd store \<Rightarrow> bool" where
  "is_list list xs h \<longleftrightarrow> list = first_of xs None \<and> chain h None xs None \<and> distinct (map fst xs)"

lemma first_of_simps [simp]: "first_of [] nx = nx" "first_of ((a, d) # xs) nx = Some a" "first_of (xs @ ys) nx = first_of xs (first_of ys nx)"
  by (auto simp: first_of_def split: list.split)

lemma last_of_simps [simp]: "last_of pr [] = pr" "last_of pr ((a, d) # xs) = last_of (Some a) xs" "last_of pr (xs @ [(a, d)]) = Some a"
  by (auto simp: last_of_def)

lemma chain_append: "chain h pr (xs @ ys) nx \<longleftrightarrow> chain h pr xs (first_of ys nx) \<and> chain h (last_of pr xs) ys nx"
  by (induction h pr xs nx rule: chain.induct) auto

lemma chain_frame: "(\<And>a. a \<in> fst ` set xs \<Longrightarrow> h' a = h a) \<Longrightarrow> chain h' pr xs nx = chain h pr xs nx"
  by (induction h pr xs nx rule: chain.induct) auto

lemma chain_dom: "chain h pr xs nx \<Longrightarrow> a \<in> fst ` set xs \<Longrightarrow> h a \<noteq> None"
  by (induction h pr xs nx rule: chain.induct) auto

text \<open>Changes at the two ends.\<close>

lemma chain_set_prev:
  assumes "chain h pr xs nx" "distinct (map fst xs)" "first_of xs None = Some q"
  shows "\<exists>h'. set_node q (\<lambda>m. m\<lparr> cl_prev := pr' \<rparr>) h = Some h' \<and> chain h' pr' xs nx \<and> (\<forall>a. a \<noteq> q \<longrightarrow> h' a = h a) \<and> dom h' = dom h"
proof -
  obtain d ys where xs: "xs = (q, d) # ys" using assms(3) by (cases xs) (auto simp: first_of_def)
  let ?h = "h(q \<mapsto> \<lparr> cl_data = d, cl_next = first_of ys nx, cl_prev = pr' \<rparr>)"
  have "chain ?h (Some q) ys nx = chain h (Some q) ys nx" using assms(2) xs by (intro chain_frame) auto
  then show ?thesis using assms(1) xs by (intro exI [of _ ?h]) (auto simp: set_node_def)
qed

lemma chain_set_next:
  assumes "chain h pr xs nx" "distinct (map fst xs)" "last_of None xs = Some p"
  shows "\<exists>h'. set_node p (\<lambda>m. m\<lparr> cl_next := nx' \<rparr>) h = Some h' \<and> chain h' pr xs nx' \<and> (\<forall>a. a \<noteq> p \<longrightarrow> h' a = h a) \<and> dom h' = dom h"
proof -
  obtain d ys where xs: "xs = ys @ [(p, d)]" using assms(3) by (cases xs rule: rev_cases) (auto simp: last_of_def)
  let ?h = "h(p \<mapsto> \<lparr> cl_data = d, cl_next = nx', cl_prev = last_of pr ys \<rparr>)"
  have "chain ?h pr ys (Some p) = chain h pr ys (Some p)" using assms(2) xs by (intro chain_frame) auto
  then show ?thesis using assms(1) xs by (intro exI [of _ ?h]) (auto simp: set_node_def chain_append)
qed

subsection \<open>What the operations do\<close>

lemma last_loop_ok: "chain h pr ((a, d) # xs) None \<Longrightarrow> last_loop h a = Some (fst (last ((a, d) # xs)))"
proof (induction xs arbitrary: pr a d)
  case Nil
  then show ?case by (subst last_loop.simps) simp
next
  case (Cons x xs)
  obtain b e where x: "x = (b, e)" by (cases x)
  then show ?case using Cons by (subst last_loop.simps) auto
qed

lemma is_list_dom: "is_list list xs h \<Longrightarrow> h a = None \<Longrightarrow> a \<notin> fst ` set xs"
  unfolding is_list_def using chain_dom by blast

lemma cl_insert_ok:
  assumes "is_list list xs h" "a \<notin> dom h" "vosAlloc h = Some a"
  shows "\<exists>h'. clListInsert vosAlloc list d h = Some (Some a, h') \<and> is_list (Some a) ((a, d) # xs) h' \<and> dom h' = insert a (dom h)"
proof -
  have new: "a \<notin> fst ` set xs" using is_list_dom [OF assms(1)] assms(2) by auto
  show ?thesis
  proof (cases xs)
    case Nil
    then show ?thesis using assms(1,3) by (auto simp: is_list_def clListInsert_def new_node_def Let_def)
  next
    case (Cons x ys)
    obtain b e where x: "x = (b, e)" by (cases x)
    let ?h = "h(a \<mapsto> (new_node d)\<lparr> cl_next := Some b \<rparr>)"
    have "chain ?h None xs None = chain h None xs None" using new by (intro chain_frame) auto
    then have "chain ?h None xs None" "distinct (map fst xs)" "first_of xs None = Some b" using assms(1) Cons x by (auto simp: is_list_def)
    from chain_set_prev [OF this, of "Some a"] obtain h' where h': "set_node b (\<lambda>m. m\<lparr> cl_prev := Some a \<rparr>) ?h = Some h'"
      "chain h' (Some a) xs None" "\<forall>c. c \<noteq> b \<longrightarrow> h' c = ?h c" "dom h' = dom ?h" by blast
    have "clListInsert vosAlloc list d h = Some (Some a, h')"
      using assms(1,3) Cons x h'(1) by (auto simp: is_list_def clListInsert_def Let_def set_node_def)
    moreover have "a \<noteq> b" using new Cons x by auto
    ultimately show ?thesis using h' new assms(1) Cons x by (auto simp: is_list_def new_node_def)
  qed
qed

lemma cl_append_ok:
  assumes "is_list list xs h" "a \<notin> dom h" "vosAlloc h = Some a"
  shows "\<exists>h' list'. clListAppend vosAlloc list d h = Some (list', h') \<and> is_list list' (xs @ [(a, d)]) h' \<and> dom h' = insert a (dom h)"
proof -
  have new: "a \<notin> fst ` set xs" using is_list_dom [OF assms(1)] assms(2) by auto
  show ?thesis
  proof (cases xs)
    case Nil
    then show ?thesis using assms(1,3) by (auto simp: is_list_def clListAppend_def new_node_def Let_def)
  next
    case (Cons x ys)
    obtain b e where x: "x = (b, e)" by (cases x)
    let ?h = "h(a \<mapsto> new_node d)" and ?l = "fst (last xs)"
    have "chain ?h None xs None = chain h None xs None" using new by (intro chain_frame) auto
    then have c: "chain ?h None xs None" "distinct (map fst xs)" "last_of None xs = Some ?l" using assms(1) Cons by (auto simp: is_list_def last_of_def)
    from chain_set_next [OF c, of "Some a"] obtain h1 where h1: "set_node ?l (\<lambda>m. m\<lparr> cl_next := Some a \<rparr>) ?h = Some h1"
      "chain h1 None xs (Some a)" "\<forall>c. c \<noteq> ?l \<longrightarrow> h1 c = ?h c" "dom h1 = dom ?h" by blast
    have "?l \<in> fst ` set xs" using Cons by (metis image_eqI last_in_set list.distinct(1))
    then have al: "a \<noteq> ?l" using new by metis
    have a: "list = Some b" "h1 a = Some (new_node d)" using assms(1) Cons x h1(3) al by (auto simp: is_list_def)
    let ?h2 = "h1(a \<mapsto> \<lparr> cl_data = d, cl_next = None, cl_prev = Some ?l \<rparr>)"
    have "clListLast list ?h = Some (Some ?l)" using last_loop_ok [of ?h None b e ys] c(1) assms(1) Cons x by (simp add: clListLast_def is_list_def)
    then have "clListAppend vosAlloc list d h = Some (list, ?h2)"
      using assms(3) h1(1) a by (simp add: clListAppend_def Let_def set_node_def [of a] new_node_def)
    moreover have "chain ?h2 None xs (Some a) = chain h1 None xs (Some a)" using new by (intro chain_frame) auto
    ultimately show ?thesis using h1 new assms(1) Cons x c(3) by (auto simp: is_list_def chain_append)
  qed
qed

lemma cl_unlink_ok:
  assumes "is_list list (as @ (t, d) # bs) h"
  shows "\<exists>list' h'. unlink list t h = Some (list', h') \<and> is_list list' (as @ bs) h' \<and> dom h' = dom h - {t}"
proof -
  have ch: "chain h None as (Some t)" "h t = Some \<lparr> cl_data = d, cl_next = first_of bs None, cl_prev = last_of None as \<rparr>" "chain h (Some t) bs None"
    and ds: "distinct (map fst as)" "distinct (map fst bs)" "t \<notin> fst ` set as" "t \<notin> fst ` set bs" "fst ` set as \<inter> fst ` set bs = {}"
    using assms by (auto simp: is_list_def chain_append)
  obtain h1 where h1: "(case last_of None as of None \<Rightarrow> Some h | Some p \<Rightarrow> set_node p (\<lambda>m. m\<lparr> cl_next := first_of bs None \<rparr>) h) = Some h1"
    "chain h1 None as (first_of bs None)" "\<forall>a. a \<notin> fst ` set as \<longrightarrow> h1 a = h a" "dom h1 = dom h"
  proof (cases "as = []")
    case False
    then have l: "last_of None as = Some (fst (last as))" "fst (last as) \<in> fst ` set as" by (simp_all add: last_of_def)
    obtain h' where h': "set_node (fst (last as)) (\<lambda>m. m\<lparr> cl_next := first_of bs None \<rparr>) h = Some h'" "chain h' None as (first_of bs None)"
      "\<forall>a. a \<noteq> fst (last as) \<longrightarrow> h' a = h a" "dom h' = dom h" using chain_set_next [OF ch(1) ds(1) l(1)] by blast
    have "\<forall>a. a \<notin> fst ` set as \<longrightarrow> h' a = h a" using h'(3) l(2) by metis
    then show thesis using h' l(1) that by simp
  qed (use that in auto)
  have b1: "chain h1 (Some t) bs None" using ch(3) chain_frame [of bs h1 h] h1(3) ds(5) by (metis disjoint_iff)
  obtain h2 where h2: "(case first_of bs None of None \<Rightarrow> Some h1 | Some q \<Rightarrow> set_node q (\<lambda>m. m\<lparr> cl_prev := last_of None as \<rparr>) h1) = Some h2"
    "chain h2 (last_of None as) bs None" "\<forall>a. a \<notin> fst ` set bs \<longrightarrow> h2 a = h1 a" "dom h2 = dom h1"
  proof (cases bs)
    case (Cons x cs)
    then obtain q e where "bs = (q, e) # cs" by (cases x) auto
    then show thesis using chain_set_prev [OF b1 ds(2), of q "last_of None as"] that by auto
  qed (use that in auto)
  have t: "h1 t = h t" "h2 t = h t" using h1(3) h2(3) ds(3,4) by auto
  have a2: "chain h2 None as (first_of bs None)" using h1(2) chain_frame [of as h2 h1] h2(3) ds(5) by (metis disjoint_iff)
  have "chain (vosFree t h2) None as (first_of bs None)" "chain (vosFree t h2) (last_of None as) bs None"
    using a2 h2(2) ds(3,4) by (subst chain_frame [of _ _ h2]; force simp: vosFree_def)+
  moreover have "unlink list t h = Some (if list = Some t then first_of bs None else list, vosFree t h2)"
    using ch(2) h1(1) h2(1) t by (simp add: unlink_def cong: option.case_cong)
  moreover have "(if list = Some t then first_of bs None else list) = first_of (as @ bs) None"
    using assms ds(3) by (cases as) (auto simp: is_list_def)
  moreover have "dom (vosFree t h2) = dom h - {t}" using h1(4) h2(4) by (simp add: vosFree_def)
  ultimately show ?thesis using ds by (auto simp: is_list_def chain_append)
qed

lemma remove_skip:
  assumes "chain h pr (bs @ ys) None" "\<forall>b\<in>set bs. snd b \<noteq> d"
  shows "remove_loop list (first_of (bs @ ys) None) d h = remove_loop list (first_of ys None) d h"
  using assms
proof (induction bs arbitrary: pr)
  case (Cons b bs)
  obtain a e where b: "b = (a, e)" by (cases b)
  then show ?case using Cons by (subst remove_loop.simps) auto
qed simp

lemma cl_remove_ok:
  assumes "is_list list xs h"
  shows "\<exists>list' xs' h'. clListRemove list d h = Some (list', h') \<and> is_list list' xs' h' \<and> map snd xs' = remove1 d (map snd xs)
    \<and> dom h' - fst ` set xs' = dom h - fst ` set xs"
proof (cases "d \<in> snd ` set xs")
  case False
  then have "remove_loop list (first_of xs None) d h = remove_loop list None d h"
    using remove_skip [of h None xs "[]" d list] assms by (force simp: is_list_def)
  then have "clListRemove list d h = Some (list, h)" using assms remove_loop.simps [of list None d h] by (simp add: clListRemove_def is_list_def)
  then show ?thesis using assms False by (auto simp: remove1_idem)
next
  case True
  then obtain as x bs where x: "xs = as @ x # bs" "snd x = d" "\<forall>y\<in>set as. snd y \<noteq> d" using split_list_first_prop [of xs "\<lambda>x. snd x = d"] by blast
  obtain t where t: "x = (t, d)" using x(2) by (cases x) auto
  have "clListRemove list d h = remove_loop list (Some t) d h"
    using remove_skip [of h None as "x # bs" d list] assms x t by (simp add: clListRemove_def is_list_def)
  also have "\<dots> = unlink list t h" using assms x(1) t by (subst remove_loop.simps) (auto simp: is_list_def chain_append)
  finally have r: "clListRemove list d h = unlink list t h" .
  obtain list' h' where u: "unlink list t h = Some (list', h')" "is_list list' (as @ bs) h'" "dom h' = dom h - {t}"
    using cl_unlink_ok [of list as t d bs h] assms x(1) t by auto
  have "map snd (as @ bs) = remove1 d (map snd xs)" using x t by (auto simp: remove1_append)
  moreover have "dom h' - fst ` set (as @ bs) = dom h - fst ` set xs" using u(3) x(1) t by auto
  ultimately show ?thesis using r u(1,2) by (intro exI [of _ list'] exI [of _ "as @ bs"] exI [of _ h'] conjI) simp_all
qed

lemma cl_len_ok: "chain h pr xs None \<Longrightarrow> len_loop (first_of xs None) i h = Some (i + length xs)"
proof (induction xs arbitrary: pr i)
  case Nil
  then show ?case by (subst len_loop.simps) simp
next
  case (Cons x xs)
  obtain a d where "x = (a, d)" by (cases x)
  then show ?case using Cons by (subst len_loop.simps) auto
qed

lemma cl_nth_ok: "chain h pr xs None \<Longrightarrow> i < length xs \<Longrightarrow> clListNth (first_of xs None) (int i) h = Some (Some (fst (xs ! i)))"
proof (induction xs arbitrary: pr i)
  case (Cons x xs)
  obtain a d where x: "x = (a, d)" by (cases x)
  show ?case
  proof (cases i)
    case 0
    then show ?thesis using x by (subst clListNth.simps) simp
  next
    case (Suc j)
    then show ?thesis using Cons x by (subst clListNth.simps) auto
  qed
qed simp

lemma cl_position_ok:
  "chain h pr xs None \<Longrightarrow> distinct (map fst xs) \<Longrightarrow> i < length xs \<Longrightarrow> position_loop (first_of xs None) (Some (fst (xs ! i))) j h = Some (j + int i)"
proof (induction xs arbitrary: pr i j)
  case (Cons x xs)
  obtain a d where x: "x = (a, d)" by (cases x)
  show ?case
  proof (cases i)
    case 0
    then show ?thesis using x by (subst position_loop.simps) simp
  next
    case (Suc k)
    then have "fst (xs ! k) \<noteq> a" using Cons.prems x nth_mem [of k xs] by (metis (no_types, lifting) distinct.simps(2) fst_conv image_eqI length_Cons list.set_map list.simps(9) not_less_eq)
    then show ?thesis using Cons x Suc by (subst position_loop.simps) auto
  qed
qed simp

lemma cl_free_ok: "chain h pr xs None \<Longrightarrow> distinct (map fst xs) \<Longrightarrow> clListFree (first_of xs None) h = Some (\<lambda>a. if a \<in> fst ` set xs then None else h a)"
proof (induction xs arbitrary: pr h)
  case Nil
  then show ?case by (subst clListFree.simps) simp
next
  case (Cons x xs)
  obtain a d where x: "x = (a, d)" by (cases x)
  have "chain (vosFree a h) (Some a) xs None = chain h (Some a) xs None" using Cons.prems(2) x by (intro chain_frame) (auto simp: vosFree_def)
  then have "clListFree (first_of xs None) (vosFree a h) = Some (\<lambda>b. if b \<in> fst ` set xs then None else vosFree a h b)"
    using Cons x by (intro Cons.IH [of _ "Some a"]) auto
  then show ?case using Cons.prems(1) x by (subst clListFree.simps) (auto simp: vosFree_def fun_eq_iff)
qed

lemma cl_nth_data_ok: "is_list list xs h \<Longrightarrow> i < length xs \<Longrightarrow> clListNthData list (int i) h = Some (Some (snd (xs ! i)))"
proof -
  assume l: "is_list list xs h" and i: "i < length xs"
  have xs: "xs = take i xs @ xs ! i # drop (Suc i) xs" using i by (simp add: id_take_nth_drop)
  obtain a d where x: "xs ! i = (a, d)" by (cases "xs ! i")
  have "\<exists>n. h a = Some n \<and> cl_data n = d" using l unfolding is_list_def by (subst (asm) (2) xs) (auto simp: chain_append x)
  moreover have "list \<noteq> None" using l i by (cases xs) (auto simp: is_list_def)
  moreover have "clListNth list (int i) h = Some (Some a)" using cl_nth_ok [of h None xs i] l i x by (simp add: is_list_def)
  ultimately show ?thesis using x by (auto simp: clListNthData_def)
qed

lemma nth_past_end: "chain h pr xs None \<Longrightarrow> clListNth (first_of xs None) (int (length xs) + int k) h = Some None"
proof (induction xs arbitrary: pr)
  case Nil
  then show ?case by (subst clListNth.simps) simp
next
  case (Cons x xs)
  obtain a d where "x = (a, d)" by (cases x)
  then show ?case using Cons by (subst clListNth.simps) auto
qed

text \<open>The node past the end is null, and its data are read through that pointer.\<close>

lemma nth_data_past_end: "is_list list xs h \<Longrightarrow> xs \<noteq> [] \<Longrightarrow> clListNthData list (int (length xs) + int k) h = None"
  using nth_past_end [of h None xs k] by (cases xs) (auto simp: is_list_def clListNthData_def)

subsection \<open>Sequences of operations\<close>

datatype 'd list_cmd = Cl_insert 'd | Cl_append 'd | Cl_remove 'd

primrec list_step :: "('d store \<Rightarrow> nat option) \<Rightarrow> 'd list_cmd \<Rightarrow> nat option \<times> 'd store \<Rightarrow> (nat option \<times> 'd store) option" where
  "list_step vosAlloc (Cl_insert d) s = clListInsert vosAlloc (fst s) d (snd s)"
| "list_step vosAlloc (Cl_append d) s = clListAppend vosAlloc (fst s) d (snd s)"
| "list_step vosAlloc (Cl_remove d) s = clListRemove (fst s) d (snd s)"

primrec list_spec :: "'d list_cmd \<Rightarrow> 'd list \<Rightarrow> 'd list" where
  "list_spec (Cl_insert d) ds = d # ds"
| "list_spec (Cl_append d) ds = ds @ [d]"
| "list_spec (Cl_remove d) ds = remove1 d ds"

definition fresh_alloc :: "('d store \<Rightarrow> nat option) \<Rightarrow> bool" where
  "fresh_alloc vosAlloc \<longleftrightarrow> (\<forall>h. finite (dom h) \<longrightarrow> (\<exists>a. vosAlloc h = Some a \<and> a \<notin> dom h))"

text \<open>The store holds the list and nothing else.\<close>

definition holds :: "('d store \<Rightarrow> nat option) \<Rightarrow> nat option \<times> 'd store \<Rightarrow> 'd list \<Rightarrow> bool" where
  "holds vosAlloc s ds \<longleftrightarrow> fresh_alloc vosAlloc \<and> (\<exists>xs. is_list (fst s) xs (snd s) \<and> map snd xs = ds \<and> dom (snd s) = fst ` set xs)"

lemma list_step_ok:
  assumes "holds vosAlloc s ds"
  shows "\<exists>s'. list_step vosAlloc c s = Some s' \<and> holds vosAlloc s' (list_spec c ds)"
proof -
  obtain xs where xs: "is_list (fst s) xs (snd s)" "map snd xs = ds" "dom (snd s) = fst ` set xs" and fr: "fresh_alloc vosAlloc"
    using assms by (auto simp: holds_def)
  obtain a where new: "a \<notin> dom (snd s)" "vosAlloc (snd s) = Some a" using fr xs(3) unfolding fresh_alloc_def by (metis finite_imageI finite_set)
  show ?thesis
  proof (cases c)
    case (Cl_insert d)
    obtain h where h: "clListInsert vosAlloc (fst s) d (snd s) = Some (Some a, h)"
      "is_list (Some a) ((a, d) # xs) h" "dom h = insert a (dom (snd s))"
      using cl_insert_ok [where vosAlloc = vosAlloc, OF xs(1) new] by blast
    have "holds vosAlloc (Some a, h) (d # ds)"
      unfolding holds_def using h xs fr by (intro conjI exI [of _ "(a, d) # xs"]) auto
    then show ?thesis using h(1) Cl_insert by auto
  next
    case (Cl_append d)
    obtain h l where h: "clListAppend vosAlloc (fst s) d (snd s) = Some (l, h)"
      "is_list l (xs @ [(a, d)]) h" "dom h = insert a (dom (snd s))"
      using cl_append_ok [where vosAlloc = vosAlloc, OF xs(1) new] by blast
    have "holds vosAlloc (l, h) (ds @ [d])"
      unfolding holds_def using h xs fr by (intro conjI exI [of _ "xs @ [(a, d)]"]) auto
    then show ?thesis using h(1) Cl_append by auto
  next
    case (Cl_remove d)
    obtain l ys h where h: "clListRemove (fst s) d (snd s) = Some (l, h)" "is_list l ys h" "map snd ys = remove1 d (map snd xs)"
      "dom h - fst ` set ys = dom (snd s) - fst ` set xs" using cl_remove_ok [OF xs(1)] by blast
    have "fst ` set ys \<subseteq> dom h" using is_list_dom [OF h(2)] by auto
    then have "dom h = fst ` set ys" using h(4) xs(3) by auto
    then have "holds vosAlloc (l, h) (remove1 d ds)" unfolding holds_def using h xs fr by auto
    then show ?thesis using h(1) Cl_remove by auto
  qed
qed

interpretation linked: event_simulation "list_step vosAlloc" "holds vosAlloc" list_spec for vosAlloc
  by unfold_locales (rule list_step_ok)

text \<open>C9: The linked lists implement lists. Whatever is inserted at the head, appended at the tail and removed, in whatever
  order, beginning with the empty list and empty store: no operation reads a dangling pointer or runs for ever, the data are
  those of the abstract list, the length and every position read back right, the store holds the nodes of the
  list and no others (nothing leaks), and freeing the list empties the store.\<close>

theorem linked_list_refines_list:
  assumes "fresh_alloc vosAlloc"
  shows "\<exists>list h xs. run_events (list_step vosAlloc) cmds (None, Map.empty) = Some (list, h) \<and> is_list list xs h
    \<and> map snd xs = fold list_spec cmds [] \<and> dom h = fst ` set xs \<and> clListLen list h = Some (length (fold list_spec cmds []))
    \<and> (\<forall>i < length xs. clListNthData list (int i) h = Some (Some (fold list_spec cmds [] ! i))
         \<and> clListPosition list (Some (fst (xs ! i))) h = Some (int i))
    \<and> clListFree list h = Some Map.empty"
proof -
  have "holds vosAlloc (None, Map.empty) []" using assms by (auto simp: holds_def is_list_def)
  from linked.run_simulated [OF this, of cmds] obtain list h xs where r: "run_events (list_step vosAlloc) cmds (None, Map.empty) = Some (list, h)"
    "is_list list xs h" "map snd xs = fold list_spec cmds []" "dom h = fst ` set xs" by (auto simp: holds_def)
  have c: "list = first_of xs None" "chain h None xs None" "distinct (map fst xs)" using r(2) by (simp_all add: is_list_def)
  have "clListLen list h = Some (length (fold list_spec cmds []))" using cl_len_ok [OF c(2), of 0] c(1) r(3) [symmetric] by (simp add: clListLen_def)
  moreover have "clListNthData list (int i) h = Some (Some (fold list_spec cmds [] ! i)) \<and> clListPosition list (Some (fst (xs ! i))) h = Some (int i)"
    if "i < length xs" for i
    using cl_nth_data_ok [OF r(2) that] cl_position_ok [OF c(2,3) that, of 0] c(1) that by (simp add: r(3) [symmetric] clListPosition_def)
  moreover have "clListFree list h = Some Map.empty" using cl_free_ok [OF c(2,3)] c(1) r(4) by (auto simp: fun_eq_iff)
  ultimately show ?thesis using r by blast
qed

definition next_address :: "'d store \<Rightarrow> nat option" where
  "next_address h = Some (Suc (Max (insert 0 (dom h))))"

lemma next_address_fresh: "fresh_alloc next_address"
proof -
  have "Suc (Max (insert 0 A)) \<notin> A" if "finite A" for A :: "nat set"
    using that Max_ge [of "insert 0 A" "Suc (Max (insert 0 A))"] by (metis finite_insert insertI2 not_less_eq_eq order_refl)
  then show ?thesis by (simp add: fresh_alloc_def next_address_def)
qed

theorem linked_list_refines_list_witness:
  "\<exists>list h. run_events (list_step next_address) [Cl_append (1 :: nat), Cl_insert 2, Cl_append 3, Cl_remove 1] (None, Map.empty) = Some (list, h)
    \<and> clListLen list h = Some 2 \<and> clListNthData list 1 h = Some (Some 3)"
proof -
  let ?cs = "[Cl_append (1 :: nat), Cl_insert 2, Cl_append 3, Cl_remove 1]"
  have spec: "fold list_spec ?cs [] = [2, 3]" by simp
  obtain list h and xs :: "(nat \<times> nat) list" where r: "run_events (list_step next_address) ?cs (None, Map.empty) = Some (list, h)" "map snd xs = [2 :: nat, 3]"
    "clListLen list h = Some (length [2 :: nat, 3])" "\<forall>i < length xs. clListNthData list (int i) h = Some (Some ([2, 3] ! i))"
    using linked_list_refines_list [OF next_address_fresh, of ?cs] unfolding spec by metis
  have "length xs = 2" using arg_cong [OF r(2), of length] by simp
  then have "clListNthData list (int 1) h = Some (Some 3)" using r(4) by (metis One_nat_def lessI nth_Cons_0 nth_Cons_Suc numeral_2_eq_2)
  moreover have "clListLen list h = Some 2" using r(3) by simp
  ultimately show ?thesis using r(1) by auto
qed

subsection \<open>The sort\<close>

text \<open>The two loops on the data alone.\<close>

fun bubble_list :: "('d \<Rightarrow> 'd \<Rightarrow> int) \<Rightarrow> nat \<Rightarrow> 'd list \<Rightarrow> 'd list" where
  "bubble_list f (Suc k) (x # y # ds) = (if 0 < f x y then y # bubble_list f k (x # ds) else x # bubble_list f k (y # ds))"
| "bubble_list f _ ds = ds"

fun passes_list :: "('d \<Rightarrow> 'd \<Rightarrow> int) \<Rightarrow> nat \<Rightarrow> 'd list \<Rightarrow> 'd list" where
  "passes_list f 0 ds = ds"
| "passes_list f (Suc i) ds = passes_list f i (bubble_list f i ds)"

lemma length_bubble_list [simp]: "length (bubble_list f k ds) = length ds"
  by (induction f k ds rule: bubble_list.induct) auto

lemma bubble_ok:
  assumes "chain h pr xs nx" "distinct (map fst xs)" "k < length xs"
  shows "\<exists>h'. bubble f k (fst (hd xs)) h = Some h' \<and> chain h' pr (zip (map fst xs) (bubble_list f k (map snd xs))) nx
    \<and> (\<forall>a. a \<notin> fst ` set xs \<longrightarrow> h' a = h a)"
  using assms
proof (induction k arbitrary: xs pr h)
  case 0
  then show ?case by (simp add: zip_map_fst_snd)
next
  case (Suc k)
  obtain a x b y ys where xs: "xs = (a, x) # (b, y) # ys" using Suc.prems(3) by (cases xs rule: remdups_adj.cases) auto
  let ?lo = "if 0 < f x y then y else x" and ?hi = "if 0 < f x y then x else y"
  let ?h = "h(b \<mapsto> \<lparr> cl_data = ?hi, cl_next = first_of ys nx, cl_prev = Some a \<rparr>, a \<mapsto> \<lparr> cl_data = ?lo, cl_next = Some b, cl_prev = pr \<rparr>)"
  have ds: "a \<noteq> b" "a \<notin> fst ` set ys" "b \<notin> fst ` set ys" "distinct (map fst ys)" using Suc.prems(2) xs by auto
  have step: "bubble f (Suc k) a h = bubble f k b ?h" using Suc.prems(1) xs ds(1) by (auto simp: set_node_def fun_upd_idem)
  have "chain ?h (Some b) ys nx = chain h (Some b) ys nx" using ds by (intro chain_frame) auto
  then have "chain ?h (Some a) ((b, ?hi) # ys) nx" using Suc.prems(1) xs ds(1) by simp
  moreover have "distinct (map fst ((b, ?hi) # ys))" "k < length ((b, ?hi) # ys)" using ds(3,4) Suc.prems(3) xs by simp_all
  ultimately obtain h' where h': "bubble f k b ?h = Some h'" "chain h' (Some a) (zip (b # map fst ys) (bubble_list f k (?hi # map snd ys))) nx"
    "\<forall>c. c \<notin> insert b (fst ` set ys) \<longrightarrow> h' c = ?h c" using Suc.IH [of ?h "Some a" "(b, ?hi) # ys"] by (simp only: list.sel list.map fst_conv snd_conv list.set image_insert) blast
  have bl: "bubble_list f (Suc k) (map snd xs) = ?lo # bubble_list f k (?hi # map snd ys)" using xs by simp
  have "h' a = ?h a" using h'(3) ds by simp
  moreover have "first_of (zip (b # map fst ys) (bubble_list f k (?hi # map snd ys))) nx = Some b"
    by (cases "bubble_list f k (?hi # map snd ys)") (use length_bubble_list [of f k "?hi # map snd ys"] in auto)
  ultimately have "chain h' pr (zip (map fst xs) (bubble_list f (Suc k) (map snd xs))) nx"
    unfolding bl using h'(2) xs by (simp del: bubble_list.simps)
  moreover have "\<forall>c. c \<notin> fst ` set xs \<longrightarrow> h' c = h c" using h'(3) xs by auto
  ultimately show ?case using step h'(1) xs by auto
qed

lemma passes_ok:
  assumes "chain h pr xs nx" "distinct (map fst xs)" "i \<le> length xs" "xs \<noteq> []"
  shows "\<exists>h'. bubble_passes f i (fst (hd xs)) h = Some h' \<and> chain h' pr (zip (map fst xs) (passes_list f i (map snd xs))) nx
    \<and> (\<forall>a. a \<notin> fst ` set xs \<longrightarrow> h' a = h a)"
  using assms
proof (induction i arbitrary: xs h)
  case 0
  then show ?case by (simp add: zip_map_fst_snd)
next
  case (Suc i)
  let ?ys = "zip (map fst xs) (bubble_list f i (map snd xs))"
  obtain h1 where h1: "bubble f i (fst (hd xs)) h = Some h1" "chain h1 pr ?ys nx" "\<forall>a. a \<notin> fst ` set xs \<longrightarrow> h1 a = h a"
    using bubble_ok [OF Suc.prems(1,2), of i f] Suc.prems(3) by auto
  have ys: "map fst ?ys = map fst xs" "map snd ?ys = bubble_list f i (map snd xs)" by simp_all
  have "?ys \<noteq> []" using ys(1) Suc.prems(4) by (metis Nil_is_map_conv)
  moreover have "fst (hd ?ys) = fst (hd xs)" using ys(1) Suc.prems(4) calculation by (metis hd_map)
  moreover have "fst ` set ?ys = fst ` set xs" using ys(1) by (metis list.set_map)
  ultimately obtain h' where "bubble_passes f i (fst (hd xs)) h1 = Some h'"
    "chain h' pr (zip (map fst xs) (passes_list f i (bubble_list f i (map snd xs)))) nx" "\<forall>a. a \<notin> fst ` set xs \<longrightarrow> h' a = h1 a"
    using Suc.IH [OF h1(2)] Suc.prems(2,3) ys by (metis Suc_leD length_map)
  then show ?case using h1 by auto
qed

lemma bubble_max:
  assumes "\<forall>x y. 0 < f x y \<longleftrightarrow> (key y :: 'k :: linorder) < key x" "k < length ds"
  shows "\<exists>as m. length as = k \<and> bubble_list f k ds = as @ m # drop (Suc k) ds \<and> mset (as @ [m]) = mset (take (Suc k) ds) \<and> (\<forall>a\<in>set as. key a \<le> key m)"
  using assms(2)
proof (induction k arbitrary: ds)
  case 0
  then show ?case by (cases ds) auto
next
  case (Suc k)
  obtain x y ys where ds: "ds = x # y # ys" using Suc.prems by (cases ds rule: remdups_adj.cases) auto
  let ?lo = "if 0 < f x y then y else x" and ?hi = "if 0 < f x y then x else y"
  obtain as m where m: "length as = k" "bubble_list f k (?hi # ys) = as @ m # drop k ys" "mset (as @ [m]) = mset (take (Suc k) (?hi # ys))"
    "\<forall>a\<in>set as. key a \<le> key m" using Suc.IH [of "?hi # ys"] Suc.prems ds by auto
  have "?hi \<in> set (as @ [m])" using arg_cong [OF m(3), of set_mset] by auto
  then have "key ?hi \<le> key m" using m(4) by auto
  moreover have "key ?lo \<le> key ?hi" using assms(1) by (auto simp: not_less)
  ultimately have "\<forall>a\<in>set (?lo # as). key a \<le> key m" using m(4) by auto
  moreover have "mset ((?lo # as) @ [m]) = mset (take (Suc (Suc k)) ds)" using m(3) ds by auto
  moreover have "bubble_list f (Suc k) ds = (?lo # as) @ m # drop (Suc (Suc k)) ds" using m(2) ds by auto
  ultimately show ?case using m(1) by (intro exI [of _ "?lo # as"] exI [of _ m]) simp
qed

lemma passes_sort:
  assumes "\<forall>x y. 0 < f x y \<longleftrightarrow> (key y :: 'k :: linorder) < key x" "i \<le> length ds" "sorted (map key (drop i ds))"
    "\<forall>x\<in>set (take i ds). \<forall>y\<in>set (drop i ds). key x \<le> key y"
  shows "sorted (map key (passes_list f i ds)) \<and> mset (passes_list f i ds) = mset ds"
  using assms(2-4)
proof (induction i arbitrary: ds)
  case (Suc i)
  obtain as m where m: "length as = i" "bubble_list f i ds = as @ m # drop (Suc i) ds" "mset (as @ [m]) = mset (take (Suc i) ds)"
    "\<forall>a\<in>set as. key a \<le> key m" using bubble_max [OF assms(1), of i ds] Suc.prems(1) by auto
  let ?es = "bubble_list f i ds"
  have s: "set (take (Suc i) ds) = insert m (set as)" using arg_cong [OF m(3), of set_mset] by simp
  have "sorted (map key (drop i ?es))" using m(1,2) Suc.prems(2,3) s by simp
  moreover have "\<forall>x\<in>set (take i ?es). \<forall>y\<in>set (drop i ?es). key x \<le> key y" using m(1,2,4) Suc.prems(3) s by simp
  ultimately have "sorted (map key (passes_list f i ?es)) \<and> mset (passes_list f i ?es) = mset ?es" using Suc.IH [of ?es] Suc.prems(1) by simp
  moreover have "mset ds = mset (take (Suc i) ds) + mset (drop (Suc i) ds)" by (metis append_take_drop_id mset_append)
  then have "mset ?es = mset ds" using m(2,3) by simp
  ultimately show ?case by simp
qed simp

text \<open>C25: The sort sorts. With a comparison that orders the data by a key, sorting a linked list ends without a fault, leaves
  every node at its address and linked as it was and every other node of the store alone, and the data are a permutation of
  those before, in ascending order of the key.\<close>

theorem list_sort_sorts:
  assumes "is_list list xs h" "\<forall>x y. 0 < f x y \<longleftrightarrow> (key y :: 'k :: linorder) < key x"
  shows "\<exists>h' ys. clListBubbleSort list (Some f) h = Some h' \<and> is_list list ys h' \<and> map fst ys = map fst xs \<and> mset (map snd ys) = mset (map snd xs)
    \<and> sorted (map key (map snd ys)) \<and> (\<forall>a. a \<notin> fst ` set xs \<longrightarrow> h' a = h a)"
proof -
  have c: "list = first_of xs None" "chain h None xs None" "distinct (map fst xs)" using assms(1) by (simp_all add: is_list_def)
  have len: "clListLen list h = Some (length xs)" using cl_len_ok [OF c(2), of 0] c(1) by (simp add: clListLen_def)
  show ?thesis
  proof (cases "length xs < 2")
    case True
    then have "clListBubbleSort list (Some f) h = Some h" using len by (auto simp: clListBubbleSort_def split: option.splits)
    moreover have "sorted (map key (map snd xs))" using True by (cases xs rule: remdups_adj.cases) auto
    ultimately show ?thesis using assms(1) by blast
  next
    case False
    then have ne: "xs \<noteq> []" by auto
    let ?ds = "passes_list f (length xs) (map snd xs)"
    obtain h' where h': "bubble_passes f (length xs) (fst (hd xs)) h = Some h'" "chain h' None (zip (map fst xs) ?ds) None"
      "\<forall>a. a \<notin> fst ` set xs \<longrightarrow> h' a = h a" using passes_ok [OF c(2,3) order_refl ne] by blast
    have s: "sorted (map key ?ds)" "mset ?ds = mset (map snd xs)" using passes_sort [OF assms(2), of "length xs" "map snd xs"] by simp_all
    then have "length ?ds = length xs" by (metis length_map mset_eq_length)
    then have ys: "map fst (zip (map fst xs) ?ds) = map fst xs" "map snd (zip (map fst xs) ?ds) = ?ds" by simp_all
    have l: "list = Some (fst (hd xs))" using c(1) ne by (cases xs) (auto simp: first_of_def)
    have "list = first_of (zip (map fst xs) ?ds) None"
      using l ne \<open>length ?ds = length xs\<close> by (cases xs; cases ?ds) (auto simp: first_of_def)
    then have "is_list list (zip (map fst xs) ?ds) h'" using h'(2) c(3) ys by (simp add: is_list_def)
    moreover have "clListBubbleSort list (Some f) h = Some h'" using len l False h'(1) by (simp add: clListBubbleSort_def)
    ultimately show ?thesis using h'(3) s ys by metis
  qed
qed

theorem list_sort_sorts_witness:
  "\<exists>h' ys. clListBubbleSort (Some 7) (Some (\<lambda>x y. x - y)) [7 \<mapsto> \<lparr> cl_data = 5, cl_next = Some 3, cl_prev = None \<rparr>,
     3 \<mapsto> \<lparr> cl_data = 2, cl_next = None, cl_prev = Some 7 \<rparr>] = Some h' \<and> is_list (Some 7) ys h' \<and> map fst ys = [7, 3]
   \<and> sorted (map (id :: int \<Rightarrow> int) (map snd ys))"
proof -
  let ?h = "[7 \<mapsto> \<lparr> cl_data = 5 :: int, cl_next = Some 3, cl_prev = None \<rparr>, 3 \<mapsto> \<lparr> cl_data = 2, cl_next = None, cl_prev = Some 7 \<rparr>]"
  have "is_list (Some 7) [(7, 5), (3, 2)] ?h" by (simp add: is_list_def)
  moreover have "\<forall>x y :: int. 0 < x - y \<longleftrightarrow> id y < id x" by auto
  moreover have "map fst [(7 :: nat, 5 :: int), (3, 2)] = [7, 3]" by simp
  ultimately show ?thesis using list_sort_sorts [of "Some 7" "[(7, 5), (3, 2)]" ?h "\<lambda>x y. x - y" id] by metis
qed

end
